(* ===== verification/Prelude.thy ===== *)
theory Prelude
  imports Main "HOL-Library.AList"
begin

text \<open>
  Shared foundations of the development.

  \<^item> \<open>bindE\<close> sequences operations that may raise: a Python exception is the left
    side of a sum, and an operation that raised does not run what follows it.
  \<^item> SQL tables are lists of rows in rowid order. \<open>sql_update\<close>, \<open>sql_delete\<close>,
    \<open>sql_count\<close>, \<open>order_by\<close> are the statements the storage layer issues; a primary
    key is a function from rows to keys, and \<open>insert_row\<close> refuses a duplicate key
    the way SQLite does (\<open>None\<close> stands for the IntegrityError).
  \<^item> the collections \<open>row_simps\<close> and \<open>key_intros\<close> gather the table facts that the
    component proofs share.
\<close>

named_theorems row_simps "lookups and memberships in updated tables"
named_theorems key_intros "preservation of primary keys by table statements"

section \<open>Operations that may raise\<close>

definition bindE :: "'e + 'a \<Rightarrow> ('a \<Rightarrow> 'e + 'b) \<Rightarrow> 'e + 'b" where
  "bindE r f = (case r of Inl e \<Rightarrow> Inl e | Inr a \<Rightarrow> f a)"

lemma bindE_simps [simp]:
  "bindE (Inl e) f = Inl e"
  "bindE (Inr a) f = f a"
  by (simp_all add: bindE_def)

lemma bindE_eq_Inr [simp]: "bindE r f = Inr b \<longleftrightarrow> (\<exists>a. r = Inr a \<and> f a = Inr b)"
  by (cases r) simp_all

lemma case_prod_Inr:
  "(case p of (a, b) \<Rightarrow> f a b) = Inr r \<longleftrightarrow> (\<exists>a b. p = (a, b) \<and> f a b = Inr r)"
  "(case q of (a, b) \<Rightarrow> g a b) x = Inr r \<longleftrightarrow> (\<exists>a b. q = (a, b) \<and> g a b x = Inr r)"
  by (cases p, simp) (cases q, simp)

lemma case_option_Inr:
  "(case z of None \<Rightarrow> c | Some y \<Rightarrow> f y) = Inr r \<longleftrightarrow>
    z = None \<and> c = Inr r \<or> (\<exists>y. z = Some y \<and> f y = Inr r)"
  by (cases z) simp_all

lemma if_Inr: "(if P then c else d) = Inr r \<longleftrightarrow> P \<and> c = Inr r \<or> \<not> P \<and> d = Inr r"
  by simp

lemmas Inr_splits = case_prod_Inr case_option_Inr if_Inr

lemma case_prod_Pair: "(case p of (a, b) \<Rightarrow> f a b) = (r, s) \<longleftrightarrow> (\<exists>a b. p = (a, b) \<and> f a b = (r, s))"
  by (cases p) simp

lemma bindE_eq_Inl: "bindE r f = Inl e \<longleftrightarrow> r = Inl e \<or> (\<exists>a. r = Inr a \<and> f a = Inl e)"
  by (cases r) simp_all

lemma bindE_cong [fundef_cong]:
  "r = r' \<Longrightarrow> (\<And>a. r' = Inr a \<Longrightarrow> f a = g a) \<Longrightarrow> bindE r f = bindE r' g"
  by (cases r') simp_all

definition of_option :: "'e \<Rightarrow> 'a option \<Rightarrow> 'e + 'a" where
  "of_option e x = (case x of None \<Rightarrow> Inl e | Some a \<Rightarrow> Inr a)"

lemma of_option_simps [simp]:
  "of_option e None = Inl e"
  "of_option e (Some a) = Inr a"
  by (simp_all add: of_option_def)

lemma of_option_eq_Inr [simp]: "of_option e x = Inr a \<longleftrightarrow> x = Some a"
  by (cases x) simp_all

lemma of_option_eq_Inl: "of_option e x = Inl e' \<longleftrightarrow> x = None \<and> e = e'"
  by (cases x) auto

section \<open>Tables and statements\<close>

definition sql_update :: "('r \<Rightarrow> bool) \<Rightarrow> ('r \<Rightarrow> 'r) \<Rightarrow> 'r list \<Rightarrow> 'r list" where
  "sql_update P f rows = map (\<lambda>r. if P r then f r else r) rows"

definition sql_delete :: "('r \<Rightarrow> bool) \<Rightarrow> 'r list \<Rightarrow> 'r list" where
  "sql_delete P rows = filter (\<lambda>r. \<not> P r) rows"

definition sql_count :: "('r \<Rightarrow> bool) \<Rightarrow> 'r list \<Rightarrow> nat" where
  "sql_count P rows = length (filter P rows)"

definition sql_max :: "('r \<Rightarrow> nat) \<Rightarrow> 'r list \<Rightarrow> nat option" where
  "sql_max f rows = (if rows = [] then None else Some (Max (set (map f rows))))"

definition order_by :: "('r \<Rightarrow> 'k::linorder) \<Rightarrow> 'r list \<Rightarrow> 'r list" where
  "order_by key rows = sort_key key rows"

definition order_by_desc :: "('r \<Rightarrow> 'k::linorder) \<Rightarrow> 'r list \<Rightarrow> 'r list" where
  "order_by_desc key rows = rev (sort_key key (rev rows))"

definition fetchone :: "'r list \<Rightarrow> 'r option" where
  "fetchone rows = (case rows of [] \<Rightarrow> None | r # _ \<Rightarrow> Some r)"

definition lookup_row :: "('r \<Rightarrow> 'k) \<Rightarrow> 'k \<Rightarrow> 'r list \<Rightarrow> 'r option" where
  "lookup_row key k rows = find (\<lambda>r. key r = k) rows"

definition insert_row :: "('r \<Rightarrow> 'k) \<Rightarrow> 'r \<Rightarrow> 'r list \<Rightarrow> 'r list option" where
  "insert_row key r rows = (if key r \<in> set (map key rows) then None else Some (rows @ [r]))"

definition unique_key :: "('r \<Rightarrow> 'k) \<Rightarrow> 'r list \<Rightarrow> bool" where
  "unique_key key rows = distinct (map key rows)"

lemma fetchone_simps [simp]:
  "fetchone [] = None"
  "fetchone (r # rows) = Some r"
  by (simp_all add: fetchone_def)

lemma fetchone_in: "fetchone rows = Some r \<Longrightarrow> r \<in> set rows"
  by (cases rows) auto

lemma fetchone_None [simp]: "fetchone rows = None \<longleftrightarrow> rows = []"
  by (cases rows) auto

lemma set_order_by [simp]:
  "set (order_by key rows) = set rows"
  "set (order_by_desc key rows) = set rows"
  by (simp_all add: order_by_def order_by_desc_def)

lemma order_by_empty [simp]:
  "order_by key rows = [] \<longleftrightarrow> rows = []"
  "order_by_desc key rows = [] \<longleftrightarrow> rows = []"
  by (metis set_order_by(1) set_empty, metis set_order_by(2) set_empty)

lemma length_order_by [simp]:
  "length (order_by key rows) = length rows"
  "length (order_by_desc key rows) = length rows"
  by (simp_all add: order_by_def order_by_desc_def)

lemma distinct_map_order_by [simp]:
  "distinct (map f (order_by key rows)) = distinct (map f rows)"
  unfolding order_by_def distinct_map by simp

lemma sorted_order_by: "sorted (map key (order_by key rows))"
  by (simp add: order_by_def)

lemma set_sql_update: "set (sql_update P f rows) = (\<lambda>r. if P r then f r else r) ` set rows"
  by (simp add: sql_update_def)

lemma in_sql_update [row_simps]:
  "r \<in> set (sql_update P f rows) \<longleftrightarrow> (\<exists>r0 \<in> set rows. r = (if P r0 then f r0 else r0))"
  by (auto simp: sql_update_def)

lemma sql_updateE:
  assumes "x \<in> set (sql_update P f rows)"
  obtains (changed) r where "r \<in> set rows" "P r" "x = f r" | (kept) "x \<in> set rows" "\<not> P x"
  using assms by (auto simp: sql_update_def split: if_splits)

lemma set_sql_delete [row_simps]: "set (sql_delete P rows) = {r \<in> set rows. \<not> P r}"
  by (simp add: sql_delete_def)

lemma sql_update_simps [simp]:
  "sql_update P f [] = []"
  "sql_update P f (r # rows) = (if P r then f r else r) # sql_update P f rows"
  by (simp_all add: sql_update_def)

lemma sql_update_append [simp]:
  "sql_update P f (xs @ ys) = sql_update P f xs @ sql_update P f ys"
  by (simp add: sql_update_def)

lemma length_sql_update [simp]: "length (sql_update P f rows) = length rows"
  by (simp add: sql_update_def)

lemma map_sql_update [simp]:
  "(\<And>r. P r \<Longrightarrow> g (f r) = g r) \<Longrightarrow> map g (sql_update P f rows) = map g rows"
  by (simp add: sql_update_def)

lemma sql_update_none: "(\<And>r. r \<in> set rows \<Longrightarrow> \<not> P r) \<Longrightarrow> sql_update P f rows = rows"
  by (induction rows) auto

lemma sql_count_simps [simp]:
  "sql_count P [] = 0"
  "sql_count P (r # rows) = (if P r then 1 else 0) + sql_count P rows"
  by (simp_all add: sql_count_def)

lemma sql_count_append [simp]: "sql_count P (xs @ ys) = sql_count P xs + sql_count P ys"
  by (simp add: sql_count_def)

lemma sql_count_0 [simp]: "sql_count P rows = 0 \<longleftrightarrow> (\<forall>r \<in> set rows. \<not> P r)"
  by (auto simp: sql_count_def filter_empty_conv)

lemma sql_count_mono: "(\<And>r. r \<in> set rows \<Longrightarrow> P r \<Longrightarrow> Q r) \<Longrightarrow> sql_count P rows \<le> sql_count Q rows"
  by (induction rows) auto

lemma sql_count_update_le:
  "(\<And>r. r \<in> set rows \<Longrightarrow> P r \<Longrightarrow> Q (f r) \<Longrightarrow> Q r) \<Longrightarrow>
   sql_count Q (sql_update P f rows) \<le> sql_count Q rows"
  by (induction rows) auto

lemma sql_count_update_eq:
  "(\<And>r. r \<in> set rows \<Longrightarrow> P r \<Longrightarrow> Q (f r) \<longleftrightarrow> Q r) \<Longrightarrow>
   sql_count Q (sql_update P f rows) = sql_count Q rows"
  by (induction rows) auto

lemma sql_count_delete_le: "sql_count Q (sql_delete P rows) \<le> sql_count Q rows"
  by (induction rows) (auto simp: sql_delete_def)

section \<open>Primary keys\<close>

lemma lookup_row_Some:
  "lookup_row key k rows = Some r \<Longrightarrow> r \<in> set rows \<and> key r = k"
  by (auto simp: lookup_row_def find_Some_iff)

lemma lookup_row_None: "lookup_row key k rows = None \<longleftrightarrow> k \<notin> set (map key rows)"
  by (auto simp: lookup_row_def find_None_iff)

lemma lookup_row_simps [simp]:
  "lookup_row key k [] = None"
  "lookup_row key k (r # rows) = (if key r = k then Some r else lookup_row key k rows)"
  by (simp_all add: lookup_row_def)

lemma lookup_row_append:
  "lookup_row key k (xs @ ys) =
    (case lookup_row key k xs of None \<Rightarrow> lookup_row key k ys | Some r \<Rightarrow> Some r)"
  by (induction xs) auto

lemma lookup_row_unique:
  "unique_key key rows \<Longrightarrow> r \<in> set rows \<Longrightarrow> lookup_row key (key r) rows = Some r"
  by (induction rows) (auto simp: unique_key_def)

lemma unique_key_eq:
  "unique_key key rows \<Longrightarrow> r \<in> set rows \<Longrightarrow> r' \<in> set rows \<Longrightarrow> key r = key r' \<Longrightarrow> r = r'"
  by (metis lookup_row_unique option.inject)

lemma lookup_row_update [row_simps]:
  assumes "\<And>r. key (f r) = key r"
  shows "lookup_row key k (sql_update P f rows) =
    map_option (\<lambda>r. if P r then f r else r) (lookup_row key k rows)"
  using assms by (induction rows) auto

lemma unique_key_Nil [key_intros, simp]: "unique_key key []"
  by (simp add: unique_key_def)

lemma unique_key_update [key_intros]:
  "unique_key key rows \<Longrightarrow> (\<And>r. P r \<Longrightarrow> key (f r) = key r) \<Longrightarrow> unique_key key (sql_update P f rows)"
  by (simp add: unique_key_def)

lemma unique_key_delete [key_intros]: "unique_key key rows \<Longrightarrow> unique_key key (sql_delete P rows)"
  by (auto simp: unique_key_def sql_delete_def distinct_map inj_on_def)

lemma insert_row_Some [simp]:
  "insert_row key r rows = Some rows' \<longleftrightarrow> key r \<notin> set (map key rows) \<and> rows' = rows @ [r]"
  by (auto simp: insert_row_def)

lemma insert_row_None: "insert_row key r rows = None \<longleftrightarrow> key r \<in> set (map key rows)"
  by (simp add: insert_row_def)

lemma unique_key_snoc [key_intros]:
  "unique_key key rows \<Longrightarrow> key r \<notin> set (map key rows) \<Longrightarrow> unique_key key (rows @ [r])"
  by (simp add: unique_key_def)

lemma sql_count_unique_le_1:
  assumes "unique_key key rows"
  shows "sql_count (\<lambda>r. key r = k) rows \<le> 1"
  using assms
proof (induction rows)
  case (Cons a rows)
  then have "key a = k \<Longrightarrow> sql_count (\<lambda>r. key r = k) rows = 0"
    by (simp add: unique_key_def) (metis imageI)
  with Cons show ?case by (auto simp: unique_key_def simp del: sql_count_0)
qed simp

lemma sql_max_None [simp]: "sql_max f rows = None \<longleftrightarrow> rows = []"
  by (simp add: sql_max_def)

lemma sql_max_ge: "sql_max f rows = Some m \<Longrightarrow> r \<in> set rows \<Longrightarrow> f r \<le> m"
  by (auto simp: sql_max_def split: if_splits)

lemma sql_max_attained: "sql_max f rows = Some m \<Longrightarrow> \<exists>r \<in> set rows. f r = m"
proof -
  assume "sql_max f rows = Some m"
  then have "rows \<noteq> []" and m: "m = Max (set (map f rows))"
    by (auto simp: sql_max_def split: if_splits)
  then have "m \<in> set (map f rows)" using Max_in [of "set (map f rows)"] by simp
  then show ?thesis by auto
qed

section \<open>Attributes that are distinct among some of the rows\<close>

text \<open>\<open>distinct_among Q p rows\<close>: no two rows that satisfy \<open>Q\<close> agree in \<open>p\<close>.\<close>

definition distinct_among :: "('r \<Rightarrow> bool) \<Rightarrow> ('r \<Rightarrow> 'p) \<Rightarrow> 'r list \<Rightarrow> bool" where
  "distinct_among Q p rows \<longleftrightarrow> distinct (map p (filter Q rows))"

lemma distinct_among_Nil [simp]: "distinct_among Q p []"
  by (simp add: distinct_among_def)

lemma distinct_among_Cons [simp]:
  "distinct_among Q p (r # rows) \<longleftrightarrow>
    distinct_among Q p rows \<and> (Q r \<longrightarrow> (\<forall>r' \<in> set rows. Q r' \<longrightarrow> p r' \<noteq> p r))"
  by (auto simp: distinct_among_def image_iff)

lemma distinct_among_snoc [simp]:
  "distinct_among Q p (rows @ [r]) \<longleftrightarrow>
    distinct_among Q p rows \<and> (Q r \<longrightarrow> (\<forall>r' \<in> set rows. Q r' \<longrightarrow> p r' \<noteq> p r))"
  by (auto simp: distinct_among_def image_iff)

lemma distinct_among_update:
  assumes "distinct_among Q p rows" and "\<And>r. p (f r) = p r"
    and "\<And>r. r \<in> set rows \<Longrightarrow> P r \<Longrightarrow> Q (f r) \<Longrightarrow> Q r"
  shows "distinct_among Q p (sql_update P f rows)"
  using assms
proof (induction rows)
  case (Cons r rows)
  have "Q r0 \<and> p r' = p r0 \<or> \<not> Q r'" if "r' = (if P r0 then f r0 else r0)" "r0 \<in> set rows" for r' r0
    using that Cons.prems(2,3) by auto
  with Cons show ?case by (fastforce simp: in_sql_update)
qed simp

lemma distinct_among_delete: "distinct_among Q p rows \<Longrightarrow> distinct_among Q p (sql_delete P rows)"
  by (induction rows) (auto simp: sql_delete_def)

lemma distinct_among_eq:
  "distinct_among Q p rows \<Longrightarrow> r \<in> set rows \<Longrightarrow> r' \<in> set rows \<Longrightarrow> Q r \<Longrightarrow> Q r' \<Longrightarrow> p r = p r'
   \<Longrightarrow> r = r'"
  by (induction rows) auto

lemma lookup_row_delete:
  "lookup_row key k (sql_delete (\<lambda>r. key r = k') rows) = (if k = k' then None else lookup_row key k rows)"
  by (induction rows) (auto simp: sql_delete_def)

end
