(* ===== verification/Py_Json.thy ===== *)
theory Py_Json
  imports Prelude Complex_Main
begin

text \<open>
  Python values that are stored in JSON columns or sent in event payloads.

  A \<open>dict\<close> is an association list without duplicate keys, because Python
  dictionaries keep insertion order; \<open>AList.update\<close> overwrites a key in place and
  appends a new one, as Python's assignment does. The columns written with
  \<open>_dumps_json\<close> and read with \<open>_loads_json\<close> hold the dictionary itself: the
  standard library's encoder and decoder are inverse to each other on these values. A
  float is the rational number it denotes.
\<close>

datatype json =
    JNull
  | JBool bool
  | JInt int
  | JFloat rat
  | JStr string
  | JList "json list"
  | JObj "(string \<times> json) list"

type_synonym dict = "(string \<times> json) list"

fun truthy :: "json \<Rightarrow> bool" where
  "truthy JNull = False"
| "truthy (JBool b) = b"
| "truthy (JInt i) = (i \<noteq> 0)"
| "truthy (JFloat x) = (x \<noteq> 0)"
| "truthy (JStr s) = (s \<noteq> [])"
| "truthy (JList xs) = (xs \<noteq> [])"
| "truthy (JObj d) = (d \<noteq> [])"

text \<open>\<open>d.get(k)\<close>, which is \<open>None\<close> for a missing key.\<close>

definition dget :: "dict \<Rightarrow> string \<Rightarrow> json" where
  "dget d k = (case map_of d k of None \<Rightarrow> JNull | Some v \<Rightarrow> v)"

text \<open>\<open>d.get(k, default)\<close>.\<close>

definition dfield :: "dict \<Rightarrow> string \<Rightarrow> json \<Rightarrow> json" where
  "dfield d k dflt = (case map_of d k of None \<Rightarrow> dflt | Some v \<Rightarrow> v)"

definition dhas :: "dict \<Rightarrow> string \<Rightarrow> bool" where
  "dhas d k \<longleftrightarrow> k \<in> set (map fst d)"

definition dput :: "string \<Rightarrow> json \<Rightarrow> dict \<Rightarrow> dict" where
  "dput k v d = AList.update k v d"

text \<open>\<open>{**a, **b}\<close> and \<open>a.update(b)\<close>.\<close>

definition dmerge :: "dict \<Rightarrow> dict \<Rightarrow> dict" where
  "dmerge a b = fold (\<lambda>(k, v). dput k v) b a"

definition dsetdefault :: "string \<Rightarrow> json \<Rightarrow> dict \<Rightarrow> dict" where
  "dsetdefault k v d = (if dhas d k then d else dput k v d)"

text \<open>\<open>if x is not None: d[k] = x\<close>.\<close>

definition dput_some :: "string \<Rightarrow> json option \<Rightarrow> dict \<Rightarrow> dict" where
  "dput_some k x d = (case x of None \<Rightarrow> d | Some v \<Rightarrow> dput k v d)"

text \<open>\<open>x or default\<close> on a value read from a dictionary.\<close>

definition jor :: "json \<Rightarrow> json \<Rightarrow> json" where
  "jor x d = (if truthy x then x else d)"

definition jopt :: "('a \<Rightarrow> json) \<Rightarrow> 'a option \<Rightarrow> json" where
  "jopt f x = (case x of None \<Rightarrow> JNull | Some a \<Rightarrow> f a)"

definition jnat :: "nat \<Rightarrow> json" where
  "jnat n = JInt (int n)"

lemma map_of_dput [simp]: "map_of (dput k v d) = (map_of d)(k \<mapsto> v)"
  by (simp add: dput_def update_conv')

lemma dhas_dput [simp]: "dhas (dput k v d) k' \<longleftrightarrow> k = k' \<or> dhas d k'"
  by (auto simp: dhas_def dput_def dom_update)

lemma dget_dput [simp]: "dget (dput k v d) k' = (if k = k' then v else dget d k')"
  by (simp add: dget_def)

lemma dget_simps [simp]:
  "dget [] k = JNull"
  "dget ((k', v) # d) k = (if k' = k then v else dget d k)"
  by (simp_all add: dget_def)

lemma dhas_simps [simp]:
  "\<not> dhas [] k"
  "dhas ((k', v) # d) k \<longleftrightarrow> k' = k \<or> dhas d k"
  by (auto simp: dhas_def)

lemma dget_dput_some [simp]:
  "dget (dput_some k x d) k' = (if k = k' then (case x of None \<Rightarrow> dget d k | Some v \<Rightarrow> v) else dget d k')"
  by (simp add: dput_some_def split: option.splits)

lemma dget_setdefault [simp]:
  "dget (dsetdefault k v d) k' = (if k = k' \<and> \<not> dhas d k then v else dget d k')"
  by (simp add: dsetdefault_def)

lemma dmerge_simps [simp]:
  "dmerge a [] = a"
  "dmerge a ((k, v) # b) = dmerge (dput k v a) b"
  by (simp_all add: dmerge_def)

text \<open>The right dictionary wins, and the keys only the left one has are kept.\<close>

lemma map_of_dmerge:
  "distinct (map fst b) \<Longrightarrow> map_of (dmerge a b) = map_of a ++ map_of b"
proof (induction b arbitrary: a)
  case (Cons p b)
  obtain k v where p: "p = (k, v)" by (cases p)
  with Cons.prems have "map_of b k = None" by (simp add: map_of_eq_None_iff)
  with Cons p show ?case by (auto simp: fun_eq_iff map_add_def split: option.splits)
qed simp

lemma dget_dmerge:
  "distinct (map fst b) \<Longrightarrow> dget (dmerge a b) k = (if dhas b k then dget b k else dget a k)"
  by (auto simp: dget_def map_of_dmerge map_add_def dhas_def split: option.splits
      dest: map_of_SomeD)
    (metis map_of_eq_None_iff image_eqI fst_conv)+

lemma distinct_dput: "distinct (map fst d) \<Longrightarrow> distinct (map fst (dput k v d))"
  by (simp add: dput_def distinct_update)

lemma distinct_dmerge: "distinct (map fst a) \<Longrightarrow> distinct (map fst (dmerge a b))"
  by (induction b arbitrary: a) (auto simp: distinct_dput)

section \<open>Strings\<close>

text \<open>The characters \<open>str.strip\<close> removes, and ASCII letters in lower case; a \<open>char\<close> stands for a code point below 256.\<close>

definition py_space :: "char \<Rightarrow> bool" where
  "py_space c \<longleftrightarrow> of_char c \<in> {9, 10, 11, 12, 13, 28, 29, 30, 31, 32, 133, 160 :: nat}"

definition ascii_lower :: "char \<Rightarrow> char" where
  "ascii_lower c =
    (let n = (of_char c :: nat) in if 65 \<le> n \<and> n \<le> 90 then char_of (n + 32) else c)"

definition strip :: "string \<Rightarrow> string" where
  "strip s = rev (dropWhile py_space (rev (dropWhile py_space s)))"

lemma dropWhile_idem_rev:
  "dropWhile P (rev (dropWhile P (rev (dropWhile P s)))) = rev (dropWhile P (rev (dropWhile P s)))"
proof (cases "rev (dropWhile P (rev (dropWhile P s)))")
  case (Cons a as)
  have "dropWhile P s \<noteq> []" using Cons by (metis dropWhile.simps(1) neq_Nil_conv rev.simps(1))
  then have h: "\<not> P (hd (dropWhile P s))" by (rule hd_dropWhile)
  have "rev (dropWhile P (rev (dropWhile P s))) @ rev (takeWhile P (rev (dropWhile P s))) = dropWhile P s"
    by (metis rev_append rev_rev_ident takeWhile_dropWhile_id)
  with Cons h have "\<not> P a" by (metis append_Cons list.sel(1))
  with Cons show ?thesis by simp
next
  case Nil
  then show ?thesis by (metis dropWhile.simps(1))
qed

lemma strip_strip [simp]: "strip (strip s) = strip s"
  by (simp add: strip_def dropWhile_idem_rev dropWhile_idem)

text \<open>\<open>str(n)\<close> of a natural number.\<close>

fun dec_digits :: "nat \<Rightarrow> string" where
  "dec_digits n =
    (if n < 10 then [char_of (48 + n)] else dec_digits (n div 10) @ [char_of (48 + n mod 10)])"

declare dec_digits.simps [simp del]

end
