(* ===== verification/Conv_Models.thy ===== *)
theory Conv_Models
  imports Py_Json
begin

text \<open>
  The domain model of the unified conversation core: \<open>gateway/conversation/models.py\<close>
  and \<open>gateway/conversation/errors.py\<close>.

  Each dataclass is a record; its fields carry a short prefix because Isabelle record
  fields share one name space (\<open>cv_\<close> conversation, \<open>t_\<close> turn, \<open>n_\<close> node,
  \<open>q_\<close> queue item, \<open>ob_\<close> outbox event, \<open>tr_\<close> tool result, \<open>ap_\<close> approval,
  \<open>ir_\<close> idempotency record, \<open>rc_\<close> receipt). The columns a table has beyond the
  dataclass are record extensions (\<open>turn_row\<close>, \<open>node_row\<close>, \<open>outbox_row\<close>), so that
  \<open>truncate\<close> is the conversion from a row to the domain object. Time stamps are
  milliseconds since the epoch: the code's ISO strings have fixed width and a fixed
  offset, so their string order is the order of these numbers.
\<close>

section \<open>Enumerations\<close>

datatype conversation_origin = O_WEBUI | O_CHANNEL | O_SYSTEM

fun origin_value :: "conversation_origin \<Rightarrow> string" where
  "origin_value O_WEBUI = ''webui''"
| "origin_value O_CHANNEL = ''channel''"
| "origin_value O_SYSTEM = ''system''"

datatype conversation_subtype =
    S_MAIN | S_WORKSPACE | S_FEISHU | S_WEIXIN | S_SCHEDULER | S_HEARTBEAT
  | S_PLAN | S_GOAL | S_SUBAGENT | S_DEBUG | S_OTHER

fun subtype_value :: "conversation_subtype \<Rightarrow> string" where
  "subtype_value S_MAIN = ''main''"
| "subtype_value S_WORKSPACE = ''workspace''"
| "subtype_value S_FEISHU = ''feishu''"
| "subtype_value S_WEIXIN = ''weixin''"
| "subtype_value S_SCHEDULER = ''scheduler''"
| "subtype_value S_HEARTBEAT = ''heartbeat''"
| "subtype_value S_PLAN = ''plan''"
| "subtype_value S_GOAL = ''goal''"
| "subtype_value S_SUBAGENT = ''subagent''"
| "subtype_value S_DEBUG = ''debug''"
| "subtype_value S_OTHER = ''other''"

datatype turn_status =
    T_QUEUED | T_THINKING | T_TOOL | T_APPROVAL | T_ANSWERING | T_STEERING | T_STOPPING
  | T_DONE | T_STOPPED | T_ERROR | T_INTERRUPTED

fun turn_status_value :: "turn_status \<Rightarrow> string" where
  "turn_status_value T_QUEUED = ''queued''"
| "turn_status_value T_THINKING = ''thinking''"
| "turn_status_value T_TOOL = ''tool''"
| "turn_status_value T_APPROVAL = ''approval''"
| "turn_status_value T_ANSWERING = ''answering''"
| "turn_status_value T_STEERING = ''steering''"
| "turn_status_value T_STOPPING = ''stopping''"
| "turn_status_value T_DONE = ''done''"
| "turn_status_value T_STOPPED = ''stopped''"
| "turn_status_value T_ERROR = ''error''"
| "turn_status_value T_INTERRUPTED = ''interrupted''"

definition TERMINAL_TURN_STATUSES :: "turn_status list" where
  "TERMINAL_TURN_STATUSES = [T_DONE, T_STOPPED, T_ERROR, T_INTERRUPTED]"

definition terminal_status :: "turn_status \<Rightarrow> bool" where
  "terminal_status st \<longleftrightarrow> st \<in> set TERMINAL_TURN_STATUSES"

lemma terminal_status_simps [simp]:
  "terminal_status T_DONE" "terminal_status T_STOPPED"
  "terminal_status T_ERROR" "terminal_status T_INTERRUPTED"
  "\<not> terminal_status T_QUEUED" "\<not> terminal_status T_THINKING" "\<not> terminal_status T_TOOL"
  "\<not> terminal_status T_APPROVAL" "\<not> terminal_status T_ANSWERING"
  "\<not> terminal_status T_STEERING" "\<not> terminal_status T_STOPPING"
  by (simp_all add: terminal_status_def TERMINAL_TURN_STATUSES_def)

datatype turn_node_type =
    N_USER | N_REASONING | N_TOOL | N_ASSISTANT | N_USER_STEERING | N_STATUS | N_IMAGE

fun node_type_value :: "turn_node_type \<Rightarrow> string" where
  "node_type_value N_USER = ''user''"
| "node_type_value N_REASONING = ''reasoning''"
| "node_type_value N_TOOL = ''tool''"
| "node_type_value N_ASSISTANT = ''assistant''"
| "node_type_value N_USER_STEERING = ''user_steering''"
| "node_type_value N_STATUS = ''status''"
| "node_type_value N_IMAGE = ''image''"

datatype queue_item_status =
    Q_WAITING | Q_WAITING_FOR_STEERING | Q_INJECTING | Q_SENDING | Q_PENDING_DELETE
  | Q_FAILED | Q_SENT | Q_INJECTED | Q_DELETED

fun queue_status_value :: "queue_item_status \<Rightarrow> string" where
  "queue_status_value Q_WAITING = ''waiting''"
| "queue_status_value Q_WAITING_FOR_STEERING = ''waiting_for_steering''"
| "queue_status_value Q_INJECTING = ''injecting''"
| "queue_status_value Q_SENDING = ''sending''"
| "queue_status_value Q_PENDING_DELETE = ''pending_delete''"
| "queue_status_value Q_FAILED = ''failed''"
| "queue_status_value Q_SENT = ''sent''"
| "queue_status_value Q_INJECTED = ''injected''"
| "queue_status_value Q_DELETED = ''deleted''"

fun TURN_TERMINAL_QUEUE_RULES :: "turn_status \<Rightarrow> string option" where
  "TURN_TERMINAL_QUEUE_RULES T_DONE = Some ''countdown''"
| "TURN_TERMINAL_QUEUE_RULES T_STOPPED = Some ''countdown''"
| "TURN_TERMINAL_QUEUE_RULES T_ERROR = Some ''pause''"
| "TURN_TERMINAL_QUEUE_RULES T_INTERRUPTED = Some ''pause''"
| "TURN_TERMINAL_QUEUE_RULES _ = None"

datatype approval_status = A_PENDING | A_APPROVED | A_DENIED | A_CANCELLED | A_TIMED_OUT

fun approval_status_value :: "approval_status \<Rightarrow> string" where
  "approval_status_value A_PENDING = ''pending''"
| "approval_status_value A_APPROVED = ''approved''"
| "approval_status_value A_DENIED = ''denied''"
| "approval_status_value A_CANCELLED = ''cancelled''"
| "approval_status_value A_TIMED_OUT = ''timed_out''"

text \<open>
  The code stores and compares the string values; comparing constructors instead is
  the same because no two members of an enumeration share a value.
\<close>

lemma turn_status_value_inject [simp]:
  "turn_status_value a = turn_status_value b \<longleftrightarrow> a = b"
  by (cases a; cases b; simp)

lemma queue_status_value_inject [simp]:
  "queue_status_value a = queue_status_value b \<longleftrightarrow> a = b"
  by (cases a; cases b; simp)

lemma approval_status_value_inject [simp]:
  "approval_status_value a = approval_status_value b \<longleftrightarrow> a = b"
  by (cases a; cases b; simp)

lemma node_type_value_inject [simp]:
  "node_type_value a = node_type_value b \<longleftrightarrow> a = b"
  by (cases a; cases b; simp)

section \<open>Errors\<close>

text \<open>
  One constructor per exception class. \<open>IntegrityError\<close> is SQLite's, \<open>PyTypeError\<close>
  the interpreter's: both reach the caller of the operations below.
\<close>

datatype conv_error =
    ResourceNotFound | TurnNotFound | QueueConflict | QueueLimit | QueueNotSending
  | UndoExpired | SteeringLimit | SteeringTimeout | IdempotencyConflict
  | ExecutionScopeLimit | GatewaySaturated | ApprovalConflict | ResultNotOwned
  | ConversationExists | ValidationFailed
  | IntegrityError | PyTypeError

fun conv_error_code :: "conv_error \<Rightarrow> string" where
  "conv_error_code ResourceNotFound = ''conversation_not_found''"
| "conv_error_code TurnNotFound = ''turn_not_found''"
| "conv_error_code QueueConflict = ''queue_item_conflict''"
| "conv_error_code QueueLimit = ''queue_limit''"
| "conv_error_code QueueNotSending = ''queue_not_sending''"
| "conv_error_code UndoExpired = ''undo_expired''"
| "conv_error_code SteeringLimit = ''steering_limit''"
| "conv_error_code SteeringTimeout = ''steering_interrupt_timeout''"
| "conv_error_code IdempotencyConflict = ''idempotency_conflict''"
| "conv_error_code ExecutionScopeLimit = ''execution_scope_concurrency_limit''"
| "conv_error_code GatewaySaturated = ''gateway_concurrency_saturated''"
| "conv_error_code ApprovalConflict = ''approval_not_pending''"
| "conv_error_code ResultNotOwned = ''result_ref_not_owned''"
| "conv_error_code ConversationExists = ''conversation_exists''"
| "conv_error_code ValidationFailed = ''validation_failed''"
| "conv_error_code IntegrityError = ''''"
| "conv_error_code PyTypeError = ''''"

fun http_status :: "conv_error \<Rightarrow> nat option" where
  "http_status ResourceNotFound = Some 404"
| "http_status TurnNotFound = Some 404"
| "http_status GatewaySaturated = Some 503"
| "http_status ResultNotOwned = Some 403"
| "http_status ValidationFailed = Some 400"
| "http_status IntegrityError = None"
| "http_status PyTypeError = None"
| "http_status _ = Some 409"

section \<open>Domain objects and rows\<close>

record conversation =
  cv_id :: string
  cv_session_key :: string
  cv_origin :: string
  cv_subtype :: string
  cv_execution_scope :: string
  cv_workspace_id :: "string option"
  cv_route_metadata :: dict
  cv_session_version :: nat
  cv_created_at :: nat
  cv_updated_at :: nat

record turn =
  t_id :: string
  t_conversation_id :: string
  t_status :: turn_status
  t_version :: nat
  t_runtime_snapshot_id :: "string option"
  t_started_at :: nat
  t_finished_at :: "nat option"
  t_final_assistant_node_id :: "string option"
  t_error_code :: "string option"
  t_parent_conversation_id :: "string option"
  t_parent_turn_id :: "string option"

record turn_row = turn +
  t_rowid :: nat

definition is_terminal :: "('a) turn_scheme \<Rightarrow> bool" where
  "is_terminal t \<longleftrightarrow> terminal_status (t_status t)"

record turn_node =
  n_id :: string
  n_conversation_id :: string
  n_type :: turn_node_type
  n_position :: "nat option"
  n_status :: string
  n_turn_id :: "string option"
  n_text :: "string option"
  n_metadata :: dict
  n_source_channel :: "string option"
  n_source_message_id :: "string option"
  n_sender_id :: "string option"
  n_sender_name :: "string option"
  n_created_at :: nat
  n_updated_at :: nat

record node_row = turn_node +
  n_text_seq :: nat

record image =
  im_data :: string
  im_media_type :: string

record queue_item =
  q_id :: string
  q_conversation_id :: string
  q_position :: nat
  q_revision :: nat
  q_status :: queue_item_status
  q_text :: string
  q_target_turn_id :: "string option"
  q_created_turn_id :: "string option"
  q_created_node_id :: "string option"
  q_operation_id :: "string option"
  q_created_at :: nat
  q_updated_at :: nat
  q_images :: "image list option"

record idempotency_record =
  ir_operation_id :: string
  ir_conversation_id :: string
  ir_request_hash :: string
  ir_result :: "dict option"
  ir_created_at :: nat

record outbox_event =
  ob_id :: string
  ob_conversation_id :: string
  ob_event_type :: string
  ob_scope :: string
  ob_version :: nat
  ob_payload :: dict
  ob_created_at :: nat
  ob_published_at :: "nat option"

record outbox_row = outbox_event +
  ob_claimed_by :: "string option"
  ob_claim_expires_at :: "nat option"

record tool_result =
  tr_result_ref :: string
  tr_conversation_id :: string
  tr_turn_id :: string
  tr_kind :: string
  tr_node_id :: "string option"
  tr_size_bytes :: nat
  tr_lines :: nat
  tr_content_type :: "string option"
  tr_summary :: dict
  tr_truncation_reason :: "string option"
  tr_created_at :: nat

record channel_message_receipt =
  rc_channel :: string
  rc_message_id :: string
  rc_conversation_id :: string
  rc_created_at :: nat

record approval =
  ap_id :: string
  ap_conversation_id :: string
  ap_turn_id :: string
  ap_tool_name :: string
  ap_params_summary :: string
  ap_status :: approval_status
  ap_node_id :: "string option"
  ap_created_at :: nat
  ap_resolved_at :: "nat option"
  ap_resolved_by :: "string option"

section \<open>Serialisation\<close>

definition conversation_to_dict :: "conversation \<Rightarrow> dict" where
  "conversation_to_dict c =
    [(''conversation_id'', JStr (cv_id c)),
     (''session_key'', JStr (cv_session_key c)),
     (''origin'', JStr (cv_origin c)),
     (''subtype'', JStr (cv_subtype c)),
     (''workspace_id'', jopt JStr (cv_workspace_id c)),
     (''execution_scope'', JStr (cv_execution_scope c)),
     (''route_metadata'', JObj (cv_route_metadata c)),
     (''session_version'', jnat (cv_session_version c)),
     (''created_at'', jnat (cv_created_at c)),
     (''updated_at'', jnat (cv_updated_at c))]"

definition turn_to_dict :: "'a turn_scheme \<Rightarrow> dict" where
  "turn_to_dict t =
    [(''turn_id'', JStr (t_id t)),
     (''conversation_id'', JStr (t_conversation_id t)),
     (''status'', JStr (turn_status_value (t_status t))),
     (''turn_version'', jnat (t_version t)),
     (''runtime_snapshot_id'', jopt JStr (t_runtime_snapshot_id t)),
     (''started_at'', jnat (t_started_at t)),
     (''finished_at'', jopt jnat (t_finished_at t)),
     (''final_assistant_node_id'', jopt JStr (t_final_assistant_node_id t)),
     (''error_code'', jopt JStr (t_error_code t)),
     (''parent_conversation_id'', jopt JStr (t_parent_conversation_id t)),
     (''parent_turn_id'', jopt JStr (t_parent_turn_id t))]"

definition node_to_dict :: "'a turn_node_scheme \<Rightarrow> dict" where
  "node_to_dict n =
    [(''node_id'', JStr (n_id n)),
     (''conversation_id'', JStr (n_conversation_id n)),
     (''turn_id'', jopt JStr (n_turn_id n)),
     (''type'', JStr (node_type_value (n_type n))),
     (''position'', jopt jnat (n_position n)),
     (''status'', JStr (n_status n)),
     (''text'', jopt JStr (n_text n)),
     (''metadata'', JObj (n_metadata n)),
     (''source_channel'', jopt JStr (n_source_channel n)),
     (''source_message_id'', jopt JStr (n_source_message_id n)),
     (''sender_id'', jopt JStr (n_sender_id n)),
     (''sender_name'', jopt JStr (n_sender_name n)),
     (''created_at'', jnat (n_created_at n)),
     (''updated_at'', jnat (n_updated_at n))]"

definition queue_item_to_dict :: "queue_item \<Rightarrow> dict" where
  "queue_item_to_dict q =
    [(''queue_item_id'', JStr (q_id q)),
     (''conversation_id'', JStr (q_conversation_id q)),
     (''position'', jnat (q_position q)),
     (''revision'', jnat (q_revision q)),
     (''status'', JStr (queue_status_value (q_status q))),
     (''text'', JStr (q_text q)),
     (''target_turn_id'', jopt JStr (q_target_turn_id q)),
     (''created_turn_id'', jopt JStr (q_created_turn_id q)),
     (''created_node_id'', jopt JStr (q_created_node_id q)),
     (''operation_id'', jopt JStr (q_operation_id q)),
     (''created_at'', jnat (q_created_at q)),
     (''updated_at'', jnat (q_updated_at q)),
     (''image_count'', jnat (case q_images q of None \<Rightarrow> 0 | Some imgs \<Rightarrow> length imgs))]"

definition tool_result_to_dict :: "tool_result \<Rightarrow> dict" where
  "tool_result_to_dict r =
    [(''result_ref'', JStr (tr_result_ref r)),
     (''conversation_id'', JStr (tr_conversation_id r)),
     (''turn_id'', JStr (tr_turn_id r)),
     (''node_id'', jopt JStr (tr_node_id r)),
     (''kind'', JStr (tr_kind r)),
     (''size_bytes'', jnat (tr_size_bytes r)),
     (''lines'', jnat (tr_lines r)),
     (''content_type'', jopt JStr (tr_content_type r)),
     (''summary'', JObj (tr_summary r)),
     (''truncation_reason'', jopt JStr (tr_truncation_reason r)),
     (''created_at'', jnat (tr_created_at r))]"

definition approval_to_dict :: "approval \<Rightarrow> dict" where
  "approval_to_dict a =
    [(''approval_id'', JStr (ap_id a)),
     (''conversation_id'', JStr (ap_conversation_id a)),
     (''turn_id'', JStr (ap_turn_id a)),
     (''node_id'', jopt JStr (ap_node_id a)),
     (''tool_name'', JStr (ap_tool_name a)),
     (''params_summary'', JStr (ap_params_summary a)),
     (''status'', JStr (approval_status_value (ap_status a))),
     (''created_at'', jnat (ap_created_at a)),
     (''resolved_at'', jopt jnat (ap_resolved_at a)),
     (''resolved_by'', jopt JStr (ap_resolved_by a))]"

end
