(* ===== verification/Conv_Db.thy ===== *)
theory Conv_Db
  imports Conv_Models
begin

text \<open>
  The SQLite database behind the conversation core: the tables of migration v12 (with the
  columns of v13 and v16 and the outbox claim columns) in
  \<open>core/runtime/sqlite_store.py\<close>, and the statements that write them.

  A table is the list of its rows in rowid order. Every write statement is total or
  returns \<open>IntegrityError\<close>: primary keys, the UNIQUE session key and the foreign keys
  (\<open>PRAGMA foreign_keys=ON\<close>) are checked where SQLite checks them. A transaction is an
  operation on the whole state: nested \<open>connection()\<close> contexts of one thread share one
  connection and commit at the outermost exit only, so an operation sees its own writes
  and an exception leaves the state as it was.

  \<open>now\<close> is the wall clock in milliseconds, which stands still during an operation and
  is advanced between operations; \<open>rnd\<close> is the stream of random tokens
  (\<open>secrets.token_hex\<close>), of which \<open>rix\<close> were used.
\<close>

record store =
  sessions :: "conversation list"
  turns :: "turn_row list"
  nodes :: "node_row list"
  queue :: "queue_item list"
  approvals :: "approval list"
  results :: "tool_result list"
  idems :: "idempotency_record list"
  outbox :: "outbox_row list"
  receipts :: "channel_message_receipt list"
  now :: nat
  rnd :: "nat \<Rightarrow> string"
  rix :: nat

definition utc_now :: "'a store_scheme \<Rightarrow> nat" where
  "utc_now s = now s"

definition gen_id :: "string \<Rightarrow> 'a store_scheme \<Rightarrow> string \<times> 'a store_scheme" where
  "gen_id prefix s = (prefix @ rnd s (rix s), s\<lparr>rix := Suc (rix s)\<rparr>)"

definition gen_conversation_id :: "'a store_scheme \<Rightarrow> string \<times> 'a store_scheme" where
  "gen_conversation_id s = gen_id ''conv_'' s"

definition gen_turn_id :: "'a store_scheme \<Rightarrow> string \<times> 'a store_scheme" where
  "gen_turn_id s = gen_id ''turn_'' s"

definition gen_node_id :: "'a store_scheme \<Rightarrow> string \<times> 'a store_scheme" where
  "gen_node_id s = gen_id ''node_'' s"

definition gen_queue_item_id :: "'a store_scheme \<Rightarrow> string \<times> 'a store_scheme" where
  "gen_queue_item_id s = gen_id ''q_'' s"

definition gen_approval_id :: "'a store_scheme \<Rightarrow> string \<times> 'a store_scheme" where
  "gen_approval_id s = gen_id ''apr_'' s"

definition gen_outbox_id :: "'a store_scheme \<Rightarrow> string \<times> 'a store_scheme" where
  "gen_outbox_id s = gen_id ''obx_'' s"

lemmas gen_ids = gen_conversation_id_def gen_turn_id_def gen_node_id_def gen_queue_item_id_def
  gen_approval_id_def gen_outbox_id_def gen_id_def

section \<open>Foreign keys\<close>

definition conv_exists :: "string \<Rightarrow> 'a store_scheme \<Rightarrow> bool" where
  "conv_exists cid s \<longleftrightarrow> cid \<in> set (map cv_id (sessions s))"

definition turn_exists :: "string \<Rightarrow> 'a store_scheme \<Rightarrow> bool" where
  "turn_exists tid s \<longleftrightarrow> tid \<in> set (map t_id (turns s))"

definition turn_ref_ok :: "string option \<Rightarrow> 'a store_scheme \<Rightarrow> bool" where
  "turn_ref_ok tid s = (case tid of None \<Rightarrow> True | Some t \<Rightarrow> turn_exists t s)"

section \<open>INSERT statements\<close>

definition insert_session ::
  "conversation \<Rightarrow> 'a store_scheme \<Rightarrow> conv_error + 'a store_scheme" where
  "insert_session c s =
    (if cv_session_key c \<in> set (map cv_session_key (sessions s)) then Inl IntegrityError
     else bindE (of_option IntegrityError (insert_row cv_id c (sessions s)))
       (\<lambda>rows. Inr (s\<lparr>sessions := rows\<rparr>)))"

definition insert_turn ::
  "turn \<Rightarrow> 'a store_scheme \<Rightarrow> conv_error + 'a store_scheme" where
  "insert_turn t s =
    (if \<not> conv_exists (t_conversation_id t) s then Inl IntegrityError
     else bindE (of_option IntegrityError
         (insert_row t_id
           (turn.extend t (turn_row.fields
             (case sql_max t_rowid (turns s) of None \<Rightarrow> 1 | Some m \<Rightarrow> Suc m)))
           (turns s)))
       (\<lambda>rows. Inr (s\<lparr>turns := rows\<rparr>)))"

definition insert_node ::
  "node_row \<Rightarrow> 'a store_scheme \<Rightarrow> conv_error + 'a store_scheme" where
  "insert_node n s =
    (if \<not> conv_exists (n_conversation_id n) s \<or> \<not> turn_ref_ok (n_turn_id n) s
     then Inl IntegrityError
     else bindE (of_option IntegrityError (insert_row n_id n (nodes s)))
       (\<lambda>rows. Inr (s\<lparr>nodes := rows\<rparr>)))"

definition insert_queue_item ::
  "queue_item \<Rightarrow> 'a store_scheme \<Rightarrow> conv_error + 'a store_scheme" where
  "insert_queue_item q s =
    (if \<not> conv_exists (q_conversation_id q) s then Inl IntegrityError
     else bindE (of_option IntegrityError (insert_row q_id q (queue s)))
       (\<lambda>rows. Inr (s\<lparr>queue := rows\<rparr>)))"

definition insert_approval ::
  "approval \<Rightarrow> 'a store_scheme \<Rightarrow> conv_error + 'a store_scheme" where
  "insert_approval a s =
    (if \<not> conv_exists (ap_conversation_id a) s then Inl IntegrityError
     else bindE (of_option IntegrityError (insert_row ap_id a (approvals s)))
       (\<lambda>rows. Inr (s\<lparr>approvals := rows\<rparr>)))"

definition insert_result ::
  "tool_result \<Rightarrow> 'a store_scheme \<Rightarrow> conv_error + 'a store_scheme" where
  "insert_result r s =
    (if \<not> conv_exists (tr_conversation_id r) s then Inl IntegrityError
     else bindE (of_option IntegrityError (insert_row tr_result_ref r (results s)))
       (\<lambda>rows. Inr (s\<lparr>results := rows\<rparr>)))"

definition insert_idem ::
  "idempotency_record \<Rightarrow> 'a store_scheme \<Rightarrow> conv_error + 'a store_scheme" where
  "insert_idem r s =
    (if \<not> conv_exists (ir_conversation_id r) s then Inl IntegrityError
     else bindE (of_option IntegrityError (insert_row ir_operation_id r (idems s)))
       (\<lambda>rows. Inr (s\<lparr>idems := rows\<rparr>)))"

definition insert_outbox ::
  "outbox_event \<Rightarrow> 'a store_scheme \<Rightarrow> conv_error + 'a store_scheme" where
  "insert_outbox e s =
    (if \<not> conv_exists (ob_conversation_id e) s then Inl IntegrityError
     else bindE (of_option IntegrityError
         (insert_row ob_id (outbox_event.extend e (outbox_row.fields None None)) (outbox s)))
       (\<lambda>rows. Inr (s\<lparr>outbox := rows\<rparr>)))"

section \<open>UPDATE statements\<close>

definition update_sessions where
  "update_sessions P f s = s\<lparr>sessions := sql_update P f (sessions s)\<rparr>"

definition update_turns where
  "update_turns P f s = s\<lparr>turns := sql_update P f (turns s)\<rparr>"

definition update_nodes where
  "update_nodes P f s = s\<lparr>nodes := sql_update P f (nodes s)\<rparr>"

definition update_queue where
  "update_queue P f s = s\<lparr>queue := sql_update P f (queue s)\<rparr>"

definition update_approvals where
  "update_approvals P f s = s\<lparr>approvals := sql_update P f (approvals s)\<rparr>"

definition update_outbox where
  "update_outbox P f s = s\<lparr>outbox := sql_update P f (outbox s)\<rparr>"

lemmas write_defs = update_sessions_def update_turns_def update_nodes_def update_queue_def
  update_approvals_def update_outbox_def

lemmas insert_defs = insert_session_def insert_turn_def insert_node_def insert_queue_item_def
  insert_approval_def insert_result_def insert_idem_def insert_outbox_def

section \<open>Row lookups by primary key\<close>

definition find_session where
  "find_session cid s = lookup_row cv_id cid (sessions s)"

definition find_turn where
  "find_turn tid s = lookup_row t_id tid (turns s)"

definition find_node where
  "find_node nid s = lookup_row n_id nid (nodes s)"

definition find_queue_row where
  "find_queue_row qid s = lookup_row q_id qid (queue s)"

definition find_approval where
  "find_approval aid s = lookup_row ap_id aid (approvals s)"

lemmas find_defs = find_session_def find_turn_def find_node_def find_queue_row_def
  find_approval_def

section \<open>The contract of a table with a primary key\<close>

text \<open>
  What a client of one table relies on: a row can be looked up by its key, an update of
  the row under a key is visible under that key and nowhere else, and an inserted row is
  found afterwards. \<open>ok\<close> is what the update function must keep (the key).
\<close>

locale keyed_table =
  fixes key :: "'r \<Rightarrow> 'k"
    and get :: "'k \<Rightarrow> 's \<Rightarrow> 'r option"
    and upd :: "('r \<Rightarrow> bool) \<Rightarrow> ('r \<Rightarrow> 'r) \<Rightarrow> 's \<Rightarrow> 's"
  assumes get_key: "get k s = Some r \<Longrightarrow> key r = k"
    and get_upd: "(\<And>r. key (f r) = key r) \<Longrightarrow>
      get k (upd P f s) = map_option (\<lambda>r. if P r then f r else r) (get k s)"
begin

lemma get_upd_here:
  assumes "\<And>r. key (f r) = key r" and "get k s = Some r"
  shows "get k (upd (\<lambda>r. key r = k) f s) = Some (f r)"
  using assms get_key [OF assms(2)] by (simp add: get_upd)

lemma get_upd_other:
  assumes "\<And>r. key (f r) = key r" and "k' \<noteq> k"
  shows "get k' (upd (\<lambda>r. key r = k) f s) = get k' s"
  using assms get_key by (cases "get k' s") (auto simp: get_upd)

lemma get_upd_None:
  assumes "\<And>r. key (f r) = key r"
  shows "get k (upd P f s) = None \<longleftrightarrow> get k s = None"
  using assms by (simp add: get_upd)

text \<open>A measure on rows that no update lowers never goes down in any row.\<close>

lemma get_upd_mono:
  fixes m :: "'r \<Rightarrow> nat"
  assumes "\<And>r. key (f r) = key r" and "\<And>r. m r \<le> m (f r)" and "get k s = Some r"
  shows "\<exists>r'. get k (upd P f s) = Some r' \<and> m r \<le> m r'"
  using assms by (auto simp: get_upd)

end

interpretation sessions_tbl: keyed_table cv_id find_session update_sessions
  by unfold_locales (auto simp: find_defs write_defs row_simps dest: lookup_row_Some)

interpretation turns_tbl: keyed_table t_id find_turn update_turns
  by unfold_locales (auto simp: find_defs write_defs row_simps dest: lookup_row_Some)

interpretation nodes_tbl: keyed_table n_id find_node update_nodes
  by unfold_locales (auto simp: find_defs write_defs row_simps dest: lookup_row_Some)

interpretation queue_tbl: keyed_table q_id find_queue_row update_queue
  by unfold_locales (auto simp: find_defs write_defs row_simps dest: lookup_row_Some)

interpretation approvals_tbl: keyed_table ap_id find_approval update_approvals
  by unfold_locales (auto simp: find_defs write_defs row_simps dest: lookup_row_Some)

end
