(* ===== verification/Store_Turns.thy ===== *)
theory Store_Turns
  imports Conv_Db
begin

text \<open>
  The first half of \<open>ConversationStore\<close> (\<open>gateway/conversation/store.py\<close>): the
  operations on conversations, turns and turn nodes, in the order of the source.

  An operation that can raise returns \<open>conv_error + result \<times> state\<close>; one that cannot
  returns \<open>result \<times> state\<close>; a pure read returns the value. Reading the row back after
  an UPDATE raises TypeError in the code when the row does not exist (\<open>row\<close> is None and
  is subscripted): that is \<open>PyTypeError\<close> here.
\<close>

section \<open>Limits and time windows\<close>

definition MAX_ACTIVE_QUEUE_ITEMS :: nat where "MAX_ACTIVE_QUEUE_ITEMS = 20"
definition MAX_QUEUE_TEXT_LENGTH :: nat where "MAX_QUEUE_TEXT_LENGTH = 10000"
definition MAX_STEERING_PER_TURN :: nat where "MAX_STEERING_PER_TURN = 10"
definition STEERING_TIMEOUT_SECONDS :: nat where "STEERING_TIMEOUT_SECONDS = 10"
definition IDEMPOTENCY_TTL_SECONDS :: nat where "IDEMPOTENCY_TTL_SECONDS = 24 * 3600"
definition RECEIPT_TTL_SECONDS :: nat where "RECEIPT_TTL_SECONDS = 72 * 3600"
definition OUTBOX_TTL_SECONDS :: nat where "OUTBOX_TTL_SECONDS = 24 * 3600"
definition UNDO_WINDOW_SECONDS :: nat where "UNDO_WINDOW_SECONDS = 5"
definition APPROVAL_TIMEOUT_SECONDS :: nat where "APPROVAL_TIMEOUT_SECONDS = 300"

text \<open>A cutoff \<open>now - ttl\<close>, as an integer because the clock may be smaller.\<close>

definition cutoff :: "nat \<Rightarrow> 'a store_scheme \<Rightarrow> int" where
  "cutoff seconds s = int (utc_now s) - int (seconds * 1000)"

section \<open>Conversation\<close>

definition get_conversation :: "string \<Rightarrow> 'a store_scheme \<Rightarrow> conv_error + conversation" where
  "get_conversation cid s = of_option ResourceNotFound (find_session cid s)"

definition get_conversation_by_key :: "string \<Rightarrow> 'a store_scheme \<Rightarrow> conversation option" where
  "get_conversation_by_key key s = find (\<lambda>c. cv_session_key c = key) (sessions s)"

definition list_conversations ::
  "int \<Rightarrow> int \<Rightarrow> string option \<Rightarrow> 'a store_scheme \<Rightarrow> conversation list" where
  "list_conversations limit offset origin s =
    (let limit' = nat (max 1 (min limit 500));
         offset' = nat (max 0 offset);
         rows = (case origin of
             None \<Rightarrow> sessions s
           | Some og \<Rightarrow> if og = [] then sessions s
                        else filter (\<lambda>c. cv_origin c = og) (sessions s))
     in take limit' (drop offset' (order_by_desc cv_updated_at rows)))"

definition create_conversation ::
  "string \<Rightarrow> string \<Rightarrow> string \<Rightarrow> string \<Rightarrow> string option \<Rightarrow> dict option
    \<Rightarrow> 'a store_scheme \<Rightarrow> conv_error + (conversation \<times> bool) \<times> 'a store_scheme" where
  "create_conversation session_key origin subtype execution_scope workspace_id route_metadata s =
    (case get_conversation_by_key session_key s of
      Some existing \<Rightarrow> Inr ((existing, False), s)
    | None \<Rightarrow>
        (let (cid, s1) = gen_conversation_id s;
             c = \<lparr>cv_id = cid, cv_session_key = session_key, cv_origin = origin,
                  cv_subtype = subtype, cv_execution_scope = execution_scope,
                  cv_workspace_id = workspace_id,
                  cv_route_metadata = (case route_metadata of None \<Rightarrow> [] | Some d \<Rightarrow> d),
                  cv_session_version = 0,
                  cv_created_at = utc_now s, cv_updated_at = utc_now s\<rparr>
         in case insert_session c s1 of
              Inr s2 \<Rightarrow> Inr ((c, True), s2)
            | Inl e \<Rightarrow>
                (case get_conversation_by_key session_key s1 of
                  Some existing \<Rightarrow> Inr ((existing, False), s1)
                | None \<Rightarrow> Inl e)))"

definition update_conversation_metadata ::
  "string \<Rightarrow> dict \<Rightarrow> 'a store_scheme \<Rightarrow> conv_error + conversation \<times> 'a store_scheme" where
  "update_conversation_metadata cid metadata s =
    (case find_session cid s of
      None \<Rightarrow> Inl ResourceNotFound
    | Some row \<Rightarrow>
        (let merged = dmerge (cv_route_metadata row) metadata;
             s1 = update_sessions (\<lambda>c. cv_id c = cid)
                    (\<lambda>c. c\<lparr>cv_route_metadata := merged, cv_updated_at := utc_now s\<rparr>) s
         in bindE (of_option PyTypeError (find_session cid s1)) (\<lambda>c. Inr (c, s1))))"

definition bump_session_version :: "string \<Rightarrow> 'a store_scheme \<Rightarrow> nat \<times> 'a store_scheme" where
  "bump_session_version cid s =
    (let s1 = update_sessions (\<lambda>c. cv_id c = cid)
                (\<lambda>c. c\<lparr>cv_session_version := cv_session_version c + 1,
                        cv_updated_at := utc_now s\<rparr>) s
     in (case find_session cid s1 of None \<Rightarrow> 0 | Some c \<Rightarrow> cv_session_version c, s1))"

section \<open>Turn\<close>

text \<open>The predicate \<open>status NOT IN ('done','stopped','error','interrupted')\<close>.\<close>

definition turn_active :: "'a turn_scheme \<Rightarrow> bool" where
  "turn_active t \<longleftrightarrow> t_status t \<notin> {T_DONE, T_STOPPED, T_ERROR, T_INTERRUPTED}"

definition new_turn ::
  "string \<Rightarrow> string \<Rightarrow> turn_status \<Rightarrow> string option \<Rightarrow> string option \<Rightarrow> string option
    \<Rightarrow> nat \<Rightarrow> turn" where
  "new_turn tid cid status snapshot_id parent_cid parent_tid time =
    \<lparr>t_id = tid, t_conversation_id = cid, t_status = status, t_version = 1,
     t_runtime_snapshot_id = snapshot_id, t_started_at = time, t_finished_at = None,
     t_final_assistant_node_id = None, t_error_code = None,
     t_parent_conversation_id = parent_cid, t_parent_turn_id = parent_tid\<rparr>"

definition create_turn ::
  "string \<Rightarrow> turn_status \<Rightarrow> string option \<Rightarrow> string option \<Rightarrow> string option
    \<Rightarrow> 'a store_scheme \<Rightarrow> conv_error + turn \<times> 'a store_scheme" where
  "create_turn cid status snapshot_id parent_cid parent_tid s =
    (let (tid, s1) = gen_turn_id s;
         t = new_turn tid cid status snapshot_id parent_cid parent_tid (utc_now s)
     in bindE (insert_turn t s1) (\<lambda>s2. Inr (t, s2)))"

definition has_active_turn :: "string \<Rightarrow> 'a store_scheme \<Rightarrow> bool" where
  "has_active_turn cid s \<longleftrightarrow>
    list_ex (\<lambda>t. t_conversation_id t = cid \<and> turn_active t) (turns s)"

definition create_turn_if_no_active ::
  "string \<Rightarrow> turn_status \<Rightarrow> string option \<Rightarrow> string option \<Rightarrow> string option
    \<Rightarrow> 'a store_scheme \<Rightarrow> conv_error + turn option \<times> 'a store_scheme" where
  "create_turn_if_no_active cid status snapshot_id parent_cid parent_tid s =
    (let (tid, s1) = gen_turn_id s;
         t = new_turn tid cid status snapshot_id parent_cid parent_tid (utc_now s)
     in if has_active_turn cid s1 then Inr (None, s1)
        else bindE (insert_turn t s1) (\<lambda>s2. Inr (Some t, s2)))"

definition get_turn :: "string \<Rightarrow> 'a store_scheme \<Rightarrow> conv_error + turn_row" where
  "get_turn tid s = of_option TurnNotFound (find_turn tid s)"

definition get_active_turn :: "string \<Rightarrow> 'a store_scheme \<Rightarrow> turn_row option" where
  "get_active_turn cid s =
    fetchone (order_by_desc t_started_at
      (filter (\<lambda>t. t_conversation_id t = cid \<and> turn_active t) (turns s)))"

definition coalesce :: "'b option \<Rightarrow> 'b option \<Rightarrow> 'b option" where
  "coalesce x y = (case x of None \<Rightarrow> y | Some _ \<Rightarrow> x)"

definition update_turn_status ::
  "string \<Rightarrow> turn_status \<Rightarrow> string option \<Rightarrow> nat option \<Rightarrow> string option
    \<Rightarrow> 'a store_scheme \<Rightarrow> conv_error + turn_row \<times> 'a store_scheme" where
  "update_turn_status tid status error_code finished_at final_node s =
    (let s1 = update_turns (\<lambda>t. t_id t = tid)
          (\<lambda>t. t\<lparr>t_status := status, t_version := t_version t + 1,
                  t_finished_at := coalesce finished_at (t_finished_at t),
                  t_error_code := coalesce error_code (t_error_code t),
                  t_final_assistant_node_id :=
                    coalesce final_node (t_final_assistant_node_id t)\<rparr>) s
     in bindE (of_option PyTypeError (find_turn tid s1)) (\<lambda>t. Inr (t, s1)))"

definition bump_turn_version :: "string \<Rightarrow> 'a store_scheme \<Rightarrow> nat \<times> 'a store_scheme" where
  "bump_turn_version tid s =
    (let s1 = update_turns (\<lambda>t. t_id t = tid) (\<lambda>t. t\<lparr>t_version := t_version t + 1\<rparr>) s
     in (case find_turn tid s1 of None \<Rightarrow> 0 | Some t \<Rightarrow> t_version t, s1))"

definition finalize_turn_nodes :: "string \<Rightarrow> 'a store_scheme \<Rightarrow> nat \<times> 'a store_scheme" where
  "finalize_turn_nodes tid s =
    (let P = (\<lambda>n. n_turn_id n = Some tid \<and> n_status n \<in> {''streaming'', ''queued''})
     in (sql_count P (nodes s),
         update_nodes P (\<lambda>n. n\<lparr>n_status := ''done'', n_updated_at := utc_now s\<rparr>) s))"

record swept_node =
  sw_node_id :: string
  sw_call_id :: json
  sw_tool :: json
  sw_params_summary :: json
  sw_result_summary :: string
  sw_position :: "nat option"

text \<open>The new metadata of a tool node that is closed because its turn ended.\<close>

definition swept_metadata :: "string \<Rightarrow> string \<Rightarrow> dict \<Rightarrow> dict" where
  "swept_metadata note code m =
    dput ''turn_terminal_sweep'' (JBool True)
      (dput ''error_message'' (JStr note)
        (dput ''error_code'' (JStr code)
          (dput ''error'' (JStr note)
            (dsetdefault ''result_summary'' (JStr note) m))))"

fun sweep_rows ::
  "string \<Rightarrow> string \<Rightarrow> node_row list \<Rightarrow> 'a store_scheme \<Rightarrow> swept_node list \<times> 'a store_scheme"
where
  "sweep_rows note code [] s = ([], s)"
| "sweep_rows note code (row # rows) s =
    (if truthy (dget (n_metadata row) ''runtime_type'') then sweep_rows note code rows s
     else
       (let metadata = swept_metadata note code (n_metadata row);
            s1 = update_nodes (\<lambda>n. n_id n = n_id row \<and> n_status n = ''running'')
                   (\<lambda>n. n\<lparr>n_status := ''error'', n_metadata := metadata,
                           n_updated_at := utc_now s\<rparr>) s;
            (swept, s2) = sweep_rows note code rows s1
        in (\<lparr>sw_node_id = n_id row,
             sw_call_id = jor (dget metadata ''call_id'') (JStr []),
             sw_tool = jor (dget metadata ''tool'') (JStr []),
             sw_params_summary = jor (dget metadata ''params_summary'') (JStr []),
             sw_result_summary = note,
             sw_position = n_position row\<rparr> # swept, s2)))"

definition sweep_running_tool_nodes ::
  "string \<Rightarrow> string \<Rightarrow> string \<Rightarrow> 'a store_scheme \<Rightarrow> swept_node list \<times> 'a store_scheme" where
  "sweep_running_tool_nodes tid note code s =
    sweep_rows note code
      (filter (\<lambda>n. n_turn_id n = Some tid \<and> n_type n = N_TOOL \<and> n_status n = ''running'')
        (nodes s)) s"

text \<open>
  The JOIN with \<open>conversation_sessions\<close> on its primary key: a turn is counted when its
  conversation exists in the scope.
\<close>

definition conv_in_scope :: "string \<Rightarrow> string \<Rightarrow> 'a store_scheme \<Rightarrow> bool" where
  "conv_in_scope scope cid s =
    (case find_session cid s of None \<Rightarrow> False | Some c \<Rightarrow> cv_execution_scope c = scope)"

definition count_active_turns_in_scope :: "string \<Rightarrow> 'a store_scheme \<Rightarrow> nat" where
  "count_active_turns_in_scope scope s =
    sql_count (\<lambda>t. conv_in_scope scope (t_conversation_id t) s \<and> turn_active t) (turns s)"

definition count_active_turns :: "'a store_scheme \<Rightarrow> nat" where
  "count_active_turns s = sql_count turn_active (turns s)"

definition list_turns ::
  "string \<Rightarrow> nat option \<Rightarrow> int \<Rightarrow> 'a store_scheme \<Rightarrow> turn_row list" where
  "list_turns cid before limit s =
    take (nat (max 1 (min limit 200)))
      (order_by_desc t_started_at
        (filter (\<lambda>t. t_conversation_id t = cid \<and>
            (case before of None \<Rightarrow> True | Some b \<Rightarrow> t_started_at t < b)) (turns s)))"

definition interrupt_active_turns :: "'a store_scheme \<Rightarrow> nat \<times> 'a store_scheme" where
  "interrupt_active_turns s =
    (sql_count turn_active (turns s),
     update_turns turn_active
       (\<lambda>t. t\<lparr>t_status := T_INTERRUPTED, t_version := t_version t + 1,
               t_error_code := coalesce (t_error_code t) (Some ''gateway_restart''),
               t_finished_at := coalesce (t_finished_at t) (Some (utc_now s))\<rparr>) s)"

section \<open>TurnNode\<close>

definition turn_positions :: "string \<Rightarrow> 'a store_scheme \<Rightarrow> nat list" where
  "turn_positions tid s =
    List.map_filter n_position (filter (\<lambda>n. n_turn_id n = Some tid) (nodes s))"

definition next_position :: "string \<Rightarrow> 'a store_scheme \<Rightarrow> nat" where
  "next_position tid s =
    (case sql_max (\<lambda>p. p) (turn_positions tid s) of None \<Rightarrow> 1 | Some m \<Rightarrow> m + 1)"

text \<open>The keyword arguments of \<open>create_node\<close> with their defaults.\<close>

record node_args =
  na_conversation_id :: string
  na_type :: turn_node_type
  na_status :: string
  na_turn_id :: "string option"
  na_position :: "nat option"
  na_text :: "string option"
  na_metadata :: "dict option"
  na_source_channel :: "string option"
  na_source_message_id :: "string option"
  na_sender_id :: "string option"
  na_sender_name :: "string option"
  na_node_id :: "string option"

definition node_defaults :: "string \<Rightarrow> turn_node_type \<Rightarrow> string \<Rightarrow> node_args" where
  "node_defaults cid type status =
    \<lparr>na_conversation_id = cid, na_type = type, na_status = status, na_turn_id = None,
     na_position = None, na_text = None, na_metadata = None, na_source_channel = None,
     na_source_message_id = None, na_sender_id = None, na_sender_name = None,
     na_node_id = None\<rparr>"

definition create_node ::
  "node_args \<Rightarrow> 'a store_scheme \<Rightarrow> conv_error + node_row \<times> 'a store_scheme" where
  "create_node a s =
    (let position = (case na_position a of
             Some p \<Rightarrow> Some p
           | None \<Rightarrow> map_option (\<lambda>tid. next_position tid s) (na_turn_id a));
         (nid, s1) = (case na_node_id a of Some i \<Rightarrow> (i, s) | None \<Rightarrow> gen_node_id s);
         n = \<lparr>n_id = nid, n_conversation_id = na_conversation_id a, n_type = na_type a,
              n_position = position, n_status = na_status a, n_turn_id = na_turn_id a,
              n_text = na_text a,
              n_metadata = (case na_metadata a of None \<Rightarrow> [] | Some d \<Rightarrow> d),
              n_source_channel = na_source_channel a,
              n_source_message_id = na_source_message_id a,
              n_sender_id = na_sender_id a, n_sender_name = na_sender_name a,
              n_created_at = utc_now s, n_updated_at = utc_now s,
              n_text_seq = (if na_text a \<noteq> None then 1 else 0)\<rparr>
     in bindE (insert_node n s1) (\<lambda>s2. Inr (n, s2)))"

definition read_node :: "string \<Rightarrow> 'a store_scheme \<Rightarrow> conv_error + node_row \<times> 'a store_scheme" where
  "read_node nid s = bindE (of_option PyTypeError (find_node nid s)) (\<lambda>n. Inr (n, s))"

definition assign_node_to_turn ::
  "string \<Rightarrow> string \<Rightarrow> nat \<Rightarrow> 'a store_scheme \<Rightarrow> conv_error + node_row \<times> 'a store_scheme" where
  "assign_node_to_turn nid tid position s =
    (if find_node nid s \<noteq> None \<and> \<not> turn_exists tid s then Inl IntegrityError
     else read_node nid
       (update_nodes (\<lambda>n. n_id n = nid)
         (\<lambda>n. n\<lparr>n_turn_id := Some tid, n_position := Some position,
                 n_updated_at := utc_now s\<rparr>) s))"

definition set_node_status ::
  "string \<Rightarrow> string \<Rightarrow> 'a store_scheme \<Rightarrow> conv_error + node_row \<times> 'a store_scheme" where
  "set_node_status nid status s =
    read_node nid
      (update_nodes (\<lambda>n. n_id n = nid)
        (\<lambda>n. n\<lparr>n_status := status, n_updated_at := utc_now s\<rparr>) s)"

definition get_node :: "string \<Rightarrow> 'a store_scheme \<Rightarrow> conv_error + node_row" where
  "get_node nid s = of_option ResourceNotFound (find_node nid s)"

text \<open>\<open>ORDER BY position\<close>: SQLite sorts NULL first.\<close>

definition position_key :: "'a turn_node_scheme \<Rightarrow> nat" where
  "position_key n = (case n_position n of None \<Rightarrow> 0 | Some p \<Rightarrow> Suc p)"

definition get_turn_nodes :: "string \<Rightarrow> 'a store_scheme \<Rightarrow> node_row list" where
  "get_turn_nodes tid s =
    order_by position_key (filter (\<lambda>n. n_turn_id n = Some tid) (nodes s))"

definition get_last_turn_node ::
  "string \<Rightarrow> turn_node_type \<Rightarrow> 'a store_scheme \<Rightarrow> node_row option" where
  "get_last_turn_node tid type s =
    fetchone (order_by_desc position_key
      (filter (\<lambda>n. n_turn_id n = Some tid \<and> n_type n = type) (nodes s)))"

definition get_turn_user_node :: "string \<Rightarrow> 'a store_scheme \<Rightarrow> node_row option" where
  "get_turn_user_node tid s =
    fetchone (order_by position_key
      (filter (\<lambda>n. n_turn_id n = Some tid \<and> n_type n = N_USER) (nodes s)))"

definition find_queued_node :: "string \<Rightarrow> string \<Rightarrow> 'a store_scheme \<Rightarrow> node_row option" where
  "find_queued_node cid message_id s =
    fetchone (order_by_desc n_created_at
      (filter (\<lambda>n. n_conversation_id n = cid \<and> n_turn_id n = None \<and>
                   n_source_message_id n = Some message_id) (nodes s)))"

definition find_last_node_id ::
  "string \<Rightarrow> turn_node_type \<Rightarrow> 'a store_scheme \<Rightarrow> string option" where
  "find_last_node_id tid type s =
    map_option n_id (fetchone (order_by_desc position_key
      (filter (\<lambda>n. n_turn_id n = Some tid \<and> n_type n = type) (nodes s))))"

definition append_node_text ::
  "string \<Rightarrow> string \<Rightarrow> 'a store_scheme \<Rightarrow> conv_error + node_row \<times> 'a store_scheme" where
  "append_node_text nid delta s =
    read_node nid
      (update_nodes (\<lambda>n. n_id n = nid)
        (\<lambda>n. n\<lparr>n_text := Some ((case n_text n of None \<Rightarrow> [] | Some t \<Rightarrow> t) @ delta),
                n_text_seq := n_text_seq n + 1, n_updated_at := utc_now s\<rparr>) s)"

definition update_node ::
  "string \<Rightarrow> string option \<Rightarrow> string option \<Rightarrow> dict option \<Rightarrow> 'a store_scheme
    \<Rightarrow> conv_error + node_row \<times> 'a store_scheme" where
  "update_node nid text status metadata s =
    (if text = None \<and> status = None \<and> metadata = None
     then bindE (get_node nid s) (\<lambda>n. Inr (n, s))
     else read_node nid
       (update_nodes (\<lambda>n. n_id n = nid)
         (\<lambda>n. n\<lparr>n_text := coalesce text (n_text n),
                 n_status := (case status of None \<Rightarrow> n_status n | Some x \<Rightarrow> x),
                 n_metadata := (case metadata of None \<Rightarrow> n_metadata n | Some d \<Rightarrow> d),
                 n_updated_at := utc_now s\<rparr>) s))"

end
