(* ===== verification/Store_Queue.thy ===== *)
theory Store_Queue
  imports Store_Turns
begin

text \<open>
  The second half of \<open>ConversationStore\<close> (\<open>gateway/conversation/store.py\<close>): the message
  queue with its optimistic lock and its undo window, steering counts, idempotency
  records, the outbox table, tool results, receipts, approvals and the retention
  statements.
\<close>

section \<open>Queue\<close>


text \<open>\<open>status NOT IN ('sent','injected','deleted','failed')\<close>, and the same with \<open>pending_delete\<close>.\<close>

definition queue_open :: "queue_item \<Rightarrow> bool" where
  "queue_open q \<longleftrightarrow> q_status q \<notin> {Q_SENT, Q_INJECTED, Q_DELETED, Q_FAILED}"

definition queue_active :: "queue_item \<Rightarrow> bool" where
  "queue_active q \<longleftrightarrow> queue_open q \<and> q_status q \<noteq> Q_PENDING_DELETE"

definition active_queue_count :: "string \<Rightarrow> 'a store_scheme \<Rightarrow> nat" where
  "active_queue_count cid s =
    sql_count (\<lambda>q. q_conversation_id q = cid \<and> queue_active q) (queue s)"

definition next_queue_position :: "string \<Rightarrow> 'a store_scheme \<Rightarrow> nat" where
  "next_queue_position cid s =
    (case sql_max q_position (filter (\<lambda>q. q_conversation_id q = cid \<and> queue_open q) (queue s)) of
      None \<Rightarrow> 1 | Some m \<Rightarrow> m + 1)"

definition enqueue_item ::
  "string \<Rightarrow> string \<Rightarrow> string option \<Rightarrow> string option \<Rightarrow> image list option
    \<Rightarrow> 'a store_scheme \<Rightarrow> conv_error + queue_item \<times> 'a store_scheme" where
  "enqueue_item cid text operation_id target_turn_id images s =
    (if strip text = [] then Inl ValidationFailed
     else if MAX_QUEUE_TEXT_LENGTH < length text then Inl QueueLimit
     else if MAX_ACTIVE_QUEUE_ITEMS \<le> active_queue_count cid s then Inl QueueLimit
     else
       (let position = next_queue_position cid s;
            (qid, s1) = gen_queue_item_id s;
            item = \<lparr>q_id = qid, q_conversation_id = cid, q_position = position,
                    q_revision = 1, q_status = Q_WAITING, q_text = text,
                    q_target_turn_id = target_turn_id, q_created_turn_id = None,
                    q_created_node_id = None, q_operation_id = operation_id,
                    q_created_at = utc_now s, q_updated_at = utc_now s,
                    q_images = (if images = Some [] then None else images)\<rparr>
        in bindE (insert_queue_item item s1) (\<lambda>s2. Inr (item, s2))))"

definition get_queue_item :: "string \<Rightarrow> 'a store_scheme \<Rightarrow> conv_error + queue_item" where
  "get_queue_item qid s = of_option ResourceNotFound (find_queue_row qid s)"

definition list_active_queue :: "string \<Rightarrow> 'a store_scheme \<Rightarrow> queue_item list" where
  "list_active_queue cid s =
    order_by q_position (filter (\<lambda>q. q_conversation_id q = cid \<and> queue_active q) (queue s))"

definition read_queue_item ::
  "string \<Rightarrow> 'a store_scheme \<Rightarrow> conv_error + queue_item \<times> 'a store_scheme" where
  "read_queue_item qid s = bindE (of_option PyTypeError (find_queue_row qid s)) (\<lambda>q. Inr (q, s))"

text \<open>
  One conditional UPDATE of \<open>update_queue_item\<close>: \<open>WHERE queue_item_id=? AND revision=?\<close>,
  which raises when no row was affected.
\<close>

definition cas_queue_item ::
  "string \<Rightarrow> nat \<Rightarrow> (queue_item \<Rightarrow> queue_item) \<Rightarrow> 'a store_scheme \<Rightarrow> conv_error + 'a store_scheme"
where
  "cas_queue_item qid expected f s =
    (let P = (\<lambda>q. q_id q = qid \<and> q_revision q = expected)
     in if sql_count P (queue s) = 0 then Inl QueueConflict
        else Inr (update_queue P
               (\<lambda>q. (f q)\<lparr>q_revision := q_revision q + 1, q_updated_at := utc_now s\<rparr>) s))"

definition update_queue_item ::
  "string \<Rightarrow> nat \<Rightarrow> string option \<Rightarrow> queue_item_status option \<Rightarrow> string option
    \<Rightarrow> 'a store_scheme \<Rightarrow> conv_error + queue_item \<times> 'a store_scheme" where
  "update_queue_item qid expected text status target_turn_id s =
    (case find_queue_row qid s of
      None \<Rightarrow> Inl ResourceNotFound
    | Some current \<Rightarrow>
        (if q_revision current \<noteq> expected then Inl QueueConflict
         else
           bindE (case text of
               None \<Rightarrow> Inr s
             | Some x \<Rightarrow> if MAX_QUEUE_TEXT_LENGTH < length x then Inl QueueLimit
                         else cas_queue_item qid expected (\<lambda>q. q\<lparr>q_text := x\<rparr>) s)
           (\<lambda>s1. bindE (case status of
               None \<Rightarrow> Inr s1
             | Some x \<Rightarrow> cas_queue_item qid expected (\<lambda>q. q\<lparr>q_status := x\<rparr>) s1)
           (\<lambda>s2. bindE (case target_turn_id of
               None \<Rightarrow> Inr s2
             | Some x \<Rightarrow> cas_queue_item qid expected (\<lambda>q. q\<lparr>q_target_turn_id := Some x\<rparr>) s2)
           (\<lambda>s3. read_queue_item qid s3)))))"

definition set_queue_status ::
  "string \<Rightarrow> queue_item_status \<Rightarrow> 'a store_scheme \<Rightarrow> conv_error + queue_item \<times> 'a store_scheme"
where
  "set_queue_status qid status s =
    read_queue_item qid
      (update_queue (\<lambda>q. q_id q = qid)
        (\<lambda>q. q\<lparr>q_status := status, q_revision := q_revision q + 1,
                q_updated_at := utc_now s\<rparr>) s)"

definition mark_queue_sent ::
  "string \<Rightarrow> string \<Rightarrow> string option \<Rightarrow> 'a store_scheme
    \<Rightarrow> conv_error + queue_item \<times> 'a store_scheme" where
  "mark_queue_sent qid tid nid s =
    read_queue_item qid
      (update_queue (\<lambda>q. q_id q = qid)
        (\<lambda>q. q\<lparr>q_status := Q_SENT, q_created_turn_id := Some tid, q_created_node_id := nid,
                q_revision := q_revision q + 1, q_updated_at := utc_now s\<rparr>) s)"

definition mark_queue_injected ::
  "string \<Rightarrow> string \<Rightarrow> 'a store_scheme \<Rightarrow> conv_error + queue_item \<times> 'a store_scheme" where
  "mark_queue_injected qid nid s =
    read_queue_item qid
      (update_queue (\<lambda>q. q_id q = qid)
        (\<lambda>q. q\<lparr>q_status := Q_INJECTED, q_created_node_id := Some nid,
                q_revision := q_revision q + 1, q_updated_at := utc_now s\<rparr>) s)"

fun index_of :: "string \<Rightarrow> queue_item list \<Rightarrow> nat option" where
  "index_of qid [] = None"
| "index_of qid (q # qs) = (if q_id q = qid then Some 0 else map_option Suc (index_of qid qs))"

definition set_queue_position :: "string \<Rightarrow> nat \<Rightarrow> 'a store_scheme \<Rightarrow> 'a store_scheme" where
  "set_queue_position qid position s =
    update_queue (\<lambda>q. q_id q = qid)
      (\<lambda>q. q\<lparr>q_position := position, q_revision := q_revision q + 1,
              q_updated_at := utc_now s\<rparr>) s"

definition move_queue_item ::
  "string \<Rightarrow> string \<Rightarrow> string \<Rightarrow> 'a store_scheme \<Rightarrow> conv_error + queue_item list \<times> 'a store_scheme"
where
  "move_queue_item cid qid direction s =
    (if direction \<noteq> ''up'' \<and> direction \<noteq> ''down'' then Inl ValidationFailed
     else
       (let items = list_active_queue cid s
        in case index_of qid items of
             None \<Rightarrow> Inl ResourceNotFound
           | Some idx \<Rightarrow>
               (let other = (if direction = ''up'' then int idx - 1 else int idx + 1)
                in if other < 0 \<or> int (length items) \<le> other then Inr (items, s)
                   else
                     (let a = items ! idx;
                          b = items ! nat other;
                          s1 = set_queue_position (q_id a) (q_position b) s;
                          s2 = set_queue_position (q_id b) (q_position a) s1
                      in Inr (list_active_queue cid s2, s2)))))"

definition undo_delete ::
  "string \<Rightarrow> 'a store_scheme \<Rightarrow> conv_error + queue_item \<times> 'a store_scheme" where
  "undo_delete qid s =
    bindE (get_queue_item qid s) (\<lambda>item.
      if q_status item \<noteq> Q_PENDING_DELETE then Inl QueueConflict
      else if int (UNDO_WINDOW_SECONDS * 1000) < int (utc_now s) - int (q_updated_at item)
      then Inl UndoExpired
      else read_queue_item qid
        (update_queue (\<lambda>q. q_id q = qid)
          (\<lambda>q. q\<lparr>q_status := Q_WAITING, q_revision := q_revision q + 1,
                  q_updated_at := utc_now s\<rparr>) s))"

definition clear_waiting_queue :: "string \<Rightarrow> 'a store_scheme \<Rightarrow> nat \<times> 'a store_scheme" where
  "clear_waiting_queue cid s =
    (let P = (\<lambda>q. q_conversation_id q = cid \<and> q_status q = Q_WAITING)
     in (sql_count P (queue s),
         update_queue P
           (\<lambda>q. q\<lparr>q_status := Q_DELETED, q_revision := q_revision q + 1,
                   q_updated_at := utc_now s\<rparr>) s))"

definition archive_expired_pending_deletes :: "'a store_scheme \<Rightarrow> nat \<times> 'a store_scheme" where
  "archive_expired_pending_deletes s =
    (let P = (\<lambda>q. q_status q = Q_PENDING_DELETE \<and>
                  int (q_updated_at q) < cutoff UNDO_WINDOW_SECONDS s)
     in (sql_count P (queue s),
         update_queue P
           (\<lambda>q. q\<lparr>q_status := Q_DELETED, q_revision := q_revision q + 1,
                   q_updated_at := utc_now s\<rparr>) s))"

section \<open>Deleting conversations\<close>

text \<open>
  The statements \<open>DELETE FROM <table> WHERE conversation_id=?\<close>. Deleting turns fails when a
  remaining node refers to one of them (the foreign key \<open>turn_nodes.turn_id\<close>).
\<close>

definition delete_nodes_of :: "string \<Rightarrow> 'a store_scheme \<Rightarrow> 'a store_scheme" where
  "delete_nodes_of cid s = s\<lparr>nodes := sql_delete (\<lambda>n. n_conversation_id n = cid) (nodes s)\<rparr>"

definition delete_turns_of :: "string \<Rightarrow> 'a store_scheme \<Rightarrow> conv_error + 'a store_scheme" where
  "delete_turns_of cid s =
    (let s1 = s\<lparr>turns := sql_delete (\<lambda>t. t_conversation_id t = cid) (turns s)\<rparr>
     in if list_all (\<lambda>n. turn_ref_ok (n_turn_id n) s1) (nodes s1) then Inr s1
        else Inl IntegrityError)"

definition delete_queue_of :: "string \<Rightarrow> 'a store_scheme \<Rightarrow> 'a store_scheme" where
  "delete_queue_of cid s = s\<lparr>queue := sql_delete (\<lambda>q. q_conversation_id q = cid) (queue s)\<rparr>"

definition delete_approvals_of :: "string \<Rightarrow> 'a store_scheme \<Rightarrow> 'a store_scheme" where
  "delete_approvals_of cid s =
    s\<lparr>approvals := sql_delete (\<lambda>a. ap_conversation_id a = cid) (approvals s)\<rparr>"

definition delete_results_of :: "string \<Rightarrow> 'a store_scheme \<Rightarrow> 'a store_scheme" where
  "delete_results_of cid s =
    s\<lparr>results := sql_delete (\<lambda>r. tr_conversation_id r = cid) (results s)\<rparr>"

definition delete_conversation ::
  "string \<Rightarrow> 'a store_scheme \<Rightarrow> conv_error + bool \<times> 'a store_scheme" where
  "delete_conversation cid s =
    bindE (delete_turns_of cid (delete_nodes_of cid s)) (\<lambda>s1.
      let s2 = delete_results_of cid (delete_approvals_of cid (delete_queue_of cid s1));
          s3 = s2\<lparr>idems := sql_delete (\<lambda>r. ir_conversation_id r = cid) (idems s2),
                  outbox := sql_delete (\<lambda>e. ob_conversation_id e = cid) (outbox s2),
                  receipts := sql_delete (\<lambda>r. rc_conversation_id r = cid) (receipts s2)\<rparr>
      in Inr (conv_exists cid s3,
              s3\<lparr>sessions := sql_delete (\<lambda>c. cv_id c = cid) (sessions s3)\<rparr>))"

text \<open>\<open>LIKE 'prefix%'\<close>: SQLite compares ASCII letters without case.\<close>

definition like_prefix :: "string \<Rightarrow> string \<Rightarrow> bool" where
  "like_prefix p s \<longleftrightarrow> take (length p) (map ascii_lower s) = map ascii_lower p"

definition system_conversation :: "conversation \<Rightarrow> bool" where
  "system_conversation c \<longleftrightarrow>
    cv_origin c = ''system'' \<or> like_prefix ''sched:'' (cv_session_key c) \<or>
    like_prefix ''heartbeat:'' (cv_session_key c) \<or> like_prefix ''system:'' (cv_session_key c)"

fun delete_conversations ::
  "string list \<Rightarrow> 'a store_scheme \<Rightarrow> conv_error + string list \<times> 'a store_scheme" where
  "delete_conversations [] s = Inr ([], s)"
| "delete_conversations (cid # cids) s =
    bindE (delete_conversation cid s) (\<lambda>(deleted, s1).
      bindE (delete_conversations cids s1) (\<lambda>(rest, s2).
        Inr (if deleted then cid # rest else rest, s2)))"

definition delete_stale_system_conversations ::
  "int \<Rightarrow> nat \<Rightarrow> 'a store_scheme \<Rightarrow> conv_error + string list \<times> 'a store_scheme" where
  "delete_stale_system_conversations retention_days batch_limit s =
    (let cut = cutoff (nat (max 1 retention_days) * 86400) s;
         rows = take batch_limit (order_by cv_updated_at
           (filter (\<lambda>c. system_conversation c \<and> int (cv_updated_at c) < cut) (sessions s)))
     in delete_conversations (map cv_id rows) s)"

definition clear_history ::
  "string \<Rightarrow> 'a store_scheme \<Rightarrow> conv_error + dict \<times> 'a store_scheme" where
  "clear_history cid s =
    (let counts =
       [(''turn_nodes'', jnat (sql_count (\<lambda>n. n_conversation_id n = cid) (nodes s))),
        (''turns'', jnat (sql_count (\<lambda>t. t_conversation_id t = cid) (turns s))),
        (''queue_items'', jnat (sql_count (\<lambda>q. q_conversation_id q = cid) (queue s))),
        (''approvals'', jnat (sql_count (\<lambda>a. ap_conversation_id a = cid) (approvals s))),
        (''tool_results'', jnat (sql_count (\<lambda>r. tr_conversation_id r = cid) (results s)))]
     in bindE (delete_turns_of cid (delete_nodes_of cid s)) (\<lambda>s1.
          Inr (counts,
               delete_results_of cid (delete_approvals_of cid (delete_queue_of cid s1)))))"

section \<open>Steering\<close>

definition count_steering_nodes :: "string \<Rightarrow> 'a store_scheme \<Rightarrow> nat" where
  "count_steering_nodes tid s =
    sql_count (\<lambda>n. n_turn_id n = Some tid \<and> n_type n = N_USER_STEERING) (nodes s)"

definition reset_interrupted_queue_items :: "'a store_scheme \<Rightarrow> nat \<times> 'a store_scheme" where
  "reset_interrupted_queue_items s =
    (let P = (\<lambda>q. q_status q \<in> {Q_WAITING_FOR_STEERING, Q_INJECTING})
     in (sql_count P (queue s),
         update_queue P
           (\<lambda>q. q\<lparr>q_status := Q_WAITING, q_revision := q_revision q + 1,
                   q_updated_at := utc_now s\<rparr>) s))"

section \<open>Idempotency\<close>

text \<open>\<open>(hit, result)\<close>; the stored \<open>NULL\<close> result reads back as the empty dictionary.\<close>

definition check_idempotency ::
  "string \<Rightarrow> string \<Rightarrow> string \<Rightarrow> 'a store_scheme \<Rightarrow> conv_error + dict option" where
  "check_idempotency operation_id cid request_hash s =
    (case lookup_row ir_operation_id operation_id (idems s) of
      None \<Rightarrow> Inr None
    | Some row \<Rightarrow>
        (if ir_request_hash row \<noteq> request_hash then Inl IdempotencyConflict
         else Inr (Some (case ir_result row of None \<Rightarrow> [] | Some d \<Rightarrow> d))))"

definition record_idempotency ::
  "string \<Rightarrow> string \<Rightarrow> string \<Rightarrow> dict option \<Rightarrow> 'a store_scheme \<Rightarrow> conv_error + 'a store_scheme"
where
  "record_idempotency operation_id cid request_hash result s =
    insert_idem \<lparr>ir_operation_id = operation_id, ir_conversation_id = cid,
                 ir_request_hash = request_hash, ir_result = result,
                 ir_created_at = utc_now s\<rparr> s"

definition cleanup_idempotency :: "'a store_scheme \<Rightarrow> nat \<times> 'a store_scheme" where
  "cleanup_idempotency s =
    (let P = (\<lambda>r. int (ir_created_at r) < cutoff IDEMPOTENCY_TTL_SECONDS s)
     in (sql_count P (idems s), s\<lparr>idems := sql_delete P (idems s)\<rparr>))"

section \<open>Outbox\<close>

definition append_outbox ::
  "string \<Rightarrow> string \<Rightarrow> string \<Rightarrow> nat \<Rightarrow> dict \<Rightarrow> 'a store_scheme
    \<Rightarrow> conv_error + outbox_event \<times> 'a store_scheme" where
  "append_outbox cid event_type scope version payload s =
    (let (oid, s1) = gen_outbox_id s;
         e = \<lparr>ob_id = oid, ob_conversation_id = cid, ob_event_type = event_type,
              ob_scope = scope, ob_version = version, ob_payload = payload,
              ob_created_at = utc_now s, ob_published_at = None\<rparr>
     in bindE (insert_outbox e s1) (\<lambda>s2. Inr (e, s2)))"

definition unpublished :: "'a outbox_event_scheme \<Rightarrow> bool" where
  "unpublished e \<longleftrightarrow> ob_published_at e = None"

definition list_unpublished_outbox :: "nat \<Rightarrow> 'a store_scheme \<Rightarrow> outbox_row list" where
  "list_unpublished_outbox limit s =
    take limit (order_by ob_created_at (filter unpublished (outbox s)))"

definition mark_outbox_published :: "string \<Rightarrow> 'a store_scheme \<Rightarrow> 'a store_scheme" where
  "mark_outbox_published oid s =
    update_outbox (\<lambda>e. ob_id e = oid) (\<lambda>e. e\<lparr>ob_published_at := Some (utc_now s)\<rparr>) s"

definition trim_outbox_backlog :: "nat \<Rightarrow> 'a store_scheme \<Rightarrow> nat \<times> 'a store_scheme" where
  "trim_outbox_backlog max_unpublished s =
    (let count = sql_count unpublished (outbox s)
     in if count \<le> max_unpublished then (0, s)
        else
          (let oldest = map ob_id (list_unpublished_outbox (count - max_unpublished) s);
               P = (\<lambda>e. ob_id e \<in> set oldest)
           in (sql_count P (outbox s), s\<lparr>outbox := sql_delete P (outbox s)\<rparr>)))"

definition cleanup_outbox :: "'a store_scheme \<Rightarrow> nat \<times> 'a store_scheme" where
  "cleanup_outbox s =
    (let P = (\<lambda>e. ob_published_at e \<noteq> None \<and> int (ob_created_at e) < cutoff OUTBOX_TTL_SECONDS s)
     in (sql_count P (outbox s), s\<lparr>outbox := sql_delete P (outbox s)\<rparr>))"

section \<open>Tool results and receipts\<close>

definition save_tool_result ::
  "string \<Rightarrow> string \<Rightarrow> string \<Rightarrow> string \<Rightarrow> string option \<Rightarrow> nat \<Rightarrow> nat \<Rightarrow> string option
    \<Rightarrow> dict option \<Rightarrow> string option \<Rightarrow> 'a store_scheme \<Rightarrow> conv_error + tool_result \<times> 'a store_scheme"
where
  "save_tool_result cid tid result_ref kind node_id size_bytes lines content_type summary
      truncation_reason s =
    (let r = \<lparr>tr_result_ref = result_ref, tr_conversation_id = cid, tr_turn_id = tid,
              tr_kind = kind, tr_node_id = node_id, tr_size_bytes = size_bytes,
              tr_lines = lines, tr_content_type = content_type,
              tr_summary = (case summary of None \<Rightarrow> [] | Some d \<Rightarrow> d),
              tr_truncation_reason = truncation_reason, tr_created_at = utc_now s\<rparr>
     in bindE (insert_result r s) (\<lambda>s1. Inr (r, s1)))"

definition get_tool_result :: "string \<Rightarrow> 'a store_scheme \<Rightarrow> conv_error + tool_result" where
  "get_tool_result result_ref s =
    of_option ResourceNotFound (lookup_row tr_result_ref result_ref (results s))"

definition cleanup_receipts :: "'a store_scheme \<Rightarrow> nat \<times> 'a store_scheme" where
  "cleanup_receipts s =
    (let P = (\<lambda>r. int (rc_created_at r) < cutoff RECEIPT_TTL_SECONDS s)
     in (sql_count P (receipts s), s\<lparr>receipts := sql_delete P (receipts s)\<rparr>))"

section \<open>Approvals\<close>

definition create_approval ::
  "string \<Rightarrow> string \<Rightarrow> string \<Rightarrow> string \<Rightarrow> string option
    \<Rightarrow> 'a store_scheme \<Rightarrow> conv_error + approval \<times> 'a store_scheme" where
  "create_approval cid tid tool_name params_summary node_id s =
    (let (aid, s1) = gen_approval_id s;
         a = \<lparr>ap_id = aid, ap_conversation_id = cid, ap_turn_id = tid,
              ap_tool_name = tool_name, ap_params_summary = params_summary,
              ap_status = A_PENDING, ap_node_id = node_id, ap_created_at = utc_now s,
              ap_resolved_at = None, ap_resolved_by = None\<rparr>
     in bindE (insert_approval a s1) (\<lambda>s2. Inr (a, s2)))"

definition get_approval :: "string \<Rightarrow> 'a store_scheme \<Rightarrow> conv_error + approval" where
  "get_approval aid s = of_option ResourceNotFound (find_approval aid s)"

definition resolve_approval ::
  "string \<Rightarrow> approval_status \<Rightarrow> string \<Rightarrow> 'a store_scheme \<Rightarrow> conv_error + approval \<times> 'a store_scheme"
where
  "resolve_approval aid status resolved_by s =
    bindE (get_approval aid s) (\<lambda>current.
      if ap_status current \<noteq> A_PENDING then Inl ApprovalConflict
      else
        (let s1 = update_approvals (\<lambda>a. ap_id a = aid)
               (\<lambda>a. a\<lparr>ap_status := status, ap_resolved_at := Some (utc_now s),
                       ap_resolved_by := Some resolved_by\<rparr>) s
         in bindE (of_option PyTypeError (find_approval aid s1)) (\<lambda>a. Inr (a, s1))))"

definition list_pending_approvals :: "string \<Rightarrow> 'a store_scheme \<Rightarrow> approval list" where
  "list_pending_approvals cid s =
    order_by ap_created_at
      (filter (\<lambda>a. ap_conversation_id a = cid \<and> ap_status a = A_PENDING) (approvals s))"

definition approval_stale :: "'a store_scheme \<Rightarrow> approval \<Rightarrow> bool" where
  "approval_stale s a \<longleftrightarrow>
    ap_status a = A_PENDING \<and> int (ap_created_at a) < cutoff APPROVAL_TIMEOUT_SECONDS s"

definition expire_stale_approvals :: "'a store_scheme \<Rightarrow> nat \<times> 'a store_scheme" where
  "expire_stale_approvals s =
    (sql_count (approval_stale s) (approvals s),
     update_approvals (approval_stale s)
       (\<lambda>a. a\<lparr>ap_status := A_TIMED_OUT, ap_resolved_at := Some (utc_now s)\<rparr>) s)"

end
