(* ===== verification/Store_Read.thy ===== *)
theory Store_Read
  imports Store_Queue "HOL-Library.Product_Lexorder"
begin

text \<open>
  \<open>snapshot\<close> and \<open>history_page\<close> of \<open>ConversationStore\<close>, and the correctness of the
  history pagination: following \<open>next_cursor\<close> neither loses nor repeats a turn.

  A history cursor is the pair the code puts into its base64 text (\<open>Keyset\<close>), or the
  time stamp of an old client (\<open>Legacy\<close>); the encoding itself is the standard library's.
\<close>

section \<open>Snapshot\<close>

definition snapshot :: "string \<Rightarrow> 'a store_scheme \<Rightarrow> conv_error + dict" where
  "snapshot cid s =
    (case find_session cid s of
      None \<Rightarrow> Inl ResourceNotFound
    | Some conv \<Rightarrow>
        (let queue_rows = list_active_queue cid s;
             turn_row = get_active_turn cid s;
             turn_version = (case turn_row of None \<Rightarrow> 0 | Some t \<Rightarrow> t_version t);
             node_rows = (case turn_row of None \<Rightarrow> [] | Some t \<Rightarrow> get_turn_nodes (t_id t) s);
             approval_rows = list_pending_approvals cid s;
             queued_node_rows = order_by n_created_at
               (filter (\<lambda>n. n_conversation_id n = cid \<and> n_turn_id n = None) (nodes s))
         in Inr
           [(''conversation'', JObj (conversation_to_dict conv)),
            (''session_version'', jnat (cv_session_version conv)),
            (''queue'', JList (map (\<lambda>q. JObj (queue_item_to_dict q)) queue_rows)),
            (''live_turn'', jopt (\<lambda>t. JObj (turn_to_dict t)) turn_row),
            (''turn_version'', jnat turn_version),
            (''nodes'', JList (map (\<lambda>n. JObj (node_to_dict n)) node_rows)),
            (''queued_nodes'', JList (map (\<lambda>n. JObj (node_to_dict n)) queued_node_rows)),
            (''pending_approvals'', JList (map (\<lambda>a. JObj (approval_to_dict a)) approval_rows)),
            (''server_time'', jnat (utc_now s))]))"

section \<open>History pages\<close>

datatype history_cursor = Keyset nat nat | Legacy nat

definition encode_history_cursor :: "nat \<Rightarrow> nat \<Rightarrow> history_cursor" where
  "encode_history_cursor started_at rowid = Keyset started_at rowid"

fun decode_history_cursor :: "history_cursor option \<Rightarrow> (nat \<times> nat option) option" where
  "decode_history_cursor None = None"
| "decode_history_cursor (Some (Keyset s r)) = Some (s, Some r)"
| "decode_history_cursor (Some (Legacy s)) = Some (s, None)"

definition before_cursor :: "history_cursor option \<Rightarrow> turn_row \<Rightarrow> bool" where
  "before_cursor before t =
    (case decode_history_cursor before of
      None \<Rightarrow> True
    | Some (ks, Some kr) \<Rightarrow> t_started_at t < ks \<or> (t_started_at t = ks \<and> t_rowid t < kr)
    | Some (ks, None) \<Rightarrow> t_started_at t < ks)"

definition history_key :: "turn_row \<Rightarrow> nat \<times> nat" where
  "history_key t = (t_started_at t, t_rowid t)"

record history_page =
  hp_items :: "(turn_row \<times> node_row list) list"
  hp_next_cursor :: "history_cursor option"

definition page_turns ::
  "string \<Rightarrow> history_cursor option \<Rightarrow> int \<Rightarrow> 'a store_scheme \<Rightarrow> turn_row list" where
  "page_turns cid before limit s =
    take (nat (max 1 (min limit 200)))
      (order_by_desc history_key
        (filter (\<lambda>t. t_conversation_id t = cid \<and> before_cursor before t) (turns s)))"

definition page_next_cursor ::
  "string \<Rightarrow> turn_row list \<Rightarrow> 'a store_scheme \<Rightarrow> history_cursor option" where
  "page_next_cursor cid page s =
    (if page = [] then None
     else
       (let l = last page
        in if list_ex (\<lambda>t. t_conversation_id t = cid \<and>
                (t_started_at t < t_started_at l \<or>
                 (t_started_at t = t_started_at l \<and> t_rowid t < t_rowid l))) (turns s)
           then Some (encode_history_cursor (t_started_at l) (t_rowid l))
           else None))"

definition history_page ::
  "string \<Rightarrow> history_cursor option \<Rightarrow> int \<Rightarrow> 'a store_scheme \<Rightarrow> history_page" where
  "history_page cid before limit s =
    (let page = page_turns cid before limit s
     in \<lparr>hp_items = map (\<lambda>t. (t, get_turn_nodes (t_id t) s)) (rev page),
         hp_next_cursor = page_next_cursor cid page s\<rparr>)"

section \<open>Pagination is lossless\<close>

definition unique_rowids :: "'a store_scheme \<Rightarrow> bool" where
  "unique_rowids s \<longleftrightarrow> unique_key t_rowid (turns s)"

text \<open>The turns of a conversation that a cursor leaves to fetch, oldest first.\<close>

definition remaining_turns ::
  "string \<Rightarrow> history_cursor option \<Rightarrow> 'a store_scheme \<Rightarrow> turn_row list" where
  "remaining_turns cid before s =
    rev (order_by_desc history_key
      (filter (\<lambda>t. t_conversation_id t = cid \<and> before_cursor before t) (turns s)))"

lemma remaining_eq_sort:
  "remaining_turns cid before s =
    sort_key history_key
      (rev (filter (\<lambda>t. t_conversation_id t = cid \<and> before_cursor before t) (turns s)))"
  by (simp add: remaining_turns_def order_by_desc_def)

lemma set_remaining_turns:
  "set (remaining_turns cid before s) =
    {t \<in> set (turns s). t_conversation_id t = cid \<and> before_cursor before t}"
  by (simp add: remaining_eq_sort)

lemma strict_sorted_remaining:
  assumes "unique_rowids s"
  shows "sorted_wrt (\<lambda>a b. history_key a < history_key b) (remaining_turns cid before s)"
proof -
  let ?ts = "remaining_turns cid before s"
  let ?f = "filter (\<lambda>t. t_conversation_id t = cid \<and> before_cursor before t) (turns s)"
  have "distinct (map t_rowid ?f)"
    using assms by (simp add: unique_rowids_def unique_key_def distinct_map_filter)
  then have "distinct (map history_key ?f)"
    by (auto simp: distinct_map inj_on_def history_key_def)
  then have "distinct (map history_key (rev ?f))" by (simp add: rev_map [symmetric])
  then have "distinct (map history_key ?ts)"
    by (simp add: remaining_eq_sort distinct_map)
  moreover have "sorted (map history_key ?ts)" by (simp add: remaining_eq_sort)
  ultimately have "sorted_wrt (<) (map history_key ?ts)"
    by (simp add: strict_sorted_iff)
  then show ?thesis by (simp add: sorted_wrt_map)
qed

lemma page_turns_eq:
  "rev (page_turns cid before limit s) =
    (let r = remaining_turns cid before s; n = nat (max 1 (min limit 200))
     in drop (length r - n) r)"
  by (simp add: page_turns_def remaining_turns_def Let_def rev_take)

lemma sorted_filter_below:
  assumes "sorted_wrt (\<lambda>a b. (f a :: 'k::linorder) < f b) (xs @ y # ys)"
  shows "filter (\<lambda>t. f t < f y) (xs @ y # ys) = xs"
proof -
  have "filter (\<lambda>t. f t < f y) xs = xs"
    using assms by (auto simp: sorted_wrt_append filter_id_conv)
  moreover have "filter (\<lambda>t. f t < f y) ys = []"
    using assms by (fastforce simp: sorted_wrt_append filter_empty_conv)
  ultimately show ?thesis by simp
qed

lemma before_keyset:
  "before_cursor (Some (encode_history_cursor a b)) t \<longleftrightarrow> history_key t < (a, b)"
  by (auto simp: before_cursor_def encode_history_cursor_def history_key_def less_prod_def)

lemma before_cursor_downward:
  assumes "before_cursor before l" and "history_key t < history_key l"
  shows "before_cursor before t"
proof (cases before)
  case None
  then show ?thesis by (simp add: before_cursor_def)
next
  case (Some c)
  then show ?thesis
    using assms by (cases c) (auto simp: before_cursor_def history_key_def less_prod_def)
qed

text \<open>What is left after the cursor at \<open>l\<close> is what was below \<open>l\<close> before.\<close>

lemma remaining_after_cursor:
  assumes u: "unique_rowids s"
    and split: "remaining_turns cid before s = older @ l # newer"
  shows "remaining_turns cid (Some (encode_history_cursor (t_started_at l) (t_rowid l))) s = older"
proof -
  let ?c = "Some (encode_history_cursor (t_started_at l) (t_rowid l))"
  have l: "before_cursor before l" "t_conversation_id l = cid"
    using set_remaining_turns [of cid before s] split by auto
  have "filter (\<lambda>t. t_conversation_id t = cid \<and> before_cursor ?c t) (turns s) =
    filter (\<lambda>t. history_key t < history_key l)
      (filter (\<lambda>t. t_conversation_id t = cid \<and> before_cursor before t) (turns s))"
    using before_cursor_downward [OF l(1)]
    by (auto simp: before_keyset history_key_def [of l] intro!: filter_cong)
  then have "remaining_turns cid ?c s =
    filter (\<lambda>t. history_key t < history_key l) (remaining_turns cid before s)"
    by (simp add: remaining_eq_sort rev_filter filter_sort)
  also have "\<dots> = older"
    using strict_sorted_remaining [OF u, of cid before] unfolding split
    by (rule sorted_filter_below)
  finally show ?thesis .
qed

lemma page_turns_split:
  "remaining_turns cid before s =
    (let r = remaining_turns cid before s; n = nat (max 1 (min limit 200))
     in take (length r - n) r) @ rev (page_turns cid before limit s)"
  by (simp add: page_turns_eq Let_def)

lemma history_page_advances:
  assumes u: "unique_rowids s"
  shows "\<exists>older. remaining_turns cid before s = older @ map fst (hp_items (history_page cid before limit s)) \<and>
    (case hp_next_cursor (history_page cid before limit s) of
       None \<Rightarrow> older = []
     | Some c \<Rightarrow> older \<noteq> [] \<and> remaining_turns cid (Some c) s = older)"
proof -
  let ?r = "remaining_turns cid before s"
  let ?n = "nat (max 1 (min limit 200))"
  let ?page = "page_turns cid before limit s"
  define older where "older = take (length ?r - ?n) ?r"
  have split: "?r = older @ rev ?page"
    using page_turns_split [of cid before s limit] by (simp add: older_def Let_def)
  have items: "map fst (hp_items (history_page cid before limit s)) = rev ?page"
    by (simp add: history_page_def Let_def comp_def)
  show ?thesis
  proof (cases "?page = []")
    case True
    then have "length (rev ?page) = 0" by simp
    moreover have "length (rev ?page) = length ?r - (length ?r - ?n)"
      by (subst page_turns_eq) (simp only: Let_def length_drop)
    moreover have "0 < ?n" by simp
    ultimately have "length ?r = 0" by linarith
    then have "?r = []" by simp
    then have "older = []" by (simp add: older_def)
    with True split items show ?thesis
      by (intro exI [of _ older]) (simp add: history_page_def page_next_cursor_def)
  next
    case False
    define l where "l = last ?page"
    obtain newer where page: "rev ?page = l # newer"
      using False by (metis l_def hd_rev list.collapse rev_is_Nil_conv)
    have rest: "remaining_turns cid (Some (encode_history_cursor (t_started_at l) (t_rowid l))) s = older"
      by (rule remaining_after_cursor [OF u]) (use split page in simp)
    have ex: "list_ex (\<lambda>t. t_conversation_id t = cid \<and>
        (t_started_at t < t_started_at l \<or> (t_started_at t = t_started_at l \<and> t_rowid t < t_rowid l)))
        (turns s) \<longleftrightarrow> older \<noteq> []"
    proof -
      have so: "set older = {t \<in> set (turns s). t_conversation_id t = cid \<and>
        (t_started_at t < t_started_at l \<or> (t_started_at t = t_started_at l \<and> t_rowid t < t_rowid l))}"
        unfolding rest [symmetric] set_remaining_turns before_cursor_def encode_history_cursor_def
          decode_history_cursor.simps option.case prod.case ..
      have ne: "older \<noteq> [] \<longleftrightarrow> set older \<noteq> {}" by simp
      show ?thesis unfolding ne so list_ex_iff by blast
    qed
    have nc: "hp_next_cursor (history_page cid before limit s) =
      (if older \<noteq> [] then Some (encode_history_cursor (t_started_at l) (t_rowid l)) else None)"
    proof -
      have "hp_next_cursor (history_page cid before limit s) = page_next_cursor cid ?page s"
        by (simp add: history_page_def Let_def)
      also have "\<dots> = (if older \<noteq> [] then Some (encode_history_cursor (t_started_at l) (t_rowid l)) else None)"
        unfolding page_next_cursor_def Let_def l_def [symmetric] ex using False by (simp only: if_False)
      finally show ?thesis .
    qed
    show ?thesis
    proof (intro exI conjI)
      show "?r = older @ map fst (hp_items (history_page cid before limit s))"
        unfolding items by (rule split)
      show "case hp_next_cursor (history_page cid before limit s) of
          None \<Rightarrow> older = []
        | Some c \<Rightarrow> older \<noteq> [] \<and> remaining_turns cid (Some c) s = older"
        by (simp add: nc rest)
    qed
  qed
qed

end
