(* ===== verification/Sql_Like.thy ===== *)
theory Sql_Like
  imports Store_Queue
begin

text \<open>
  The LIKE pattern of \<open>list_conversation_keys_with_prefix\<close>: SQLite's matcher with an
  escape character, the escaping of the prefix, and the proof that the escaped prefix
  matches exactly the keys that start with it (ASCII letters compared without case), so
  that no wildcard of the prefix takes effect.
\<close>

definition BACKSLASH :: char where "BACKSLASH = CHR 0x5C"
definition PERCENT :: char where "PERCENT = CHR 0x25"
definition UNDERSCORE :: char where "UNDERSCORE = CHR 0x5F"

text \<open>SQLite's \<open>s LIKE p ESCAPE '\'\<close>.\<close>

fun like_match :: "string \<Rightarrow> string \<Rightarrow> bool" where
  "like_match [] s = (s = [])"
| "like_match (p # ps) [] =
    (if p = PERCENT then like_match ps [] else False)"
| "like_match (p # ps) (c # cs) =
    (if p = BACKSLASH then
       (case ps of [] \<Rightarrow> False | q # qs \<Rightarrow> ascii_lower q = ascii_lower c \<and> like_match qs cs)
     else if p = PERCENT then like_match ps (c # cs) \<or> like_match (p # ps) cs
     else if p = UNDERSCORE then like_match ps cs
     else ascii_lower p = ascii_lower c \<and> like_match ps cs)"

definition replace_char :: "char \<Rightarrow> string \<Rightarrow> string \<Rightarrow> string" where
  "replace_char c r s = concat (map (\<lambda>x. if x = c then r else [x]) s)"

definition like_escape :: "string \<Rightarrow> string" where
  "like_escape prefix =
    replace_char UNDERSCORE [BACKSLASH, UNDERSCORE]
      (replace_char PERCENT [BACKSLASH, PERCENT]
        (replace_char BACKSLASH [BACKSLASH, BACKSLASH] prefix))"

definition list_conversation_keys_with_prefix :: "string \<Rightarrow> 'a store_scheme \<Rightarrow> string list" where
  "list_conversation_keys_with_prefix prefix s =
    (if prefix = [] then []
     else filter (like_match (like_escape prefix @ [PERCENT])) (map cv_session_key (sessions s)))"

lemmas like_chars = BACKSLASH_def PERCENT_def UNDERSCORE_def

lemma replace_char_simps [simp]:
  "replace_char c r [] = []"
  "replace_char c r (x # xs) = (if x = c then r else [x]) @ replace_char c r xs"
  by (simp_all add: replace_char_def)

lemma replace_char_append: "replace_char c r (xs @ ys) = replace_char c r xs @ replace_char c r ys"
  by (simp add: replace_char_def)

text \<open>The three replacements together put a backslash before every special character.\<close>

lemma like_escape_simps:
  "like_escape [] = []"
  "like_escape (c # cs) =
    (if c = BACKSLASH \<or> c = PERCENT \<or> c = UNDERSCORE then [BACKSLASH, c] else [c]) @ like_escape cs"
  by (simp_all add: like_escape_def replace_char_append like_chars)

lemma like_match_all [simp]: "like_match [PERCENT] s"
  by (induction s) (simp_all add: like_chars)

lemma like_prefix_simps:
  "like_prefix [] s"
  "\<not> like_prefix (p # ps) []"
  "like_prefix (p # ps) (c # cs) \<longleftrightarrow> ascii_lower p = ascii_lower c \<and> like_prefix ps cs"
  by (auto simp: like_prefix_def)

lemma like_escape_exact: "like_match (like_escape p @ [PERCENT]) s \<longleftrightarrow> like_prefix p s"
proof (induction p arbitrary: s)
  case Nil
  then show ?case by (simp add: like_escape_simps like_prefix_simps)
next
  case (Cons c p)
  then show ?case
    by (cases s) (auto simp: like_escape_simps like_prefix_simps like_chars)
qed

end
