(* ===== verification/Store_Inv.thy ===== *)
theory Store_Inv
  imports Store_Read
begin

text \<open>
  The invariant of the conversation database and its preservation by every operation of
  \<open>ConversationStore\<close>.

  Each table has a predicate over its rows and the keys it refers to: \<open>C\<close> is the set of
  conversation ids, \<open>T\<close> the set of (turn id, conversation id) pairs. Besides primary and
  foreign keys they say that the nodes of a turn have distinct positions, that a node and
  its turn are in one conversation, and that the open queue items of a conversation have
  distinct positions, so that \<open>ORDER BY position\<close> is a total order.
  \<open>one_active\<close> is kept apart: at most one turn of a conversation is not terminal.

  The lemmas are in the form "the operation returned \<open>s'\<close>, the invariant held before, so
  it holds after" and are collected in \<open>inv_dests\<close>, which the service proofs use to
  chain them along an operation.
\<close>

named_theorems inv_dests "store operations keep the database invariant"

section \<open>The predicates\<close>

definition sessions_ok :: "conversation list \<Rightarrow> bool" where
  "sessions_ok ss \<longleftrightarrow> unique_key cv_id ss \<and> unique_key cv_session_key ss"

definition turns_ok :: "string set \<Rightarrow> turn_row list \<Rightarrow> bool" where
  "turns_ok C ts \<longleftrightarrow> unique_key t_id ts \<and> unique_key t_rowid ts \<and>
    (\<forall>t \<in> set ts. t_conversation_id t \<in> C)"

definition one_active :: "turn_row list \<Rightarrow> bool" where
  "one_active ts \<longleftrightarrow>
    (\<forall>cid. sql_count (\<lambda>t. t_conversation_id t = cid \<and> turn_active t) ts \<le> 1)"

definition positions_ok :: "node_row list \<Rightarrow> bool" where
  "positions_ok ns \<longleftrightarrow>
    distinct_among (\<lambda>n. n_turn_id n \<noteq> None) (\<lambda>n. (n_turn_id n, n_position n)) ns \<and>
    (\<forall>n \<in> set ns. n_turn_id n \<noteq> None \<longrightarrow> n_position n \<noteq> None)"

definition nodes_ok :: "string set \<Rightarrow> (string \<times> string) set \<Rightarrow> node_row list \<Rightarrow> bool" where
  "nodes_ok C T ns \<longleftrightarrow> unique_key n_id ns \<and>
    (\<forall>n \<in> set ns. n_conversation_id n \<in> C \<and>
      (\<forall>tid. n_turn_id n = Some tid \<longrightarrow> (tid, n_conversation_id n) \<in> T)) \<and>
    positions_ok ns"

definition queue_ok :: "string set \<Rightarrow> queue_item list \<Rightarrow> bool" where
  "queue_ok C qs \<longleftrightarrow> unique_key q_id qs \<and>
    (\<forall>q \<in> set qs. q_conversation_id q \<in> C) \<and>
    distinct_among queue_open (\<lambda>q. (q_conversation_id q, q_position q)) qs"

definition log_ok :: "string set \<Rightarrow> ('r \<Rightarrow> 'k) \<Rightarrow> ('r \<Rightarrow> string) \<Rightarrow> 'r list \<Rightarrow> bool" where
  "log_ok C key owner rows \<longleftrightarrow> unique_key key rows \<and> (\<forall>r \<in> set rows. owner r \<in> C)"

definition conv_ids :: "'a store_scheme \<Rightarrow> string set" where
  "conv_ids s = cv_id ` set (sessions s)"

definition turn_owners :: "'a store_scheme \<Rightarrow> (string \<times> string) set" where
  "turn_owners s = (\<lambda>t. (t_id t, t_conversation_id t)) ` set (turns s)"

definition store_inv :: "'a store_scheme \<Rightarrow> bool" where
  "store_inv s \<longleftrightarrow>
    sessions_ok (sessions s) \<and>
    turns_ok (conv_ids s) (turns s) \<and>
    nodes_ok (conv_ids s) (turn_owners s) (nodes s) \<and>
    queue_ok (conv_ids s) (queue s) \<and>
    log_ok (conv_ids s) ap_id ap_conversation_id (approvals s) \<and>
    log_ok (conv_ids s) tr_result_ref tr_conversation_id (results s) \<and>
    log_ok (conv_ids s) ir_operation_id ir_conversation_id (idems s) \<and>
    log_ok (conv_ids s) ob_id ob_conversation_id (outbox s) \<and>
    log_ok (conv_ids s) (\<lambda>r. (rc_channel r, rc_message_id r)) rc_conversation_id (receipts s)"

text \<open>A database with the given clock and token stream and no rows.\<close>

definition empty_store :: "nat \<Rightarrow> (nat \<Rightarrow> string) \<Rightarrow> store" where
  "empty_store t0 tokens =
    \<lparr>sessions = [], turns = [], nodes = [], queue = [], approvals = [], results = [],
     idems = [], outbox = [], receipts = [], now = t0, rnd = tokens, rix = 0\<rparr>"

lemmas table_ok_defs = sessions_ok_def turns_ok_def nodes_ok_def queue_ok_def log_ok_def
  positions_ok_def

lemma store_inv_empty: "store_inv (empty_store t0 tokens)"
  by (simp add: store_inv_def empty_store_def table_ok_defs)

text \<open>The invariant does not depend on the clock or on the tokens drawn.\<close>

lemma store_inv_frame [simp]:
  "store_inv (s\<lparr>rix := i\<rparr>) = store_inv s"
  "store_inv (s\<lparr>now := t\<rparr>) = store_inv s"
  by (simp_all add: store_inv_def conv_ids_def turn_owners_def)

lemma conv_exists_iff: "conv_exists cid s \<longleftrightarrow> cid \<in> conv_ids s"
  by (auto simp: conv_exists_def conv_ids_def)

lemma turn_exists_iff: "turn_exists tid s \<longleftrightarrow> (\<exists>cid. (tid, cid) \<in> turn_owners s)"
  by (auto simp: turn_exists_def turn_owners_def)

section \<open>Rows that tables gain\<close>

lemma nodes_ok_snoc:
  assumes "nodes_ok C T ns" and "n_id n \<notin> set (map n_id ns)"
    and "n_conversation_id n \<in> C"
    and "\<And>tid. n_turn_id n = Some tid \<Longrightarrow> (tid, n_conversation_id n) \<in> T \<and> n_position n \<noteq> None \<and>
      (\<forall>n' \<in> set ns. n_turn_id n' = Some tid \<longrightarrow> n_position n' \<noteq> n_position n)"
  shows "nodes_ok C T (ns @ [n])"
  using assms by (auto simp: nodes_ok_def positions_ok_def intro: unique_key_snoc)

lemma queue_ok_snoc:
  assumes "queue_ok C qs" and "q_id q \<notin> set (map q_id qs)" and "q_conversation_id q \<in> C"
    and "\<And>q'. q' \<in> set qs \<Longrightarrow> queue_open q' \<Longrightarrow> q_conversation_id q' = q_conversation_id q \<Longrightarrow>
      q_position q' \<noteq> q_position q"
  shows "queue_ok C (qs @ [q])"
  using assms by (auto simp: queue_ok_def intro: unique_key_snoc)

lemma log_ok_snoc:
  "log_ok C key owner rows \<Longrightarrow> key r \<notin> set (map key rows) \<Longrightarrow> owner r \<in> C \<Longrightarrow>
   log_ok C key owner (rows @ [r])"
  by (auto simp: log_ok_def intro: unique_key_snoc)

lemma log_ok_delete: "log_ok C key owner rows \<Longrightarrow> log_ok C key owner (sql_delete P rows)"
  by (auto simp: log_ok_def row_simps intro: key_intros)

lemma log_ok_update:
  "log_ok C key owner rows \<Longrightarrow> (\<And>r. key (f r) = key r) \<Longrightarrow> (\<And>r. owner (f r) = owner r) \<Longrightarrow>
   log_ok C key owner (sql_update P f rows)"
  by (auto simp: log_ok_def row_simps intro!: key_intros)

text \<open>Updates that keep the keys and the positions, and do not open what was archived.\<close>

lemma nodes_ok_update:
  assumes "nodes_ok C T ns"
    and "\<And>n. n_id (f n) = n_id n" "\<And>n. n_conversation_id (f n) = n_conversation_id n"
    and "\<And>n. n_turn_id (f n) = n_turn_id n" "\<And>n. n_position (f n) = n_position n"
  shows "nodes_ok C T (sql_update P f ns)"
  using assms
  by (auto simp: nodes_ok_def positions_ok_def row_simps split: if_splits
      intro!: unique_key_update distinct_among_update)

lemma queue_ok_update:
  assumes "queue_ok C qs"
    and "\<And>q. q_id (f q) = q_id q" "\<And>q. q_conversation_id (f q) = q_conversation_id q"
    and "\<And>q. q_position (f q) = q_position q"
    and "\<And>q. q \<in> set qs \<Longrightarrow> P q \<Longrightarrow> queue_open (f q) \<Longrightarrow> queue_open q"
  shows "queue_ok C (sql_update P f qs)"
  using assms
  by (auto simp: queue_ok_def row_simps intro!: unique_key_update distinct_among_update)

section \<open>Statements\<close>

lemma conv_ids_update_sessions [simp]:
  "(\<And>c. cv_id (f c) = cv_id c) \<Longrightarrow> conv_ids (update_sessions P f s) = conv_ids s"
  unfolding conv_ids_def update_sessions_def set_map [symmetric] by (simp del: set_map)

lemma turn_owners_update_turns [simp]:
  "(\<And>t. t_id (f t) = t_id t) \<Longrightarrow> (\<And>t. t_conversation_id (f t) = t_conversation_id t) \<Longrightarrow>
   turn_owners (update_turns P f s) = turn_owners s"
  unfolding turn_owners_def update_turns_def set_map [symmetric] by (simp del: set_map)

lemma store_inv_update_sessions:
  assumes "store_inv s" and "\<And>c. cv_id (f c) = cv_id c"
    and "\<And>c. cv_session_key (f c) = cv_session_key c"
  shows "store_inv (update_sessions P f s)"
proof -
  have "turn_owners (update_sessions P f s) = turn_owners s"
    by (simp add: turn_owners_def update_sessions_def)
  moreover have "sessions_ok (sessions (update_sessions P f s))"
    using assms by (auto simp: store_inv_def sessions_ok_def update_sessions_def intro!: unique_key_update)
  ultimately show ?thesis
    using assms by (simp add: store_inv_def) (simp add: update_sessions_def)
qed

lemma turns_ok_update:
  assumes "turns_ok C ts" and "\<And>t. t_id (f t) = t_id t" and "\<And>t. t_rowid (f t) = t_rowid t"
    and "\<And>t. t_conversation_id (f t) = t_conversation_id t"
  shows "turns_ok C (sql_update P f ts)"
  using assms by (auto simp: turns_ok_def row_simps intro!: unique_key_update)

lemma store_inv_update_turns:
  assumes "store_inv s" and "\<And>t. t_id (f t) = t_id t" and "\<And>t. t_rowid (f t) = t_rowid t"
    and "\<And>t. t_conversation_id (f t) = t_conversation_id t"
  shows "store_inv (update_turns P f s)"
proof -
  have "conv_ids (update_turns P f s) = conv_ids s"
    by (simp add: conv_ids_def update_turns_def)
  moreover have "turns_ok (conv_ids s) (turns (update_turns P f s))"
    using assms by (simp add: store_inv_def update_turns_def turns_ok_update)
  ultimately show ?thesis
    using assms by (simp add: store_inv_def) (simp add: update_turns_def)
qed

lemma store_inv_update_nodes:
  assumes "store_inv s" and "\<And>n. n_id (f n) = n_id n"
    and "\<And>n. n_conversation_id (f n) = n_conversation_id n"
    and "\<And>n. n_turn_id (f n) = n_turn_id n" and "\<And>n. n_position (f n) = n_position n"
  shows "store_inv (update_nodes P f s)"
  using assms
  by (simp add: store_inv_def update_nodes_def conv_ids_def turn_owners_def nodes_ok_update)

lemma store_inv_update_queue:
  assumes "store_inv s" and "\<And>q. q_id (f q) = q_id q"
    and "\<And>q. q_conversation_id (f q) = q_conversation_id q" and "\<And>q. q_position (f q) = q_position q"
    and "\<And>q. q \<in> set (queue s) \<Longrightarrow> P q \<Longrightarrow> queue_open (f q) \<Longrightarrow> queue_open q"
  shows "store_inv (update_queue P f s)"
  using assms
  by (simp add: store_inv_def update_queue_def conv_ids_def turn_owners_def queue_ok_update)

lemma store_inv_update_approvals:
  assumes "store_inv s" and "\<And>a. ap_id (f a) = ap_id a"
    and "\<And>a. ap_conversation_id (f a) = ap_conversation_id a"
  shows "store_inv (update_approvals P f s)"
  using assms
  by (simp add: store_inv_def update_approvals_def conv_ids_def turn_owners_def log_ok_update)

lemma store_inv_update_outbox:
  assumes "store_inv s" and "\<And>e. ob_id (f e) = ob_id e"
    and "\<And>e. ob_conversation_id (f e) = ob_conversation_id e"
  shows "store_inv (update_outbox P f s)"
  using assms
  by (simp add: store_inv_def update_outbox_def conv_ids_def turn_owners_def log_ok_update)

lemmas store_inv_updates = store_inv_update_sessions store_inv_update_turns
  store_inv_update_nodes store_inv_update_queue store_inv_update_approvals store_inv_update_outbox

text \<open>Insertions that succeeded.\<close>

lemma turns_ok_mono: "turns_ok C ts \<Longrightarrow> C \<subseteq> D \<Longrightarrow> turns_ok D ts"
  by (auto simp: turns_ok_def)

lemma nodes_ok_mono: "nodes_ok C T ns \<Longrightarrow> C \<subseteq> D \<Longrightarrow> T \<subseteq> U \<Longrightarrow> nodes_ok D U ns"
  by (fastforce simp: nodes_ok_def)

lemma queue_ok_mono: "queue_ok C qs \<Longrightarrow> C \<subseteq> D \<Longrightarrow> queue_ok D qs"
  by (auto simp: queue_ok_def)

lemma log_ok_mono: "log_ok C key owner rows \<Longrightarrow> C \<subseteq> D \<Longrightarrow> log_ok D key owner rows"
  by (auto simp: log_ok_def)

lemmas table_ok_mono = turns_ok_mono nodes_ok_mono queue_ok_mono log_ok_mono

lemma insert_session_inv:
  assumes "insert_session c s = Inr s'" and "store_inv s"
  shows "store_inv s'"
proof -
  have s': "s' = s\<lparr>sessions := sessions s @ [c]\<rparr>"
    and new: "cv_id c \<notin> set (map cv_id (sessions s))"
      "cv_session_key c \<notin> set (map cv_session_key (sessions s))"
    using assms(1) by (auto simp: insert_session_def split: if_splits)
  have "conv_ids s \<subseteq> conv_ids s'" "turn_owners s' = turn_owners s"
    by (auto simp: s' conv_ids_def turn_owners_def)
  then show ?thesis
    using assms(2) new unfolding store_inv_def s'
    by (auto simp: sessions_ok_def intro: unique_key_snoc elim!: table_ok_mono)
qed

lemma insert_turn_inv:
  assumes "insert_turn t s = Inr s'" and "store_inv s"
  shows "store_inv s'"
proof -
  define r where "r = turn.extend t (turn_row.fields
    (case sql_max t_rowid (turns s) of None \<Rightarrow> 1 | Some m \<Rightarrow> Suc m))"
  have s': "s' = s\<lparr>turns := turns s @ [r]\<rparr>"
    and new: "t_id r \<notin> set (map t_id (turns s))" and conv: "t_conversation_id r \<in> conv_ids s"
    using assms(1) by (auto simp: insert_turn_def r_def turn.extend_def turn_row.fields_def
        conv_exists_iff split: if_splits)
  have "t_rowid r \<notin> set (map t_rowid (turns s))"
    using sql_max_ge [of t_rowid "turns s"]
    by (fastforce simp: r_def turn.extend_def turn_row.fields_def split: option.splits)
  then have "turns_ok (conv_ids s) (turns s @ [r])"
    using assms(2) new conv by (auto simp: store_inv_def turns_ok_def intro: unique_key_snoc)
  moreover have "turn_owners s \<subseteq> turn_owners s'" "conv_ids s' = conv_ids s"
    by (auto simp: s' conv_ids_def turn_owners_def)
  ultimately show ?thesis
    using assms(2) unfolding store_inv_def s' by (auto elim!: nodes_ok_mono)
qed

lemma insert_node_inv:
  assumes "insert_node n s = Inr s'" and "store_inv s"
    and "\<And>tid. n_turn_id n = Some tid \<Longrightarrow> (tid, n_conversation_id n) \<in> turn_owners s \<and>
      n_position n \<noteq> None \<and>
      (\<forall>n' \<in> set (nodes s). n_turn_id n' = Some tid \<longrightarrow> n_position n' \<noteq> n_position n)"
  shows "store_inv s'"
proof -
  have s': "s' = s\<lparr>nodes := nodes s @ [n]\<rparr>"
    and new: "n_id n \<notin> set (map n_id (nodes s))" "n_conversation_id n \<in> conv_ids s"
    using assms(1) by (auto simp: insert_node_def conv_exists_iff split: if_splits)
  have "nodes_ok (conv_ids s) (turn_owners s) (nodes s @ [n])"
    using assms(2,3) new by (intro nodes_ok_snoc) (auto simp: store_inv_def)
  then show ?thesis
    using assms(2) by (simp add: s' store_inv_def conv_ids_def turn_owners_def)
qed

lemma insert_queue_item_inv:
  assumes "insert_queue_item q s = Inr s'" and "store_inv s"
    and "\<And>q'. q' \<in> set (queue s) \<Longrightarrow> queue_open q' \<Longrightarrow> q_conversation_id q' = q_conversation_id q \<Longrightarrow>
      q_position q' \<noteq> q_position q"
  shows "store_inv s'"
proof -
  have s': "s' = s\<lparr>queue := queue s @ [q]\<rparr>"
    and new: "q_id q \<notin> set (map q_id (queue s))" "q_conversation_id q \<in> conv_ids s"
    using assms(1) by (auto simp: insert_queue_item_def conv_exists_iff split: if_splits)
  have "queue_ok (conv_ids s) (queue s @ [q])"
    using assms(2,3) new by (intro queue_ok_snoc) (auto simp: store_inv_def)
  then show ?thesis
    using assms(2) by (simp add: s' store_inv_def conv_ids_def turn_owners_def)
qed

lemma insert_approval_inv: "insert_approval a s = Inr s' \<Longrightarrow> store_inv s \<Longrightarrow> store_inv s'"
  by (auto simp: insert_approval_def conv_exists_iff store_inv_def conv_ids_def turn_owners_def
      intro!: log_ok_snoc split: if_splits)

lemma insert_result_inv: "insert_result r s = Inr s' \<Longrightarrow> store_inv s \<Longrightarrow> store_inv s'"
  by (auto simp: insert_result_def conv_exists_iff store_inv_def conv_ids_def turn_owners_def
      intro!: log_ok_snoc split: if_splits)

lemma insert_idem_inv: "insert_idem r s = Inr s' \<Longrightarrow> store_inv s \<Longrightarrow> store_inv s'"
  by (auto simp: insert_idem_def conv_exists_iff store_inv_def conv_ids_def turn_owners_def
      intro!: log_ok_snoc split: if_splits)

lemma insert_outbox_inv: "insert_outbox e s = Inr s' \<Longrightarrow> store_inv s \<Longrightarrow> store_inv s'"
  by (auto simp: insert_outbox_def conv_exists_iff store_inv_def conv_ids_def turn_owners_def
      outbox_event.extend_def outbox_row.fields_def intro!: log_ok_snoc split: if_splits)

section \<open>Operations on conversations and turns\<close>

lemma create_conversation_inv [inv_dests]:
  assumes "create_conversation key origin subtype scope ws meta s = Inr (r, s')" and "store_inv s"
  shows "store_inv s'"
  using assms
  by (auto simp: create_conversation_def gen_ids Let_def dest!: insert_session_inv
      split: option.splits sum.splits)

lemma update_conversation_metadata_inv [inv_dests]:
  assumes "update_conversation_metadata cid meta s = Inr (c, s')" and "store_inv s"
  shows "store_inv s'"
  using assms
  by (auto simp: update_conversation_metadata_def Let_def intro!: store_inv_update_sessions
      split: option.splits)

lemma bump_session_version_inv [inv_dests]:
  assumes "bump_session_version cid s = (v, s')" and "store_inv s"
  shows "store_inv s'"
  using assms
  by (auto simp: bump_session_version_def Let_def intro!: store_inv_update_sessions)

lemma create_turn_inv [inv_dests]:
  "create_turn cid st snap pc pt s = Inr (t, s') \<Longrightarrow> store_inv s \<Longrightarrow> store_inv s'"
  by (auto simp: create_turn_def gen_ids Let_def dest!: insert_turn_inv)

lemma create_turn_if_no_active_inv [inv_dests]:
  "create_turn_if_no_active cid st snap pc pt s = Inr (t, s') \<Longrightarrow> store_inv s \<Longrightarrow> store_inv s'"
  by (auto simp: create_turn_if_no_active_def gen_ids Let_def dest!: insert_turn_inv split: if_splits)

lemma update_turn_status_inv [inv_dests]:
  "update_turn_status tid st ec fin fnode s = Inr (t, s') \<Longrightarrow> store_inv s \<Longrightarrow> store_inv s'"
  by (auto simp: update_turn_status_def Let_def intro!: store_inv_update_turns)

lemma bump_turn_version_inv [inv_dests]:
  "bump_turn_version tid s = (v, s') \<Longrightarrow> store_inv s \<Longrightarrow> store_inv s'"
  by (auto simp: bump_turn_version_def Let_def intro!: store_inv_update_turns)

lemma finalize_turn_nodes_inv [inv_dests]:
  "finalize_turn_nodes tid s = (k, s') \<Longrightarrow> store_inv s \<Longrightarrow> store_inv s'"
  by (auto simp: finalize_turn_nodes_def Let_def intro!: store_inv_update_nodes)

lemma sweep_rows_inv:
  "sweep_rows nt code rows s = (sw, s') \<Longrightarrow> store_inv s \<Longrightarrow> store_inv s'"
proof (induction nt code rows s arbitrary: sw s' rule: sweep_rows.induct)
  case (2 nt code row rows s)
  let ?f = "\<lambda>n. n\<lparr>n_status := ''error'', n_metadata := swept_metadata nt code (n_metadata row),
      n_updated_at := utc_now s\<rparr>"
  have "store_inv (update_nodes P ?f s)" for P
    using "2.prems" by (intro store_inv_update_nodes) auto
  with 2 show ?case by (auto simp: Let_def split: if_splits prod.splits)
qed simp

lemma sweep_running_tool_nodes_inv [inv_dests]:
  "sweep_running_tool_nodes tid nt code s = (sw, s') \<Longrightarrow> store_inv s \<Longrightarrow> store_inv s'"
  by (auto simp: sweep_running_tool_nodes_def dest: sweep_rows_inv)

lemma interrupt_active_turns_inv [inv_dests]:
  "interrupt_active_turns s = (k, s') \<Longrightarrow> store_inv s \<Longrightarrow> store_inv s'"
  by (auto simp: interrupt_active_turns_def intro!: store_inv_update_turns)

section \<open>Operations on nodes\<close>

text \<open>The next position of a turn is above all its positions.\<close>

lemma map_filter_Nil_iff: "List.map_filter f xs = [] \<longleftrightarrow> (\<forall>x \<in> set xs. f x = None)"
  by (induction xs) (auto simp: List.map_filter_simps split: option.splits)

lemma in_map_filter: "y \<in> set (List.map_filter f xs) \<longleftrightarrow> (\<exists>x \<in> set xs. f x = Some y)"
  by (induction xs) (auto simp: List.map_filter_simps split: option.splits)

lemma next_position_fresh:
  assumes "n \<in> set (nodes s)" and "n_turn_id n = Some tid" and "n_position n = Some p"
  shows "p < next_position tid s"
proof -
  have p: "p \<in> set (turn_positions tid s)"
    using assms by (auto simp: turn_positions_def in_map_filter)
  then obtain m where m: "sql_max (\<lambda>p. p) (turn_positions tid s) = Some m"
    by (cases "sql_max (\<lambda>p. p) (turn_positions tid s)") auto
  have "p \<le> m" using sql_max_ge [OF m p] .
  then show ?thesis by (simp add: next_position_def m)
qed

text \<open>A node created at an automatic position, or outside of any turn.\<close>

lemma create_node_inv:
  assumes "create_node a s = Inr (n, s')" and inv: "store_inv s"
    and pos: "na_position a = None"
    and own: "\<And>tid. na_turn_id a = Some tid \<Longrightarrow> (tid, na_conversation_id a) \<in> turn_owners s"
  shows "store_inv s'"
proof -
  obtain nid s1 where s1: "(case na_node_id a of Some i \<Rightarrow> (i, s) | None \<Rightarrow> gen_node_id s) = (nid, s1)"
    by fastforce
  then have frame: "nodes s1 = nodes s" "turn_owners s1 = turn_owners s" "store_inv s1"
    using inv by (auto simp: gen_ids turn_owners_def split: option.splits)
  from assms(1) s1 have ins: "insert_node n s1 = Inr s'"
    and n: "n_turn_id n = na_turn_id a" "n_conversation_id n = na_conversation_id a"
      "n_position n = map_option (\<lambda>tid. next_position tid s) (na_turn_id a)"
    by (auto simp: create_node_def pos Let_def)
  have fresh: "n_position n' \<noteq> n_position n"
    if "n' \<in> set (nodes s)" "n_turn_id n' = Some tid" "na_turn_id a = Some tid" for n' tid
    using next_position_fresh [OF that(1,2)] that(3) n(3) by auto
  show ?thesis
    by (rule insert_node_inv [OF ins frame(3)]) (use own n fresh frame in auto)
qed

lemma create_node_turns:
  assumes "create_node a s = Inr (n, s')"
  shows "turns s' = turns s \<and> sessions s' = sessions s \<and> queue s' = queue s"
  using assms
  by (auto simp: create_node_def Let_def insert_node_def gen_ids split: option.splits if_splits)

lemma create_node_inv_no_turn [inv_dests]:
  "create_node a s = Inr (n, s') \<Longrightarrow> store_inv s \<Longrightarrow> na_position a = None \<Longrightarrow> na_turn_id a = None \<Longrightarrow>
   store_inv s'"
  by (rule create_node_inv) auto

lemma set_node_status_inv [inv_dests]:
  "set_node_status nid st s = Inr (n, s') \<Longrightarrow> store_inv s \<Longrightarrow> store_inv s'"
  by (auto simp: set_node_status_def read_node_def intro!: store_inv_update_nodes)

lemma append_node_text_inv [inv_dests]:
  "append_node_text nid d s = Inr (n, s') \<Longrightarrow> store_inv s \<Longrightarrow> store_inv s'"
  by (auto simp: append_node_text_def read_node_def intro!: store_inv_update_nodes)

lemma update_node_inv [inv_dests]:
  "update_node nid tx st md s = Inr (n, s') \<Longrightarrow> store_inv s \<Longrightarrow> store_inv s'"
  by (auto simp: update_node_def read_node_def intro!: store_inv_update_nodes split: if_splits)

text \<open>
  A queued node joins a turn of its own conversation at a position no node of the turn has.
\<close>

lemma assign_node_to_turn_inv:
  assumes "assign_node_to_turn nid tid p s = Inr (n, s')" and inv: "store_inv s"
    and own: "\<And>m. find_node nid s = Some m \<Longrightarrow> (tid, n_conversation_id m) \<in> turn_owners s"
    and free: "\<And>m. m \<in> set (nodes s) \<Longrightarrow> n_turn_id m = Some tid \<Longrightarrow> n_position m \<noteq> Some p"
  shows "store_inv s'"
proof -
  let ?P = "\<lambda>n. n_id n = nid"
  let ?f = "\<lambda>n. n\<lparr>n_turn_id := Some tid, n_position := Some p, n_updated_at := utc_now s\<rparr>"
  have s': "s' = update_nodes ?P ?f s"
    using assms(1) by (auto simp: assign_node_to_turn_def read_node_def split: if_splits)
  have uk: "unique_key n_id (nodes s)" and ok: "nodes_ok (conv_ids s) (turn_owners s) (nodes s)"
    using inv by (auto simp: store_inv_def nodes_ok_def)
  have free': "\<forall>m \<in> set (nodes s). n_turn_id m = Some tid \<longrightarrow> n_position m \<noteq> Some p"
    using free by blast
  have pos: "distinct_among (\<lambda>n. n_turn_id n \<noteq> None) (\<lambda>n. (n_turn_id n, n_position n))
      (sql_update ?P ?f rows)"
    if "unique_key n_id rows" "set rows \<subseteq> set (nodes s)"
      "distinct_among (\<lambda>n. n_turn_id n \<noteq> None) (\<lambda>n. (n_turn_id n, n_position n)) rows" for rows
    using that
  proof (induction rows)
    case (Cons r rows)
    have none: "\<And>r'. r' \<in> set rows \<Longrightarrow> n_id r' \<noteq> n_id r"
      using Cons.prems(1) by (simp add: unique_key_def) (metis imageI)
    have "sql_update ?P ?f rows = rows" if "n_id r = nid"
      using none that by (intro sql_update_none) auto
    moreover have "unique_key n_id rows" using Cons.prems(1) by (simp add: unique_key_def)
    ultimately show ?case
      using Cons free' by (auto simp: row_simps split: if_splits) blast+
  qed simp
  have "nodes_ok (conv_ids s) (turn_owners s) (sql_update ?P ?f (nodes s))"
    using ok own lookup_row_unique [OF uk] pos [OF uk]
    by (auto simp: nodes_ok_def positions_ok_def row_simps find_node_def split: if_splits
        intro!: unique_key_update)
  then show ?thesis
    using inv by (simp add: s' store_inv_def update_nodes_def conv_ids_def turn_owners_def)
qed

section \<open>Operations on the queue\<close>

lemma next_queue_position_fresh:
  assumes "q \<in> set (queue s)" and "queue_open q" and "q_conversation_id q = cid"
  shows "q_position q < next_queue_position cid s"
proof -
  let ?open = "filter (\<lambda>q. q_conversation_id q = cid \<and> queue_open q) (queue s)"
  have q: "q \<in> set ?open" using assms by simp
  then obtain m where m: "sql_max q_position ?open = Some m"
    by (cases "sql_max q_position ?open") (auto simp: filter_empty_conv)
  have "q_position q \<le> m" using sql_max_ge [OF m q] .
  then show ?thesis by (simp add: next_queue_position_def m)
qed

lemma enqueue_item_inv [inv_dests]:
  assumes "enqueue_item cid text opid target imgs s = Inr (q, s')" and "store_inv s"
  shows "store_inv s'"
proof -
  obtain s1 where ins: "insert_queue_item q s1 = Inr s'" and s1: "s1 = s\<lparr>rix := Suc (rix s)\<rparr>"
    and q: "q_conversation_id q = cid" "q_position q = next_queue_position cid s"
    using assms(1) by (auto simp: enqueue_item_def gen_ids Let_def split: if_splits)
  show ?thesis
    by (rule insert_queue_item_inv [OF ins])
      (use assms(2) q s1 next_queue_position_fresh in \<open>fastforce+\<close>)
qed

lemma set_queue_status_inv:
  assumes "set_queue_status qid st s = Inr (q, s')" and "store_inv s"
    and "\<And>q. find_queue_row qid s = Some q \<Longrightarrow> st \<in> {Q_SENT, Q_INJECTED, Q_DELETED, Q_FAILED} \<or> queue_open q"
  shows "store_inv s'"
proof -
  have "unique_key q_id (queue s)" using assms(2) by (simp add: store_inv_def queue_ok_def)
  then have "q \<in> set (queue s) \<Longrightarrow> q_id q = qid \<Longrightarrow> find_queue_row qid s = Some q" for q
    unfolding find_queue_row_def using lookup_row_unique by metis
  then show ?thesis
    using assms
    by (auto simp: set_queue_status_def read_queue_item_def queue_open_def
        intro!: store_inv_update_queue)
qed

text \<open>Optimistic updates keep the invariant when they do not reopen an archived item.\<close>

lemma cas_queue_item_inv:
  assumes "cas_queue_item qid rv f s = Inr s'" and "store_inv s"
    and "\<And>q. q_id (f q) = q_id q" and "\<And>q. q_conversation_id (f q) = q_conversation_id q"
    and "\<And>q. q_position (f q) = q_position q"
    and "\<And>q. q \<in> set (queue s) \<Longrightarrow> q_id q = qid \<Longrightarrow>
      q_status (f q) \<in> {Q_SENT, Q_INJECTED, Q_DELETED, Q_FAILED} \<or> queue_open q \<or> q_status (f q) = q_status q"
  shows "store_inv s'"
proof -
  have opened: "queue_open (f q) \<Longrightarrow> queue_open q" if "q \<in> set (queue s)" "q_id q = qid" for q
    using assms(6) [OF that] by (auto simp: queue_open_def)
  have upd: "queue_open (q\<lparr>q_revision := r, q_updated_at := u\<rparr>) = queue_open q" for q r u
    by (simp add: queue_open_def)
  have s': "s' = update_queue (\<lambda>q. q_id q = qid \<and> q_revision q = rv)
      (\<lambda>q. (f q)\<lparr>q_revision := q_revision q + 1, q_updated_at := utc_now s\<rparr>) s"
    using assms(1) by (simp add: cas_queue_item_def Let_def split: if_splits)
  show ?thesis
    unfolding s' by (rule store_inv_update_queue) (use assms(2-5) opened upd in auto)
qed

lemma update_queue_text_inv [inv_dests]:
  assumes "update_queue_item qid rv tx None tg s = Inr (q, s')" and "store_inv s"
  shows "store_inv s'"
proof -
  obtain s1 where 1: "(case tx of None \<Rightarrow> Inr s
      | Some x \<Rightarrow> if MAX_QUEUE_TEXT_LENGTH < length x then Inl QueueLimit
                  else cas_queue_item qid rv (\<lambda>q. q\<lparr>q_text := x\<rparr>) s) = Inr s1"
    and 2: "(case tg of None \<Rightarrow> Inr s1
      | Some x \<Rightarrow> cas_queue_item qid rv (\<lambda>q. q\<lparr>q_target_turn_id := Some x\<rparr>) s1) = Inr s'"
    using assms(1)
    by (auto simp: update_queue_item_def read_queue_item_def split: option.splits if_splits)
  have "store_inv s1"
    using 1 assms(2) by (cases tx) (auto elim!: cas_queue_item_inv split: if_splits)
  then show ?thesis
    using 2 by (cases tg) (auto elim!: cas_queue_item_inv)
qed

lemma update_queue_status_inv:
  assumes "update_queue_item qid rv None (Some st) None s = Inr (q, s')" and "store_inv s"
    and "\<And>q. find_queue_row qid s = Some q \<Longrightarrow> queue_open q"
  shows "store_inv s'"
proof -
  have cas: "cas_queue_item qid rv (\<lambda>q. q\<lparr>q_status := st\<rparr>) s = Inr s'"
    using assms(1)
    by (auto simp: update_queue_item_def read_queue_item_def split: option.splits if_splits)
  have "unique_key q_id (queue s)" using assms(2) by (simp add: store_inv_def queue_ok_def)
  then have "q \<in> set (queue s) \<Longrightarrow> q_id q = qid \<Longrightarrow> queue_open q" for q
    using assms(3) unfolding find_queue_row_def by (metis lookup_row_unique)
  then show ?thesis
    using assms(2) by (intro cas_queue_item_inv [OF cas]) auto
qed

lemma mark_queue_sent_inv [inv_dests]:
  "mark_queue_sent qid tid nid s = Inr (q, s') \<Longrightarrow> store_inv s \<Longrightarrow> store_inv s'"
  by (auto simp: mark_queue_sent_def read_queue_item_def queue_open_def
      intro!: store_inv_update_queue)

lemma mark_queue_injected_inv [inv_dests]:
  "mark_queue_injected qid nid s = Inr (q, s') \<Longrightarrow> store_inv s \<Longrightarrow> store_inv s'"
  by (auto simp: mark_queue_injected_def read_queue_item_def queue_open_def
      intro!: store_inv_update_queue)

lemma undo_delete_inv [inv_dests]:
  assumes "undo_delete qid s = Inr (q, s')" and "store_inv s"
  shows "store_inv s'"
proof -
  obtain item where item: "find_queue_row qid s = Some item" "q_status item = Q_PENDING_DELETE"
    and s': "s' = update_queue (\<lambda>q. q_id q = qid)
        (\<lambda>q. q\<lparr>q_status := Q_WAITING, q_revision := q_revision q + 1,
                q_updated_at := utc_now s\<rparr>) s"
    using assms(1)
    by (auto simp: undo_delete_def get_queue_item_def read_queue_item_def split: if_splits)
  have "unique_key q_id (queue s)" using assms(2) by (simp add: store_inv_def queue_ok_def)
  then have "q \<in> set (queue s) \<Longrightarrow> q_id q = qid \<Longrightarrow> q = item" for q
    using item(1) unfolding find_queue_row_def by (metis lookup_row_unique option.inject)
  then show ?thesis
    using assms(2) item(2)
    by (auto simp: s' queue_open_def intro!: store_inv_update_queue)
qed

lemma clear_waiting_queue_inv [inv_dests]:
  "clear_waiting_queue cid s = (k, s') \<Longrightarrow> store_inv s \<Longrightarrow> store_inv s'"
  by (auto simp: clear_waiting_queue_def Let_def queue_open_def intro!: store_inv_update_queue)

lemma archive_expired_inv [inv_dests]:
  "archive_expired_pending_deletes s = (k, s') \<Longrightarrow> store_inv s \<Longrightarrow> store_inv s'"
  by (auto simp: archive_expired_pending_deletes_def Let_def queue_open_def
      intro!: store_inv_update_queue)

lemma reset_interrupted_inv [inv_dests]:
  "reset_interrupted_queue_items s = (k, s') \<Longrightarrow> store_inv s \<Longrightarrow> store_inv s'"
  by (auto simp: reset_interrupted_queue_items_def Let_def queue_open_def
      intro!: store_inv_update_queue)

text \<open>Moving an item exchanges the positions of two open items.\<close>

lemma set_queue_position_rows:
  "queue (set_queue_position qid p s) =
    sql_update (\<lambda>q. q_id q = qid)
      (\<lambda>q. q\<lparr>q_position := p, q_revision := q_revision q + 1, q_updated_at := utc_now s\<rparr>) (queue s)"
  by (simp add: set_queue_position_def update_queue_def)

lemma index_of_nth: "index_of qid qs = Some i \<Longrightarrow> i < length qs \<and> q_id (qs ! i) = qid"
  by (induction qs arbitrary: i) (auto split: if_splits)

lemma swap_distinct_among:
  assumes d: "distinct_among Q p rows" and u: "unique_key k rows"
    and a: "a \<in> set rows" "Q a" and b: "b \<in> set rows" "Q b" and ab: "k a \<noteq> k b"
    and g: "\<And>r. k (g r) = k r" "\<And>r. Q (g r) = Q r"
    and pg: "\<And>r. r \<in> set rows \<Longrightarrow> p (g r) = (if k r = k a then p b else if k r = k b then p a else p r)"
  shows "distinct_among Q p (map g rows)"
proof -
  have inj: "inj_on p (set (filter Q rows))"
    using d by (auto simp: distinct_among_def distinct_map)
  have ka: "r = a" if "r \<in> set rows" "k r = k a" for r
    using unique_key_eq [OF u that(1) a(1) that(2)] .
  have kb: "r = b" if "r \<in> set rows" "k r = k b" for r
    using unique_key_eq [OF u that(1) b(1) that(2)] .
  have inj': "inj_on (p \<circ> g) (set (filter Q rows))"
  proof (rule inj_onI)
    fix x y
    assume x: "x \<in> set (filter Q rows)" and y: "y \<in> set (filter Q rows)"
      and e: "(p \<circ> g) x = (p \<circ> g) y"
    have pe: "p r = p r' \<Longrightarrow> r = r'" if "r \<in> set rows" "Q r" "r' \<in> set rows" "Q r'" for r r'
      using that inj by (auto dest: inj_onD)
    show "x = y"
      using x y e a b ab ka kb pe by (simp add: pg split: if_splits) metis+
  qed
  have "distinct (filter Q rows)"
    using u by (auto simp: unique_key_def distinct_map intro: distinct_filter)
  then have "distinct (map (p \<circ> g) (filter Q rows))"
    using inj' by (simp add: distinct_map)
  moreover have "filter Q (map g rows) = map g (filter Q rows)"
    by (simp add: filter_map comp_def g)
  ultimately show ?thesis by (simp add: distinct_among_def)
qed

lemma in_active_queue:
  "q \<in> set (list_active_queue cid s) \<longleftrightarrow>
    q \<in> set (queue s) \<and> q_conversation_id q = cid \<and> queue_active q"
  by (auto simp: list_active_queue_def)

lemma active_queue_distinct:
  assumes "store_inv s"
  shows "distinct (map q_id (list_active_queue cid s))"
  using assms
  by (simp add: list_active_queue_def store_inv_def queue_ok_def unique_key_def distinct_map_filter)

lemma swap_positions_inv:
  assumes inv: "store_inv s" and a: "a \<in> set (queue s)" "queue_open a"
    and b: "b \<in> set (queue s)" "queue_open b" and ab: "q_id a \<noteq> q_id b"
    and conv: "q_conversation_id a = q_conversation_id b"
  shows "store_inv (set_queue_position (q_id b) (q_position a)
                      (set_queue_position (q_id a) (q_position b) s))" (is "store_inv ?s'")
proof -
  let ?u = "\<lambda>p q. q\<lparr>q_position := p, q_revision := q_revision q + 1, q_updated_at := utc_now s\<rparr>"
  let ?g = "\<lambda>q. if q_id q = q_id a then ?u (q_position b) q
                 else if q_id q = q_id b then ?u (q_position a) q else q"
  have "queue ?s' = map ?g (queue s)"
    using ab by (simp add: set_queue_position_rows sql_update_def utc_now_def)
      (simp add: set_queue_position_def update_queue_def)
  moreover have "queue_ok (conv_ids s) (map ?g (queue s))"
  proof -
    have ok: "queue_ok (conv_ids s) (queue s)" using inv by (simp add: store_inv_def)
    have op: "queue_open (q\<lparr>q_position := p, q_revision := r, q_updated_at := u\<rparr>) = queue_open q"
      for p q r u by (simp add: queue_open_def)
    have uk: "unique_key q_id (queue s)" using ok by (simp add: queue_ok_def)
    have same: "q_conversation_id q = q_conversation_id b"
      if "q \<in> set (queue s)" "q_id q = q_id a \<or> q_id q = q_id b" for q
      using that unique_key_eq [OF uk that(1)] a(1) b(1) conv by auto
    have "distinct_among queue_open (\<lambda>q. (q_conversation_id q, q_position q)) (map ?g (queue s))"
    proof (rule swap_distinct_among [where k = q_id and a = a and b = b])
      show "distinct_among queue_open (\<lambda>q. (q_conversation_id q, q_position q)) (queue s)"
        using ok by (simp add: queue_ok_def)
      show "q_id (?g q) = q_id q" "queue_open (?g q) = queue_open q" for q by (simp_all add: op)
      show "(q_conversation_id (?g q), q_position (?g q)) =
        (if q_id q = q_id a then (q_conversation_id b, q_position b)
         else if q_id q = q_id b then (q_conversation_id a, q_position a)
         else (q_conversation_id q, q_position q))" if "q \<in> set (queue s)" for q
        using same [OF that] conv by simp
    qed (use uk a b ab in simp_all)
    moreover have "map q_id (map ?g (queue s)) = map q_id (queue s)"
      unfolding map_map by (rule map_cong) simp_all
    then have "unique_key q_id (map ?g (queue s))"
      using uk unfolding unique_key_def by (simp only:)
    moreover have "\<forall>q \<in> set (map ?g (queue s)). q_conversation_id q \<in> conv_ids s"
      using ok by (auto simp: queue_ok_def)
    ultimately show ?thesis unfolding queue_ok_def by blast
  qed
  ultimately show ?thesis
    using inv by (simp add: store_inv_def)
      (simp add: set_queue_position_def update_queue_def conv_ids_def turn_owners_def)
qed

lemma move_queue_item_inv [inv_dests]:
  assumes "move_queue_item cid qid dir s = Inr (qs, s')" and inv: "store_inv s"
  shows "store_inv s'"
proof -
  let ?items = "list_active_queue cid s"
  obtain idx where idx: "index_of qid ?items = Some idx"
    using assms(1) by (auto simp: move_queue_item_def Let_def split: if_splits option.splits)
  define other where "other = (if dir = ''up'' then int idx - 1 else int idx + 1)"
  show ?thesis
  proof (cases "other < 0 \<or> int (length ?items) \<le> other")
    case True
    then have "s' = s"
      using assms(1) idx by (auto simp: move_queue_item_def Let_def other_def split: if_splits)
    then show ?thesis using inv by simp
  next
    case False
    let ?a = "?items ! idx"
    let ?b = "?items ! nat other"
    have i: "idx < length ?items" using index_of_nth [OF idx] by simp
    have j: "nat other < length ?items" "nat other \<noteq> idx"
      using False by (auto simp: other_def split: if_splits)
    have s': "s' = set_queue_position (q_id ?b) (q_position ?a)
                     (set_queue_position (q_id ?a) (q_position ?b) s)"
      using assms(1) idx False by (auto simp: move_queue_item_def Let_def other_def split: if_splits)
    have "q_id ?a \<noteq> q_id ?b"
      using active_queue_distinct [OF inv, of cid] i j by (auto simp: distinct_conv_nth)
    moreover have "?a \<in> set ?items" "?b \<in> set ?items" using i j by auto
    ultimately show ?thesis
      unfolding s' using inv by (intro swap_positions_inv) (auto simp: in_active_queue queue_active_def)
  qed
qed

section \<open>Deletions\<close>

lemma delete_nodes_of_inv [inv_dests]: "store_inv s \<Longrightarrow> store_inv (delete_nodes_of cid s)"
  by (auto simp: store_inv_def delete_nodes_of_def conv_ids_def turn_owners_def nodes_ok_def
      positions_ok_def row_simps intro!: unique_key_delete distinct_among_delete)

lemma delete_turns_of_inv [inv_dests]:
  assumes "delete_turns_of cid s = Inr s'" and inv: "store_inv s"
  shows "store_inv s'"
proof -
  have s': "s' = s\<lparr>turns := sql_delete (\<lambda>t. t_conversation_id t = cid) (turns s)\<rparr>"
    and fk: "\<And>n. n \<in> set (nodes s) \<Longrightarrow> turn_ref_ok (n_turn_id n) s'"
    using assms(1) by (auto simp: delete_turns_of_def Let_def list_all_iff split: if_splits)
  have uk: "unique_key t_id (turns s)" using inv by (simp add: store_inv_def turns_ok_def)
  have keep: "(tid, c) \<in> turn_owners s'"
    if own: "(tid, c) \<in> turn_owners s" and ex: "turn_exists tid s'" for tid c
  proof -
    obtain t where t: "t \<in> set (turns s)" "t_id t = tid" "t_conversation_id t = c"
      using own by (auto simp: turn_owners_def)
    obtain t' where t': "t' \<in> set (turns s')" "t_id t' = tid"
      using ex by (auto simp: turn_exists_def)
    then have "t' = t" using unique_key_eq [OF uk _ t(1)] t(2) by (auto simp: s' row_simps)
    then show ?thesis using t t' by (auto simp: turn_owners_def)
  qed
  have "nodes_ok (conv_ids s) (turn_owners s') (nodes s)"
    using inv fk keep by (fastforce simp: store_inv_def nodes_ok_def turn_ref_ok_def)
  moreover have "turns_ok (conv_ids s) (turns s')"
    using inv by (auto simp: store_inv_def s' turns_ok_def row_simps intro!: unique_key_delete)
  moreover have "conv_ids s' = conv_ids s" by (simp add: s' conv_ids_def)
  ultimately show ?thesis using inv by (simp add: store_inv_def) (simp add: s')
qed

lemma delete_queue_of_inv [inv_dests]: "store_inv s \<Longrightarrow> store_inv (delete_queue_of cid s)"
  by (auto simp: store_inv_def delete_queue_of_def conv_ids_def turn_owners_def queue_ok_def
      row_simps intro!: unique_key_delete distinct_among_delete)

lemma delete_approvals_of_inv [inv_dests]: "store_inv s \<Longrightarrow> store_inv (delete_approvals_of cid s)"
  by (auto simp: store_inv_def delete_approvals_of_def conv_ids_def turn_owners_def
      intro!: log_ok_delete)

lemma delete_results_of_inv [inv_dests]: "store_inv s \<Longrightarrow> store_inv (delete_results_of cid s)"
  by (auto simp: store_inv_def delete_results_of_def conv_ids_def turn_owners_def
      intro!: log_ok_delete)

lemma clear_history_inv [inv_dests]:
  "clear_history cid s = Inr (d, s') \<Longrightarrow> store_inv s \<Longrightarrow> store_inv s'"
  by (auto simp: clear_history_def Let_def
      intro!: delete_results_of_inv delete_approvals_of_inv delete_queue_of_inv
      elim!: delete_turns_of_inv [OF _ delete_nodes_of_inv])

lemma delete_conversation_inv [inv_dests]:
  assumes "delete_conversation cid s = Inr (b, s')" and inv: "store_inv s"
  shows "store_inv s'"
proof -
  obtain s1 where s1: "delete_turns_of cid (delete_nodes_of cid s) = Inr s1"
    using assms(1) by (auto simp: delete_conversation_def)
  have turns1: "t_conversation_id t \<noteq> cid" if "t \<in> set (turns s1)" for t
    using s1 that by (auto simp: delete_turns_of_def Let_def row_simps split: if_splits)
  have nodes1: "n_conversation_id n \<noteq> cid" if "n \<in> set (nodes s1)" for n
    using s1 that by (auto simp: delete_turns_of_def delete_nodes_of_def Let_def row_simps split: if_splits)
  define s2 where "s2 = delete_results_of cid (delete_approvals_of cid (delete_queue_of cid s1))"
  have inv2: "store_inv s2"
    unfolding s2_def
    using delete_turns_of_inv [OF s1 delete_nodes_of_inv [OF inv]]
    by (intro delete_results_of_inv delete_approvals_of_inv delete_queue_of_inv)
  have s': "s' = s2\<lparr>idems := sql_delete (\<lambda>r. ir_conversation_id r = cid) (idems s2),
      outbox := sql_delete (\<lambda>e. ob_conversation_id e = cid) (outbox s2),
      receipts := sql_delete (\<lambda>r. rc_conversation_id r = cid) (receipts s2),
      sessions := sql_delete (\<lambda>c. cv_id c = cid) (sessions s2)\<rparr>"
    using assms(1) s1 by (auto simp: delete_conversation_def Let_def s2_def)
  have C: "conv_ids s' = conv_ids s2 - {cid}" and T: "turn_owners s' = turn_owners s2"
    by (auto simp: s' conv_ids_def turn_owners_def row_simps)
  have log: "log_ok (conv_ids s2 - {cid}) key owner (sql_delete (\<lambda>r. owner r = cid) rows)"
    if "log_ok (conv_ids s2) key owner rows" for key :: "'r \<Rightarrow> 'k" and owner rows
    using that by (auto simp: log_ok_def row_simps intro!: unique_key_delete)
  have gone: "t \<in> set (turns s2) \<Longrightarrow> t_conversation_id t \<noteq> cid"
    "n \<in> set (nodes s2) \<Longrightarrow> n_conversation_id n \<noteq> cid"
    "q \<in> set (queue s2) \<Longrightarrow> q_conversation_id q \<noteq> cid"
    "a \<in> set (approvals s2) \<Longrightarrow> ap_conversation_id a \<noteq> cid"
    "r \<in> set (results s2) \<Longrightarrow> tr_conversation_id r \<noteq> cid" for t n q a r
    using turns1 nodes1
    by (auto simp: s2_def delete_results_of_def delete_approvals_of_def delete_queue_of_def row_simps)
  have "sessions_ok (sessions s')" "turns_ok (conv_ids s') (turns s')"
    "nodes_ok (conv_ids s') (turn_owners s') (nodes s')" "queue_ok (conv_ids s') (queue s')"
    "log_ok (conv_ids s') ap_id ap_conversation_id (approvals s')"
    "log_ok (conv_ids s') tr_result_ref tr_conversation_id (results s')"
    using inv2 gone unfolding C T
    by (simp_all add: s' store_inv_def sessions_ok_def turns_ok_def nodes_ok_def queue_ok_def
        log_ok_def unique_key_delete)
  then show ?thesis
    using inv2 unfolding store_inv_def C by (simp add: s' log)
qed

lemma delete_conversations_inv:
  "delete_conversations cids s = Inr (ds, s') \<Longrightarrow> store_inv s \<Longrightarrow> store_inv s'"
proof (induction cids arbitrary: s ds)
  case (Cons cid cids)
  then obtain b s1 rest where "delete_conversation cid s = Inr (b, s1)"
    "delete_conversations cids s1 = Inr (rest, s')"
    by auto
  with Cons show ?case by (blast intro: delete_conversation_inv)
qed simp

lemma delete_stale_inv [inv_dests]:
  "delete_stale_system_conversations days limit s = Inr (ds, s') \<Longrightarrow> store_inv s \<Longrightarrow> store_inv s'"
  by (auto simp: delete_stale_system_conversations_def Let_def dest: delete_conversations_inv)

section \<open>Idempotency, outbox, results, receipts and approvals\<close>

lemma record_idempotency_inv [inv_dests]:
  "record_idempotency op cid h r s = Inr s' \<Longrightarrow> store_inv s \<Longrightarrow> store_inv s'"
  by (auto simp: record_idempotency_def dest: insert_idem_inv)

lemma append_outbox_inv [inv_dests]:
  "append_outbox cid ty sc v p s = Inr (e, s') \<Longrightarrow> store_inv s \<Longrightarrow> store_inv s'"
  by (auto simp: append_outbox_def gen_ids Let_def dest!: insert_outbox_inv)

lemma mark_outbox_published_inv [inv_dests]: "store_inv s \<Longrightarrow> store_inv (mark_outbox_published oid s)"
  by (auto simp: mark_outbox_published_def intro!: store_inv_update_outbox)

lemma save_tool_result_inv [inv_dests]:
  "save_tool_result c t rr k n sz l ct sm tr s = Inr (r, s') \<Longrightarrow> store_inv s \<Longrightarrow> store_inv s'"
  by (auto simp: save_tool_result_def Let_def dest: insert_result_inv)

lemma create_approval_inv [inv_dests]:
  "create_approval c t tn ps n s = Inr (a, s') \<Longrightarrow> store_inv s \<Longrightarrow> store_inv s'"
  by (auto simp: create_approval_def gen_ids Let_def dest!: insert_approval_inv)

lemma resolve_approval_inv [inv_dests]:
  "resolve_approval aid st b s = Inr (a, s') \<Longrightarrow> store_inv s \<Longrightarrow> store_inv s'"
  by (auto simp: resolve_approval_def Let_def intro!: store_inv_update_approvals split: if_splits)

lemma expire_stale_approvals_inv [inv_dests]:
  "expire_stale_approvals s = (k, s') \<Longrightarrow> store_inv s \<Longrightarrow> store_inv s'"
  by (auto simp: expire_stale_approvals_def intro!: store_inv_update_approvals)

lemma store_inv_retention [simp]:
  assumes "store_inv s"
  shows "store_inv (s\<lparr>idems := sql_delete P (idems s)\<rparr>)"
    and "store_inv (s\<lparr>outbox := sql_delete Q (outbox s)\<rparr>)"
    and "store_inv (s\<lparr>receipts := sql_delete R (receipts s)\<rparr>)"
  using assms by (simp_all add: store_inv_def conv_ids_def turn_owners_def log_ok_delete)

lemma cleanup_idempotency_inv [inv_dests]:
  "cleanup_idempotency s = (k, s') \<Longrightarrow> store_inv s \<Longrightarrow> store_inv s'"
  by (auto simp: cleanup_idempotency_def Let_def)

lemma cleanup_outbox_inv [inv_dests]: "cleanup_outbox s = (k, s') \<Longrightarrow> store_inv s \<Longrightarrow> store_inv s'"
  by (auto simp: cleanup_outbox_def Let_def)

lemma cleanup_receipts_inv [inv_dests]: "cleanup_receipts s = (k, s') \<Longrightarrow> store_inv s \<Longrightarrow> store_inv s'"
  by (auto simp: cleanup_receipts_def Let_def)

lemma trim_outbox_backlog_inv [inv_dests]:
  "trim_outbox_backlog m s = (k, s') \<Longrightarrow> store_inv s \<Longrightarrow> store_inv s'"
  by (auto simp: trim_outbox_backlog_def Let_def split: if_splits)

end
