(* ===== verification/Service_Core.thy ===== *)
theory Service_Core
  imports Store_Inv
begin

text \<open>
  The frame of \<open>ConversationService\<close> (\<open>gateway/conversation/service.py\<close>): its state
  beside the database, event assembly, the transactional outbox and the publication after
  the commit, idempotent operations, ownership checks, conversations and preferences, and
  the steering wait table.

  A service operation is a function on the state \<open>svc\<close>, which extends the database by
  the callbacks and the in-memory fields; the two concurrency limits of the constructor are
  an argument (\<open>limits\<close>) of the operations that use them. The body of its \<open>with transaction()\<close> block
  runs on the database and collects pending events; \<open>emit_all\<close> publishes them after the
  block. An error returns no state: the transaction was rolled back and nothing was
  published.

  Parameters that stand for code outside of this component: \<open>pub_ok\<close> tells for which
  events the \<open>publish\<close> callback returns normally; \<open>sha\<close> is the SHA-256 digest of the
  canonical JSON text of a request and \<open>sha_text\<close> that of a text; \<open>image_save\<close> is the image store's \<open>save\<close>
  (\<open>None\<close> where it raises), which is given a nonce because it draws a fresh file name.
\<close>

record saved_image =
  si_ref :: string
  si_media_type :: string
  si_size :: nat

record limits =
  max_turns_per_scope :: nat
  max_global_turns :: nat

record svc = store +
  image_save :: "(nat \<Rightarrow> string \<Rightarrow> string \<Rightarrow> string \<Rightarrow> saved_image option) option"
  sha :: "dict \<Rightarrow> string"
  sha_text :: "string \<Rightarrow> string"
  pub_ok :: "string \<Rightarrow> dict \<Rightarrow> bool"
  broadcasts :: "(string \<times> dict) list"
  published_outbox :: "string list"
  steering_pending :: "(string \<times> (string list \<times> nat)) list"

type_synonym pending = "(string \<times> dict \<times> string) list"

definition SCOPE_SESSION :: string where "SCOPE_SESSION = ''session''"
definition SCOPE_TURN :: string where "SCOPE_TURN = ''turn''"
definition SCOPE_DELIVERY :: string where "SCOPE_DELIVERY = ''delivery''"

section \<open>Steering wait table\<close>

definition register_steering_wait :: "string \<Rightarrow> string list \<Rightarrow> 'a svc_scheme \<Rightarrow> 'a svc_scheme" where
  "register_steering_wait cid qids s =
    s\<lparr>steering_pending :=
        AList.update cid (qids, now s + STEERING_TIMEOUT_SECONDS * 1000) (steering_pending s)\<rparr>"

definition pending_steering :: "string \<Rightarrow> 'a svc_scheme \<Rightarrow> string list option" where
  "pending_steering cid s = map_option fst (map_of (steering_pending s) cid)"

definition steering_remaining :: "string \<Rightarrow> 'a svc_scheme \<Rightarrow> nat option" where
  "steering_remaining cid s =
    map_option (\<lambda>item. nat (max 0 (int (snd item) - int (now s)))) (map_of (steering_pending s) cid)"

definition conclude_steering :: "string \<Rightarrow> 'a svc_scheme \<Rightarrow> 'a svc_scheme" where
  "conclude_steering cid s = s\<lparr>steering_pending := AList.delete cid (steering_pending s)\<rparr>"

definition check_steering_timeout ::
  "string \<Rightarrow> 'a svc_scheme \<Rightarrow> string list option \<times> 'a svc_scheme" where
  "check_steering_timeout cid s =
    (case map_of (steering_pending s) cid of
      None \<Rightarrow> (None, s)
    | Some (qids, deadline) \<Rightarrow>
        (if now s < deadline then (None, s)
         else (Some qids, s\<lparr>steering_pending := AList.delete cid (steering_pending s)\<rparr>)))"

section \<open>Ownership checks\<close>

definition assert_turn_owned :: "string \<Rightarrow> string \<Rightarrow> 'a store_scheme \<Rightarrow> conv_error + unit" where
  "assert_turn_owned cid tid s =
    bindE (get_turn tid s) (\<lambda>t.
      if t_conversation_id t \<noteq> cid then Inl TurnNotFound else Inr ())"

definition assert_queue_item_owned :: "string \<Rightarrow> string \<Rightarrow> 'a store_scheme \<Rightarrow> conv_error + unit" where
  "assert_queue_item_owned cid qid s =
    bindE (get_queue_item qid s) (\<lambda>q.
      if q_conversation_id q \<noteq> cid then Inl ResourceNotFound else Inr ())"

definition assert_approval_owned ::
  "string \<Rightarrow> string \<Rightarrow> 'a store_scheme \<Rightarrow> conv_error + approval" where
  "assert_approval_owned cid aid s =
    bindE (get_approval aid s) (\<lambda>a.
      if ap_conversation_id a \<noteq> cid then Inl ResourceNotFound else Inr a)"

section \<open>Events, outbox and publication\<close>

definition event_payload :: "conversation \<Rightarrow> string \<Rightarrow> nat \<Rightarrow> json \<Rightarrow> dict \<Rightarrow> dict" where
  "event_payload conv scope version turn_id data =
    [(''conversation_id'', JStr (cv_id conv)),
     (''session_key'', JStr (cv_session_key conv)),
     (''origin'', JStr (cv_origin conv)),
     (''subtype'', JStr (cv_subtype conv)),
     (''workspace_id'', jopt JStr (cv_workspace_id conv)),
     (''scope'', JStr scope),
     (''version'', jnat version)]
    @ (if truthy turn_id then [(''turn_id'', turn_id)] else [])
    @ [(''data'', JObj data)]"

definition emit ::
  "string \<Rightarrow> dict \<Rightarrow> string option \<Rightarrow> 'a svc_scheme \<Rightarrow> 'a svc_scheme" where
  "emit event_type payload outbox_id s =
    (if pub_ok s event_type payload
     then s\<lparr>broadcasts := broadcasts s @ [(event_type, payload)],
            published_outbox := published_outbox s @
              (case outbox_id of None \<Rightarrow> [] | Some oid \<Rightarrow> [oid])\<rparr>
     else s)"

fun emit_all :: "pending \<Rightarrow> 'a svc_scheme \<Rightarrow> 'a svc_scheme" where
  "emit_all [] s = s"
| "emit_all ((event_type, payload, outbox_id) # pend) s =
    emit_all pend (emit event_type payload (Some outbox_id) s)"

fun mark_all_published :: "string list \<Rightarrow> 'a store_scheme \<Rightarrow> 'a store_scheme" where
  "mark_all_published [] s = s"
| "mark_all_published (oid # oids) s = mark_all_published oids (mark_outbox_published oid s)"

definition flush_outbox_published :: "'a svc_scheme \<Rightarrow> nat \<times> 'a svc_scheme" where
  "flush_outbox_published s =
    (if published_outbox s = [] then (0, s)
     else (length (published_outbox s),
           mark_all_published (published_outbox s) (s\<lparr>published_outbox := []\<rparr>)))"

text \<open>
  \<open>_append_and_emit\<close>: without an explicit turn the \<open>turn_id\<close> entry of \<open>data\<close> is
  moved to the payload.
\<close>

definition append_and_emit ::
  "pending \<Rightarrow> conversation \<Rightarrow> string \<Rightarrow> string \<Rightarrow> nat \<Rightarrow> string option \<Rightarrow> dict
    \<Rightarrow> 'a store_scheme \<Rightarrow> conv_error + pending \<times> 'a store_scheme" where
  "append_and_emit pend conv event_type scope version turn_id data s =
    (let (tid, data') = (case turn_id of
            Some t \<Rightarrow> (JStr t, data)
          | None \<Rightarrow> (dget data ''turn_id'', AList.delete ''turn_id'' data));
         payload = event_payload conv scope version tid data'
     in bindE (append_outbox (cv_id conv) event_type scope version payload s)
          (\<lambda>(e, s1). Inr (pend @ [(event_type, payload, ob_id e)], s1)))"

section \<open>Idempotent operations\<close>

definition check_operation ::
  "string option \<Rightarrow> string \<Rightarrow> dict \<Rightarrow> 'a svc_scheme \<Rightarrow> conv_error + dict option" where
  "check_operation operation_id cid request s =
    (case operation_id of
      None \<Rightarrow> Inr None
    | Some op \<Rightarrow> if op = [] then Inr None else check_idempotency op cid (sha s request) s)"

definition record_operation ::
  "string option \<Rightarrow> string \<Rightarrow> dict \<Rightarrow> dict \<Rightarrow> 'a svc_scheme \<Rightarrow> conv_error + 'a svc_scheme" where
  "record_operation operation_id cid request result s =
    (case operation_id of
      None \<Rightarrow> Inr s
    | Some op \<Rightarrow> if op = [] then Inr s
                 else record_idempotency op cid (sha s request) (Some result) s)"

text \<open>\<open>result[k]\<close>, which raises when the entry is missing.\<close>

definition result_str :: "dict \<Rightarrow> string \<Rightarrow> conv_error + string" where
  "result_str d k = (case map_of d k of Some (JStr x) \<Rightarrow> Inr x | _ \<Rightarrow> Inl PyTypeError)"

definition queue_summary :: "queue_item list \<Rightarrow> json" where
  "queue_summary items = JList (map (\<lambda>q. JObj (queue_item_to_dict q)) items)"

section \<open>Conversations and preferences\<close>

definition default_execution_scope :: "string \<Rightarrow> string \<Rightarrow> string option \<Rightarrow> string" where
  "default_execution_scope origin subtype workspace_id =
    (if subtype = subtype_value S_WORKSPACE \<and> workspace_id \<noteq> None \<and> workspace_id \<noteq> Some []
     then ''workspace:'' @ the workspace_id
     else if origin = origin_value O_SYSTEM then ''system:'' @ subtype
     else ''gateway:default'')"

definition get_or_create_conversation ::
  "string \<Rightarrow> string \<Rightarrow> string \<Rightarrow> string option \<Rightarrow> string option \<Rightarrow> dict option
    \<Rightarrow> 'a svc_scheme \<Rightarrow> conv_error + conversation \<times> 'a svc_scheme" where
  "get_or_create_conversation key origin subtype workspace_id execution_scope metadata s =
    (let scope = (case execution_scope of
            Some sc \<Rightarrow> if sc = [] then default_execution_scope origin subtype workspace_id else sc
          | None \<Rightarrow> default_execution_scope origin subtype workspace_id)
     in bindE (create_conversation key origin subtype scope workspace_id metadata s)
       (\<lambda>((conversation, created), s1).
         if created then
           bindE (append_and_emit [] conversation ''conversation.upserted'' SCOPE_SESSION
               (cv_session_version conversation) None [] s1)
             (\<lambda>(pend, s2). Inr (conversation, emit_all pend s2))
         else Inr (conversation, s1)))"

definition prefs_of :: "dict \<Rightarrow> dict" where
  "prefs_of metadata = (case dget metadata ''prefs'' of JObj d \<Rightarrow> d | _ \<Rightarrow> [])"

definition update_prefs ::
  "string \<Rightarrow> dict \<Rightarrow> 'a svc_scheme \<Rightarrow> conv_error + conversation \<times> 'a svc_scheme" where
  "update_prefs cid prefs s =
    bindE (get_conversation cid s) (\<lambda>conv.
      let existing = cv_route_metadata conv;
          merged_prefs = dmerge (prefs_of existing) prefs
      in bindE (update_conversation_metadata cid
             (dmerge existing [(''prefs'', JObj merged_prefs)]) s)
        (\<lambda>(updated, s1).
          let (version, s2) = bump_session_version cid s1
          in bindE (append_and_emit [] updated ''conversation.upserted'' SCOPE_SESSION version None
                 [(''prefs'', JObj merged_prefs)] s2)
            (\<lambda>(pend, s3). Inr (updated, emit_all pend s3))))"

definition conversation_prefs :: "string \<Rightarrow> 'a svc_scheme \<Rightarrow> conv_error + dict" where
  "conversation_prefs cid s =
    bindE (get_conversation cid s) (\<lambda>conv. Inr (prefs_of (cv_route_metadata conv)))"

section \<open>Images\<close>

definition IMAGE_ENVELOPE_MAX_COUNT :: nat where "IMAGE_ENVELOPE_MAX_COUNT = 4"
definition IMAGE_ENVELOPE_MAX_BYTES :: nat where "IMAGE_ENVELOPE_MAX_BYTES = 4 * 1024 * 1024"
definition IMAGE_MIME_ALLOW :: "string list" where
  "IMAGE_MIME_ALLOW = [''image/png'', ''image/jpeg'', ''image/webp'', ''image/gif'']"

text \<open>The regular expression \<open>^[A-Za-z0-9+/\\r\\n]+={0,2}$\<close>; \<open>$\<close> also matches before a final newline.\<close>

definition b64_char :: "char \<Rightarrow> bool" where
  "b64_char c \<longleftrightarrow>
    (let n = (of_char c :: nat)
     in (65 \<le> n \<and> n \<le> 90) \<or> (97 \<le> n \<and> n \<le> 122) \<or> (48 \<le> n \<and> n \<le> 57) \<or>
        n = 43 \<or> n = 47 \<or> n = 13 \<or> n = 10)"

definition b64_match :: "string \<Rightarrow> bool" where
  "b64_match data \<longleftrightarrow>
    (let body = takeWhile b64_char data; tail = dropWhile b64_char data
     in body \<noteq> [] \<and> tail \<in> {'''', ''='', ''==''} \<union> {[CHR 0x3D, CHR 0x0A], [CHR 0x3D, CHR 0x3D, CHR 0x0A]})"

text \<open>\<open>str(x or d)\<close> on a JSON value that is a string or absent.\<close>

definition str_or :: "json \<Rightarrow> string \<Rightarrow> string" where
  "str_or v d = (case v of JStr x \<Rightarrow> if x = [] then d else x | _ \<Rightarrow> d)"

text \<open>
  One image of the envelope. \<open>size_of\<close> is the length \<open>base64.b64decode\<close> returns, or
  None where it raises.
\<close>

definition validate_image ::
  "(string \<Rightarrow> nat option) \<Rightarrow> json \<Rightarrow> conv_error + image" where
  "validate_image size_of item =
    (case item of
      JObj d \<Rightarrow>
        (let data = strip (str_or (dget d ''data'') []);
             media_type = map ascii_lower (str_or (dget d ''media_type'') ''image/png'')
         in if data = [] then Inl ValidationFailed
            else if \<not> b64_match data then Inl ValidationFailed
            else if media_type \<notin> set IMAGE_MIME_ALLOW then Inl ValidationFailed
            else (case size_of data of
                None \<Rightarrow> Inl ValidationFailed
              | Some bytes \<Rightarrow>
                  if IMAGE_ENVELOPE_MAX_BYTES < bytes then Inl ValidationFailed
                  else Inr \<lparr>im_data = data, im_media_type = media_type\<rparr>))
    | _ \<Rightarrow> Inl ValidationFailed)"

fun validate_images :: "(string \<Rightarrow> nat option) \<Rightarrow> json list \<Rightarrow> conv_error + image list" where
  "validate_images size_of [] = Inr []"
| "validate_images size_of (item # items) =
    bindE (validate_image size_of item) (\<lambda>img.
      bindE (validate_images size_of items) (\<lambda>imgs. Inr (img # imgs)))"

definition validate_image_envelope ::
  "(string \<Rightarrow> nat option) \<Rightarrow> json \<Rightarrow> conv_error + image list" where
  "validate_image_envelope size_of images =
    (case images of
      JList items \<Rightarrow>
        (if items = [] then Inl ValidationFailed
         else if IMAGE_ENVELOPE_MAX_COUNT < length items then Inl ValidationFailed
         else validate_images size_of items)
    | _ \<Rightarrow> Inl ValidationFailed)"

section \<open>The invariant along the frame\<close>

lemma store_inv_svc_frame [simp]:
  "store_inv (s\<lparr>broadcasts := b\<rparr>) = store_inv s"
  "store_inv (s\<lparr>published_outbox := p\<rparr>) = store_inv s"
  "store_inv (s\<lparr>steering_pending := st\<rparr>) = store_inv s"
  by (simp_all add: store_inv_def conv_ids_def turn_owners_def)

lemma emit_store [simp]:
  "sessions (emit ty p oid s) = sessions s" "turns (emit ty p oid s) = turns s"
  "nodes (emit ty p oid s) = nodes s" "queue (emit ty p oid s) = queue s"
  "approvals (emit ty p oid s) = approvals s" "results (emit ty p oid s) = results s"
  "idems (emit ty p oid s) = idems s" "outbox (emit ty p oid s) = outbox s"
  "receipts (emit ty p oid s) = receipts s" "now (emit ty p oid s) = now s"
  "sha (emit ty p oid s) = sha s" "sha_text (emit ty p oid s) = sha_text s"
  "pub_ok (emit ty p oid s) = pub_ok s"
  by (simp_all add: emit_def)

lemma emit_all_store [simp]:
  "sessions (emit_all pend s) = sessions s" "turns (emit_all pend s) = turns s"
  "nodes (emit_all pend s) = nodes s" "queue (emit_all pend s) = queue s"
  "approvals (emit_all pend s) = approvals s" "results (emit_all pend s) = results s"
  "idems (emit_all pend s) = idems s" "outbox (emit_all pend s) = outbox s"
  "receipts (emit_all pend s) = receipts s" "now (emit_all pend s) = now s"
  "sha (emit_all pend s) = sha s" "sha_text (emit_all pend s) = sha_text s"
  "pub_ok (emit_all pend s) = pub_ok s"
  by (induction pend s rule: emit_all.induct) auto

lemma store_inv_emit_all [simp]: "store_inv (emit_all pend s) = store_inv s"
  by (simp add: store_inv_def conv_ids_def turn_owners_def)

lemma append_and_emit_inv [inv_dests]:
  "append_and_emit pend conv ty sc v tid d s = Inr (pend', s') \<Longrightarrow> store_inv s \<Longrightarrow> store_inv s'"
  by (auto simp: append_and_emit_def Let_def split: prod.splits dest: append_outbox_inv)

lemma record_operation_inv [inv_dests]:
  "record_operation op cid rq r s = Inr s' \<Longrightarrow> store_inv s \<Longrightarrow> store_inv s'"
  by (auto simp: record_operation_def split: option.splits if_splits dest: record_idempotency_inv)

lemma mark_all_published_inv: "store_inv s \<Longrightarrow> store_inv (mark_all_published oids s)"
  by (induction oids s rule: mark_all_published.induct) (auto intro: mark_outbox_published_inv)

end
