(* ===== verification/Service_Queue.thy ===== *)
theory Service_Queue
  imports Service_Core Sql_Like
begin

text \<open>
  The queue operations of \<open>ConversationService\<close> (\<open>gateway/conversation/service.py\<close>):
  enqueueing and dispatch of a message, editing, deletion with its undo window, moving,
  clearing, deletion of a conversation, and two-phase steering.

  \<open>send_next\<close> reads the active turn before its transaction; the transaction itself is
  \<open>send_next_txn\<close>, so that a step between the two can be stated. Likewise for
  \<open>commit_steering\<close>.
\<close>

section \<open>Enqueue\<close>

definition queue_event ::
  "pending \<Rightarrow> conversation \<Rightarrow> nat \<Rightarrow> dict \<Rightarrow> 'a store_scheme \<Rightarrow> conv_error + pending \<times> 'a store_scheme"
where
  "queue_event pend conv version data s =
    append_and_emit pend conv ''queue.updated'' SCOPE_SESSION version None
      (data @ [(''queue'', queue_summary (list_active_queue (cv_id conv) s))]) s"

record enqueue_args =
  ea_operation_id :: "string option"
  ea_channel :: "string option"
  ea_message_id :: "string option"
  ea_sender_id :: "string option"
  ea_sender_name :: "string option"
  ea_create_queued_node :: bool
  ea_images :: "json option"

definition enqueue_defaults :: enqueue_args where
  "enqueue_defaults =
    \<lparr>ea_operation_id = None, ea_channel = None, ea_message_id = None, ea_sender_id = None,
     ea_sender_name = None, ea_create_queued_node = False, ea_images = None\<rparr>"

definition enqueue_request :: "string \<Rightarrow> dict" where
  "enqueue_request text = [(''op'', JStr ''enqueue''), (''text'', JStr text)]"

definition enqueue ::
  "(string \<Rightarrow> nat option) \<Rightarrow> string \<Rightarrow> string \<Rightarrow> enqueue_args \<Rightarrow> 'a svc_scheme
    \<Rightarrow> conv_error + queue_item \<times> 'a svc_scheme" where
  "enqueue size_of cid text a s =
    bindE (case ea_images a of
        None \<Rightarrow> Inr None
      | Some imgs \<Rightarrow> bindE (validate_image_envelope size_of imgs) (\<lambda>xs. Inr (Some xs)))
    (\<lambda>images.
    bindE (get_conversation cid s) (\<lambda>conv.
    bindE (check_operation (ea_operation_id a) cid (enqueue_request text) s) (\<lambda>hit.
      case hit of
        Some result \<Rightarrow>
          bindE (result_str result ''queue_item_id'') (\<lambda>qid.
          bindE (get_queue_item qid s) (\<lambda>q. Inr (q, s)))
      | None \<Rightarrow>
          bindE (enqueue_item cid text (ea_operation_id a) None images s) (\<lambda>(item, s1).
          bindE (if ea_create_queued_node a
              then bindE (create_node
                  ((node_defaults cid N_USER ''queued'')
                    \<lparr>na_text := Some text, na_source_channel := ea_channel a,
                     na_source_message_id := ea_message_id a, na_sender_id := ea_sender_id a,
                     na_sender_name := ea_sender_name a\<rparr>) s1)
                (\<lambda>(n, s2). Inr (Some (n_id n), s2))
              else Inr (None, s1))
          (\<lambda>(node_id, s2).
          bindE (record_operation (ea_operation_id a) cid (enqueue_request text)
              [(''queue_item_id'', JStr (q_id item))] s2) (\<lambda>s3.
          let (version, s4) = bump_session_version cid s3 in
          bindE (queue_event [] conv version
              [(''queue_item_id'', JStr (q_id item)),
               (''status'', JStr (queue_status_value (q_status item))),
               (''position'', jnat (q_position item)),
               (''text_len'', jnat (length text)),
               (''node_id'', jopt JStr node_id)] s4) (\<lambda>(pend, s5).
          Inr (item, emit_all pend s5))))))))"

section \<open>Dispatch\<close>

text \<open>Saving the images of the dispatched item; an image whose saving raises is skipped.\<close>

fun dispatch_images ::
  "conversation \<Rightarrow> string \<Rightarrow> (nat \<Rightarrow> string \<Rightarrow> string \<Rightarrow> string \<Rightarrow> saved_image option)
    \<Rightarrow> image list \<Rightarrow> pending \<Rightarrow> 'a store_scheme
    \<Rightarrow> conv_error + (json list \<times> pending) \<times> 'a store_scheme" where
  "dispatch_images conv tid save [] pend s = Inr (([], pend), s)"
| "dispatch_images conv tid save (img # imgs) pend s =
    (case save (rix s) (cv_id conv) (im_data img)
        (if im_media_type img = [] then ''image/png'' else im_media_type img) of
      None \<Rightarrow> dispatch_images conv tid save imgs pend (s\<lparr>rix := Suc (rix s)\<rparr>)
    | Some saved \<Rightarrow>
        bindE (create_node
            ((node_defaults (cv_id conv) N_IMAGE ''done'')
              \<lparr>na_turn_id := Some tid, na_text := Some [],
               na_metadata := Some
                 [(''ref'', JStr (si_ref saved)),
                  (''media_type'', JStr (si_media_type saved)),
                  (''size'', jnat (si_size saved)),
                  (''call_id'', JStr (''img-'' @ take 16 (si_ref saved)))]\<rparr>)
            (s\<lparr>rix := Suc (rix s)\<rparr>)) (\<lambda>(n, s1).
        let (version, s2) = bump_turn_version tid s1 in
        bindE (append_and_emit pend conv ''node.image'' SCOPE_TURN version (Some tid)
            [(''node_id'', JStr (n_id n)),
             (''type'', JStr (node_type_value N_IMAGE)),
             (''status'', JStr ''done''),
             (''position'', jopt jnat (n_position n)),
             (''ref'', JStr (si_ref saved)),
             (''media_type'', JStr (si_media_type saved)),
             (''size'', jnat (si_size saved))] s2) (\<lambda>(pend1, s3).
        bindE (dispatch_images conv tid save imgs pend1 s3) (\<lambda>((refs, pend2), s4).
        Inr ((JObj [(''ref'', JStr (si_ref saved)),
                    (''media_type'', JStr (si_media_type saved)),
                    (''node_id'', JStr (n_id n)),
                    (''size'', jnat (si_size saved))] # refs, pend2), s4)))))"

record send_args =
  sa_runtime_snapshot_id :: "string option"
  sa_channel_node_id :: "string option"
  sa_operation_id :: "string option"
  sa_parent_conversation_id :: "string option"
  sa_parent_turn_id :: "string option"

definition send_defaults :: send_args where
  "send_defaults =
    \<lparr>sa_runtime_snapshot_id = None, sa_channel_node_id = None, sa_operation_id = None,
     sa_parent_conversation_id = None, sa_parent_turn_id = None\<rparr>"

definition send_request :: "string \<Rightarrow> dict" where
  "send_request head_id = [(''op'', JStr ''send_next''), (''head'', JStr head_id)]"

text \<open>The user node of the new turn: the queued channel node, or a new one.\<close>

definition user_node ::
  "conversation \<Rightarrow> string option \<Rightarrow> queue_item \<Rightarrow> string \<Rightarrow> 'a store_scheme
    \<Rightarrow> conv_error + node_row \<times> 'a store_scheme" where
  "user_node conv channel_node_id head tid s =
    (case channel_node_id of
      Some cn \<Rightarrow>
        (if cn = [] then
           create_node
             ((node_defaults (cv_id conv) N_USER ''dispatched'')
               \<lparr>na_turn_id := Some tid, na_text := Some (q_text head),
                na_source_channel :=
                  (case dget (cv_route_metadata conv) ''channel'' of JStr c \<Rightarrow> Some c | _ \<Rightarrow> None),
                na_source_message_id := q_operation_id head\<rparr>) s
         else
           (case find_node cn s of
              Some existing \<Rightarrow>
                (if n_turn_id existing = None then assign_node_to_turn cn tid 1 s
                 else create_node
                   ((node_defaults (cv_id conv) N_USER ''dispatched'')
                     \<lparr>na_turn_id := Some tid, na_text := Some (q_text head)\<rparr>) s)
            | None \<Rightarrow> create_node
                ((node_defaults (cv_id conv) N_USER ''dispatched'')
                  \<lparr>na_turn_id := Some tid, na_text := Some (q_text head)\<rparr>) s))
    | None \<Rightarrow>
        create_node
          ((node_defaults (cv_id conv) N_USER ''dispatched'')
            \<lparr>na_turn_id := Some tid, na_text := Some (q_text head),
             na_source_channel :=
               (case dget (cv_route_metadata conv) ''channel'' of JStr c \<Rightarrow> Some c | _ \<Rightarrow> None),
             na_source_message_id := q_operation_id head\<rparr>) s)"

definition queue_head :: "string \<Rightarrow> 'a store_scheme \<Rightarrow> queue_item option" where
  "queue_head cid s =
    find (\<lambda>q. q_status q \<in> {Q_WAITING, Q_WAITING_FOR_STEERING}) (list_active_queue cid s)"

text \<open>The images of the item are saved and their references recorded on the user node.\<close>

definition attach_images ::
  "conversation \<Rightarrow> string \<Rightarrow> queue_item \<Rightarrow> node_row \<Rightarrow> 'a svc_scheme
    \<Rightarrow> conv_error + (node_row \<times> pending) \<times> 'a svc_scheme" where
  "attach_images conv tid head node s =
    (case q_images head of
      None \<Rightarrow> Inr ((node, []), s)
    | Some imgs \<Rightarrow>
        (case image_save s of
          None \<Rightarrow> Inr ((node, []), s)
        | Some save \<Rightarrow>
            bindE (dispatch_images conv tid save imgs [] s) (\<lambda>((refs, pend), s1).
              if refs = [] then Inr ((node, pend), s1)
              else bindE (update_node (n_id node) None None
                    (Some (dmerge (n_metadata node) [(''images'', JList refs)])) s1)
                  (\<lambda>(node', s2). Inr ((node', pend), s2)))))"

text \<open>From the creation of the turn to the end of the transaction.\<close>

definition dispatch_head ::
  "conversation \<Rightarrow> send_args \<Rightarrow> queue_item \<Rightarrow> turn \<Rightarrow> 'a svc_scheme
    \<Rightarrow> conv_error + (turn \<times> node_row \<times> pending) \<times> 'a svc_scheme" where
  "dispatch_head conv a head turn s =
    bindE (user_node conv (sa_channel_node_id a) head (t_id turn) s) (\<lambda>(node, s1).
    bindE (attach_images conv (t_id turn) head node s1) (\<lambda>((node, pend), s2).
    bindE (mark_queue_sent (q_id head) (t_id turn) (Some (n_id node)) s2) (\<lambda>(_, s3).
    bindE (record_operation (sa_operation_id a) (cv_id conv) (send_request (q_id head))
        [(''turn_id'', JStr (t_id turn)), (''node_id'', JStr (n_id node))] s3) (\<lambda>s4.
    let (version, s5) = bump_session_version (cv_id conv) s4 in
    bindE (append_and_emit pend conv ''turn.status'' SCOPE_TURN (t_version turn)
        (Some (t_id turn)) [(''status'', JStr (turn_status_value (t_status turn)))] s5)
      (\<lambda>(pend1, s6).
    bindE (queue_event pend1 conv version
        [(''queue_item_id'', JStr (q_id head)), (''status'', JStr ''sent''),
         (''turn_id'', JStr (t_id turn))] s6) (\<lambda>(pend2, s7).
    Inr ((turn, node, pend2), s7)))))))"

definition send_next_txn ::
  "limits \<Rightarrow> conversation \<Rightarrow> send_args \<Rightarrow> 'a svc_scheme
    \<Rightarrow> conv_error + (turn \<times> node_row) option \<times> 'a svc_scheme" where
  "send_next_txn cfg conv a s =
    (let cid = cv_id conv in
     case queue_head cid s of
       None \<Rightarrow> Inr (None, s)
     | Some head \<Rightarrow>
        bindE (check_operation (sa_operation_id a) cid (send_request (q_id head)) s) (\<lambda>hit.
          case hit of
            Some result \<Rightarrow>
              bindE (result_str result ''turn_id'') (\<lambda>tid.
              bindE (get_turn tid s) (\<lambda>t.
              bindE (result_str result ''node_id'') (\<lambda>nid.
              bindE (get_node nid s) (\<lambda>n. Inr (Some (turn.truncate t, n), s)))))
          | None \<Rightarrow>
              (if max_turns_per_scope cfg \<le> count_active_turns_in_scope (cv_execution_scope conv) s
               then Inl ExecutionScopeLimit
               else if max_global_turns cfg \<le> count_active_turns s then Inl GatewaySaturated
               else
                 bindE (create_turn_if_no_active cid T_QUEUED (sa_runtime_snapshot_id a)
                     (sa_parent_conversation_id a) (sa_parent_turn_id a) s) (\<lambda>(created, s1).
                   case created of
                     None \<Rightarrow> Inr (None, s1)
                   | Some turn \<Rightarrow>
                       bindE (dispatch_head conv a head turn s1) (\<lambda>((turn, node, pend), s2).
                         Inr (Some (turn, node), emit_all pend s2))))))"

definition send_next ::
  "limits \<Rightarrow> string \<Rightarrow> send_args \<Rightarrow> 'a svc_scheme
    \<Rightarrow> conv_error + (turn \<times> node_row) option \<times> 'a svc_scheme" where
  "send_next cfg cid a s =
    bindE (get_conversation cid s) (\<lambda>conv.
      case get_active_turn cid s of
        Some _ \<Rightarrow> Inr (None, s)
      | None \<Rightarrow> send_next_txn cfg conv a s)"

section \<open>Editing the queue\<close>

definition edit_request :: "string \<Rightarrow> string option \<Rightarrow> nat \<Rightarrow> dict" where
  "edit_request qid text revision =
    [(''op'', JStr ''edit_queue''), (''qid'', JStr qid), (''text'', jopt JStr text),
     (''rev'', jnat revision)]"

definition edit_queue_item ::
  "string \<Rightarrow> string \<Rightarrow> nat \<Rightarrow> string option \<Rightarrow> string option \<Rightarrow> 'a svc_scheme
    \<Rightarrow> conv_error + queue_item \<times> 'a svc_scheme" where
  "edit_queue_item cid qid expected_revision text operation_id s =
    bindE (get_conversation cid s) (\<lambda>conv.
    bindE (assert_queue_item_owned cid qid s) (\<lambda>_.
    bindE (check_operation operation_id cid (edit_request qid text expected_revision) s) (\<lambda>hit.
      case hit of
        Some result \<Rightarrow>
          bindE (result_str result ''queue_item_id'') (\<lambda>q.
          bindE (get_queue_item q s) (\<lambda>item. Inr (item, s)))
      | None \<Rightarrow>
          bindE (update_queue_item qid expected_revision text None None s) (\<lambda>(item, s1).
          bindE (record_operation operation_id cid (edit_request qid text expected_revision)
              [(''queue_item_id'', JStr (q_id item))] s1) (\<lambda>s2.
          let (version, s3) = bump_session_version cid s2 in
          bindE (queue_event [] conv version
              [(''queue_item_id'', JStr (q_id item)),
               (''status'', JStr (queue_status_value (q_status item))),
               (''revision'', jnat (q_revision item))] s3) (\<lambda>(pend, s4).
          Inr (item, emit_all pend s4)))))))"

definition delete_queue_item ::
  "string \<Rightarrow> string \<Rightarrow> nat \<Rightarrow> 'a svc_scheme \<Rightarrow> conv_error + queue_item \<times> 'a svc_scheme" where
  "delete_queue_item cid qid expected_revision s =
    bindE (get_conversation cid s) (\<lambda>conv.
    bindE (assert_queue_item_owned cid qid s) (\<lambda>_.
    bindE (update_queue_item qid expected_revision None (Some Q_PENDING_DELETE) None s)
      (\<lambda>(item, s1).
    let (version, s2) = bump_session_version cid s1 in
    bindE (queue_event [] conv version
        [(''queue_item_id'', JStr (q_id item)),
         (''status'', JStr (queue_status_value (q_status item)))] s2) (\<lambda>(pend, s3).
    Inr (item, emit_all pend s3)))))"

definition undo_delete_item ::
  "string \<Rightarrow> string \<Rightarrow> 'a svc_scheme \<Rightarrow> conv_error + queue_item \<times> 'a svc_scheme" where
  "undo_delete_item cid qid s =
    bindE (get_conversation cid s) (\<lambda>conv.
    bindE (assert_queue_item_owned cid qid s) (\<lambda>_.
    bindE (undo_delete qid s) (\<lambda>(item, s1).
    let (version, s2) = bump_session_version cid s1 in
    bindE (queue_event [] conv version
        [(''queue_item_id'', JStr (q_id item)),
         (''status'', JStr (queue_status_value (q_status item)))] s2) (\<lambda>(pend, s3).
    Inr (item, emit_all pend s3)))))"

definition move_item ::
  "string \<Rightarrow> string \<Rightarrow> string \<Rightarrow> 'a svc_scheme \<Rightarrow> conv_error + queue_item list \<times> 'a svc_scheme" where
  "move_item cid qid direction s =
    bindE (get_conversation cid s) (\<lambda>conv.
    bindE (move_queue_item cid qid direction s) (\<lambda>(items, s1).
    let (version, s2) = bump_session_version cid s1 in
    bindE (append_and_emit [] conv ''queue.updated'' SCOPE_SESSION version None
        [(''queue_item_id'', JStr qid), (''direction'', JStr direction),
         (''queue'', queue_summary items)] s2) (\<lambda>(pend, s3).
    Inr (items, emit_all pend s3))))"

definition clear_waiting :: "string \<Rightarrow> 'a svc_scheme \<Rightarrow> conv_error + nat \<times> 'a svc_scheme" where
  "clear_waiting cid s =
    bindE (get_conversation cid s) (\<lambda>conv.
      let (count, s1) = clear_waiting_queue cid s;
          (version, s2) = bump_session_version cid s1
      in bindE (queue_event [] conv version [(''cleared'', jnat count)] s2) (\<lambda>(pend, s3).
           Inr (count, emit_all pend s3)))"

definition clear_conversation_history ::
  "string \<Rightarrow> 'a svc_scheme \<Rightarrow> conv_error + dict \<times> 'a svc_scheme" where
  "clear_conversation_history cid s =
    bindE (get_conversation cid s) (\<lambda>conv.
    bindE (clear_history cid s) (\<lambda>(counts, s1).
    let (version, s2) = bump_session_version cid s1 in
    bindE (append_and_emit [] conv ''conversation.cleared'' SCOPE_SESSION version None
        [(''counts'', JObj counts)] s2) (\<lambda>(pend, s3).
    Inr (counts, emit_all pend s3))))"

definition delete_conversation_by_key ::
  "string \<Rightarrow> 'a svc_scheme \<Rightarrow> conv_error + bool \<times> 'a svc_scheme" where
  "delete_conversation_by_key key s =
    (if key = [] then Inr (False, s)
     else (case get_conversation_by_key key s of
         None \<Rightarrow> Inr (False, s)
       | Some conv \<Rightarrow> delete_conversation (cv_id conv) s))"

section \<open>Steering\<close>

fun prepare_items ::
  "string \<Rightarrow> string list \<Rightarrow> 'a store_scheme \<Rightarrow> conv_error + queue_item list \<times> 'a store_scheme" where
  "prepare_items cid [] s = Inr ([], s)"
| "prepare_items cid (qid # qids) s =
    bindE (get_queue_item qid s) (\<lambda>item.
      if q_conversation_id item \<noteq> cid then Inl ResourceNotFound
      else if q_status item \<noteq> Q_WAITING then Inl QueueConflict
      else
        bindE (set_queue_status qid Q_WAITING_FOR_STEERING s) (\<lambda>(updated, s1).
        bindE (prepare_items cid qids s1) (\<lambda>(rest, s2). Inr (updated # rest, s2))))"

definition prepare_steering ::
  "string \<Rightarrow> string list \<Rightarrow> 'a svc_scheme
    \<Rightarrow> conv_error + (turn_row \<times> queue_item list) \<times> 'a svc_scheme" where
  "prepare_steering cid qids s =
    bindE (get_conversation cid s) (\<lambda>conv.
      case get_active_turn cid s of
        None \<Rightarrow> Inl QueueConflict
      | Some active \<Rightarrow>
          (if qids = [] then Inl ValidationFailed
           else if MAX_STEERING_PER_TURN \<le> count_steering_nodes (t_id active) s
           then Inl SteeringLimit
           else
             bindE (prepare_items cid qids s) (\<lambda>(items, s1).
             let (version, s2) = bump_session_version cid s1 in
             bindE (queue_event [] conv version
                 [(''steering'', JList (map (\<lambda>q. JStr (q_id q)) items))] s2) (\<lambda>(pend, s3).
             Inr ((active, items), emit_all pend s3)))))"

text \<open>No active turn any more: the selected items become ordinary waiting items again.\<close>

fun restore_items :: "string list \<Rightarrow> 'a store_scheme \<Rightarrow> conv_error + 'a store_scheme" where
  "restore_items [] s = Inr s"
| "restore_items (qid # qids) s =
    bindE (set_queue_status qid Q_WAITING s) (\<lambda>(_, s1). restore_items qids s1)"

fun inject_items ::
  "string \<Rightarrow> string \<Rightarrow> string list \<Rightarrow> 'a store_scheme \<Rightarrow> conv_error + node_row list \<times> 'a store_scheme"
where
  "inject_items cid tid [] s = Inr ([], s)"
| "inject_items cid tid (qid # qids) s =
    bindE (get_queue_item qid s) (\<lambda>item.
      if q_conversation_id item \<noteq> cid then inject_items cid tid qids s
      else if q_status item \<noteq> Q_WAITING_FOR_STEERING then inject_items cid tid qids s
      else
        bindE (create_node
            ((node_defaults cid N_USER_STEERING ''injected'')
              \<lparr>na_turn_id := Some tid, na_text := Some (q_text item),
               na_metadata := Some [(''role'', JStr ''user''), (''source'', JStr ''steering'')]\<rparr>) s)
          (\<lambda>(n, s1).
        bindE (mark_queue_injected qid (n_id n) s1) (\<lambda>(_, s2).
        bindE (inject_items cid tid qids s2) (\<lambda>(ns, s3). Inr (n # ns, s3)))))"

definition commit_steering_txn ::
  "conversation \<Rightarrow> turn_row \<Rightarrow> string list \<Rightarrow> 'a svc_scheme
    \<Rightarrow> conv_error + node_row list \<times> 'a svc_scheme" where
  "commit_steering_txn conv active qids s =
    bindE (inject_items (cv_id conv) (t_id active) qids s) (\<lambda>(ns, s1).
      if ns = [] then Inr ([], s1)
      else
        (let (version, s2) = bump_turn_version (t_id active) s1 in
         bindE (append_and_emit [] conv ''node.user_steering'' SCOPE_TURN version
             (Some (t_id active))
             [(''nodes'', JList (map (\<lambda>n. JStr (n_id n)) ns)),
              (''texts'', JList (map (\<lambda>n. jopt JStr (n_text n)) ns))] s2) (\<lambda>(pend, s3).
         let (sversion, s4) = bump_session_version (cv_id conv) s3 in
         bindE (queue_event pend conv sversion
             [(''injected'', JList (map (\<lambda>n. JStr (n_id n)) ns))] s4) (\<lambda>(pend1, s5).
         Inr (ns, emit_all pend1 s5)))))"

definition commit_steering ::
  "string \<Rightarrow> string list \<Rightarrow> 'a svc_scheme \<Rightarrow> conv_error + node_row list \<times> 'a svc_scheme" where
  "commit_steering cid qids s =
    bindE (get_conversation cid s) (\<lambda>conv.
      case get_active_turn cid s of
        None \<Rightarrow> bindE (restore_items qids s) (\<lambda>s1. Inr ([], s1))
      | Some active \<Rightarrow> commit_steering_txn conv active qids s)"

text \<open>A missing item, one of another conversation, or one in another status is passed over.\<close>

fun abort_items :: "string \<Rightarrow> string list \<Rightarrow> 'a store_scheme \<Rightarrow> conv_error + 'a store_scheme" where
  "abort_items cid [] s = Inr s"
| "abort_items cid (qid # qids) s =
    (case find_queue_row qid s of
      None \<Rightarrow> abort_items cid qids s
    | Some item \<Rightarrow>
        (if q_conversation_id item \<noteq> cid then abort_items cid qids s
         else if q_status item = Q_WAITING_FOR_STEERING
         then bindE (set_queue_status qid Q_WAITING s) (\<lambda>(_, s1). abort_items cid qids s1)
         else abort_items cid qids s))"

definition abort_steering ::
  "string \<Rightarrow> string list \<Rightarrow> 'a svc_scheme \<Rightarrow> conv_error + 'a svc_scheme" where
  "abort_steering cid qids s =
    bindE (get_conversation cid s) (\<lambda>conv.
    bindE (abort_items cid qids s) (\<lambda>s1.
    let (version, s2) = bump_session_version cid s1 in
    bindE (queue_event [] conv version
        [(''aborted_steering'', JList (map JStr qids))] s2) (\<lambda>(pend, s3).
    Inr (emit_all pend s3))))"

end
