(* ===== verification/Service_Turns.thy ===== *)
theory Service_Turns
  imports Service_Core
begin

text \<open>
  The turn and node operations of \<open>ConversationService\<close>
  (\<open>gateway/conversation/service.py\<close>): starting a turn, transient status changes,
  streamed text deltas one by one and in batches, tool nodes merged by call id, the
  terminal transition of a turn with everything it closes, nodes of plan and goal rounds,
  and the stop request.

  \<open>start_turn\<close> and \<open>request_stop\<close> read the active turn before their transaction; the
  transactions are \<open>start_turn_txn\<close> and \<open>request_stop_txn\<close>.
\<close>

definition truncate_row :: "turn_row \<Rightarrow> turn" where
  "truncate_row t = turn.truncate t"

section \<open>Starting a turn and transient status changes\<close>

definition turn_status_event ::
  "pending \<Rightarrow> conversation \<Rightarrow> 'b turn_scheme \<Rightarrow> dict \<Rightarrow> 'a store_scheme
    \<Rightarrow> conv_error + pending \<times> 'a store_scheme" where
  "turn_status_event pend conv t data s =
    append_and_emit pend conv ''turn.status'' SCOPE_TURN (t_version t) (Some (t_id t))
      ((''status'', JStr (turn_status_value (t_status t))) # data) s"

definition start_turn_txn ::
  "limits \<Rightarrow> conversation \<Rightarrow> string option \<Rightarrow> string option \<Rightarrow> string option \<Rightarrow> 'a svc_scheme
    \<Rightarrow> conv_error + turn option \<times> 'a svc_scheme" where
  "start_turn_txn cfg conv snapshot_id parent_cid parent_tid s =
    (if max_turns_per_scope cfg \<le> count_active_turns_in_scope (cv_execution_scope conv) s
     then Inl ExecutionScopeLimit
     else
       bindE (create_turn_if_no_active (cv_id conv) T_QUEUED snapshot_id parent_cid parent_tid s)
         (\<lambda>(created, s1).
           case created of
             None \<Rightarrow> Inr (map_option truncate_row (get_active_turn (cv_id conv) s1), s1)
           | Some t \<Rightarrow>
               bindE (turn_status_event [] conv t [] s1) (\<lambda>(pend, s2).
               Inr (Some t, emit_all pend s2))))"

definition start_turn ::
  "limits \<Rightarrow> string \<Rightarrow> string option \<Rightarrow> string option \<Rightarrow> string option \<Rightarrow> 'a svc_scheme
    \<Rightarrow> conv_error + turn option \<times> 'a svc_scheme" where
  "start_turn cfg cid snapshot_id parent_cid parent_tid s =
    bindE (get_conversation cid s) (\<lambda>conv.
      case get_active_turn cid s of
        Some active \<Rightarrow> Inr (Some (truncate_row active), s)
      | None \<Rightarrow> start_turn_txn cfg conv snapshot_id parent_cid parent_tid s)"

definition set_turn_status ::
  "string \<Rightarrow> string \<Rightarrow> turn_status \<Rightarrow> string option \<Rightarrow> 'a svc_scheme
    \<Rightarrow> conv_error + turn_row \<times> 'a svc_scheme" where
  "set_turn_status cid tid status err s =
    bindE (get_conversation cid s) (\<lambda>conv.
    bindE (assert_turn_owned cid tid s) (\<lambda>_.
    bindE (update_turn_status tid status err None None s) (\<lambda>(t, s1).
    bindE (turn_status_event [] conv t [(''error_code'', jopt JStr (t_error_code t))] s1)
      (\<lambda>(pend, s2).
    Inr (t, emit_all pend s2)))))"

section \<open>Streamed deltas\<close>

text \<open>
  The node a delta goes to, and its sequence number: the text is appended to the last node
  of the type, or a new streaming node is created with sequence number 1.
\<close>

definition write_delta ::
  "bool \<Rightarrow> node_args \<Rightarrow> string \<Rightarrow> turn_node_type \<Rightarrow> string \<Rightarrow> 'a store_scheme
    \<Rightarrow> conv_error + (node_row \<times> nat) \<times> 'a store_scheme" where
  "write_delta continue_existing fresh tid type text s =
    (case (if continue_existing then find_last_node_id tid type s else None) of
      Some nid \<Rightarrow>
        bindE (append_node_text nid text s) (\<lambda>(n, s1). Inr ((n, n_text_seq n), s1))
    | None \<Rightarrow> bindE (create_node fresh s) (\<lambda>(n, s1). Inr ((n, 1), s1)))"

definition delta_event ::
  "pending \<Rightarrow> conversation \<Rightarrow> nat \<Rightarrow> string \<Rightarrow> turn_node_type \<Rightarrow> string \<Rightarrow> node_row \<Rightarrow> nat
    \<Rightarrow> 'a store_scheme \<Rightarrow> conv_error + pending \<times> 'a store_scheme" where
  "delta_event pend conv version tid type text n sq s =
    append_and_emit pend conv ''node.delta'' SCOPE_TURN version (Some tid)
      [(''node_id'', JStr (n_id n)),
       (''type'', JStr (node_type_value type)),
       (''delta'', JStr text),
       (''seq'', jnat sq),
       (''text_len'', jnat (length text)),
       (''status'', JStr (n_status n)),
       (''position'', jopt jnat (n_position n))] s"

record delta_args =
  da_continue_existing :: bool
  da_metadata :: "dict option"
  da_source_channel :: "string option"
  da_source_message_id :: "string option"
  da_sender_id :: "string option"
  da_sender_name :: "string option"

definition delta_defaults :: delta_args where
  "delta_defaults =
    \<lparr>da_continue_existing = True, da_metadata = None, da_source_channel = None,
     da_source_message_id = None, da_sender_id = None, da_sender_name = None\<rparr>"

definition upsert_node_delta ::
  "string \<Rightarrow> string \<Rightarrow> turn_node_type \<Rightarrow> string \<Rightarrow> delta_args \<Rightarrow> 'a svc_scheme
    \<Rightarrow> conv_error + node_row \<times> 'a svc_scheme" where
  "upsert_node_delta cid tid type text a s =
    bindE (get_conversation cid s) (\<lambda>conv.
    bindE (assert_turn_owned cid tid s) (\<lambda>_.
    bindE (write_delta (da_continue_existing a)
        ((node_defaults cid type ''streaming'')
          \<lparr>na_turn_id := Some tid, na_text := Some text, na_metadata := da_metadata a,
           na_source_channel := da_source_channel a,
           na_source_message_id := da_source_message_id a,
           na_sender_id := da_sender_id a, na_sender_name := da_sender_name a\<rparr>)
        tid type text s) (\<lambda>((n, sq), s1).
    let (version, s2) = bump_turn_version tid s1 in
    bindE (delta_event [] conv version tid type text n sq s2) (\<lambda>(pend, s3).
    Inr (n, emit_all pend s3)))))"

type_synonym delta_item = "string \<times> string \<times> turn_node_type \<times> string"

text \<open>
  The batch: an entry whose turn is gone or belongs to another conversation is skipped;
  \<open>convs\<close> caches the conversations read so far; the result counts the entries written.
\<close>

fun write_deltas ::
  "delta_item list \<Rightarrow> (string \<times> conversation) list \<Rightarrow> pending \<Rightarrow> 'a store_scheme
    \<Rightarrow> conv_error + (nat \<times> pending) \<times> 'a store_scheme" where
  "write_deltas [] convs pend s = Inr ((0, pend), s)"
| "write_deltas ((cid, tid, type, text) # items) convs pend s =
    (case get_turn tid s of
      Inl _ \<Rightarrow> write_deltas items convs pend s
    | Inr t \<Rightarrow>
        if t_conversation_id t \<noteq> cid then write_deltas items convs pend s
        else
          bindE (case map_of convs cid of Some c \<Rightarrow> Inr c | None \<Rightarrow> get_conversation cid s) (\<lambda>conv.
          bindE (write_delta True
              ((node_defaults cid type ''streaming'')\<lparr>na_turn_id := Some tid, na_text := Some text\<rparr>)
              tid type text s) (\<lambda>((n, sq), s1).
          let (version, s2) = bump_turn_version tid s1 in
          bindE (delta_event pend conv version tid type text n sq s2) (\<lambda>(pend1, s3).
          bindE (write_deltas items (AList.update cid conv convs) pend1 s3)
            (\<lambda>((written, pend2), s4). Inr ((Suc written, pend2), s4))))))"

definition upsert_node_deltas ::
  "delta_item list \<Rightarrow> 'a svc_scheme \<Rightarrow> conv_error + nat \<times> 'a svc_scheme" where
  "upsert_node_deltas items s =
    bindE (write_deltas items [] [] s) (\<lambda>((written, pend), s1). Inr (written, emit_all pend s1))"

text \<open>The gap event is published without an outbox row and never fails.\<close>

definition publish_version_gap :: "string \<Rightarrow> string \<Rightarrow> 'a svc_scheme \<Rightarrow> 'a svc_scheme" where
  "publish_version_gap cid reason s =
    (case get_conversation cid s of
      Inl _ \<Rightarrow> s
    | Inr conv \<Rightarrow>
        emit ''version_gap''
          (event_payload conv SCOPE_SESSION 0 JNull
            [(''reason'', JStr reason), (''error_code'', JStr ''delta_buffer_overflow''),
             (''version'', jnat 0)]) None s)"

text \<open>
  Closing the last streaming node of a type. The node returned by \<open>update_node\<close> has no
  \<open>text_seq\<close> attribute, so the event of the intermediate branch carries 0.
\<close>

definition finalize_node ::
  "string \<Rightarrow> string \<Rightarrow> turn_node_type \<Rightarrow> bool \<Rightarrow> 'a svc_scheme
    \<Rightarrow> conv_error + node_row option \<times> 'a svc_scheme" where
  "finalize_node cid tid type mark_intermediate s =
    bindE (get_conversation cid s) (\<lambda>conv.
    bindE (assert_turn_owned cid tid s) (\<lambda>_.
      case get_last_turn_node tid type s of
        None \<Rightarrow> Inr (None, s)
      | Some latest \<Rightarrow>
          (if n_status latest \<noteq> ''streaming'' then Inr (None, s)
           else
             bindE (if mark_intermediate
                 then update_node (n_id latest) None (Some ''done'')
                   (Some (dput ''intermediate'' (JBool True) (n_metadata latest))) s
                 else set_node_status (n_id latest) ''done'' s) (\<lambda>(n, s1).
             let (version, s2) = bump_turn_version tid s1 in
             bindE (append_and_emit [] conv ''node.delta'' SCOPE_TURN version (Some tid)
                 [(''node_id'', JStr (n_id n)),
                  (''type'', JStr (node_type_value type)),
                  (''text'', JStr (case n_text n of None \<Rightarrow> [] | Some x \<Rightarrow> x)),
                  (''status'', JStr ''done''),
                  (''seq'', jnat (if mark_intermediate then 0 else n_text_seq n)),
                  (''intermediate'', JBool (truthy (dget (n_metadata n) ''intermediate'')))] s2)
               (\<lambda>(pend, s3).
             Inr (Some n, emit_all pend s3))))))"

section \<open>Tool nodes\<close>

definition gen_node_id_from_call :: "string \<Rightarrow> string \<Rightarrow> 'a svc_scheme \<Rightarrow> string" where
  "gen_node_id_from_call call_id cid s =
    ''node_'' @ take 24 (sha_text s (cid @ '':'' @ call_id))"

record tool_args =
  ta_status :: string
  ta_params_summary :: "string option"
  ta_result_summary :: "string option"
  ta_error :: "string option"
  ta_error_code :: "string option"
  ta_error_message :: "string option"
  ta_result_ref :: "string option"
  ta_result_size_bytes :: nat
  ta_tool_name :: "string option"
  ta_extra_metadata :: "dict option"

definition tool_defaults :: "string \<Rightarrow> tool_args" where
  "tool_defaults status =
    \<lparr>ta_status = status, ta_params_summary = None, ta_result_summary = None, ta_error = None,
     ta_error_code = None, ta_error_message = None, ta_result_ref = None,
     ta_result_size_bytes = 0, ta_tool_name = None, ta_extra_metadata = None\<rparr>"

text \<open>The fields this event carries, written over the metadata so far.\<close>

definition tool_metadata :: "tool_args \<Rightarrow> dict \<Rightarrow> dict" where
  "tool_metadata a m =
    (let put = (\<lambda>k v d. dput_some k (map_option JStr v) d);
         m1 = put ''error'' (ta_error a)
                (put ''result_summary'' (ta_result_summary a)
                  (put ''params_summary'' (ta_params_summary a)
                    (put ''tool'' (ta_tool_name a) m)));
         m2 = put ''result_ref'' (ta_result_ref a)
                (put ''error_message'' (ta_error_message a)
                  (put ''error_code'' (ta_error_code a) m1));
         m3 = (if ta_result_size_bytes a \<noteq> 0
               then dput ''result_size_bytes'' (jnat (ta_result_size_bytes a)) m2 else m2)
     in (case ta_extra_metadata a of None \<Rightarrow> m3 | Some d \<Rightarrow> dmerge m3 d))"

definition upsert_tool_node ::
  "string \<Rightarrow> string \<Rightarrow> string \<Rightarrow> tool_args \<Rightarrow> 'a svc_scheme
    \<Rightarrow> conv_error + node_row \<times> 'a svc_scheme" where
  "upsert_tool_node cid tid call_id a s =
    bindE (get_conversation cid s) (\<lambda>conv.
    bindE (assert_turn_owned cid tid s) (\<lambda>_.
    let nid = gen_node_id_from_call call_id cid s;
        metadata = (case find_node nid s of
            Some row \<Rightarrow> tool_metadata a (dsetdefault ''call_id'' (JStr call_id) (n_metadata row))
          | None \<Rightarrow> tool_metadata a [(''call_id'', JStr call_id)])
    in
    bindE (case find_node nid s of
        Some row \<Rightarrow> update_node nid None (Some (ta_status a)) (Some metadata) s
      | None \<Rightarrow> create_node
          ((node_defaults cid N_TOOL (ta_status a))
            \<lparr>na_turn_id := Some tid,
             na_text := Some (case ta_params_summary a of None \<Rightarrow> [] | Some p \<Rightarrow> p),
             na_metadata := Some metadata, na_node_id := Some nid\<rparr>) s) (\<lambda>(n, s1).
    let (version, s2) = bump_turn_version tid s1 in
    bindE (append_and_emit [] conv ''node.tool'' SCOPE_TURN version (Some tid)
        [(''node_id'', JStr (n_id n)), (''call_id'', JStr call_id),
         (''status'', JStr (ta_status a)), (''result_ref'', jopt JStr (ta_result_ref a)),
         (''tool'', jor (dget metadata ''tool'') (JStr [])),
         (''params_summary'', jor (dget metadata ''params_summary'') (JStr [])),
         (''result_summary'', jor (dget metadata ''result_summary'') (JStr [])),
         (''error'', jor (dget metadata ''error'') JNull),
         (''error_code'', jor (dget metadata ''error_code'') JNull),
         (''position'', jopt jnat (n_position n))] s2) (\<lambda>(pend, s3).
    Inr (n, emit_all pend s3)))))"

section \<open>The terminal transition\<close>

text \<open>
  The note on a swept tool node: the UTF-8 bytes of the Chinese text of the source, "the
  tool call did not return (turn stopped, timed out or interrupted); closed automatically".
\<close>

definition SWEEP_NOTE :: string where
  "SWEEP_NOTE = map char_of
    [0xE5, 0xB7, 0xA5, 0xE5, 0x85, 0xB7, 0xE8, 0xB0, 0x83, 0xE7, 0x94, 0xA8, 0xE6, 0x9C,
     0xAA, 0xE8, 0xBF, 0x94, 0xE5, 0x9B, 0x9E, 0xEF, 0xBC, 0x88, 0xE8, 0xBD, 0xAE, 0xE6,
     0xAC, 0xA1, 0xE5, 0xB7, 0xB2, 0xE5, 0x81, 0x9C, 0xE6, 0xAD, 0xA2, 0x2F, 0xE8, 0xB6,
     0x85, 0xE6, 0x97, 0xB6, 0x2F, 0xE4, 0xB8, 0xAD, 0xE6, 0x96, 0xAD, 0xEF, 0xBC, 0x89,
     0xEF, 0xBC, 0x8C, 0xE5, 0xB7, 0xB2, 0xE8, 0x87, 0xAA, 0xE5, 0x8A, 0xA8, 0xE6, 0x94,
     0xB6, 0xE5, 0x8F, 0xA3 :: nat]"

text \<open>The final answer is written to the last assistant node, or to a new one.\<close>

definition write_final_answer ::
  "string \<Rightarrow> string \<Rightarrow> string \<Rightarrow> 'a store_scheme \<Rightarrow> conv_error + node_row \<times> 'a store_scheme" where
  "write_final_answer cid tid full_text s =
    (case get_last_turn_node tid N_ASSISTANT s of
      None \<Rightarrow> create_node
        ((node_defaults cid N_ASSISTANT ''done'')
          \<lparr>na_turn_id := Some tid, na_text := Some full_text,
           na_metadata := Some [(''final'', JBool True)]\<rparr>) s
    | Some n \<Rightarrow>
        (let meta = n_metadata n
         in if dhas meta ''intermediate'' \<or> dhas meta ''final'' \<or>
               truthy (dget meta ''runtime_final'')
            then update_node (n_id n) (Some full_text) (Some ''done'') None s
            else update_node (n_id n) (Some full_text) (Some ''done'')
              (Some (dput ''intermediate'' (JBool False) (dput ''final'' (JBool True) meta))) s))"

fun swept_events ::
  "conversation \<Rightarrow> turn_row \<Rightarrow> swept_node list \<Rightarrow> pending \<Rightarrow> 'a store_scheme
    \<Rightarrow> conv_error + pending \<times> 'a store_scheme" where
  "swept_events conv t [] pend s = Inr (pend, s)"
| "swept_events conv t (sw # sws) pend s =
    bindE (append_and_emit pend conv ''node.tool'' SCOPE_TURN (t_version t) (Some (t_id t))
        [(''node_id'', JStr (sw_node_id sw)), (''call_id'', sw_call_id sw),
         (''status'', JStr ''error''), (''result_ref'', JNull),
         (''tool'', sw_tool sw), (''params_summary'', sw_params_summary sw),
         (''result_summary'', JStr (sw_result_summary sw)),
         (''error'', JStr SWEEP_NOTE), (''error_code'', JStr ''tool_no_return''),
         (''position'', jopt jnat (sw_position sw))] s) (\<lambda>(pend1, s1).
    swept_events conv t sws pend1 s1)"

text \<open>
  The pending approvals of the turn and their cancellation, shared by \<open>complete_turn\<close> and
  \<open>cancel_pending_approvals\<close>; the code spells the two statements out in both.
\<close>

definition pending_of :: "string \<Rightarrow> string \<Rightarrow> approval \<Rightarrow> bool" where
  "pending_of cid tid a \<longleftrightarrow>
    ap_conversation_id a = cid \<and> ap_turn_id a = tid \<and> ap_status a = A_PENDING"

definition cancel_approvals :: "string \<Rightarrow> string \<Rightarrow> 'a store_scheme \<Rightarrow> 'a store_scheme" where
  "cancel_approvals cid tid s =
    update_approvals (pending_of cid tid)
      (\<lambda>a. a\<lparr>ap_status := A_CANCELLED, ap_resolved_at := Some (utc_now s),
              ap_resolved_by := Some ''system''\<rparr>) s"

fun cancelled_events ::
  "conversation \<Rightarrow> turn_row \<Rightarrow> approval list \<Rightarrow> pending \<Rightarrow> 'a store_scheme
    \<Rightarrow> conv_error + pending \<times> 'a store_scheme" where
  "cancelled_events conv t [] pend s = Inr (pend, s)"
| "cancelled_events conv t (a # as) pend s =
    bindE (append_and_emit pend conv ''approval.resolved'' SCOPE_TURN (t_version t) (Some (t_id t))
        [(''approval_id'', JStr (ap_id a)),
         (''status'', JStr (approval_status_value A_CANCELLED)),
         (''tool_name'', JStr (ap_tool_name a)),
         (''error_code'', JStr ''approval_cancelled''),
         (''reason'', JStr ''turn_terminal'')] s) (\<lambda>(pend1, s1).
    cancelled_events conv t as pend1 s1)"

definition complete_turn_body ::
  "conversation \<Rightarrow> string \<Rightarrow> turn_status \<Rightarrow> string option \<Rightarrow> string option \<Rightarrow> 'a store_scheme
    \<Rightarrow> conv_error + (turn_row \<times> pending) \<times> 'a store_scheme" where
  "complete_turn_body conv tid status full_text err s =
    bindE (case full_text of
        Some x \<Rightarrow>
          (if status = T_DONE
           then bindE (write_final_answer (cv_id conv) tid x s) (\<lambda>(n, s1). Inr (Some (n_id n), s1))
           else Inr (None, s))
      | None \<Rightarrow> Inr (None, s)) (\<lambda>(final_node_id, s1).
    bindE (update_turn_status tid status err (Some (utc_now s1)) final_node_id s1) (\<lambda>(t, s2).
    let (_, s3) = finalize_turn_nodes tid s2;
        (swept, s4) = sweep_running_tool_nodes tid SWEEP_NOTE ''tool_no_return'' s3
    in
    bindE (swept_events conv t swept [] s4) (\<lambda>(pend, s5).
    let rows = (if status \<in> {T_STOPPED, T_ERROR, T_INTERRUPTED}
                then filter (pending_of (cv_id conv) tid) (approvals s5) else []);
        s6 = (if rows = [] then s5 else cancel_approvals (cv_id conv) tid s5)
    in
    bindE (cancelled_events conv t rows pend s6) (\<lambda>(pend1, s7).
    bindE (turn_status_event pend1 conv t [(''error_code'', jopt JStr (t_error_code t))] s7)
      (\<lambda>(pend2, s8).
    let text = (case full_text of None \<Rightarrow> [] | Some x \<Rightarrow> x) in
    bindE (append_and_emit pend2 conv ''chat.done'' SCOPE_TURN (t_version t) (Some tid)
        [(''full_text'', JStr text),
         (''full_text_len'', jnat (length text)),
         (''final_assistant_node_id'', jopt JStr final_node_id),
         (''status'', JStr (turn_status_value (t_status t))),
         (''error_code'', jopt JStr (t_error_code t))] s8) (\<lambda>(pend3, s9).
    Inr ((t, pend3), s9)))))))"

definition complete_turn ::
  "string \<Rightarrow> string \<Rightarrow> turn_status \<Rightarrow> string option \<Rightarrow> string option \<Rightarrow> 'a svc_scheme
    \<Rightarrow> conv_error + turn_row \<times> 'a svc_scheme" where
  "complete_turn cid tid status full_text err s =
    bindE (get_conversation cid s) (\<lambda>conv.
    bindE (get_turn tid s) (\<lambda>t0.
      if t_conversation_id t0 \<noteq> cid then Inl TurnNotFound
      else if terminal_status (t_status t0) then Inr (t0, s)
      else
        bindE (complete_turn_body conv tid status full_text err s) (\<lambda>((t, pend), s1).
        Inr (t, emit_all pend s1))))"

section \<open>Plan and goal rounds, stopping\<close>

definition runtime_metadata :: "string \<Rightarrow> string \<Rightarrow> string \<Rightarrow> bool \<Rightarrow> dict" where
  "runtime_metadata runtime_type runtime_id status final =
    [(''runtime_type'', JStr runtime_type), (''runtime_id'', JStr runtime_id),
     (''runtime_status'', JStr status)]
    @ (if final then [(''runtime_final'', JBool True), (''final'', JBool True)]
       else [(''intermediate'', JBool True)])"

definition append_runtime_node ::
  "string \<Rightarrow> string \<Rightarrow> string \<Rightarrow> string \<Rightarrow> string \<Rightarrow> string \<Rightarrow> bool \<Rightarrow> 'a svc_scheme
    \<Rightarrow> conv_error + node_row \<times> 'a svc_scheme" where
  "append_runtime_node cid tid runtime_type runtime_id text status final s =
    bindE (get_conversation cid s) (\<lambda>conv.
    bindE (assert_turn_owned cid tid s) (\<lambda>_.
    bindE (create_node
        ((node_defaults cid N_ASSISTANT status)
          \<lparr>na_turn_id := Some tid, na_text := Some text,
           na_metadata := Some (runtime_metadata runtime_type runtime_id status final)\<rparr>) s)
      (\<lambda>(n, s1).
    let (version, s2) = bump_turn_version tid s1 in
    bindE (append_and_emit [] conv ''node.delta'' SCOPE_TURN version (Some tid)
        [(''node_id'', JStr (n_id n)), (''type'', JStr (node_type_value N_ASSISTANT)),
         (''text'', JStr (case n_text n of None \<Rightarrow> [] | Some x \<Rightarrow> x)),
         (''status'', JStr (n_status n)), (''position'', jopt jnat (n_position n))] s2)
      (\<lambda>(pend, s3).
    Inr (n, emit_all pend s3)))))"

definition stop_request :: dict where
  "stop_request = [(''op'', JStr ''stop'')]"

definition request_stop_txn ::
  "conversation \<Rightarrow> string \<Rightarrow> string option \<Rightarrow> 'a svc_scheme
    \<Rightarrow> conv_error + turn_row option \<times> 'a svc_scheme" where
  "request_stop_txn conv active_id operation_id s =
    bindE (check_operation operation_id (cv_id conv) stop_request s) (\<lambda>hit.
      case hit of
        Some result \<Rightarrow>
          bindE (result_str result ''turn_id'') (\<lambda>tid.
          bindE (get_turn tid s) (\<lambda>t. Inr (Some t, s)))
      | None \<Rightarrow>
          bindE (update_turn_status active_id T_STOPPING None None None s) (\<lambda>(t, s1).
          bindE (record_operation operation_id (cv_id conv) stop_request
              [(''turn_id'', JStr (t_id t))] s1) (\<lambda>s2.
          bindE (turn_status_event [] conv t [] s2) (\<lambda>(pend, s3).
          Inr (Some t, emit_all pend s3)))))"

definition request_stop ::
  "string \<Rightarrow> string option \<Rightarrow> 'a svc_scheme \<Rightarrow> conv_error + turn_row option \<times> 'a svc_scheme" where
  "request_stop cid operation_id s =
    bindE (get_conversation cid s) (\<lambda>conv.
      case get_active_turn cid s of
        None \<Rightarrow> Inr (None, s)
      | Some active \<Rightarrow> request_stop_txn conv (t_id active) operation_id s)"

end
