(* ===== verification/Service_Maint.thy ===== *)
theory Service_Maint
  imports Service_Queue Service_Turns
begin

text \<open>
  The remaining operations of \<open>ConversationService\<close> (\<open>gateway/conversation/service.py\<close>):
  approvals and their expiry, tool results, delivery events, the deduplication of channel
  messages, recovery after a restart, and the retention run.

  An operation that has the same name as a store operation is prefixed with \<open>svc_\<close>.
\<close>

section \<open>Approvals\<close>

definition request_approval ::
  "string \<Rightarrow> string \<Rightarrow> string \<Rightarrow> string \<Rightarrow> 'a svc_scheme
    \<Rightarrow> conv_error + approval \<times> 'a svc_scheme" where
  "request_approval cid tid tool_name params_summary s =
    bindE (get_conversation cid s) (\<lambda>conv.
    bindE (assert_turn_owned cid tid s) (\<lambda>_.
    bindE (create_approval cid tid tool_name params_summary None s) (\<lambda>(a, s1).
    bindE (update_turn_status tid T_APPROVAL None None None s1) (\<lambda>(t, s2).
    bindE (append_and_emit [] conv ''approval.requested'' SCOPE_TURN (t_version t) (Some tid)
        [(''approval_id'', JStr (ap_id a)), (''tool_name'', JStr tool_name),
         (''params_summary'', JStr params_summary)] s2) (\<lambda>(pend, s3).
    Inr (a, emit_all pend s3))))))"

definition svc_resolve_approval ::
  "string \<Rightarrow> string \<Rightarrow> approval_status \<Rightarrow> string \<Rightarrow> 'a svc_scheme
    \<Rightarrow> conv_error + approval \<times> 'a svc_scheme" where
  "svc_resolve_approval cid aid decision resolved_by s =
    bindE (get_conversation cid s) (\<lambda>conv.
    bindE (assert_approval_owned cid aid s) (\<lambda>_.
      if decision \<noteq> A_APPROVED \<and> decision \<noteq> A_DENIED then Inl ValidationFailed
      else
        bindE (resolve_approval aid decision resolved_by s) (\<lambda>(a, s1).
        bindE (get_turn (ap_turn_id a) s1) (\<lambda>t.
        bindE (append_and_emit [] conv ''approval.resolved'' SCOPE_TURN (t_version t)
            (Some (ap_turn_id a))
            [(''approval_id'', JStr (ap_id a)),
             (''status'', JStr (approval_status_value (ap_status a))),
             (''tool_name'', JStr (ap_tool_name a))] s1) (\<lambda>(pend, s2).
        Inr (a, emit_all pend s2))))))"

definition cancel_pending_approvals ::
  "string \<Rightarrow> string \<Rightarrow> 'a svc_scheme \<Rightarrow> conv_error + nat \<times> 'a svc_scheme" where
  "cancel_pending_approvals cid tid s =
    bindE (get_conversation cid s) (\<lambda>conv.
      let rows = filter (pending_of cid tid) (approvals s) in
      if rows = [] then Inr (0, s)
      else
        (let s1 = cancel_approvals cid tid s in
         bindE (get_turn tid s1) (\<lambda>t.
         bindE (cancelled_events conv t rows [] s1) (\<lambda>(pend, s2).
         Inr (length rows, emit_all pend s2)))))"

text \<open>
  Expiry. The stale rows are joined with their conversation and, on the left, their turn;
  the rows are captured before the UPDATE.
\<close>

definition timed_out_payload :: "conversation \<Rightarrow> nat \<Rightarrow> approval \<Rightarrow> dict" where
  "timed_out_payload conv version a =
    [(''conversation_id'', JStr (ap_conversation_id a)),
     (''session_key'', JStr (cv_session_key conv)),
     (''origin'', JStr (cv_origin conv)),
     (''subtype'', JStr (cv_subtype conv)),
     (''workspace_id'', jopt JStr (cv_workspace_id conv)),
     (''scope'', JStr SCOPE_TURN),
     (''version'', jnat version),
     (''turn_id'', JStr (ap_turn_id a)),
     (''data'', JObj
       [(''approval_id'', JStr (ap_id a)),
        (''status'', JStr (approval_status_value A_TIMED_OUT)),
        (''tool_name'', JStr (ap_tool_name a)),
        (''error_code'', JStr ''approval_timed_out''),
        (''reason'', JStr ''timeout'')])]"

definition stale_rows :: "'a store_scheme \<Rightarrow> (conversation \<times> nat \<times> approval) list" where
  "stale_rows s =
    List.map_filter
      (\<lambda>a. case find_session (ap_conversation_id a) s of
          None \<Rightarrow> None
        | Some conv \<Rightarrow>
            Some (conv, (case find_turn (ap_turn_id a) s of None \<Rightarrow> 0 | Some t \<Rightarrow> t_version t), a))
      (filter (approval_stale s) (approvals s))"

fun timed_out_events ::
  "(conversation \<times> nat \<times> approval) list \<Rightarrow> pending \<Rightarrow> 'a store_scheme
    \<Rightarrow> conv_error + pending \<times> 'a store_scheme" where
  "timed_out_events [] pend s = Inr (pend, s)"
| "timed_out_events ((conv, version, a) # rows) pend s =
    bindE (append_outbox (ap_conversation_id a) ''approval.resolved'' SCOPE_TURN version
        (timed_out_payload conv version a) s) (\<lambda>(e, s1).
    timed_out_events rows
      (pend @ [(''approval.resolved'', timed_out_payload conv version a, ob_id e)]) s1)"

definition expire_and_broadcast_approvals ::
  "pending \<Rightarrow> 'a store_scheme \<Rightarrow> conv_error + (nat \<times> pending) \<times> 'a store_scheme" where
  "expire_and_broadcast_approvals pend s =
    (let rows = stale_rows s;
         (count, s1) = expire_stale_approvals s
     in bindE (timed_out_events rows pend s1) (\<lambda>(pend1, s2). Inr ((count, pend1), s2)))"

section \<open>Tool results, deliveries and receipts\<close>

definition svc_save_tool_result ::
  "string \<Rightarrow> string \<Rightarrow> string \<Rightarrow> string \<Rightarrow> string option \<Rightarrow> nat \<Rightarrow> nat \<Rightarrow> string option
    \<Rightarrow> dict option \<Rightarrow> string option \<Rightarrow> 'a svc_scheme \<Rightarrow> conv_error + 'a svc_scheme" where
  "svc_save_tool_result cid tid result_ref kind node_id size_bytes lines content_type summary
      truncation_reason s =
    bindE (save_tool_result cid tid result_ref kind node_id size_bytes lines content_type summary
      truncation_reason s) (\<lambda>(_, s1). Inr s1)"

definition get_result ::
  "string \<Rightarrow> string \<Rightarrow> string \<Rightarrow> 'a store_scheme \<Rightarrow> conv_error + dict" where
  "get_result cid tid result_ref s =
    bindE (get_tool_result result_ref s) (\<lambda>r.
      if tr_conversation_id r \<noteq> cid \<or> tr_turn_id r \<noteq> tid then Inl ResultNotOwned
      else Inr (tool_result_to_dict r))"

definition record_delivery ::
  "string \<Rightarrow> string \<Rightarrow> string \<Rightarrow> string \<Rightarrow> string \<Rightarrow> nat \<Rightarrow> 'a svc_scheme
    \<Rightarrow> conv_error + 'a svc_scheme" where
  "record_delivery cid tid channel message_id state version s =
    bindE (get_conversation cid s) (\<lambda>conv.
    bindE (assert_turn_owned cid tid s) (\<lambda>_.
    bindE (append_and_emit [] conv ''delivery.status'' SCOPE_DELIVERY version (Some tid)
        [(''channel'', JStr channel), (''message_id'', JStr message_id),
         (''state'', JStr state)] s) (\<lambda>(pend, s1).
    Inr (emit_all pend s1))))"

text \<open>
  \<open>INSERT ... ON CONFLICT(channel, message_id) DO UPDATE ... WHERE created_at < cutoff\<close>;
  the result is True when no row was written, that is, for a duplicate in the window.
\<close>

definition receipt_key :: "channel_message_receipt \<Rightarrow> string \<times> string" where
  "receipt_key r = (rc_channel r, rc_message_id r)"

definition check_and_record_receipt ::
  "string \<Rightarrow> string \<Rightarrow> string \<Rightarrow> 'a store_scheme \<Rightarrow> conv_error + bool \<times> 'a store_scheme" where
  "check_and_record_receipt cid channel message_id s =
    (if message_id = [] then Inr (False, s)
     else
       (let cut = cutoff RECEIPT_TTL_SECONDS s;
            row = \<lparr>rc_channel = channel, rc_message_id = message_id, rc_conversation_id = cid,
                   rc_created_at = utc_now s\<rparr>
        in case lookup_row receipt_key (channel, message_id) (receipts s) of
            None \<Rightarrow>
              (if \<not> conv_exists cid s then Inl IntegrityError
               else Inr (False, s\<lparr>receipts := receipts s @ [row]\<rparr>))
          | Some old \<Rightarrow>
              (if cut \<le> int (rc_created_at old) then Inr (True, s)
               else if \<not> conv_exists cid s then Inl IntegrityError
               else Inr (False, s\<lparr>receipts :=
                   sql_update (\<lambda>r. receipt_key r = (channel, message_id))
                     (\<lambda>r. r\<lparr>rc_conversation_id := cid, rc_created_at := utc_now s\<rparr>)
                     (receipts s)\<rparr>))))"

section \<open>Recovery after a restart\<close>

fun recover_rows ::
  "(string \<times> string) list \<Rightarrow> pending \<Rightarrow> 'a store_scheme \<Rightarrow> conv_error + pending \<times> 'a store_scheme"
where
  "recover_rows [] pend s = Inr (pend, s)"
| "recover_rows ((tid, cid) # rows) pend s =
    (case get_turn tid s of
      Inl _ \<Rightarrow> recover_rows rows pend s
    | Inr t \<Rightarrow>
        bindE (get_conversation cid s) (\<lambda>conv.
        bindE (turn_status_event pend conv t
            [(''error_code'', JStr (case t_error_code t of
                Some c \<Rightarrow> if c = [] then ''gateway_restart'' else c
              | None \<Rightarrow> ''gateway_restart''))] s) (\<lambda>(pend1, s1).
        let (version, s2) = bump_session_version cid s1 in
        bindE (queue_event pend1 conv version [(''interrupted'', JBool True)] s2) (\<lambda>(pend2, s3).
        recover_rows rows pend2 s3))))"

definition recover_after_restart ::
  "'a svc_scheme \<Rightarrow> conv_error + (nat \<times> nat) \<times> 'a svc_scheme" where
  "recover_after_restart s =
    (let affected = map (\<lambda>t. (t_id t, t_conversation_id t)) (filter turn_active (turns s));
         (interrupted, s1) = interrupt_active_turns s;
         (items, s2) = reset_interrupted_queue_items s1
     in bindE (recover_rows affected [] s2) (\<lambda>(pend, s3).
          Inr ((interrupted, items), emit_all pend s3)))"

section \<open>The retention run\<close>

record cleanup_report =
  cl_idempotency :: nat
  cl_outbox :: nat
  cl_receipts :: nat
  cl_approvals :: nat
  cl_pending_deletes :: nat
  cl_system_conversations :: "string list"

definition cleanup ::
  "int \<Rightarrow> 'a svc_scheme \<Rightarrow> conv_error + cleanup_report \<times> 'a svc_scheme" where
  "cleanup system_retention_days s =
    (let (n_idem, s1) = cleanup_idempotency s;
         (n_outbox, s2) = cleanup_outbox s1;
         (n_receipts, s3) = cleanup_receipts s2
     in bindE (expire_and_broadcast_approvals [] s3) (\<lambda>((n_approvals, pend), s4).
        let (n_deletes, s5) = archive_expired_pending_deletes s4 in
        bindE (delete_stale_system_conversations system_retention_days 500 s5) (\<lambda>(convs, s6).
        Inr (\<lparr>cl_idempotency = n_idem, cl_outbox = n_outbox, cl_receipts = n_receipts,
               cl_approvals = n_approvals, cl_pending_deletes = n_deletes,
               cl_system_conversations = convs\<rparr>, emit_all pend s6))))"

definition scope_usage :: "string \<Rightarrow> 'a store_scheme \<Rightarrow> nat" where
  "scope_usage scope s = count_active_turns_in_scope scope s"

end
