(* ===== verification/Service_Inv.thy ===== *)
theory Service_Inv
  imports Service_Maint
begin

text \<open>
  What every service operation keeps.

  \<open>calm s0 s\<close>: no turn and no conversation was created, deleted or given to another
  owner between the two states, and no turn that had ended is active again. \<open>good s0 s\<close>
  adds the database invariant. The collection \<open>good_dests\<close> holds one lemma per operation;
  the lemmas chain, because each extends \<open>good s0\<close> from the state before to the state
  after. Operations that are sound for some arguments only carry the needed premise.
\<close>

named_theorems good_dests "operations keep the invariant and revive no turn"

definition turn_calm :: "turn_row \<Rightarrow> turn_row \<Rightarrow> bool" where
  "turn_calm t t' \<longleftrightarrow> t_id t' = t_id t \<and> t_conversation_id t' = t_conversation_id t \<and>
    (turn_active t' \<longrightarrow> turn_active t)"

definition session_calm :: "conversation \<Rightarrow> conversation \<Rightarrow> bool" where
  "session_calm c c' \<longleftrightarrow> cv_id c' = cv_id c \<and> cv_execution_scope c' = cv_execution_scope c"

definition calm :: "'a store_scheme \<Rightarrow> 'a store_scheme \<Rightarrow> bool" where
  "calm s s' \<longleftrightarrow> list_all2 turn_calm (turns s) (turns s') \<and>
    list_all2 session_calm (sessions s) (sessions s')"

definition good :: "'a store_scheme \<Rightarrow> 'a store_scheme \<Rightarrow> bool" where
  "good s0 s \<longleftrightarrow> store_inv s \<and> calm s0 s"

lemma turn_calm_refl [simp]: "turn_calm t t"
  by (simp add: turn_calm_def)

lemma calm_refl [simp]: "calm s s"
  by (simp add: calm_def list_all2_same turn_calm_def session_calm_def)

lemma calm_trans:
  assumes "calm s s'" and "calm s' s''"
  shows "calm s s''"
  using assms list_all2_trans [of turn_calm turn_calm turn_calm "turns s" "turns s'" "turns s''"]
    list_all2_trans [of session_calm session_calm session_calm "sessions s" "sessions s'"
      "sessions s''"]
  by (auto simp: calm_def turn_calm_def session_calm_def)

lemma goodI: "store_inv s \<Longrightarrow> good s s"
  by (simp add: good_def)

lemma good_inv: "good s0 s \<Longrightarrow> store_inv s"
  by (simp add: good_def)

lemma good_calm: "good s0 s \<Longrightarrow> calm s0 s"
  by (simp add: good_def)

section \<open>Consequences of calm\<close>

lemma list_all2_turn_calm_update:
  "(\<And>t. t_id (f t) = t_id t) \<Longrightarrow> (\<And>t. t_conversation_id (f t) = t_conversation_id t) \<Longrightarrow>
   (\<And>t. t \<in> set ts \<Longrightarrow> P t \<Longrightarrow> turn_active (f t) \<Longrightarrow> turn_active t) \<Longrightarrow>
   list_all2 turn_calm ts (sql_update P f ts)"
  by (induction ts) (auto simp: turn_calm_def)

lemma list_all2_session_calm_update:
  "(\<And>c. cv_id (f c) = cv_id c) \<Longrightarrow> (\<And>c. cv_execution_scope (f c) = cv_execution_scope c) \<Longrightarrow>
   list_all2 session_calm cs (sql_update P f cs)"
  by (induction cs) (auto simp: session_calm_def)

lemma calm_owners: "list_all2 turn_calm ts ts' \<Longrightarrow>
  (\<lambda>t. (t_id t, t_conversation_id t)) ` set ts' = (\<lambda>t. (t_id t, t_conversation_id t)) ` set ts"
  by (induction rule: list_all2_induct) (auto simp: turn_calm_def)

lemma calm_turn_owners: "calm s s' \<Longrightarrow> turn_owners s' = turn_owners s"
  using calm_owners by (auto simp: calm_def turn_owners_def)

lemma calm_sql_count:
  "list_all2 turn_calm ts ts' \<Longrightarrow>
   (\<And>t t'. turn_calm t t' \<Longrightarrow> Q t' \<Longrightarrow> R t) \<Longrightarrow> sql_count Q ts' \<le> sql_count R ts"
  by (induction rule: list_all2_induct) (auto simp: le_SucI)

lemma calm_one_active: "calm s s' \<Longrightarrow> one_active (turns s) \<Longrightarrow> one_active (turns s')"
  unfolding one_active_def
proof (intro allI)
  fix cid
  assume c: "calm s s'" and one: "\<forall>cid. sql_count (\<lambda>t. t_conversation_id t = cid \<and> turn_active t) (turns s) \<le> 1"
  have "sql_count (\<lambda>t. t_conversation_id t = cid \<and> turn_active t) (turns s')
      \<le> sql_count (\<lambda>t. t_conversation_id t = cid \<and> turn_active t) (turns s)"
    using c by (intro calm_sql_count) (auto simp: calm_def turn_calm_def)
  with one show "sql_count (\<lambda>t. t_conversation_id t = cid \<and> turn_active t) (turns s') \<le> 1"
    using le_trans by blast
qed

lemma calm_find_session:
  "list_all2 session_calm cs cs' \<Longrightarrow>
   rel_option session_calm (lookup_row cv_id cid cs) (lookup_row cv_id cid cs')"
  by (induction rule: list_all2_induct) (auto simp: session_calm_def)

lemma calm_conv_in_scope: "calm s s' \<Longrightarrow> conv_in_scope sc cid s' = conv_in_scope sc cid s"
  using calm_find_session [of "sessions s" "sessions s'" cid]
  by (auto simp: calm_def conv_in_scope_def find_defs session_calm_def
      split: option.splits elim: option.rel_cases)

lemma calm_scope_count:
  "calm s s' \<Longrightarrow> count_active_turns_in_scope sc s' \<le> count_active_turns_in_scope sc s"
  unfolding count_active_turns_in_scope_def
  by (rule calm_sql_count) (auto simp: calm_def turn_calm_def calm_conv_in_scope)

lemma calm_global_count: "calm s s' \<Longrightarrow> count_active_turns s' \<le> count_active_turns s"
  unfolding count_active_turns_def by (rule calm_sql_count) (auto simp: calm_def turn_calm_def)

lemma calm_find_turn:
  "list_all2 turn_calm ts ts' \<Longrightarrow> rel_option turn_calm (lookup_row t_id tid ts) (lookup_row t_id tid ts')"
  by (induction rule: list_all2_induct) (auto simp: turn_calm_def)

lemma calm_ended:
  assumes "calm s s'" and "find_turn tid s = Some t" and "\<not> turn_active t"
  shows "\<exists>t'. find_turn tid s' = Some t' \<and> \<not> turn_active t'"
  using calm_find_turn [of "turns s" "turns s'" tid] assms
  by (auto simp: calm_def find_defs turn_calm_def elim: option.rel_cases)

text \<open>Owners, in the form in which the operations have checked them.\<close>

lemma good_owner: "good s0 s \<Longrightarrow> (tid, cid) \<in> turn_owners s0 \<Longrightarrow> (tid, cid) \<in> turn_owners s"
  using calm_turn_owners good_calm by blast

lemma find_turn_owner: "find_turn tid s = Some t \<Longrightarrow> (tid, t_conversation_id t) \<in> turn_owners s"
  by (auto simp: find_defs turn_owners_def dest: lookup_row_Some)

lemma assert_turn_owned_owner:
  "assert_turn_owned cid tid s = Inr u \<Longrightarrow> (tid, cid) \<in> turn_owners s"
  by (auto simp: assert_turn_owned_def get_turn_def split: if_splits dest: find_turn_owner)

lemma get_conversation_id: "get_conversation cid s = Inr conv \<Longrightarrow> cv_id conv = cid"
  by (auto simp: get_conversation_def find_defs dest: lookup_row_Some)

section \<open>Primitive operations\<close>

lemma good_frame:
  assumes "good s0 s" and "store_inv s \<Longrightarrow> store_inv s'"
    and "turns s' = turns s" and "sessions s' = sessions s"
  shows "good s0 s'"
  using assms by (simp add: good_def calm_def)

lemma good_rix [simp]: "good s0 (s\<lparr>rix := i\<rparr>) = good s0 s"
  by (simp add: good_def calm_def)

lemma good_emit_all [simp]: "good s0 (emit_all pend s) = good s0 s"
  by (simp add: good_def calm_def)

lemma good_emit [simp]: "good s0 (emit ty p oid s) = good s0 s"
  by (simp add: emit_def good_def calm_def)

lemma good_svc_frame [simp]:
  "good s0 (s\<lparr>steering_pending := st\<rparr>) = good s0 s"
  "good s0 (s\<lparr>published_outbox := st2\<rparr>) = good s0 s"
  by (simp_all add: good_def calm_def)

lemma append_outbox_same:
  "append_outbox cid ty sc v p s = Inr (e, s') \<Longrightarrow>
   turns s' = turns s \<and> sessions s' = sessions s \<and> nodes s' = nodes s \<and> queue s' = queue s \<and>
   approvals s' = approvals s \<and> now s' = now s"
  by (auto simp: append_outbox_def Let_def gen_ids insert_defs split: if_splits)

lemma append_and_emit_same:
  "append_and_emit pend conv ty sc v tid d s = Inr (pend', s') \<Longrightarrow>
   turns s' = turns s \<and> sessions s' = sessions s \<and> nodes s' = nodes s \<and> queue s' = queue s \<and>
   approvals s' = approvals s \<and> now s' = now s"
  by (auto simp: append_and_emit_def Let_def split: prod.splits dest!: append_outbox_same)

lemma append_outbox_good [good_dests]:
  "append_outbox cid ty sc v p s = Inr (e, s') \<Longrightarrow> good s0 s \<Longrightarrow> good s0 s'"
  by (erule good_frame) (auto dest: append_outbox_same append_outbox_inv)

lemma append_and_emit_good [good_dests]:
  "append_and_emit pend conv ty sc v tid d s = Inr (pend', s') \<Longrightarrow> good s0 s \<Longrightarrow> good s0 s'"
  by (erule good_frame) (auto dest: append_and_emit_same append_and_emit_inv)

lemma record_operation_good [good_dests]:
  assumes "record_operation op cid rq r s = Inr s'" and "good s0 s"
  shows "good s0 s'"
  using assms record_operation_inv [OF assms(1)]
  by (auto simp: record_operation_def record_idempotency_def insert_defs good_def calm_def
      split: option.splits if_splits)

lemma bump_session_version_good [good_dests]:
  assumes "bump_session_version cid s = (v, s')" and "good s0 s"
  shows "good s0 s'"
proof -
  have "calm s s'" using assms(1)
    by (auto simp: bump_session_version_def Let_def write_defs calm_def list_all2_same
        intro!: list_all2_session_calm_update)
  with assms bump_session_version_inv show ?thesis by (auto simp: good_def intro: calm_trans)
qed

lemma update_turns_calm:
  "(\<And>t. t_id (f t) = t_id t) \<Longrightarrow> (\<And>t. t_conversation_id (f t) = t_conversation_id t) \<Longrightarrow>
   (\<And>t. t \<in> set (turns s) \<Longrightarrow> P t \<Longrightarrow> turn_active (f t) \<Longrightarrow> turn_active t) \<Longrightarrow>
   calm s (update_turns P f s)"
  by (auto simp: write_defs calm_def list_all2_same session_calm_def
      intro!: list_all2_turn_calm_update)

lemma bump_turn_version_good [good_dests]:
  assumes "bump_turn_version tid s = (v, s')" and "good s0 s"
  shows "good s0 s'"
proof -
  have "calm s s'" using assms(1)
    by (auto simp: bump_turn_version_def Let_def turn_active_def intro!: update_turns_calm)
  with assms bump_turn_version_inv show ?thesis by (auto simp: good_def intro: calm_trans)
qed

text \<open>A status change is sound when it ends the turn, or when the turn is active before.\<close>

lemma update_turn_status_good:
  assumes "update_turn_status tid st err fin fnode s = Inr (t, s')" and "good s0 s"
    and "terminal_status st \<or> (\<forall>t. find_turn tid s = Some t \<longrightarrow> turn_active t)"
  shows "good s0 s'"
proof -
  have "turn_active t" if "t \<in> set (turns s)" "t_id t = tid" "\<not> terminal_status st" for t
  proof -
    have "find_turn tid s = Some t"
      using assms(2) that(1,2) lookup_row_unique [of t_id "turns s" t]
      by (simp add: good_def store_inv_def turns_ok_def find_defs)
    with assms(3) that(3) show ?thesis by auto
  qed
  then have "calm s s'" using assms(1)
    by (auto simp: update_turn_status_def Let_def turn_active_def terminal_status_def
        TERMINAL_TURN_STATUSES_def intro!: update_turns_calm)
  with assms update_turn_status_inv show ?thesis by (auto simp: good_def intro: calm_trans)
qed

lemma create_node_good:
  assumes "create_node a s = Inr (n, s')" and "good s0 s" and "na_position a = None"
    and "\<And>tid. na_turn_id a = Some tid \<Longrightarrow> (tid, na_conversation_id a) \<in> turn_owners s0"
  shows "good s0 s'"
  using assms create_node_inv [OF assms(1)] create_node_turns [OF assms(1)] good_owner [OF assms(2)]
  by (intro good_frame [OF assms(2)]) auto

lemma create_node_turn_good [good_dests]:
  "create_node (node_defaults cid ty st\<lparr>na_turn_id := Some tid, na_text := tx, na_metadata := md\<rparr>) s = Inr (n, s')
   \<Longrightarrow> good s0 s \<Longrightarrow> (tid, cid) \<in> turn_owners s0 \<Longrightarrow> good s0 s'"
  by (erule create_node_good) (auto simp: node_defaults_def)

lemma read_node_same: "read_node nid s = Inr (n, s') \<Longrightarrow> s' = s"
  by (auto simp: read_node_def)

lemma node_updates_same:
  "update_node nid tx st md s = Inr (n, s') \<Longrightarrow> turns s' = turns s \<and> sessions s' = sessions s"
  "set_node_status nid st2 s = Inr (n, s') \<Longrightarrow> turns s' = turns s \<and> sessions s' = sessions s"
  "append_node_text nid x s = Inr (n, s') \<Longrightarrow> turns s' = turns s \<and> sessions s' = sessions s"
  "assign_node_to_turn nid tid p s = Inr (n, s') \<Longrightarrow> turns s' = turns s \<and> sessions s' = sessions s"
  by (auto simp: update_node_def set_node_status_def append_node_text_def assign_node_to_turn_def
      write_defs split: if_splits dest!: read_node_same)

lemma update_node_good [good_dests]:
  "update_node nid tx st md s = Inr (n, s') \<Longrightarrow> good s0 s \<Longrightarrow> good s0 s'"
  by (erule good_frame) (auto dest: node_updates_same update_node_inv)

lemma set_node_status_good [good_dests]:
  "set_node_status nid st s = Inr (n, s') \<Longrightarrow> good s0 s \<Longrightarrow> good s0 s'"
  by (erule good_frame) (auto dest: node_updates_same set_node_status_inv)

lemma append_node_text_good [good_dests]:
  "append_node_text nid x s = Inr (n, s') \<Longrightarrow> good s0 s \<Longrightarrow> good s0 s'"
  by (erule good_frame) (auto dest: node_updates_same append_node_text_inv)

lemma finalize_turn_nodes_good [good_dests]:
  "finalize_turn_nodes tid s = (k, s') \<Longrightarrow> good s0 s \<Longrightarrow> good s0 s'"
  by (erule good_frame) (auto simp: finalize_turn_nodes_def Let_def write_defs
      dest: finalize_turn_nodes_inv [rotated])

lemma sweep_rows_same:
  "sweep_rows nt code rows s = (sw, s') \<Longrightarrow> turns s' = turns s \<and> sessions s' = sessions s"
proof (induction nt code rows s arbitrary: sw s' rule: sweep_rows.induct)
  case (2 nt code row rows s)
  show ?case
  proof (cases "truthy (dget (n_metadata row) ''runtime_type'')")
    case True
    with 2 show ?thesis by simp
  next
    case False
    with 2(3) obtain sw1 where "sweep_rows nt code rows
        (update_nodes (\<lambda>n. n_id n = n_id row \<and> n_status n = ''running'')
          (\<lambda>n. n\<lparr>n_status := ''error'', n_metadata := swept_metadata nt code (n_metadata row),
                  n_updated_at := utc_now s\<rparr>) s) = (sw1, s')"
      by (auto simp: Let_def split: prod.splits)
    from 2(2) [OF False refl refl this] show ?thesis by (simp add: write_defs)
  qed
qed simp

lemma sweep_running_tool_nodes_good [good_dests]:
  "sweep_running_tool_nodes tid nt code s = (sw, s') \<Longrightarrow> good s0 s \<Longrightarrow> good s0 s'"
  by (erule good_frame) (auto simp: sweep_running_tool_nodes_def
      dest: sweep_rows_same sweep_rows_inv)

end
