(* ===== verification/Service_Sound.thy ===== *)
theory Service_Sound
  imports Service_Inv
begin

text \<open>
  The service operations keep the database invariant and revive no turn
  (\<open>good\<close>, see \<open>Service_Inv\<close>). Only \<open>start_turn\<close> and \<open>send_next\<close> create turns;
  for them \<open>started\<close> states exactly what is new. The premises mark the uses for which
  an operation is sound: they are what the callers under \<open>gateway/conversation\<close> do, and the
  operations do not check them.
\<close>

section \<open>Turn operations\<close>

lemma turn_status_event_good [good_dests]:
  "turn_status_event pend conv t d s = Inr (pend', s') \<Longrightarrow> good s0 s \<Longrightarrow> good s0 s'"
  by (auto simp: turn_status_event_def dest: append_and_emit_good)

lemma queue_event_good [good_dests]:
  "queue_event pend conv v d s = Inr (pend', s') \<Longrightarrow> good s0 s \<Longrightarrow> good s0 s'"
  by (auto simp: queue_event_def dest: append_and_emit_good)

lemma delta_event_good [good_dests]:
  "delta_event pend conv v tid ty x n sq s = Inr (pend', s') \<Longrightarrow> good s0 s \<Longrightarrow> good s0 s'"
  by (auto simp: delta_event_def dest: append_and_emit_good)

text \<open>The owner of the turn was checked on the state before, the new status is the caller's.\<close>

lemma set_turn_status_good:
  assumes "set_turn_status cid tid st err s = Inr (t, s')" and "store_inv s"
    and "terminal_status st \<or> (\<forall>t. find_turn tid s = Some t \<longrightarrow> turn_active t)"
  shows "good s s'"
  using assms(1) goodI [OF assms(2)]
  by (auto simp: set_turn_status_def case_prod_Inr)
    (blast intro: good_dests update_turn_status_good [OF _ _ assms(3)])

lemma write_delta_good:
  assumes "write_delta c fresh tid ty x s = Inr (r, s')" and "good s0 s"
    and "na_position fresh = None" and "na_turn_id fresh = Some tid"
    and "(tid, na_conversation_id fresh) \<in> turn_owners s0"
  shows "good s0 s'"
  using assms
  by (auto simp: write_delta_def split: option.splits if_splits dest: good_dests
      dest!: create_node_good)

lemma upsert_node_delta_good:
  assumes "upsert_node_delta cid tid ty x a s = Inr (n, s')" and "store_inv s"
  shows "good s s'"
  using assms(1) goodI [OF assms(2)]
  by (auto simp: upsert_node_delta_def Let_def case_prod_Inr node_defaults_def
      dest!: assert_turn_owned_owner)
    (blast intro: good_dests write_delta_good [of _ "node_args.make _ _ _ _ _ _ _ _ _ _ _ _", unfolded node_args.defs, simplified])

text \<open>One entry of the batch, taken apart.\<close>

lemma write_deltas_Cons:
  assumes "write_deltas ((cid, tid, ty, x) # items) convs pend s = Inr (r, s')"
    and "get_turn tid s = Inr t" and "t_conversation_id t = cid"
  shows "\<exists>conv n sq s1 version s2 pend1 s3 r4.
    (case map_of convs cid of Some c \<Rightarrow> Inr c | None \<Rightarrow> get_conversation cid s) = Inr conv \<and>
    write_delta True
      ((node_defaults cid ty ''streaming'')\<lparr>na_turn_id := Some tid, na_text := Some x\<rparr>)
      tid ty x s = Inr ((n, sq), s1) \<and>
    bump_turn_version tid s1 = (version, s2) \<and>
    delta_event pend conv version tid ty x n sq s2 = Inr (pend1, s3) \<and>
    write_deltas items (AList.update cid conv convs) pend1 s3 = Inr (r4, s') \<and>
    r = (Suc (fst r4), snd r4)"
  using assms by (auto simp: Let_def case_prod_Inr)

lemma write_deltas_good:
  "write_deltas items convs pend s = Inr (r, s') \<Longrightarrow> good s0 s \<Longrightarrow> good s0 s'"
proof (induction items arbitrary: convs pend s r)
  case (Cons item items)
  obtain cid tid ty x where item: "item = (cid, tid, ty, x)" by (cases item)
  show ?case
  proof (cases "\<exists>t. get_turn tid s = Inr t \<and> t_conversation_id t = cid")
    case False
    with Cons item show ?thesis by (auto split: sum.splits if_splits)
  next
    case True
    then obtain t where t: "get_turn tid s = Inr t" "t_conversation_id t = cid" by auto
    then have owner: "(tid, cid) \<in> turn_owners s0"
      using find_turn_owner [of tid s t] calm_turn_owners [OF good_calm [OF Cons.prems(2)]]
      by (auto simp: get_turn_def)
    from write_deltas_Cons [OF Cons.prems(1) [unfolded item] t]
    obtain conv n sq s1 version s2 pend1 s3 r4
      where w: "write_delta True
            ((node_defaults cid ty ''streaming'')\<lparr>na_turn_id := Some tid, na_text := Some x\<rparr>)
            tid ty x s = Inr ((n, sq), s1)"
        and b: "bump_turn_version tid s1 = (version, s2)"
        and d: "delta_event pend conv version tid ty x n sq s2 = Inr (pend1, s3)"
        and r: "write_deltas items (AList.update cid conv convs) pend1 s3 = Inr (r4, s')"
      by blast
    from write_delta_good [OF w Cons.prems(2)] owner have "good s0 s1"
      by (simp add: node_defaults_def)
    with b d have "good s0 s3" by (blast intro: good_dests)
    with Cons.IH r show ?thesis by blast
  qed
qed simp

lemma upsert_node_deltas_good:
  "upsert_node_deltas items s = Inr (k, s') \<Longrightarrow> store_inv s \<Longrightarrow> good s s'"
  by (auto simp: upsert_node_deltas_def dest!: write_deltas_good [OF _ goodI])

lemma finalize_node_good:
  assumes "finalize_node cid tid ty mi s = Inr (n, s')" and "store_inv s"
  shows "good s s'"
proof (cases "get_last_turn_node tid ty s")
  case None
  with assms show ?thesis by (auto simp: finalize_node_def intro: goodI)
next
  case (Some latest)
  show ?thesis
  proof (cases "n_status latest = ''streaming''")
    case False
    with Some assms show ?thesis by (auto simp: finalize_node_def intro: goodI)
  next
    case True
    have eq: "(case get_last_turn_node tid ty s of None \<Rightarrow> x
        | Some latest \<Rightarrow> if n_status latest \<noteq> ''streaming'' then y latest else z latest) = z latest"
      for x :: "conv_error + node_row option \<times> 'a svc_scheme" and y z
      using Some True by simp
    from assms(1) obtain m s1 v s2 pend d s3 conv
      where w: "(if mi then update_node (n_id latest) None (Some ''done'')
            (Some (dput ''intermediate'' (JBool True) (n_metadata latest))) s
          else set_node_status (n_id latest) ''done'' s) = Inr (m, s1)"
        and rest: "bump_turn_version tid s1 = (v, s2)"
          "append_and_emit [] conv ''node.delta'' SCOPE_TURN v (Some tid) d s2 = Inr (pend, s3)"
          "s' = emit_all pend s3"
      unfolding finalize_node_def Let_def eq case_prod_Inr bindE_eq_Inr by auto
    from w have "good s s1"
      using goodI [OF assms(2)] by (auto split: if_splits intro: good_dests)
    with rest show ?thesis by (auto intro: good_dests)
  qed
qed

lemma create_tool_node_good:
  "create_node (node_defaults cid ty st
      \<lparr>na_turn_id := Some tid, na_text := tx, na_metadata := md, na_node_id := nid\<rparr>) s = Inr (n, s')
   \<Longrightarrow> good s0 s \<Longrightarrow> (tid, cid) \<in> turn_owners s0 \<Longrightarrow> good s0 s'"
  by (erule create_node_good) (auto simp: node_defaults_def)

lemma upsert_tool_node_good:
  assumes "upsert_tool_node cid tid call a s = Inr (n, s')" and "store_inv s"
  shows "good s s'"
proof -
  let ?nid = "gen_node_id_from_call call cid s"
  from assms(1) obtain conv md pend v s1 s2 d s3
    where own: "assert_turn_owned cid tid s = Inr ()"
      and w: "(case find_node ?nid s of
        Some row \<Rightarrow> update_node ?nid None (Some (ta_status a)) (Some md) s
      | None \<Rightarrow> create_node
          ((node_defaults cid N_TOOL (ta_status a))
            \<lparr>na_turn_id := Some tid,
             na_text := Some (case ta_params_summary a of None \<Rightarrow> [] | Some p \<Rightarrow> p),
             na_metadata := Some md, na_node_id := Some ?nid\<rparr>) s) = Inr (n, s1)"
      and rest: "bump_turn_version tid s1 = (v, s2)"
        "append_and_emit [] conv ''node.tool'' SCOPE_TURN v (Some tid) d s2 = Inr (pend, s3)"
        "s' = emit_all pend s3"
    unfolding upsert_tool_node_def Let_def case_prod_Inr bindE_eq_Inr by auto
  from w have "good s s1"
    using goodI [OF assms(2)] assert_turn_owned_owner [OF own]
    by (auto split: option.splits intro: update_node_good create_tool_node_good)
  with rest show ?thesis by (auto intro: good_dests)
qed

lemma append_runtime_node_good:
  assumes "append_runtime_node cid tid rt rid x st fin s = Inr (n, s')" and "store_inv s"
  shows "good s s'"
  using assms(1) goodI [OF assms(2)]
  by (auto simp: append_runtime_node_def Let_def case_prod_Inr dest!: assert_turn_owned_owner)
    (blast intro: good_dests)

lemma write_final_answer_good:
  "write_final_answer cid tid x s = Inr (n, s') \<Longrightarrow> good s0 s \<Longrightarrow> (tid, cid) \<in> turn_owners s0 \<Longrightarrow>
   good s0 s'"
  by (auto simp: write_final_answer_def Let_def split: option.splits if_splits dest: good_dests)

lemma swept_events_good [good_dests]:
  "swept_events conv t sws pend s = Inr (p, s') \<Longrightarrow> good s0 s \<Longrightarrow> good s0 s'"
proof (induction sws arbitrary: pend s)
  case (Cons sw sws)
  then show ?case by (auto simp: case_prod_Inr) (blast intro: append_and_emit_good)
qed simp

lemma cancelled_events_good [good_dests]:
  "cancelled_events conv t rows pend s = Inr (p, s') \<Longrightarrow> good s0 s \<Longrightarrow> good s0 s'"
proof (induction rows arbitrary: pend s)
  case (Cons a rows)
  then show ?case by (auto simp: case_prod_Inr) (blast intro: append_and_emit_good)
qed simp

lemma cancel_approvals_good [good_dests]: "good s0 s \<Longrightarrow> good s0 (cancel_approvals cid tid s)"
  by (erule good_frame) (auto simp: cancel_approvals_def write_defs
      intro!: store_inv_update_approvals [unfolded write_defs])

lemma final_node_good:
  assumes "(case full_text of
        Some x \<Rightarrow> (if st = T_DONE
           then bindE (write_final_answer cid tid x s) (\<lambda>(n, s1). Inr (Some (n_id n), s1))
           else Inr (None, s))
      | None \<Rightarrow> Inr (None, s)) = Inr (r, s')"
    and "good s0 s" and "(tid, cid) \<in> turn_owners s0"
  shows "good s0 s'"
  using assms by (auto split: option.splits if_splits dest!: write_final_answer_good)

lemma complete_turn_body_good:
  assumes "complete_turn_body conv tid st x err s = Inr (r, s')" and inv: "store_inv s"
    and own: "(tid, cv_id conv) \<in> turn_owners s"
    and act: "\<And>t. find_turn tid s = Some t \<Longrightarrow> turn_active t"
  shows "good s s'"
proof -
  from assms(1) obtain fin s1 t s2 k s3 swept s4 pend s5 rows s6 pend1 s7 pend2 s8 pend3
    where f: "(case x of
        Some x \<Rightarrow> (if st = T_DONE
           then bindE (write_final_answer (cv_id conv) tid x s) (\<lambda>(n, s1). Inr (Some (n_id n), s1))
           else Inr (None, s))
      | None \<Rightarrow> Inr (None, s)) = Inr (fin, s1)"
      and u: "update_turn_status tid st err (Some (utc_now s1)) fin s1 = Inr (t, s2)"
      and a: "finalize_turn_nodes tid s2 = (k, s3)"
        "sweep_running_tool_nodes tid SWEEP_NOTE ''tool_no_return'' s3 = (swept, s4)"
        "swept_events conv t swept [] s4 = Inr (pend, s5)"
      and c: "s6 = (if rows = [] then s5 else cancel_approvals (cv_id conv) tid s5)"
      and e: "cancelled_events conv t rows pend s6 = Inr (pend1, s7)"
        "turn_status_event pend1 conv t [(''error_code'', jopt JStr (t_error_code t))] s7 = Inr (pend2, s8)"
        "append_and_emit pend2 conv ''chat.done'' SCOPE_TURN (t_version t) (Some tid)
        [(''full_text'', JStr (case x of None \<Rightarrow> [] | Some x \<Rightarrow> x)),
         (''full_text_len'', jnat (length (case x of None \<Rightarrow> [] | Some x \<Rightarrow> x))),
         (''final_assistant_node_id'', jopt JStr fin),
         (''status'', JStr (turn_status_value (t_status t))),
         (''error_code'', jopt JStr (t_error_code t))] s8 = Inr (pend3, s')"
    unfolding complete_turn_body_def Let_def case_prod_Inr bindE_eq_Inr by blast
  have g1: "good s s1" by (rule final_node_good [OF f goodI [OF inv] own])
  have "turns s1 = turns s"
    using f by (auto simp: write_final_answer_def Let_def split: option.splits if_splits
        dest!: create_node_turns node_updates_same)
  then have "good s s2"
    using update_turn_status_good [OF u g1] act by (simp add: find_defs)
  with a have "good s s5" by (blast intro: good_dests)
  with c have "good s s6" by (auto intro: good_dests)
  with e show ?thesis by (blast intro: good_dests)
qed

lemma complete_turn_good:
  assumes "complete_turn cid tid st x err s = Inr (t, s')" and "store_inv s"
  shows "good s s'"
proof -
  from assms(1) obtain conv t0 where "get_conversation cid s = Inr conv"
      and t0: "get_turn tid s = Inr t0" "t_conversation_id t0 = cid"
      and cases: "terminal_status (t_status t0) \<and> s' = s \<or>
        \<not> terminal_status (t_status t0) \<and>
        (\<exists>pend s1. complete_turn_body conv tid st x err s = Inr ((t, pend), s1) \<and> s' = emit_all pend s1)"
    by (auto simp: complete_turn_def case_prod_Inr split: if_splits)
  then have "(tid, cv_id conv) \<in> turn_owners s"
    using find_turn_owner [of tid s t0] get_conversation_id [of cid s conv]
    by (auto simp: get_turn_def)
  moreover have "turn_active t1" if "find_turn tid s = Some t1" "\<not> terminal_status (t_status t0)" for t1
    using that t0(1) by (auto simp: get_turn_def turn_active_def terminal_status_def TERMINAL_TURN_STATUSES_def)
  ultimately show ?thesis
    using cases complete_turn_body_good [OF _ assms(2)] goodI [OF assms(2)] by auto
qed

text \<open>The stop request changes the status of the turn it is given.\<close>

lemma request_stop_txn_good:
  assumes "request_stop_txn conv aid op s = Inr (t, s')" and "store_inv s"
    and "\<forall>t. find_turn aid s = Some t \<longrightarrow> turn_active t"
  shows "good s s'"
  using assms(1) goodI [OF assms(2)] assms(3)
  by (auto simp: request_stop_txn_def case_prod_Inr split: option.splits)
    (blast intro: good_dests update_turn_status_good)

end
