(* ===== verification/Sound_Queue.thy ===== *)
theory Sound_Queue
  imports Service_Sound
begin

text \<open>
  The queue, approval and maintenance operations keep the database invariant
  (\<open>good\<close>, see \<open>Service_Inv\<close>), and the two operations that create turns create
  at most one, for a conversation that has no active turn (\<open>started\<close>).
\<close>

section \<open>Queue statements do not touch turns\<close>

lemma read_queue_item_same: "read_queue_item qid s = Inr (q, s') \<Longrightarrow> s' = s"
  by (auto simp: read_queue_item_def)

lemma cas_queue_item_same:
  "cas_queue_item qid rv f s = Inr s' \<Longrightarrow> turns s' = turns s \<and> sessions s' = sessions s \<and> nodes s' = nodes s"
  by (auto simp: cas_queue_item_def Let_def write_defs split: if_splits)

lemma queue_ops_same:
  "set_queue_status qid st s = Inr (q, s') \<Longrightarrow> turns s' = turns s \<and> sessions s' = sessions s \<and> nodes s' = nodes s"
  "mark_queue_sent qid tid nid s = Inr (q, s') \<Longrightarrow> turns s' = turns s \<and> sessions s' = sessions s \<and> nodes s' = nodes s"
  "mark_queue_injected qid n s = Inr (q, s') \<Longrightarrow> turns s' = turns s \<and> sessions s' = sessions s \<and> nodes s' = nodes s"
  "undo_delete qid s = Inr (q, s') \<Longrightarrow> turns s' = turns s \<and> sessions s' = sessions s \<and> nodes s' = nodes s"
  "update_queue_item qid rv tx st' tg s = Inr (q, s') \<Longrightarrow> turns s' = turns s \<and> sessions s' = sessions s \<and> nodes s' = nodes s"
  by (auto simp: set_queue_status_def mark_queue_sent_def mark_queue_injected_def undo_delete_def
      update_queue_item_def write_defs split: if_splits option.splits
      dest!: read_queue_item_same cas_queue_item_same)

lemma enqueue_item_same:
  "enqueue_item cid x op tg imgs s = Inr (q, s') \<Longrightarrow> turns s' = turns s \<and> sessions s' = sessions s \<and> nodes s' = nodes s"
  by (auto simp: enqueue_item_def Let_def gen_ids insert_defs split: if_splits)

lemma move_queue_item_same:
  "move_queue_item cid qid d s = Inr (qs, s') \<Longrightarrow> turns s' = turns s \<and> sessions s' = sessions s \<and> nodes s' = nodes s"
  by (auto simp: move_queue_item_def Let_def set_queue_position_def write_defs
      split: if_splits option.splits)

lemma enqueue_item_good [good_dests]:
  "enqueue_item cid x op tg imgs s = Inr (q, s') \<Longrightarrow> good s0 s \<Longrightarrow> good s0 s'"
  by (erule good_frame) (auto dest: enqueue_item_same enqueue_item_inv)

lemma move_queue_item_good [good_dests]:
  "move_queue_item cid qid d s = Inr (qs, s') \<Longrightarrow> good s0 s \<Longrightarrow> good s0 s'"
  by (erule good_frame) (auto dest: move_queue_item_same move_queue_item_inv)

lemma mark_queue_sent_good [good_dests]:
  "mark_queue_sent qid tid nid s = Inr (q, s') \<Longrightarrow> good s0 s \<Longrightarrow> good s0 s'"
  by (erule good_frame) (auto dest: queue_ops_same mark_queue_sent_inv)

lemma mark_queue_injected_good [good_dests]:
  "mark_queue_injected qid n s = Inr (q, s') \<Longrightarrow> good s0 s \<Longrightarrow> good s0 s'"
  by (erule good_frame) (auto dest: queue_ops_same mark_queue_injected_inv)

lemma undo_delete_good [good_dests]:
  "undo_delete qid s = Inr (q, s') \<Longrightarrow> good s0 s \<Longrightarrow> good s0 s'"
  by (erule good_frame) (auto dest: queue_ops_same undo_delete_inv)

lemma update_queue_text_good [good_dests]:
  "update_queue_item qid rv tx None tg s = Inr (q, s') \<Longrightarrow> good s0 s \<Longrightarrow> good s0 s'"
  by (erule good_frame) (auto dest: queue_ops_same update_queue_text_inv)

text \<open>A status is set soundly when it closes the item, or when the item is open before.\<close>

lemma set_queue_status_good:
  assumes "set_queue_status qid st s = Inr (q, s')" and "good s0 s"
    and "\<And>q. find_queue_row qid s = Some q \<Longrightarrow> st \<in> {Q_SENT, Q_INJECTED, Q_DELETED, Q_FAILED} \<or> queue_open q"
  shows "good s0 s'"
  using assms(2) by (rule good_frame)
    (use queue_ops_same(1) [OF assms(1)] set_queue_status_inv [OF assms(1) _ assms(3)] in auto)

lemma update_queue_status_good:
  assumes "update_queue_item qid rv None (Some st) None s = Inr (q, s')" and "good s0 s"
    and "\<And>q. find_queue_row qid s = Some q \<Longrightarrow> queue_open q"
  shows "good s0 s'"
  using assms(2) by (rule good_frame)
    (use queue_ops_same(5) [OF assms(1)] update_queue_status_inv [OF assms(1) _ assms(3)] in auto)

section \<open>Queue operations of the service\<close>

lemma create_free_node_good [good_dests]:
  "create_node (node_defaults cid ty st\<lparr>na_text := tx, na_source_channel := sc,
      na_source_message_id := sm, na_sender_id := si, na_sender_name := sn\<rparr>) s = Inr (n, s')
   \<Longrightarrow> good s0 s \<Longrightarrow> good s0 s'"
  by (erule create_node_good) (auto simp: node_defaults_def)

lemma enqueue_good:
  assumes "enqueue size_of cid x a s = Inr (q, s')" and "store_inv s"
  shows "good s s'"
proof (cases "\<exists>hit. check_operation (ea_operation_id a) cid (enqueue_request x) s = Inr (Some hit)")
  case True
  with assms show ?thesis by (auto simp: enqueue_def case_prod_Inr intro: goodI)
next
  case False
  with assms(1) obtain imgs item s1 nid s2 s3 v s4 conv d pend s5
    where e: "enqueue_item cid x (ea_operation_id a) None imgs s = Inr (item, s1)"
      and n: "(if ea_create_queued_node a
              then bindE (create_node
                  ((node_defaults cid N_USER ''queued'')
                    \<lparr>na_text := Some x, na_source_channel := ea_channel a,
                     na_source_message_id := ea_message_id a, na_sender_id := ea_sender_id a,
                     na_sender_name := ea_sender_name a\<rparr>) s1)
                (\<lambda>(n, s2). Inr (Some (n_id n), s2))
              else Inr (None, s1)) = Inr (nid, s2)"
      and rest: "record_operation (ea_operation_id a) cid (enqueue_request x)
              [(''queue_item_id'', JStr (q_id item))] s2 = Inr s3"
        "bump_session_version cid s3 = (v, s4)" "queue_event [] conv v d s4 = Inr (pend, s5)"
        "s' = emit_all pend s5"
    unfolding enqueue_def Let_def case_prod_Inr bindE_eq_Inr
    by (auto simp: case_prod_Inr split: option.splits)
  have "good s s1" using e goodI [OF assms(2)] by (rule enqueue_item_good)
  with n have "good s s2"
    by (auto simp: case_prod_Inr split: if_splits intro: create_free_node_good)
  with rest show ?thesis by simp (elim good_dests)
qed

lemma edit_queue_item_good:
  assumes "edit_queue_item cid qid rv x op s = Inr (q, s')" and "store_inv s"
  shows "good s s'"
proof (cases "\<exists>hit. check_operation op cid (edit_request qid x rv) s = Inr (Some hit)")
  case True
  with assms show ?thesis by (auto simp: edit_queue_item_def case_prod_Inr intro: goodI)
next
  case False
  with assms(1) obtain s1 s2 v s3 conv d pend s4
    where u: "update_queue_item qid rv x None None s = Inr (q, s1)"
      and rest: "record_operation op cid (edit_request qid x rv) [(''queue_item_id'', JStr (q_id q))] s1 = Inr s2"
        "bump_session_version cid s2 = (v, s3)" "queue_event [] conv v d s3 = Inr (pend, s4)"
        "s' = emit_all pend s4"
    unfolding edit_queue_item_def Let_def case_prod_Inr bindE_eq_Inr
    by (auto simp: case_prod_Inr split: option.splits)
  have "good s s1" using u goodI [OF assms(2)] by (rule update_queue_text_good)
  with rest show ?thesis by simp (elim good_dests)
qed

lemma delete_queue_item_good:
  assumes "delete_queue_item cid qid rv s = Inr (q, s')" and "store_inv s"
    and "\<And>q. find_queue_row qid s = Some q \<Longrightarrow> queue_open q"
  shows "good s s'"
  using assms(1) goodI [OF assms(2)]
  by (auto simp: delete_queue_item_def Let_def case_prod_Inr)
    (elim good_dests update_queue_status_good [OF _ _ assms(3)], assumption+)

lemma undo_delete_item_good:
  assumes "undo_delete_item cid qid s = Inr (q, s')" and "store_inv s"
  shows "good s s'"
  using assms(1) goodI [OF assms(2)]
  by (auto simp: undo_delete_item_def Let_def case_prod_Inr) (elim good_dests, assumption?)

lemma move_item_good:
  assumes "move_item cid qid d s = Inr (qs, s')" and "store_inv s"
  shows "good s s'"
  using assms(1) goodI [OF assms(2)]
  by (auto simp: move_item_def Let_def case_prod_Inr) (elim good_dests, assumption?)

lemma clear_waiting_queue_good [good_dests]:
  "clear_waiting_queue cid s = (k, s') \<Longrightarrow> good s0 s \<Longrightarrow> good s0 s'"
  by (erule good_frame) (auto simp: clear_waiting_queue_def Let_def write_defs
      dest: clear_waiting_queue_inv [rotated])

lemma clear_waiting_good:
  assumes "clear_waiting cid s = Inr (k, s')" and "store_inv s"
  shows "good s s'"
  using assms(1) goodI [OF assms(2)]
  by (auto simp: clear_waiting_def Let_def case_prod_Inr) (elim good_dests, assumption?)

section \<open>Steering\<close>

lemma prepare_items_good:
  "prepare_items cid qids s = Inr (qs, s') \<Longrightarrow> good s0 s \<Longrightarrow> good s0 s'"
proof (induction qids arbitrary: s qs)
  case (Cons qid qids)
  then obtain item u s1 rest
    where i: "find_queue_row qid s = Some item" "q_status item = Q_WAITING"
      and u: "set_queue_status qid Q_WAITING_FOR_STEERING s = Inr (u, s1)"
      and r: "prepare_items cid qids s1 = Inr (rest, s')"
    by (auto simp: get_queue_item_def case_prod_Inr split: if_splits)
  have "good s0 s1"
    using u Cons.prems(2) by (rule set_queue_status_good) (use i in \<open>simp add: queue_open_def\<close>)
  with Cons.IH r show ?case by blast
qed simp

lemma prepare_steering_good:
  assumes "prepare_steering cid qids s = Inr (r, s')" and "store_inv s"
  shows "good s s'"
proof (cases "get_active_turn cid s")
  case None
  with assms show ?thesis by (simp add: prepare_steering_def)
next
  case (Some active)
  with assms(1) goodI [OF assms(2)] show ?thesis
    by (auto simp: prepare_steering_def Let_def case_prod_Inr split: if_splits)
      (elim good_dests prepare_items_good, assumption?)
qed

lemma inject_items_good:
  "inject_items cid tid qids s = Inr (ns, s') \<Longrightarrow> good s0 s \<Longrightarrow> (tid, cid) \<in> turn_owners s0 \<Longrightarrow>
   good s0 s'"
proof (induction qids arbitrary: s ns)
  case (Cons qid qids)
  then show ?case
    by (auto simp: case_prod_Inr split: if_splits)
      (blast intro: mark_queue_injected_good create_node_turn_good)
qed simp

lemma commit_steering_txn_good:
  assumes "commit_steering_txn conv active qids s = Inr (ns, s')" and "store_inv s"
    and "(t_id active, cv_id conv) \<in> turn_owners s"
  shows "good s s'"
  using assms(1) inject_items_good [OF _ goodI [OF assms(2)] assms(3)]
  by (auto simp: commit_steering_txn_def Let_def case_prod_Inr split: if_splits)
    (elim good_dests, assumption?)

lemma get_active_turn_Some:
  assumes "get_active_turn cid s = Some t"
  shows "t \<in> set (turns s) \<and> t_conversation_id t = cid \<and> turn_active t"
  using fetchone_in [OF assms [unfolded get_active_turn_def]] by auto

lemma get_active_turn_owner:
  "get_active_turn cid s = Some t \<Longrightarrow> (t_id t, cid) \<in> turn_owners s"
  using get_active_turn_Some [of cid s t] by (auto simp: turn_owners_def)

lemma commit_steering_good:
  assumes "commit_steering cid qids s = Inr (ns, s')" and "store_inv s"
    and "get_active_turn cid s \<noteq> None"
  shows "good s s'"
proof -
  from assms(1,3) obtain conv active where "get_conversation cid s = Inr conv"
      and a: "get_active_turn cid s = Some active"
      and c: "commit_steering_txn conv active qids s = Inr (ns, s')"
    by (auto simp: commit_steering_def)
  with get_conversation_id get_active_turn_owner [OF a] commit_steering_txn_good [OF c assms(2)]
  show ?thesis by blast
qed

text \<open>Aborting restores only items that wait for steering.\<close>

lemma abort_items_good:
  "abort_items cid qids s = Inr s' \<Longrightarrow> good s0 s \<Longrightarrow> good s0 s'"
proof (induction qids arbitrary: s)
  case (Cons qid qids)
  show ?case
  proof (cases "\<exists>q. find_queue_row qid s = Some q \<and> q_conversation_id q = cid \<and>
      q_status q = Q_WAITING_FOR_STEERING")
    case True
    with Cons.prems obtain u s1
      where u: "set_queue_status qid Q_WAITING s = Inr (u, s1)" and r: "abort_items cid qids s1 = Inr s'"
      by (auto simp: case_prod_Inr)
    have "good s0 s1"
      using u Cons.prems(2) by (rule set_queue_status_good) (use True in \<open>auto simp: queue_open_def\<close>)
    with Cons.IH r show ?thesis by blast
  next
    case False
    with Cons show ?thesis by (auto split: option.splits if_splits)
  qed
qed simp

lemma abort_steering_good:
  assumes "abort_steering cid qids s = Inr s'" and "store_inv s"
  shows "good s s'"
  using assms(1) goodI [OF assms(2)]
  by (auto simp: abort_steering_def Let_def case_prod_Inr) (elim good_dests abort_items_good, assumption?)

end
