(* ===== verification/Sound_Start.thy ===== *)
theory Sound_Start
  imports Sound_Queue
begin

text \<open>
  The operations that create turns (\<open>start_turn\<close>, \<open>send_next\<close>), the approvals, the
  recovery and the retention run keep the database invariant; \<open>started\<close> states what a
  start adds.
\<close>

section \<open>Starting a turn\<close>

text \<open>
  \<open>started cid s s'\<close>: exactly one turn is new, it is queued and belongs to a conversation
  that had no active turn; everything else is calm.
\<close>

definition started :: "string \<Rightarrow> 'a store_scheme \<Rightarrow> 'a store_scheme \<Rightarrow> bool" where
  "started cid s s' \<longleftrightarrow>
    \<not> has_active_turn cid s \<and>
    (\<exists>s1 row. turns s1 = turns s @ [row] \<and> sessions s1 = sessions s \<and>
      t_conversation_id row = cid \<and> t_status row = T_QUEUED \<and> good s1 s')"

lemma create_turn_Some:
  assumes "create_turn_if_no_active cid st sn pc pt s = Inr (Some t, s1)"
  shows "\<exists>row. turns s1 = turns s @ [row] \<and> sessions s1 = sessions s \<and> nodes s1 = nodes s \<and>
    queue s1 = queue s \<and> t_conversation_id row = cid \<and> t_status row = st \<and> t_id row = t_id t \<and>
    t_id t \<notin> set (map t_id (turns s)) \<and> \<not> has_active_turn cid s \<and>
    (t_id t, cid) \<in> turn_owners s1"
  using assms
  by (auto simp: create_turn_if_no_active_def Let_def gen_ids insert_turn_def new_turn_def
      turn.defs turn_row.defs has_active_turn_def turn_owners_def split: if_splits)

lemma create_turn_None:
  "create_turn_if_no_active cid st sn pc pt s = Inr (None, s1) \<Longrightarrow>
   s1 = s\<lparr>rix := Suc (rix s)\<rparr> \<and> has_active_turn cid s"
  by (auto simp: create_turn_if_no_active_def Let_def gen_ids has_active_turn_def split: if_splits)

lemma create_turn_if_no_active_started:
  assumes "create_turn_if_no_active cid T_QUEUED sn pc pt s = Inr (Some t, s1)" and "good s1 s'"
  shows "started cid s s'"
  using create_turn_Some [OF assms(1)] assms(2) by (auto simp: started_def)

lemma start_turn_txn_sound:
  assumes "start_turn_txn cfg conv sn pc pt s = Inr (r, s')" and inv: "store_inv s"
  shows "good s s' \<or> started (cv_id conv) s s' \<and>
    count_active_turns_in_scope (cv_execution_scope conv) s < max_turns_per_scope cfg"
proof -
  from assms(1) obtain created s1
    where limit: "count_active_turns_in_scope (cv_execution_scope conv) s < max_turns_per_scope cfg"
      and c: "create_turn_if_no_active (cv_id conv) T_QUEUED sn pc pt s = Inr (created, s1)"
      and k: "(case created of
             None \<Rightarrow> Inr (map_option truncate_row (get_active_turn (cv_id conv) s1), s1)
           | Some t \<Rightarrow>
               bindE (turn_status_event [] conv t [] s1) (\<lambda>(pend, s2).
               Inr (Some t, emit_all pend s2))) = Inr (r, s')"
    by (auto simp: start_turn_txn_def case_prod_Inr split: if_splits)
  show ?thesis
  proof (cases created)
    case None
    with c k create_turn_None [of "cv_id conv" T_QUEUED sn pc pt s s1] goodI [OF inv]
    show ?thesis by auto
  next
    case (Some t)
    with create_turn_if_no_active_inv c inv have "store_inv s1" by blast
    then have "good s1 s'"
      using Some k by (auto simp: case_prod_Inr elim!: turn_status_event_good intro: goodI)
    with Some c limit show ?thesis using create_turn_if_no_active_started by blast
  qed
qed

section \<open>Dispatch\<close>

lemma good_owner_rev: "good s0 s \<Longrightarrow> (tid, cid) \<in> turn_owners s \<Longrightarrow> (tid, cid) \<in> turn_owners s0"
  using calm_turn_owners good_calm by blast

text \<open>
  The queued channel node the caller passes: it has no turn yet, it belongs to the
  conversation, and position 1 of the turn is free because the turn is new.
\<close>

definition channel_node_ok :: "string \<Rightarrow> string option \<Rightarrow> 'a store_scheme \<Rightarrow> bool" where
  "channel_node_ok cid channel_node_id s \<longleftrightarrow>
    (\<forall>cn m. channel_node_id = Some cn \<longrightarrow> find_node cn s = Some m \<longrightarrow> n_turn_id m = None \<longrightarrow>
      n_conversation_id m = cid)"

lemma assign_node_good:
  assumes "assign_node_to_turn nid tid p s = Inr (n, s')" and g: "good s0 s"
    and own: "\<And>m. find_node nid s = Some m \<Longrightarrow> (tid, n_conversation_id m) \<in> turn_owners s0"
    and free: "\<And>m. m \<in> set (nodes s) \<Longrightarrow> n_turn_id m = Some tid \<Longrightarrow> n_position m \<noteq> Some p"
  shows "good s0 s'"
proof -
  have "store_inv s'"
    using assign_node_to_turn_inv [OF assms(1) good_inv [OF g] good_owner [OF g own] free] .
  then show ?thesis
    using node_updates_same(4) [OF assms(1)] by (intro good_frame [OF g]) auto
qed

lemma user_node_good:
  assumes "user_node conv ch head tid s = Inr (n, s')" and g: "good s0 s"
    and own: "(tid, cv_id conv) \<in> turn_owners s0"
    and ok: "channel_node_ok (cv_id conv) ch s"
    and free: "\<And>m. m \<in> set (nodes s) \<Longrightarrow> n_turn_id m \<noteq> Some tid"
  shows "good s0 s'"
proof (cases "\<exists>cn m. ch = Some cn \<and> cn \<noteq> [] \<and> find_node cn s = Some m \<and> n_turn_id m = None")
  case True
  with assms(1) obtain cn m where "assign_node_to_turn cn tid 1 s = Inr (n, s')"
      and "ch = Some cn" "find_node cn s = Some m" "n_turn_id m = None"
    by (auto simp: user_node_def)
  with ok own free show ?thesis
    by (intro assign_node_good [OF _ g]) (auto simp: channel_node_ok_def)
next
  case False
  then have "\<exists>a. create_node a s = Inr (n, s') \<and> na_position a = None \<and> na_turn_id a = Some tid \<and>
      na_conversation_id a = cv_id conv"
    using assms(1)
    by (auto simp: user_node_def node_defaults_def split: option.splits if_splits)
  with g own show ?thesis by (auto intro: create_node_good)
qed

lemma dispatch_images_good:
  "dispatch_images conv tid save imgs pend s = Inr (r, s') \<Longrightarrow> good s0 s \<Longrightarrow>
   (tid, cv_id conv) \<in> turn_owners s0 \<Longrightarrow> good s0 s'"
proof (induction imgs arbitrary: pend s r)
  case (Cons img imgs)
  let ?mt = "if im_media_type img = [] then ''image/png'' else im_media_type img"
  show ?case
  proof (cases "save (rix s) (cv_id conv) (im_data img) ?mt")
    case None
    with Cons show ?thesis by simp
  next
    case (Some saved)
    with Cons.prems(1) obtain n s1 v s2 pend1 s3 r4 md d
      where n: "create_node ((node_defaults (cv_id conv) N_IMAGE ''done'')
              \<lparr>na_turn_id := Some tid, na_text := Some [], na_metadata := md\<rparr>)
            (s\<lparr>rix := Suc (rix s)\<rparr>) = Inr (n, s1)"
        and b: "bump_turn_version tid s1 = (v, s2)"
        and e: "append_and_emit pend conv ''node.image'' SCOPE_TURN v (Some tid) d s2 = Inr (pend1, s3)"
        and r: "dispatch_images conv tid save imgs pend1 s3 = Inr (r4, s')"
      by (auto simp: Let_def case_prod_Inr)
    have "good s0 s1" using n Cons.prems(2,3) by (auto intro: create_node_turn_good)
    with b e have "good s0 s3" by (elim good_dests)
    with Cons.IH r Cons.prems(3) show ?thesis by blast
  qed
qed simp

lemma attach_images_good:
  assumes "attach_images conv tid head node s = Inr (r, s')" and g: "good s0 s"
    and own: "(tid, cv_id conv) \<in> turn_owners s0"
  shows "good s0 s'"
proof (cases "q_images head = None \<or> image_save s = None")
  case True
  with assms(1) g show ?thesis by (auto simp: attach_images_def split: option.splits)
next
  case False
  with assms(1) obtain imgs save refs pend s1
    where "dispatch_images conv tid save imgs [] s = Inr ((refs, pend), s1)"
      and k: "(if refs = [] then Inr ((node, pend), s1)
              else bindE (update_node (n_id node) None None
                    (Some (dmerge (n_metadata node) [(''images'', JList refs)])) s1)
                  (\<lambda>(node', s2). Inr ((node', pend), s2))) = Inr (r, s')"
    by (auto simp: attach_images_def case_prod_Inr)
  with dispatch_images_good [OF _ g own] have "good s0 s1" by blast
  with k show ?thesis by (auto simp: case_prod_Inr split: if_splits intro: update_node_good)
qed

lemma dispatch_head_good:
  assumes "dispatch_head conv a head t s = Inr (r, s')" and inv: "store_inv s"
    and own: "(t_id t, cv_id conv) \<in> turn_owners s"
    and ok: "channel_node_ok (cv_id conv) (sa_channel_node_id a) s"
    and free: "\<And>m. m \<in> set (nodes s) \<Longrightarrow> n_turn_id m \<noteq> Some (t_id t)"
  shows "good s s'"
proof -
  from assms(1) obtain node s1 node' pend s2 q s3 s4 v s5 pend1 s6 pend2 d
    where u: "user_node conv (sa_channel_node_id a) head (t_id t) s = Inr (node, s1)"
      and i: "attach_images conv (t_id t) head node s1 = Inr ((node', pend), s2)"
      and rest: "mark_queue_sent (q_id head) (t_id t) (Some (n_id node')) s2 = Inr (q, s3)"
        "record_operation (sa_operation_id a) (cv_id conv) (send_request (q_id head))
          [(''turn_id'', JStr (t_id t)), (''node_id'', JStr (n_id node'))] s3 = Inr s4"
        "bump_session_version (cv_id conv) s4 = (v, s5)"
        "append_and_emit pend conv ''turn.status'' SCOPE_TURN (t_version t)
          (Some (t_id t)) [(''status'', JStr (turn_status_value (t_status t)))] s5 = Inr (pend1, s6)"
        "queue_event pend1 conv v d s6 = Inr (pend2, s')"
    unfolding dispatch_head_def Let_def by (auto simp: case_prod_Inr)
  have g1: "good s s1" by (rule user_node_good [OF u goodI [OF inv] own ok free])
  have "good s s2" by (rule attach_images_good [OF i g1 own])
  with rest show ?thesis by (elim good_dests)
qed

text \<open>The three outcomes of the dispatch transaction that changes something.\<close>

lemma send_next_txn_cases:
  assumes "send_next_txn cfg conv a s = Inr (r, s')"
  shows "s' = s \<or>
    count_active_turns_in_scope (cv_execution_scope conv) s < max_turns_per_scope cfg \<and>
    count_active_turns s < max_global_turns cfg \<and>
    ((\<exists>sn pc pt. create_turn_if_no_active (cv_id conv) T_QUEUED sn pc pt s = Inr (None, s')) \<or>
     (\<exists>sn pc pt t s1 head r1 pend s2.
        create_turn_if_no_active (cv_id conv) T_QUEUED sn pc pt s = Inr (Some t, s1) \<and>
        queue_head (cv_id conv) s = Some head \<and>
        dispatch_head conv a head t s1 = Inr (r1, s2) \<and> s' = emit_all pend s2))"
  using assms by (fastforce simp: send_next_txn_def Let_def Inr_splits not_le)

lemma send_next_txn_sound:
  assumes "send_next_txn cfg conv a s = Inr (r, s')" and inv: "store_inv s"
    and ok: "channel_node_ok (cv_id conv) (sa_channel_node_id a) s"
  shows "good s s' \<or> started (cv_id conv) s s' \<and>
    count_active_turns_in_scope (cv_execution_scope conv) s < max_turns_per_scope cfg \<and>
    count_active_turns s < max_global_turns cfg"
  using send_next_txn_cases [OF assms(1)]
proof (elim disjE conjE exE)
  assume "s' = s"
  with inv show ?thesis by (simp add: goodI)
next
  fix sn pc pt
  assume "create_turn_if_no_active (cv_id conv) T_QUEUED sn pc pt s = Inr (None, s')"
  from create_turn_None [OF this] goodI [OF inv] show ?thesis by simp
next
  fix sn pc pt t s1 head r1 pend s2
  assume c: "create_turn_if_no_active (cv_id conv) T_QUEUED sn pc pt s = Inr (Some t, s1)"
    and d: "dispatch_head conv a head t s1 = Inr (r1, s2)" and s': "s' = emit_all pend s2"
    and limit: "count_active_turns_in_scope (cv_execution_scope conv) s < max_turns_per_scope cfg"
      "count_active_turns s < max_global_turns cfg"
  from create_turn_Some [OF c]
  have new: "nodes s1 = nodes s" "t_id t \<notin> set (map t_id (turns s))" "(t_id t, cv_id conv) \<in> turn_owners s1"
    by auto
  have inv1: "store_inv s1" using c inv by (rule create_turn_if_no_active_inv)
  have free: "n_turn_id m \<noteq> Some (t_id t)" if "m \<in> set (nodes s1)" for m
  proof
    assume "n_turn_id m = Some (t_id t)"
    with that inv new(1) have "(t_id t, n_conversation_id m) \<in> turn_owners s"
      by (simp add: store_inv_def nodes_ok_def)
    with new(2) show False by (auto simp: turn_owners_def)
  qed
  have "channel_node_ok (cv_id conv) (sa_channel_node_id a) s1"
    using ok new by (simp add: channel_node_ok_def find_defs)
  from dispatch_head_good [OF d inv1 new(3) this free] have "good s1 s'" by (simp add: s')
  with c limit show ?thesis using create_turn_if_no_active_started by blast
qed

section \<open>Approvals and maintenance\<close>

lemma approval_ops_same:
  "create_approval c t tn ps n s = Inr (a, s') \<Longrightarrow> turns s' = turns s \<and> sessions s' = sessions s"
  "resolve_approval aid st b s = Inr (a, s') \<Longrightarrow> turns s' = turns s \<and> sessions s' = sessions s"
  by (auto simp: create_approval_def resolve_approval_def Let_def gen_ids insert_defs write_defs
      split: if_splits)

lemma create_approval_good [good_dests]:
  "create_approval c t tn ps n s = Inr (a, s') \<Longrightarrow> good s0 s \<Longrightarrow> good s0 s'"
  by (erule good_frame) (auto dest: approval_ops_same create_approval_inv)

lemma resolve_approval_good [good_dests]:
  "resolve_approval aid st b s = Inr (a, s') \<Longrightarrow> good s0 s \<Longrightarrow> good s0 s'"
  by (erule good_frame) (auto dest: approval_ops_same resolve_approval_inv)

lemma request_approval_good:
  assumes "request_approval cid tid tn ps s = Inr (a, s')" and inv: "store_inv s"
    and act: "\<forall>t. find_turn tid s = Some t \<longrightarrow> turn_active t"
  shows "good s s'"
proof -
  from assms(1) obtain s1 t s2 conv d pend s3
    where c: "create_approval cid tid tn ps None s = Inr (a, s1)"
      and u: "update_turn_status tid T_APPROVAL None None None s1 = Inr (t, s2)"
      and e: "append_and_emit [] conv ''approval.requested'' SCOPE_TURN (t_version t) (Some tid) d s2
        = Inr (pend, s3)" "s' = emit_all pend s3"
    by (auto simp: request_approval_def case_prod_Inr)
  have "\<forall>t. find_turn tid s1 = Some t \<longrightarrow> turn_active t"
    using act approval_ops_same(1) [OF c] by (simp add: find_defs)
  with update_turn_status_good [OF u create_approval_good [OF c goodI [OF inv]]]
  have "good s s2" by blast
  with e show ?thesis by simp (elim good_dests)
qed

lemma svc_resolve_approval_good:
  assumes "svc_resolve_approval cid aid dec b s = Inr (a, s')" and "store_inv s"
  shows "good s s'"
  using assms(1) goodI [OF assms(2)]
  by (auto simp: svc_resolve_approval_def Inr_splits split: if_splits) (elim good_dests, assumption?)+

lemma cancel_pending_approvals_good:
  assumes "cancel_pending_approvals cid tid s = Inr (k, s')" and "store_inv s"
  shows "good s s'"
  using assms(1) cancel_approvals_good [OF goodI [OF assms(2)], of cid tid] goodI [OF assms(2)]
  by (auto simp: cancel_pending_approvals_def Let_def Inr_splits)
    (elim cancelled_events_good, assumption)

lemma timed_out_events_good [good_dests]:
  "timed_out_events rows pend s = Inr (p, s') \<Longrightarrow> good s0 s \<Longrightarrow> good s0 s'"
proof (induction rows arbitrary: pend s)
  case (Cons row rows)
  then show ?case by (cases row) (auto simp: case_prod_Inr, blast intro: append_outbox_good)
qed simp

lemma expire_stale_approvals_good [good_dests]:
  "expire_stale_approvals s = (k, s') \<Longrightarrow> good s0 s \<Longrightarrow> good s0 s'"
  by (erule good_frame) (auto simp: expire_stale_approvals_def write_defs
      dest: expire_stale_approvals_inv [rotated])

lemma expire_and_broadcast_good [good_dests]:
  "expire_and_broadcast_approvals pend s = Inr (r, s') \<Longrightarrow> good s0 s \<Longrightarrow> good s0 s'"
  by (auto simp: expire_and_broadcast_approvals_def Let_def case_prod_Inr) (elim good_dests)

lemma svc_save_tool_result_good:
  assumes "svc_save_tool_result c t rr k n sz l ct sm tr s = Inr s'" and "store_inv s"
  shows "good s s'"
proof -
  from assms(1) obtain r where r: "save_tool_result c t rr k n sz l ct sm tr s = Inr (r, s')"
    by (auto simp: svc_save_tool_result_def case_prod_Inr)
  then have "turns s' = turns s" "sessions s' = sessions s"
    by (auto simp: save_tool_result_def Let_def insert_defs split: if_splits)
  with save_tool_result_inv [OF r assms(2)] show ?thesis
    by (intro good_frame [OF goodI [OF assms(2)]]) auto
qed

lemma record_delivery_good:
  assumes "record_delivery cid tid ch mid st v s = Inr s'" and "store_inv s"
  shows "good s s'"
  using assms(1) goodI [OF assms(2)]
  by (auto simp: record_delivery_def case_prod_Inr) (elim good_dests)

lemma check_and_record_receipt_good:
  assumes "check_and_record_receipt cid ch mid s = Inr (b, s')" and inv: "store_inv s"
  shows "good s s'"
proof -
  have key: "receipt_key = (\<lambda>r. (rc_channel r, rc_message_id r))"
    by (simp add: fun_eq_iff receipt_key_def)
  have "store_inv s'" using assms
    by (auto simp: check_and_record_receipt_def Let_def key store_inv_def conv_ids_def
        turn_owners_def conv_exists_def log_ok_def lookup_row_None row_simps
        split: if_splits option.splits intro!: unique_key_snoc unique_key_update)
  moreover have "turns s' = turns s" "sessions s' = sessions s" using assms(1)
    by (auto simp: check_and_record_receipt_def Let_def split: if_splits option.splits)
  ultimately show ?thesis by (intro good_frame [OF goodI [OF inv]]) auto
qed

lemma interrupt_active_turns_good [good_dests]:
  assumes "interrupt_active_turns s = (k, s')" and "good s0 s"
  shows "good s0 s'"
proof -
  have "calm s s'" using assms(1)
    by (auto simp: interrupt_active_turns_def turn_active_def intro!: update_turns_calm)
  with assms interrupt_active_turns_inv show ?thesis by (auto simp: good_def intro: calm_trans)
qed

lemma reset_interrupted_good [good_dests]:
  "reset_interrupted_queue_items s = (k, s') \<Longrightarrow> good s0 s \<Longrightarrow> good s0 s'"
  by (erule good_frame) (auto simp: reset_interrupted_queue_items_def Let_def write_defs
      dest: reset_interrupted_inv [rotated])

lemma recover_rows_good [good_dests]:
  "recover_rows rows pend s = Inr (p, s') \<Longrightarrow> good s0 s \<Longrightarrow> good s0 s'"
proof (induction rows arbitrary: pend s)
  case (Cons row rows)
  obtain tid cid where row: "row = (tid, cid)" by (cases row)
  show ?case
  proof (cases "get_turn tid s")
    case (Inl e)
    with Cons row show ?thesis by simp
  next
    case (Inr t)
    with Cons.prems(1) row obtain conv d pend1 s1 v s2 d2 pend2 s3
      where e: "turn_status_event pend conv t d s = Inr (pend1, s1)"
        "bump_session_version cid s1 = (v, s2)" "queue_event pend1 conv v d2 s2 = Inr (pend2, s3)"
        and r: "recover_rows rows pend2 s3 = Inr (p, s')"
      by (auto simp: Let_def case_prod_Inr)
    from e Cons.prems(2) have "good s0 s3" by (elim good_dests)
    with Cons.IH r show ?thesis by blast
  qed
qed simp

lemma recover_after_restart_good:
  assumes "recover_after_restart s = Inr (r, s')" and "store_inv s"
  shows "good s s'"
  using assms(1) goodI [OF assms(2)]
  by (auto simp: recover_after_restart_def Let_def case_prod_Inr) (elim good_dests)

end
