(* ===== verification/Outbox_Publisher.thy ===== *)
theory Outbox_Publisher
  imports Service_Core
begin

text \<open>
  The re-publisher of outbox events (\<open>gateway/conversation/outbox.py\<close>): one flush trims
  the backlog, claims the unpublished rows that no other instance holds, publishes its own
  claims in order, and after \<open>max_attempts\<close> consecutive failures parks a row as a dead
  letter that is never claimed again.

  An instance is its configuration and its attempt counters. The callback \<open>publish\<close> is a
  parameter: \<open>pub n ty p\<close> tells whether the \<open>n\<close>-th call returns normally, so that the
  same event can fail now and succeed later.
\<close>

definition DEAD_LETTER_CLAIMANT :: string where "DEAD_LETTER_CLAIMANT = ''dead_letter''"

definition CLAIM_MIN_AGE_MS :: nat where "CLAIM_MIN_AGE_MS = 15000"

record publisher =
  pb_batch_size :: nat
  pb_max_backlog :: nat
  pb_max_attempts :: nat
  pb_claimant :: string
  pb_claim_ttl_ms :: nat
  pb_attempts :: "(string \<times> nat) list"

text \<open>The constructor's clamps; times are in milliseconds.\<close>

definition new_publisher :: "int \<Rightarrow> int \<Rightarrow> int \<Rightarrow> string \<Rightarrow> int \<Rightarrow> publisher" where
  "new_publisher batch backlog attempts claimant ttl_ms =
    \<lparr>pb_batch_size = nat (max 1 batch), pb_max_backlog = nat (max 100 backlog),
     pb_max_attempts = nat (max 1 attempts), pb_claimant = claimant,
     pb_claim_ttl_ms = nat (max 1000 ttl_ms), pb_attempts = []\<rparr>"

definition claimable :: "nat \<Rightarrow> outbox_row \<Rightarrow> bool" where
  "claimable t e \<longleftrightarrow>
    unpublished e \<and>
    (case ob_claimed_by e of None \<Rightarrow> [] | Some c \<Rightarrow> c) \<noteq> DEAD_LETTER_CLAIMANT \<and>
    int (ob_created_at e) \<le> int t - int CLAIM_MIN_AGE_MS \<and>
    (ob_claimed_by e = None \<or>
     (case ob_claim_expires_at e of None \<Rightarrow> True | Some x \<Rightarrow> x < t))"

definition claim_unpublished :: "publisher \<Rightarrow> 'a store_scheme \<Rightarrow> nat \<times> 'a store_scheme" where
  "claim_unpublished p s =
    (sql_count (claimable (utc_now s)) (outbox s),
     update_outbox (claimable (utc_now s))
       (\<lambda>e. e\<lparr>ob_claimed_by := Some (pb_claimant p),
               ob_claim_expires_at := Some (utc_now s + pb_claim_ttl_ms p)\<rparr>) s)"

definition mark_dead_letter :: "string \<Rightarrow> 'a store_scheme \<Rightarrow> 'a store_scheme" where
  "mark_dead_letter oid s =
    update_outbox (\<lambda>e. ob_id e = oid \<and> unpublished e)
      (\<lambda>e. e\<lparr>ob_claimed_by := Some DEAD_LETTER_CLAIMANT, ob_claim_expires_at := None\<rparr>) s"

definition list_claimed :: "publisher \<Rightarrow> 'a store_scheme \<Rightarrow> outbox_row list" where
  "list_claimed p s =
    take (max 1 (pb_batch_size p))
      (order_by ob_created_at
        (filter (\<lambda>e. unpublished e \<and> ob_claimed_by e = Some (pb_claimant p)) (outbox s)))"

definition attempts_of :: "publisher \<Rightarrow> string \<Rightarrow> nat" where
  "attempts_of p oid = (case map_of (pb_attempts p) oid of None \<Rightarrow> 0 | Some k \<Rightarrow> k)"

definition forget_attempts :: "string \<Rightarrow> publisher \<Rightarrow> publisher" where
  "forget_attempts oid p = p\<lparr>pb_attempts := AList.delete oid (pb_attempts p)\<rparr>"

text \<open>
  One event of the batch; the result says whether it counts as published. The two marking
  transactions can only fail on a database error, which is not modelled.
\<close>

definition publish_one ::
  "(nat \<Rightarrow> string \<Rightarrow> dict \<Rightarrow> bool) \<Rightarrow> nat \<Rightarrow> outbox_row \<Rightarrow> publisher \<times> 'a store_scheme
    \<Rightarrow> bool \<times> publisher \<times> 'a store_scheme" where
  "publish_one pub n e ps =
    (let (p, s) = ps; oid = ob_id e in
     if pub n (ob_event_type e) (ob_payload e)
     then (True, forget_attempts oid p, mark_outbox_published oid s)
     else
       (let attempts = attempts_of p oid + 1 in
        if pb_max_attempts p \<le> attempts
        then (False, forget_attempts oid p, mark_dead_letter oid s)
        else (False, p\<lparr>pb_attempts := AList.update oid attempts (pb_attempts p)\<rparr>, s)))"

fun publish_batch ::
  "(nat \<Rightarrow> string \<Rightarrow> dict \<Rightarrow> bool) \<Rightarrow> nat \<Rightarrow> outbox_row list \<Rightarrow> publisher \<times> 'a store_scheme
    \<Rightarrow> nat \<times> publisher \<times> 'a store_scheme" where
  "publish_batch pub n [] ps = (0, ps)"
| "publish_batch pub n (e # es) ps =
    (let (ok, ps1) = publish_one pub n e ps;
         (k, ps2) = publish_batch pub (Suc n) es ps1
     in ((if ok then 1 else 0) + k, ps2))"

definition flush_once ::
  "(nat \<Rightarrow> string \<Rightarrow> dict \<Rightarrow> bool) \<Rightarrow> publisher \<Rightarrow> 'a store_scheme
    \<Rightarrow> nat \<times> publisher \<times> 'a store_scheme" where
  "flush_once pub p s =
    (let (_, s1) = trim_outbox_backlog (pb_max_backlog p) s;
         (_, s2) = claim_unpublished p s1
     in publish_batch pub 0 (list_claimed p s2) (p, s2))"

end
