(* ===== verification/Conv_System.thy ===== *)
theory Conv_System
  imports Sound_Start Outbox_Publisher
begin

text \<open>
  The conversation service as a state machine. A step is one transaction of a service
  operation that succeeded, the passage of time, or a run of the re-publisher; operations
  of different threads interleave in any order, because a write transaction is exclusive.
  An operation that raised changes nothing and is no step.

  The steps carry the discipline of the callers in \<open>gateway/conversation\<close>, which the
  operations do not check themselves: a transient status is set on a turn that is active,
  an item that is deleted is still open, steering is committed while a turn is active, and
  the channel node handed to a dispatch belongs to the conversation. \<open>Findings\<close>
  shows for each of them what happens without it.
\<close>

section \<open>Operations that neither start nor revive turns\<close>

text \<open>No turn that had ended is active; a turn that is there was there before.\<close>

definition ended_stay :: "'a store_scheme \<Rightarrow> 'a store_scheme \<Rightarrow> bool" where
  "ended_stay s s' \<longleftrightarrow> (\<forall>tid t'. find_turn tid s' = Some t' \<longrightarrow>
    (\<exists>t. find_turn tid s = Some t \<and> (turn_active t' \<longrightarrow> turn_active t)))"

definition quiet :: "'a store_scheme \<Rightarrow> 'a store_scheme \<Rightarrow> bool" where
  "quiet s s' \<longleftrightarrow> store_inv s' \<and> (one_active (turns s) \<longrightarrow> one_active (turns s')) \<and>
    (\<forall>sc. count_active_turns_in_scope sc s' \<le> count_active_turns_in_scope sc s) \<and>
    ended_stay s s'"

lemma ended_stay_trans: "ended_stay s s1 \<Longrightarrow> ended_stay s1 s2 \<Longrightarrow> ended_stay s s2"
  unfolding ended_stay_def by blast

lemma calm_ended_stay: "calm s s' \<Longrightarrow> ended_stay s s'"
  unfolding ended_stay_def
proof (intro allI impI)
  fix tid t'
  assume c: "calm s s'" and "find_turn tid s' = Some t'"
  with calm_find_turn [of "turns s" "turns s'" tid]
  show "\<exists>t. find_turn tid s = Some t \<and> (turn_active t' \<longrightarrow> turn_active t)"
    by (auto simp: calm_def find_defs turn_calm_def elim: option.rel_cases)
qed

lemma quiet_trans: "quiet s s1 \<Longrightarrow> quiet s1 s2 \<Longrightarrow> quiet s s2"
  by (auto simp: quiet_def intro: le_trans ended_stay_trans)

lemma good_quiet: "good s s' \<Longrightarrow> quiet s s'"
  by (auto simp: quiet_def good_def intro: calm_one_active calm_scope_count calm_ended_stay)

lemma good_quiet_trans: "quiet s s1 \<Longrightarrow> good s1 s2 \<Longrightarrow> quiet s s2"
  using quiet_trans good_quiet by blast

text \<open>Deleting rows: fewer turns, fewer conversations.\<close>

lemma sql_count_delete_mono:
  "(\<And>r. r \<in> set rows \<Longrightarrow> Q r \<Longrightarrow> R r) \<Longrightarrow> sql_count Q (sql_delete P rows) \<le> sql_count R rows"
  by (induction rows) (auto simp: sql_delete_def le_SucI)

lemma lookup_row_sql_delete:
  "unique_key key rows \<Longrightarrow> lookup_row key k (sql_delete P rows) = Some r \<Longrightarrow> lookup_row key k rows = Some r"
  using lookup_row_Some [of key k "sql_delete P rows" r] lookup_row_unique [of key rows r]
  by (auto simp: row_simps)

lemma quiet_delete:
  assumes inv: "store_inv s'" and inv0: "store_inv s" and t: "turns s' = sql_delete P (turns s)"
    and c: "\<And>sc cid. conv_in_scope sc cid s' \<Longrightarrow> conv_in_scope sc cid s"
  shows "quiet s s'"
proof -
  have "sql_count (\<lambda>t. t_conversation_id t = cid \<and> turn_active t) (turns s')
      \<le> sql_count (\<lambda>t. t_conversation_id t = cid \<and> turn_active t) (turns s)" for cid
    unfolding t by (rule sql_count_delete_le)
  moreover have "count_active_turns_in_scope sc s' \<le> count_active_turns_in_scope sc s" for sc
    unfolding count_active_turns_in_scope_def t by (rule sql_count_delete_mono) (auto dest: c)
  moreover have "ended_stay s s'"
    using inv0 lookup_row_sql_delete [of t_id "turns s"]
    by (auto simp: ended_stay_def find_defs t store_inv_def turns_ok_def)
  ultimately show ?thesis using inv by (fastforce simp: quiet_def one_active_def intro: le_trans)
qed

lemma delete_conversation_rows:
  "delete_conversation cid s = Inr (b, s') \<Longrightarrow>
   turns s' = sql_delete (\<lambda>t. t_conversation_id t = cid) (turns s) \<and>
   sessions s' = sql_delete (\<lambda>c. cv_id c = cid) (sessions s)"
  by (auto simp: delete_conversation_def delete_turns_of_def delete_nodes_of_def delete_queue_of_def
      delete_approvals_of_def delete_results_of_def Let_def split: if_splits)

lemma delete_conversation_quiet:
  assumes "delete_conversation cid s = Inr (b, s')" and "store_inv s"
  shows "quiet s s'"
proof (rule quiet_delete)
  from delete_conversation_rows [OF assms(1)]
  show "turns s' = sql_delete (\<lambda>t. t_conversation_id t = cid) (turns s)" by blast
  show "conv_in_scope sc c s" if "conv_in_scope sc c s'" for sc c
    using that delete_conversation_rows [OF assms(1)]
    by (auto simp: conv_in_scope_def find_defs lookup_row_delete split: if_splits option.splits)
qed (use delete_conversation_inv [OF assms] assms(2) in auto)

lemma delete_conversations_quiet:
  "delete_conversations cids s = Inr (ds, s') \<Longrightarrow> store_inv s \<Longrightarrow> quiet s s'"
proof (induction cids arbitrary: s ds)
  case Nil
  then show ?case by (auto intro: good_quiet goodI)
next
  case (Cons cid cids)
  then obtain b s1 ds1 where d: "delete_conversation cid s = Inr (b, s1)"
      and r: "delete_conversations cids s1 = Inr (ds1, s')"
    by (auto simp: case_prod_Inr)
  have q: "quiet s s1" by (rule delete_conversation_quiet [OF d Cons.prems(2)])
  then have "store_inv s1" by (simp add: quiet_def)
  from Cons.IH [OF r this] q show ?case by (rule quiet_trans [rotated])
qed

lemma delete_stale_quiet:
  "delete_stale_system_conversations days limit s = Inr (ds, s') \<Longrightarrow> store_inv s \<Longrightarrow> quiet s s'"
  by (auto simp: delete_stale_system_conversations_def Let_def intro: delete_conversations_quiet)

lemma quiet_emit_all [simp]: "quiet s (emit_all pend s') = quiet s s'"
  by (simp add: quiet_def ended_stay_def count_active_turns_in_scope_def conv_in_scope_def find_defs)

lemma clear_history_quiet:
  assumes "clear_history cid s = Inr (d, s')" and "store_inv s"
  shows "quiet s s'"
proof (rule quiet_delete)
  show "turns s' = sql_delete (\<lambda>t. t_conversation_id t = cid) (turns s)"
    using assms(1) by (auto simp: clear_history_def delete_turns_of_def delete_nodes_of_def
        delete_queue_of_def delete_approvals_of_def delete_results_of_def Let_def split: if_splits)
  have "sessions s' = sessions s"
    using assms(1) by (auto simp: clear_history_def delete_turns_of_def delete_nodes_of_def
        delete_queue_of_def delete_approvals_of_def delete_results_of_def Let_def split: if_splits)
  then show "conv_in_scope sc c s" if "conv_in_scope sc c s'" for sc c
    using that by (simp add: conv_in_scope_def find_defs)
qed (use clear_history_inv [OF assms] assms(2) in auto)

lemma clear_conversation_history_quiet:
  assumes "clear_conversation_history cid s = Inr (d, s')" and "store_inv s"
  shows "quiet s s'"
proof -
  from assms(1) obtain s1 v s2 conv x pend s3
    where h: "clear_history cid s = Inr (d, s1)" and e: "bump_session_version cid s1 = (v, s2)"
      "append_and_emit [] conv ''conversation.cleared'' SCOPE_SESSION v None x s2 = Inr (pend, s3)"
      and s': "s' = emit_all pend s3"
    by (auto simp: clear_conversation_history_def Let_def case_prod_Inr)
  have q: "quiet s s1" by (rule clear_history_quiet [OF h assms(2)])
  then have "good s1 s1" by (intro goodI) (simp add: quiet_def)
  with e have "good s1 s3" by (elim good_dests)
  with q show ?thesis using good_quiet_trans s' by simp
qed

lemma delete_conversation_by_key_quiet:
  assumes "delete_conversation_by_key key s = Inr (b, s')" and "store_inv s"
  shows "quiet s s'"
  using assms good_quiet [OF goodI [OF assms(2)]]
  by (auto simp: delete_conversation_by_key_def Inr_splits intro: delete_conversation_quiet)

text \<open>A new conversation has no turns.\<close>

lemma create_conversation_rows:
  assumes "create_conversation key og st sc ws md s = Inr ((c, created), s')"
  shows "turns s' = turns s \<and> (sessions s' = sessions s \<or> sessions s' = sessions s @ [c])"
  using assms
  by (auto simp: create_conversation_def Let_def gen_ids insert_defs
      split: option.splits sum.splits if_splits)

lemma quiet_new_session:
  assumes inv: "store_inv s" "store_inv s'" and t: "turns s' = turns s"
    and c: "sessions s' = sessions s \<or> sessions s' = sessions s @ [c]"
  shows "quiet s s'"
proof -
  have "conv_in_scope sc (t_conversation_id t) s' = conv_in_scope sc (t_conversation_id t) s"
    if "t \<in> set (turns s)" for sc t
  proof -
    have "t_conversation_id t \<in> set (map cv_id (sessions s))"
      using inv(1) that by (auto simp: store_inv_def turns_ok_def conv_ids_def)
    then obtain x where "lookup_row cv_id (t_conversation_id t) (sessions s) = Some x"
      using lookup_row_None by (metis option.exhaust)
    with c show ?thesis by (auto simp: conv_in_scope_def find_defs lookup_row_append)
  qed
  then have "count_active_turns_in_scope sc s' = count_active_turns_in_scope sc s" for sc
    unfolding count_active_turns_in_scope_def t sql_count_def
    by (metis (mono_tags, lifting) filter_cong)
  with inv t show ?thesis by (simp add: quiet_def ended_stay_def find_defs)
qed

lemma get_or_create_quiet:
  assumes "get_or_create_conversation key og st ws sc md s = Inr (c, s')" and inv: "store_inv s"
  shows "quiet s s'"
proof -
  from assms(1) obtain conv created s1 scope
    where c: "create_conversation key og st scope ws md s = Inr ((conv, created), s1)"
      and k: "(if created then
           bindE (append_and_emit [] conv ''conversation.upserted'' SCOPE_SESSION
               (cv_session_version conv) None [] s1)
             (\<lambda>(pend, s2). Inr (conv, emit_all pend s2))
         else Inr (conv, s1)) = Inr (c, s')"
    unfolding get_or_create_conversation_def Let_def by (auto simp: case_prod_Inr)
  have inv1: "store_inv s1" by (rule create_conversation_inv [OF c inv])
  have q: "quiet s s1" using create_conversation_rows [OF c] by (intro quiet_new_session [OF inv inv1]) auto
  have "good s1 s'"
    using k goodI [OF inv1] by (auto simp: Inr_splits) (elim append_and_emit_good)
  with q show ?thesis by (rule good_quiet_trans)
qed

lemma update_prefs_good:
  assumes "update_prefs cid prefs s = Inr (c, s')" and inv: "store_inv s"
  shows "good s s'"
proof -
  from assms(1) obtain md s1 v s2 d pend s3
    where u: "update_conversation_metadata cid md s = Inr (c, s1)"
      and e: "bump_session_version cid s1 = (v, s2)"
        "append_and_emit [] c ''conversation.upserted'' SCOPE_SESSION v None d s2 = Inr (pend, s3)"
      and s': "s' = emit_all pend s3"
    by (auto simp: update_prefs_def Let_def case_prod_Inr)
  have "calm s s1" using u
    by (auto simp: update_conversation_metadata_def Let_def write_defs calm_def list_all2_same
        split: option.splits intro!: list_all2_session_calm_update)
  with update_conversation_metadata_inv [OF u inv] have "good s s1" by (simp add: good_def)
  with e show ?thesis unfolding s' good_emit_all by (elim good_dests)
qed

lemma retention_same:
  "cleanup_idempotency s = (k, s') \<Longrightarrow> turns s' = turns s \<and> sessions s' = sessions s"
  "cleanup_outbox s = (k, s') \<Longrightarrow> turns s' = turns s \<and> sessions s' = sessions s"
  "cleanup_receipts s = (k, s') \<Longrightarrow> turns s' = turns s \<and> sessions s' = sessions s"
  "archive_expired_pending_deletes s = (k, s') \<Longrightarrow> turns s' = turns s \<and> sessions s' = sessions s"
  "trim_outbox_backlog m s = (k, s') \<Longrightarrow> turns s' = turns s \<and> sessions s' = sessions s"
  by (auto simp: cleanup_idempotency_def cleanup_outbox_def cleanup_receipts_def
      archive_expired_pending_deletes_def trim_outbox_backlog_def Let_def write_defs
      split: if_splits)

lemma retention_good [good_dests]:
  "cleanup_idempotency s = (k, s') \<Longrightarrow> good s0 s \<Longrightarrow> good s0 s'"
  "cleanup_outbox s = (k, s') \<Longrightarrow> good s0 s \<Longrightarrow> good s0 s'"
  "cleanup_receipts s = (k, s') \<Longrightarrow> good s0 s \<Longrightarrow> good s0 s'"
  "archive_expired_pending_deletes s = (k, s') \<Longrightarrow> good s0 s \<Longrightarrow> good s0 s'"
  "trim_outbox_backlog m s = (k, s') \<Longrightarrow> good s0 s \<Longrightarrow> good s0 s'"
  by (erule good_frame; blast dest: retention_same cleanup_idempotency_inv cleanup_outbox_inv
      cleanup_receipts_inv archive_expired_inv trim_outbox_backlog_inv)+

lemma cleanup_quiet:
  assumes "cleanup days s = Inr (r, s')" and inv: "store_inv s"
  shows "quiet s s'"
proof -
  from assms(1) obtain k1 s1 k2 s2 k3 s3 k4 pend s4 k5 s5 ds s6
    where g: "cleanup_idempotency s = (k1, s1)" "cleanup_outbox s1 = (k2, s2)"
        "cleanup_receipts s2 = (k3, s3)"
        "expire_and_broadcast_approvals [] s3 = Inr ((k4, pend), s4)"
        "archive_expired_pending_deletes s4 = (k5, s5)"
      and d: "delete_stale_system_conversations days 500 s5 = Inr (ds, s6)"
      and s': "s' = emit_all pend s6"
    unfolding cleanup_def Let_def by (auto simp: case_prod_Inr)
  have "good s s5" using g goodI [OF inv] by (elim good_dests)
  then have "quiet s s5" "store_inv s5" by (auto intro: good_quiet good_inv)
  with delete_stale_quiet [OF d] show ?thesis using s' quiet_trans by simp
qed

section \<open>The re-publisher and the in-memory parts\<close>

lemma update_outbox_good:
  "good s0 s \<Longrightarrow> (\<And>e. ob_id (f e) = ob_id e) \<Longrightarrow>
   (\<And>e. ob_conversation_id (f e) = ob_conversation_id e) \<Longrightarrow> good s0 (update_outbox P f s)"
  by (erule good_frame) (auto simp: update_outbox_def
      intro!: store_inv_update_outbox [unfolded update_outbox_def])

lemma mark_outbox_published_good: "good s0 s \<Longrightarrow> good s0 (mark_outbox_published oid s)"
  by (simp add: mark_outbox_published_def update_outbox_good)

lemma publish_one_good:
  "publish_one pub n e (p, s) = (ok, p', s') \<Longrightarrow> good s0 s \<Longrightarrow> good s0 s'"
  by (auto simp: publish_one_def Let_def mark_dead_letter_def
      intro: update_outbox_good mark_outbox_published_good split: if_splits)

lemma publish_batch_good:
  "publish_batch pub n es (p, s) = (k, p', s') \<Longrightarrow> good s0 s \<Longrightarrow> good s0 s'"
proof (induction es arbitrary: n p s k)
  case (Cons e es)
  obtain ok p1 s1 where o: "publish_one pub n e (p, s) = (ok, p1, s1)" by (metis prod_cases3)
  with Cons.prems(1) obtain k1 where "publish_batch pub (Suc n) es (p1, s1) = (k1, p', s')"
    by (auto split: prod.splits)
  with Cons.IH publish_one_good [OF o Cons.prems(2)] show ?case by blast
qed simp

lemma flush_once_good:
  assumes "flush_once pub p s = (k, p', s')" and "store_inv s"
  shows "good s s'"
proof -
  obtain k1 s1 where t: "trim_outbox_backlog (pb_max_backlog p) s = (k1, s1)" by fastforce
  obtain k2 s2 where c: "claim_unpublished p s1 = (k2, s2)" by fastforce
  have "good s s1" using t goodI [OF assms(2)] by (elim good_dests)
  with c have "good s s2" by (auto simp: claim_unpublished_def intro: update_outbox_good)
  moreover from assms(1) t c have "publish_batch pub 0 (list_claimed p s2) (p, s2) = (k, p', s')"
    by (simp add: flush_once_def)
  ultimately show ?thesis using publish_batch_good by blast
qed

lemma mark_all_published_good: "good s0 s \<Longrightarrow> good s0 (mark_all_published oids s)"
  by (induction oids arbitrary: s) (auto intro: mark_outbox_published_good)

lemma flush_outbox_published_good:
  assumes "flush_outbox_published s = (k, s')" and "store_inv s"
  shows "good s s'"
  using assms goodI [OF assms(2)]
  by (auto simp: flush_outbox_published_def intro!: mark_all_published_good split: if_splits)

section \<open>Steps\<close>

text \<open>A conversation object read in an earlier state: its id and scope never change.\<close>

definition read_earlier :: "conversation \<Rightarrow> 'a store_scheme \<Rightarrow> bool" where
  "read_earlier conv s \<longleftrightarrow>
    (\<exists>c. find_session (cv_id conv) s = Some c \<and> cv_execution_scope c = cv_execution_scope conv)"

inductive step :: "limits \<Rightarrow> svc \<Rightarrow> svc \<Rightarrow> bool" for cfg where
  tick: "step cfg s (s\<lparr>now := now s + d\<rparr>)"
| open_conversation:
    "get_or_create_conversation key og st ws sc md s = Inr (c, s') \<Longrightarrow> step cfg s s'"
| prefs: "update_prefs cid prefs s = Inr (c, s') \<Longrightarrow> step cfg s s'"
| enqueue: "enqueue size_of cid x a s = Inr (q, s') \<Longrightarrow> step cfg s s'"
| send: "read_earlier conv s \<Longrightarrow> channel_node_ok (cv_id conv) (sa_channel_node_id sa) s \<Longrightarrow>
    send_next_txn cfg conv sa s = Inr (r, s') \<Longrightarrow> step cfg s s'"
| start: "read_earlier conv s \<Longrightarrow> start_turn_txn cfg conv sn pc pt s = Inr (rt, s') \<Longrightarrow> step cfg s s'"
| edit: "edit_queue_item cid qid rv tx op s = Inr (q, s') \<Longrightarrow> step cfg s s'"
| delete_item: "\<forall>q. find_queue_row qid s = Some q \<longrightarrow> queue_open q \<Longrightarrow>
    delete_queue_item cid qid rv s = Inr (q', s') \<Longrightarrow> step cfg s s'"
| undo: "undo_delete_item cid qid s = Inr (q, s') \<Longrightarrow> step cfg s s'"
| move: "move_item cid qid dir s = Inr (qs, s') \<Longrightarrow> step cfg s s'"
| clear: "clear_waiting cid s = Inr (k, s') \<Longrightarrow> step cfg s s'"
| clear_log: "clear_conversation_history cid s = Inr (dt, s') \<Longrightarrow> step cfg s s'"
| delete_conv: "delete_conversation_by_key key s = Inr (b, s') \<Longrightarrow> step cfg s s'"
| prepare: "prepare_steering cid qids s = Inr (pr, s') \<Longrightarrow> step cfg s s'"
| commit: "get_active_turn cid s \<noteq> None \<Longrightarrow> commit_steering cid qids s = Inr (ns, s') \<Longrightarrow> step cfg s s'"
| abort: "abort_steering cid qids s = Inr s' \<Longrightarrow> step cfg s s'"
| status: "terminal_status ts \<or> (\<forall>t. find_turn tid s = Some t \<longrightarrow> turn_active t) \<Longrightarrow>
    set_turn_status cid tid ts err s = Inr (t', s') \<Longrightarrow> step cfg s s'"
| delta: "upsert_node_delta cid tid ty x da s = Inr (n, s') \<Longrightarrow> step cfg s s'"
| deltas: "upsert_node_deltas items s = Inr (k, s') \<Longrightarrow> step cfg s s'"
| gap: "step cfg s (publish_version_gap cid reason s)"
| finalize: "finalize_node cid tid ty mi s = Inr (no, s') \<Longrightarrow> step cfg s s'"
| tool: "upsert_tool_node cid tid call ta s = Inr (n, s') \<Longrightarrow> step cfg s s'"
| complete: "complete_turn cid tid ts full err s = Inr (t', s') \<Longrightarrow> step cfg s s'"
| runtime: "append_runtime_node cid tid rt rid x st fin s = Inr (n, s') \<Longrightarrow> step cfg s s'"
| stop: "request_stop cid op s = Inr (to, s') \<Longrightarrow> step cfg s s'"
| ask: "\<forall>t. find_turn tid s = Some t \<longrightarrow> turn_active t \<Longrightarrow>
    request_approval cid tid tn ps s = Inr (ap, s') \<Longrightarrow> step cfg s s'"
| resolve: "svc_resolve_approval cid aid dec b s = Inr (ap, s') \<Longrightarrow> step cfg s s'"
| cancel: "cancel_pending_approvals cid tid s = Inr (k, s') \<Longrightarrow> step cfg s s'"
| result: "svc_save_tool_result c t rr kd n sz l ct sm tr s = Inr s' \<Longrightarrow> step cfg s s'"
| delivery: "record_delivery cid tid ch mid st v s = Inr s' \<Longrightarrow> step cfg s s'"
| receipt: "check_and_record_receipt cid ch mid s = Inr (b, s') \<Longrightarrow> step cfg s s'"
| recover: "recover_after_restart s = Inr (rr, s') \<Longrightarrow> step cfg s s'"
| retention: "cleanup days s = Inr (cr, s') \<Longrightarrow> step cfg s s'"
| flush: "flush_once pub p s = (k, p', s') \<Longrightarrow> step cfg s s'"
| flush_marks: "flush_outbox_published s = (k, s') \<Longrightarrow> step cfg s s'"
| steering_wait: "step cfg s (register_steering_wait cid qids s)"
| steering_end: "step cfg s (conclude_steering cid s)"
| steering_check: "check_steering_timeout cid s = (ids, s') \<Longrightarrow> step cfg s s'"

text \<open>A stop requested in one transaction with the read of the active turn.\<close>

lemma request_stop_good:
  assumes "request_stop cid op s = Inr (r, s')" and inv: "store_inv s"
  shows "good s s'"
proof (cases "get_active_turn cid s")
  case None
  with assms show ?thesis by (auto simp: request_stop_def intro: goodI)
next
  case (Some active)
  with assms(1) obtain conv where r: "request_stop_txn conv (t_id active) op s = Inr (r, s')"
    by (auto simp: request_stop_def)
  from get_active_turn_Some [OF Some] inv
  have "find_turn (t_id active) s = Some active" "turn_active active"
    by (auto simp: store_inv_def turns_ok_def find_defs lookup_row_unique)
  then show ?thesis using request_stop_txn_good [OF r inv] by simp
qed

text \<open>Every step is quiet, or starts one turn within the limit of its scope.\<close>

lemma step_cases:
  assumes "step cfg s s'" and inv: "store_inv s"
  shows "quiet s s' \<or> (\<exists>conv. read_earlier conv s \<and> started (cv_id conv) s s' \<and>
    count_active_turns_in_scope (cv_execution_scope conv) s < max_turns_per_scope cfg)"
  using assms(1)
proof cases
  case (send conv sa r)
  with send_next_txn_sound [OF send(3) inv send(2)] good_quiet show ?thesis by blast
next
  case (start conv sn pc pt rt)
  with start_turn_txn_sound [OF start(2) inv] good_quiet show ?thesis by blast
next
  case (tick d)
  with inv show ?thesis by (auto simp: good_def calm_def list_all2_same turn_calm_def session_calm_def
        intro!: good_quiet)
next
  case (gap cid reason)
  with goodI [OF inv] show ?thesis
    by (auto simp: publish_version_gap_def intro!: good_quiet split: sum.splits)
next
  case (steering_check cid ids)
  with goodI [OF inv] show ?thesis
    by (auto simp: check_steering_timeout_def intro!: good_quiet split: option.splits if_splits)
next
  case (steering_wait cid qids)
  with goodI [OF inv] show ?thesis by (auto simp: register_steering_wait_def intro!: good_quiet)
next
  case (steering_end cid)
  with goodI [OF inv] show ?thesis by (auto simp: conclude_steering_def intro!: good_quiet)
next
  case (delete_item qid cid rv q')
  with delete_queue_item_good [OF _ inv] good_quiet show ?thesis by blast
qed (blast intro: good_quiet inv get_or_create_quiet update_prefs_good enqueue_good
  edit_queue_item_good undo_delete_item_good move_item_good clear_waiting_good
  clear_conversation_history_quiet delete_conversation_by_key_quiet prepare_steering_good
  commit_steering_good abort_steering_good set_turn_status_good upsert_node_delta_good
  upsert_node_deltas_good finalize_node_good upsert_tool_node_good complete_turn_good
  append_runtime_node_good request_stop_good request_approval_good svc_resolve_approval_good
  cancel_pending_approvals_good svc_save_tool_result_good record_delivery_good
  check_and_record_receipt_good recover_after_restart_good cleanup_quiet flush_once_good
  flush_outbox_published_good)+

end
