(* ===== verification/Conv_Reach.thy ===== *)
theory Conv_Reach
  imports Conv_System
begin

text \<open>
  Reachable states of the conversation service, their invariant, and a concrete run that
  the witnesses of the properties evaluate.
\<close>

section \<open>Reachable states\<close>

definition initial_svc :: "svc \<Rightarrow> bool" where
  "initial_svc s \<longleftrightarrow> sessions s = [] \<and> turns s = [] \<and> nodes s = [] \<and> queue s = [] \<and>
    approvals s = [] \<and> results s = [] \<and> idems s = [] \<and> outbox s = [] \<and> receipts s = []"

inductive reachable :: "limits \<Rightarrow> svc \<Rightarrow> bool" for cfg where
  start: "initial_svc s \<Longrightarrow> reachable cfg s"
| go_on: "reachable cfg s \<Longrightarrow> step cfg s s' \<Longrightarrow> reachable cfg s'"

definition sys_inv :: "limits \<Rightarrow> 'a store_scheme \<Rightarrow> bool" where
  "sys_inv cfg s \<longleftrightarrow> store_inv s \<and> one_active (turns s) \<and>
    (\<forall>sc. count_active_turns_in_scope sc s \<le> max_turns_per_scope cfg)"

lemma initial_sys_inv: "initial_svc s \<Longrightarrow> sys_inv cfg s"
  by (simp add: initial_svc_def sys_inv_def store_inv_def table_ok_defs one_active_def
      count_active_turns_in_scope_def)

lemma started_one_active:
  assumes "started cid s s'" and "one_active (turns s)"
  shows "one_active (turns s')"
proof -
  from assms(1) obtain s1 row where free: "\<not> has_active_turn cid s"
      and t: "turns s1 = turns s @ [row]" "t_conversation_id row = cid" and g: "good s1 s'"
    by (auto simp: started_def)
  have "sql_count (\<lambda>t. t_conversation_id t = cid \<and> turn_active t) (turns s) = 0"
    using free by (auto simp: has_active_turn_def list_ex_iff)
  with assms(2) t have "one_active (turns s1)"
    by (auto simp: one_active_def simp del: sql_count_0)
  with good_calm [OF g] show ?thesis by (rule calm_one_active)
qed

lemma started_scope_count:
  assumes "started (cv_id conv) s s'" and "read_earlier conv s"
  shows "count_active_turns_in_scope sc s' \<le>
    count_active_turns_in_scope sc s + (if sc = cv_execution_scope conv then 1 else 0)"
proof -
  from assms(1) obtain s1 row where t: "turns s1 = turns s @ [row]" "sessions s1 = sessions s"
      "t_conversation_id row = cv_id conv" and g: "good s1 s'"
    by (auto simp: started_def)
  have "conv_in_scope sc (cv_id conv) s \<longleftrightarrow> sc = cv_execution_scope conv"
    using assms(2) by (auto simp: read_earlier_def conv_in_scope_def)
  with t have "count_active_turns_in_scope sc s1 \<le>
      count_active_turns_in_scope sc s + (if sc = cv_execution_scope conv then 1 else 0)"
    by (auto simp: count_active_turns_in_scope_def conv_in_scope_def find_defs)
  with calm_scope_count [OF good_calm [OF g], of sc] show ?thesis by linarith
qed

lemma step_sys_inv:
  assumes "step cfg s s'" and "sys_inv cfg s"
  shows "sys_inv cfg s'"
proof -
  from assms(2) have inv: "store_inv s" and one: "one_active (turns s)"
    and sc: "\<And>sc. count_active_turns_in_scope sc s \<le> max_turns_per_scope cfg"
    by (auto simp: sys_inv_def)
  from step_cases [OF assms(1) inv] show ?thesis
  proof (elim disjE exE conjE)
    assume "quiet s s'"
    with one sc show ?thesis by (auto simp: sys_inv_def quiet_def intro: le_trans)
  next
    fix conv
    assume r: "read_earlier conv s" and st: "started (cv_id conv) s s'"
      and limit: "count_active_turns_in_scope (cv_execution_scope conv) s < max_turns_per_scope cfg"
    have "count_active_turns_in_scope c s' \<le> max_turns_per_scope cfg" for c
      using started_scope_count [OF st r, of c] sc [of c] limit by (auto split: if_splits)
    moreover have "store_inv s'" using st by (auto simp: started_def good_def)
    ultimately show ?thesis using started_one_active [OF st one] by (simp add: sys_inv_def)
  qed
qed

lemma reachable_sys_inv: "reachable cfg s \<Longrightarrow> sys_inv cfg s"
  by (induction rule: reachable.induct) (auto intro: initial_sys_inv step_sys_inv)

lemma one_active_unique:
  assumes "one_active ts" and "unique_key t_id ts" and "t \<in> set ts" "t' \<in> set ts"
    and "turn_active t" "turn_active t'" and "t_conversation_id t' = t_conversation_id t"
  shows "t' = t"
proof (rule ccontr)
  assume ne: "t' \<noteq> t"
  let ?Q = "\<lambda>x. t_conversation_id x = t_conversation_id t \<and> turn_active x"
  have "length (filter ?Q ts) \<le> 1" using assms(1) by (simp add: one_active_def sql_count_def)
  moreover have "{t, t'} \<subseteq> set (filter ?Q ts)" using assms by auto
  ultimately show False
    using ne by (cases "filter ?Q ts") (auto simp: le_Suc_eq)
qed

lemma started_ended_stay:
  assumes "started cid s s'" and "store_inv s" and "find_turn tid s = Some t" and "\<not> turn_active t"
    and "find_turn tid s' = Some t'"
  shows "\<not> turn_active t'"
proof -
  from assms(1) obtain s1 row where t: "turns s1 = turns s @ [row]" and g: "good s1 s'"
    by (auto simp: started_def)
  then have "find_turn tid s1 = Some t" using assms(3) by (simp add: find_defs lookup_row_append)
  with calm_ended [OF good_calm [OF g]] assms(4,5) show ?thesis by fastforce
qed

lemma step_ended_stay:
  assumes "step cfg s s'" and "store_inv s" and "find_turn tid s = Some t" and "\<not> turn_active t"
    and "find_turn tid s' = Some t'"
  shows "\<not> turn_active t'"
  using step_cases [OF assms(1,2)] started_ended_stay assms(2-5)
  by (fastforce simp: quiet_def ended_stay_def)

end
