(* ===== verification/Demo_Run.thy ===== *)
theory Demo_Run
  imports Conv_Reach
begin

text \<open>
  A concrete run of the service, evaluated by the simplifier: the empty system, a new
  conversation, a queued message, and its dispatch. The witnesses of the properties start
  from these states. The bundles gather the definitions one evaluation step unfolds.
\<close>

section \<open>Evaluation bundles\<close>

lemmas run_sql = sql_count_def sql_max_def order_by_def order_by_desc_def fetchone_def
  lookup_row_def insert_row_def sql_delete_def

lemmas run_prim = write_defs insert_defs find_defs gen_ids utc_now_def conv_exists_def
  turn_exists_def turn_ref_ok_def event_payload_def append_outbox_def append_and_emit_def emit_def
  jnat_def jopt_def SCOPE_SESSION_def SCOPE_TURN_def get_conversation_def create_conversation_def
  get_conversation_by_key_def outbox_event.defs outbox_row.defs turn.defs turn_row.defs
  bump_session_version_def bump_turn_version_def queue_event_def queue_summary_def
  queue_item_to_dict_def list_active_queue_def queue_active_def queue_open_def

lemmas run_queue = get_or_create_conversation_def default_execution_scope_def enqueue_def
  enqueue_defaults_def check_operation_def record_operation_def enqueue_item_def strip_def
  py_space_def active_queue_count_def next_queue_position_def MAX_ACTIVE_QUEUE_ITEMS_def
  MAX_QUEUE_TEXT_LENGTH_def read_queue_item_def get_queue_item_def

lemmas run_turn = send_next_def send_next_txn_def get_active_turn_def send_defaults_def
  queue_head_def count_active_turns_in_scope_def count_active_turns_def
  create_turn_if_no_active_def has_active_turn_def new_turn_def dispatch_head_def user_node_def
  create_node_def node_defaults_def next_position_def turn_positions_def attach_images_def
  mark_queue_sent_def turn_active_def conv_in_scope_def

lemmas run_done = complete_turn_def get_turn_def complete_turn_body_def write_final_answer_def
  get_last_turn_node_def update_turn_status_def coalesce_def finalize_turn_nodes_def
  sweep_running_tool_nodes_def turn_status_event_def pending_of_def cancel_approvals_def
  position_key_def

section \<open>The run\<close>

definition after :: "'e + 'b \<times> 's \<Rightarrow> 's \<Rightarrow> 's" where
  "after r s = (case r of Inl _ \<Rightarrow> s | Inr (_, s') \<Rightarrow> s')"

definition demo_limits :: limits where
  "demo_limits = \<lparr>max_turns_per_scope = 5, max_global_turns = 4\<rparr>"

definition demo0 :: svc where
  "demo0 = \<lparr>sessions = [], turns = [], nodes = [], queue = [], approvals = [], results = [],
     idems = [], outbox = [], receipts = [], now = 1000000, rnd = (\<lambda>n. replicate n CHR ''x''),
     rix = 0, image_save = None, sha = (\<lambda>d. concat (map fst d)), sha_text = (\<lambda>x. x),
     pub_ok = (\<lambda>_ _. False), broadcasts = [], published_outbox = [], steering_pending = []\<rparr>"

definition demo1 :: svc where
  "demo1 = after (get_or_create_conversation ''k'' ''webui'' ''main'' None None None demo0) demo0"

definition demo2 :: svc where
  "demo2 = after (enqueue (\<lambda>_. None) ''conv_'' ''hi'' enqueue_defaults demo1) demo1"

definition demo3 :: svc where
  "demo3 = after (send_next demo_limits ''conv_'' send_defaults demo2) demo2"

lemma demo1_eq: "demo1 =
    \<lparr>sessions =
       [\<lparr>cv_id = ''conv_'', cv_session_key = ''k'', cv_origin = ''webui'',
           cv_subtype = ''main'', cv_execution_scope = ''gateway:default'',
           cv_workspace_id = None, cv_route_metadata = [],
           cv_session_version = 0, cv_created_at = 1000000,
           cv_updated_at = 1000000\<rparr>],
       turns = [], nodes = [], queue = [], approvals = [], results = [],
       idems = [],
       outbox =
         [\<lparr>ob_id = ''obx_x'', ob_conversation_id = ''conv_'',
             ob_event_type = ''conversation.upserted'',
             ob_scope = ''session'', ob_version = 0,
             ob_payload =
               [(''conversation_id'', JStr ''conv_''),
                (''session_key'', JStr ''k''), (''origin'', JStr ''webui''),
                (''subtype'', JStr ''main''), (''workspace_id'', JNull),
                (''scope'', JStr ''session''), (''version'', JInt 0),
                (''data'', JObj [])],
             ob_created_at = 1000000, ob_published_at = None,
             ob_claimed_by = None, ob_claim_expires_at = None\<rparr>],
       receipts = [], now = 1000000, rnd = \<lambda>n. replicate n CHR ''x'',
       rix = Suc (Suc 0), image_save = None, sha = \<lambda>d. concat (map fst d),
       sha_text = \<lambda>x. x, pub_ok = \<lambda>_ _. False, broadcasts = [],
       published_outbox = [], steering_pending = []\<rparr>"
  by (simp add: demo1_def demo0_def after_def run_prim run_queue Let_def run_sql)

lemma demo2_eq: "demo2 =
    \<lparr>sessions =
       [\<lparr>cv_id = ''conv_'', cv_session_key = ''k'', cv_origin = ''webui'',
           cv_subtype = ''main'', cv_execution_scope = ''gateway:default'',
           cv_workspace_id = None, cv_route_metadata = [],
           cv_session_version = Suc 0, cv_created_at = 1000000,
           cv_updated_at = 1000000\<rparr>],
       turns = [], nodes = [],
       queue =
         [\<lparr>q_id = ''q_xx'', q_conversation_id = ''conv_'',
             q_position = Suc 0, q_revision = Suc 0, q_status = Q_WAITING,
             q_text = ''hi'', q_target_turn_id = None,
             q_created_turn_id = None, q_created_node_id = None,
             q_operation_id = None, q_created_at = 1000000,
             q_updated_at = 1000000, q_images = None\<rparr>],
       approvals = [], results = [], idems = [],
       outbox =
         [\<lparr>ob_id = ''obx_x'', ob_conversation_id = ''conv_'',
             ob_event_type = ''conversation.upserted'',
             ob_scope = ''session'', ob_version = 0,
             ob_payload =
               [(''conversation_id'', JStr ''conv_''),
                (''session_key'', JStr ''k''), (''origin'', JStr ''webui''),
                (''subtype'', JStr ''main''), (''workspace_id'', JNull),
                (''scope'', JStr ''session''), (''version'', JInt 0),
                (''data'', JObj [])],
             ob_created_at = 1000000, ob_published_at = None,
             ob_claimed_by = None, ob_claim_expires_at = None\<rparr>,
          \<lparr>ob_id = ''obx_xxx'', ob_conversation_id = ''conv_'',
             ob_event_type = ''queue.updated'', ob_scope = ''session'',
             ob_version = Suc 0,
             ob_payload =
               [(''conversation_id'', JStr ''conv_''),
                (''session_key'', JStr ''k''), (''origin'', JStr ''webui''),
                (''subtype'', JStr ''main''), (''workspace_id'', JNull),
                (''scope'', JStr ''session''), (''version'', JInt 1),
                (''data'',
                 JObj
                  [(''queue_item_id'', JStr ''q_xx''),
                   (''status'', JStr ''waiting''), (''position'', JInt 1),
                   (''text_len'', JInt 2), (''node_id'', JNull),
                   (''queue'',
                    JList
                     [JObj
                       [(''queue_item_id'', JStr ''q_xx''),
                        (''conversation_id'', JStr ''conv_''),
                        (''position'', JInt 1), (''revision'', JInt 1),
                        (''status'', JStr ''waiting''),
                        (''text'', JStr ''hi''),
                        (''target_turn_id'', JNull),
                        (''created_turn_id'', JNull),
                        (''created_node_id'', JNull),
                        (''operation_id'', JNull),
                        (''created_at'', JInt 1000000),
                        (''updated_at'', JInt 1000000),
                        (''image_count'', JInt 0)]])])],
             ob_created_at = 1000000, ob_published_at = None,
             ob_claimed_by = None, ob_claim_expires_at = None\<rparr>],
       receipts = [], now = 1000000, rnd = \<lambda>n. replicate n CHR ''x'',
       rix = Suc (Suc (Suc (Suc 0))), image_save = None,
       sha = \<lambda>d. concat (map fst d), sha_text = \<lambda>x. x, pub_ok = \<lambda>_ _. False,
       broadcasts = [], published_outbox = [], steering_pending = []\<rparr>"
  by (simp add: demo2_def demo1_eq after_def run_prim run_queue Let_def run_sql)

lemma demo3_eq: "demo3 =
    \<lparr>sessions =
       [\<lparr>cv_id = ''conv_'', cv_session_key = ''k'', cv_origin = ''webui'',
           cv_subtype = ''main'', cv_execution_scope = ''gateway:default'',
           cv_workspace_id = None, cv_route_metadata = [],
           cv_session_version = Suc (Suc 0), cv_created_at = 1000000,
           cv_updated_at = 1000000\<rparr>],
       turns =
         [\<lparr>t_id = ''turn_xxxx'', t_conversation_id = ''conv_'',
             t_status = T_QUEUED, t_version = Suc 0,
             t_runtime_snapshot_id = None, t_started_at = 1000000,
             t_finished_at = None, t_final_assistant_node_id = None,
             t_error_code = None, t_parent_conversation_id = None,
             t_parent_turn_id = None, t_rowid = Suc 0\<rparr>],
       nodes =
         [\<lparr>n_id = ''node_xxxxx'', n_conversation_id = ''conv_'',
             n_type = N_USER, n_position = Some (Suc 0),
             n_status = ''dispatched'', n_turn_id = Some ''turn_xxxx'',
             n_text = Some ''hi'', n_metadata = [], n_source_channel = None,
             n_source_message_id = None, n_sender_id = None,
             n_sender_name = None, n_created_at = 1000000,
             n_updated_at = 1000000, n_text_seq = Suc 0\<rparr>],
       queue =
         [\<lparr>q_id = ''q_xx'', q_conversation_id = ''conv_'',
             q_position = Suc 0, q_revision = Suc (Suc 0),
             q_status = Q_SENT, q_text = ''hi'', q_target_turn_id = None,
             q_created_turn_id = Some ''turn_xxxx'',
             q_created_node_id = Some ''node_xxxxx'', q_operation_id = None,
             q_created_at = 1000000, q_updated_at = 1000000,
             q_images = None\<rparr>],
       approvals = [], results = [], idems = [],
       outbox =
         [\<lparr>ob_id = ''obx_x'', ob_conversation_id = ''conv_'',
             ob_event_type = ''conversation.upserted'',
             ob_scope = ''session'', ob_version = 0,
             ob_payload =
               [(''conversation_id'', JStr ''conv_''),
                (''session_key'', JStr ''k''), (''origin'', JStr ''webui''),
                (''subtype'', JStr ''main''), (''workspace_id'', JNull),
                (''scope'', JStr ''session''), (''version'', JInt 0),
                (''data'', JObj [])],
             ob_created_at = 1000000, ob_published_at = None,
             ob_claimed_by = None, ob_claim_expires_at = None\<rparr>,
          \<lparr>ob_id = ''obx_xxx'', ob_conversation_id = ''conv_'',
             ob_event_type = ''queue.updated'', ob_scope = ''session'',
             ob_version = Suc 0,
             ob_payload =
               [(''conversation_id'', JStr ''conv_''),
                (''session_key'', JStr ''k''), (''origin'', JStr ''webui''),
                (''subtype'', JStr ''main''), (''workspace_id'', JNull),
                (''scope'', JStr ''session''), (''version'', JInt 1),
                (''data'',
                 JObj
                  [(''queue_item_id'', JStr ''q_xx''),
                   (''status'', JStr ''waiting''), (''position'', JInt 1),
                   (''text_len'', JInt 2), (''node_id'', JNull),
                   (''queue'',
                    JList
                     [JObj
                       [(''queue_item_id'', JStr ''q_xx''),
                        (''conversation_id'', JStr ''conv_''),
                        (''position'', JInt 1), (''revision'', JInt 1),
                        (''status'', JStr ''waiting''),
                        (''text'', JStr ''hi''),
                        (''target_turn_id'', JNull),
                        (''created_turn_id'', JNull),
                        (''created_node_id'', JNull),
                        (''operation_id'', JNull),
                        (''created_at'', JInt 1000000),
                        (''updated_at'', JInt 1000000),
                        (''image_count'', JInt 0)]])])],
             ob_created_at = 1000000, ob_published_at = None,
             ob_claimed_by = None, ob_claim_expires_at = None\<rparr>,
          \<lparr>ob_id = ''obx_xxxxxx'', ob_conversation_id = ''conv_'',
             ob_event_type = ''turn.status'', ob_scope = ''turn'',
             ob_version = Suc 0,
             ob_payload =
               [(''conversation_id'', JStr ''conv_''),
                (''session_key'', JStr ''k''), (''origin'', JStr ''webui''),
                (''subtype'', JStr ''main''), (''workspace_id'', JNull),
                (''scope'', JStr ''turn''), (''version'', JInt 1),
                (''turn_id'', JStr ''turn_xxxx''),
                (''data'', JObj [(''status'', JStr ''queued'')])],
             ob_created_at = 1000000, ob_published_at = None,
             ob_claimed_by = None, ob_claim_expires_at = None\<rparr>,
          \<lparr>ob_id = ''obx_xxxxxxx'', ob_conversation_id = ''conv_'',
             ob_event_type = ''queue.updated'', ob_scope = ''session'',
             ob_version = Suc (Suc 0),
             ob_payload =
               [(''conversation_id'', JStr ''conv_''),
                (''session_key'', JStr ''k''), (''origin'', JStr ''webui''),
                (''subtype'', JStr ''main''), (''workspace_id'', JNull),
                (''scope'', JStr ''session''), (''version'', JInt 2),
                (''turn_id'', JStr ''turn_xxxx''),
                (''data'',
                 JObj
                  [(''queue_item_id'', JStr ''q_xx''),
                   (''status'', JStr ''sent''), (''queue'', JList [])])],
             ob_created_at = 1000000, ob_published_at = None,
             ob_claimed_by = None, ob_claim_expires_at = None\<rparr>],
       receipts = [], now = 1000000, rnd = \<lambda>n. replicate n CHR ''x'',
       rix = Suc (Suc (Suc (Suc (Suc (Suc (Suc (Suc 0))))))),
       image_save = None, sha = \<lambda>d. concat (map fst d), sha_text = \<lambda>x. x,
       pub_ok = \<lambda>_ _. False, broadcasts = [], published_outbox = [],
       steering_pending = []\<rparr>"
  by (simp add: demo3_def demo2_eq demo_limits_def after_def run_prim run_queue run_turn Let_def run_sql)

lemma after_Inr: "(case r of Inl _ \<Rightarrow> False | Inr _ \<Rightarrow> True) \<Longrightarrow> \<exists>x. r = Inr (x, after r s)"
  by (auto simp: after_def split: sum.splits)

lemma reachable_demo0: "reachable cfg demo0"
  by (rule reachable.start) (simp add: initial_svc_def demo0_def)

lemma reachable_demo1: "reachable cfg demo1"
proof -
  have "\<exists>x. get_or_create_conversation ''k'' ''webui'' ''main'' None None None demo0 = Inr (x, demo1)"
    unfolding demo1_def
    by (rule after_Inr) (simp add: demo0_def run_prim run_queue Let_def run_sql)
  with reachable_demo0 show ?thesis by (blast intro: reachable.go_on step.open_conversation)
qed

lemma reachable_demo2: "reachable cfg demo2"
proof -
  have "\<exists>x. enqueue (\<lambda>_. None) ''conv_'' ''hi'' enqueue_defaults demo1 = Inr (x, demo2)"
    unfolding demo2_def
    by (rule after_Inr) (simp add: demo1_eq run_prim run_queue Let_def run_sql)
  with reachable_demo1 show ?thesis by (blast intro: reachable.go_on step.enqueue)
qed

text \<open>The dispatch of the demo, as the transaction the step relation has.\<close>

lemma demo3_txn:
  "\<exists>conv x. read_earlier conv demo2 \<and> cv_id conv = ''conv_'' \<and>
    send_next_txn demo_limits conv send_defaults demo2 = Inr (x, demo3)"
proof -
  obtain conv where c: "get_conversation ''conv_'' demo2 = Inr conv"
    by (simp add: demo2_eq run_prim run_sql)
  have "\<exists>x. send_next demo_limits ''conv_'' send_defaults demo2 = Inr (x, demo3)"
    unfolding demo3_def by (rule after_Inr)
      (simp add: demo2_eq demo_limits_def run_prim run_queue run_turn Let_def run_sql)
  moreover have "get_active_turn ''conv_'' demo2 = None"
    by (simp add: demo2_eq run_turn run_sql)
  ultimately have "\<exists>x. send_next_txn demo_limits conv send_defaults demo2 = Inr (x, demo3)"
    by (simp add: send_next_def c)
  moreover have "read_earlier conv demo2"
    using c get_conversation_id [OF c] by (simp add: read_earlier_def get_conversation_def)
  ultimately show ?thesis using get_conversation_id [OF c] by blast
qed

lemma reachable_demo3: "reachable demo_limits demo3"
proof -
  from demo3_txn obtain conv x where "read_earlier conv demo2" "cv_id conv = ''conv_''"
      "send_next_txn demo_limits conv send_defaults demo2 = Inr (x, demo3)" by blast
  moreover have "channel_node_ok (cv_id conv) (sa_channel_node_id send_defaults) demo2"
    by (simp add: channel_node_ok_def send_defaults_def)
  ultimately have "step demo_limits demo2 demo3" by (blast intro: step.send)
  with reachable_demo2 show ?thesis by (rule reachable.go_on)
qed

text \<open>The turn is completed with a final answer; then the process restarts.\<close>

definition demo4 :: svc where
  "demo4 = after (complete_turn ''conv_'' ''turn_xxxx'' T_DONE (Some ''ok'') None demo3) demo3"

definition demo5 :: svc where
  "demo5 = after (recover_after_restart demo4) demo4"

lemma demo4_turns: "turns demo4 =
  [\<lparr>t_id = ''turn_xxxx'', t_conversation_id = ''conv_'', t_status = T_DONE, t_version = 2,
    t_runtime_snapshot_id = None, t_started_at = 1000000, t_finished_at = Some 1000000,
    t_final_assistant_node_id = Some ''node_xxxxxxxx'', t_error_code = None,
    t_parent_conversation_id = None, t_parent_turn_id = None, t_rowid = 1\<rparr>]"
  by (simp add: demo4_def demo3_eq after_def run_prim run_turn run_done Let_def run_sql)

lemma demo4_rest: "map q_status (queue demo4) = [Q_SENT]" "map cv_id (sessions demo4) = [''conv_'']"
  by (simp_all add: demo4_def demo3_eq after_def run_prim run_turn run_done Let_def run_sql)

lemma reachable_demo4: "reachable demo_limits demo4"
proof -
  have "\<exists>x. complete_turn ''conv_'' ''turn_xxxx'' T_DONE (Some ''ok'') None demo3 = Inr (x, demo4)"
    unfolding demo4_def by (rule after_Inr)
      (simp add: demo3_eq run_prim run_turn run_done Let_def run_sql)
  with reachable_demo3 show ?thesis by (blast intro: reachable.go_on step.complete)
qed

lemma demo5_step: "step demo_limits demo4 demo5"
proof -
  have "\<exists>x. recover_after_restart demo4 = Inr (x, demo5)"
    unfolding demo5_def by (rule after_Inr)
      (simp add: recover_after_restart_def interrupt_active_turns_def reset_interrupted_queue_items_def
        Let_def demo4_turns turn_active_def)
  then show ?thesis by (blast intro: step.recover)
qed

lemma demo5_turns: "turns demo5 = turns demo4"
  by (simp add: demo5_def after_def recover_after_restart_def interrupt_active_turns_def
      reset_interrupted_queue_items_def Let_def demo4_turns turn_active_def write_defs)

text \<open>A second message is queued behind the first.\<close>

definition demo_two :: svc where
  "demo_two = after (enqueue (\<lambda>_. None) ''conv_'' ''yo'' enqueue_defaults demo2) demo2"

lemma demo_two_queue: "queue demo_two = queue demo2 @
  [\<lparr>q_id = ''q_xxxx'', q_conversation_id = ''conv_'', q_position = 2, q_revision = 1,
    q_status = Q_WAITING, q_text = ''yo'', q_target_turn_id = None, q_created_turn_id = None,
    q_created_node_id = None, q_operation_id = None, q_created_at = 1000000,
    q_updated_at = 1000000, q_images = None\<rparr>]"
  by (simp add: demo_two_def demo2_eq after_def run_prim run_queue Let_def run_sql)

lemma reachable_demo_two: "reachable cfg demo_two"
proof -
  have "\<exists>x. enqueue (\<lambda>_. None) ''conv_'' ''yo'' enqueue_defaults demo2 = Inr (x, demo_two)"
    unfolding demo_two_def
    by (rule after_Inr) (simp add: demo2_eq run_prim run_queue Let_def run_sql)
  with reachable_demo2 show ?thesis by (blast intro: reachable.go_on step.enqueue)
qed

lemma store_inv_demo: "store_inv demo2" "store_inv demo3" "store_inv demo4" "store_inv demo_two"
  using reachable_sys_inv reachable_demo2 reachable_demo3 reachable_demo4 reachable_demo_two
  by (auto simp: sys_inv_def)

lemma demo_two_active:
  "map q_id (list_active_queue ''conv_'' demo_two) = [''q_xx'', ''q_xxxx'']"
  "index_of ''q_xxxx'' (list_active_queue ''conv_'' demo_two) = Some 1"
  "length (list_active_queue ''conv_'' demo_two) = 2"
  by (simp_all add: demo_two_queue demo2_eq list_active_queue_def queue_active_def queue_open_def
      order_by_def)

end
