(* ===== verification/Contracts.thy ===== *)
theory Contracts
  imports Prelude
begin

text \<open>
  Interfaces that several components implement: rows with an optimistic lock, machines
  whose operations either raise and change nothing or keep an invariant, and life cycles
  with final states. The components interpret them on their own definitions.
\<close>

section \<open>Optimistic locking\<close>

text \<open>
  The contract of a compare-and-set update: it succeeds only on the expected revision, and
  a successful one moves the revision to the next number.
\<close>

locale optimistic_lock =
  fixes ok :: "'s \<Rightarrow> bool"
    and revision :: "'s \<Rightarrow> nat option"
    and cas :: "nat \<Rightarrow> 'u \<Rightarrow> 's \<Rightarrow> 'e + 's"
  assumes cas_ok: "ok s \<Longrightarrow> cas expected u s = Inr s' \<Longrightarrow> ok s'"
    and cas_expected: "ok s \<Longrightarrow> cas expected u s = Inr s' \<Longrightarrow> revision s = Some expected"
    and cas_next: "ok s \<Longrightarrow> cas expected u s = Inr s' \<Longrightarrow> revision s' = Some (Suc expected)"
begin

text \<open>Requests that run one after the other; a refused one leaves the state as it is.\<close>

fun run_all :: "(nat \<times> 'u) list \<Rightarrow> 's \<Rightarrow> nat list \<times> 's" where
  "run_all [] s = ([], s)"
| "run_all ((expected, u) # rs) s =
    (case cas expected u s of
      Inl _ \<Rightarrow> run_all rs s
    | Inr s' \<Rightarrow> (let (won, s'') = run_all rs s' in (expected # won, s'')))"

lemma second_fails:
  assumes "ok s" and "cas expected u s = Inr s'"
  shows "\<exists>e. cas expected u' s' = Inl e"
  using cas_next [OF assms] cas_expected [OF cas_ok [OF assms], of expected u'] by (cases "cas expected u' s'") auto

lemma run_all_from:
  "run_all rs s = (won, s') \<Longrightarrow> ok s \<Longrightarrow> revision s = Some r \<Longrightarrow>
   ok s' \<and> won = [r ..< r + length won] \<and> revision s' = Some (r + length won)"
proof (induction rs s arbitrary: won s' r rule: run_all.induct)
  case (2 expected u rs s)
  show ?case
  proof (cases "cas expected u s")
    case (Inl e)
    with 2 show ?thesis by simp
  next
    case (Inr t)
    with 2(3) obtain won' where r: "run_all rs t = (won', s')" "won = expected # won'"
      by (auto split: prod.splits)
    from cas_expected [OF 2(4) Inr] 2(5) have e: "expected = r" by simp
    from 2(2) [OF Inr r(1) cas_ok [OF 2(4) Inr] cas_next [OF 2(4) Inr]]
    have "ok s'" "won' = [Suc r ..< Suc r + length won']" "revision s' = Some (Suc r + length won')"
      by (simp_all add: e)
    moreover from this(2) have "expected # won' = [r ..< r + Suc (length won')]"
      by (metis e add_Suc add_Suc_right less_add_Suc1 upt_conv_Cons)
    ultimately show ?thesis by (simp add: r(2))
  qed
qed simp

text \<open>Of all requests made against one revision, at most one is carried out.\<close>

lemma no_lost_update:
  assumes "run_all rs s = (won, s')" and "ok s" and "revision s = Some r"
  shows "distinct won"
  using run_all_from [OF assms] distinct_upt by metis

end

section \<open>Machines with an invariant\<close>

text \<open>
  An operation that raises leaves the state as it was (the transaction is rolled back, or
  nothing was written yet). \<open>run\<close> executes a sequence of operations.
\<close>

locale guarded_machine =
  fixes exec :: "'op \<Rightarrow> 's \<Rightarrow> 'e + 's"
    and inv :: "'s \<Rightarrow> bool"
  assumes inv_exec: "exec op s = Inr s' \<Longrightarrow> inv s \<Longrightarrow> inv s'"
begin

fun run :: "'op list \<Rightarrow> 's \<Rightarrow> 's" where
  "run [] s = s"
| "run (op # ops) s = run ops (case exec op s of Inl _ \<Rightarrow> s | Inr s' \<Rightarrow> s')"

lemma run_append: "run (ops @ ops') s = run ops' (run ops s)"
  by (induction ops s rule: run.induct) auto

lemma inv_run: "inv s \<Longrightarrow> inv (run ops s)"
proof (induction ops s rule: run.induct)
  case (2 op ops s)
  then show ?case by (cases "exec op s") (auto intro: inv_exec)
qed simp

end

section \<open>Life cycles\<close>

text \<open>
  \<open>status_of k s\<close> is the status of the object \<open>k\<close>, None when there is none. A final
  status is kept by every operation that does not remove the object.
\<close>

locale lifecycle = guarded_machine exec inv
  for exec :: "'op \<Rightarrow> 's \<Rightarrow> 'e + 's" and inv :: "'s \<Rightarrow> bool" +
  fixes status_of :: "'k \<Rightarrow> 's \<Rightarrow> 'st option"
    and final :: "'st \<Rightarrow> bool"
    and removes :: "'op \<Rightarrow> 'k \<Rightarrow> bool"
  assumes final_kept: "exec op s = Inr s' \<Longrightarrow> inv s \<Longrightarrow> status_of k s = Some st \<Longrightarrow> final st \<Longrightarrow>
    \<not> removes op k \<Longrightarrow> status_of k s' = Some st"
begin

lemma final_run:
  "inv s \<Longrightarrow> status_of k s = Some st \<Longrightarrow> final st \<Longrightarrow> (\<And>op. op \<in> set ops \<Longrightarrow> \<not> removes op k) \<Longrightarrow>
   status_of k (run ops s) = Some st"
proof (induction ops s rule: run.induct)
  case (2 op ops s)
  then show ?case
    by (cases "exec op s") (auto dest: inv_exec final_kept)
qed simp

end

section \<open>Tokens for the example runs\<close>

text \<open>The random ids of the program are taken to be pairwise different, as these are.\<close>

definition demo_token :: "nat \<Rightarrow> string" where
  "demo_token n = replicate n (CHR ''x'')"

lemma inj_demo_token: "inj demo_token"
  by (rule injI) (metis demo_token_def length_replicate)

end
