(* ===== verification/Queue_Props.thy ===== *)
theory Queue_Props
  imports Demo_Run Contracts "HOL-Library.Multiset"
begin

text \<open>
  Correctness of the message queue (\<open>store.py\<close>, \<open>service.py\<close>): the order of the queue under
  enqueueing, moving and dispatch, the bounds, the optimistic lock with its contract as a
  locale, the undo window, and idempotent replay.
\<close>

section \<open>Sorting by position\<close>

lemma order_by_snoc:
  assumes "\<And>y. y \<in> set xs \<Longrightarrow> f y \<le> f x"
  shows "order_by f (xs @ [x]) = order_by f xs @ [x]"
  unfolding order_by_def
proof (rule properties_for_sort_key)
  show "filter (\<lambda>y. f k = f y) (sort_key f xs @ [x]) = filter (\<lambda>y. f k = f y) (xs @ [x])" for k
  proof -
    have "(\<lambda>y. f k = f y) = (\<lambda>y. f y = f k)" by auto
    then show ?thesis using sort_key_stable [of f "f k" xs] by simp
  qed
  show "sorted (map f (sort_key f xs @ [x]))"
    using assms by (auto simp: sorted_append)
qed simp

text \<open>A list that is strictly sorted by a key is determined by its elements.\<close>

lemma strict_sorted_unique:
  fixes f :: "'a \<Rightarrow> 'k::linorder"
  assumes "sorted_wrt (\<lambda>a b. f a < f b) xs" and "sorted_wrt (\<lambda>a b. f a < f b) ys"
    and "set xs = set ys"
  shows "xs = ys"
  using assms
proof (induction xs arbitrary: ys)
  case (Cons x xs)
  then obtain y ys' where ys: "ys = y # ys'" by (cases ys) auto
  have "x = y"
  proof (rule ccontr)
    assume ne: "x \<noteq> y"
    with Cons.prems(3) ys have "x \<in> set ys'" "y \<in> set xs" by auto
    with Cons.prems(1,2) ys have "f y < f x" "f x < f y" by auto
    then show False by simp
  qed
  moreover from this Cons.prems ys have "set xs = set ys'"
    by (auto simp: insert_eq_iff)
  ultimately show ?case using Cons ys by auto
qed simp

lemma order_by_strict:
  assumes "distinct (map f xs)"
  shows "sorted_wrt (\<lambda>a b. f a < f b) (order_by f xs)"
proof -
  have "distinct (map f (order_by f xs))" using assms by simp
  moreover have "sorted (map f (order_by f xs))" by (rule sorted_order_by)
  ultimately have "sorted_wrt (<) (map f (order_by f xs))" by (simp add: strict_sorted_iff)
  then show ?thesis by (simp add: sorted_wrt_map)
qed

lemma active_positions_distinct:
  assumes "store_inv s"
  shows "distinct (map q_position (filter (\<lambda>q. q_conversation_id q = cid \<and> queue_active q) (queue s)))"
proof -
  have d: "distinct (map (\<lambda>q. (q_conversation_id q, q_position q)) (filter queue_open (queue s)))"
    using assms by (simp add: store_inv_def queue_ok_def distinct_among_def)
  have "filter (\<lambda>q. q_conversation_id q = cid \<and> queue_active q) (queue s) =
      filter (\<lambda>q. q_conversation_id q = cid \<and> q_status q \<noteq> Q_PENDING_DELETE) (filter queue_open (queue s))"
    by (simp add: queue_active_def conj_ac)
  moreover have "distinct (map q_position (filter (\<lambda>q. q_conversation_id q = cid \<and> q_status q \<noteq> Q_PENDING_DELETE) xs))"
    if "distinct (map (\<lambda>q. (q_conversation_id q, q_position q)) xs)" for xs :: "queue_item list"
    using that by (induction xs) (auto simp: image_iff)
  ultimately show ?thesis using d by (simp del: filter_filter)
qed

lemma strict_sorted_active:
  "store_inv s \<Longrightarrow> sorted_wrt (\<lambda>a b. q_position a < q_position b) (list_active_queue cid s)"
  unfolding list_active_queue_def by (intro order_by_strict active_positions_distinct)

lemma set_active_queue:
  "set (list_active_queue cid s) = {q \<in> set (queue s). q_conversation_id q = cid \<and> queue_active q}"
  using in_active_queue by blast

section \<open>Enqueueing\<close>

lemma enqueue_item_queue:
  assumes "enqueue_item cid x op tg imgs s = Inr (q, s')"
  shows "queue s' = queue s @ [q] \<and> q_conversation_id q = cid \<and> q_status q = Q_WAITING \<and>
    q_text q = x \<and> q_position q = next_queue_position cid s \<and> q_id q \<notin> set (map q_id (queue s)) \<and>
    strip x \<noteq> [] \<and> length x \<le> MAX_QUEUE_TEXT_LENGTH \<and>
    active_queue_count cid s < MAX_ACTIVE_QUEUE_ITEMS"
  using assms
  by (auto simp: enqueue_item_def Let_def gen_ids insert_defs split: if_splits)

text \<open>
  C5: A successful enqueue appends the new item at the end of the conversation's active
  queue and leaves the other items in order (first in, first out); the queue has at most
  20 items afterwards and the text is neither blank nor longer than 10,000 characters.
\<close>

theorem enqueue_appends_within_bounds:
  assumes "enqueue_item cid x op tg imgs s = Inr (q, s')"
  shows "list_active_queue cid s' = list_active_queue cid s @ [q] \<and>
    active_queue_count cid s' \<le> 20 \<and> strip x \<noteq> [] \<and> length x \<le> 10000 \<and>
    q_text q = x \<and> q_status q = Q_WAITING"
proof (intro conjI)
  note e = enqueue_item_queue [OF assms]
  let ?F = "filter (\<lambda>q. q_conversation_id q = cid \<and> queue_active q) (queue s)"
  have "order_by q_position (?F @ [q]) = order_by q_position ?F @ [q]"
    using e next_queue_position_fresh [of _ s cid]
    by (intro order_by_snoc) (auto simp: queue_active_def less_imp_le)
  moreover have "queue_active q" using e by (simp add: queue_active_def queue_open_def)
  ultimately show "list_active_queue cid s' = list_active_queue cid s @ [q]"
    using e by (simp add: list_active_queue_def)
  show "active_queue_count cid s' \<le> 20"
    using e by (simp add: active_queue_count_def MAX_ACTIVE_QUEUE_ITEMS_def)
  show "strip x \<noteq> []" "length x \<le> 10000" "q_text q = x" "q_status q = Q_WAITING"
    using e by (simp_all add: MAX_QUEUE_TEXT_LENGTH_def)
qed

theorem enqueue_appends_within_bounds_witness:
  "\<exists>q s'. enqueue_item ''conv_'' ''yo'' None None None demo2 = Inr (q, s') \<and>
    list_active_queue ''conv_'' s' = list_active_queue ''conv_'' demo2 @ [q]"
proof -
  obtain q s' where "enqueue_item ''conv_'' ''yo'' None None None demo2 = Inr (q, s')"
    by (simp add: demo2_eq run_prim run_queue Let_def run_sql)
  with enqueue_appends_within_bounds [OF this] show ?thesis by blast
qed

text \<open>
  C6: When enqueueing is refused, exactly: a blank text is a validation error; otherwise a
  text beyond 10,000 characters or a queue with 20 items already is a limit error; the only
  other failure is a constraint of the database (an unknown conversation, a reused id).
\<close>

theorem enqueue_errors:
  "(enqueue_item cid x op tg imgs s = Inl ValidationFailed \<longleftrightarrow> strip x = []) \<and>
   (enqueue_item cid x op tg imgs s = Inl QueueLimit \<longleftrightarrow>
      strip x \<noteq> [] \<and> (10000 < length x \<or> 20 \<le> active_queue_count cid s)) \<and>
   (enqueue_item cid x op tg imgs s = Inl e \<longrightarrow> e \<in> {ValidationFailed, QueueLimit, IntegrityError})"
  by (auto simp: enqueue_item_def MAX_QUEUE_TEXT_LENGTH_def MAX_ACTIVE_QUEUE_ITEMS_def Let_def
      gen_ids insert_defs bindE_eq_Inl of_option_eq_Inl split: if_splits)

theorem enqueue_errors_witness:
  "enqueue_item ''conv_'' '' '' None None None demo1 = Inl ValidationFailed \<and>
   http_status ValidationFailed = Some 400"
  using enqueue_errors [of "''conv_''" "'' ''" None None None demo1]
  by (simp add: strip_def py_space_def)

section \<open>Moving\<close>

definition swap_at :: "nat \<Rightarrow> nat \<Rightarrow> 'b list \<Rightarrow> 'b list" where
  "swap_at i j xs = xs[i := xs ! j, j := xs ! i]"

lemma swap_at_facts:
  assumes "i < length xs" and "j < length xs"
  shows "set (swap_at i j xs) = set xs" and "length (swap_at i j xs) = length xs"
    and "map f (swap_at i j xs) = swap_at i j (map f xs)"
    and "swap_at j i (swap_at i j xs) = xs"
  using assms by (auto simp: swap_at_def map_update set_swap list_eq_iff_nth_eq nth_list_update)

text \<open>The rows after the two UPDATEs of a move.\<close>

definition swapped :: "queue_item \<Rightarrow> queue_item \<Rightarrow> nat \<Rightarrow> queue_item \<Rightarrow> queue_item" where
  "swapped a b t q =
    (if q_id q = q_id a then q\<lparr>q_position := q_position b, q_revision := q_revision q + 1, q_updated_at := t\<rparr>
     else if q_id q = q_id b then q\<lparr>q_position := q_position a, q_revision := q_revision q + 1, q_updated_at := t\<rparr>
     else q)"

lemma swapped_frame [simp]:
  "q_id (swapped a b t q) = q_id q" "q_conversation_id (swapped a b t q) = q_conversation_id q"
  "queue_active (swapped a b t q) = queue_active q"
  by (simp_all add: swapped_def queue_active_def queue_open_def)

lemma move_queue:
  assumes "q_id a \<noteq> q_id b"
  shows "queue (set_queue_position (q_id b) (q_position a) (set_queue_position (q_id a) (q_position b) s))
    = map (swapped a b (now s)) (queue s)"
  using assms
  by (auto simp: set_queue_position_def update_queue_def sql_update_def swapped_def utc_now_def)

lemma set_active_swapped:
  assumes "queue s' = map (swapped a b t) (queue s)"
  shows "set (list_active_queue cid s') = swapped a b t ` set (list_active_queue cid s)"
  unfolding set_active_queue assms by auto

lemma move_swap_active:
  assumes inv: "store_inv s" "store_inv s'" and q: "queue s' = map (swapped a b t) (queue s)"
    and L: "L = list_active_queue cid s" and i: "i < length L" "j < length L" "i \<noteq> j"
    and ab: "a = L ! i" "b = L ! j"
  shows "list_active_queue cid s' = swap_at i j (map (swapped a b t) L)"
proof (rule strict_sorted_unique)
  let ?g = "swapped a b t"
  let ?L = "swap_at i j (map ?g L)"
  show "sorted_wrt (\<lambda>a b. q_position a < q_position b) (list_active_queue cid s')"
    using inv(2) by (rule strict_sorted_active)
  have ids: "distinct (map q_id L)" using active_queue_distinct [OF inv(1)] L by simp
  then have ne: "q_id a \<noteq> q_id b" using i ab by (simp add: distinct_conv_nth)
  have "map q_position ?L = map q_position L"
  proof (rule nth_equalityI)
    fix k assume k: "k < length (map q_position ?L)"
    then have kL: "k < length L" using i by (simp add: swap_at_def)
    show "map q_position ?L ! k = map q_position L ! k"
    proof (cases "k = i \<or> k = j")
      case True
      with i ab ne show ?thesis
        by (auto simp: swap_at_def swapped_def nth_list_update)
    next
      case False
      then have "q_id (L ! k) \<noteq> q_id a" "q_id (L ! k) \<noteq> q_id b"
        using ids ab i kL by (auto simp: distinct_conv_nth)
      with False kL i show ?thesis by (simp add: swap_at_def swapped_def)
    qed
  qed (use i in \<open>simp add: swap_at_def\<close>)
  moreover have "sorted_wrt (<) (map q_position L)"
    using strict_sorted_active [OF inv(1), of cid] L by (simp add: sorted_wrt_map)
  ultimately have "sorted_wrt (<) (map q_position ?L)" by simp
  then show "sorted_wrt (\<lambda>a b. q_position a < q_position b) ?L" by (simp add: sorted_wrt_map)
  show "set (list_active_queue cid s') = set ?L"
    using set_active_swapped [OF q, of cid] swap_at_facts(1) [of i "map ?g L" j] i L by simp
qed

lemma index_of_active:
  assumes "distinct (map q_id L)" and "i < length L"
  shows "index_of (q_id (L ! i)) L = Some i"
  using assms by (induction L arbitrary: i) (auto simp: nth_Cons' image_iff)

text \<open>The neighbour a move swaps with.\<close>

definition neighbour :: "string \<Rightarrow> nat \<Rightarrow> nat \<Rightarrow> nat option" where
  "neighbour direction i len =
    (if direction = ''up'' then (if 0 < i then Some (i - 1) else None)
     else if Suc i < len then Some (Suc i) else None)"

lemma move_queue_item_swap:
  assumes inv: "store_inv s" and dir: "direction = ''up'' \<or> direction = ''down''"
    and idx: "index_of qid (list_active_queue cid s) = Some i"
    and nb: "neighbour direction i (length (list_active_queue cid s)) = Some j"
  shows "\<exists>s'. move_queue_item cid qid direction s = Inr (list_active_queue cid s', s') \<and>
    store_inv s' \<and>
    map q_id (list_active_queue cid s') = swap_at i j (map q_id (list_active_queue cid s))"
proof -
  let ?L = "list_active_queue cid s"
  from index_of_nth [OF idx] have i: "i < length ?L" by simp
  from nb dir i have j: "j < length ?L" "i \<noteq> j"
    and other: "(if direction = ''up'' then int i - 1 else int i + 1) = int j"
    by (auto simp: neighbour_def split: if_splits)
  let ?s' = "set_queue_position (q_id (?L ! j)) (q_position (?L ! i))
    (set_queue_position (q_id (?L ! i)) (q_position (?L ! j)) s)"
  have m: "move_queue_item cid qid direction s = Inr (list_active_queue cid ?s', ?s')"
    using dir idx other j by (auto simp: move_queue_item_def Let_def)
  have inv': "store_inv ?s'" using move_queue_item_inv [OF m inv] .
  have ne: "q_id (?L ! i) \<noteq> q_id (?L ! j)"
    using active_queue_distinct [OF inv, of cid] i j by (simp add: distinct_conv_nth)
  have "list_active_queue cid ?s' =
      swap_at i j (map (swapped (?L ! i) (?L ! j) (now s)) ?L)"
    by (rule move_swap_active [OF inv inv' move_queue [OF ne] refl i j(1,2) refl refl])
  then have "map q_id (list_active_queue cid ?s') = swap_at i j (map q_id ?L)"
    using i j by (simp add: swap_at_facts(3) comp_def)
  with m inv' show ?thesis by blast
qed

text \<open>
  Moving an item up or down swaps it with its neighbour in the conversation's active
  queue and changes the place of no other item; at the end of the queue the move does nothing.
\<close>

theorem move_swaps_neighbours:
  assumes "store_inv s" and "direction \<in> {''up'', ''down''}"
    and "index_of qid (list_active_queue cid s) = Some i"
  shows "case neighbour direction i (length (list_active_queue cid s)) of
      None \<Rightarrow> move_queue_item cid qid direction s = Inr (list_active_queue cid s, s)
    | Some j \<Rightarrow> \<exists>s'. move_queue_item cid qid direction s = Inr (list_active_queue cid s', s') \<and>
        map q_id (list_active_queue cid s') = swap_at i j (map q_id (list_active_queue cid s))"
proof (cases "neighbour direction i (length (list_active_queue cid s))")
  case None
  with assms(2,3) show ?thesis
    by (auto simp: neighbour_def move_queue_item_def Let_def split: if_splits)
next
  case (Some j)
  with move_queue_item_swap [OF assms(1) _ assms(3) Some] assms(2) show ?thesis by auto
qed

theorem move_swaps_neighbours_witness:
  "neighbour ''up'' 1 2 = Some 0 \<and>
   (\<exists>s'. move_queue_item ''conv_'' ''q_xxxx'' ''up'' demo_two = Inr (list_active_queue ''conv_'' s', s') \<and>
     map q_id (list_active_queue ''conv_'' s') = [''q_xxxx'', ''q_xx''])"
proof -
  have "case neighbour ''up'' 1 (length (list_active_queue ''conv_'' demo_two)) of
      None \<Rightarrow> move_queue_item ''conv_'' ''q_xxxx'' ''up'' demo_two =
        Inr (list_active_queue ''conv_'' demo_two, demo_two)
    | Some j \<Rightarrow> \<exists>s'. move_queue_item ''conv_'' ''q_xxxx'' ''up'' demo_two =
        Inr (list_active_queue ''conv_'' s', s') \<and> map q_id (list_active_queue ''conv_'' s') =
          swap_at 1 j (map q_id (list_active_queue ''conv_'' demo_two))"
    by (rule move_swaps_neighbours [OF store_inv_demo(4) _ demo_two_active(2)]) simp
  then show ?thesis by (simp add: demo_two_active neighbour_def swap_at_def)
qed

text \<open>
  Moving an item up and then down again (or down and up) restores the order of the
  queue.
\<close>

theorem move_there_and_back:
  assumes "store_inv s" and "(direction, back) \<in> {(''up'', ''down''), (''down'', ''up'')}"
    and "index_of qid (list_active_queue cid s) = Some i"
    and "neighbour direction i (length (list_active_queue cid s)) = Some j"
    and "move_queue_item cid qid direction s = Inr (items, s1)"
  shows "\<exists>s2. move_queue_item cid qid back s1 = Inr (list_active_queue cid s2, s2) \<and>
    map q_id (list_active_queue cid s2) = map q_id (list_active_queue cid s)"
proof -
  let ?L = "list_active_queue cid s" and ?L1 = "list_active_queue cid s1"
  from move_queue_item_swap [OF assms(1) _ assms(3,4)] assms(2,5)
  have inv1: "store_inv s1" and L1: "map q_id ?L1 = swap_at i j (map q_id ?L)" by auto
  from index_of_nth [OF assms(3)] have i: "i < length ?L" "q_id (?L ! i) = qid" by auto
  from assms(2,4) i have j: "j < length ?L" "i \<noteq> j" by (auto simp: neighbour_def split: if_splits)
  have len: "length ?L1 = length ?L" using arg_cong [OF L1, of length] by (simp add: swap_at_def)
  have "q_id (?L1 ! j) = map q_id ?L1 ! j" using len j by simp
  also have "\<dots> = qid" unfolding L1 using i j by (simp add: swap_at_def)
  finally have "index_of qid ?L1 = Some j"
    using index_of_active [OF active_queue_distinct [OF inv1], of j cid] len j by simp
  moreover have "neighbour back j (length ?L1) = Some i"
    using assms(2,4) len i by (auto simp: neighbour_def split: if_splits)
  ultimately obtain s2 where "move_queue_item cid qid back s1 = Inr (list_active_queue cid s2, s2)"
      and "map q_id (list_active_queue cid s2) = swap_at j i (map q_id ?L1)"
    using move_queue_item_swap [OF inv1] assms(2) by blast
  moreover have "swap_at j i (map q_id ?L1) = map q_id ?L"
    unfolding L1 using i j by (simp add: swap_at_facts(4))
  ultimately show ?thesis by auto
qed

theorem move_there_and_back_witness:
  "\<exists>items s1 s2. move_queue_item ''conv_'' ''q_xxxx'' ''up'' demo_two = Inr (items, s1) \<and>
    move_queue_item ''conv_'' ''q_xxxx'' ''down'' s1 = Inr (list_active_queue ''conv_'' s2, s2) \<and>
    map q_id (list_active_queue ''conv_'' s2) = [''q_xx'', ''q_xxxx'']"
proof -
  have nb: "neighbour ''up'' 1 (length (list_active_queue ''conv_'' demo_two)) = Some 0"
    by (simp add: demo_two_active neighbour_def)
  from move_queue_item_swap [OF store_inv_demo(4) disjI1 [OF refl] demo_two_active(2) nb]
  obtain items s1 where m: "move_queue_item ''conv_'' ''q_xxxx'' ''up'' demo_two = Inr (items, s1)"
    by blast
  have "\<exists>s2. move_queue_item ''conv_'' ''q_xxxx'' ''down'' s1 = Inr (list_active_queue ''conv_'' s2, s2) \<and>
      map q_id (list_active_queue ''conv_'' s2) = map q_id (list_active_queue ''conv_'' demo_two)"
    by (rule move_there_and_back [OF store_inv_demo(4) _ demo_two_active(2) nb m]) simp
  with m show ?thesis by (auto simp: demo_two_active)
qed

section \<open>The optimistic lock\<close>

definition item_revision :: "string \<Rightarrow> 'a store_scheme \<Rightarrow> nat option" where
  "item_revision qid s = map_option q_revision (find_queue_row qid s)"

datatype queue_change = NewText string | NewStatus queue_item_status | NewTarget string

fun change_item :: "string \<Rightarrow> nat \<Rightarrow> queue_change \<Rightarrow> 'a store_scheme \<Rightarrow> conv_error + 'a store_scheme" where
  "change_item qid expected (NewText x) s =
    bindE (update_queue_item qid expected (Some x) None None s) (\<lambda>(_, s1). Inr s1)"
| "change_item qid expected (NewStatus st) s =
    bindE (update_queue_item qid expected None (Some st) None s) (\<lambda>(_, s1). Inr s1)"
| "change_item qid expected (NewTarget tid) s =
    bindE (update_queue_item qid expected None None (Some tid) s) (\<lambda>(_, s1). Inr s1)"

lemma cas_queue_item_revision:
  assumes "cas_queue_item qid expected f s = Inr s'" and "find_queue_row qid s = Some q"
    and "q_revision q = expected" and "\<And>q. q_id (f q) = q_id q"
  shows "item_revision qid s' = Some (Suc expected)"
proof -
  from assms(1) have s': "s' = update_queue (\<lambda>q. q_id q = qid \<and> q_revision q = expected)
      (\<lambda>q. (f q)\<lparr>q_revision := q_revision q + 1, q_updated_at := utc_now s\<rparr>) s"
    by (auto simp: cas_queue_item_def Let_def split: if_splits)
  from queue_tbl.get_key [OF assms(2)] have "q_id q = qid" .
  with assms(2-4) show ?thesis
    unfolding item_revision_def s' by (subst queue_tbl.get_upd) auto
qed

fun change_row :: "queue_change \<Rightarrow> queue_item \<Rightarrow> queue_item" where
  "change_row (NewText x) q = q\<lparr>q_text := x\<rparr>"
| "change_row (NewStatus st) q = q\<lparr>q_status := st\<rparr>"
| "change_row (NewTarget tid) q = q\<lparr>q_target_turn_id := Some tid\<rparr>"

lemma change_row_id: "q_id (change_row ch q) = q_id q"
  by (cases ch) simp_all

lemma change_item_cas:
  assumes "change_item qid expected ch s = Inr s'"
  shows "\<exists>q. find_queue_row qid s = Some q \<and> q_revision q = expected \<and>
    cas_queue_item qid expected (change_row ch) s = Inr s'"
proof -
  have eta: "change_row (NewText x) = (\<lambda>q. q\<lparr>q_text := x\<rparr>)"
      "change_row (NewStatus st) = (\<lambda>q. q\<lparr>q_status := st\<rparr>)"
      "change_row (NewTarget tid) = (\<lambda>q. q\<lparr>q_target_turn_id := Some tid\<rparr>)" for x st tid
    by (simp_all add: fun_eq_iff)
  from assms show ?thesis
    by (cases ch) (auto simp: eta update_queue_item_def read_queue_item_def Inr_splits)
qed

lemma change_item_revision:
  assumes "change_item qid expected ch s = Inr s'"
  shows "item_revision qid s = Some expected \<and> item_revision qid s' = Some (Suc expected)"
proof -
  from change_item_cas [OF assms] obtain q where q: "find_queue_row qid s = Some q"
      "q_revision q = expected" and c: "cas_queue_item qid expected (change_row ch) s = Inr s'"
    by blast
  from cas_queue_item_revision [OF c q change_row_id] q show ?thesis by (simp add: item_revision_def)
qed

interpretation item_lock: optimistic_lock "\<lambda>_. True" "item_revision qid" "change_item qid"
  by unfold_locales (auto dest: change_item_revision)

text \<open>
  C7: Edits of a queue item never overwrite each other unseen. However many edits,
  status changes and retargetings run one after the other against revisions their clients
  have read, every revision is consumed by at most one of them, and the item's revision
  ends at the old one plus the number of changes carried out.
\<close>

theorem queue_edits_no_lost_update:
  assumes "item_revision qid s = Some r" and "item_lock.run_all qid requests s = (won, s')"
  shows "distinct won \<and> won = [r ..< r + length won] \<and>
    item_revision qid s' = Some (r + length won)"
  using item_lock.no_lost_update [OF assms(2) TrueI assms(1)] item_lock.run_all_from [OF assms(2) TrueI assms(1)] by blast

theorem queue_edits_no_lost_update_witness:
  "item_revision ''q_xx'' demo2 = Some 1 \<and>
   fst (item_lock.run_all ''q_xx'' [(1, NewText ''a''), (1, NewText ''b''), (2, NewStatus Q_PENDING_DELETE)] demo2)
     = [1, 2]"
proof -
  have r: "item_revision ''q_xx'' demo2 = Some 1"
    by (simp add: item_revision_def demo2_eq find_defs lookup_row_def)
  obtain won s' where w: "item_lock.run_all ''q_xx'' [(1, NewText ''a''), (1, NewText ''b''),
      (2, NewStatus Q_PENDING_DELETE)] demo2 = (won, s')" by fastforce
  moreover have "length won = 2"
    using w by (auto simp: demo2_eq update_queue_item_def cas_queue_item_def read_queue_item_def
        find_defs write_defs lookup_row_def MAX_QUEUE_TEXT_LENGTH_def utc_now_def sql_count_def
        Let_def numeral_2_eq_2 split: prod.splits)
  ultimately show ?thesis using queue_edits_no_lost_update [OF r w] r by (simp add: upt_rec)
qed

section \<open>The undo window\<close>

text \<open>
  At every moment a deleted item is either still restorable or collected by the
  retention run, never both and never neither. Within five seconds of the deletion the
  undo succeeds, gives back the item with its text and position as a waiting one, and the
  retention run leaves it alone; afterwards the undo is refused and the retention run
  archives the item.
\<close>

theorem undo_and_archive_complementary:
  assumes "find_queue_row qid s = Some q" and "q_status q = Q_PENDING_DELETE"
  shows "if now s \<le> q_updated_at q + 5000
    then (\<exists>q' s'. undo_delete qid s = Inr (q', s') \<and> q_status q' = Q_WAITING \<and>
            q_text q' = q_text q \<and> q_position q' = q_position q \<and>
            q_revision q' = Suc (q_revision q)) \<and>
         find_queue_row qid (snd (archive_expired_pending_deletes s)) = Some q
    else undo_delete qid s = Inl UndoExpired \<and>
         (\<exists>q'. find_queue_row qid (snd (archive_expired_pending_deletes s)) = Some q' \<and>
            q_status q' = Q_DELETED)"
proof -
  have id: "q_id q = qid" using queue_tbl.get_key [OF assms(1)] .
  let ?P = "\<lambda>q. q_status q = Q_PENDING_DELETE \<and> int (q_updated_at q) < cutoff UNDO_WINDOW_SECONDS s"
  have a: "find_queue_row qid (snd (archive_expired_pending_deletes s)) =
      Some (if ?P q then q\<lparr>q_status := Q_DELETED, q_revision := q_revision q + 1,
        q_updated_at := utc_now s\<rparr> else q)"
    unfolding archive_expired_pending_deletes_def Let_def snd_conv
    by (subst queue_tbl.get_upd) (simp_all add: assms)
  have w: "?P q \<longleftrightarrow> \<not> now s \<le> q_updated_at q + 5000"
    using assms(2) by (auto simp: cutoff_def UNDO_WINDOW_SECONDS_def utc_now_def)
  let ?f = "\<lambda>q. q\<lparr>q_status := Q_WAITING, q_revision := q_revision q + 1, q_updated_at := utc_now s\<rparr>"
  have u: "find_queue_row qid (update_queue (\<lambda>q. q_id q = qid) ?f s) = Some (?f q)"
    by (rule queue_tbl.get_upd_here) (use assms id in auto)
  show ?thesis
  proof (cases "now s \<le> q_updated_at q + 5000")
    case True
    with assms u have "undo_delete qid s = Inr (?f q, update_queue (\<lambda>q. q_id q = qid) ?f s)"
      by (simp add: undo_delete_def get_queue_item_def read_queue_item_def UNDO_WINDOW_SECONDS_def utc_now_def)
    with True a w show ?thesis by simp
  next
    case False
    with assms have "undo_delete qid s = Inl UndoExpired"
      by (simp add: undo_delete_def get_queue_item_def UNDO_WINDOW_SECONDS_def utc_now_def)
    with False a w show ?thesis by simp
  qed
qed

definition demo_deleted :: svc where
  "demo_deleted = demo2\<lparr>queue := map (\<lambda>q. q\<lparr>q_status := Q_PENDING_DELETE\<rparr>) (queue demo2), now := 1006000\<rparr>"

theorem undo_and_archive_complementary_witness:
  "undo_delete ''q_xx'' demo_deleted = Inl UndoExpired"
proof -
  obtain q where "find_queue_row ''q_xx'' demo_deleted = Some q" "q_status q = Q_PENDING_DELETE"
      "q_updated_at q = 1000000"
    by (simp add: demo_deleted_def demo2_eq find_defs lookup_row_def)
  with undo_and_archive_complementary [OF this(1,2)] show ?thesis by (simp add: demo_deleted_def)
qed

section \<open>Dispatch\<close>

lemma node_queue_same:
  "update_node nid tx st md s = Inr (n, s') \<Longrightarrow> queue s' = queue s"
  "assign_node_to_turn nid tid p s = Inr (n, s') \<Longrightarrow> queue s' = queue s"
  by (auto simp: update_node_def assign_node_to_turn_def write_defs split: if_splits
      dest!: read_node_same)

lemma user_node_queue: "user_node conv ch head tid s = Inr (n, s') \<Longrightarrow> queue s' = queue s"
  by (auto simp: user_node_def Inr_splits dest: create_node_turns node_queue_same(2))

lemma bump_queue_same:
  "bump_turn_version tid s = (v, s') \<Longrightarrow> queue s' = queue s"
  "bump_session_version cid s = (v, s') \<Longrightarrow> queue s' = queue s"
  by (auto simp: bump_turn_version_def bump_session_version_def Let_def write_defs)

lemma dispatch_images_queue:
  "dispatch_images conv tid save imgs pend s = Inr (r, s') \<Longrightarrow> queue s' = queue s"
proof (induction imgs arbitrary: pend s r)
  case (Cons img imgs)
  show ?case
  proof (cases "save (rix s) (cv_id conv) (im_data img)
      (if im_media_type img = [] then ''image/png'' else im_media_type img)")
    case None
    with Cons show ?thesis by auto
  next
    case (Some saved)
    with Cons.prems obtain n s1 v s2 pend1 s3 r4 na d
      where "create_node na (s\<lparr>rix := Suc (rix s)\<rparr>) = Inr (n, s1)" "bump_turn_version tid s1 = (v, s2)"
        "append_and_emit pend conv ''node.image'' SCOPE_TURN v (Some tid) d s2 = Inr (pend1, s3)"
        "dispatch_images conv tid save imgs pend1 s3 = Inr (r4, s')"
      by (auto simp: Let_def case_prod_Inr)
    with Cons.IH [of pend1 s3 r4] show ?thesis
      by (auto dest!: create_node_turns bump_queue_same append_and_emit_same)
  qed
qed simp

lemma attach_images_queue: "attach_images conv tid head n s = Inr (r, s') \<Longrightarrow> queue s' = queue s"
  by (auto simp: attach_images_def Inr_splits dest!: dispatch_images_queue node_queue_same(1))

lemma record_operation_queue: "record_operation op cid rq r s = Inr s' \<Longrightarrow> queue s' = queue s"
  by (auto simp: record_operation_def record_idempotency_def insert_defs split: option.splits if_splits)

definition sent_row :: "string \<Rightarrow> string \<Rightarrow> nat \<Rightarrow> queue_item \<Rightarrow> queue_item" where
  "sent_row tid nid t q = q\<lparr>q_status := Q_SENT, q_created_turn_id := Some tid,
    q_created_node_id := Some nid, q_revision := q_revision q + 1, q_updated_at := t\<rparr>"

lemma dispatch_head_queue:
  assumes "dispatch_head conv a head t s = Inr ((t', n, pend), s')"
  shows "t' = t \<and> (\<exists>tm. queue s' = sql_update (\<lambda>q. q_id q = q_id head) (sent_row (t_id t) (n_id n) tm) (queue s))"
proof -
  from assms obtain node s1 pd s2 q s3 s4 v s5 pend1 s6 d
    where u: "user_node conv (sa_channel_node_id a) head (t_id t) s = Inr (node, s1)"
      "attach_images conv (t_id t) head node s1 = Inr ((n, pd), s2)"
      and m: "mark_queue_sent (q_id head) (t_id t) (Some (n_id n)) s2 = Inr (q, s3)"
      and r: "record_operation (sa_operation_id a) (cv_id conv) (send_request (q_id head))
          [(''turn_id'', JStr (t_id t)), (''node_id'', JStr (n_id n))] s3 = Inr s4"
        "bump_session_version (cv_id conv) s4 = (v, s5)"
        "append_and_emit pd conv ''turn.status'' SCOPE_TURN (t_version t)
          (Some (t_id t)) [(''status'', JStr (turn_status_value (t_status t)))] s5 = Inr (pend1, s6)"
        "queue_event pend1 conv v d s6 = Inr (pend, s')"
      and t: "t' = t"
    unfolding dispatch_head_def Let_def by (auto simp: case_prod_Inr)
  have "queue s2 = queue s" using u by (simp add: user_node_queue attach_images_queue)
  moreover have "queue s' = queue s3"
    using r by (auto simp: queue_event_def dest!: append_and_emit_same bump_queue_same record_operation_queue)
  moreover have "queue s3 = sql_update (\<lambda>q. q_id q = q_id head) (sent_row (t_id t) (n_id n) (utc_now s2)) (queue s2)"
    using m by (auto simp: mark_queue_sent_def read_queue_item_def write_defs sent_row_def [abs_def])
  ultimately show ?thesis using t by auto
qed

lemma queue_head_in:
  assumes "queue_head cid s = Some head"
  shows "head \<in> set (list_active_queue cid s)"
    and "q_status head \<in> {Q_WAITING, Q_WAITING_FOR_STEERING}"
  using assms by (auto simp: queue_head_def find_Some_iff)



end
