(* ===== verification/Request_Props.thy ===== *)
theory Request_Props
  imports Queue_Props
begin

text \<open>
  Repeated and late requests: idempotent replay of operations, deduplication of channel
  messages, and the requests that the operations accept although their moment has passed.
\<close>

section \<open>Replay\<close>

text \<open>\<open>store.more\<close> is the part of the service state beside the database.\<close>

lemma sha_more: "store.more s' = store.more s \<Longrightarrow> sha s' = sha s"
  by (cases s; cases s') simp

lemma enqueue_item_rest:
  "enqueue_item cid x op tg imgs s = Inr (q, s') \<Longrightarrow>
   idems s' = idems s \<and> store.more s' = store.more s \<and> sessions s' = sessions s"
  by (auto simp: enqueue_item_def Let_def gen_ids insert_defs split: if_splits)

lemma create_node_rest:
  "create_node a s = Inr (n, s') \<Longrightarrow>
   idems s' = idems s \<and> store.more s' = store.more s \<and> sessions s' = sessions s"
  by (auto simp: create_node_def Let_def gen_ids insert_defs split: if_splits option.splits)

lemma append_and_emit_rest:
  "append_and_emit pend conv ty sc v tid d s = Inr (p, s') \<Longrightarrow>
   idems s' = idems s \<and> store.more s' = store.more s \<and> sessions s' = sessions s"
  by (auto simp: append_and_emit_def append_outbox_def Let_def gen_ids insert_defs
      split: if_splits prod.splits)

lemma bump_session_rest:
  assumes "bump_session_version cid s = (v, s')"
  shows "idems s' = idems s \<and> store.more s' = store.more s \<and>
    (find_session c s' = None \<longleftrightarrow> find_session c s = None)"
proof -
  have "\<exists>f. (\<forall>r. cv_id (f r) = cv_id r) \<and> s' = update_sessions (\<lambda>c. cv_id c = cid) f s"
    using assms by (intro exI [of _ "\<lambda>c. c\<lparr>cv_session_version := cv_session_version c + 1,
        cv_updated_at := utc_now s\<rparr>"]) (auto simp: bump_session_version_def Let_def)
  then obtain f where "\<And>r. cv_id (f r) = cv_id r" "s' = update_sessions (\<lambda>c. cv_id c = cid) f s"
    by blast
  then show ?thesis by (simp add: sessions_tbl.get_upd_None) (simp add: write_defs)
qed

lemma record_operation_row:
  assumes "record_operation (Some op) cid rq r s = Inr s'" and "op \<noteq> []"
  shows "idems s' = idems s @ [\<lparr>ir_operation_id = op, ir_conversation_id = cid,
      ir_request_hash = sha s rq, ir_result = Some r, ir_created_at = utc_now s\<rparr>] \<and>
    store.more s' = store.more s \<and> sessions s' = sessions s \<and>
    lookup_row ir_operation_id op (idems s) = None"
  using assms
  by (auto simp: record_operation_def record_idempotency_def insert_defs lookup_row_None
      split: if_splits)

lemma emit_all_rest [simp]: "find_queue_row q (emit_all pend s) = find_queue_row q s"
  "find_session c (emit_all pend s) = find_session c s"
  by (simp_all add: find_defs)

text \<open>What an enqueue with an operation id leaves behind.\<close>

lemma enqueue_recorded:
  assumes e: "enqueue size_of cid x a s = Inr (q, s')"
    and op: "ea_operation_id a = Some op" "op \<noteq> []"
    and new: "lookup_row ir_operation_id op (idems s) = None"
  shows "check_operation (Some op) c (enqueue_request x) s' = Inr (Some [(''queue_item_id'', JStr (q_id q))])"
    and "get_queue_item (q_id q) s' = Inr q"
    and "find_session c s' = None \<longleftrightarrow> find_session c s = None"
    and "sha s' = sha s" and "q_conversation_id q = cid"
proof -
  have miss: "check_operation (Some op) cid (enqueue_request x) s = Inr None"
    using op new by (simp add: check_operation_def check_idempotency_def)
  from e obtain imgs s1 nid s2 s3 v s4 conv d pend s5
    where i: "enqueue_item cid x (ea_operation_id a) None imgs s = Inr (q, s1)"
      and n: "(if ea_create_queued_node a
              then bindE (create_node
                  ((node_defaults cid N_USER ''queued'')
                    \<lparr>na_text := Some x, na_source_channel := ea_channel a,
                     na_source_message_id := ea_message_id a, na_sender_id := ea_sender_id a,
                     na_sender_name := ea_sender_name a\<rparr>) s1)
                (\<lambda>(n, s2). Inr (Some (n_id n), s2))
              else Inr (None, s1)) = Inr (nid, s2)"
      and r: "record_operation (Some op) cid (enqueue_request x)
              [(''queue_item_id'', JStr (q_id q))] s2 = Inr s3"
      and b: "bump_session_version cid s3 = (v, s4)" and ev: "queue_event [] conv v d s4 = Inr (pend, s5)"
      and s': "s' = emit_all pend s5"
    unfolding enqueue_def Let_def case_prod_Inr bindE_eq_Inr op(1)
    by (auto simp: case_prod_Inr miss)
  note i' = enqueue_item_rest [OF i]
  have n': "idems s2 = idems s1 \<and> store.more s2 = store.more s1 \<and> sessions s2 = sessions s1 \<and> queue s2 = queue s1"
    using n by (auto simp: Inr_splits dest: create_node_rest create_node_turns)
  note r' = record_operation_row [OF r op(2)]
  note b' = bump_session_rest [OF b]
  have ev': "idems s5 = idems s4 \<and> store.more s5 = store.more s4 \<and> sessions s5 = sessions s4"
    using append_and_emit_rest ev unfolding queue_event_def by blast
  have q5: "queue s5 = queue s @ [q]"
    using enqueue_item_queue [OF i] n' record_operation_queue [OF r] bump_queue_same(2) [OF b]
      append_and_emit_same ev unfolding queue_event_def by metis
  show sha: "sha s' = sha s"
    using i' n' r' b' ev' by (simp add: s') (metis sha_more)
  have "sha s2 = sha s" using i' n' by (metis sha_more)
  with i' n' r' b' ev' new op show
    "check_operation (Some op) c (enqueue_request x) s' = Inr (Some [(''queue_item_id'', JStr (q_id q))])"
    using sha by (simp add: s' check_operation_def check_idempotency_def lookup_row_append)
  show "get_queue_item (q_id q) s' = Inr q"
    using q5 enqueue_item_queue [OF i] lookup_row_None [of q_id "q_id q" "queue s"]
    by (simp add: s' get_queue_item_def find_queue_row_def lookup_row_append)
  have "find_session c s5 = None \<longleftrightarrow> find_session c s4 = None" using ev' by (simp add: find_defs)
  moreover have "find_session c s3 = None \<longleftrightarrow> find_session c s = None"
    using i' n' r' by (simp add: find_defs)
  ultimately show "find_session c s' = None \<longleftrightarrow> find_session c s = None"
    using b' by (simp add: s')
  show "q_conversation_id q = cid" using enqueue_item_queue [OF i] by simp
qed

lemma enqueue_hit:
  assumes "check_operation (ea_operation_id a) c (enqueue_request x) s = Inr (Some [(''queue_item_id'', JStr qid)])"
    and "get_queue_item qid s = Inr q" and "find_session c s \<noteq> None" and "ea_images a = None"
  shows "enqueue size_of c x a s = Inr (q, s)"
  using assms by (auto simp: enqueue_def get_conversation_def result_str_def)

text \<open>
  Repeating an enqueue with the same operation id and text is harmless: it returns the
  item of the first request and changes nothing, so the message is queued once.
\<close>

theorem enqueue_replay:
  assumes "enqueue size_of cid x a s = Inr (q, s')" and "ea_operation_id a = Some op" and "op \<noteq> []"
    and "lookup_row ir_operation_id op (idems s) = None" and "ea_images a = None"
  shows "enqueue size_of cid x a s' = Inr (q, s')"
proof -
  have "find_session cid s \<noteq> None"
    using assms(1,5) by (auto simp: enqueue_def get_conversation_def)
  with enqueue_recorded [OF assms(1-4)] assms(2,5) show ?thesis by (intro enqueue_hit) auto
qed

definition op_args :: enqueue_args where
  "op_args = enqueue_defaults\<lparr>ea_operation_id := Some ''op1''\<rparr>"

lemma demo_op_enqueue:
  "\<exists>q s'. enqueue (\<lambda>_. None) ''conv_'' ''hi'' op_args demo1 = Inr (q, s')"
  by (simp add: demo1_eq op_args_def run_prim run_queue check_idempotency_def record_idempotency_def
      Let_def run_sql)

lemma demo1_idems: "lookup_row ir_operation_id ''op1'' (idems demo1) = None"
  by (simp add: demo1_eq)

theorem enqueue_replay_witness:
  "\<exists>q s'. enqueue (\<lambda>_. None) ''conv_'' ''hi'' op_args demo1 = Inr (q, s') \<and>
    enqueue (\<lambda>_. None) ''conv_'' ''hi'' op_args s' = Inr (q, s')"
proof -
  obtain q s' where e: "enqueue (\<lambda>_. None) ''conv_'' ''hi'' op_args demo1 = Inr (q, s')"
    using demo_op_enqueue by blast
  have "enqueue (\<lambda>_. None) ''conv_'' ''hi'' op_args s' = Inr (q, s')"
    by (rule enqueue_replay [OF e _ _ demo1_idems]) (simp_all add: op_args_def enqueue_defaults_def)
  with e show ?thesis by blast
qed

text \<open>
  The replay does not look at the conversation: the same operation id and text sent to
  another conversation is answered with the first conversation's item, and nothing is
  queued where the message was sent.
\<close>

theorem enqueue_replay_ignores_conversation:
  assumes "enqueue size_of cid x a s = Inr (q, s')" and "ea_operation_id a = Some op" and "op \<noteq> []"
    and "lookup_row ir_operation_id op (idems s) = None" and "ea_images a = None"
    and "find_session other s \<noteq> None"
  shows "enqueue size_of other x a s' = Inr (q, s') \<and> q_conversation_id q = cid"
proof -
  note rec = enqueue_recorded [OF assms(1-4)]
  from rec(3) assms(6) have "find_session other s' \<noteq> None" by simp
  from enqueue_hit [OF _ rec(2) this assms(5)] rec(1,5) assms(2) show ?thesis by simp
qed

definition demo_other :: svc where
  "demo_other = demo1\<lparr>sessions := sessions demo1 @
    [(hd (sessions demo1))\<lparr>cv_id := ''conv_b'', cv_session_key := ''b''\<rparr>]\<rparr>"

theorem enqueue_replay_ignores_conversation_witness:
  "\<exists>q s'. enqueue (\<lambda>_. None) ''conv_'' ''hi'' op_args demo_other = Inr (q, s') \<and>
    enqueue (\<lambda>_. None) ''conv_b'' ''hi'' op_args s' = Inr (q, s') \<and> q_conversation_id q = ''conv_''"
proof -
  have "\<exists>q s'. enqueue (\<lambda>_. None) ''conv_'' ''hi'' op_args demo_other = Inr (q, s')"
    by (simp add: demo_other_def demo1_eq op_args_def run_prim run_queue check_idempotency_def
        record_idempotency_def Let_def run_sql)
  then obtain q s' where e: "enqueue (\<lambda>_. None) ''conv_'' ''hi'' op_args demo_other = Inr (q, s')"
    by blast
  have n: "lookup_row ir_operation_id ''op1'' (idems demo_other) = None"
      "find_session ''conv_b'' demo_other \<noteq> None" "ea_operation_id op_args = Some ''op1''"
      "ea_images op_args = None"
    by (simp_all add: demo_other_def demo1_eq find_defs op_args_def enqueue_defaults_def)
  from enqueue_replay_ignores_conversation [OF e n(3) _ n(1) n(4) n(2)] e show ?thesis by auto
qed

text \<open>
  The same operation id with a text that hashes differently is refused as a conflict,
  and nothing is changed.
\<close>

theorem enqueue_operation_conflict:
  assumes "enqueue size_of cid x a s = Inr (q, s')" and "ea_operation_id a = Some op" and "op \<noteq> []"
    and "lookup_row ir_operation_id op (idems s) = None" and "ea_images a = None"
    and "sha s (enqueue_request y) \<noteq> sha s (enqueue_request x)"
  shows "enqueue size_of cid y a s' = Inl IdempotencyConflict"
proof -
  have "find_session cid s' \<noteq> None"
    using assms(1,5) enqueue_recorded(3) [OF assms(1-4)] by (auto simp: enqueue_def get_conversation_def)
  moreover have "check_operation (Some op) cid (enqueue_request y) s' = Inl IdempotencyConflict"
    using enqueue_recorded(1,4) [OF assms(1-4)] assms(3,6)
    by (auto simp: check_operation_def check_idempotency_def split: option.splits if_splits)
  ultimately show ?thesis using assms(2,5) by (auto simp: enqueue_def get_conversation_def)
qed

definition demo_hash :: svc where
  "demo_hash = demo1\<lparr>sha := (\<lambda>d. concat (map (\<lambda>(k, v). k @ str_or v []) d))\<rparr>"

theorem enqueue_operation_conflict_witness:
  "\<exists>q s'. enqueue (\<lambda>_. None) ''conv_'' ''hi'' op_args demo_hash = Inr (q, s') \<and>
    enqueue (\<lambda>_. None) ''conv_'' ''ho'' op_args s' = Inl IdempotencyConflict"
proof -
  have "\<exists>q s'. enqueue (\<lambda>_. None) ''conv_'' ''hi'' op_args demo_hash = Inr (q, s')"
    by (simp add: demo_hash_def demo1_eq op_args_def run_prim run_queue check_idempotency_def
        record_idempotency_def Let_def run_sql)
  then obtain q s' where e: "enqueue (\<lambda>_. None) ''conv_'' ''hi'' op_args demo_hash = Inr (q, s')"
    by blast
  have n: "lookup_row ir_operation_id ''op1'' (idems demo_hash) = None"
      "ea_operation_id op_args = Some ''op1''" "ea_images op_args = None"
      "sha demo_hash (enqueue_request ''ho'') \<noteq> sha demo_hash (enqueue_request ''hi'')"
    by (simp_all add: demo_hash_def demo1_eq op_args_def enqueue_defaults_def enqueue_request_def str_or_def)
  from enqueue_operation_conflict [OF e n(2) _ n(1) n(3) n(4)] e show ?thesis by auto
qed

section \<open>Channel messages\<close>

lemma receipt_key_upd:
  "receipt_key (r\<lparr>rc_conversation_id := a, rc_created_at := b\<rparr>) = receipt_key r"
  by (simp add: receipt_key_def)

text \<open>
  A channel message is taken once per 72 hours: after it was recorded, a repetition
  within the window is reported as a duplicate and changes nothing; after the window it
  counts as new again.
\<close>

theorem receipt_deduplicates:
  assumes "check_and_record_receipt cid ch mid s = Inr (False, s')" and "mid \<noteq> []"
    and "receipts s2 = receipts s'" and "conv_exists cid2 s2" and "now s \<le> now s2"
  shows "if now s2 \<le> now s + 72 * 3600 * 1000
    then check_and_record_receipt cid2 ch mid s2 = Inr (True, s2)
    else \<exists>s3. check_and_record_receipt cid2 ch mid s2 = Inr (False, s3)"
proof -
  obtain r where r: "lookup_row receipt_key (ch, mid) (receipts s') = Some r" "rc_created_at r = now s"
  proof (cases "lookup_row receipt_key (ch, mid) (receipts s)")
    case None
    with assms(1,2) that show ?thesis
      by (auto simp: check_and_record_receipt_def Let_def lookup_row_append receipt_key_def utc_now_def
          split: if_splits)
  next
    case (Some old)
    have "lookup_row receipt_key (ch, mid) (sql_update (\<lambda>r. receipt_key r = (ch, mid))
        (\<lambda>r. r\<lparr>rc_conversation_id := cid, rc_created_at := utc_now s\<rparr>) (receipts s)) =
      Some (old\<lparr>rc_conversation_id := cid, rc_created_at := utc_now s\<rparr>)"
      using lookup_row_Some [OF Some] Some by (simp add: lookup_row_update receipt_key_upd)
    with Some assms(1,2) that show ?thesis
      by (auto simp: check_and_record_receipt_def Let_def utc_now_def split: if_splits)
  qed
  then show ?thesis
    using assms(2-5)
    by (auto simp: check_and_record_receipt_def Let_def cutoff_def RECEIPT_TTL_SECONDS_def utc_now_def)
qed

theorem receipt_deduplicates_witness:
  "\<exists>s'. check_and_record_receipt ''conv_'' ''feishu'' ''m1'' demo1 = Inr (False, s') \<and>
    check_and_record_receipt ''conv_'' ''feishu'' ''m1'' s' = Inr (True, s')"
proof -
  have "\<exists>s'. check_and_record_receipt ''conv_'' ''feishu'' ''m1'' demo1 = Inr (False, s') \<and>
      conv_exists ''conv_'' s' \<and> now s' = now demo1"
    by (simp add: check_and_record_receipt_def Let_def demo1_eq conv_exists_def)
  then obtain s' where c: "check_and_record_receipt ''conv_'' ''feishu'' ''m1'' demo1 = Inr (False, s')"
      and e: "conv_exists ''conv_'' s'" "now s' = now demo1" by blast
  from receipt_deduplicates [OF c _ refl e(1)] e c show ?thesis by auto
qed

section \<open>Requests that come too late\<close>

lemma update_turn_status_row:
  assumes "update_turn_status tid st e f n s = Inr (t, s')"
  shows "find_turn tid s' = Some t \<and> t_status t = st"
proof -
  let ?F = "\<lambda>t. t\<lparr>t_status := st, t_version := t_version t + 1,
      t_finished_at := coalesce f (t_finished_at t), t_error_code := coalesce e (t_error_code t),
      t_final_assistant_node_id := coalesce n (t_final_assistant_node_id t)\<rparr>"
  have a: "find_turn tid s' = Some t" and b: "s' = update_turns (\<lambda>t. t_id t = tid) ?F s"
    using assms by (auto simp: update_turn_status_def Let_def)
  from a have "find_turn tid s \<noteq> None" unfolding b by (subst (asm) turns_tbl.get_upd) auto
  then obtain t0 where t0: "find_turn tid s = Some t0" by blast
  have "find_turn tid s' = Some (?F t0)"
    unfolding b by (rule turns_tbl.get_upd_here [OF _ t0]) simp
  with a show ?thesis by auto
qed



end
