(* ===== verification/Plan_Models.thy ===== *)
theory Plan_Models
  imports Contracts Py_Json
begin

text \<open>
  Plans and their tasks (\<open>core/plan/models.py\<close>): the two status enumerations, the
  transition table, the checks of the two \<open>__post_init__\<close> methods with the depth-first
  search for dependency cycles, and the dictionaries a plan is stored as.

  Time is in milliseconds. A weight is the rational number the float denotes, and sums of
  weights are exact. Every \<open>ValueError\<close>, \<open>KeyError\<close> and \<open>TypeError\<close> is a value of
  \<open>plan_error\<close>.
\<close>

section \<open>Statuses\<close>

datatype plan_status = P_DRAFT | P_AWAITING_APPROVAL | P_APPROVED | P_ACTIVE | P_PAUSED
  | P_COMPLETED | P_FAILED | P_CANCELLED | P_SUPERSEDED

fun plan_status_value :: "plan_status \<Rightarrow> string" where
  "plan_status_value P_DRAFT = ''draft''"
| "plan_status_value P_AWAITING_APPROVAL = ''awaiting_approval''"
| "plan_status_value P_APPROVED = ''approved''"
| "plan_status_value P_ACTIVE = ''active''"
| "plan_status_value P_PAUSED = ''paused''"
| "plan_status_value P_COMPLETED = ''completed''"
| "plan_status_value P_FAILED = ''failed''"
| "plan_status_value P_CANCELLED = ''cancelled''"
| "plan_status_value P_SUPERSEDED = ''superseded''"

definition plan_statuses :: "plan_status list" where
  "plan_statuses = [P_DRAFT, P_AWAITING_APPROVAL, P_APPROVED, P_ACTIVE, P_PAUSED, P_COMPLETED,
     P_FAILED, P_CANCELLED, P_SUPERSEDED]"

definition plan_terminal :: "plan_status \<Rightarrow> bool" where
  "plan_terminal st \<longleftrightarrow> st \<in> {P_COMPLETED, P_FAILED, P_CANCELLED, P_SUPERSEDED}"

datatype task_status = PT_PENDING | PT_READY | PT_ASSIGNED | PT_IN_PROGRESS | PT_WAITING
  | PT_COMPLETED | PT_FAILED | PT_BLOCKED | PT_CANCELLED

fun task_status_value :: "task_status \<Rightarrow> string" where
  "task_status_value PT_PENDING = ''pending''"
| "task_status_value PT_READY = ''ready''"
| "task_status_value PT_ASSIGNED = ''assigned''"
| "task_status_value PT_IN_PROGRESS = ''in_progress''"
| "task_status_value PT_WAITING = ''waiting''"
| "task_status_value PT_COMPLETED = ''completed''"
| "task_status_value PT_FAILED = ''failed''"
| "task_status_value PT_BLOCKED = ''blocked''"
| "task_status_value PT_CANCELLED = ''cancelled''"

definition task_statuses :: "task_status list" where
  "task_statuses = [PT_PENDING, PT_READY, PT_ASSIGNED, PT_IN_PROGRESS, PT_WAITING, PT_COMPLETED,
     PT_FAILED, PT_BLOCKED, PT_CANCELLED]"

definition task_terminal :: "task_status \<Rightarrow> bool" where
  "task_terminal st \<longleftrightarrow> st \<in> {PT_COMPLETED, PT_FAILED, PT_BLOCKED, PT_CANCELLED}"

fun plan_transitions :: "plan_status \<Rightarrow> plan_status set" where
  "plan_transitions P_DRAFT = {P_AWAITING_APPROVAL, P_CANCELLED}"
| "plan_transitions P_AWAITING_APPROVAL = {P_APPROVED, P_CANCELLED, P_SUPERSEDED}"
| "plan_transitions P_APPROVED = {P_ACTIVE, P_CANCELLED, P_SUPERSEDED}"
| "plan_transitions P_ACTIVE = {P_PAUSED, P_COMPLETED, P_FAILED, P_CANCELLED}"
| "plan_transitions P_PAUSED = {P_ACTIVE, P_CANCELLED}"
| "plan_transitions P_COMPLETED = {}"
| "plan_transitions P_FAILED = {}"
| "plan_transitions P_CANCELLED = {}"
| "plan_transitions P_SUPERSEDED = {}"

section \<open>Errors\<close>

datatype plan_error =
    PlanTaskFieldsRequired | SelfDependency | WeightNotPositive | NegativeRetryLimit
  | PlanIdsRequired | VersionNotPositive | NoTasks | DuplicateTaskIds | UnknownDependency
  | DependencyCycle | InvalidTransition | UnknownPlan | UnknownPlanTask | InvalidStatus
  | PlanTypeError | NotTerminalPlan | PlanNotActive | TaskNotReady | TaskNotAssigned
  | PlanNotRunning | TaskNotRunning | StepsRequired | StepNotObject | DescriptionRequired
  | DependsNotStrings

section \<open>Tasks\<close>

record plan_task =
  pt_id :: string
  pt_description :: string
  pt_depends_on :: "string list"
  pt_status :: task_status
  pt_weight :: rat
  pt_acceptance :: "json list"
  pt_retry_limit :: int
  pt_attempts :: int
  pt_task_id :: "string option"
  pt_result_summary :: string
  pt_artifact_ids :: "string list"
  pt_quality_report :: "json list"
  pt_blocked_reason :: "dict option"
  pt_created_at :: nat
  pt_updated_at :: nat

definition plan_task_post_init :: "plan_task \<Rightarrow> plan_error + plan_task" where
  "plan_task_post_init t =
    (let tid = strip (pt_id t); descr = strip (pt_description t)
     in if tid = [] \<or> descr = [] then Inl PlanTaskFieldsRequired
        else if tid \<in> set (pt_depends_on t) then Inl SelfDependency
        else if pt_weight t \<le> 0 then Inl WeightNotPositive
        else if pt_retry_limit t < 0 then Inl NegativeRetryLimit
        else Inr (t\<lparr>pt_id := tid, pt_description := descr\<rparr>))"

definition task_is_terminal :: "plan_task \<Rightarrow> bool" where
  "task_is_terminal t \<longleftrightarrow> task_terminal (pt_status t)"

section \<open>Plans\<close>

record plan =
  p_id :: string
  p_session_id :: string
  p_title :: string
  p_tasks :: "plan_task list"
  p_status :: plan_status
  p_version :: int
  p_goal_id :: "string option"
  p_source_prompt :: string
  p_approved_at :: "nat option"
  p_approval_actor :: "string option"
  p_archived_at :: "nat option"
  p_created_at :: nat
  p_updated_at :: nat

text \<open>The default title, four Chinese characters, as the bytes of its UTF-8 encoding.\<close>

definition DEFAULT_PLAN_TITLE :: string where
  "DEFAULT_PLAN_TITLE = map char_of [0xE6 :: nat, 0x89, 0xA7, 0xE8, 0xA1, 0x8C, 0xE6, 0x96, 0xB9, 0xE6, 0xA1, 0x88]"

text \<open>
  The depth-first search of \<open>_validate_dag\<close>. \<open>path\<close> is the set \<open>visiting\<close>: a node is in
  it exactly while its dependencies are searched. \<open>seen\<close> is the set \<open>visited\<close>, the last
  finished node first. A missing key is the \<open>KeyError\<close> of \<open>edges[node]\<close>.
\<close>

function visit_all ::
  "(string \<times> string list) list \<Rightarrow> string list \<Rightarrow> string list \<Rightarrow> string list
    \<Rightarrow> plan_error + string list" where
  "visit_all edges path [] seen = Inr seen"
| "visit_all edges path (node # nodes) seen =
    (if node \<in> set path then Inl DependencyCycle
     else if node \<in> set seen then visit_all edges path nodes seen
     else (case map_of edges node of
         None \<Rightarrow> Inl UnknownPlanTask
       | Some deps \<Rightarrow>
           bindE (visit_all edges (node # path) deps seen) (\<lambda>seen1.
             visit_all edges path nodes (node # seen1))))"
  by pat_completeness auto

lemma dom_minus_path:
  assumes "node \<notin> set path" and "map_of edges node = Some deps"
  shows "card (dom (map_of edges) - set (node # path)) < card (dom (map_of edges) - set path)"
proof (rule psubset_card_mono)
  show "finite (dom (map_of edges) - set path)" by (simp add: finite_dom_map_of)
  show "dom (map_of edges) - set (node # path) \<subset> dom (map_of edges) - set path"
    using assms by (auto simp: dom_def)
qed

termination visit_all
  by (relation "measures [\<lambda>(edges, path, nodes, seen). card (dom (map_of edges) - set path),
      \<lambda>(edges, path, nodes, seen). length nodes]") (auto dest: dom_minus_path)

definition validate_dag :: "plan_task list \<Rightarrow> plan_error + unit" where
  "validate_dag tasks =
    (let edges = map (\<lambda>t. (pt_id t, remdups (pt_depends_on t))) tasks
     in bindE (visit_all edges [] (map pt_id tasks) []) (\<lambda>_. Inr ()))"

definition plan_post_init :: "plan \<Rightarrow> plan_error + plan" where
  "plan_post_init p =
    (if p_id p = [] \<or> p_session_id p = [] then Inl PlanIdsRequired
     else if p_version p < 1 then Inl VersionNotPositive
     else if p_tasks p = [] then Inl NoTasks
     else if \<not> distinct (map pt_id (p_tasks p)) then Inl DuplicateTaskIds
     else if \<exists>t \<in> set (p_tasks p). \<not> set (pt_depends_on t) \<subseteq> set (map pt_id (p_tasks p))
       then Inl UnknownDependency
     else bindE (validate_dag (p_tasks p)) (\<lambda>_.
       Inr (p\<lparr>p_title := (if strip (p_title p) = [] then DEFAULT_PLAN_TITLE
                              else strip (p_title p))\<rparr>)))"

definition plan_is_terminal :: "plan \<Rightarrow> bool" where
  "plan_is_terminal p \<longleftrightarrow> plan_terminal (p_status p)"

definition progress :: "plan \<Rightarrow> rat" where
  "progress p =
    (let total = sum_list (map pt_weight (p_tasks p));
         completed = sum_list (map pt_weight (filter (\<lambda>t. pt_status t = PT_COMPLETED) (p_tasks p)))
     in if total = 0 then 0 else completed / total)"

definition find_task :: "plan \<Rightarrow> string \<Rightarrow> plan_error + plan_task" where
  "find_task p tid = of_option UnknownPlanTask (lookup_row pt_id tid (p_tasks p))"

definition plan_transition :: "plan_status \<Rightarrow> nat \<Rightarrow> plan \<Rightarrow> plan_error + plan" where
  "plan_transition target t p =
    (if target \<notin> plan_transitions (p_status p) then Inl InvalidTransition
     else Inr (p\<lparr>p_status := target, p_updated_at := t\<rparr>))"

end
