(* ===== verification/Plan_Dag.thy ===== *)
theory Plan_Dag
  imports Plan_Models
begin

text \<open>
  The cycle check of a plan decides acyclicity: \<open>validate_dag\<close> accepts exactly the task
  lists whose dependency relation has no cycle, whatever the order in which the search
  visits the tasks.
\<close>

section \<open>The dependency relation\<close>

definition depends :: "plan_task list \<Rightarrow> (string \<times> string) set" where
  "depends tasks = {(pt_id t, d) |t d. t \<in> set tasks \<and> d \<in> set (pt_depends_on t)}"

definition edge_rel :: "(string \<times> string list) list \<Rightarrow> (string \<times> string) set" where
  "edge_rel edges = {(n, d). \<exists>ds. map_of edges n = Some ds \<and> d \<in> set ds}"

lemma edge_relI: "map_of edges n = Some ds \<Longrightarrow> d \<in> set ds \<Longrightarrow> (n, d) \<in> edge_rel edges"
  by (auto simp: edge_rel_def)

section \<open>An accepting search\<close>

text \<open>A finishing order: the dependencies of a node finished before the node.\<close>

fun finished :: "(string \<times> string list) list \<Rightarrow> string list \<Rightarrow> bool" where
  "finished edges [] = True"
| "finished edges (n # ns) \<longleftrightarrow>
    n \<notin> set ns \<and> (\<forall>d. (n, d) \<in> edge_rel edges \<longrightarrow> d \<in> set ns) \<and> finished edges ns"

lemma visit_all_finished:
  "visit_all edges path ns seen = Inr seen' \<Longrightarrow> finished edges seen \<Longrightarrow>
   finished edges seen' \<and> set ns \<union> set seen \<subseteq> set seen' \<and>
   set seen' \<inter> set path \<subseteq> set seen"
proof (induction edges path ns seen arbitrary: seen' rule: visit_all.induct)
  case (2 edges path node nodes seen)
  from 2(4) have np: "node \<notin> set path" by (auto split: if_splits)
  show ?case
  proof (cases "node \<in> set seen")
    case True
    with 2(1) [OF np True] 2(4,5) np show ?thesis by auto
  next
    case False
    from 2(4) np False obtain deps where d: "map_of edges node = Some deps"
      by (auto split: option.splits)
    with 2(4) np False obtain seen1 where v: "visit_all edges (node # path) deps seen = Inr seen1"
        and w: "visit_all edges path nodes (node # seen1) = Inr seen'"
      by auto
    from 2(2) [OF np False d v 2(5)]
    have s1: "finished edges seen1" "set deps \<union> set seen \<subseteq> set seen1"
        "set seen1 \<inter> set (node # path) \<subseteq> set seen" by auto
    then have "finished edges (node # seen1)"
      using d False by (auto simp: edge_rel_def)
    from 2(3) [OF np False d v w this] s1 np show ?thesis by auto
  qed
qed simp

text \<open>In a finishing order every dependency leads to an earlier node, so there is no cycle.\<close>

lemma finished_split:
  "finished edges (xs @ n # ys) \<Longrightarrow> (n, d) \<in> edge_rel edges \<Longrightarrow> d \<in> set ys"
  by (induction xs) auto

lemma finished_trancl:
  assumes "(a, b) \<in> (edge_rel edges)\<^sup>+" and "finished edges (xs @ a # ys)"
  shows "b \<in> set ys"
  using assms
proof (induction rule: trancl_induct)
  case (base b)
  with finished_split show ?case by blast
next
  case (step b c)
  then obtain ys1 ys2 where ys: "ys = ys1 @ b # ys2" by (auto simp: in_set_conv_decomp)
  with step(4) have "finished edges ((xs @ a # ys1) @ b # ys2)" by simp
  from finished_split [OF this step(2)] show ?case by (simp add: ys)
qed

lemma finished_distinct: "finished edges ns \<Longrightarrow> distinct ns"
  by (induction ns) auto

lemma finished_no_cycle:
  assumes "finished edges ns" and "a \<in> set ns"
  shows "(a, a) \<notin> (edge_rel edges)\<^sup>+"
proof
  assume "(a, a) \<in> (edge_rel edges)\<^sup>+"
  from assms(2) obtain xs ys where ns: "ns = xs @ a # ys" by (auto simp: in_set_conv_decomp)
  with finished_trancl [OF \<open>(a, a) \<in> _\<close>] assms(1) have "a \<in> set ys" by blast
  with finished_distinct [OF assms(1)] ns show False by simp
qed

section \<open>A rejecting search\<close>

lemma visit_all_cycle:
  "visit_all edges path ns seen = Inl e \<Longrightarrow>
   (\<forall>x \<in> set path. \<forall>n \<in> set ns. (x, n) \<in> (edge_rel edges)\<^sup>+) \<Longrightarrow>
   e = DependencyCycle \<and> (\<exists>x. (x, x) \<in> (edge_rel edges)\<^sup>+) \<or>
   e = UnknownPlanTask"
proof (induction edges path ns seen rule: visit_all.induct)
  case (2 edges path node nodes seen)
  show ?case
  proof (cases "node \<in> set path")
    case True
    with 2(4,5) show ?thesis by auto
  next
    case np: False
    show ?thesis
    proof (cases "node \<in> set seen")
      case True
      with 2(1) [OF np True] 2(4,5) np show ?thesis by auto
    next
      case False
      show ?thesis
      proof (cases "map_of edges node")
        case None
        with 2(4) np False show ?thesis by simp
      next
        case (Some deps)
        have below: "\<forall>x \<in> set (node # path). \<forall>n \<in> set deps. (x, n) \<in> (edge_rel edges)\<^sup>+"
          using 2(5) edge_relI [OF Some] by (auto intro: trancl_into_trancl)
        show ?thesis
        proof (cases "visit_all edges (node # path) deps seen")
          case (Inl e')
          with 2(4) np False Some have "visit_all edges (node # path) deps seen = Inl e" by simp
          from 2(2) [OF np False Some this below] show ?thesis .
        next
          case (Inr seen1)
          with 2(4) np False Some have "visit_all edges path nodes (node # seen1) = Inl e" by simp
          from 2(3) [OF np False Some Inr this] 2(5) show ?thesis by auto
        qed
      qed
    qed
  qed
qed simp

text \<open>Without missing keys the search does not raise a \<open>KeyError\<close>.\<close>

lemma visit_all_known:
  "visit_all edges path ns seen = Inl e \<Longrightarrow> set ns \<subseteq> dom (map_of edges) \<Longrightarrow>
   (\<forall>n d. (n, d) \<in> edge_rel edges \<longrightarrow> d \<in> dom (map_of edges)) \<Longrightarrow> e \<noteq> UnknownPlanTask"
proof (induction edges path ns seen rule: visit_all.induct)
  case (2 edges path node nodes seen)
  from 2(5) obtain deps where d: "map_of edges node = Some deps" by auto
  then have dd: "set deps \<subseteq> dom (map_of edges)" using 2(6) by (auto simp: edge_rel_def)
  show ?case
  proof (cases "visit_all edges (node # path) deps seen")
    case (Inl e')
    with 2(1,2,4-6) d dd show ?thesis by (auto split: if_splits)
  next
    case (Inr seen1)
    with 2(1,3,4-6) d show ?thesis by (auto split: if_splits)
  qed
qed simp

section \<open>The check of a plan\<close>

lemma map_of_edges:
  assumes "distinct (map pt_id tasks)"
  shows "map_of (map (\<lambda>t. (pt_id t, remdups (pt_depends_on t))) tasks) n =
    map_option (\<lambda>t. remdups (pt_depends_on t)) (lookup_row pt_id n tasks)"
  by (induction tasks) auto

lemma edge_rel_depends:
  assumes "distinct (map pt_id tasks)"
  shows "edge_rel (map (\<lambda>t. (pt_id t, remdups (pt_depends_on t))) tasks) = depends tasks"
proof -
  have u: "unique_key pt_id tasks" using assms by (simp add: unique_key_def)
  have "(n, d) \<in> edge_rel (map (\<lambda>t. (pt_id t, remdups (pt_depends_on t))) tasks) \<longleftrightarrow>
      (\<exists>t. lookup_row pt_id n tasks = Some t \<and> d \<in> set (pt_depends_on t))" for n d
    by (auto simp: edge_rel_def map_of_edges [OF assms])
  also have "\<dots> n d \<longleftrightarrow> (n, d) \<in> depends tasks" for n d
    using lookup_row_unique [OF u] lookup_row_Some [of pt_id n tasks]
    by (fastforce simp: depends_def)
  finally show ?thesis by auto
qed

definition deps_known :: "plan_task list \<Rightarrow> bool" where
  "deps_known tasks \<longleftrightarrow> (\<forall>t \<in> set tasks. set (pt_depends_on t) \<subseteq> set (map pt_id tasks))"

lemma validate_dag_iff:
  assumes "distinct (map pt_id tasks)" and "deps_known tasks"
  shows "validate_dag tasks = Inr () \<longleftrightarrow> acyclic (depends tasks)"
    and "validate_dag tasks = Inl DependencyCycle \<longleftrightarrow> \<not> acyclic (depends tasks)"
proof -
  let ?E = "map (\<lambda>t. (pt_id t, remdups (pt_depends_on t))) tasks"
  note er = edge_rel_depends [OF assms(1)]
  have dom: "dom (map_of ?E) = set (map pt_id tasks)"
    by (simp add: dom_map_of_conv_image_fst image_image)
  have "validate_dag tasks = Inr () \<and> acyclic (depends tasks) \<or>
    validate_dag tasks = Inl DependencyCycle \<and> \<not> acyclic (depends tasks)"
  proof (cases "visit_all ?E [] (map pt_id tasks) []")
    case (Inl e)
    from visit_all_known [OF Inl] have "e \<noteq> UnknownPlanTask"
      unfolding dom er using assms(2) by (auto simp: depends_def deps_known_def)
    with visit_all_cycle [OF Inl] er show ?thesis
      by (auto simp: validate_dag_def Let_def Inl acyclic_def)
  next
    case (Inr seen)
    from visit_all_finished [OF Inr]
    have f: "finished ?E seen" and s: "set (map pt_id tasks) \<subseteq> set seen" by auto
    have "acyclic (depends tasks)"
    proof (rule acyclicI, intro allI notI)
      fix x assume "(x, x) \<in> (depends tasks)\<^sup>+"
      then have "x \<in> set (map pt_id tasks)" by (auto simp: depends_def dest: tranclD)
      with s finished_no_cycle [OF f, of x] \<open>(x, x) \<in> _\<close> er show False by auto
    qed
    then show ?thesis by (simp add: validate_dag_def Let_def Inr)
  qed
  then show "validate_dag tasks = Inr () \<longleftrightarrow> acyclic (depends tasks)"
    and "validate_dag tasks = Inl DependencyCycle \<longleftrightarrow> \<not> acyclic (depends tasks)" by auto
qed

end
