(* ===== verification/Plan_Json.thy ===== *)
theory Plan_Json
  imports Plan_Dag
begin

text \<open>
  The dictionaries of plans and plan tasks (\<open>to_dict\<close> and \<open>from_dict\<close> in
  \<open>core/plan/models.py\<close>), which are what the database stores, and the proof that reading
  back a stored plan gives the same plan.

  A value of a type other than the one the field is annotated with is read as a
  \<open>TypeError\<close>. \<open>t\<close> is the time that a missing \<open>created_at\<close> or \<open>updated_at\<close> gets.
\<close>

section \<open>Readers\<close>

definition need :: "dict \<Rightarrow> string \<Rightarrow> plan_error + json" where
  "need d k = of_option PlanTypeError (map_of d k)"

fun read_str :: "json \<Rightarrow> plan_error + string" where
  "read_str (JStr s) = Inr s"
| "read_str _ = Inl PlanTypeError"

fun read_opt_str :: "json \<Rightarrow> plan_error + string option" where
  "read_opt_str JNull = Inr None"
| "read_opt_str (JStr s) = Inr (Some s)"
| "read_opt_str _ = Inl PlanTypeError"

fun read_time :: "json \<Rightarrow> plan_error + nat" where
  "read_time (JInt i) = (if i < 0 then Inl PlanTypeError else Inr (nat i))"
| "read_time _ = Inl PlanTypeError"

fun read_opt_time :: "json \<Rightarrow> plan_error + nat option" where
  "read_opt_time JNull = Inr None"
| "read_opt_time (JInt i) = (if i < 0 then Inl PlanTypeError else Inr (Some (nat i)))"
| "read_opt_time _ = Inl PlanTypeError"

text \<open>\<open>float(x)\<close> and \<open>int(x)\<close> of a number; a float is truncated towards zero.\<close>

fun read_float :: "json \<Rightarrow> plan_error + rat" where
  "read_float (JFloat x) = Inr x"
| "read_float (JInt i) = Inr (of_int i)"
| "read_float (JBool b) = Inr (if b then 1 else 0)"
| "read_float _ = Inl PlanTypeError"

fun read_int :: "json \<Rightarrow> plan_error + int" where
  "read_int (JInt i) = Inr i"
| "read_int (JBool b) = Inr (if b then 1 else 0)"
| "read_int (JFloat x) = Inr (if 0 \<le> x then \<lfloor>x\<rfloor> else \<lceil>x\<rceil>)"
| "read_int _ = Inl PlanTypeError"

text \<open>
  \<open>list(x or [])\<close>: a falsy value gives the empty list, a string its characters and a
  dictionary its keys.
\<close>

definition read_list :: "json \<Rightarrow> plan_error + json list" where
  "read_list v =
    (if \<not> truthy v then Inr []
     else (case v of
         JList xs \<Rightarrow> Inr xs
       | JStr s \<Rightarrow> Inr (map (\<lambda>c. JStr [c]) s)
       | JObj d \<Rightarrow> Inr (map (\<lambda>(k, _). JStr k) d)
       | _ \<Rightarrow> Inl PlanTypeError))"

lemma read_list_simps [simp]: "read_list (JList xs) = Inr xs" "read_list JNull = Inr []"
  by (simp_all add: read_list_def)

fun map_E :: "('a \<Rightarrow> 'e + 'b) \<Rightarrow> 'a list \<Rightarrow> 'e + 'b list" where
  "map_E f [] = Inr []"
| "map_E f (x # xs) = bindE (f x) (\<lambda>y. bindE (map_E f xs) (\<lambda>ys. Inr (y # ys)))"

definition read_strs :: "json \<Rightarrow> plan_error + string list" where
  "read_strs v = bindE (read_list v) (map_E read_str)"

fun read_opt_dict :: "json \<Rightarrow> plan_error + dict option" where
  "read_opt_dict JNull = Inr None"
| "read_opt_dict (JObj d) = Inr (Some d)"
| "read_opt_dict _ = Inl PlanTypeError"

text \<open>\<open>PlanStatus(v)\<close> and \<open>PlanTaskStatus(v)\<close>.\<close>

definition read_plan_status :: "json \<Rightarrow> plan_error + plan_status" where
  "read_plan_status v =
    of_option InvalidStatus (find (\<lambda>st. v = JStr (plan_status_value st)) plan_statuses)"

definition read_task_status :: "json \<Rightarrow> plan_error + task_status" where
  "read_task_status v =
    of_option InvalidStatus (find (\<lambda>st. v = JStr (task_status_value st)) task_statuses)"

lemma read_status_value [simp]:
  "read_plan_status (JStr (plan_status_value st)) = Inr st"
  "read_task_status (JStr (task_status_value ts)) = Inr ts"
  by (cases st; simp add: read_plan_status_def plan_statuses_def)
    (cases ts; simp add: read_task_status_def task_statuses_def)

lemma map_E_map: "(\<And>x. x \<in> set xs \<Longrightarrow> f (g x) = Inr (h x)) \<Longrightarrow> map_E f (map g xs) = Inr (map h xs)"
  by (induction xs) auto

lemma read_strs_JStr [simp]: "read_strs (JList (map JStr xs)) = Inr xs"
  using map_E_map [of xs read_str JStr "\<lambda>x. x"] by (simp add: read_strs_def)

lemma read_jopt [simp]:
  "read_opt_str (jopt JStr x) = Inr x"
  "read_opt_time (jopt jnat y) = Inr y"
  "read_opt_dict (jopt JObj z) = Inr z"
  "read_time (jnat n) = Inr n"
  by (simp_all add: jopt_def jnat_def split: option.split)

section \<open>Tasks\<close>

definition plan_task_to_dict :: "plan_task \<Rightarrow> dict" where
  "plan_task_to_dict t =
    [(''plan_task_id'', JStr (pt_id t)), (''description'', JStr (pt_description t)),
     (''depends_on'', JList (map JStr (pt_depends_on t))),
     (''status'', JStr (task_status_value (pt_status t))), (''weight'', JFloat (pt_weight t)),
     (''acceptance'', JList (pt_acceptance t)), (''retry_limit'', JInt (pt_retry_limit t)),
     (''attempts'', JInt (pt_attempts t)), (''task_id'', jopt JStr (pt_task_id t)),
     (''result_summary'', JStr (pt_result_summary t)),
     (''artifact_ids'', JList (map JStr (pt_artifact_ids t))),
     (''quality_report'', JList (pt_quality_report t)),
     (''blocked_reason'', jopt JObj (pt_blocked_reason t)),
     (''created_at'', jnat (pt_created_at t)), (''updated_at'', jnat (pt_updated_at t))]"

definition PLAN_TASK_FIELDS :: "string list" where
  "PLAN_TASK_FIELDS = [''plan_task_id'', ''description'', ''depends_on'', ''status'', ''weight'',
     ''acceptance'', ''retry_limit'', ''attempts'', ''task_id'', ''result_summary'',
     ''artifact_ids'', ''quality_report'', ''blocked_reason'', ''created_at'', ''updated_at'']"

definition plan_task_from_dict :: "nat \<Rightarrow> dict \<Rightarrow> plan_error + plan_task" where
  "plan_task_from_dict t d =
    bindE (need d ''status'') (\<lambda>v. bindE (read_task_status v) (\<lambda>st.
    bindE (read_strs (dfield d ''depends_on'' JNull)) (\<lambda>deps.
    bindE (read_list (dfield d ''acceptance'' JNull)) (\<lambda>acceptance.
    bindE (read_strs (dfield d ''artifact_ids'' JNull)) (\<lambda>artifacts.
    bindE (read_list (dfield d ''quality_report'' JNull)) (\<lambda>report.
    if \<not> set (map fst d) \<subseteq> set PLAN_TASK_FIELDS then Inl PlanTypeError
    else
      bindE (need d ''plan_task_id'') (\<lambda>v. bindE (read_str v) (\<lambda>tid.
      bindE (need d ''description'') (\<lambda>v. bindE (read_str v) (\<lambda>descr.
      bindE (read_float (dfield d ''weight'' (JFloat 1))) (\<lambda>weight.
      bindE (read_int (dfield d ''retry_limit'' (JInt 0))) (\<lambda>retry.
      bindE (read_int (dfield d ''attempts'' (JInt 0))) (\<lambda>attempts.
      bindE (read_opt_str (dfield d ''task_id'' JNull)) (\<lambda>task.
      bindE (read_str (dfield d ''result_summary'' (JStr []))) (\<lambda>summary.
      bindE (read_opt_dict (dfield d ''blocked_reason'' JNull)) (\<lambda>blocked.
      bindE (read_time (dfield d ''created_at'' (jnat t))) (\<lambda>created.
      bindE (read_time (dfield d ''updated_at'' (jnat t))) (\<lambda>updated.
      plan_task_post_init
        \<lparr>pt_id = tid, pt_description = descr, pt_depends_on = deps, pt_status = st,
         pt_weight = weight, pt_acceptance = acceptance, pt_retry_limit = retry,
         pt_attempts = attempts, pt_task_id = task, pt_result_summary = summary,
         pt_artifact_ids = artifacts, pt_quality_report = report, pt_blocked_reason = blocked,
         pt_created_at = created, pt_updated_at = updated\<rparr>))))))))))))))))))"

text \<open>A task that the constructor leaves as it is.\<close>

definition plan_task_ok :: "plan_task \<Rightarrow> bool" where
  "plan_task_ok t \<longleftrightarrow> plan_task_post_init t = Inr t"

lemma plan_task_post_init_ok: "plan_task_post_init t = Inr t' \<Longrightarrow> plan_task_ok t'"
  by (auto simp: plan_task_post_init_def plan_task_ok_def Let_def split: if_splits)

lemma plan_task_ok_iff:
  "plan_task_ok t \<longleftrightarrow> strip (pt_id t) = pt_id t \<and> strip (pt_description t) = pt_description t \<and>
    pt_id t \<noteq> [] \<and> pt_description t \<noteq> [] \<and> pt_id t \<notin> set (pt_depends_on t) \<and>
    0 < pt_weight t \<and> 0 \<le> pt_retry_limit t"
proof -
  have "t\<lparr>pt_id := i, pt_description := d\<rparr> = t \<longleftrightarrow> pt_id t = i \<and> pt_description t = d" for i d
    by (cases t) auto
  then show ?thesis
    by (auto simp: plan_task_ok_def plan_task_post_init_def Let_def not_le)
qed

lemma plan_task_round_trip:
  assumes "plan_task_ok t"
  shows "plan_task_from_dict now (plan_task_to_dict t) = Inr t"
  using assms
  by (cases t) (simp add: plan_task_from_dict_def plan_task_to_dict_def need_def dfield_def
      PLAN_TASK_FIELDS_def plan_task_ok_def)

section \<open>Plans\<close>

definition plan_to_dict :: "plan \<Rightarrow> dict" where
  "plan_to_dict p =
    [(''plan_id'', JStr (p_id p)), (''session_id'', JStr (p_session_id p)),
     (''title'', JStr (p_title p)),
     (''tasks'', JList (map (\<lambda>t. JObj (plan_task_to_dict t)) (p_tasks p))),
     (''status'', JStr (plan_status_value (p_status p))), (''version'', JInt (p_version p)),
     (''goal_id'', jopt JStr (p_goal_id p)), (''progress'', JFloat (progress p)),
     (''source_prompt'', JStr (p_source_prompt p)),
     (''approved_at'', jopt jnat (p_approved_at p)),
     (''approval_actor'', jopt JStr (p_approval_actor p)),
     (''archived_at'', jopt jnat (p_archived_at p)),
     (''created_at'', jnat (p_created_at p)), (''updated_at'', jnat (p_updated_at p))]"

definition PLAN_FIELDS :: "string list" where
  "PLAN_FIELDS = [''plan_id'', ''session_id'', ''title'', ''tasks'', ''status'', ''version'',
     ''goal_id'', ''source_prompt'', ''approved_at'', ''approval_actor'', ''archived_at'',
     ''created_at'', ''updated_at'']"

fun read_task :: "nat \<Rightarrow> json \<Rightarrow> plan_error + plan_task" where
  "read_task t (JObj d) = plan_task_from_dict t d"
| "read_task t _ = Inl PlanTypeError"

definition plan_from_dict :: "nat \<Rightarrow> dict \<Rightarrow> plan_error + plan" where
  "plan_from_dict t d0 =
    (let d = AList.delete ''progress'' d0
     in bindE (need d ''status'') (\<lambda>v. bindE (read_plan_status v) (\<lambda>st.
        bindE (read_list (dfield d ''tasks'' JNull)) (\<lambda>items.
        bindE (map_E (read_task t) items) (\<lambda>tasks.
        if \<not> set (map fst d) \<subseteq> set PLAN_FIELDS then Inl PlanTypeError
        else
          bindE (need d ''plan_id'') (\<lambda>v. bindE (read_str v) (\<lambda>pid.
          bindE (need d ''session_id'') (\<lambda>v. bindE (read_str v) (\<lambda>sid.
          bindE (need d ''title'') (\<lambda>v. bindE (read_str v) (\<lambda>title.
          bindE (read_int (dfield d ''version'' (JInt 1))) (\<lambda>version.
          bindE (read_opt_str (dfield d ''goal_id'' JNull)) (\<lambda>goal.
          bindE (read_str (dfield d ''source_prompt'' (JStr []))) (\<lambda>prompt.
          bindE (read_opt_time (dfield d ''approved_at'' JNull)) (\<lambda>approved.
          bindE (read_opt_str (dfield d ''approval_actor'' JNull)) (\<lambda>actor.
          bindE (read_opt_time (dfield d ''archived_at'' JNull)) (\<lambda>archived.
          bindE (read_time (dfield d ''created_at'' (jnat t))) (\<lambda>created.
          bindE (read_time (dfield d ''updated_at'' (jnat t))) (\<lambda>updated.
          plan_post_init
            \<lparr>p_id = pid, p_session_id = sid, p_title = title, p_tasks = tasks, p_status = st,
             p_version = version, p_goal_id = goal, p_source_prompt = prompt,
             p_approved_at = approved, p_approval_actor = actor, p_archived_at = archived,
             p_created_at = created, p_updated_at = updated\<rparr>)))))))))))))))))))"

text \<open>A plan that the constructors leave as it is.\<close>

definition plan_ok :: "plan \<Rightarrow> bool" where
  "plan_ok p \<longleftrightarrow> plan_post_init p = Inr p \<and> (\<forall>t \<in> set (p_tasks p). plan_task_ok t)"

lemma strip_default_title: "strip DEFAULT_PLAN_TITLE = DEFAULT_PLAN_TITLE" "DEFAULT_PLAN_TITLE \<noteq> []"
  by (simp_all add: DEFAULT_PLAN_TITLE_def strip_def py_space_def)

lemma plan_post_init_Inr:
  "plan_post_init p = Inr p' \<longleftrightarrow>
    p_id p \<noteq> [] \<and> p_session_id p \<noteq> [] \<and> 1 \<le> p_version p \<and> p_tasks p \<noteq> [] \<and>
    distinct (map pt_id (p_tasks p)) \<and> deps_known (p_tasks p) \<and> acyclic (depends (p_tasks p)) \<and>
    p' = p\<lparr>p_title := (if strip (p_title p) = [] then DEFAULT_PLAN_TITLE else strip (p_title p))\<rparr>"
  using validate_dag_iff(1) [of "p_tasks p"]
  by (auto simp: plan_post_init_def deps_known_def not_less)

lemma plan_ok_iff:
  "plan_ok p \<longleftrightarrow>
    p_id p \<noteq> [] \<and> p_session_id p \<noteq> [] \<and> 1 \<le> p_version p \<and> p_tasks p \<noteq> [] \<and>
    distinct (map pt_id (p_tasks p)) \<and> deps_known (p_tasks p) \<and> acyclic (depends (p_tasks p)) \<and>
    p_title p = (if strip (p_title p) = [] then DEFAULT_PLAN_TITLE else strip (p_title p)) \<and>
    (\<forall>t \<in> set (p_tasks p). plan_task_ok t)"
proof -
  have "p = p\<lparr>p_title := x\<rparr> \<longleftrightarrow> p_title p = x" for x by (cases p) auto
  then show ?thesis by (auto simp: plan_ok_def plan_post_init_Inr)
qed

lemma plan_post_init_ok:
  "plan_post_init p = Inr p' \<Longrightarrow> \<forall>t \<in> set (p_tasks p). plan_task_ok t \<Longrightarrow> plan_ok p'"
  by (auto simp: plan_post_init_Inr plan_ok_iff strip_default_title)

lemma plan_round_trip_ok:
  assumes "plan_ok p"
  shows "plan_from_dict now (plan_to_dict p) = Inr p"
proof -
  have "map_E (read_task now) (map (\<lambda>t. JObj (plan_task_to_dict t)) (p_tasks p)) = Inr (p_tasks p)"
    using assms map_E_map [of "p_tasks p" "read_task now" "\<lambda>t. JObj (plan_task_to_dict t)" "\<lambda>t. t"]
    by (simp add: plan_ok_def plan_task_round_trip)
  with assms show ?thesis
    by (cases p) (simp add: plan_from_dict_def plan_to_dict_def need_def dfield_def PLAN_FIELDS_def plan_ok_def)
qed

end
