(* ===== verification/Plan_Manager.thy ===== *)
theory Plan_Manager
  imports Plan_Json
begin

text \<open>
  \<open>PlanManager\<close> (\<open>core/plan/manager.py\<close>) and the statements of
  \<open>core/runtime/sqlite_store.py\<close> it uses: the life cycle of a plan, the scheduling of its
  tasks along their dependencies, retries, and what a failed task does to the tasks behind
  it. The tables store dictionaries; every operation reads the plan back from its
  dictionary, changes it, and writes it again.

  \<open>p_clock\<close> is the wall clock, \<open>p_token n\<close> the \<open>n\<close>-th random plan token. The random id
  of an event is left out.
\<close>

section \<open>Tables\<close>

record plan_row =
  pr_plan_id :: string
  pr_session_id :: string
  pr_goal_id :: "string option"
  pr_status :: string
  pr_version :: int
  pr_created_at :: nat
  pr_updated_at :: nat
  pr_json :: dict

record plan_task_row =
  ptr_plan_task_id :: string
  ptr_plan_id :: string
  ptr_status :: string
  ptr_task_id :: "string option"
  ptr_created_at :: nat
  ptr_updated_at :: nat
  ptr_json :: dict

record runtime_event =
  ev_type :: string
  ev_created_at :: nat
  ev_session_id :: string
  ev_data :: dict

record plan_db =
  plan_rows :: "plan_row list"
  plan_task_rows :: "plan_task_row list"
  plan_events :: "runtime_event list"
  p_clock :: nat
  p_token :: "nat \<Rightarrow> string"
  p_next :: nat

text \<open>The two INSERT statements with their ON CONFLICT clauses.\<close>

definition upsert_plan_row :: "plan \<Rightarrow> plan_row list \<Rightarrow> plan_row list" where
  "upsert_plan_row p rows =
    (if p_id p \<in> set (map pr_plan_id rows)
     then sql_update (\<lambda>r. pr_plan_id r = p_id p)
       (\<lambda>r. r\<lparr>pr_status := plan_status_value (p_status p), pr_updated_at := p_updated_at p,
              pr_json := plan_to_dict p\<rparr>) rows
     else rows @
       [\<lparr>pr_plan_id = p_id p, pr_session_id = p_session_id p, pr_goal_id = p_goal_id p,
         pr_status = plan_status_value (p_status p), pr_version = p_version p,
         pr_created_at = p_created_at p, pr_updated_at = p_updated_at p,
         pr_json = plan_to_dict p\<rparr>])"

definition upsert_plan_task_row ::
  "string \<Rightarrow> plan_task \<Rightarrow> plan_task_row list \<Rightarrow> plan_task_row list" where
  "upsert_plan_task_row pid t rows =
    (if \<exists>r \<in> set rows. ptr_plan_id r = pid \<and> ptr_plan_task_id r = pt_id t
     then sql_update (\<lambda>r. ptr_plan_id r = pid \<and> ptr_plan_task_id r = pt_id t)
       (\<lambda>r. r\<lparr>ptr_status := task_status_value (pt_status t), ptr_task_id := pt_task_id t,
              ptr_updated_at := pt_updated_at t, ptr_json := plan_task_to_dict t\<rparr>) rows
     else rows @
       [\<lparr>ptr_plan_task_id = pt_id t, ptr_plan_id = pid,
         ptr_status = task_status_value (pt_status t), ptr_task_id = pt_task_id t,
         ptr_created_at = pt_created_at t, ptr_updated_at = pt_updated_at t,
         ptr_json = plan_task_to_dict t\<rparr>])"

definition save_plan :: "plan \<Rightarrow> runtime_event \<Rightarrow> plan_db \<Rightarrow> plan_db" where
  "save_plan p ev s =
    s\<lparr>plan_rows := upsert_plan_row p (plan_rows s),
      plan_task_rows := fold (upsert_plan_task_row (p_id p)) (p_tasks p) (plan_task_rows s),
      plan_events := plan_events s @ [ev]\<rparr>"

definition get_plan :: "string \<Rightarrow> plan_db \<Rightarrow> dict option" where
  "get_plan pid s = map_option pr_json (lookup_row pr_plan_id pid (plan_rows s))"

definition clamp_limit :: "int \<Rightarrow> nat" where
  "clamp_limit limit = nat (max 1 (min limit 1000))"

definition list_plans :: "string \<Rightarrow> int \<Rightarrow> plan_db \<Rightarrow> dict list" where
  "list_plans sid limit s =
    map pr_json (take (clamp_limit limit)
      (order_by_desc pr_updated_at (filter (\<lambda>r. pr_session_id r = sid) (plan_rows s))))"

definition list_plans_by_status :: "string list \<Rightarrow> int \<Rightarrow> plan_db \<Rightarrow> dict list" where
  "list_plans_by_status statuses limit s =
    map pr_json (take (clamp_limit limit)
      (order_by pr_updated_at (filter (\<lambda>r. pr_status r \<in> set statuses) (plan_rows s))))"

text \<open>\<open>delete_plan\<close> on the two tables; it returns whether there was a row.\<close>

definition delete_plan :: "string \<Rightarrow> plan_db \<Rightarrow> bool \<times> plan_db" where
  "delete_plan pid s =
    (0 < sql_count (\<lambda>r. pr_plan_id r = pid) (plan_rows s),
     s\<lparr>plan_task_rows := sql_delete (\<lambda>r. ptr_plan_id r = pid) (plan_task_rows s),
       plan_rows := sql_delete (\<lambda>r. pr_plan_id r = pid) (plan_rows s)\<rparr>)"

section \<open>Reading and saving\<close>

definition pm_get :: "string \<Rightarrow> plan_db \<Rightarrow> plan_error + plan option" where
  "pm_get pid s =
    (case get_plan pid s of
       None \<Rightarrow> Inr None
     | Some d \<Rightarrow> if d = [] then Inr None
         else bindE (plan_from_dict (p_clock s) d) (\<lambda>p. Inr (Some p)))"

definition pm_require :: "string \<Rightarrow> plan_db \<Rightarrow> plan_error + plan" where
  "pm_require pid s = bindE (pm_get pid s) (of_option UnknownPlan)"

definition pm_save :: "plan \<Rightarrow> string \<Rightarrow> dict \<Rightarrow> plan_db \<Rightarrow> plan_db" where
  "pm_save p event_type data s =
    save_plan p
      \<lparr>ev_type = event_type, ev_created_at = p_clock s, ev_session_id = p_session_id p,
       ev_data = dmerge [(''plan_id'', JStr (p_id p)),
         (''status'', JStr (plan_status_value (p_status p))),
         (''progress'', JFloat (progress p))] data\<rparr> s"

definition pm_list :: "string \<Rightarrow> int \<Rightarrow> bool \<Rightarrow> plan_db \<Rightarrow> plan_error + plan list" where
  "pm_list sid limit include_archived s =
    bindE (map_E (plan_from_dict (p_clock s)) (list_plans sid limit s)) (\<lambda>plans.
      Inr (if include_archived then plans else filter (\<lambda>p. p_archived_at p = None) plans))"

definition pm_list_recoverable :: "int \<Rightarrow> plan_db \<Rightarrow> plan_error + plan list" where
  "pm_list_recoverable limit s =
    map_E (plan_from_dict (p_clock s))
      (list_plans_by_status (map plan_status_value [P_APPROVED, P_ACTIVE]) limit s)"

section \<open>Scheduling\<close>

text \<open>All dependencies completed; an unknown one cannot occur in a plan (\<open>plan_ok\<close>).\<close>

definition status_of_task :: "plan_task list \<Rightarrow> string \<Rightarrow> task_status option" where
  "status_of_task tasks tid = map_option pt_status (lookup_row pt_id tid tasks)"

definition deps_completed :: "plan_task list \<Rightarrow> plan_task \<Rightarrow> bool" where
  "deps_completed tasks t \<longleftrightarrow>
    (\<forall>d \<in> set (pt_depends_on t). status_of_task tasks d = Some PT_COMPLETED)"

definition becomes_ready :: "plan_task list \<Rightarrow> plan_task \<Rightarrow> bool" where
  "becomes_ready tasks t \<longleftrightarrow> pt_status t = PT_PENDING \<and> deps_completed tasks t"

definition refresh_ready :: "nat \<Rightarrow> plan \<Rightarrow> plan" where
  "refresh_ready now p =
    (if \<exists>t \<in> set (p_tasks p). becomes_ready (p_tasks p) t
     then p\<lparr>p_tasks := sql_update (becomes_ready (p_tasks p))
              (\<lambda>t. t\<lparr>pt_status := PT_READY, pt_updated_at := now\<rparr>) (p_tasks p),
            p_updated_at := now\<rparr>
     else p)"

text \<open>
  The worklist of \<open>_block_downstream\<close>. Python pops an arbitrary element of the set; the
  model takes the first one of a list without duplicates.
\<close>

definition dependents :: "string \<Rightarrow> plan_task list \<Rightarrow> string list" where
  "dependents tid tasks = map pt_id (filter (\<lambda>t. tid \<in> set (pt_depends_on t)) tasks)"

definition block_task :: "string \<Rightarrow> nat \<Rightarrow> plan_task \<Rightarrow> plan_task" where
  "block_task message now t =
    t\<lparr>pt_status := PT_BLOCKED,
      pt_blocked_reason := Some [(''type'', JStr ''dependency_failed''), (''message'', JStr message)],
      pt_updated_at := now\<rparr>"

function block_loop ::
  "string \<Rightarrow> nat \<Rightarrow> plan_task list \<Rightarrow> string list \<Rightarrow> plan_error + plan_task list" where
  "block_loop message now tasks [] = Inr tasks"
| "block_loop message now tasks (current # rest) =
    (case lookup_row pt_id current tasks of
       None \<Rightarrow> Inl UnknownPlanTask
     | Some t \<Rightarrow>
         if pt_status t = PT_PENDING then
           block_loop message now
             (sql_update (\<lambda>t. pt_id t = current) (block_task message now) tasks)
             (rest @ filter (\<lambda>x. x \<notin> set rest) (dependents current tasks))
         else block_loop message now tasks rest)"
  by pat_completeness auto

lemma sql_count_update_less:
  "\<exists>r \<in> set rows. P r \<and> Q r \<Longrightarrow> (\<And>r. \<not> Q (f r)) \<Longrightarrow> sql_count Q (sql_update P f rows) < sql_count Q rows"
proof (induction rows)
  case (Cons r rows)
  have "sql_count Q (sql_update P f rows) \<le> sql_count Q rows"
    by (rule sql_count_update_le) (use Cons.prems(2) in blast)
  with Cons show ?case by (cases "P r \<and> Q r") auto
qed simp

termination block_loop
proof (relation "measures [\<lambda>(m, now, tasks, work). sql_count (\<lambda>t. pt_status t = PT_PENDING) tasks,
    \<lambda>(m, now, tasks, work). length work]", goal_cases)
  case (2 message now tasks current rest t)
  then have "sql_count (\<lambda>t. pt_status t = PT_PENDING)
      (sql_update (\<lambda>t. pt_id t = current) (block_task message now) tasks) <
    sql_count (\<lambda>t. pt_status t = PT_PENDING) tasks"
    by (intro sql_count_update_less) (auto simp: block_task_def dest: lookup_row_Some)
  then show ?case by simp
qed auto

definition block_downstream :: "nat \<Rightarrow> string \<Rightarrow> string \<Rightarrow> plan \<Rightarrow> plan_error + plan" where
  "block_downstream now failed_id reason p =
    bindE (block_loop (if reason = [] then failed_id else reason) now (p_tasks p)
        (dependents failed_id (p_tasks p)))
      (\<lambda>tasks. Inr (p\<lparr>p_tasks := tasks\<rparr>))"

definition refresh_terminal :: "nat \<Rightarrow> plan \<Rightarrow> plan" where
  "refresh_terminal now p =
    (if \<not> list_all task_is_terminal (p_tasks p) then p
     else p\<lparr>p_status := (if list_all (\<lambda>t. pt_status t = PT_COMPLETED) (p_tasks p)
                          then P_COMPLETED else P_FAILED),
            p_updated_at := now\<rparr>)"

end
