(* ===== verification/Plan_Ops.thy ===== *)
theory Plan_Ops
  imports Plan_Manager
begin

text \<open>
  The operations of \<open>PlanManager\<close>: previews built from the steps a model proposed,
  approval, activation, pausing, cancelling, the hand-out of tasks, their results, and the
  removal of terminal plans. \<open>exec_plan\<close> is the set of requests the program can make.
\<close>

section \<open>Previews\<close>

text \<open>
  \<open>float\<close> and \<open>int\<close> of a string and \<open>str\<close> of a value that is not a string: functions of
  Python's number and object printing, kept as parameters.
\<close>

record py_conv =
  parse_float :: "string \<Rightarrow> rat option"
  parse_int :: "string \<Rightarrow> int option"
  show_json :: "json \<Rightarrow> string"

definition conv_float :: "py_conv \<Rightarrow> json \<Rightarrow> plan_error + rat" where
  "conv_float c v = (case v of JStr x \<Rightarrow> of_option PlanTypeError (parse_float c x) | _ \<Rightarrow> read_float v)"

definition conv_int :: "py_conv \<Rightarrow> json \<Rightarrow> plan_error + int" where
  "conv_int c v = (case v of JStr x \<Rightarrow> of_option PlanTypeError (parse_int c x) | _ \<Rightarrow> read_int v)"

definition conv_str :: "py_conv \<Rightarrow> json \<Rightarrow> string" where
  "conv_str c v = (case v of JStr x \<Rightarrow> x | _ \<Rightarrow> show_json c v)"

definition step_id :: "py_conv \<Rightarrow> dict \<Rightarrow> nat \<Rightarrow> string" where
  "step_id c raw index =
    strip (if truthy (dget raw ''id'') then conv_str c (dget raw ''id'') else ''step_'' @ dec_digits index)"

text \<open>Without an explicit list a step depends on the step before it.\<close>

definition step_depends :: "dict \<Rightarrow> string option \<Rightarrow> plan_error + string list" where
  "step_depends raw previous =
    (case dget raw ''depends_on'' of
       JNull \<Rightarrow> Inr (case previous of None \<Rightarrow> [] | Some x \<Rightarrow> if x = [] then [] else [x])
     | JList xs \<Rightarrow>
         (if \<forall>x \<in> set xs. case x of JStr _ \<Rightarrow> True | _ \<Rightarrow> False then map_E read_str xs else Inl DependsNotStrings)
     | _ \<Rightarrow> Inl DependsNotStrings)"

definition step_task ::
  "py_conv \<Rightarrow> nat \<Rightarrow> nat \<Rightarrow> string option \<Rightarrow> json \<Rightarrow> plan_error + plan_task" where
  "step_task c now index previous v =
    (case v of
       JObj raw \<Rightarrow>
         (case dget raw ''description'' of
            JStr descr \<Rightarrow>
              (if strip descr = [] then Inl DescriptionRequired
               else
                 bindE (step_depends raw previous) (\<lambda>depends.
                 bindE (conv_float c (dfield raw ''weight'' (JInt 1))) (\<lambda>weight.
                 bindE (conv_int c (dfield raw ''retry_limit'' (JInt 0))) (\<lambda>retry.
                 bindE (read_list (dfield raw ''acceptance'' (JList []))) (\<lambda>acceptance.
                 plan_task_post_init
                   \<lparr>pt_id = step_id c raw index, pt_description = descr, pt_depends_on = depends,
                    pt_status = PT_PENDING, pt_weight = weight, pt_acceptance = acceptance,
                    pt_retry_limit = retry, pt_attempts = 0, pt_task_id = None,
                    pt_result_summary = [], pt_artifact_ids = [], pt_quality_report = [],
                    pt_blocked_reason = None, pt_created_at = now, pt_updated_at = now\<rparr>)))))
          | _ \<Rightarrow> Inl DescriptionRequired)
     | _ \<Rightarrow> Inl StepNotObject)"

fun steps_tasks ::
  "py_conv \<Rightarrow> nat \<Rightarrow> nat \<Rightarrow> string option \<Rightarrow> json list \<Rightarrow> plan_error + plan_task list" where
  "steps_tasks c now index previous [] = Inr []"
| "steps_tasks c now index previous (v # vs) =
    bindE (step_task c now index previous v) (\<lambda>task.
    bindE (steps_tasks c now (Suc index) (Some (pt_id task)) vs) (\<lambda>tasks.
    Inr (task # tasks)))"

definition tasks_from_raw :: "py_conv \<Rightarrow> nat \<Rightarrow> json \<Rightarrow> plan_error + plan_task list" where
  "tasks_from_raw c now raw =
    (case raw of
       JObj d \<Rightarrow>
         (case dget d ''steps'' of
            JList steps \<Rightarrow>
              bindE (steps_tasks c now 1 None steps) (\<lambda>tasks.
                if tasks = [] then Inl NoTasks else Inr tasks)
          | _ \<Rightarrow> Inl StepsRequired)
     | _ \<Rightarrow> Inl StepsRequired)"

definition create_preview ::
  "py_conv \<Rightarrow> string \<Rightarrow> json \<Rightarrow> string \<Rightarrow> string \<Rightarrow> string option \<Rightarrow> plan_db
    \<Rightarrow> plan_error + plan \<times> plan_db" where
  "create_preview c sid raw source_prompt title goal_id s =
    (let now = p_clock s in
     bindE (tasks_from_raw c now raw) (\<lambda>tasks.
     bindE (plan_post_init
         \<lparr>p_id = ''plan_'' @ p_token s (p_next s), p_session_id = sid, p_title = title,
          p_tasks = tasks, p_status = P_DRAFT, p_version = 1, p_goal_id = goal_id,
          p_source_prompt = source_prompt, p_approved_at = None, p_approval_actor = None,
          p_archived_at = None, p_created_at = now, p_updated_at = now\<rparr>) (\<lambda>p.
     let s1 = pm_save p ''plan.created'' [] (s\<lparr>p_next := Suc (p_next s)\<rparr>) in
     bindE (plan_transition P_AWAITING_APPROVAL now p) (\<lambda>p1.
     Inr (p1, pm_save p1 ''plan.awaiting_approval'' [] s1)))))"

section \<open>Life cycle\<close>

definition approve :: "string \<Rightarrow> string \<Rightarrow> plan_db \<Rightarrow> plan_error + plan \<times> plan_db" where
  "approve pid actor s =
    bindE (pm_require pid s) (\<lambda>p.
    bindE (plan_transition P_APPROVED (p_clock s) p) (\<lambda>p1.
    let p2 = p1\<lparr>p_approval_actor := Some actor, p_approved_at := Some (p_clock s)\<rparr>
    in Inr (p2, pm_save p2 ''plan.approved'' [(''actor'', JStr actor)] s)))"

definition activate :: "string \<Rightarrow> plan_db \<Rightarrow> plan_error + plan \<times> plan_db" where
  "activate pid s =
    bindE (pm_require pid s) (\<lambda>p.
    bindE (plan_transition P_ACTIVE (p_clock s) p) (\<lambda>p1.
    let p2 = refresh_terminal (p_clock s) (refresh_ready (p_clock s) p1);
        event = (if p_status p2 = P_ACTIVE then ''plan.active''
                 else ''plan.'' @ plan_status_value (p_status p2))
    in Inr (p2, pm_save p2 event [] s)))"

definition pause :: "string \<Rightarrow> plan_db \<Rightarrow> plan_error + plan \<times> plan_db" where
  "pause pid s =
    bindE (pm_require pid s) (\<lambda>p.
    bindE (plan_transition P_PAUSED (p_clock s) p) (\<lambda>p1.
    Inr (p1, pm_save p1 ''plan.paused'' [] s)))"

definition cancel :: "string \<Rightarrow> plan_db \<Rightarrow> plan_error + plan \<times> plan_db" where
  "cancel pid s =
    bindE (pm_require pid s) (\<lambda>p.
    bindE (plan_transition P_CANCELLED (p_clock s) p) (\<lambda>p1.
    let p2 = p1\<lparr>p_tasks := sql_update (\<lambda>t. \<not> task_is_terminal t)
          (\<lambda>t. t\<lparr>pt_status := PT_CANCELLED, pt_updated_at := p_clock s\<rparr>) (p_tasks p1)\<rparr>
    in Inr (p2, pm_save p2 ''plan.cancelled'' [] s)))"

section \<open>Tasks\<close>

definition ready_tasks :: "string \<Rightarrow> plan_db \<Rightarrow> plan_error + plan_task list" where
  "ready_tasks pid s =
    bindE (pm_require pid s) (\<lambda>p.
      if p_status p \<noteq> P_ACTIVE then Inr []
      else Inr (filter (\<lambda>t. pt_status t = PT_READY) (p_tasks (refresh_ready (p_clock s) p))))"

definition set_task :: "string \<Rightarrow> (plan_task \<Rightarrow> plan_task) \<Rightarrow> plan \<Rightarrow> plan" where
  "set_task tid f p = p\<lparr>p_tasks := sql_update (\<lambda>t. pt_id t = tid) f (p_tasks p)\<rparr>"

definition task_event :: "plan_task \<Rightarrow> dict" where
  "task_event t = [(''plan_task_id'', JStr (pt_id t)), (''task_id'', jopt JStr (pt_task_id t))]"

definition assign_task ::
  "string \<Rightarrow> string \<Rightarrow> string \<Rightarrow> plan_db \<Rightarrow> plan_error + plan \<times> plan_db" where
  "assign_task pid tid task_id s =
    bindE (pm_require pid s) (\<lambda>p.
      if p_status p \<noteq> P_ACTIVE then Inl PlanNotActive
      else bindE (find_task p tid) (\<lambda>t.
        if pt_status t \<noteq> PT_READY then Inl TaskNotReady
        else
          (let f = (\<lambda>t. t\<lparr>pt_status := PT_ASSIGNED, pt_task_id := Some task_id,
                          pt_attempts := pt_attempts t + 1, pt_updated_at := p_clock s\<rparr>);
               p1 = set_task tid f p
           in Inr (p1, pm_save p1 ''plan.task_assigned'' (task_event (f t)) s))))"

definition start_task :: "string \<Rightarrow> string \<Rightarrow> plan_db \<Rightarrow> plan_error + plan \<times> plan_db" where
  "start_task pid tid s =
    bindE (pm_require pid s) (\<lambda>p.
    bindE (find_task p tid) (\<lambda>t.
      if pt_status t \<noteq> PT_ASSIGNED then Inl TaskNotAssigned
      else
        (let f = (\<lambda>t. t\<lparr>pt_status := PT_IN_PROGRESS, pt_updated_at := p_clock s\<rparr>);
             p1 = set_task tid f p
         in Inr (p1, pm_save p1 ''plan.task_started'' (task_event (f t)) s))))"

text \<open>\<open>list(dict.fromkeys(xs))\<close>: the first occurrence of every element.\<close>

definition fromkeys :: "'a list \<Rightarrow> 'a list" where
  "fromkeys xs = rev (remdups (rev xs))"

record finish_args =
  fa_success :: bool
  fa_summary :: string
  fa_blocked_reason :: "dict option"
  fa_artifact_ids :: "string list option"
  fa_quality_report :: "json list option"

definition record_result :: "finish_args \<Rightarrow> nat \<Rightarrow> plan_task \<Rightarrow> plan_task" where
  "record_result a now t =
    t\<lparr>pt_result_summary := fa_summary a,
      pt_artifact_ids := (case fa_artifact_ids a of None \<Rightarrow> pt_artifact_ids t | Some xs \<Rightarrow> fromkeys xs),
      pt_quality_report := (case fa_quality_report a of None \<Rightarrow> pt_quality_report t | Some xs \<Rightarrow> xs),
      pt_updated_at := now\<rparr>"

definition has_reason :: "dict option \<Rightarrow> bool" where
  "has_reason r \<longleftrightarrow> (case r of None \<Rightarrow> False | Some d \<Rightarrow> d \<noteq> [])"

text \<open>The three outcomes: completed, ready for another attempt, or failed for good.\<close>

definition settle_task ::
  "finish_args \<Rightarrow> nat \<Rightarrow> string \<Rightarrow> plan_task \<Rightarrow> plan \<Rightarrow> plan_error + plan \<times> string" where
  "settle_task a now tid t p =
    (if fa_success a then
       Inr (set_task tid (\<lambda>t. (record_result a now t)
         \<lparr>pt_status := PT_COMPLETED, pt_blocked_reason := None\<rparr>) p, ''plan.task_completed'')
     else if pt_attempts t \<le> pt_retry_limit t then
       Inr (set_task tid (\<lambda>t. (record_result a now t)
         \<lparr>pt_status := PT_READY, pt_blocked_reason := None\<rparr>) p, ''plan.task_retry_ready'')
     else
       bindE (block_downstream now tid (fa_summary a)
           (set_task tid (\<lambda>t. (record_result a now t)
             \<lparr>pt_status := (if has_reason (fa_blocked_reason a) then PT_BLOCKED else PT_FAILED),
              pt_blocked_reason := fa_blocked_reason a\<rparr>) p))
         (\<lambda>p1. Inr (p1, if has_reason (fa_blocked_reason a) then ''plan.task_blocked''
                        else ''plan.task_failed'')))"

definition task_running :: "plan_task \<Rightarrow> bool" where
  "task_running t \<longleftrightarrow> pt_status t \<in> {PT_ASSIGNED, PT_IN_PROGRESS, PT_WAITING}"

definition finish_task ::
  "string \<Rightarrow> string \<Rightarrow> finish_args \<Rightarrow> plan_db \<Rightarrow> plan_error + plan \<times> plan_db" where
  "finish_task pid tid a s =
    bindE (pm_require pid s) (\<lambda>p.
      if plan_terminal (p_status p) then Inr (p, s)
      else if p_status p \<notin> {P_ACTIVE, P_PAUSED} then Inl PlanNotRunning
      else bindE (find_task p tid) (\<lambda>t.
        if \<not> task_running t then Inl TaskNotRunning
        else bindE (settle_task a (p_clock s) tid t p) (\<lambda>(p1, event).
          let p2 = refresh_ready (p_clock s) p1;
              p3 = (if p_status p2 = P_ACTIVE then refresh_terminal (p_clock s) p2 else p2)
          in Inr (p3, pm_save p3 event (task_event t) s))))"

section \<open>Removal\<close>

definition archive_terminal :: "string \<Rightarrow> plan_db \<Rightarrow> plan_error + plan \<times> plan_db" where
  "archive_terminal pid s =
    bindE (pm_require pid s) (\<lambda>p.
      if \<not> plan_is_terminal p then Inl NotTerminalPlan
      else Inr (p, snd (delete_plan pid s)))"

text \<open>One pass over the listed plans: the number deleted and whether a terminal one was seen.\<close>

fun archive_pass :: "plan list \<Rightarrow> plan_db \<Rightarrow> nat \<times> plan_db" where
  "archive_pass [] s = (0, s)"
| "archive_pass (p # ps) s =
    (if \<not> plan_is_terminal p then archive_pass ps s
     else (let (deleted, s1) = delete_plan (p_id p) s; (n, s2) = archive_pass ps s1
           in ((if deleted then 1 else 0) + n, s2)))"

section \<open>Prior summaries\<close>

text \<open>The last \<open>max_items\<close> results of other completed tasks; empty when there is none.\<close>

definition prior_summaries :: "plan \<Rightarrow> string \<Rightarrow> int \<Rightarrow> (string \<times> string) list" where
  "prior_summaries p tid max_items =
    (let k = nat (max 1 max_items);
         prior = map (\<lambda>t. (pt_id t, take 500 (strip (pt_result_summary t))))
           (filter (\<lambda>t. pt_id t \<noteq> tid \<and> pt_status t = PT_COMPLETED \<and> strip (pt_result_summary t) \<noteq> [])
             (p_tasks p))
     in drop (length prior - k) prior)"

section \<open>Requests\<close>

datatype plan_op =
    PreviewPlan py_conv string json string string "string option"
  | ApprovePlan string string
  | ActivatePlan string
  | PausePlan string
  | CancelPlan string
  | AssignTask string string string
  | StartTask string string
  | FinishTask string string finish_args
  | ArchivePlan string
  | PlanTime nat

fun exec_plan :: "plan_op \<Rightarrow> plan_db \<Rightarrow> plan_error + plan_db" where
  "exec_plan (PreviewPlan c sid raw prompt title goal) s =
    bindE (create_preview c sid raw prompt title goal s) (\<lambda>(_, s'). Inr s')"
| "exec_plan (ApprovePlan pid actor) s = bindE (approve pid actor s) (\<lambda>(_, s'). Inr s')"
| "exec_plan (ActivatePlan pid) s = bindE (activate pid s) (\<lambda>(_, s'). Inr s')"
| "exec_plan (PausePlan pid) s = bindE (pause pid s) (\<lambda>(_, s'). Inr s')"
| "exec_plan (CancelPlan pid) s = bindE (cancel pid s) (\<lambda>(_, s'). Inr s')"
| "exec_plan (AssignTask pid tid task) s = bindE (assign_task pid tid task s) (\<lambda>(_, s'). Inr s')"
| "exec_plan (StartTask pid tid) s = bindE (start_task pid tid s) (\<lambda>(_, s'). Inr s')"
| "exec_plan (FinishTask pid tid a) s = bindE (finish_task pid tid a s) (\<lambda>(_, s'). Inr s')"
| "exec_plan (ArchivePlan pid) s = bindE (archive_terminal pid s) (\<lambda>(_, s'). Inr s')"
| "exec_plan (PlanTime t) s = Inr (s\<lparr>p_clock := max t (p_clock s)\<rparr>)"

end
