(* ===== verification/Plan_Inv.thy ===== *)
theory Plan_Inv
  imports Plan_Ops
begin

text \<open>
  The invariant of a plan and that the scheduling steps keep it: what was started has its
  dependencies completed, attempts are within the retry limit, nothing waits for a task that
  cannot complete any more, and the status of the plan fits the statuses of its tasks.
\<close>

section \<open>Completed tasks\<close>

definition completed_ids :: "plan_task list \<Rightarrow> string set" where
  "completed_ids ts = {d. status_of_task ts d = Some PT_COMPLETED}"

lemma deps_completed_iff: "deps_completed ts t \<longleftrightarrow> set (pt_depends_on t) \<subseteq> completed_ids ts"
  by (auto simp: deps_completed_def completed_ids_def)

lemma status_of_task_in:
  assumes "distinct (map pt_id ts)" and "t \<in> set ts"
  shows "status_of_task ts (pt_id t) = Some (pt_status t)"
  using assms lookup_row_unique [of pt_id ts t] by (simp add: status_of_task_def unique_key_def)

lemma status_of_task_Some:
  "status_of_task ts d = Some st \<Longrightarrow> \<exists>t \<in> set ts. pt_id t = d \<and> pt_status t = st"
  by (auto simp: status_of_task_def dest: lookup_row_Some)

lemma status_of_task_update:
  assumes "\<And>t. pt_id (f t) = pt_id t"
  shows "status_of_task (sql_update P f ts) d =
    map_option (\<lambda>t. pt_status (if P t then f t else t)) (lookup_row pt_id d ts)"
  using assms by (auto simp: status_of_task_def lookup_row_update option.map_comp comp_def)

lemma status_of_task_updateD:
  assumes "status_of_task (sql_update P f ts) d = Some st" and "\<And>t. pt_id (f t) = pt_id t"
  shows "\<exists>t \<in> set ts. pt_id t = d \<and> status_of_task ts d = Some (pt_status t) \<and>
    st = pt_status (if P t then f t else t)"
  using assms(1) unfolding status_of_task_update [OF assms(2)]
  by (auto simp: status_of_task_def dest: lookup_row_Some)

text \<open>An update that moves no task out of the completed ones.\<close>

lemma completed_ids_update:
  assumes "\<And>t. pt_id (f t) = pt_id t"
    and "\<And>t. t \<in> set ts \<Longrightarrow> P t \<Longrightarrow> pt_status t = PT_COMPLETED \<Longrightarrow> pt_status (f t) = PT_COMPLETED"
  shows "completed_ids ts \<subseteq> completed_ids (sql_update P f ts)"
  using assms(2)
  by (auto simp: completed_ids_def status_of_task_update [OF assms(1)])
    (auto simp: status_of_task_def dest: lookup_row_Some)

lemma completed_ids_update_eq:
  assumes "\<And>t. pt_id (f t) = pt_id t"
    and "\<And>t. t \<in> set ts \<Longrightarrow> P t \<Longrightarrow> pt_status t \<noteq> PT_COMPLETED \<and> pt_status (f t) \<noteq> PT_COMPLETED"
  shows "completed_ids (sql_update P f ts) = completed_ids ts"
  using assms(2)
  by (auto simp: completed_ids_def status_of_task_update [OF assms(1)] split: if_splits)
    (auto simp: status_of_task_def dest: lookup_row_Some)

section \<open>The invariant of the tasks\<close>

definition task_started :: "plan_task \<Rightarrow> bool" where
  "task_started t \<longleftrightarrow> pt_status t \<in> {PT_READY, PT_ASSIGNED, PT_IN_PROGRESS, PT_WAITING, PT_COMPLETED}"

definition dead :: "task_status \<Rightarrow> bool" where
  "dead st \<longleftrightarrow> st \<in> {PT_FAILED, PT_BLOCKED, PT_CANCELLED}"

definition attempts_ok :: "plan_task \<Rightarrow> bool" where
  "attempts_ok t \<longleftrightarrow> 0 \<le> pt_attempts t \<and> pt_attempts t \<le> pt_retry_limit t + 1 \<and>
    (pt_status t = PT_READY \<longrightarrow> pt_attempts t \<le> pt_retry_limit t) \<and>
    (pt_status t = PT_PENDING \<longrightarrow> pt_attempts t = 0)"

definition tasks_inv :: "plan_task list \<Rightarrow> bool" where
  "tasks_inv ts \<longleftrightarrow> distinct (map pt_id ts) \<and>
    (\<forall>t \<in> set ts. task_started t \<longrightarrow> deps_completed ts t) \<and>
    (\<forall>t \<in> set ts. attempts_ok t \<and> 0 \<le> pt_retry_limit t)"

definition no_dead_end :: "plan_task list \<Rightarrow> bool" where
  "no_dead_end ts \<longleftrightarrow> (\<forall>t \<in> set ts. pt_status t = PT_PENDING \<longrightarrow>
    (\<forall>d \<in> set (pt_depends_on t). \<forall>st. status_of_task ts d = Some st \<longrightarrow> \<not> dead st))"

definition no_overdue :: "plan_task list \<Rightarrow> bool" where
  "no_overdue ts \<longleftrightarrow> (\<forall>t \<in> set ts. \<not> becomes_ready ts t)"

definition shape :: "plan_task \<Rightarrow> string \<times> string \<times> string list \<times> rat \<times> int" where
  "shape t = (pt_id t, pt_description t, pt_depends_on t, pt_weight t, pt_retry_limit t)"

lemma tasks_inv_update:
  assumes inv: "tasks_inv ts" and sh: "\<And>t. shape (f t) = shape t"
    and ok: "\<And>t. t \<in> set ts \<Longrightarrow> P t \<Longrightarrow> attempts_ok (f t)"
    and st: "\<And>t. t \<in> set ts \<Longrightarrow> P t \<Longrightarrow> task_started (f t) \<Longrightarrow> deps_completed ts t"
    and mono: "\<And>t. t \<in> set ts \<Longrightarrow> P t \<Longrightarrow> pt_status t = PT_COMPLETED \<Longrightarrow> pt_status (f t) = PT_COMPLETED"
  shows "tasks_inv (sql_update P f ts)"
proof -
  have s: "pt_id (f t) = pt_id t" "pt_depends_on (f t) = pt_depends_on t"
      "pt_retry_limit (f t) = pt_retry_limit t" for t
    using sh [of t] by (simp_all add: shape_def)
  have m: "completed_ids ts \<subseteq> completed_ids (sql_update P f ts)"
    by (rule completed_ids_update [OF s(1)]) (rule mono)
  show ?thesis
    unfolding tasks_inv_def
  proof (intro conjI ballI impI)
    show "distinct (map pt_id (sql_update P f ts))" using inv s by (simp add: tasks_inv_def)
  next
    fix t assume "t \<in> set (sql_update P f ts)" and "task_started t"
    then have "set (pt_depends_on t) \<subseteq> completed_ids ts"
    proof (cases rule: sql_updateE)
      case (changed r)
      with st [of r] \<open>task_started t\<close> s(2) [of r] show ?thesis by (simp add: deps_completed_iff)
    next
      case kept
      with inv \<open>task_started t\<close> show ?thesis by (simp add: tasks_inv_def deps_completed_iff)
    qed
    from subset_trans [OF this m] show "deps_completed (sql_update P f ts) t"
      by (simp only: deps_completed_iff)
  next
    fix t assume "t \<in> set (sql_update P f ts)"
    then show "attempts_ok t" "0 \<le> pt_retry_limit t"
      using inv ok s by (auto simp: tasks_inv_def elim: sql_updateE)
  qed
qed

section \<open>Making tasks ready\<close>

lemma refresh_ready_tasks:
  "p_tasks (refresh_ready now p) = sql_update (becomes_ready (p_tasks p))
    (\<lambda>t. t\<lparr>pt_status := PT_READY, pt_updated_at := now\<rparr>) (p_tasks p)"
  by (auto simp: refresh_ready_def sql_update_none)

lemma refresh_ready_frame [simp]:
  "p_status (refresh_ready now p) = p_status p" "p_id (refresh_ready now p) = p_id p"
  "p_session_id (refresh_ready now p) = p_session_id p" "p_title (refresh_ready now p) = p_title p"
  "p_version (refresh_ready now p) = p_version p"
  by (simp_all add: refresh_ready_def)

lemma refresh_ready_completed [simp]:
  "completed_ids (p_tasks (refresh_ready now p)) = completed_ids (p_tasks p)"
  unfolding refresh_ready_tasks by (rule completed_ids_update_eq) (auto simp: becomes_ready_def)

lemma refresh_ready_inv:
  assumes "tasks_inv (p_tasks p)"
  shows "tasks_inv (p_tasks (refresh_ready now p))"
  unfolding refresh_ready_tasks
  by (rule tasks_inv_update [OF assms])
    (use assms in \<open>auto simp: shape_def becomes_ready_def attempts_ok_def tasks_inv_def\<close>)

lemma refresh_ready_no_overdue: "no_overdue (p_tasks (refresh_ready now p))"
  unfolding no_overdue_def
proof (intro ballI notI)
  fix t assume t: "t \<in> set (p_tasks (refresh_ready now p))"
    and "becomes_ready (p_tasks (refresh_ready now p)) t"
  then have r: "pt_status t = PT_PENDING" "set (pt_depends_on t) \<subseteq> completed_ids (p_tasks p)"
    by (simp_all add: becomes_ready_def deps_completed_iff)
  from t r(1) have "t \<in> set (p_tasks p)" "\<not> becomes_ready (p_tasks p) t"
    unfolding refresh_ready_tasks by (elim sql_updateE; simp)+
  with r show False by (simp add: becomes_ready_def deps_completed_iff)
qed

lemma refresh_ready_no_dead_end:
  assumes "no_dead_end (p_tasks p)"
  shows "no_dead_end (p_tasks (refresh_ready now p))"
proof -
  have d: "dead st \<Longrightarrow> status_of_task (p_tasks (refresh_ready now p)) d = Some st \<Longrightarrow>
      status_of_task (p_tasks p) d = Some st" for d st
    unfolding refresh_ready_tasks
    by (drule status_of_task_updateD) (auto simp: dead_def split: if_splits)
  show ?thesis
    unfolding no_dead_end_def
  proof (intro ballI impI allI notI)
    fix t d st
    assume t: "t \<in> set (p_tasks (refresh_ready now p))" "pt_status t = PT_PENDING"
      and e: "d \<in> set (pt_depends_on t)"
        "status_of_task (p_tasks (refresh_ready now p)) d = Some st" "dead st"
    from t have "t \<in> set (p_tasks p)" unfolding refresh_ready_tasks by (elim sql_updateE; simp)+
    with assms t(2) e(1,3) d [OF e(3,2)] show False unfolding no_dead_end_def by blast
  qed
qed

section \<open>Blocking what waits for a failed task\<close>

text \<open>Some pending tasks became blocked, nothing else changed.\<close>

definition only_blocked :: "plan_task list \<Rightarrow> plan_task list \<Rightarrow> bool" where
  "only_blocked ts ts' \<longleftrightarrow>
    list_all2 (\<lambda>t t'. shape t' = shape t \<and> pt_attempts t' = pt_attempts t \<and>
      (t' = t \<or> pt_status t = PT_PENDING \<and> pt_status t' = PT_BLOCKED)) ts ts'"

lemma only_blocked_refl: "only_blocked ts ts"
  by (simp add: only_blocked_def list_all2_same)

lemma only_blocked_trans: "only_blocked a b \<Longrightarrow> only_blocked b c \<Longrightarrow> only_blocked a c"
  unfolding only_blocked_def by (rule list_all2_trans) auto

lemma only_blocked_step:
  assumes "\<And>t. t \<in> set ts \<Longrightarrow> pt_id t = current \<Longrightarrow> pt_status t = PT_PENDING"
  shows "only_blocked ts (sql_update (\<lambda>t. pt_id t = current) (block_task m now) ts)"
  using assms unfolding only_blocked_def
  by (induction ts) (auto simp: block_task_def shape_def)

lemma only_blocked_shape: "only_blocked ts ts' \<Longrightarrow> map shape ts' = map shape ts"
  unfolding only_blocked_def by (induction rule: list_all2_induct) auto

lemma map_shape_id: "map shape ts' = map shape ts \<Longrightarrow> map pt_id ts' = map pt_id ts"
proof -
  assume "map shape ts' = map shape ts"
  then have "map (fst \<circ> shape) ts' = map (fst \<circ> shape) ts" by (metis map_map)
  then show ?thesis by (simp add: shape_def comp_def)
qed

lemma only_blocked_back:
  assumes "only_blocked ts ts'" and "t' \<in> set ts'"
  shows "\<exists>t \<in> set ts. shape t' = shape t \<and> pt_attempts t' = pt_attempts t \<and>
    (t' = t \<or> pt_status t = PT_PENDING \<and> pt_status t' = PT_BLOCKED)"
  using assms unfolding only_blocked_def by (induction rule: list_all2_induct) auto

lemma only_blocked_status:
  assumes "only_blocked ts ts'"
  shows "status_of_task ts' d = status_of_task ts d \<or>
    status_of_task ts d = Some PT_PENDING \<and> status_of_task ts' d = Some PT_BLOCKED"
  using assms unfolding only_blocked_def
  by (induction rule: list_all2_induct) (auto simp: status_of_task_def shape_def)

lemma only_blocked_inv:
  assumes "only_blocked ts ts'" and "tasks_inv ts"
  shows "tasks_inv ts'"
proof -
  have "status_of_task ts' d = Some PT_COMPLETED \<longleftrightarrow> status_of_task ts d = Some PT_COMPLETED" for d
    using only_blocked_status [OF assms(1), of d] by auto
  then have c: "completed_ids ts' = completed_ids ts" by (simp add: completed_ids_def)
  have "distinct (map pt_id ts')"
    using map_shape_id [OF only_blocked_shape [OF assms(1)]] assms(2) by (simp add: tasks_inv_def)
  moreover have "task_started t' \<longrightarrow> deps_completed ts' t'" "attempts_ok t' \<and> 0 \<le> pt_retry_limit t'"
    if "t' \<in> set ts'" for t'
  proof -
    from only_blocked_back [OF assms(1) that] obtain t where t: "t \<in> set ts" "shape t' = shape t"
        "pt_attempts t' = pt_attempts t"
        "t' = t \<or> pt_status t = PT_PENDING \<and> pt_status t' = PT_BLOCKED" by blast
    then show "task_started t' \<longrightarrow> deps_completed ts' t'" "attempts_ok t' \<and> 0 \<le> pt_retry_limit t'"
      using assms(2) c
      by (auto simp: tasks_inv_def task_started_def deps_completed_iff attempts_ok_def shape_def)
  qed
  ultimately show ?thesis by (simp add: tasks_inv_def)
qed

lemma set_dependents: "set (dependents d ts) = {pt_id t |t. t \<in> set ts \<and> d \<in> set (pt_depends_on t)}"
  by (auto simp: dependents_def)

text \<open>Every pending task behind a dead one is on the worklist.\<close>

definition covers :: "string list \<Rightarrow> plan_task list \<Rightarrow> bool" where
  "covers work ts \<longleftrightarrow> (\<forall>t \<in> set ts. pt_status t = PT_PENDING \<longrightarrow>
    (\<forall>d \<in> set (pt_depends_on t). \<forall>st. status_of_task ts d = Some st \<longrightarrow> dead st \<longrightarrow>
      pt_id t \<in> set work))"

lemma covers_Nil: "covers [] ts \<longleftrightarrow> no_dead_end ts"
  by (auto simp: covers_def no_dead_end_def)

lemma block_loop_result:
  "set work \<subseteq> set (map pt_id ts) \<Longrightarrow> distinct (map pt_id ts) \<Longrightarrow> covers work ts \<Longrightarrow>
   \<exists>ts'. block_loop m now ts work = Inr ts' \<and> only_blocked ts ts' \<and> no_dead_end ts'"
proof (induction m now ts work rule: block_loop.induct)
  case (1 m now ts)
  then show ?case by (simp add: covers_Nil only_blocked_refl)
next
  case (2 m now ts current rest)
  from 2(3) have "lookup_row pt_id current ts \<noteq> None" by (simp add: lookup_row_None)
  then obtain t where l: "lookup_row pt_id current ts = Some t" by blast
  from lookup_row_Some [OF l] have t: "t \<in> set ts" "pt_id t = current" by auto
  have uniq: "x = t" if "x \<in> set ts" "pt_id x = current" for x
    using unique_key_eq [of pt_id ts x t] that t 2(4) by (simp add: unique_key_def)
  show ?case
  proof (cases "pt_status t = PT_PENDING")
    case False
    have "covers rest ts"
      using 2(5) False uniq by (fastforce simp: covers_def)
    with 2(2) [OF l False] 2(3,4) l False show ?thesis by simp
  next
    case True
    let ?ts = "sql_update (\<lambda>t. pt_id t = current) (block_task m now) ts"
    let ?work = "rest @ filter (\<lambda>x. x \<notin> set rest) (dependents current ts)"
    have ob: "only_blocked ts ?ts" by (rule only_blocked_step) (use uniq True in blast)
    note ids = map_shape_id [OF only_blocked_shape [OF ob]]
    have "set ?work \<subseteq> set (map pt_id ?ts)" using 2(3) by (auto simp: ids set_dependents)
    moreover have "distinct (map pt_id ?ts)" using 2(4) by (simp add: ids)
    moreover have "covers ?work ?ts"
      unfolding covers_def
    proof (intro ballI allI impI)
      fix t' d st
      assume t': "t' \<in> set ?ts" "pt_status t' = PT_PENDING"
        and d: "d \<in> set (pt_depends_on t')" "status_of_task ?ts d = Some st" "dead st"
      from t' have t'': "t' \<in> set ts" "pt_id t' \<noteq> current"
        by (elim sql_updateE; simp add: block_task_def)+
      show "pt_id t' \<in> set ?work"
      proof (cases "d = current")
        case True
        with t'' d(1) show ?thesis by (auto simp: set_dependents)
      next
        case False
        with status_of_task_updateD [OF d(2)] have "status_of_task ts d = Some st"
          by (auto simp: block_task_def)
        with 2(5) t'' t'(2) d have "pt_id t' \<in> set (current # rest)" unfolding covers_def by blast
        with t''(2) show ?thesis by simp
      qed
    qed
    ultimately obtain ts' where "block_loop m now ?ts ?work = Inr ts'" "only_blocked ?ts ts'"
        "no_dead_end ts'"
      using 2(1) [OF l True] by blast
    with l True only_blocked_trans [OF ob] show ?thesis by auto
  qed
qed

end
