(* ===== verification/Plan_Sound.thy ===== *)
theory Plan_Sound
  imports Plan_Inv
begin

text \<open>
  Every request to the plan manager keeps the invariant of the stored plans, as an
  interpretation of the machine contract, and terminal plans stay as they are, as an
  interpretation of the life cycle contract.
\<close>

section \<open>Plans of the same shape\<close>

definition same_frame :: "plan \<Rightarrow> plan \<Rightarrow> bool" where
  "same_frame p p' \<longleftrightarrow> p_id p' = p_id p \<and> p_session_id p' = p_session_id p \<and> p_title p' = p_title p \<and>
    p_version p' = p_version p \<and> map shape (p_tasks p') = map shape (p_tasks p)"

lemma same_frame_trans: "same_frame p q \<Longrightarrow> same_frame q r \<Longrightarrow> same_frame p r"
  by (simp add: same_frame_def)

lemma depends_shape: "depends ts = {(i, d). \<exists>x \<in> shape ` set ts. i = fst x \<and> d \<in> set (fst (snd (snd x)))}"
  by (auto simp: depends_def shape_def)

lemma deps_known_shape:
  "deps_known ts \<longleftrightarrow> (\<forall>x \<in> shape ` set ts. set (fst (snd (snd x))) \<subseteq> fst ` shape ` set ts)"
  by (auto simp: deps_known_def shape_def image_image)

lemma plan_task_ok_shape: "shape t' = shape t \<Longrightarrow> plan_task_ok t' = plan_task_ok t"
  by (auto simp: plan_task_ok_iff shape_def)

lemma tasks_ok_shape: "(\<forall>t \<in> set ts. plan_task_ok t) \<longleftrightarrow> (\<forall>x \<in> shape ` set ts. \<exists>t. shape t = x \<and> plan_task_ok t)"
  using plan_task_ok_shape by (metis imageE imageI)

lemma plan_ok_frame:
  assumes "plan_ok p" and "same_frame p p'"
  shows "plan_ok p'"
proof -
  from assms(2) have s: "map shape (p_tasks p') = map shape (p_tasks p)" by (simp add: same_frame_def)
  then have set: "shape ` set (p_tasks p') = shape ` set (p_tasks p)" by (metis set_map)
  have "p_tasks p' = [] \<longleftrightarrow> p_tasks p = []" using s by (metis map_is_Nil_conv)
  with assms map_shape_id [OF s] show ?thesis
    by (cases "strip (p_title p) = []")
      (simp_all add: plan_ok_iff same_frame_def depends_shape deps_known_shape tasks_ok_shape set)
qed

section \<open>The invariant of a plan\<close>

definition stage_inv :: "plan_status \<Rightarrow> plan_task list \<Rightarrow> bool" where
  "stage_inv st ts \<longleftrightarrow>
    (case st of
       P_ACTIVE \<Rightarrow> no_dead_end ts \<and> no_overdue ts \<and> \<not> list_all task_is_terminal ts
     | P_PAUSED \<Rightarrow> no_dead_end ts \<and> no_overdue ts
     | P_COMPLETED \<Rightarrow> list_all (\<lambda>t. pt_status t = PT_COMPLETED) ts
     | P_FAILED \<Rightarrow> list_all task_is_terminal ts \<and> \<not> list_all (\<lambda>t. pt_status t = PT_COMPLETED) ts
     | P_CANCELLED \<Rightarrow> list_all task_is_terminal ts
     | P_SUPERSEDED \<Rightarrow> False
     | _ \<Rightarrow> list_all (\<lambda>t. pt_status t = PT_PENDING) ts)"

definition plan_inv :: "plan \<Rightarrow> bool" where
  "plan_inv p \<longleftrightarrow> plan_ok p \<and> tasks_inv (p_tasks p) \<and> stage_inv (p_status p) (p_tasks p)"

lemma pending_tasks_inv:
  assumes "distinct (map pt_id ts)" and "list_all (\<lambda>t. pt_status t = PT_PENDING) ts"
    and "list_all (\<lambda>t. pt_attempts t = 0 \<and> 0 \<le> pt_retry_limit t) ts"
  shows "tasks_inv ts" and "no_dead_end ts"
  using assms
  by (auto simp: tasks_inv_def task_started_def attempts_ok_def list_all_iff no_dead_end_def dead_def
      dest: status_of_task_Some)

lemma refresh_ready_frame_shape: "same_frame p (refresh_ready now p)"
  by (simp add: same_frame_def refresh_ready_tasks shape_def)

lemma refresh_terminal_frame: "same_frame p (refresh_terminal now p)"
  "p_tasks (refresh_terminal now p) = p_tasks p"
  by (simp_all add: same_frame_def refresh_terminal_def)

lemma refresh_terminal_stage:
  assumes "no_dead_end (p_tasks p)" and "no_overdue (p_tasks p)" and "p_status p = P_ACTIVE"
  shows "stage_inv (p_status (refresh_terminal now p)) (p_tasks p)"
  using assms by (simp add: refresh_terminal_def stage_inv_def)

section \<open>The result of a task\<close>

lemma p_tasks_set_task: "p_tasks (set_task tid f p) = sql_update (\<lambda>t. pt_id t = tid) f (p_tasks p)"
  by (simp add: set_task_def)

lemma set_task_frame:
  assumes "\<And>t. shape (f t) = shape t"
  shows "same_frame p (set_task tid f p)"
  using assms by (simp add: same_frame_def set_task_def)

lemma find_task_Inr: "find_task p tid = Inr t \<longleftrightarrow> lookup_row pt_id tid (p_tasks p) = Some t"
  by (simp add: find_task_def)

lemma find_task_unique:
  assumes "find_task p tid = Inr t" and "tasks_inv (p_tasks p)"
  shows "t \<in> set (p_tasks p) \<and> pt_id t = tid \<and> (\<forall>x \<in> set (p_tasks p). pt_id x = tid \<longrightarrow> x = t)"
  using assms unique_key_eq [of pt_id "p_tasks p" _ t]
  by (auto simp: find_task_Inr tasks_inv_def unique_key_def dest: lookup_row_Some)

lemma find_task_status:
  assumes "find_task p tid = Inr t" and "tasks_inv (p_tasks p)"
  shows "status_of_task (p_tasks p) tid = Some (pt_status t)"
  using assms(1) by (simp add: find_task_Inr status_of_task_def)

lemma set_task_inv:
  assumes find: "find_task p tid = Inr t" and inv: "tasks_inv (p_tasks p)"
    and sh: "\<And>x. shape (f x) = shape x" and ok: "attempts_ok (f t)"
    and st: "task_started (f t) \<Longrightarrow> task_started t"
    and c: "pt_status t = PT_COMPLETED \<Longrightarrow> pt_status (f t) = PT_COMPLETED"
  shows "tasks_inv (p_tasks (set_task tid f p))"
proof -
  note u = find_task_unique [OF find inv]
  show ?thesis
    unfolding p_tasks_set_task
  proof (rule tasks_inv_update [OF inv sh])
    show "attempts_ok (f x)" if "x \<in> set (p_tasks p)" "pt_id x = tid" for x
      using u that ok by blast
    show "deps_completed (p_tasks p) x" if "x \<in> set (p_tasks p)" "pt_id x = tid" "task_started (f x)" for x
      using u that st inv by (auto simp: tasks_inv_def)
    show "pt_status (f x) = PT_COMPLETED"
      if "x \<in> set (p_tasks p)" "pt_id x = tid" "pt_status x = PT_COMPLETED" for x
      using u that c by blast
  qed
qed

text \<open>After one task changed, the pending tasks behind a dead one are those behind it.\<close>

lemma set_task_covers:
  assumes nd: "no_dead_end (p_tasks p)" and sh: "\<And>x. shape (f x) = shape x"
    and np: "\<And>x. pt_status (f x) \<noteq> PT_PENDING"
  shows "covers (dependents tid (p_tasks (set_task tid f p))) (p_tasks (set_task tid f p))"
  unfolding covers_def
proof (intro ballI allI impI)
  fix x d st
  assume x: "x \<in> set (p_tasks (set_task tid f p))" "pt_status x = PT_PENDING"
    and d: "d \<in> set (pt_depends_on x)" "status_of_task (p_tasks (set_task tid f p)) d = Some st" "dead st"
  have id: "pt_id (f y) = pt_id y" for y using sh [of y] by (simp add: shape_def)
  from x np have x': "x \<in> set (p_tasks p)" unfolding p_tasks_set_task by (elim sql_updateE; simp)
  show "pt_id x \<in> set (dependents tid (p_tasks (set_task tid f p)))"
  proof (cases "d = tid")
    case True
    with x d show ?thesis by (auto simp: set_dependents)
  next
    case False
    from status_of_task_updateD [of "\<lambda>t. pt_id t = tid" f "p_tasks p" d st, OF _ id] d(2) False
    have "status_of_task (p_tasks p) d = Some st" by (auto simp: set_task_def)
    with nd x' x(2) d show ?thesis unfolding no_dead_end_def by blast
  qed
qed

lemma set_task_no_dead_end:
  assumes nd: "no_dead_end (p_tasks p)" and sh: "\<And>x. shape (f x) = shape x"
    and np: "\<And>x. pt_status (f x) \<noteq> PT_PENDING \<and> \<not> dead (pt_status (f x))"
  shows "no_dead_end (p_tasks (set_task tid f p))"
  unfolding no_dead_end_def
proof (intro ballI allI impI notI)
  fix x d st
  assume x: "x \<in> set (p_tasks (set_task tid f p))" "pt_status x = PT_PENDING"
    and d: "d \<in> set (pt_depends_on x)" "status_of_task (p_tasks (set_task tid f p)) d = Some st" "dead st"
  have id: "pt_id (f y) = pt_id y" for y using sh [of y] by (simp add: shape_def)
  from x np have x': "x \<in> set (p_tasks p)" unfolding p_tasks_set_task by (elim sql_updateE; simp)
  from status_of_task_updateD [of "\<lambda>t. pt_id t = tid" f "p_tasks p" d st, OF _ id] d(2,3) np
  have "status_of_task (p_tasks p) d = Some st" by (auto simp: set_task_def split: if_splits)
  with nd x' x(2) d show False unfolding no_dead_end_def by blast
qed

lemma settle_task_inv:
  assumes find: "find_task p tid = Inr t" and run: "task_running t"
    and inv: "tasks_inv (p_tasks p)" and nd: "no_dead_end (p_tasks p)"
  shows "\<exists>p1 ev. settle_task a now tid t p = Inr (p1, ev) \<and> same_frame p p1 \<and>
    p_status p1 = p_status p \<and> tasks_inv (p_tasks p1) \<and> no_dead_end (p_tasks p1)"
proof -
  have ok: "attempts_ok t" using find_task_unique [OF find inv] inv by (auto simp: tasks_inv_def)
  have sh: "shape ((record_result a now x)\<lparr>pt_status := st, pt_blocked_reason := r\<rparr>) = shape x" for x st r
    by (simp add: record_result_def shape_def)
  have inv': "tasks_inv (p_tasks (set_task tid (\<lambda>x. (record_result a now x)
      \<lparr>pt_status := st, pt_blocked_reason := r\<rparr>) p))"
    if "st = PT_READY \<longrightarrow> pt_attempts t \<le> pt_retry_limit t" "st \<noteq> PT_PENDING" for st r
    by (rule set_task_inv [OF find inv sh])
      (use ok run that in \<open>auto simp: attempts_ok_def record_result_def task_running_def task_started_def\<close>)
  consider (success) "fa_success a" | (retry) "\<not> fa_success a" "pt_attempts t \<le> pt_retry_limit t"
    | (fail) "\<not> fa_success a" "\<not> pt_attempts t \<le> pt_retry_limit t" by blast
  then show ?thesis
  proof cases
    case success
    show ?thesis
      using inv' [of PT_COMPLETED None] set_task_frame [of "\<lambda>x. (record_result a now x)
          \<lparr>pt_status := PT_COMPLETED, pt_blocked_reason := None\<rparr>", OF sh]
        set_task_no_dead_end [OF nd, of "\<lambda>x. (record_result a now x)
          \<lparr>pt_status := PT_COMPLETED, pt_blocked_reason := None\<rparr>", OF sh]
      by (simp add: settle_task_def success dead_def) (simp add: set_task_def)
  next
    case retry
    show ?thesis
      using inv' [of PT_READY None] retry set_task_frame [of "\<lambda>x. (record_result a now x)
          \<lparr>pt_status := PT_READY, pt_blocked_reason := None\<rparr>", OF sh]
        set_task_no_dead_end [OF nd, of "\<lambda>x. (record_result a now x)
          \<lparr>pt_status := PT_READY, pt_blocked_reason := None\<rparr>", OF sh]
      by (simp add: settle_task_def dead_def) (simp add: set_task_def)
  next
    case fail
    define st where "st = (if has_reason (fa_blocked_reason a) then PT_BLOCKED else PT_FAILED)"
    define f where "f = (\<lambda>x. (record_result a now x)
        \<lparr>pt_status := st, pt_blocked_reason := fa_blocked_reason a\<rparr>)"
    have shf: "shape (f x) = shape x" for x by (simp add: f_def sh)
    let ?q = "set_task tid f p"
    have qi: "tasks_inv (p_tasks ?q)" using inv' [of st "fa_blocked_reason a"] by (simp add: f_def st_def)
    have cov: "covers (dependents tid (p_tasks ?q)) (p_tasks ?q)"
      by (rule set_task_covers [OF nd shf]) (simp add: f_def st_def)
    have sub: "set (dependents tid (p_tasks ?q)) \<subseteq> set (map pt_id (p_tasks ?q))"
      by (auto simp: set_dependents)
    obtain ts where "block_loop (if fa_summary a = [] then tid else fa_summary a) now (p_tasks ?q)
          (dependents tid (p_tasks ?q)) = Inr ts" "only_blocked (p_tasks ?q) ts" "no_dead_end ts"
      using block_loop_result [OF sub _ cov] qi unfolding tasks_inv_def by blast
    with fail set_task_frame [OF shf, of p tid] only_blocked_inv [OF _ qi]
      only_blocked_shape [of "p_tasks ?q" ts]
    show ?thesis
      by (simp add: settle_task_def block_downstream_def f_def [symmetric] st_def [symmetric]
          same_frame_def) (simp add: set_task_def)
  qed
qed

end
