(* ===== verification/Plan_Machine.thy ===== *)
theory Plan_Machine
  imports Plan_Sound
begin

text \<open>
  The plan tables as a machine: the rows represent a map from plan ids to plans that satisfy
  the invariant, every request keeps that, and a terminal plan is changed by no request but
  its removal. Plan ids are random; the model has them pairwise different.
\<close>

section \<open>Plan-level steps\<close>

lemma plan_transition_Inr:
  "plan_transition target t p = Inr p' \<longleftrightarrow>
    target \<in> plan_transitions (p_status p) \<and> p' = p\<lparr>p_status := target, p_updated_at := t\<rparr>"
  by (auto simp: plan_transition_def)

lemma in_transitions:
  "P_APPROVED \<in> plan_transitions st \<longleftrightarrow> st = P_AWAITING_APPROVAL"
  "P_AWAITING_APPROVAL \<in> plan_transitions st \<longleftrightarrow> st = P_DRAFT"
  "P_ACTIVE \<in> plan_transitions st \<longleftrightarrow> st \<in> {P_APPROVED, P_PAUSED}"
  "P_PAUSED \<in> plan_transitions st \<longleftrightarrow> st = P_ACTIVE"
  "P_CANCELLED \<in> plan_transitions st \<longleftrightarrow> \<not> plan_terminal st"
  by (cases st; simp add: plan_terminal_def)+

lemma plan_inv_frame:
  assumes "plan_inv p" and "same_frame p p'" and "p_tasks p' = p_tasks p"
    and "stage_inv (p_status p) (p_tasks p) \<Longrightarrow> stage_inv (p_status p') (p_tasks p)"
  shows "plan_inv p'"
  using assms plan_ok_frame by (auto simp: plan_inv_def)

lemma pending_no_dead_end: "list_all (\<lambda>t. pt_status t = PT_PENDING) ts \<Longrightarrow> no_dead_end ts"
  by (auto simp: list_all_iff no_dead_end_def dead_def dest: status_of_task_Some)

lemma activate_plan_inv:
  fixes now :: nat
  assumes "plan_inv p" and "P_ACTIVE \<in> plan_transitions (p_status p)"
  defines "q \<equiv> refresh_terminal now (refresh_ready now (p\<lparr>p_status := P_ACTIVE, p_updated_at := now\<rparr>))"
  shows "plan_inv q \<and> same_frame p q"
proof -
  let ?p = "p\<lparr>p_status := P_ACTIVE, p_updated_at := now\<rparr>"
  have "no_dead_end (p_tasks p)"
    using assms(1,2) by (auto simp: plan_inv_def stage_inv_def in_transitions intro: pending_no_dead_end)
  then have nd: "no_dead_end (p_tasks (refresh_ready now ?p))" by (simp add: refresh_ready_no_dead_end)
  have ti: "tasks_inv (p_tasks (refresh_ready now ?p))"
    using assms(1) by (simp add: plan_inv_def refresh_ready_inv)
  have "same_frame p ?p" by (simp add: same_frame_def)
  from same_frame_trans [OF this same_frame_trans [OF refresh_ready_frame_shape refresh_terminal_frame(1)]]
  have "same_frame p q" by (simp add: q_def)
  moreover from this assms(1) plan_ok_frame have "plan_ok q" by (auto simp: plan_inv_def)
  ultimately show ?thesis
    using refresh_terminal_stage [OF nd refresh_ready_no_overdue] ti
    by (simp add: plan_inv_def q_def refresh_terminal_frame)
qed

lemma cancel_plan_inv:
  fixes now :: nat
  assumes "plan_inv p"
  defines "q \<equiv> p\<lparr>p_status := P_CANCELLED, p_updated_at := now,
    p_tasks := sql_update (\<lambda>t. \<not> task_is_terminal t)
      (\<lambda>t. t\<lparr>pt_status := PT_CANCELLED, pt_updated_at := now\<rparr>) (p_tasks p)\<rparr>"
  shows "plan_inv q \<and> same_frame p q"
proof -
  have sf: "same_frame p q" by (simp add: same_frame_def shape_def q_def)
  have qt: "p_tasks q = sql_update (\<lambda>t. \<not> task_is_terminal t)
      (\<lambda>t. t\<lparr>pt_status := PT_CANCELLED, pt_updated_at := now\<rparr>) (p_tasks p)" by (simp add: q_def)
  have "tasks_inv (p_tasks q)"
    unfolding qt
    by (rule tasks_inv_update)
      (use assms(1) in \<open>auto simp: plan_inv_def tasks_inv_def shape_def attempts_ok_def task_started_def
        task_is_terminal_def task_terminal_def\<close>)
  moreover have "list_all task_is_terminal (p_tasks q)"
    by (auto simp: q_def list_all_iff task_is_terminal_def task_terminal_def elim!: sql_updateE)
  ultimately show ?thesis
    using assms(1) plan_ok_frame [OF _ sf] sf by (simp add: plan_inv_def stage_inv_def) (simp add: q_def)
qed

text \<open>A task that is neither pending nor terminal belongs to an active or a paused plan.\<close>

lemma live_task_stage:
  assumes "plan_inv p" and "t \<in> set (p_tasks p)" and "pt_status t \<noteq> PT_PENDING" and "\<not> task_is_terminal t"
  shows "p_status p \<in> {P_ACTIVE, P_PAUSED}"
  using assms by (cases "p_status p")
    (auto simp: plan_inv_def stage_inv_def list_all_iff task_is_terminal_def task_terminal_def)

lemma move_task_inv:
  assumes inv: "plan_inv p" and find: "find_task p tid = Inr t"
    and t: "pt_status t \<in> {PT_READY, PT_ASSIGNED}"
    and sh: "\<And>x. shape (f x) = shape x" and ok: "attempts_ok (f t)"
    and f: "\<And>x. pt_status (f x) \<in> {PT_ASSIGNED, PT_IN_PROGRESS}"
  shows "plan_inv (set_task tid f p) \<and> same_frame p (set_task tid f p)"
proof -
  have ti: "tasks_inv (p_tasks p)" using inv by (simp add: plan_inv_def)
  note u = find_task_unique [OF find ti]
  have live: "p_status p \<in> {P_ACTIVE, P_PAUSED}"
    using live_task_stage [OF inv, of t] u t by (auto simp: task_is_terminal_def task_terminal_def)
  have "tasks_inv (p_tasks (set_task tid f p))"
    by (rule set_task_inv [OF find ti sh ok]) (use t in \<open>auto simp: task_started_def\<close>)
  moreover have "no_dead_end (p_tasks (set_task tid f p))"
  proof (rule set_task_no_dead_end [OF _ sh])
    show "no_dead_end (p_tasks p)" using inv live by (auto simp: plan_inv_def stage_inv_def)
    show "pt_status (f x) \<noteq> PT_PENDING \<and> \<not> dead (pt_status (f x))" for x
      using f [of x] by (auto simp: dead_def)
  qed
  moreover have "no_overdue (p_tasks (set_task tid f p))"
    unfolding no_overdue_def
  proof (intro ballI notI)
    fix x assume x: "x \<in> set (p_tasks (set_task tid f p))"
      and b: "becomes_ready (p_tasks (set_task tid f p)) x"
    have "completed_ids (p_tasks (set_task tid f p)) = completed_ids (p_tasks p)"
      unfolding p_tasks_set_task
    proof (rule completed_ids_update_eq)
      show "pt_id (f y) = pt_id y" for y using sh [of y] by (simp add: shape_def)
      show "pt_status y \<noteq> PT_COMPLETED \<and> pt_status (f y) \<noteq> PT_COMPLETED"
        if "y \<in> set (p_tasks p)" "pt_id y = tid" for y
        using that u t f [of y] by auto
    qed
    with b have b': "becomes_ready (p_tasks p) x" by (simp add: becomes_ready_def deps_completed_iff)
    from x b have "x \<in> set (p_tasks p)"
      unfolding p_tasks_set_task
    proof (cases rule: sql_updateE)
      case (changed r)
      with f [of r] b show ?thesis by (auto simp: becomes_ready_def)
    qed
    with b' inv live show False by (auto simp: plan_inv_def stage_inv_def no_overdue_def)
  qed
  moreover have "\<not> list_all task_is_terminal (p_tasks (set_task tid f p))"
  proof -
    have "f t \<in> set (p_tasks (set_task tid f p))" using u by (force simp: p_tasks_set_task in_sql_update)
    moreover have "\<not> task_is_terminal (f t)"
      using f [of t] by (auto simp: task_is_terminal_def task_terminal_def)
    ultimately show ?thesis by (auto simp: list_all_iff)
  qed
  ultimately show ?thesis
    using live inv set_task_frame [OF sh, of p tid] plan_ok_frame [OF _ set_task_frame [OF sh]]
    by (auto simp: plan_inv_def stage_inv_def set_task_def)
qed

lemma finish_plan_inv:
  fixes now :: nat
  assumes inv: "plan_inv p" and find: "find_task p tid = Inr t" and run: "task_running t"
    and settle: "settle_task a now tid t p = Inr (p1, ev)"
  defines "q \<equiv> refresh_ready now p1"
  defines "r \<equiv> (if p_status q = P_ACTIVE then refresh_terminal now q else q)"
  shows "plan_inv r \<and> same_frame p r"
proof -
  have ti: "tasks_inv (p_tasks p)" using inv by (simp add: plan_inv_def)
  have live: "p_status p \<in> {P_ACTIVE, P_PAUSED}"
    using live_task_stage [OF inv, of t] find_task_unique [OF find ti] run
    by (auto simp: task_running_def task_is_terminal_def task_terminal_def)
  then have "no_dead_end (p_tasks p)" using inv by (auto simp: plan_inv_def stage_inv_def)
  from settle_task_inv [OF find run ti this, of a now] settle
  have s: "same_frame p p1" "p_status p1 = p_status p" "tasks_inv (p_tasks p1)" "no_dead_end (p_tasks p1)"
    by auto
  have q: "tasks_inv (p_tasks q)" "no_dead_end (p_tasks q)" "no_overdue (p_tasks q)" "p_status q = p_status p"
    using s by (simp_all add: q_def refresh_ready_inv refresh_ready_no_dead_end refresh_ready_no_overdue)
  have "same_frame p q" using same_frame_trans [OF s(1) refresh_ready_frame_shape] by (simp add: q_def)
  then have sf: "same_frame p r"
    using same_frame_trans [OF _ refresh_terminal_frame(1)] by (simp add: r_def)
  moreover have "p_tasks r = p_tasks q" by (simp add: r_def refresh_terminal_frame)
  moreover have "stage_inv (p_status r) (p_tasks q)"
    using live q refresh_terminal_stage [OF q(2,3), of now] by (auto simp: r_def stage_inv_def)
  ultimately show ?thesis
    using q(1) inv plan_ok_frame by (auto simp: plan_inv_def)
qed

section \<open>The tables as a map of plans\<close>

definition plan_at :: "string \<Rightarrow> plan_db \<Rightarrow> plan option" where
  "plan_at pid s =
    (case lookup_row pr_plan_id pid (plan_rows s) of
       None \<Rightarrow> None
     | Some r \<Rightarrow> (case plan_from_dict 0 (pr_json r) of Inl _ \<Rightarrow> None | Inr p \<Rightarrow> Some p))"

definition row_ok :: "plan_row \<Rightarrow> bool" where
  "row_ok r \<longleftrightarrow> (\<exists>p. pr_json r = plan_to_dict p \<and> p_id p = pr_plan_id r \<and>
    pr_status r = plan_status_value (p_status p) \<and> plan_inv p)"

definition plan_db_inv :: "plan_db \<Rightarrow> bool" where
  "plan_db_inv s \<longleftrightarrow> unique_key pr_plan_id (plan_rows s) \<and> (\<forall>r \<in> set (plan_rows s). row_ok r) \<and>
    inj (p_token s) \<and>
    (\<forall>r \<in> set (plan_rows s). \<exists>n < p_next s. pr_plan_id r = ''plan_'' @ p_token s n)"

lemma plan_inv_round_trip: "plan_inv p \<Longrightarrow> plan_from_dict now (plan_to_dict p) = Inr p"
  by (simp add: plan_inv_def plan_round_trip_ok)

lemma row_plan:
  assumes "row_ok r"
  obtains p where "\<And>now. plan_from_dict now (pr_json r) = Inr p" "p_id p = pr_plan_id r"
    "pr_status r = plan_status_value (p_status p)" "plan_inv p" "pr_json r \<noteq> []"
proof -
  obtain p where p: "pr_json r = plan_to_dict p" "p_id p = pr_plan_id r"
      "pr_status r = plan_status_value (p_status p)" "plan_inv p"
    using assms unfolding row_ok_def by blast
  moreover have "plan_to_dict p \<noteq> []" by (simp add: plan_to_dict_def)
  ultimately show thesis using that [of p] plan_inv_round_trip [OF p(4)] by simp
qed

lemma pm_get_eq:
  assumes "plan_db_inv s"
  shows "pm_get pid s = Inr (plan_at pid s)"
proof (cases "lookup_row pr_plan_id pid (plan_rows s)")
  case None
  then show ?thesis by (simp add: pm_get_def get_plan_def plan_at_def)
next
  case (Some r)
  with assms have "row_ok r" by (auto simp: plan_db_inv_def dest: lookup_row_Some)
  with Some show ?thesis by (elim row_plan) (simp add: pm_get_def get_plan_def plan_at_def)
qed

lemma pm_require_Inr: "plan_db_inv s \<Longrightarrow> pm_require pid s = Inr p \<longleftrightarrow> plan_at pid s = Some p"
  by (simp add: pm_require_def pm_get_eq)

lemma plan_at_inv:
  assumes "plan_db_inv s" and "plan_at pid s = Some p"
  shows "plan_inv p \<and> p_id p = pid"
proof -
  obtain r where r: "lookup_row pr_plan_id pid (plan_rows s) = Some r" "plan_from_dict 0 (pr_json r) = Inr p"
    using assms(2) by (auto simp: plan_at_def split: option.splits sum.splits)
  with assms(1) have "row_ok r" "pr_plan_id r = pid" by (auto simp: plan_db_inv_def dest: lookup_row_Some)
  with r(2) show ?thesis by (elim row_plan) auto
qed

lemma plan_at_row: "plan_at pid s = Some p \<Longrightarrow> pid \<in> set (map pr_plan_id (plan_rows s))"
  using lookup_row_None [of pr_plan_id pid "plan_rows s"] by (auto simp: plan_at_def split: option.splits)

lemma plan_rows_save: "plan_rows (pm_save p ev d s) = upsert_plan_row p (plan_rows s)"
  by (simp add: pm_save_def save_plan_def)

lemma pm_save_frame [simp]:
  "p_clock (pm_save p ev d s) = p_clock s" "p_token (pm_save p ev d s) = p_token s"
  "p_next (pm_save p ev d s) = p_next s"
  by (simp_all add: pm_save_def save_plan_def)

lemma plan_at_save:
  assumes "plan_inv p"
  shows "plan_at pid (pm_save p ev d s) = (if pid = p_id p then Some p else plan_at pid s)"
proof (cases "p_id p \<in> set (map pr_plan_id (plan_rows s))")
  case True
  let ?f = "\<lambda>r. r\<lparr>pr_status := plan_status_value (p_status p), pr_updated_at := p_updated_at p,
      pr_json := plan_to_dict p\<rparr>"
  have l: "lookup_row pr_plan_id pid (plan_rows (pm_save p ev d s)) =
      map_option (\<lambda>r. if pr_plan_id r = p_id p then ?f r else r) (lookup_row pr_plan_id pid (plan_rows s))"
    using True by (simp add: plan_rows_save upsert_plan_row_def lookup_row_update)
  show ?thesis
  proof (cases "lookup_row pr_plan_id pid (plan_rows s)")
    case None
    then have "pid \<noteq> p_id p" using True lookup_row_None [of pr_plan_id pid "plan_rows s"] by auto
    with None show ?thesis by (simp add: plan_at_def l)
  next
    case (Some r)
    with lookup_row_Some [OF Some] plan_inv_round_trip [OF assms] show ?thesis
      by (auto simp: plan_at_def l)
  qed
next
  case False
  then have "lookup_row pr_plan_id (p_id p) (plan_rows s) = None" by (simp only: lookup_row_None not_False_eq_True)
  with False plan_inv_round_trip [OF assms] show ?thesis
    by (auto simp: plan_at_def plan_rows_save upsert_plan_row_def lookup_row_append split: option.split)
qed

lemma plan_db_inv_save:
  assumes "plan_db_inv s" and "plan_inv p" and "\<exists>n < p_next s. p_id p = ''plan_'' @ p_token s n"
  shows "plan_db_inv (pm_save p ev d s)"
proof -
  have "unique_key pr_plan_id (plan_rows (pm_save p ev d s))"
    using assms(1) by (auto simp: plan_rows_save upsert_plan_row_def plan_db_inv_def
        intro!: unique_key_update unique_key_snoc)
  moreover have "row_ok r \<and> (\<exists>n < p_next s. pr_plan_id r = ''plan_'' @ p_token s n)"
    if "r \<in> set (plan_rows (pm_save p ev d s))" for r
    using that assms
    by (auto simp: plan_rows_save upsert_plan_row_def plan_db_inv_def split: if_splits
        elim!: sql_updateE) (auto simp: row_ok_def)
  ultimately show ?thesis using assms(1) by (simp add: plan_db_inv_def)
qed

lemma plan_at_known:
  assumes "plan_db_inv s" and "plan_at pid s = Some p"
  shows "\<exists>n < p_next s. pid = ''plan_'' @ p_token s n"
  using plan_at_row [OF assms(2)] assms(1) by (auto simp: plan_db_inv_def)

end
