(* ===== verification/Plan_Run.thy ===== *)
theory Plan_Run
  imports Plan_Machine
begin

text \<open>
  Every request to the plan manager keeps the invariant of the stored plans. The machine
  and the life cycle contracts are interpreted on \<open>exec_plan\<close>, and the loop that removes
  the terminal plans of a session is shown to end.
\<close>

section \<open>Previews\<close>

lemma plan_terminal_simps [simp]:
  "plan_terminal P_COMPLETED" "plan_terminal P_FAILED" "plan_terminal P_CANCELLED"
  "plan_terminal P_SUPERSEDED" "\<not> plan_terminal P_DRAFT" "\<not> plan_terminal P_AWAITING_APPROVAL"
  "\<not> plan_terminal P_APPROVED" "\<not> plan_terminal P_ACTIVE" "\<not> plan_terminal P_PAUSED"
  by (simp_all add: plan_terminal_def)

lemma step_task_pending:
  "step_task c now i previous v = Inr t \<Longrightarrow>
   pt_status t = PT_PENDING \<and> pt_attempts t = 0 \<and> plan_task_ok t"
  by (auto simp: step_task_def plan_task_post_init_def plan_task_ok_def Let_def
      split: json.splits if_splits)

lemma steps_tasks_pending:
  "steps_tasks c now i previous vs = Inr ts \<Longrightarrow> t \<in> set ts \<Longrightarrow>
   pt_status t = PT_PENDING \<and> pt_attempts t = 0 \<and> plan_task_ok t"
proof (induction c now i previous vs arbitrary: ts rule: steps_tasks.induct)
  case (2 c now i previous v vs)
  then show ?case by (auto dest: step_task_pending)
qed simp

lemma tasks_from_raw_pending:
  "tasks_from_raw c now raw = Inr ts \<Longrightarrow> t \<in> set ts \<Longrightarrow>
   pt_status t = PT_PENDING \<and> pt_attempts t = 0 \<and> plan_task_ok t"
  by (auto simp: tasks_from_raw_def split: json.splits if_splits dest: steps_tasks_pending)

lemma fresh_plan_inv:
  assumes ok: "plan_ok p" and st: "p_status p \<in> {P_DRAFT, P_AWAITING_APPROVAL}"
    and ts: "\<And>t. t \<in> set (p_tasks p) \<Longrightarrow> pt_status t = PT_PENDING \<and> pt_attempts t = 0"
  shows "plan_inv p"
proof -
  have "list_all (\<lambda>t. pt_status t = PT_PENDING) (p_tasks p)" using ts by (simp add: list_all_iff)
  moreover have "tasks_inv (p_tasks p)"
    by (rule pending_tasks_inv(1)) (use ok ts in \<open>auto simp: plan_ok_iff plan_task_ok_iff list_all_iff\<close>)
  ultimately show ?thesis using ok st by (auto simp: plan_inv_def stage_inv_def)
qed

text \<open>A successful preview: a draft that satisfies the invariant, saved under a new id.\<close>

lemma create_preview_Inr:
  assumes "create_preview c sid raw prompt title goal s = Inr (p1, s')"
  obtains p where "p_id p = ''plan_'' @ p_token s (p_next s)" "plan_inv p" "plan_inv p1"
    "p_id p1 = p_id p" "p_status p1 = P_AWAITING_APPROVAL"
    "s' = pm_save p1 ''plan.awaiting_approval'' []
      (pm_save p ''plan.created'' [] (s\<lparr>p_next := Suc (p_next s)\<rparr>))"
proof -
  obtain ts p where ts: "tasks_from_raw c (p_clock s) raw = Inr ts"
    and p: "plan_post_init
         \<lparr>p_id = ''plan_'' @ p_token s (p_next s), p_session_id = sid, p_title = title,
          p_tasks = ts, p_status = P_DRAFT, p_version = 1, p_goal_id = goal,
          p_source_prompt = prompt, p_approved_at = None, p_approval_actor = None,
          p_archived_at = None, p_created_at = p_clock s, p_updated_at = p_clock s\<rparr> = Inr p"
    and p1: "plan_transition P_AWAITING_APPROVAL (p_clock s) p = Inr p1"
    and s': "s' = pm_save p1 ''plan.awaiting_approval'' []
      (pm_save p ''plan.created'' [] (s\<lparr>p_next := Suc (p_next s)\<rparr>))"
    using assms by (auto simp: create_preview_def Let_def)
  have pending: "pt_status t = PT_PENDING \<and> pt_attempts t = 0 \<and> plan_task_ok t" if "t \<in> set ts" for t
    using tasks_from_raw_pending [OF ts that] .
  have ok: "plan_ok p" by (rule plan_post_init_ok [OF p]) (use pending in simp)
  have f: "p_tasks p = ts" "p_status p = P_DRAFT" "p_id p = ''plan_'' @ p_token s (p_next s)"
    using p by (auto simp: plan_post_init_Inr)
  have t: "p1 = p\<lparr>p_status := P_AWAITING_APPROVAL, p_updated_at := p_clock s\<rparr>"
    using p1 by (simp add: plan_transition_Inr)
  then have "same_frame p p1" by (simp add: same_frame_def)
  from plan_ok_frame [OF ok this] have "plan_inv p1"
    by (rule fresh_plan_inv) (use pending f t in auto)
  moreover have "plan_inv p" by (rule fresh_plan_inv [OF ok]) (use pending f in auto)
  ultimately show thesis using that [of p] f t s' by simp
qed

section \<open>One plan changes\<close>

text \<open>
  What every request on an existing plan does: the plan of the id is replaced by one of the
  same frame that satisfies the invariant, under an event.
\<close>

definition replaced :: "string \<Rightarrow> plan \<Rightarrow> plan \<Rightarrow> plan_db \<Rightarrow> plan_db \<Rightarrow> bool" where
  "replaced pid p q s s' \<longleftrightarrow> plan_at pid s = Some p \<and> plan_inv q \<and> same_frame p q \<and>
    (\<exists>ev d. s' = pm_save q ev d s)"

lemma replaced_id: "plan_db_inv s \<Longrightarrow> replaced pid p q s s' \<Longrightarrow> p_id q = pid"
  using plan_at_inv by (auto simp: replaced_def same_frame_def)

lemma replaced_inv:
  assumes "plan_db_inv s" and "replaced pid p q s s'"
  shows "plan_db_inv s'"
proof -
  obtain ev d where r: "plan_at pid s = Some p" "plan_inv q" "s' = pm_save q ev d s"
    using assms(2) by (auto simp: replaced_def)
  have "\<exists>n < p_next s. p_id q = ''plan_'' @ p_token s n"
    using plan_at_known [OF assms(1) r(1)] replaced_id [OF assms] by simp
  with r assms(1) show ?thesis by (simp add: plan_db_inv_save)
qed

lemma replaced_at:
  assumes "plan_db_inv s" and "replaced pid p q s s'"
  shows "plan_at pid' s' = (if pid' = pid then Some q else plan_at pid' s)"
  using assms replaced_id [OF assms] by (auto simp: replaced_def plan_at_save)

lemma approve_replaced:
  assumes "plan_db_inv s" and "approve pid actor s = Inr (q, s')"
  shows "\<exists>p. replaced pid p q s s' \<and> p_status p = P_AWAITING_APPROVAL \<and> p_status q = P_APPROVED"
proof -
  obtain p where p: "plan_at pid s = Some p" "P_APPROVED \<in> plan_transitions (p_status p)"
    and q: "q = p\<lparr>p_status := P_APPROVED, p_updated_at := p_clock s,
        p_approval_actor := Some actor, p_approved_at := Some (p_clock s)\<rparr>"
    and s': "s' = pm_save q ''plan.approved'' [(''actor'', JStr actor)] s"
    using assms by (auto simp: approve_def Let_def pm_require_Inr plan_transition_Inr)
  have "plan_inv q"
    by (rule plan_inv_frame [of p])
      (use plan_at_inv [OF assms(1) p(1)] p(2) q in \<open>auto simp: same_frame_def stage_inv_def in_transitions\<close>)
  with p q s' show ?thesis
    by (auto simp: replaced_def in_transitions same_frame_def)
qed

lemma pause_replaced:
  assumes "plan_db_inv s" and "pause pid s = Inr (q, s')"
  shows "\<exists>p. replaced pid p q s s' \<and> p_status p = P_ACTIVE \<and> p_status q = P_PAUSED"
proof -
  obtain p where p: "plan_at pid s = Some p" "P_PAUSED \<in> plan_transitions (p_status p)"
    and q: "q = p\<lparr>p_status := P_PAUSED, p_updated_at := p_clock s\<rparr>"
    and s': "s' = pm_save q ''plan.paused'' [] s"
    using assms by (auto simp: pause_def pm_require_Inr plan_transition_Inr)
  have "plan_inv q"
    by (rule plan_inv_frame [of p])
      (use plan_at_inv [OF assms(1) p(1)] p(2) q in \<open>auto simp: same_frame_def stage_inv_def in_transitions\<close>)
  with p q s' show ?thesis
    by (auto simp: replaced_def in_transitions same_frame_def)
qed

lemma activate_replaced:
  assumes "plan_db_inv s" and "activate pid s = Inr (q, s')"
  shows "\<exists>p. replaced pid p q s s' \<and> p_status p \<in> {P_APPROVED, P_PAUSED}"
proof -
  obtain p ev where p: "plan_at pid s = Some p" "P_ACTIVE \<in> plan_transitions (p_status p)"
    and q: "q = refresh_terminal (p_clock s)
        (refresh_ready (p_clock s) (p\<lparr>p_status := P_ACTIVE, p_updated_at := p_clock s\<rparr>))"
    and s': "s' = pm_save q ev [] s"
    using assms by (auto simp: activate_def Let_def pm_require_Inr plan_transition_Inr)
  with activate_plan_inv [of p "p_clock s"] plan_at_inv [OF assms(1) p(1)] show ?thesis
    by (auto simp: replaced_def in_transitions)
qed

lemma cancel_replaced:
  assumes "plan_db_inv s" and "cancel pid s = Inr (q, s')"
  shows "\<exists>p. replaced pid p q s s' \<and> \<not> plan_terminal (p_status p) \<and> p_status q = P_CANCELLED"
proof -
  obtain p where p: "plan_at pid s = Some p" "P_CANCELLED \<in> plan_transitions (p_status p)"
    and q: "q = p\<lparr>p_status := P_CANCELLED, p_updated_at := p_clock s,
      p_tasks := sql_update (\<lambda>t. \<not> task_is_terminal t)
        (\<lambda>t. t\<lparr>pt_status := PT_CANCELLED, pt_updated_at := p_clock s\<rparr>) (p_tasks p)\<rparr>"
    and s': "s' = pm_save q ''plan.cancelled'' [] s"
    using assms by (auto simp: cancel_def Let_def pm_require_Inr plan_transition_Inr)
  with cancel_plan_inv [of p "p_clock s"] plan_at_inv [OF assms(1) p(1)] show ?thesis
    by (auto simp: replaced_def in_transitions)
qed

lemma assign_replaced:
  assumes "plan_db_inv s" and "assign_task pid tid task s = Inr (q, s')"
  shows "\<exists>p t. replaced pid p q s s' \<and> p_status p = P_ACTIVE \<and> p_status q = P_ACTIVE \<and>
    find_task p tid = Inr t \<and> pt_status t = PT_READY"
proof -
  let ?f = "\<lambda>t. t\<lparr>pt_status := PT_ASSIGNED, pt_task_id := Some task,
    pt_attempts := pt_attempts t + 1, pt_updated_at := p_clock s\<rparr>"
  obtain p t ev d where p: "plan_at pid s = Some p" "p_status p = P_ACTIVE" "find_task p tid = Inr t"
      "pt_status t = PT_READY"
    and q: "q = set_task tid ?f p" and s': "s' = pm_save q ev d s"
    using assms by (auto simp: assign_task_def Let_def pm_require_Inr split: if_splits)
  have inv: "plan_inv p" using plan_at_inv [OF assms(1) p(1)] by simp
  then have "attempts_ok t"
    using find_task_unique [OF p(3)] by (auto simp: plan_inv_def tasks_inv_def)
  then have "plan_inv q \<and> same_frame p q"
    unfolding q by (intro move_task_inv [OF inv p(3)]) (auto simp: p(4) shape_def attempts_ok_def)
  with p s' show ?thesis by (auto simp: replaced_def q set_task_def)
qed

lemma start_replaced:
  assumes "plan_db_inv s" and "start_task pid tid s = Inr (q, s')"
  shows "\<exists>p t. replaced pid p q s s' \<and> p_status p \<in> {P_ACTIVE, P_PAUSED} \<and> p_status q = p_status p \<and>
    find_task p tid = Inr t \<and> pt_status t = PT_ASSIGNED"
proof -
  let ?f = "\<lambda>t. t\<lparr>pt_status := PT_IN_PROGRESS, pt_updated_at := p_clock s\<rparr>"
  obtain p t ev d where p: "plan_at pid s = Some p" "find_task p tid = Inr t"
      "pt_status t = PT_ASSIGNED"
    and q: "q = set_task tid ?f p" and s': "s' = pm_save q ev d s"
    using assms by (auto simp: start_task_def Let_def pm_require_Inr split: if_splits)
  have inv: "plan_inv p" using plan_at_inv [OF assms(1) p(1)] by simp
  note u = find_task_unique [OF p(2)]
  have "attempts_ok t" using u inv by (auto simp: plan_inv_def tasks_inv_def)
  then have "plan_inv q \<and> same_frame p q"
    unfolding q by (intro move_task_inv [OF inv p(2)]) (auto simp: p(3) shape_def attempts_ok_def)
  moreover have "p_status p \<in> {P_ACTIVE, P_PAUSED}"
    using live_task_stage [OF inv, of t] u inv p(3)
    by (auto simp: plan_inv_def task_is_terminal_def task_terminal_def)
  ultimately show ?thesis using p s' by (auto simp: replaced_def q set_task_def)
qed

lemma finish_replaced:
  assumes "plan_db_inv s" and "finish_task pid tid a s = Inr (q, s')"
  shows "(\<exists>p. plan_at pid s = Some p \<and> plan_terminal (p_status p) \<and> q = p \<and> s' = s) \<or>
    (\<exists>p t. replaced pid p q s s' \<and> p_status p \<in> {P_ACTIVE, P_PAUSED} \<and>
      find_task p tid = Inr t \<and> task_running t)"
proof -
  from assms obtain p where p: "plan_at pid s = Some p" by (auto simp: finish_task_def pm_require_Inr)
  then have r: "pm_require pid s = Inr p" using assms(1) by (simp add: pm_require_Inr)
  show ?thesis
  proof (cases "plan_terminal (p_status p)")
    case True
    with assms(2) r p show ?thesis by (simp add: finish_task_def)
  next
    case False
    then obtain t p1 ev d where t: "find_task p tid = Inr t" "task_running t"
      and st: "settle_task a (p_clock s) tid t p = Inr (p1, ev)" "p_status p \<in> {P_ACTIVE, P_PAUSED}"
      and q: "q = (if p_status (refresh_ready (p_clock s) p1) = P_ACTIVE
          then refresh_terminal (p_clock s) (refresh_ready (p_clock s) p1)
          else refresh_ready (p_clock s) p1)"
      and s': "s' = pm_save q ev d s"
      using assms(2) r by (auto simp: finish_task_def Let_def case_prod_Inr split: if_splits)
    have "plan_inv p" using plan_at_inv [OF assms(1) p] by simp
    from finish_plan_inv [OF this t st(1)] q have "plan_inv q \<and> same_frame p q" by simp
    with p t st(2) s' show ?thesis by (auto simp: replaced_def)
  qed
qed

section \<open>Removal\<close>

lemma plan_at_delete:
  "plan_at pid' (snd (delete_plan pid s)) = (if pid' = pid then None else plan_at pid' s)"
proof -
  have "lookup_row pr_plan_id pid' (sql_delete (\<lambda>r. pr_plan_id r = pid) rows) =
      (if pid' = pid then None else lookup_row pr_plan_id pid' rows)" for rows :: "plan_row list"
    by (induction rows) (auto simp: sql_delete_def)
  then show ?thesis unfolding plan_at_def delete_plan_def by simp
qed

lemma delete_plan_inv: "plan_db_inv s \<Longrightarrow> plan_db_inv (snd (delete_plan pid s))"
  by (auto simp: plan_db_inv_def delete_plan_def set_sql_delete intro: unique_key_delete)

section \<open>The machine\<close>

lemma fresh_plan_id:
  assumes "plan_db_inv s"
  shows "plan_at (''plan_'' @ p_token s (p_next s)) s = None"
proof (rule ccontr)
  assume "plan_at (''plan_'' @ p_token s (p_next s)) s \<noteq> None"
  then obtain p where "plan_at (''plan_'' @ p_token s (p_next s)) s = Some p" by blast
  from plan_at_known [OF assms this] obtain n where "n < p_next s" "p_token s (p_next s) = p_token s n"
    by auto
  with assms show False by (auto simp: plan_db_inv_def dest: injD)
qed

lemma preview_step:
  assumes "plan_db_inv s" and "create_preview c sid raw prompt title goal s = Inr (p, s')"
  shows "plan_db_inv s' \<and> plan_inv p \<and> p_status p = P_AWAITING_APPROVAL \<and>
    p_id p = ''plan_'' @ p_token s (p_next s) \<and>
    (\<forall>pid. plan_at pid s' = (if pid = p_id p then Some p else plan_at pid s))"
proof -
  let ?s = "s\<lparr>p_next := Suc (p_next s)\<rparr>"
  from assms(2) obtain d where d: "p_id d = ''plan_'' @ p_token s (p_next s)" "plan_inv d" "plan_inv p"
    "p_id p = p_id d" "p_status p = P_AWAITING_APPROVAL"
    "s' = pm_save p ''plan.awaiting_approval'' [] (pm_save d ''plan.created'' [] ?s)"
    by (rule create_preview_Inr)
  have s1: "plan_db_inv ?s"
    using assms(1) unfolding plan_db_inv_def by (simp del: append.simps) (meson less_SucI)
  have "\<exists>n < p_next ?s. p_id d = ''plan_'' @ p_token ?s n" using d(1) by auto
  then have s2: "plan_db_inv (pm_save d ''plan.created'' [] ?s)" by (rule plan_db_inv_save [OF s1 d(2)])
  have "plan_db_inv s'"
    unfolding d(6) by (rule plan_db_inv_save [OF s2 d(3)]) (use d in auto)
  moreover have "plan_at pid ?s = plan_at pid s" for pid by (simp add: plan_at_def)
  ultimately show ?thesis using d by (auto simp: plan_at_save)
qed

text \<open>What one request does to the map of plans.\<close>

definition live_change :: "plan_db \<Rightarrow> plan_db \<Rightarrow> bool" where
  "live_change s s' \<longleftrightarrow> (\<exists>pid p q. replaced pid p q s s' \<and> \<not> plan_terminal (p_status p))"

lemma live_changeI:
  "replaced pid p q s s' \<Longrightarrow> p_status p \<in> {P_AWAITING_APPROVAL, P_APPROVED, P_ACTIVE, P_PAUSED} \<Longrightarrow>
   live_change s s'"
  unfolding live_change_def by (rule exI [of _ pid], rule exI [of _ p], rule exI [of _ q]) auto

lemma live_changes:
  assumes inv: "plan_db_inv s"
  shows "approve pid actor s = Inr (q, s') \<Longrightarrow> live_change s s'"
    and "activate pid s = Inr (q, s') \<Longrightarrow> live_change s s'"
    and "pause pid s = Inr (q, s') \<Longrightarrow> live_change s s'"
    and "cancel pid s = Inr (q, s') \<Longrightarrow> live_change s s'"
    and "assign_task pid tid task s = Inr (q, s') \<Longrightarrow> live_change s s'"
    and "start_task pid tid s = Inr (q, s') \<Longrightarrow> live_change s s'"
    and "finish_task pid tid a s = Inr (q, s') \<Longrightarrow> live_change s s' \<or> s' = s"
proof -
  show "approve pid actor s = Inr (q, s') \<Longrightarrow> live_change s s'"
    by (drule approve_replaced [OF inv]) (auto intro: live_changeI)
  show "activate pid s = Inr (q, s') \<Longrightarrow> live_change s s'"
    by (drule activate_replaced [OF inv]) (auto intro: live_changeI)
  show "pause pid s = Inr (q, s') \<Longrightarrow> live_change s s'"
    by (drule pause_replaced [OF inv]) (auto intro: live_changeI)
  show "cancel pid s = Inr (q, s') \<Longrightarrow> live_change s s'"
    by (drule cancel_replaced [OF inv]) (auto simp: live_change_def)
  show "assign_task pid tid task s = Inr (q, s') \<Longrightarrow> live_change s s'"
    by (drule assign_replaced [OF inv]) (auto intro: live_changeI)
  show "start_task pid tid s = Inr (q, s') \<Longrightarrow> live_change s s'"
    by (drule start_replaced [OF inv]) (auto intro: live_changeI)
  show "finish_task pid tid a s = Inr (q, s') \<Longrightarrow> live_change s s' \<or> s' = s"
    by (drule finish_replaced [OF inv]) (auto intro: live_changeI)
qed

lemma exec_plan_step:
  assumes "exec_plan op s = Inr s'" and "plan_db_inv s"
  obtains (preview) c sid raw prompt title goal p
      where "create_preview c sid raw prompt title goal s = Inr (p, s')"
  | (change) "live_change s s'"
  | (removal) pid p where "op = ArchivePlan pid" "plan_at pid s = Some p"
      "plan_terminal (p_status p)" "s' = snd (delete_plan pid s)"
  | (time) t where "s' = s\<lparr>p_clock := t\<rparr>"
  | (same) "s' = s"
proof (cases op)
  case (PreviewPlan c sid raw prompt title goal)
  with assms(1) preview show thesis by (auto simp: case_prod_Inr)
next
  case (ArchivePlan pid)
  with assms obtain p where "plan_at pid s = Some p" "plan_terminal (p_status p)"
      "s' = snd (delete_plan pid s)"
    by (auto simp: case_prod_Inr archive_terminal_def pm_require_Inr plan_is_terminal_def split: if_splits)
  with removal ArchivePlan show thesis by blast
next
  case (FinishTask pid tid a)
  with assms(1) obtain q where "finish_task pid tid a s = Inr (q, s')" by (auto simp: case_prod_Inr)
  from live_changes(7) [OF assms(2) this] change same show thesis by blast
next
  case (PlanTime t)
  with assms(1) have "s' = s\<lparr>p_clock := max t (p_clock s)\<rparr>" by simp
  then show thesis by (rule time)
qed (use assms(1) change in \<open>auto simp: case_prod_Inr dest: live_changes(1-6) [OF assms(2)]\<close>)

lemma plan_at_frame: "plan_rows s' = plan_rows s \<Longrightarrow> plan_at pid s' = plan_at pid s"
  by (simp add: plan_at_def)

lemma exec_plan_inv:
  assumes "exec_plan op s = Inr s'" and "plan_db_inv s"
  shows "plan_db_inv s'"
  using assms
proof (cases rule: exec_plan_step)
  case (preview c sid raw prompt title goal p)
  from preview_step [OF assms(2) this] show ?thesis by blast
next
  case change
  with replaced_inv [OF assms(2)] show ?thesis by (auto simp: live_change_def)
next
  case (removal pid p)
  with delete_plan_inv [OF assms(2)] show ?thesis by simp
next
  case (time t)
  with assms(2) show ?thesis by (simp add: plan_db_inv_def)
next
  case same
  with assms(2) show ?thesis by simp
qed

definition plan_status_at :: "string \<Rightarrow> plan_db \<Rightarrow> plan_status option" where
  "plan_status_at pid s = map_option p_status (plan_at pid s)"

lemma exec_plan_final:
  assumes "exec_plan op s = Inr s'" and "plan_db_inv s" and "plan_status_at pid s = Some st"
    and "plan_terminal st" and "op \<noteq> ArchivePlan pid"
  shows "plan_status_at pid s' = Some st"
proof -
  from assms(3) obtain p where p: "plan_at pid s = Some p" "p_status p = st"
    by (auto simp: plan_status_at_def)
  have "plan_at pid s' = plan_at pid s"
    using assms(1,2)
  proof (cases rule: exec_plan_step)
    case (preview c sid raw prompt title goal q)
    from preview_step [OF assms(2) this] fresh_plan_id [OF assms(2)] p show ?thesis by auto
  next
    case change
    then obtain pid' p' q where r: "replaced pid' p' q s s'" "\<not> plan_terminal (p_status p')"
      by (auto simp: live_change_def)
    with p assms(4) have "pid \<noteq> pid'" by (auto simp: replaced_def)
    with replaced_at [OF assms(2) r(1)] show ?thesis by simp
  next
    case (removal pid' p')
    with assms(5) show ?thesis by (auto simp: plan_at_delete)
  next
    case (time t)
    then have "plan_rows s' = plan_rows s" by simp
    then show ?thesis by (rule plan_at_frame)
  next
    case same
    then show ?thesis by simp
  qed
  with p show ?thesis by (simp add: plan_status_at_def)
qed

fun removes_plan :: "plan_op \<Rightarrow> string \<Rightarrow> bool" where
  "removes_plan (ArchivePlan pid) k \<longleftrightarrow> pid = k"
| "removes_plan _ _ \<longleftrightarrow> False"

lemma removes_plan_iff: "removes_plan op k \<longleftrightarrow> op = ArchivePlan k"
  by (cases op) auto

interpretation plans: lifecycle exec_plan plan_db_inv plan_status_at plan_terminal removes_plan
  by unfold_locales (auto simp: removes_plan_iff intro: exec_plan_inv exec_plan_final)

section \<open>An active plan has work\<close>

lemma in_depends: "(i, d) \<in> depends ts \<longleftrightarrow> (\<exists>t \<in> set ts. pt_id t = i \<and> d \<in> set (pt_depends_on t))"
  by (auto simp: depends_def)

lemma active_has_work:
  assumes "plan_inv p" and "p_status p = P_ACTIVE"
  shows "\<exists>t \<in> set (p_tasks p). pt_status t = PT_READY \<or> task_running t"
proof (rule ccontr)
  assume none: "\<not> ?thesis"
  have inv: "plan_ok p" "tasks_inv (p_tasks p)" "stage_inv (p_status p) (p_tasks p)"
    using assms(1) by (simp_all add: plan_inv_def)
  have dist: "distinct (map pt_id (p_tasks p))" using inv(2) by (simp add: tasks_inv_def)
  have stage: "no_dead_end (p_tasks p)" "no_overdue (p_tasks p)" "\<not> list_all task_is_terminal (p_tasks p)"
    using inv(3) assms(2) by (simp_all add: stage_inv_def)
  have kinds: "pt_status t = PT_PENDING \<or> pt_status t = PT_COMPLETED \<or> dead (pt_status t)"
    if "t \<in> set (p_tasks p)" for t
    using none that by (cases "pt_status t") (auto simp: task_running_def dead_def)
  let ?Q = "pt_id ` {t \<in> set (p_tasks p). pt_status t = PT_PENDING}"
  have "depends (p_tasks p) \<subseteq> (\<Union>t \<in> set (p_tasks p). {pt_id t} \<times> set (pt_depends_on t))"
    by (auto simp: depends_def)
  then have "finite (depends (p_tasks p))" by (rule finite_subset) auto
  then have wf: "wf ((depends (p_tasks p))\<inverse>)"
    using inv(1) by (intro finite_acyclic_wf_converse) (auto simp: plan_ok_iff)
  obtain t0 where "t0 \<in> set (p_tasks p)" "\<not> task_is_terminal t0" using stage(3) by (auto simp: list_all_iff)
  with kinds have "pt_id t0 \<in> ?Q" by (fastforce simp: task_is_terminal_def task_terminal_def dead_def)
  then obtain z where z: "z \<in> ?Q" "\<And>y. (y, z) \<in> (depends (p_tasks p))\<inverse> \<Longrightarrow> y \<notin> ?Q"
    using wf unfolding wf_eq_minimal by meson
  then obtain t where t: "t \<in> set (p_tasks p)" "pt_status t = PT_PENDING" "pt_id t = z" by auto
  have "status_of_task (p_tasks p) d = Some PT_COMPLETED" if d: "d \<in> set (pt_depends_on t)" for d
  proof -
    have "d \<in> set (map pt_id (p_tasks p))" using inv(1) t(1) d by (auto simp: plan_ok_iff deps_known_def)
    then obtain u where u: "u \<in> set (p_tasks p)" "pt_id u = d" by auto
    note su = status_of_task_in [OF dist u(1), unfolded u(2)]
    have "(d, z) \<in> (depends (p_tasks p))\<inverse>" using t d by (auto simp: in_depends)
    with z(2) u have "pt_status u \<noteq> PT_PENDING" by auto
    moreover have "\<not> dead (pt_status u)" using stage(1) t d su unfolding no_dead_end_def by blast
    ultimately show ?thesis using kinds [OF u(1)] su by simp
  qed
  with t stage(2) show False unfolding no_overdue_def becomes_ready_def deps_completed_def by blast
qed

end
