(* ===== verification/Plan_Archive.thy ===== *)
theory Plan_Archive
  imports Plan_Run
begin

text \<open>
  \<open>PlanManager.archive_terminal_for_session\<close>: a loop that lists at most 1000 plans, deletes
  the terminal ones among them, and stops when it saw none. Nothing bounds the loop in the
  code, so it is a partial function, and that it returns is a theorem.
\<close>

section \<open>The loop\<close>

partial_function (option) archive_loop ::
  "string \<Rightarrow> nat \<Rightarrow> plan_db \<Rightarrow> (plan_error + nat \<times> plan_db) option" where
  "archive_loop sid count s =
    (case pm_list sid 1000 True s of
       Inl e \<Rightarrow> Some (Inl e)
     | Inr plans \<Rightarrow>
         (let (n, s1) = archive_pass plans s in
          if \<exists>p \<in> set plans. plan_is_terminal p then archive_loop sid (count + n) s1
          else Some (Inr (count + n, s1))))"

definition archive_terminal_for_session ::
  "string \<Rightarrow> plan_db \<Rightarrow> (plan_error + nat \<times> plan_db) option" where
  "archive_terminal_for_session sid s = archive_loop sid 0 s"

section \<open>One pass\<close>

definition row_plan_of :: "plan_row \<Rightarrow> plan" where
  "row_plan_of r = projr (plan_from_dict 0 (pr_json r))"

lemma row_plan_of:
  assumes "row_ok r"
  shows "plan_from_dict now (pr_json r) = Inr (row_plan_of r)" and "p_id (row_plan_of r) = pr_plan_id r"
    and "pr_status r = plan_status_value (p_status (row_plan_of r))"
  using assms by (auto simp: row_plan_of_def elim!: row_plan)

definition row_terminal :: "plan_row \<Rightarrow> bool" where
  "row_terminal r \<longleftrightarrow> plan_is_terminal (row_plan_of r)"

definition page :: "string \<Rightarrow> plan_db \<Rightarrow> plan_row list" where
  "page sid s = take 1000 (order_by_desc pr_updated_at (filter (\<lambda>r. pr_session_id r = sid) (plan_rows s)))"

lemma set_page: "set (page sid s) \<subseteq> {r \<in> set (plan_rows s). pr_session_id r = sid}"
  using set_take_subset by (fastforce simp: page_def)

lemma page_full:
  assumes "length (filter (\<lambda>r. pr_session_id r = sid) (plan_rows s)) \<le> 1000"
  shows "set (page sid s) = {r \<in> set (plan_rows s). pr_session_id r = sid}"
  using assms by (simp add: page_def)

lemma pm_list_page:
  assumes "plan_db_inv s"
  shows "pm_list sid 1000 True s = Inr (map row_plan_of (page sid s))"
proof -
  have "map_E (plan_from_dict (p_clock s)) (map pr_json (page sid s)) = Inr (map row_plan_of (page sid s))"
    by (rule map_E_map) (use assms set_page row_plan_of(1) in \<open>fastforce simp: plan_db_inv_def\<close>)
  then show ?thesis by (simp add: pm_list_def list_plans_def clamp_limit_def page_def)
qed

lemma archive_pass_result:
  "archive_pass ps s = (n, s') \<Longrightarrow>
   plan_rows s' = filter (\<lambda>r. \<not> (\<exists>p \<in> set ps. plan_is_terminal p \<and> p_id p = pr_plan_id r)) (plan_rows s) \<and>
   plan_task_rows s' = filter (\<lambda>r. \<not> (\<exists>p \<in> set ps. plan_is_terminal p \<and> p_id p = ptr_plan_id r)) (plan_task_rows s) \<and>
   (plan_db_inv s \<longrightarrow> plan_db_inv s') \<and>
   (unique_key pr_plan_id (plan_rows s) \<longrightarrow> length (plan_rows s) = n + length (plan_rows s'))"
proof (induction ps s arbitrary: n s' rule: archive_pass.induct)
  case (2 p ps s)
  show ?case
  proof (cases "plan_is_terminal p")
    case False
    with 2(1) [OF False, of n s'] 2(3) show ?thesis by auto
  next
    case True
    define s1 where "s1 = snd (delete_plan (p_id p) s)"
    obtain m where m: "archive_pass ps s1 = (m, s')"
        "n = (if fst (delete_plan (p_id p) s) then 1 else 0) + m"
      using 2(3) True by (auto simp: s1_def split: prod.splits)
    have d: "delete_plan (p_id p) s = (fst (delete_plan (p_id p) s), s1)" by (simp add: s1_def)
    note IH = 2(2) [OF _ refl d [symmetric] m(1)]
    have "length (plan_rows s) = sql_count (\<lambda>r. pr_plan_id r = p_id p) (plan_rows s) + length (plan_rows s1)"
      using sum_length_filter_compl [of "\<lambda>r. pr_plan_id r = p_id p" "plan_rows s"]
      by (simp add: s1_def delete_plan_def sql_delete_def sql_count_def)
    moreover have "sql_count (\<lambda>r. pr_plan_id r = p_id p) (plan_rows s) \<le> 1"
      if "unique_key pr_plan_id (plan_rows s)" using sql_count_unique_le_1 [OF that] .
    moreover have "fst (delete_plan (p_id p) s) \<longleftrightarrow> 0 < sql_count (\<lambda>r. pr_plan_id r = p_id p) (plan_rows s)"
      by (simp add: delete_plan_def)
    ultimately have len: "length (plan_rows s) = (n - m) + length (plan_rows s1)"
      if "unique_key pr_plan_id (plan_rows s)" using that m(2) by auto
    have u: "unique_key pr_plan_id (plan_rows s) \<longrightarrow> unique_key pr_plan_id (plan_rows s1)"
      by (simp add: s1_def delete_plan_def unique_key_delete)
    have f: "plan_rows s1 = filter (\<lambda>r. pr_plan_id r \<noteq> p_id p) (plan_rows s)"
        "plan_task_rows s1 = filter (\<lambda>r. ptr_plan_id r \<noteq> p_id p) (plan_task_rows s)"
      by (simp_all add: s1_def delete_plan_def sql_delete_def)
    have "plan_db_inv s \<longrightarrow> plan_db_inv s1" by (simp add: s1_def delete_plan_inv)
    with IH True u len m(2) show ?thesis
      by (auto simp: f intro!: filter_cong)
  qed
qed simp

text \<open>What a pass over a page removes: exactly the terminal plans on the page.\<close>

lemma archive_page:
  assumes "plan_db_inv s" and "archive_pass (map row_plan_of (page sid s)) s = (n, s')"
  shows "plan_rows s' = filter (\<lambda>r. \<not> (r \<in> set (page sid s) \<and> row_terminal r)) (plan_rows s)"
    and "plan_db_inv s'" and "length (plan_rows s) = n + length (plan_rows s')"
proof -
  have ok: "row_ok r" if "r \<in> set (plan_rows s)" for r using assms(1) that by (simp add: plan_db_inv_def)
  have "(\<exists>p \<in> set (map row_plan_of (page sid s)). plan_is_terminal p \<and> p_id p = pr_plan_id r) \<longleftrightarrow>
      r \<in> set (page sid s) \<and> row_terminal r" if r: "r \<in> set (plan_rows s)" for r
  proof
    assume "\<exists>p \<in> set (map row_plan_of (page sid s)). plan_is_terminal p \<and> p_id p = pr_plan_id r"
    then obtain r' where r': "r' \<in> set (page sid s)" "row_terminal r'" "p_id (row_plan_of r') = pr_plan_id r"
      by (auto simp: row_terminal_def)
    then have "r' \<in> set (plan_rows s)" using set_page by fastforce
    with r' row_plan_of(2) [OF ok] have "pr_plan_id r' = pr_plan_id r" by simp
    with \<open>r' \<in> set (plan_rows s)\<close> r assms(1) have "r' = r"
      using unique_key_eq by (fastforce simp: plan_db_inv_def)
    with r' show "r \<in> set (page sid s) \<and> row_terminal r" by simp
  qed (use row_plan_of(2) [OF ok [OF r]] in \<open>auto simp: row_terminal_def\<close>)
  then have "filter (\<lambda>r. \<not> (\<exists>p \<in> set (map row_plan_of (page sid s)). plan_is_terminal p \<and>
        p_id p = pr_plan_id r)) (plan_rows s) =
      filter (\<lambda>r. \<not> (r \<in> set (page sid s) \<and> row_terminal r)) (plan_rows s)"
    by (intro filter_cong refl) blast
  then show "plan_rows s' = filter (\<lambda>r. \<not> (r \<in> set (page sid s) \<and> row_terminal r)) (plan_rows s)"
    using archive_pass_result [OF assms(2)] by metis
  show "plan_db_inv s'" "length (plan_rows s) = n + length (plan_rows s')"
    using archive_pass_result [OF assms(2)] assms(1) by (auto simp: plan_db_inv_def)
qed

text \<open>The loop returns; it removes terminal plans of the session only.\<close>

lemma archive_loop_returns:
  "plan_db_inv s \<Longrightarrow>
   \<exists>n s'. archive_loop sid count s = Some (Inr (count + n, s')) \<and> plan_db_inv s' \<and>
     length (plan_rows s) = n + length (plan_rows s') \<and> (\<forall>r \<in> set (page sid s'). \<not> row_terminal r) \<and>
     (\<exists>K. plan_rows s' = filter K (plan_rows s) \<and>
       (\<forall>r \<in> set (plan_rows s). \<not> K r \<longrightarrow> pr_session_id r = sid \<and> row_terminal r))"
proof (induction "length (plan_rows s)" arbitrary: s count rule: less_induct)
  case less
  obtain n s1 where p: "archive_pass (map row_plan_of (page sid s)) s = (n, s1)" by fastforce
  note a = archive_page [OF less(2) p]
  define K where "K r \<longleftrightarrow> \<not> (r \<in> set (page sid s) \<and> row_terminal r)" for r
  have k: "\<forall>r \<in> set (plan_rows s). \<not> K r \<longrightarrow> pr_session_id r = sid \<and> row_terminal r"
    using set_page by (fastforce simp: K_def)
  have K: "plan_rows s1 = filter K (plan_rows s)" 
    unfolding K_def by (rule a(1))
  show ?case
  proof (cases "\<exists>p \<in> set (map row_plan_of (page sid s)). plan_is_terminal p")
    case False
    then have no: "\<forall>r \<in> set (page sid s). \<not> row_terminal r" by (simp add: row_terminal_def)
    then have same: "plan_rows s1 = plan_rows s" using a(1) by (simp add: filter_id_conv)
    then have "page sid s1 = page sid s" by (simp add: page_def)
    moreover have "archive_loop sid count s = Some (Inr (count + n, s1))"
      by (subst archive_loop.simps) (use pm_list_page [OF less(2)] False p in simp)
    ultimately show ?thesis
      using a(2,3) no K k by (intro exI [of _ n] exI [of _ s1] conjI exI [of _ K]) simp_all
  next
    case True
    then obtain r where r: "r \<in> set (page sid s)" "row_terminal r" by (auto simp: row_terminal_def)
    then have "r \<in> set (plan_rows s)" "\<not> K r" using set_page by (fastforce simp: K_def)+
    then have "length (plan_rows s1) < length (plan_rows s)" by (auto simp: K length_filter_less)
    from less(1) [OF this a(2), of "count + n"] obtain m s2 K' where
      m: "archive_loop sid (count + n) s1 = Some (Inr (count + n + m, s2))" "plan_db_inv s2"
        "length (plan_rows s1) = m + length (plan_rows s2)" "\<forall>r \<in> set (page sid s2). \<not> row_terminal r"
        "plan_rows s2 = filter K' (plan_rows s1)"
        "\<forall>r \<in> set (plan_rows s1). \<not> K' r \<longrightarrow> pr_session_id r = sid \<and> row_terminal r" by blast
    have "archive_loop sid count s = archive_loop sid (count + n) s1"
      by (subst archive_loop.simps) (use pm_list_page [OF less(2)] True p in simp)
    moreover have "plan_rows s2 = filter (\<lambda>r. K r \<and> K' r) (plan_rows s)"
      using m(5) by (simp add: K)
    moreover have "\<forall>r \<in> set (plan_rows s). \<not> (K r \<and> K' r) \<longrightarrow> pr_session_id r = sid \<and> row_terminal r"
      using m(6) k by (auto simp: K)
    moreover have "length (plan_rows s) = (n + m) + length (plan_rows s2)" using a(3) m(3) by simp
    ultimately show ?thesis
      using m(1,2,4)
      by (intro exI [of _ "n + m"] exI [of _ s2] conjI exI [of _ "\<lambda>r. K r \<and> K' r"])
        (simp_all only: add.assoc)
  qed
qed

end
