(* ===== verification/Plan_Props.thy ===== *)
theory Plan_Props
  imports Plan_Archive
begin

text \<open>
  The properties of plans: what the constructor accepts, that storing loses nothing, and
  what holds of every plan after any sequence of requests to the plan manager.
\<close>

section \<open>Reachable tables\<close>

definition empty_plan_db :: "(nat \<Rightarrow> string) \<Rightarrow> plan_db" where
  "empty_plan_db tok =
    \<lparr>plan_rows = [], plan_task_rows = [], plan_events = [], p_clock = 0, p_token = tok, p_next = 0\<rparr>"

text \<open>The tokens of \<open>uuid4\<close> are taken to be pairwise different.\<close>

definition plan_reachable :: "plan_db \<Rightarrow> bool" where
  "plan_reachable s \<longleftrightarrow> (\<exists>tok ops. inj tok \<and> s = plans.run ops (empty_plan_db tok))"

lemma empty_plan_db_inv: "inj tok \<Longrightarrow> plan_db_inv (empty_plan_db tok)"
  by (simp add: plan_db_inv_def empty_plan_db_def)

lemma plan_reachable_inv: "plan_reachable s \<Longrightarrow> plan_db_inv s"
  using plans.inv_run [OF empty_plan_db_inv] by (auto simp: plan_reachable_def)

lemma plan_reachable_plan:
  assumes "plan_reachable s" and "plan_at pid s = Some p"
  shows "plan_inv p" "plan_ok p" "tasks_inv (p_tasks p)" "stage_inv (p_status p) (p_tasks p)"
  using plan_at_inv [OF plan_reachable_inv [OF assms(1)] assms(2)] by (auto simp: plan_inv_def)

definition apply_plan :: "plan_op \<Rightarrow> plan_db \<Rightarrow> plan_db" where
  "apply_plan op s = (case exec_plan op s of Inl _ \<Rightarrow> s | Inr s' \<Rightarrow> s')"

lemma run_apply: "plans.run ops s = fold apply_plan ops s"
  by (induction ops s rule: plans.run.induct) (simp_all add: apply_plan_def)

section \<open>A run\<close>

text \<open>
  A plan of two steps, the second behind the first. It is approved and activated, and its
  first task is handed out; then the task either succeeds or fails for good.
\<close>

definition demo_step :: "string \<Rightarrow> string list \<Rightarrow> json" where
  "demo_step i deps = JObj [(''id'', JStr i), (''description'', JStr i),
    (''depends_on'', JList (map JStr deps))]"

definition demo_conv :: py_conv where
  "demo_conv = \<lparr>parse_float = (\<lambda>_. None), parse_int = (\<lambda>_. None), show_json = (\<lambda>_. [])\<rparr>"

definition demo_result :: "bool \<Rightarrow> finish_args" where
  "demo_result ok = \<lparr>fa_success = ok, fa_summary = ''done'', fa_blocked_reason = None,
    fa_artifact_ids = None, fa_quality_report = None\<rparr>"

definition demo_ops :: "bool \<Rightarrow> plan_op list" where
  "demo_ops ok =
    [PreviewPlan demo_conv ''s'' (JObj [(''steps'', JList [demo_step ''a'' [], demo_step ''b'' [''a'']])])
       [] ''plan'' None,
     ApprovePlan ''plan_'' ''user'', ActivatePlan ''plan_'', AssignTask ''plan_'' ''a'' ''t1'',
     FinishTask ''plan_'' ''a'' (demo_result ok)]"

definition demo_plans :: "bool \<Rightarrow> plan_db" where
  "demo_plans ok = fold apply_plan (demo_ops ok) (empty_plan_db demo_token)"

lemma demo_plans_reachable: "plan_reachable (demo_plans ok)"
  unfolding plan_reachable_def demo_plans_def run_apply using inj_demo_token by blast

definition demo_plan :: "bool \<Rightarrow> plan" where
  "demo_plan ok = the (plan_at ''plan_'' (demo_plans ok))"

definition plan_view :: "plan_db \<Rightarrow> (plan_status \<times> (string \<times> string list \<times> task_status \<times> int) list) option" where
  "plan_view s = map_option (\<lambda>p. (p_status p,
      map (\<lambda>t. (pt_id t, pt_depends_on t, pt_status t, pt_attempts t)) (p_tasks p)))
    (plan_at ''plan_'' s)"

lemma demo_plans_view:
  "plan_view (demo_plans True) =
    Some (P_ACTIVE, [(''a'', [], PT_COMPLETED, 1), (''b'', [''a''], PT_READY, 0)])"
  "plan_view (demo_plans False) =
    Some (P_FAILED, [(''a'', [], PT_FAILED, 1), (''b'', [''a''], PT_BLOCKED, 0)])"
  by code_simp+

lemma demo_plan_at: "plan_at ''plan_'' (demo_plans ok) = Some (demo_plan ok)"
  using demo_plans_view by (cases ok) (auto simp: demo_plan_def plan_view_def)

lemma demo_plan_view:
  "p_status (demo_plan True) = P_ACTIVE" "p_status (demo_plan False) = P_FAILED"
  "map (\<lambda>t. (pt_id t, pt_depends_on t, pt_status t, pt_attempts t)) (p_tasks (demo_plan True)) =
    [(''a'', [], PT_COMPLETED, 1), (''b'', [''a''], PT_READY, 0)]"
  "map (\<lambda>t. (pt_id t, pt_depends_on t, pt_status t, pt_attempts t)) (p_tasks (demo_plan False)) =
    [(''a'', [], PT_FAILED, 1), (''b'', [''a''], PT_BLOCKED, 0)]"
  using demo_plans_view by (simp_all add: demo_plan_at plan_view_def)

lemma demo_tasks:
  obtains x y where "p_tasks (demo_plan True) = [x, y]" "pt_id x = ''a''" "pt_id y = ''b''"
    "pt_status x = PT_COMPLETED" "pt_status y = PT_READY" "pt_depends_on y = [''a'']"
  using demo_plan_view(3) by (auto simp: map_eq_Cons_conv)

lemma demo_failed_tasks:
  obtains x y where "p_tasks (demo_plan False) = [x, y]" "pt_id x = ''a''" "pt_id y = ''b''"
    "pt_status x = PT_FAILED" "pt_attempts x = 1" "pt_status y = PT_BLOCKED" "pt_depends_on y = [''a'']"
  using demo_plan_view(4) by (auto simp: map_eq_Cons_conv)

section \<open>Construction and storage\<close>

text \<open>
  C10: The constructor of a plan accepts exactly the plans with ids, a positive version, at
  least one task, distinct task ids, known dependencies, and no dependency cycle: the
  depth-first search agrees with acyclicity of the dependency relation. A cycle error is
  raised exactly when everything else is in order and the relation has a cycle.
\<close>

theorem plan_constructor_accepts:
  "((\<exists>q. plan_post_init p = Inr q) \<longleftrightarrow>
      p_id p \<noteq> [] \<and> p_session_id p \<noteq> [] \<and> 1 \<le> p_version p \<and> p_tasks p \<noteq> [] \<and>
      distinct (map pt_id (p_tasks p)) \<and> deps_known (p_tasks p) \<and> acyclic (depends (p_tasks p))) \<and>
   (plan_post_init p = Inl DependencyCycle \<longleftrightarrow>
      p_id p \<noteq> [] \<and> p_session_id p \<noteq> [] \<and> 1 \<le> p_version p \<and> p_tasks p \<noteq> [] \<and>
      distinct (map pt_id (p_tasks p)) \<and> deps_known (p_tasks p) \<and> \<not> acyclic (depends (p_tasks p)))"
proof (intro conjI)
  show "plan_post_init p = Inl DependencyCycle \<longleftrightarrow>
      p_id p \<noteq> [] \<and> p_session_id p \<noteq> [] \<and> 1 \<le> p_version p \<and> p_tasks p \<noteq> [] \<and>
      distinct (map pt_id (p_tasks p)) \<and> deps_known (p_tasks p) \<and> \<not> acyclic (depends (p_tasks p))"
    using validate_dag_iff(2) [of "p_tasks p"]
    by (auto simp: plan_post_init_def deps_known_def bindE_eq_Inl)
qed (simp add: plan_post_init_Inr)

text \<open>
  C11: A plan that the constructors accept is read back from its dictionary unchanged,
  whatever the time at which it is read.
\<close>

theorem plan_round_trip:
  assumes "plan_ok p"
  shows "plan_from_dict now (plan_to_dict p) = Inr p"
  using assms by (rule plan_round_trip_ok)

theorem plan_round_trip_witness:
  "plan_from_dict 7 (plan_to_dict (demo_plan True)) = Inr (demo_plan True)"
  by (rule plan_round_trip)
    (rule plan_reachable_plan(2) [OF demo_plans_reachable demo_plan_at])

section \<open>Every reachable plan\<close>

text \<open>
  C12: Whatever the requests so far, a task that was made ready, handed out, started or
  completed has all its dependencies completed.
\<close>

theorem started_after_dependencies:
  assumes "plan_reachable s" and "plan_at pid s = Some p" and "t \<in> set (p_tasks p)"
    and "pt_status t \<in> {PT_READY, PT_ASSIGNED, PT_IN_PROGRESS, PT_WAITING, PT_COMPLETED}"
    and "d \<in> set (pt_depends_on t)"
  shows "status_of_task (p_tasks p) d = Some PT_COMPLETED"
proof -
  have "task_started t" using assms(4) by (simp add: task_started_def)
  with plan_reachable_plan(3) [OF assms(1,2)] assms(3,5) show ?thesis
    unfolding tasks_inv_def deps_completed_def by blast
qed

theorem started_after_dependencies_witness:
  "\<exists>t. last (p_tasks (demo_plan True)) = t \<and> pt_status t = PT_READY \<and> pt_depends_on t = [''a''] \<and>
    status_of_task (p_tasks (demo_plan True)) ''a'' = Some PT_COMPLETED"
proof -
  obtain x y where t: "p_tasks (demo_plan True) = [x, y]" "pt_status y = PT_READY" "pt_depends_on y = [''a'']"
    by (rule demo_tasks)
  then have "y \<in> set (p_tasks (demo_plan True))"
    "pt_status y \<in> {PT_READY, PT_ASSIGNED, PT_IN_PROGRESS, PT_WAITING, PT_COMPLETED}"
    "''a'' \<in> set (pt_depends_on y)" by auto
  from started_after_dependencies [OF demo_plans_reachable demo_plan_at this] t show ?thesis by simp
qed

text \<open>
  C13: In every plan that requests can produce, whatever depends on a failed, blocked or
  cancelled task, directly or through others, is failed, blocked or cancelled itself: a
  failure leaves nothing behind it waiting.
\<close>

theorem failure_reaches_all_dependents:
  assumes "plan_reachable s" and "plan_at pid s = Some p" and "(i, d) \<in> (depends (p_tasks p))\<^sup>+"
    and "status_of_task (p_tasks p) d = Some sd" and "sd \<in> {PT_FAILED, PT_BLOCKED, PT_CANCELLED}"
  shows "\<exists>si. status_of_task (p_tasks p) i = Some si \<and> si \<in> {PT_FAILED, PT_BLOCKED, PT_CANCELLED}"
proof -
  note inv = plan_reachable_plan [OF assms(1,2)]
  have dist: "distinct (map pt_id (p_tasks p))" using inv(3) by (simp add: tasks_inv_def)
  have behind: "\<exists>si. status_of_task (p_tasks p) i = Some si \<and> dead si"
    if e: "(i, d) \<in> depends (p_tasks p)" and d: "status_of_task (p_tasks p) d = Some sd" "dead sd" for i d sd
  proof -
    obtain t where t: "t \<in> set (p_tasks p)" "pt_id t = i" "d \<in> set (pt_depends_on t)"
      using e by (auto simp: in_depends)
    have "\<not> task_started t"
      using inv(3) t d by (auto simp: tasks_inv_def deps_completed_def dead_def)
    moreover have "pt_status t \<noteq> PT_PENDING"
    proof
      assume pend: "pt_status t = PT_PENDING"
      obtain u where "u \<in> set (p_tasks p)" "pt_status u = sd"
        using status_of_task_Some [OF d(1)] by blast
      with inv(4) t pend d(2) have "p_status p \<in> {P_ACTIVE, P_PAUSED}"
        by (cases "p_status p") (auto simp: stage_inv_def list_all_iff task_is_terminal_def
            task_terminal_def dead_def)
      with inv(4) have "no_dead_end (p_tasks p)" by (auto simp: stage_inv_def)
      with t pend d show False unfolding no_dead_end_def by blast
    qed
    ultimately have "dead (pt_status t)" by (cases "pt_status t") (auto simp: task_started_def dead_def)
    with status_of_task_in [OF dist t(1)] t(2) show ?thesis by auto
  qed
  have "dead sd" using assms(5) by (simp add: dead_def)
  with assms(3,4) have "\<exists>si. status_of_task (p_tasks p) i = Some si \<and> dead si"
  proof (induction arbitrary: sd rule: trancl_induct)
    case (step y z)
    then show ?case using behind by metis
  qed (use behind in blast)
  then show ?thesis by (auto simp: dead_def)
qed

theorem failure_reaches_all_dependents_witness:
  "(''b'', ''a'') \<in> (depends (p_tasks (demo_plan False)))\<^sup>+ \<and>
   (\<exists>si. status_of_task (p_tasks (demo_plan False)) ''b'' = Some si \<and> si \<in> {PT_FAILED, PT_BLOCKED, PT_CANCELLED})"
proof -
  obtain x y where t: "p_tasks (demo_plan False) = [x, y]" "pt_id x = ''a''" "pt_id y = ''b''"
    "pt_status x = PT_FAILED" "pt_depends_on y = [''a'']" by (rule demo_failed_tasks)
  then have d: "(''b'', ''a'') \<in> (depends (p_tasks (demo_plan False)))\<^sup>+"
    by (intro r_into_trancl) (simp add: in_depends)
  moreover have "status_of_task (p_tasks (demo_plan False)) ''a'' = Some PT_FAILED"
    using t by (simp add: status_of_task_def)
  ultimately show ?thesis
    using failure_reaches_all_dependents [OF demo_plans_reachable demo_plan_at d] by simp
qed

text \<open>
  C14: An active plan is never stuck: after any requests it has a task that is ready to be
  handed out or one that is being worked on. This needs the check for cycles, the blocking of
  dependents, and the refresh after every result.
\<close>

theorem active_plan_not_stuck:
  assumes "plan_reachable s" and "plan_at pid s = Some p" and "p_status p = P_ACTIVE"
  shows "\<exists>t \<in> set (p_tasks p). pt_status t = PT_READY \<or> task_running t"
  using active_has_work [OF plan_reachable_plan(1) [OF assms(1,2)] assms(3)] .

theorem active_plan_not_stuck_witness:
  "\<exists>t \<in> set (p_tasks (demo_plan True)). pt_status t = PT_READY \<or> task_running t"
  by (rule active_plan_not_stuck [OF demo_plans_reachable demo_plan_at demo_plan_view(1)])

text \<open>
  C15: The status of a reachable plan and the statuses of its tasks agree: a plan not yet
  active has only pending tasks, an active one has unfinished work, a completed one has every
  task completed, a failed one has every task at an end but not all completed, a cancelled
  one has every task at an end. No request leads to the status superseded.
\<close>

theorem plan_status_agrees_with_tasks:
  assumes "plan_reachable s" and "plan_at pid s = Some p"
  shows "case p_status p of
      P_ACTIVE \<Rightarrow> \<not> list_all task_is_terminal (p_tasks p)
    | P_PAUSED \<Rightarrow> True
    | P_COMPLETED \<Rightarrow> list_all (\<lambda>t. pt_status t = PT_COMPLETED) (p_tasks p)
    | P_FAILED \<Rightarrow> list_all task_is_terminal (p_tasks p) \<and>
        \<not> list_all (\<lambda>t. pt_status t = PT_COMPLETED) (p_tasks p)
    | P_CANCELLED \<Rightarrow> list_all task_is_terminal (p_tasks p)
    | P_SUPERSEDED \<Rightarrow> False
    | _ \<Rightarrow> list_all (\<lambda>t. pt_status t = PT_PENDING) (p_tasks p)"
  using plan_reachable_plan(4) [OF assms] by (cases "p_status p") (simp_all add: stage_inv_def)

theorem plan_status_agrees_with_tasks_witness:
  "list_all task_is_terminal (p_tasks (demo_plan False)) \<and>
   \<not> list_all (\<lambda>t. pt_status t = PT_COMPLETED) (p_tasks (demo_plan False))"
  using plan_status_agrees_with_tasks [OF demo_plans_reachable demo_plan_at, of False]
  by (simp add: demo_plan_view(2))

text \<open>
  A task is tried at most once more than its retry limit, and a task that waits for
  another attempt has one left.
\<close>

theorem attempts_within_retry_limit:
  assumes "plan_reachable s" and "plan_at pid s = Some p" and "t \<in> set (p_tasks p)"
  shows "0 \<le> pt_attempts t \<and> pt_attempts t \<le> pt_retry_limit t + 1 \<and>
    (pt_attempts t = pt_retry_limit t + 1 \<longrightarrow> pt_status t \<notin> {PT_PENDING, PT_READY})"
  using plan_reachable_plan(3) [OF assms(1,2)] assms(3)
  by (fastforce simp: tasks_inv_def attempts_ok_def)

theorem attempts_within_retry_limit_witness:
  "pt_attempts (hd (p_tasks (demo_plan False))) = 1 \<and> 0 \<le> pt_retry_limit (hd (p_tasks (demo_plan False)))"
proof -
  obtain x y where t: "p_tasks (demo_plan False) = [x, y]" "pt_attempts x = 1" by (rule demo_failed_tasks)
  with attempts_within_retry_limit [OF demo_plans_reachable demo_plan_at, of x False] show ?thesis by simp
qed

text \<open>
  A completed, failed, cancelled or superseded plan keeps its status under every
  sequence of requests that does not clear this plan.
\<close>

theorem terminal_plan_keeps_status:
  assumes "plan_reachable s" and "plan_at pid s = Some p" and "plan_is_terminal p"
    and "ArchivePlan pid \<notin> set ops"
  shows "\<exists>q. plan_at pid (fold apply_plan ops s) = Some q \<and> p_status q = p_status p"
proof -
  have "plan_status_at pid s = Some (p_status p)" using assms(2) by (simp add: plan_status_at_def)
  moreover have "\<not> removes_plan op pid" if "op \<in> set ops" for op
    using that assms(4) by (auto simp: removes_plan_iff)
  ultimately have "plan_status_at pid (plans.run ops s) = Some (p_status p)"
    using plans.final_run [OF plan_reachable_inv [OF assms(1)]] assms(3) by (simp add: plan_is_terminal_def)
  then show ?thesis by (simp add: run_apply plan_status_at_def)
qed

theorem terminal_plan_keeps_status_witness:
  "\<exists>q. plan_at ''plan_'' (fold apply_plan [ActivatePlan ''plan_'', CancelPlan ''plan_''] (demo_plans False)) = Some q \<and>
    p_status q = P_FAILED"
  using terminal_plan_keeps_status [OF demo_plans_reachable demo_plan_at,
      of False "[ActivatePlan ''plan_'', CancelPlan ''plan_'']"]
  by (simp add: demo_plan_view(2) plan_is_terminal_def)

section \<open>Hand-out and removal\<close>

text \<open>
  A task that was handed out is not handed out a second time: right after a successful
  assignment every other assignment of it is refused, for any runtime task.
\<close>

theorem assigned_once:
  assumes "plan_reachable s" and "assign_task pid tid task s = Inr (q, s')"
  shows "assign_task pid tid task' s' = Inl TaskNotReady"
proof -
  note inv = plan_reachable_inv [OF assms(1)]
  obtain p t where r: "replaced pid p q s s'" "p_status q = P_ACTIVE" "find_task p tid = Inr t"
    using assign_replaced [OF inv assms(2)] by blast
  obtain f where q: "q = set_task tid f p" and f: "\<And>t. pt_id (f t) = pt_id t \<and> pt_status (f t) = PT_ASSIGNED"
  proof -
    have "pm_require pid s = Inr p" using r(1) by (simp add: pm_require_Inr [OF inv] replaced_def)
    with assms(2) r(3) that [of "\<lambda>t. t\<lparr>pt_status := PT_ASSIGNED, pt_task_id := Some task,
        pt_attempts := pt_attempts t + 1, pt_updated_at := p_clock s\<rparr>"] show thesis
      by (simp add: assign_task_def Let_def split: if_splits)
  qed
  have "find_task q tid = Inr (f t)"
    using r(3) f lookup_row_Some [of pt_id tid "p_tasks p" t]
    by (simp add: find_task_Inr q p_tasks_set_task lookup_row_update)
  moreover have "pm_require pid s' = Inr q"
    using replaced_at [OF inv r(1)] by (simp add: pm_require_Inr [OF replaced_inv [OF inv r(1)]])
  ultimately show ?thesis using f r(2) by (simp add: assign_task_def)
qed

theorem assigned_once_witness:
  "\<exists>q s'. assign_task ''plan_'' ''b'' ''t2'' (demo_plans True) = Inr (q, s') \<and>
    assign_task ''plan_'' ''b'' ''t3'' s' = Inl TaskNotReady"
proof -
  obtain x y where t: "p_tasks (demo_plan True) = [x, y]" "pt_id x = ''a''" "pt_id y = ''b''"
    "pt_status y = PT_READY" by (rule demo_tasks)
  have "pm_require ''plan_'' (demo_plans True) = Inr (demo_plan True)"
    by (simp add: pm_require_Inr [OF plan_reachable_inv [OF demo_plans_reachable]] demo_plan_at)
  then obtain q s' where "assign_task ''plan_'' ''b'' ''t2'' (demo_plans True) = Inr (q, s')"
    using t by (simp add: assign_task_def demo_plan_view(1) find_task_def Let_def)
  with assigned_once [OF demo_plans_reachable this] show ?thesis by blast
qed

text \<open>
  C16: Clearing the terminal plans of a session returns for every number of plans; it counts
  what it removed, removes terminal plans of the session only, keeps the invariant, and, when
  the session has at most 1000 plans, leaves no terminal one.
\<close>

theorem archiving_terminates:
  assumes "plan_reachable s"
  shows "\<exists>n s'. archive_terminal_for_session sid s = Some (Inr (n, s')) \<and> plan_db_inv s' \<and>
    length (plan_rows s) = n + length (plan_rows s') \<and>
    (\<forall>r \<in> set (plan_rows s) - set (plan_rows s'). pr_session_id r = sid \<and> row_terminal r) \<and>
    (length (filter (\<lambda>r. pr_session_id r = sid) (plan_rows s)) \<le> 1000 \<longrightarrow>
      (\<forall>r \<in> set (plan_rows s'). pr_session_id r = sid \<longrightarrow> \<not> row_terminal r))"
proof -
  obtain n s' K where r: "archive_loop sid 0 s = Some (Inr (0 + n, s'))" "plan_db_inv s'"
      "length (plan_rows s) = n + length (plan_rows s')" "\<forall>r \<in> set (page sid s'). \<not> row_terminal r"
      "plan_rows s' = filter K (plan_rows s)"
      "\<forall>r \<in> set (plan_rows s). \<not> K r \<longrightarrow> pr_session_id r = sid \<and> row_terminal r"
    using archive_loop_returns [OF plan_reachable_inv [OF assms], of sid 0] by (elim exE conjE) (rule that)
  have le: "length (filter Q (filter K xs)) \<le> length (filter Q xs)" for Q and xs :: "plan_row list"
    by (induction xs) auto
  have "\<forall>r \<in> set (plan_rows s'). pr_session_id r = sid \<longrightarrow> \<not> row_terminal r"
    if "length (filter (\<lambda>r. pr_session_id r = sid) (plan_rows s)) \<le> 1000"
  proof -
    have "set (page sid s') = {r \<in> set (plan_rows s'). pr_session_id r = sid}"
      by (rule page_full) (simp only: r(5) order_trans [OF le that])
    with r(4) show ?thesis by blast
  qed
  moreover have "\<forall>r \<in> set (plan_rows s) - set (plan_rows s'). pr_session_id r = sid \<and> row_terminal r"
    using r(6) by (auto simp: r(5))
  ultimately show ?thesis
    using r(1-3) by (intro exI [of _ n] exI [of _ s'] conjI) (simp_all add: archive_terminal_for_session_def)
qed

theorem archiving_terminates_witness:
  "\<exists>n s'. archive_terminal_for_session ''s'' (demo_plans False) = Some (Inr (n, s')) \<and> plan_db_inv s'"
  using archiving_terminates [OF demo_plans_reachable, of "''s''" False] by blast

end
