(* ===== verification/Goal_Models.thy ===== *)
theory Goal_Models
  imports Plan_Json
begin

text \<open>
  Goals (\<open>core/goal/models.py\<close>): the two enumerations, the normalisation of
  \<open>__post_init__\<close>, and the dictionary a goal is stored as. \<open>from_dict\<close> normalises again,
  and the lemmas show what that does to a stored goal: nothing but stripping the title.
\<close>

section \<open>Status and activation\<close>

datatype goal_status = G_ACTIVE | G_PAUSED | G_BLOCKED | G_COMPLETED | G_CANCELLED

fun goal_status_value :: "goal_status \<Rightarrow> string" where
  "goal_status_value G_ACTIVE = ''active''"
| "goal_status_value G_PAUSED = ''paused''"
| "goal_status_value G_BLOCKED = ''blocked''"
| "goal_status_value G_COMPLETED = ''completed''"
| "goal_status_value G_CANCELLED = ''cancelled''"

definition goal_terminal :: "goal_status \<Rightarrow> bool" where
  "goal_terminal st \<longleftrightarrow> st \<in> {G_COMPLETED, G_CANCELLED}"

datatype goal_activation = ARMED | DISARMED

fun activation_value :: "goal_activation \<Rightarrow> string" where
  "activation_value ARMED = ''armed''"
| "activation_value DISARMED = ''disarmed''"

datatype goal_error =
    GoalFieldsRequired | GoalValueError | GoalTypeError | UnknownGoal | GoalVersionConflict
  | GoalIsTerminal | ObjectiveEmpty | GoalNotArmed | RoundInProgress | StaleRound
  | GoalNotActive | GoalNotResumable | RoundLimitTooLow

section \<open>The record\<close>

record goal =
  g_id :: string
  g_session_id :: string
  g_title :: string
  g_objective :: string
  g_status :: goal_status
  g_activation :: goal_activation
  g_version :: int
  g_plan_id :: "string option"
  g_progress :: rat
  g_continuation :: dict
  g_blocked_reason :: "dict option"
  g_rounds_started :: int
  g_max_rounds :: int
  g_current_task :: "string option"
  g_archived_at :: "nat option"
  g_created_at :: nat
  g_updated_at :: nat

definition goal_post_init :: "goal \<Rightarrow> goal_error + goal" where
  "goal_post_init g =
    (if g_id g = [] \<or> g_session_id g = [] \<or> strip (g_objective g) = [] then Inl GoalFieldsRequired
     else Inr (g\<lparr>g_version := max 1 (g_version g),
       g_rounds_started := max 0 (g_rounds_started g),
       g_max_rounds := max 1 (g_max_rounds g),
       g_title := (if strip (g_title g) = [] then take 120 (strip (g_objective g))
                   else strip (g_title g)),
       g_progress := min 1 (max 0 (g_progress g)),
       g_activation := (if g_status g \<noteq> G_ACTIVE then DISARMED else g_activation g)\<rparr>))"

definition goal_is_terminal :: "goal \<Rightarrow> bool" where
  "goal_is_terminal g \<longleftrightarrow> goal_terminal (g_status g)"

definition goal_is_armed :: "goal \<Rightarrow> bool" where
  "goal_is_armed g \<longleftrightarrow> g_status g = G_ACTIVE \<and> g_activation g = ARMED"

section \<open>Dictionaries\<close>

definition goal_to_dict :: "goal \<Rightarrow> dict" where
  "goal_to_dict g =
    [(''goal_id'', JStr (g_id g)), (''session_id'', JStr (g_session_id g)),
     (''title'', JStr (g_title g)), (''objective'', JStr (g_objective g)),
     (''status'', JStr (goal_status_value (g_status g))),
     (''activation'', JStr (activation_value (g_activation g))),
     (''version'', JInt (g_version g)), (''plan_id'', jopt JStr (g_plan_id g)),
     (''progress'', JFloat (g_progress g)), (''continuation'', JObj (g_continuation g)),
     (''blocked_reason'', jopt JObj (g_blocked_reason g)),
     (''rounds_started'', JInt (g_rounds_started g)), (''max_rounds'', JInt (g_max_rounds g)),
     (''current_task_id'', jopt JStr (g_current_task g)),
     (''archived_at'', jopt jnat (g_archived_at g)),
     (''created_at'', jnat (g_created_at g)), (''updated_at'', jnat (g_updated_at g))]"

definition GOAL_FIELDS :: "string list" where
  "GOAL_FIELDS = [''goal_id'', ''session_id'', ''title'', ''objective'', ''status'', ''activation'',
     ''version'', ''plan_id'', ''progress'', ''continuation'', ''blocked_reason'',
     ''rounds_started'', ''max_rounds'', ''current_task_id'', ''archived_at'', ''created_at'',
     ''updated_at'']"

text \<open>A value of the wrong type, under this component's error.\<close>

definition typed :: "'x + 'a \<Rightarrow> goal_error + 'a" where
  "typed r = (case r of Inl _ \<Rightarrow> Inl GoalTypeError | Inr a \<Rightarrow> Inr a)"

lemma typed_simps [simp]: "typed (Inr a) = Inr a" "typed (Inl e) = Inl GoalTypeError"
  by (simp_all add: typed_def)

definition read_goal_status :: "json \<Rightarrow> goal_error + goal_status" where
  "read_goal_status v =
    of_option GoalValueError (find (\<lambda>st. v = JStr (goal_status_value st))
      [G_ACTIVE, G_PAUSED, G_BLOCKED, G_COMPLETED, G_CANCELLED])"

definition read_activation :: "json \<Rightarrow> goal_error + goal_activation" where
  "read_activation v =
    of_option GoalValueError (find (\<lambda>a. v = JStr (activation_value a)) [ARMED, DISARMED])"

lemma read_goal_values [simp]:
  "read_goal_status (JStr (goal_status_value st)) = Inr st"
  "read_activation (JStr (activation_value a)) = Inr a"
  by (cases st; simp add: read_goal_status_def) (cases a; simp add: read_activation_def)

fun read_dict :: "json \<Rightarrow> plan_error + dict" where
  "read_dict (JObj d) = Inr d"
| "read_dict _ = Inl PlanTypeError"

text \<open>A goal stored before activations existed is read as disarmed.\<close>

definition goal_from_dict :: "nat \<Rightarrow> dict \<Rightarrow> goal_error + goal" where
  "goal_from_dict now d =
    bindE (read_goal_status (dfield d ''status'' (JStr ''active''))) (\<lambda>st.
    bindE (read_activation (dfield d ''activation'' (JStr ''disarmed''))) (\<lambda>act.
    if \<not> set (map fst d) \<subseteq> set GOAL_FIELDS then Inl GoalTypeError
    else
      bindE (typed (bindE (need d ''goal_id'') read_str)) (\<lambda>gid.
      bindE (typed (bindE (need d ''session_id'') read_str)) (\<lambda>sid.
      bindE (typed (bindE (need d ''title'') read_str)) (\<lambda>title.
      bindE (typed (bindE (need d ''objective'') read_str)) (\<lambda>objective.
      bindE (typed (read_int (dfield d ''version'' (JInt 1)))) (\<lambda>version.
      bindE (typed (read_opt_str (dfield d ''plan_id'' JNull))) (\<lambda>plan.
      bindE (typed (read_float (dfield d ''progress'' (JFloat 0)))) (\<lambda>progress.
      bindE (typed (read_dict (dfield d ''continuation'' (JObj [])))) (\<lambda>continuation.
      bindE (typed (read_opt_dict (dfield d ''blocked_reason'' JNull))) (\<lambda>reason.
      bindE (typed (read_int (dfield d ''rounds_started'' (JInt 0)))) (\<lambda>rounds.
      bindE (typed (read_int (dfield d ''max_rounds'' (JInt 20)))) (\<lambda>limit.
      bindE (typed (read_opt_str (dfield d ''current_task_id'' JNull))) (\<lambda>task.
      bindE (typed (read_opt_time (dfield d ''archived_at'' JNull))) (\<lambda>archived.
      bindE (typed (read_time (dfield d ''created_at'' (jnat now)))) (\<lambda>created.
      bindE (typed (read_time (dfield d ''updated_at'' (jnat now)))) (\<lambda>updated.
      goal_post_init
        \<lparr>g_id = gid, g_session_id = sid, g_title = title, g_objective = objective, g_status = st,
         g_activation = act, g_version = version, g_plan_id = plan, g_progress = progress,
         g_continuation = continuation, g_blocked_reason = reason, g_rounds_started = rounds,
         g_max_rounds = limit, g_current_task = task, g_archived_at = archived,
         g_created_at = created, g_updated_at = updated\<rparr>)))))))))))))))))"

section \<open>Goals that can be stored\<close>

definition goal_ok :: "goal \<Rightarrow> bool" where
  "goal_ok g \<longleftrightarrow> g_id g \<noteq> [] \<and> g_session_id g \<noteq> [] \<and> strip (g_objective g) \<noteq> [] \<and>
    strip (g_title g) \<noteq> [] \<and> 1 \<le> g_version g \<and> 0 \<le> g_rounds_started g \<and> 1 \<le> g_max_rounds g \<and>
    0 \<le> g_progress g \<and> g_progress g \<le> 1 \<and> (g_activation g = DISARMED \<or> g_status g = G_ACTIVE)"

definition stripped :: "goal \<Rightarrow> goal" where
  "stripped g = g\<lparr>g_title := strip (g_title g)\<rparr>"

lemma stripped_fields [simp]:
  "g_id (stripped g) = g_id g" "g_session_id (stripped g) = g_session_id g"
  "g_objective (stripped g) = g_objective g" "g_status (stripped g) = g_status g"
  "g_activation (stripped g) = g_activation g" "g_version (stripped g) = g_version g"
  "g_rounds_started (stripped g) = g_rounds_started g" "g_max_rounds (stripped g) = g_max_rounds g"
  "g_current_task (stripped g) = g_current_task g" "g_progress (stripped g) = g_progress g"
  "g_title (stripped g) = strip (g_title g)" "stripped (stripped g) = stripped g"
  "g_plan_id (stripped g) = g_plan_id g" "g_continuation (stripped g) = g_continuation g"
  by (simp_all add: stripped_def strip_strip)

lemma goal_ok_stripped [simp]: "goal_ok (stripped g) = goal_ok g"
  by (simp add: goal_ok_def strip_strip)

lemma goal_post_init_ok: "goal_ok g \<Longrightarrow> goal_post_init g = Inr (stripped g)"
  by (cases g; cases "g_activation g") (auto simp: goal_ok_def goal_post_init_def stripped_def)

lemma strip_Nil_iff: "strip x = [] \<longleftrightarrow> (\<forall>c \<in> set x. py_space c)"
proof
  assume "strip x = []"
  then have "\<forall>c \<in> set (dropWhile py_space x). py_space c"
    by (simp add: strip_def dropWhile_eq_Nil_conv)
  moreover have "\<forall>c \<in> set (takeWhile py_space x). py_space c" by (auto dest: set_takeWhileD)
  ultimately show "\<forall>c \<in> set x. py_space c"
    by (metis Un_iff set_append takeWhile_dropWhile_id)
qed (auto simp: strip_def dropWhile_eq_Nil_conv dest: set_dropWhileD)

lemma hd_strip:
  assumes "strip x \<noteq> []"
  shows "\<not> py_space (hd (strip x))"
proof -
  let ?y = "dropWhile py_space x"
  have "rev ?y = takeWhile py_space (rev ?y) @ dropWhile py_space (rev ?y)" by simp
  then have y: "?y = strip x @ rev (takeWhile py_space (rev ?y))"
    unfolding strip_def by (metis rev_append rev_rev_ident)
  then have "hd ?y = hd (strip x)" "?y \<noteq> []" using assms by (metis hd_append2, metis append_is_Nil_conv)
  then show ?thesis using hd_dropWhile [of py_space x] by simp
qed

lemma strip_take:
  assumes "strip x \<noteq> []" and "0 < n"
  shows "strip (take n (strip x)) \<noteq> []"
proof -
  have "hd (strip x) \<in> set (take n (strip x))" using assms by (cases "strip x"; cases n) auto
  with hd_strip [OF assms(1)] show ?thesis by (auto simp: strip_Nil_iff)
qed

lemma goal_post_init_result: "goal_post_init g = Inr g' \<Longrightarrow> goal_ok g'"
  by (auto simp: goal_post_init_def goal_ok_def strip_take split: if_splits)

lemma goal_round_trip:
  assumes "goal_ok g"
  shows "goal_from_dict now (goal_to_dict g) = Inr (stripped g)"
  using goal_post_init_ok [OF assms]
  by (cases g) (simp add: goal_from_dict_def goal_to_dict_def need_def dfield_def GOAL_FIELDS_def)

end
