(* ===== verification/Goal_Runtime.thy ===== *)
theory Goal_Runtime
  imports Goal_Models
begin

text \<open>
  \<open>GoalRuntime\<close> (\<open>core/goal/runtime.py\<close>) over the goal statements of
  \<open>core/runtime/sqlite_store.py\<close>: every operation reads the goal back, checks the version
  the caller expected, changes the goal, raises its version, and saves it with an event. The
  session row keeps the id of its active goal.

  The quality gate is a parameter: the report it gives for a list of acceptance checks. The
  publish callback and the callback that cancels a running task are left out; the durable
  cancel mark that \<open>pause\<close> sets is recorded in \<open>g_cancels\<close>.
\<close>

section \<open>Tables\<close>

record goal_row =
  gr_goal_id :: string
  gr_session_id :: string
  gr_status :: string
  gr_title :: string
  gr_created_at :: nat
  gr_updated_at :: nat
  gr_json :: dict

record session_row =
  sr_session_id :: string
  sr_active_goal :: "string option"
  sr_updated_at :: nat

record goal_event =
  ge_type :: string
  ge_session_id :: string
  ge_data :: dict

record goal_db =
  goal_rows :: "goal_row list"
  session_rows :: "session_row list"
  goal_events :: "goal_event list"
  g_cancels :: "(string \<times> string) list"
  g_clock :: nat
  g_token :: "nat \<Rightarrow> string"
  g_next :: nat

definition upsert_goal_row :: "goal \<Rightarrow> goal_row list \<Rightarrow> goal_row list" where
  "upsert_goal_row g rows =
    (if g_id g \<in> set (map gr_goal_id rows)
     then sql_update (\<lambda>r. gr_goal_id r = g_id g)
       (\<lambda>r. r\<lparr>gr_session_id := g_session_id g, gr_status := goal_status_value (g_status g),
              gr_title := g_title g, gr_updated_at := g_updated_at g, gr_json := goal_to_dict g\<rparr>) rows
     else rows @
       [\<lparr>gr_goal_id = g_id g, gr_session_id = g_session_id g,
         gr_status = goal_status_value (g_status g), gr_title = g_title g,
         gr_created_at = g_created_at g, gr_updated_at = g_updated_at g, gr_json = goal_to_dict g\<rparr>])"

text \<open>The session points at the goal while it is active, and no longer when it stops.\<close>

definition point_session :: "goal \<Rightarrow> nat \<Rightarrow> session_row list \<Rightarrow> session_row list" where
  "point_session g now rows =
    (case lookup_row sr_session_id (g_session_id g) rows of
       None \<Rightarrow> rows
     | Some r \<Rightarrow>
         if g_status g = G_ACTIVE then
           sql_update (\<lambda>r. sr_session_id r = g_session_id g)
             (\<lambda>r. r\<lparr>sr_active_goal := Some (g_id g), sr_updated_at := now\<rparr>) rows
         else if sr_active_goal r = Some (g_id g) then
           sql_update (\<lambda>r. sr_session_id r = g_session_id g)
             (\<lambda>r. r\<lparr>sr_active_goal := None, sr_updated_at := now\<rparr>) rows
         else rows)"

definition save_goal :: "goal \<Rightarrow> goal_event \<Rightarrow> goal_db \<Rightarrow> goal_db" where
  "save_goal g ev s =
    s\<lparr>goal_rows := upsert_goal_row g (goal_rows s),
      session_rows := point_session g (g_clock s) (session_rows s),
      goal_events := goal_events s @ [ev]\<rparr>"

definition get_goal :: "string \<Rightarrow> goal_db \<Rightarrow> dict option" where
  "get_goal gid s = map_option gr_json (lookup_row gr_goal_id gid (goal_rows s))"

definition goal_limit :: "int \<Rightarrow> nat" where
  "goal_limit limit = nat (max 1 (min limit 1000))"

definition list_goals :: "string \<Rightarrow> int \<Rightarrow> goal_db \<Rightarrow> dict list" where
  "list_goals sid limit s =
    map gr_json (take (goal_limit limit)
      (order_by_desc gr_updated_at (filter (\<lambda>r. gr_session_id r = sid) (goal_rows s))))"

definition list_goals_by_status :: "string list \<Rightarrow> int \<Rightarrow> goal_db \<Rightarrow> dict list" where
  "list_goals_by_status statuses limit s =
    map gr_json (take (goal_limit limit)
      (order_by gr_updated_at (filter (\<lambda>r. gr_status r \<in> set statuses) (goal_rows s))))"

text \<open>The goal part of \<open>delete_goal\<close>: the row, and the sessions that point at it.\<close>

definition delete_goal :: "string \<Rightarrow> goal_db \<Rightarrow> goal_db" where
  "delete_goal gid s =
    s\<lparr>goal_rows := sql_delete (\<lambda>r. gr_goal_id r = gid) (goal_rows s),
      session_rows := sql_update (\<lambda>r. sr_active_goal r = Some gid)
        (\<lambda>r. r\<lparr>sr_active_goal := None, sr_updated_at := g_clock s\<rparr>) (session_rows s)\<rparr>"

section \<open>Reading, checking the version, saving\<close>

definition gm_get :: "string \<Rightarrow> goal_db \<Rightarrow> goal_error + goal option" where
  "gm_get gid s =
    (case get_goal gid s of
       None \<Rightarrow> Inr None
     | Some d \<Rightarrow> if d = [] then Inr None
         else bindE (goal_from_dict (g_clock s) d) (\<lambda>g. Inr (Some g)))"

definition require_version :: "string \<Rightarrow> int option \<Rightarrow> goal_db \<Rightarrow> goal_error + goal" where
  "require_version gid expected s =
    bindE (gm_get gid s) (\<lambda>r. bindE (of_option UnknownGoal r) (\<lambda>g.
      if expected \<noteq> None \<and> expected \<noteq> Some (g_version g) then Inl GoalVersionConflict
      else Inr g))"

definition goal_event_of :: "goal \<Rightarrow> string \<Rightarrow> goal_event" where
  "goal_event_of g event_type =
    \<lparr>ge_type = event_type, ge_session_id = g_session_id g,
     ge_data = [(''goal_id'', JStr (g_id g)), (''status'', JStr (goal_status_value (g_status g))),
       (''activation'', JStr (activation_value (g_activation g))), (''version'', JInt (g_version g)),
       (''rounds_started'', JInt (g_rounds_started g)), (''max_rounds'', JInt (g_max_rounds g)),
       (''current_task_id'', jopt JStr (g_current_task g))]\<rparr>"

definition gm_save :: "goal \<Rightarrow> string \<Rightarrow> goal_db \<Rightarrow> goal_db" where
  "gm_save g event_type s = save_goal g (goal_event_of g event_type) s"

definition bump :: "nat \<Rightarrow> goal \<Rightarrow> goal" where
  "bump now g = g\<lparr>g_version := g_version g + 1, g_updated_at := now\<rparr>"

definition touch :: "goal \<Rightarrow> string \<Rightarrow> goal_db \<Rightarrow> goal \<times> goal_db" where
  "touch g event_type s =
    (let g' = bump (g_clock s) g in (g', gm_save g' event_type s))"

type_synonym goal_result = "goal_error + goal \<times> goal_db"

section \<open>Operations\<close>

definition goal_create ::
  "string \<Rightarrow> string \<Rightarrow> string \<Rightarrow> dict option \<Rightarrow> int \<Rightarrow> bool \<Rightarrow> goal_db \<Rightarrow> goal_result" where
  "goal_create sid objective title continuation limit armed s =
    bindE (goal_post_init
        \<lparr>g_id = ''goal_'' @ g_token s (g_next s), g_session_id = sid,
         g_title = (if title = [] then take 120 objective else title), g_objective = objective,
         g_status = G_ACTIVE, g_activation = (if armed then ARMED else DISARMED), g_version = 1,
         g_plan_id = None, g_progress = 0,
         g_continuation = (case continuation of None \<Rightarrow> [] | Some d \<Rightarrow> d),
         g_blocked_reason = None, g_rounds_started = 0, g_max_rounds = limit,
         g_current_task = None, g_archived_at = None, g_created_at = g_clock s,
         g_updated_at = g_clock s\<rparr>)
      (\<lambda>g. Inr (g, gm_save g ''goal.created'' (s\<lparr>g_next := Suc (g_next s)\<rparr>)))"

definition update_continuation :: "string \<Rightarrow> dict \<Rightarrow> int option \<Rightarrow> goal_db \<Rightarrow> goal_result" where
  "update_continuation gid snapshot expected s =
    bindE (require_version gid expected s) (\<lambda>g.
      if goal_is_terminal g then Inl GoalIsTerminal
      else Inr (touch (g\<lparr>g_continuation := snapshot\<rparr>) ''goal.continuation_updated'' s))"

definition goal_edit :: "string \<Rightarrow> string \<Rightarrow> int option \<Rightarrow> goal_db \<Rightarrow> goal_result" where
  "goal_edit gid objective expected s =
    bindE (require_version gid expected s) (\<lambda>g.
      if strip objective = [] then Inl ObjectiveEmpty
      else if goal_is_terminal g then Inl GoalIsTerminal
      else Inr (touch (g\<lparr>g_objective := strip objective, g_title := take 120 (strip objective)\<rparr>)
                  ''goal.edited'' s))"

definition attach_plan :: "string \<Rightarrow> string \<Rightarrow> int option \<Rightarrow> goal_db \<Rightarrow> goal_result" where
  "attach_plan gid pid expected s =
    bindE (require_version gid expected s) (\<lambda>g.
      if goal_is_terminal g then Inl GoalIsTerminal
      else Inr (touch (g\<lparr>g_plan_id := Some pid\<rparr>) ''goal.plan_attached'' s))"

definition block_goal :: "string \<Rightarrow> dict \<Rightarrow> int option \<Rightarrow> goal_db \<Rightarrow> goal_result" where
  "block_goal gid reason expected s =
    bindE (require_version gid expected s) (\<lambda>g.
      if goal_is_terminal g then Inl GoalIsTerminal
      else Inr (touch (g\<lparr>g_status := G_BLOCKED, g_activation := DISARMED,
                         g_blocked_reason := Some reason, g_current_task := None\<rparr>)
                  ''goal.blocked'' s))"

definition has_task :: "string option \<Rightarrow> bool" where
  "has_task t \<longleftrightarrow> t \<noteq> None \<and> t \<noteq> Some []"

definition reserve_round :: "string \<Rightarrow> string \<Rightarrow> int option \<Rightarrow> goal_db \<Rightarrow> goal_result" where
  "reserve_round gid task expected s =
    bindE (require_version gid expected s) (\<lambda>g.
      if \<not> goal_is_armed g then Inl GoalNotArmed
      else if has_task (g_current_task g) then Inl RoundInProgress
      else if g_max_rounds g \<le> g_rounds_started g then
        block_goal gid [(''type'', JStr ''max_rounds''), (''max_rounds'', JInt (g_max_rounds g))]
          (Some (g_version g)) s
      else
        (let n = g_rounds_started g + 1 in
         Inr (touch (g\<lparr>g_rounds_started := n, g_current_task := Some task,
             g_continuation := dmerge (g_continuation g)
               [(''round'', JInt n), (''revision'', JInt (g_version g + 1)),
                (''task_id'', JStr task), (''state'', JStr ''queued'')]\<rparr>)
           ''goal.round_reserved'' s)))"

text \<open>The last \<open>n\<close> elements, \<open>xs[-n:]\<close>.\<close>

definition last_items :: "nat \<Rightarrow> 'a list \<Rightarrow> 'a list" where
  "last_items n xs = drop (length xs - n) xs"

definition finish_round :: "string \<Rightarrow> string \<Rightarrow> string \<Rightarrow> int option \<Rightarrow> goal_db \<Rightarrow> goal_result" where
  "finish_round gid task summary expected s =
    bindE (require_version gid expected s) (\<lambda>g.
      if g_current_task g \<noteq> Some task then Inl StaleRound
      else
        bindE (typed (read_list (dget (g_continuation g) ''round_history''))) (\<lambda>history0.
        let history = (if summary = [] then history0
              else history0 @ [JObj [(''round'', JInt (g_rounds_started g)),
                                     (''summary'', JStr (take 300 summary))]])
        in Inr (touch (g\<lparr>g_current_task := None,
             g_continuation := dmerge (g_continuation g)
               [(''task_id'', JStr task), (''state'', JStr ''completed''),
                (''summary'', JStr (take 2000 summary)),
                (''round_history'', JList (last_items 8 history))]\<rparr>)
           ''goal.round_completed'' s)))"

definition update_max_rounds :: "string \<Rightarrow> int \<Rightarrow> int option \<Rightarrow> goal_db \<Rightarrow> goal_result" where
  "update_max_rounds gid limit expected s =
    bindE (require_version gid expected s) (\<lambda>g.
      if goal_is_terminal g then Inl GoalIsTerminal
      else if max 1 limit < g_rounds_started g then Inl RoundLimitTooLow
      else Inr (touch (g\<lparr>g_max_rounds := max 1 limit\<rparr>) ''goal.max_rounds_updated'' s))"

text \<open>\<open>_record_dropped_round\<close>, which saves by itself.\<close>

definition drop_round :: "goal \<Rightarrow> string \<Rightarrow> int \<Rightarrow> string \<Rightarrow> goal_db \<Rightarrow> goal_result" where
  "drop_round g task n reason s =
    bindE (typed (read_list (dget (g_continuation g) ''dropped_rounds''))) (\<lambda>dropped.
      Inr (touch (g\<lparr>g_continuation := dmerge (g_continuation g)
          [(''dropped_rounds'', JList (last_items 20 (dropped @
            [JObj [(''round'', JInt n), (''task_id'', JStr task), (''reason'', JStr reason),
                   (''at'', jnat (g_clock s))]])))]\<rparr>)
        ''goal.round_dropped'' s))"

definition record_dropped_round ::
  "string \<Rightarrow> string \<Rightarrow> int \<Rightarrow> string \<Rightarrow> int option \<Rightarrow> goal_db \<Rightarrow> goal_result" where
  "record_dropped_round gid task n reason expected s =
    bindE (require_version gid expected s) (\<lambda>g.
      if goal_is_terminal g then Inr (g, s) else drop_round g task n reason s)"

text \<open>
  \<open>pause\<close>: a running round is recorded as dropped (a first save), its task is marked for
  cancellation, and then the goal is paused (a second save).
\<close>

definition pause_goal :: "string \<Rightarrow> int option \<Rightarrow> goal_db \<Rightarrow> goal_result" where
  "pause_goal gid expected s =
    bindE (require_version gid expected s) (\<lambda>g.
      if g_status g \<noteq> G_ACTIVE then Inl GoalNotActive
      else
        bindE (case g_current_task g of
            Some (c # cs) \<Rightarrow>
              bindE (let r = dget (g_continuation g) ''round'' in
                  if truthy r then typed (read_int r) else Inr (g_rounds_started g)) (\<lambda>n.
              bindE (drop_round g (c # cs) n ''paused'' s) (\<lambda>(g1, s1).
              Inr (g1\<lparr>g_current_task := None\<rparr>,
                   s1\<lparr>g_cancels := g_cancels s1 @ [(c # cs, ''goal_paused'')]\<rparr>)))
          | _ \<Rightarrow> Inr (g, s)) (\<lambda>(g2, s2).
        Inr (touch (g2\<lparr>g_status := G_PAUSED, g_activation := DISARMED\<rparr>) ''goal.paused'' s2)))"

definition resume_goal :: "string \<Rightarrow> int option \<Rightarrow> goal_db \<Rightarrow> goal_result" where
  "resume_goal gid expected s =
    bindE (require_version gid expected s) (\<lambda>g.
      if g_status g \<notin> {G_PAUSED, G_BLOCKED, G_ACTIVE} then Inl GoalNotResumable
      else Inr (touch (g\<lparr>g_status := G_ACTIVE, g_activation := ARMED, g_blocked_reason := None,
                         g_current_task := None\<rparr>) ''goal.resumed'' s))"

definition disarm_goal :: "string \<Rightarrow> int option \<Rightarrow> goal_db \<Rightarrow> goal_result" where
  "disarm_goal gid expected s =
    bindE (require_version gid expected s) (\<lambda>g.
      if goal_is_terminal g then Inr (g, s)
      else Inr (touch (g\<lparr>g_activation := DISARMED, g_current_task := None\<rparr>) ''goal.disarmed'' s))"

definition cancel_goal :: "string \<Rightarrow> int option \<Rightarrow> goal_db \<Rightarrow> goal_result" where
  "cancel_goal gid expected s =
    bindE (require_version gid expected s) (\<lambda>g.
      if goal_is_terminal g then Inr (g, s)
      else Inr (touch (g\<lparr>g_status := G_CANCELLED, g_activation := DISARMED, g_current_task := None\<rparr>)
                  ''goal.cancelled'' s))"

definition finish_complete :: "goal \<Rightarrow> goal_db \<Rightarrow> goal \<times> goal_db" where
  "finish_complete g s =
    touch (g\<lparr>g_status := G_COMPLETED, g_activation := DISARMED, g_progress := 1,
             g_current_task := None\<rparr>) ''goal.completed'' s"

text \<open>A quality gate gives the checks that failed it, or None when it passed.\<close>

type_synonym gate = "json list \<Rightarrow> string \<Rightarrow> string \<Rightarrow> json list option"

definition complete_goal ::
  "gate option \<Rightarrow> string \<Rightarrow> string \<Rightarrow> json list \<Rightarrow> int option \<Rightarrow> goal_db \<Rightarrow> goal_result" where
  "complete_goal gate gid txt acceptance expected s =
    bindE (require_version gid expected s) (\<lambda>g.
      if g_status g \<noteq> G_ACTIVE then Inl GoalNotActive
      else
        (case (case gate of None \<Rightarrow> None
               | Some q \<Rightarrow> if acceptance = [] then None else q acceptance (g_session_id g) txt) of
           Some checks \<Rightarrow>
             block_goal gid [(''type'', JStr ''quality_gate_failed''), (''checks'', JList checks)]
               (Some (g_version g)) s
         | None \<Rightarrow> Inr (finish_complete g s)))"

text \<open>
  \<open>complete_async\<close> waits for the gate between its check and its save. The two halves are
  operations of their own; \<open>outcome\<close> is what the gate reported in between.
\<close>

definition complete_begin :: "string \<Rightarrow> int option \<Rightarrow> goal_db \<Rightarrow> goal_error + goal" where
  "complete_begin gid expected s =
    bindE (require_version gid expected s) (\<lambda>g.
      if g_status g \<noteq> G_ACTIVE then Inl GoalNotActive else Inr g)"

definition complete_end :: "string \<Rightarrow> goal \<Rightarrow> json list option \<Rightarrow> goal_db \<Rightarrow> goal_result" where
  "complete_end gid g outcome s =
    (case outcome of
       Some checks \<Rightarrow>
         block_goal gid [(''type'', JStr ''quality_gate_failed''), (''checks'', JList checks)]
           (Some (g_version g)) s
     | None \<Rightarrow> Inr (finish_complete g s))"

definition archive_goal :: "string \<Rightarrow> int option \<Rightarrow> goal_db \<Rightarrow> goal_result" where
  "archive_goal gid expected s =
    bindE (require_version gid expected s) (\<lambda>g.
      Inr (if goal_is_terminal g then g
           else g\<lparr>g_status := G_CANCELLED, g_activation := DISARMED, g_current_task := None\<rparr>,
           delete_goal gid s))"

text \<open>What the end of a plan does to its goal.\<close>

definition reconcile_plan :: "plan \<Rightarrow> goal_db \<Rightarrow> goal_error + goal option \<times> goal_db" where
  "reconcile_plan p s =
    (case p_goal_id p of
       None \<Rightarrow> Inr (None, s)
     | Some gid \<Rightarrow>
         if gid = [] then Inr (None, s)
         else bindE (gm_get gid s) (\<lambda>r.
           case r of
             None \<Rightarrow> Inr (None, s)
           | Some g \<Rightarrow>
               if goal_is_terminal g then Inr (Some g, s)
               else if p_status p = P_COMPLETED then
                 bindE (complete_goal None gid (''Plan '' @ p_id p @ '' completed'') [] None s)
                   (\<lambda>(g', s'). Inr (Some g', s'))
               else if p_status p \<in> {P_FAILED, P_CANCELLED} then
                 bindE (block_goal gid [(''type'', JStr ''plan_terminal''),
                     (''plan_id'', JStr (p_id p)),
                     (''status'', JStr (plan_status_value (p_status p)))] None s)
                   (\<lambda>(g', s'). Inr (Some g', s'))
               else Inr (Some g, s)))"

section \<open>Listing\<close>

definition gm_list :: "string \<Rightarrow> int \<Rightarrow> goal_db \<Rightarrow> goal_error + goal list" where
  "gm_list sid limit s = map_E (goal_from_dict (g_clock s)) (list_goals sid limit s)"

definition gm_list_recoverable :: "int \<Rightarrow> goal_db \<Rightarrow> goal_error + goal list" where
  "gm_list_recoverable limit s =
    map_E (goal_from_dict (g_clock s))
      (list_goals_by_status (map goal_status_value [G_ACTIVE, G_PAUSED, G_BLOCKED]) limit s)"

definition list_armed :: "int \<Rightarrow> goal_db \<Rightarrow> goal_error + goal list" where
  "list_armed limit s = bindE (gm_list_recoverable limit s) (\<lambda>gs. Inr (filter goal_is_armed gs))"

definition has_armed_for_session :: "string \<Rightarrow> goal_db \<Rightarrow> goal_error + bool" where
  "has_armed_for_session sid s =
    bindE (list_armed 100 s) (\<lambda>gs. Inr (\<exists>g \<in> set gs. g_session_id g = sid))"

section \<open>Requests\<close>

datatype goal_op =
    CreateGoal string string string "dict option" int bool
  | ContinueGoal string dict "int option"
  | EditGoal string string "int option"
  | AttachPlan string string "int option"
  | ReserveRound string string "int option"
  | FinishRound string string string "int option"
  | LimitRounds string int "int option"
  | DropRound string string int string "int option"
  | PauseGoal string "int option"
  | ResumeGoal string "int option"
  | DisarmGoal string "int option"
  | BlockGoal string dict "int option"
  | CancelGoal string "int option"
  | CompleteGoal "gate option" string string "json list" "int option"
  | ReconcilePlan plan
  | ArchiveGoal string "int option"
  | GoalTime nat

fun exec_goal :: "goal_op \<Rightarrow> goal_db \<Rightarrow> goal_error + goal_db" where
  "exec_goal (CreateGoal sid obj title c limit armed) s =
    bindE (goal_create sid obj title c limit armed s) (\<lambda>(_, s'). Inr s')"
| "exec_goal (ContinueGoal gid d v) s = bindE (update_continuation gid d v s) (\<lambda>(_, s'). Inr s')"
| "exec_goal (EditGoal gid obj v) s = bindE (goal_edit gid obj v s) (\<lambda>(_, s'). Inr s')"
| "exec_goal (AttachPlan gid pid v) s = bindE (attach_plan gid pid v s) (\<lambda>(_, s'). Inr s')"
| "exec_goal (ReserveRound gid task v) s = bindE (reserve_round gid task v s) (\<lambda>(_, s'). Inr s')"
| "exec_goal (FinishRound gid task sm v) s = bindE (finish_round gid task sm v s) (\<lambda>(_, s'). Inr s')"
| "exec_goal (LimitRounds gid n v) s = bindE (update_max_rounds gid n v s) (\<lambda>(_, s'). Inr s')"
| "exec_goal (DropRound gid task n r v) s =
    bindE (record_dropped_round gid task n r v s) (\<lambda>(_, s'). Inr s')"
| "exec_goal (PauseGoal gid v) s = bindE (pause_goal gid v s) (\<lambda>(_, s'). Inr s')"
| "exec_goal (ResumeGoal gid v) s = bindE (resume_goal gid v s) (\<lambda>(_, s'). Inr s')"
| "exec_goal (DisarmGoal gid v) s = bindE (disarm_goal gid v s) (\<lambda>(_, s'). Inr s')"
| "exec_goal (BlockGoal gid r v) s = bindE (block_goal gid r v s) (\<lambda>(_, s'). Inr s')"
| "exec_goal (CancelGoal gid v) s = bindE (cancel_goal gid v s) (\<lambda>(_, s'). Inr s')"
| "exec_goal (CompleteGoal q gid txt acc v) s =
    bindE (complete_goal q gid txt acc v s) (\<lambda>(_, s'). Inr s')"
| "exec_goal (ReconcilePlan p) s = bindE (reconcile_plan p s) (\<lambda>(_, s'). Inr s')"
| "exec_goal (ArchiveGoal gid v) s = bindE (archive_goal gid v s) (\<lambda>(_, s'). Inr s')"
| "exec_goal (GoalTime t) s = Inr (s\<lparr>g_clock := max t (g_clock s)\<rparr>)"

end
