(* ===== verification/Goal_Inv.thy ===== *)
theory Goal_Inv
  imports Goal_Runtime
begin

text \<open>
  The invariant of the goal tables, and that every operation of \<open>GoalRuntime\<close> keeps it: an
  armed goal is active, a running round belongs to an armed goal, the rounds started are
  within the limit, and a session points at active goals of its own only.
\<close>

section \<open>The invariant\<close>

definition goal_inv :: "goal \<Rightarrow> bool" where
  "goal_inv g \<longleftrightarrow> goal_ok g \<and> g_rounds_started g \<le> g_max_rounds g \<and>
    (\<not> has_task (g_current_task g) \<or> goal_is_armed g) \<and> (g_status g \<noteq> G_COMPLETED \<or> g_progress g = 1) \<and>
    (\<not> goal_terminal (g_status g) \<or> g_current_task g = None)"

definition goal_at :: "string \<Rightarrow> goal_db \<Rightarrow> goal option" where
  "goal_at gid s =
    (case lookup_row gr_goal_id gid (goal_rows s) of
       None \<Rightarrow> None
     | Some r \<Rightarrow> (case goal_from_dict 0 (gr_json r) of Inl _ \<Rightarrow> None | Inr g \<Rightarrow> Some g))"

definition goal_row_ok :: "goal_row \<Rightarrow> bool" where
  "goal_row_ok r \<longleftrightarrow> (\<exists>g. gr_json r = goal_to_dict g \<and> g_id g = gr_goal_id r \<and>
    gr_session_id r = g_session_id g \<and> gr_status r = goal_status_value (g_status g) \<and> goal_inv g)"

definition points_ok :: "goal_db \<Rightarrow> bool" where
  "points_ok s \<longleftrightarrow> unique_key sr_session_id (session_rows s) \<and>
    (\<forall>r \<in> set (session_rows s). \<forall>gid. sr_active_goal r = Some gid \<longrightarrow>
      (\<exists>g. goal_at gid s = Some g \<and> g_status g = G_ACTIVE \<and> g_session_id g = sr_session_id r))"

definition goal_db_inv :: "goal_db \<Rightarrow> bool" where
  "goal_db_inv s \<longleftrightarrow> unique_key gr_goal_id (goal_rows s) \<and> (\<forall>r \<in> set (goal_rows s). goal_row_ok r) \<and>
    inj (g_token s) \<and>
    (\<forall>r \<in> set (goal_rows s). \<exists>n < g_next s. gr_goal_id r = ''goal_'' @ g_token s n) \<and> points_ok s"

lemma goal_inv_stripped [simp]: "goal_inv (stripped g) = goal_inv g"
  by (simp add: goal_inv_def goal_is_armed_def)

lemma goal_row:
  assumes "goal_row_ok r"
  obtains g where "\<And>now. goal_from_dict now (gr_json r) = Inr (stripped g)" "g_id g = gr_goal_id r"
    "gr_session_id r = g_session_id g" "gr_status r = goal_status_value (g_status g)" "goal_inv g"
    "gr_json r \<noteq> []"
proof -
  obtain g where g: "gr_json r = goal_to_dict g" "g_id g = gr_goal_id r"
      "gr_session_id r = g_session_id g" "gr_status r = goal_status_value (g_status g)" "goal_inv g"
    using assms unfolding goal_row_ok_def by blast
  moreover have "goal_to_dict g \<noteq> []" by (simp add: goal_to_dict_def)
  ultimately show thesis using that [of g] goal_round_trip [of g] by (simp add: goal_inv_def)
qed

lemma gm_get_eq:
  assumes "goal_db_inv s"
  shows "gm_get gid s = Inr (goal_at gid s)"
proof (cases "lookup_row gr_goal_id gid (goal_rows s)")
  case None
  then show ?thesis by (simp add: gm_get_def get_goal_def goal_at_def)
next
  case (Some r)
  with assms have "goal_row_ok r" by (auto simp: goal_db_inv_def dest: lookup_row_Some)
  with Some show ?thesis by (elim goal_row) (simp add: gm_get_def get_goal_def goal_at_def)
qed

lemma require_version_Inr:
  "goal_db_inv s \<Longrightarrow> require_version gid e s = Inr g \<longleftrightarrow>
    goal_at gid s = Some g \<and> (e = None \<or> e = Some (g_version g))"
  by (auto simp: require_version_def gm_get_eq split: if_splits)

lemma goal_at_inv:
  assumes "goal_db_inv s" and "goal_at gid s = Some g"
  shows "goal_inv g \<and> g_id g = gid \<and> stripped g = g"
proof -
  obtain r where r: "lookup_row gr_goal_id gid (goal_rows s) = Some r" "goal_from_dict 0 (gr_json r) = Inr g"
    using assms(2) by (auto simp: goal_at_def split: option.splits sum.splits)
  with assms(1) have "goal_row_ok r" "gr_goal_id r = gid" by (auto simp: goal_db_inv_def dest: lookup_row_Some)
  with r(2) show ?thesis by (elim goal_row) auto
qed

lemma goal_at_known:
  assumes "goal_db_inv s" and "goal_at gid s = Some g"
  shows "\<exists>n < g_next s. gid = ''goal_'' @ g_token s n"
proof -
  obtain r where "lookup_row gr_goal_id gid (goal_rows s) = Some r"
    using assms(2) by (auto simp: goal_at_def split: option.splits)
  from lookup_row_Some [OF this] assms(1) show ?thesis by (auto simp: goal_db_inv_def)
qed

section \<open>Saving\<close>

lemma gm_save_frame [simp]:
  "goal_rows (gm_save g ev s) = upsert_goal_row g (goal_rows s)"
  "session_rows (gm_save g ev s) = point_session g (g_clock s) (session_rows s)"
  "g_token (gm_save g ev s) = g_token s" "g_next (gm_save g ev s) = g_next s"
  "g_clock (gm_save g ev s) = g_clock s"
  by (simp_all add: gm_save_def save_goal_def)

lemma lookup_upsert_goal:
  "lookup_row gr_goal_id gid (upsert_goal_row g rows) =
    (if gid = g_id g then
       (case lookup_row gr_goal_id gid rows of
          None \<Rightarrow> Some \<lparr>gr_goal_id = g_id g, gr_session_id = g_session_id g,
            gr_status = goal_status_value (g_status g), gr_title = g_title g,
            gr_created_at = g_created_at g, gr_updated_at = g_updated_at g, gr_json = goal_to_dict g\<rparr>
        | Some r \<Rightarrow> Some (r\<lparr>gr_session_id := g_session_id g, gr_status := goal_status_value (g_status g),
              gr_title := g_title g, gr_updated_at := g_updated_at g, gr_json := goal_to_dict g\<rparr>))
     else lookup_row gr_goal_id gid rows)"
proof (cases "g_id g \<in> set (map gr_goal_id rows)")
  case True
  then obtain r where "lookup_row gr_goal_id (g_id g) rows = Some r"
    using lookup_row_None [of gr_goal_id "g_id g" rows] by blast
  with True show ?thesis
    by (cases "lookup_row gr_goal_id gid rows")
      (auto simp: upsert_goal_row_def lookup_row_update dest: lookup_row_Some)
next
  case False
  then have "lookup_row gr_goal_id (g_id g) rows = None" by (simp only: lookup_row_None not_False_eq_True)
  with False show ?thesis
    by (auto simp: upsert_goal_row_def lookup_row_append split: option.split)
qed

lemma goal_at_save:
  assumes "goal_inv g"
  shows "goal_at gid (gm_save g ev s) = (if gid = g_id g then Some (stripped g) else goal_at gid s)"
  using assms goal_round_trip [of g 0]
  by (simp add: goal_at_def lookup_upsert_goal goal_inv_def split: option.split)

lemma point_session_unique [simp]:
  "unique_key sr_session_id rows \<Longrightarrow> unique_key sr_session_id (point_session g now rows)"
  by (auto simp: point_session_def unique_key_def split: option.split)

lemma point_session_points:
  assumes "unique_key sr_session_id rows" and "r \<in> set (point_session g now rows)"
    and "sr_active_goal r = Some gid"
  shows "gid = g_id g \<and> g_status g = G_ACTIVE \<and> g_session_id g = sr_session_id r \<or>
    (\<exists>r0 \<in> set rows. sr_session_id r0 = sr_session_id r \<and> sr_active_goal r0 = Some gid \<and>
      (gid = g_id g \<longrightarrow> g_status g = G_ACTIVE \<or> g_session_id g \<noteq> sr_session_id r))"
proof (cases "lookup_row sr_session_id (g_session_id g) rows")
  case None
  with assms have "r \<in> set rows" by (simp add: point_session_def)
  moreover from this None lookup_row_None [of sr_session_id "g_session_id g" rows]
  have "g_session_id g \<noteq> sr_session_id r" by force
  ultimately show ?thesis using assms(3) by blast
next
  case (Some r1)
  have u: "x = r1" if "x \<in> set rows" "sr_session_id x = g_session_id g" for x
    using unique_key_eq [OF assms(1), of x r1] that lookup_row_Some [OF Some] by simp
  show ?thesis
    using assms(2,3) Some u
    by (auto simp: point_session_def split: if_splits elim!: sql_updateE)
qed

lemma save_points_ok:
  assumes "points_ok s" and "goal_inv g"
    and "\<And>h. goal_at (g_id g) s = Some h \<Longrightarrow> g_session_id h = g_session_id g"
  shows "points_ok (gm_save g ev s)"
  unfolding points_ok_def
proof (intro conjI ballI allI impI)
  show "unique_key sr_session_id (session_rows (gm_save g ev s))"
    using assms(1) by (simp add: points_ok_def)
next
  fix r gid assume r: "r \<in> set (session_rows (gm_save g ev s))" "sr_active_goal r = Some gid"
  have "unique_key sr_session_id (session_rows s)" using assms(1) by (simp add: points_ok_def)
  from point_session_points [OF this r(1) [unfolded gm_save_frame] r(2)]
  show "\<exists>ga. goal_at gid (gm_save g ev s) = Some ga \<and> g_status ga = G_ACTIVE \<and> g_session_id ga = sr_session_id r"
  proof (elim disjE bexE conjE)
    assume "gid = g_id g" "g_status g = G_ACTIVE" "g_session_id g = sr_session_id r"
    with assms(2) show ?thesis by (simp add: goal_at_save)
  next
    fix r0 assume r0: "r0 \<in> set (session_rows s)" "sr_session_id r0 = sr_session_id r"
      "sr_active_goal r0 = Some gid" "gid = g_id g \<longrightarrow> g_status g = G_ACTIVE \<or> g_session_id g \<noteq> sr_session_id r"
    then obtain h where h: "goal_at gid s = Some h" "g_status h = G_ACTIVE" "g_session_id h = sr_session_id r"
      using assms(1) unfolding points_ok_def by fastforce
    with r0 assms(2,3) show ?thesis by (auto simp: goal_at_save)
  qed
qed

lemma goal_db_inv_save:
  assumes "goal_db_inv s" and "goal_inv g"
    and "\<And>h. goal_at (g_id g) s = Some h \<Longrightarrow> g_session_id h = g_session_id g"
    and "\<exists>n < g_next s. g_id g = ''goal_'' @ g_token s n"
  shows "goal_db_inv (gm_save g ev s)"
proof -
  have "unique_key gr_goal_id (upsert_goal_row g (goal_rows s))"
    using assms(1) by (auto simp: upsert_goal_row_def goal_db_inv_def
        intro!: unique_key_update unique_key_snoc)
  moreover have "goal_row_ok r \<and> (\<exists>n < g_next s. gr_goal_id r = ''goal_'' @ g_token s n)"
    if "r \<in> set (upsert_goal_row g (goal_rows s))" for r
    using that assms(1,2,4)
    by (auto simp: upsert_goal_row_def goal_db_inv_def split: if_splits elim!: sql_updateE)
      (auto simp: goal_row_ok_def)
  moreover have "points_ok (gm_save g ev s)"
    by (rule save_points_ok) (use assms in \<open>auto simp: goal_db_inv_def\<close>)
  ultimately show ?thesis using assms(1) by (simp add: goal_db_inv_def)
qed

section \<open>Operations\<close>

text \<open>
  What an operation on an existing goal does: the goal \<open>g\<close> of the id becomes \<open>g'\<close>, at a
  higher version, and no other goal changes.
\<close>

definition changed :: "string \<Rightarrow> goal \<Rightarrow> goal \<Rightarrow> goal_db \<Rightarrow> goal_db \<Rightarrow> bool" where
  "changed gid g g' s s' \<longleftrightarrow> goal_at gid s = Some g \<and> goal_db_inv s' \<and> goal_inv g' \<and>
    g_id g' = gid \<and> g_session_id g' = g_session_id g \<and> g_version g < g_version g' \<and>
    (\<forall>k. goal_at k s' = (if k = gid then Some (stripped g') else goal_at k s))"

lemma goal_inv_bump [simp]: "goal_inv g \<Longrightarrow> goal_inv (bump now g)"
  by (simp add: goal_inv_def goal_ok_def bump_def goal_is_armed_def)

lemma bump_fields [simp]:
  "g_id (bump now g) = g_id g" "g_session_id (bump now g) = g_session_id g"
  "g_version (bump now g) = g_version g + 1" "g_status (bump now g) = g_status g"
  "g_activation (bump now g) = g_activation g" "g_current_task (bump now g) = g_current_task g"
  "g_rounds_started (bump now g) = g_rounds_started g" "g_max_rounds (bump now g) = g_max_rounds g"
  "g_objective (bump now g) = g_objective g" "g_continuation (bump now g) = g_continuation g"
  by (simp_all add: bump_def)

lemma touch_changed:
  assumes "goal_db_inv s" and "goal_at gid s = Some g" and "touch h ev s = (g', s')"
    and "goal_inv h" and "g_id h = gid" and "g_session_id h = g_session_id g" and "g_version h = g_version g"
  shows "changed gid g g' s s'"
proof -
  have t: "g' = bump (g_clock s) h" "s' = gm_save (bump (g_clock s) h) ev s"
    using assms(3) by (auto simp: touch_def Let_def)
  have "goal_db_inv s'"
    unfolding t by (rule goal_db_inv_save) (use assms goal_at_known [OF assms(1,2)] in auto)
  with assms t show ?thesis by (auto simp: changed_def goal_at_save)
qed

lemma changed_trans:
  assumes "changed gid g g1 s s1" and "changed gid (stripped g1) g2 s1 s2"
  shows "changed gid g g2 s s2"
  using assms by (auto simp: changed_def)

text \<open>An operation that checks the version and then saves a changed copy.\<close>

lemma op_changed:
  assumes "goal_db_inv s" and "require_version gid v s = Inr g" and "touch h ev s = (g', s')"
    and "goal_inv g \<Longrightarrow> goal_inv h"
    and "g_id h = g_id g \<and> g_session_id h = g_session_id g \<and> g_version h = g_version g"
  shows "changed gid g g' s s' \<and> g' = bump (g_clock s) h"
proof -
  have at: "goal_at gid s = Some g" using assms(1,2) by (simp add: require_version_Inr)
  with goal_at_inv [OF assms(1) at] touch_changed [OF assms(1) at assms(3)] assms(4,5) have "changed gid g g' s s'" by simp
  with assms(3) show ?thesis by (auto simp: touch_def Let_def)
qed

lemmas goal_inv_defs = goal_inv_def goal_ok_def goal_is_armed_def goal_is_terminal_def goal_terminal_def has_task_def

text \<open>The changes the operations make keep the invariant.\<close>

lemma goal_inv_keep:
  "goal_inv g \<Longrightarrow> goal_inv (g\<lparr>g_continuation := d\<rparr>)"
  "goal_inv g \<Longrightarrow> goal_inv (g\<lparr>g_plan_id := pid\<rparr>)"
  "goal_inv g \<Longrightarrow> g_rounds_started g \<le> max 1 n \<Longrightarrow> goal_inv (g\<lparr>g_max_rounds := max 1 n\<rparr>)"
  "goal_inv g \<Longrightarrow> strip obj \<noteq> [] \<Longrightarrow>
    goal_inv (g\<lparr>g_objective := strip obj, g_title := take 120 (strip obj)\<rparr>)"
  "goal_inv g \<Longrightarrow> goal_inv (g\<lparr>g_status := G_BLOCKED, g_activation := DISARMED,
    g_blocked_reason := r, g_current_task := None\<rparr>)"
  "goal_inv g \<Longrightarrow> goal_is_armed g \<Longrightarrow> g_rounds_started g < g_max_rounds g \<Longrightarrow>
    goal_inv (g\<lparr>g_rounds_started := g_rounds_started g + 1, g_current_task := Some task, g_continuation := d\<rparr>)"
  "goal_inv g \<Longrightarrow> goal_inv (g\<lparr>g_current_task := None, g_continuation := d\<rparr>)"
  "goal_inv g \<Longrightarrow> goal_inv (g\<lparr>g_status := G_ACTIVE, g_activation := ARMED, g_blocked_reason := r,
    g_current_task := None\<rparr>)"
  "goal_inv g \<Longrightarrow> goal_inv (g\<lparr>g_activation := DISARMED, g_current_task := None\<rparr>)"
  "goal_inv g \<Longrightarrow> goal_inv (g\<lparr>g_status := G_CANCELLED, g_activation := DISARMED, g_current_task := None\<rparr>)"
  "goal_inv g \<Longrightarrow> goal_inv (g\<lparr>g_status := G_COMPLETED, g_activation := DISARMED, g_progress := 1,
    g_current_task := None\<rparr>)"
  "goal_inv g \<Longrightarrow> g_status g = G_ACTIVE \<Longrightarrow> \<not> has_task (g_current_task g) \<Longrightarrow>
    goal_inv (g\<lparr>g_status := G_PAUSED, g_activation := DISARMED\<rparr>)"
  "goal_inv g \<Longrightarrow> g_status g = G_ACTIVE \<Longrightarrow>
    goal_inv (g\<lparr>g_current_task := None, g_status := G_PAUSED, g_activation := DISARMED\<rparr>)"
  by (simp_all add: goal_inv_def goal_ok_def has_task_def goal_is_armed_def goal_terminal_def strip_take)

lemma update_continuation_changed:
  assumes "goal_db_inv s" and "update_continuation gid d v s = Inr (g', s')"
  shows "\<exists>g. changed gid g g' s s' \<and> \<not> goal_is_terminal g \<and> g' = bump (g_clock s) (g\<lparr>g_continuation := d\<rparr>)"
proof -
  obtain g where g: "require_version gid v s = Inr g" "\<not> goal_is_terminal g"
    "touch (g\<lparr>g_continuation := d\<rparr>) ''goal.continuation_updated'' s = (g', s')"
    using assms(2) by (auto simp: update_continuation_def split: if_splits)
  from op_changed [OF assms(1) g(1,3) goal_inv_keep(1)] g(2) show ?thesis by auto
qed

lemma goal_edit_changed:
  assumes "goal_db_inv s" and "goal_edit gid obj v s = Inr (g', s')"
  shows "\<exists>g. changed gid g g' s s' \<and> \<not> goal_is_terminal g \<and>
    g' = bump (g_clock s) (g\<lparr>g_objective := strip obj, g_title := take 120 (strip obj)\<rparr>)"
proof -
  obtain g where g: "require_version gid v s = Inr g" "\<not> goal_is_terminal g" "strip obj \<noteq> []"
    "touch (g\<lparr>g_objective := strip obj, g_title := take 120 (strip obj)\<rparr>) ''goal.edited'' s = (g', s')"
    using assms(2) by (auto simp: goal_edit_def split: if_splits)
  from op_changed [OF assms(1) g(1,4) goal_inv_keep(4)] g(2,3) show ?thesis by auto
qed

lemma attach_plan_changed:
  assumes "goal_db_inv s" and "attach_plan gid pid v s = Inr (g', s')"
  shows "\<exists>g. changed gid g g' s s' \<and> \<not> goal_is_terminal g \<and> g' = bump (g_clock s) (g\<lparr>g_plan_id := Some pid\<rparr>)"
proof -
  obtain g where g: "require_version gid v s = Inr g" "\<not> goal_is_terminal g"
    "touch (g\<lparr>g_plan_id := Some pid\<rparr>) ''goal.plan_attached'' s = (g', s')"
    using assms(2) by (auto simp: attach_plan_def split: if_splits)
  from op_changed [OF assms(1) g(1,3) goal_inv_keep(2)] g(2) show ?thesis by auto
qed

lemma update_max_rounds_changed:
  assumes "goal_db_inv s" and "update_max_rounds gid n v s = Inr (g', s')"
  shows "\<exists>g. changed gid g g' s s' \<and> \<not> goal_is_terminal g \<and> g' = bump (g_clock s) (g\<lparr>g_max_rounds := max 1 n\<rparr>)"
proof -
  obtain g where g: "require_version gid v s = Inr g" "\<not> goal_is_terminal g" "\<not> max 1 n < g_rounds_started g"
    "touch (g\<lparr>g_max_rounds := max 1 n\<rparr>) ''goal.max_rounds_updated'' s = (g', s')"
    using assms(2) by (auto simp: update_max_rounds_def split: if_splits)
  from op_changed [OF assms(1) g(1,4) goal_inv_keep(3)] g(2,3) show ?thesis by auto
qed

lemma block_goal_changed:
  assumes "goal_db_inv s" and "block_goal gid reason v s = Inr (g', s')"
  shows "\<exists>g. changed gid g g' s s' \<and> \<not> goal_is_terminal g \<and> g' = bump (g_clock s)
    (g\<lparr>g_status := G_BLOCKED, g_activation := DISARMED, g_blocked_reason := Some reason, g_current_task := None\<rparr>)"
proof -
  obtain g where g: "require_version gid v s = Inr g" "\<not> goal_is_terminal g"
    "touch (g\<lparr>g_status := G_BLOCKED, g_activation := DISARMED, g_blocked_reason := Some reason,
       g_current_task := None\<rparr>) ''goal.blocked'' s = (g', s')"
    using assms(2) by (auto simp: block_goal_def split: if_splits)
  from op_changed [OF assms(1) g(1,3) goal_inv_keep(5)] g(2) show ?thesis by auto
qed

lemma reserve_round_changed:
  assumes "goal_db_inv s" and "reserve_round gid task v s = Inr (g', s')"
  shows "\<exists>g. changed gid g g' s s' \<and> goal_is_armed g \<and> \<not> has_task (g_current_task g) \<and>
    (if g_max_rounds g \<le> g_rounds_started g then g_status g' = G_BLOCKED \<and> g_rounds_started g' = g_rounds_started g
     else g_rounds_started g' = g_rounds_started g + 1 \<and> g_current_task g' = Some task \<and> g_status g' = G_ACTIVE)"
proof -
  obtain g where g: "require_version gid v s = Inr g" "goal_is_armed g" "\<not> has_task (g_current_task g)"
    using assms(2) by (auto simp: reserve_round_def split: if_splits)
  then have at: "goal_at gid s = Some g" using assms(1) by (simp add: require_version_Inr)
  show ?thesis
  proof (cases "g_max_rounds g \<le> g_rounds_started g")
    case True
    with assms(2) g obtain r where "block_goal gid r (Some (g_version g)) s = Inr (g', s')"
      by (auto simp: reserve_round_def)
    from block_goal_changed [OF assms(1) this] at g True show ?thesis by (auto simp: changed_def)
  next
    case False
    with assms(2) g obtain c where
      "touch (g\<lparr>g_rounds_started := g_rounds_started g + 1, g_current_task := Some task,
        g_continuation := c\<rparr>) ''goal.round_reserved'' s = (g', s')"
      by (auto simp: reserve_round_def Let_def)
    from op_changed [OF assms(1) g(1) this goal_inv_keep(6)] g False show ?thesis
      by (auto simp: goal_is_armed_def)
  qed
qed

lemma finish_round_changed:
  assumes "goal_db_inv s" and "finish_round gid task summary v s = Inr (g', s')"
  shows "\<exists>g. changed gid g g' s s' \<and> g_current_task g = Some task \<and> g_current_task g' = None \<and>
    g_status g' = g_status g \<and> g_rounds_started g' = g_rounds_started g"
proof -
  obtain g c where g: "require_version gid v s = Inr g" "g_current_task g = Some task"
    "touch (g\<lparr>g_current_task := None, g_continuation := c\<rparr>) ''goal.round_completed'' s = (g', s')"
    using assms(2) by (auto simp: finish_round_def Let_def split: if_splits)
  from op_changed [OF assms(1) g(1,3) goal_inv_keep(7)] g(2) show ?thesis by auto
qed

lemma drop_round_changed:
  assumes "goal_db_inv s" and "require_version gid v s = Inr g" and "drop_round g task n reason s = Inr (g', s')"
  shows "\<exists>c. changed gid g g' s s' \<and> g' = bump (g_clock s) (g\<lparr>g_continuation := c\<rparr>)"
proof -
  obtain c where c: "touch (g\<lparr>g_continuation := c\<rparr>) ''goal.round_dropped'' s = (g', s')"
    using assms(3) by (auto simp: drop_round_def)
  from op_changed [OF assms(1,2) c goal_inv_keep(1)] show ?thesis by auto
qed

lemma resume_goal_changed:
  assumes "goal_db_inv s" and "resume_goal gid v s = Inr (g', s')"
  shows "\<exists>g. changed gid g g' s s' \<and> \<not> goal_is_terminal g \<and> g' = bump (g_clock s)
    (g\<lparr>g_status := G_ACTIVE, g_activation := ARMED, g_blocked_reason := None, g_current_task := None\<rparr>)"
proof -
  obtain g where g: "require_version gid v s = Inr g" "g_status g \<in> {G_PAUSED, G_BLOCKED, G_ACTIVE}"
    "touch (g\<lparr>g_status := G_ACTIVE, g_activation := ARMED, g_blocked_reason := None,
       g_current_task := None\<rparr>) ''goal.resumed'' s = (g', s')"
    using assms(2) by (auto simp: resume_goal_def split: if_splits)
  from op_changed [OF assms(1) g(1,3) goal_inv_keep(8)] g(2) show ?thesis
    by (auto simp: goal_is_terminal_def goal_terminal_def)
qed

lemma disarm_goal_changed:
  assumes "goal_db_inv s" and "disarm_goal gid v s = Inr (g', s')"
  shows "s' = s \<or> (\<exists>g. changed gid g g' s s' \<and> \<not> goal_is_terminal g \<and>
    g' = bump (g_clock s) (g\<lparr>g_activation := DISARMED, g_current_task := None\<rparr>))"
proof -
  obtain g where g: "require_version gid v s = Inr g" using assms(2) by (auto simp: disarm_goal_def)
  show ?thesis
  proof (cases "goal_is_terminal g")
    case False
    with assms(2) g have t: "touch (g\<lparr>g_activation := DISARMED, g_current_task := None\<rparr>) ''goal.disarmed'' s = (g', s')"
      by (simp add: disarm_goal_def)
    from op_changed [OF assms(1) g t goal_inv_keep(9)] False show ?thesis by auto
  qed (use assms(2) g in \<open>simp add: disarm_goal_def\<close>)
qed

lemma cancel_goal_changed:
  assumes "goal_db_inv s" and "cancel_goal gid v s = Inr (g', s')"
  shows "s' = s \<or> (\<exists>g. changed gid g g' s s' \<and> \<not> goal_is_terminal g \<and> g_status g' = G_CANCELLED)"
proof -
  obtain g where g: "require_version gid v s = Inr g" using assms(2) by (auto simp: cancel_goal_def)
  show ?thesis
  proof (cases "goal_is_terminal g")
    case False
    with assms(2) g have t: "touch (g\<lparr>g_status := G_CANCELLED, g_activation := DISARMED, g_current_task := None\<rparr>)
        ''goal.cancelled'' s = (g', s')"
      by (simp add: cancel_goal_def)
    from op_changed [OF assms(1) g t goal_inv_keep(10)] False show ?thesis by auto
  qed (use assms(2) g in \<open>simp add: cancel_goal_def\<close>)
qed

end
