(* ===== verification/Goal_Machine.thy ===== *)
theory Goal_Machine
  imports Goal_Inv
begin

text \<open>
  The remaining operations of \<open>GoalRuntime\<close>, and the interpretations: goals as a machine
  with an invariant and a life cycle, and the version of a goal as an optimistic lock.
\<close>

section \<open>Pausing, completing, creating, removing\<close>

lemma goal_db_inv_cancels: "goal_db_inv s \<Longrightarrow> goal_db_inv (s\<lparr>g_cancels := c\<rparr>)"
  by (simp add: goal_db_inv_def points_ok_def goal_at_def)

lemma goal_at_frame: "goal_rows s' = goal_rows s \<Longrightarrow> goal_at gid s' = goal_at gid s"
  by (simp add: goal_at_def)

lemma changed_cancels: "changed gid g g' s s' \<Longrightarrow> changed gid g g' s (s'\<lparr>g_cancels := c\<rparr>)"
  by (auto simp: changed_def goal_db_inv_cancels goal_at_def)

text \<open>A save that continues an operation: the state was already changed once.\<close>

lemma touch_after:
  assumes "changed gid g g1 s s1" and "touch h ev s1 = (g', s')" and "goal_inv h"
    and "g_id h = gid" and "g_session_id h = g_session_id g" and "g_version h = g_version g1"
  shows "changed gid g g' s s' \<and> g' = bump (g_clock s1) h"
proof -
  have "changed gid (stripped g1) g' s1 s'"
    by (rule touch_changed [OF _ _ assms(2,3)]) (use assms in \<open>auto simp: changed_def\<close>)
  with changed_trans [OF assms(1)] assms(2) show ?thesis by (auto simp: touch_def Let_def)
qed

lemma pause_goal_changed:
  assumes "goal_db_inv s" and "pause_goal gid v s = Inr (g', s')"
  shows "\<exists>g. changed gid g g' s s' \<and> g_status g = G_ACTIVE \<and> g_status g' = G_PAUSED \<and>
    g_rounds_started g' = g_rounds_started g \<and> \<not> has_task (g_current_task g') \<and>
    g_version g' = g_version g + (if has_task (g_current_task g) then 2 else 1)"
proof -
  obtain g where g: "require_version gid v s = Inr g" "g_status g = G_ACTIVE"
    using assms(2) by (auto simp: pause_goal_def split: if_splits)
  have at: "goal_at gid s = Some g" using assms(1) g by (simp add: require_version_Inr)
  show ?thesis
  proof (cases "has_task (g_current_task g)")
    case False
    then have "touch (g\<lparr>g_status := G_PAUSED, g_activation := DISARMED\<rparr>) ''goal.paused'' s = (g', s')"
      using assms(2) g by (auto simp: pause_goal_def has_task_def split: option.splits list.splits)
    from op_changed [OF assms(1) g(1) this goal_inv_keep(12)] False g(2) show ?thesis by auto
  next
    case True
    then obtain task where task: "g_current_task g = Some task" "task \<noteq> []" by (auto simp: has_task_def)
    obtain n g1 s1 where d: "drop_round g task n ''paused'' s = Inr (g1, s1)"
      and t: "touch (g1\<lparr>g_current_task := None, g_status := G_PAUSED, g_activation := DISARMED\<rparr>) ''goal.paused''
          (s1\<lparr>g_cancels := g_cancels s1 @ [(task, ''goal_paused'')]\<rparr>) = (g', s')"
      using assms(2) g task by (cases task) (auto simp: pause_goal_def case_prod_Inr)
    from drop_round_changed [OF assms(1) g(1) d] obtain c where
      c: "changed gid g g1 s s1" "g1 = bump (g_clock s) (g\<lparr>g_continuation := c\<rparr>)" by blast
    have "goal_inv (g1\<lparr>g_current_task := None, g_status := G_PAUSED, g_activation := DISARMED\<rparr>)"
      using c g(2) by (intro goal_inv_keep(13)) (auto simp: changed_def)
    from touch_after [OF changed_cancels [OF c(1)] t this] c goal_at_inv [OF assms(1) at] True g(2) show ?thesis
      by (auto simp: has_task_def)
  qed
qed

lemma finish_complete_changed:
  assumes "goal_db_inv s" and "goal_at gid s = Some g" and "finish_complete g s = (g', s')"
  shows "changed gid g g' s s' \<and> g_status g' = G_COMPLETED"
proof -
  have "require_version gid None s = Inr g" using assms(1,2) by (simp add: require_version_Inr)
  from op_changed [OF assms(1) this assms(3) [unfolded finish_complete_def] goal_inv_keep(11)]
  show ?thesis by auto
qed

lemma complete_goal_changed:
  assumes "goal_db_inv s" and "complete_goal q gid txt acceptance v s = Inr (g', s')"
  shows "\<exists>g. changed gid g g' s s' \<and> \<not> goal_is_terminal g \<and> g_status g' \<in> {G_COMPLETED, G_BLOCKED}"
proof -
  obtain g where g: "require_version gid v s = Inr g" "g_status g = G_ACTIVE"
    using assms(2) by (auto simp: complete_goal_def split: if_splits)
  then have at: "goal_at gid s = Some g" using assms(1) by (simp add: require_version_Inr)
  consider (failed) r where "block_goal gid r (Some (g_version g)) s = Inr (g', s')"
    | (passed) "finish_complete g s = (g', s')"
    using assms(2) g by (auto simp: complete_goal_def split: option.splits if_splits)
  then show ?thesis
  proof cases
    case failed
    from block_goal_changed [OF assms(1) this] show ?thesis by auto
  next
    case passed
    from finish_complete_changed [OF assms(1) at this] g(2) show ?thesis
      by (auto simp: goal_is_terminal_def goal_terminal_def)
  qed
qed

lemma record_dropped_changed:
  assumes "goal_db_inv s" and "record_dropped_round gid task n reason v s = Inr (g', s')"
  shows "s' = s \<or> (\<exists>g. changed gid g g' s s' \<and> \<not> goal_is_terminal g)"
proof -
  obtain g where g: "require_version gid v s = Inr g" using assms(2) by (auto simp: record_dropped_round_def)
  show ?thesis
  proof (cases "goal_is_terminal g")
    case False
    with assms(2) g have "drop_round g task n reason s = Inr (g', s')" by (simp add: record_dropped_round_def)
    from drop_round_changed [OF assms(1) g this] False show ?thesis by blast
  qed (use assms(2) g in \<open>simp add: record_dropped_round_def\<close>)
qed

lemma reconcile_changed:
  assumes "goal_db_inv s" and "reconcile_plan p s = Inr (r, s')"
  shows "s' = s \<or> (\<exists>gid g g'. changed gid g g' s s' \<and> \<not> goal_is_terminal g)"
proof (cases "p_goal_id p = None \<or> p_goal_id p = Some [] \<or> goal_at (the (p_goal_id p)) s = None")
  case True
  with assms show ?thesis
    by (cases "p_goal_id p") (auto simp: reconcile_plan_def gm_get_eq split: if_splits)
next
  case False
  then obtain gid g where g: "p_goal_id p = Some gid" "gid \<noteq> []" "goal_at gid s = Some g" by auto
  note eq = gm_get_eq [OF assms(1), of gid]
  show ?thesis
  proof (cases "goal_is_terminal g")
    case True
    with assms g eq show ?thesis by (auto simp: reconcile_plan_def)
  next
    case nt: False
    consider (complete) g' where "complete_goal None gid (''Plan '' @ p_id p @ '' completed'') [] None s = Inr (g', s')"
      | (block) g' rs where "block_goal gid rs None s = Inr (g', s')" | (none) "s' = s"
      using assms(2) g eq nt by (auto simp: reconcile_plan_def case_prod_Inr split: if_splits)
    then show ?thesis
    proof cases
      case complete
      from complete_goal_changed [OF assms(1) this] show ?thesis by blast
    next
      case block
      from block_goal_changed [OF assms(1) this] show ?thesis by blast
    qed simp
  qed
qed

lemma fresh_goal_id:
  assumes "goal_db_inv s"
  shows "goal_at (''goal_'' @ g_token s (g_next s)) s = None"
proof (rule ccontr)
  assume "goal_at (''goal_'' @ g_token s (g_next s)) s \<noteq> None"
  then obtain g where "goal_at (''goal_'' @ g_token s (g_next s)) s = Some g" by blast
  from goal_at_known [OF assms this] obtain n where "n < g_next s" "g_token s (g_next s) = g_token s n"
    by auto
  with assms show False by (auto simp: goal_db_inv_def dest: injD)
qed

lemma goal_create_result:
  assumes "goal_db_inv s" and "goal_create sid obj title c limit armed s = Inr (g, s')"
  shows "goal_db_inv s' \<and> goal_inv g \<and> g_id g = ''goal_'' @ g_token s (g_next s) \<and>
    g_status g = G_ACTIVE \<and> g_version g = 1 \<and> g_rounds_started g = 0 \<and>
    g_activation g = (if armed then ARMED else DISARMED) \<and>
    (\<forall>k. goal_at k s' = (if k = g_id g then Some (stripped g) else goal_at k s))"
proof -
  let ?s = "s\<lparr>g_next := Suc (g_next s)\<rparr>"
  define g0 where "g0 = \<lparr>g_id = ''goal_'' @ g_token s (g_next s), g_session_id = sid,
         g_title = (if title = [] then take 120 obj else title), g_objective = obj,
         g_status = G_ACTIVE, g_activation = (if armed then ARMED else DISARMED), g_version = 1,
         g_plan_id = None, g_progress = 0,
         g_continuation = (case c of None \<Rightarrow> [] | Some d \<Rightarrow> d),
         g_blocked_reason = None, g_rounds_started = 0, g_max_rounds = limit,
         g_current_task = None, g_archived_at = None, g_created_at = g_clock s,
         g_updated_at = g_clock s\<rparr>"
  have p: "goal_post_init g0 = Inr g" and s': "s' = gm_save g ''goal.created'' ?s"
    using assms(2) by (auto simp: goal_create_def g0_def)
  have f: "g_id g = ''goal_'' @ g_token s (g_next s)" "g_status g = G_ACTIVE" "g_version g = 1"
      "g_rounds_started g = 0" "g_activation g = (if armed then ARMED else DISARMED)" "1 \<le> g_max_rounds g"
      "g_current_task g = None"
    using p by (auto simp: goal_post_init_def g0_def split: if_splits)
  then have inv: "goal_inv g"
    using goal_post_init_result [OF p] by (auto simp: goal_inv_def has_task_def)
  have at: "goal_at k ?s = goal_at k s" for k by (simp add: goal_at_def)
  have "points_ok ?s" using assms(1) by (simp add: goal_db_inv_def points_ok_def at)
  then have "goal_db_inv ?s"
    using assms(1) unfolding goal_db_inv_def by (simp del: append.simps) (meson less_SucI)
  then have "goal_db_inv s'"
    unfolding s' by (rule goal_db_inv_save [OF _ inv]) (use fresh_goal_id [OF assms(1)] f(1) at in auto)
  with inv f show ?thesis by (auto simp: s' goal_at_save at)
qed

lemma goal_at_delete: "goal_at k (delete_goal gid s) = (if k = gid then None else goal_at k s)"
proof -
  have "lookup_row gr_goal_id k (sql_delete (\<lambda>r. gr_goal_id r = gid) rows) =
      (if k = gid then None else lookup_row gr_goal_id k rows)" for rows :: "goal_row list"
    by (induction rows) (auto simp: sql_delete_def)
  then show ?thesis unfolding goal_at_def delete_goal_def by simp
qed

lemma delete_goal_inv:
  assumes "goal_db_inv s"
  shows "goal_db_inv (delete_goal gid s)"
proof -
  have "points_ok (delete_goal gid s)"
    unfolding points_ok_def
  proof (intro conjI ballI allI impI)
    show "unique_key sr_session_id (session_rows (delete_goal gid s))"
      using assms by (simp add: goal_db_inv_def points_ok_def delete_goal_def unique_key_update)
    fix r k assume r: "r \<in> set (session_rows (delete_goal gid s))" "sr_active_goal r = Some k"
    then have "r \<in> set (session_rows s)" "k \<noteq> gid"
      by (auto simp: delete_goal_def elim!: sql_updateE)
    then show "\<exists>g. goal_at k (delete_goal gid s) = Some g \<and> g_status g = G_ACTIVE \<and> g_session_id g = sr_session_id r"
      using assms r(2) by (auto simp: goal_at_delete goal_db_inv_def points_ok_def)
  qed
  with assms show ?thesis
    by (auto simp: goal_db_inv_def delete_goal_def set_sql_delete intro: unique_key_delete)
qed

section \<open>The machine\<close>

definition live_goal_change :: "goal_db \<Rightarrow> goal_db \<Rightarrow> bool" where
  "live_goal_change s s' \<longleftrightarrow> (\<exists>gid g g'. changed gid g g' s s' \<and> \<not> goal_is_terminal g)"

lemma live_goal_changeI: "changed gid g g' s s' \<Longrightarrow> \<not> goal_is_terminal g \<Longrightarrow> live_goal_change s s'"
  unfolding live_goal_change_def by blast

lemma live_goal_changes:
  assumes inv: "goal_db_inv s"
  shows "update_continuation gid d v s = Inr (g', s') \<Longrightarrow> live_goal_change s s'"
    and "goal_edit gid obj v s = Inr (g', s') \<Longrightarrow> live_goal_change s s'"
    and "attach_plan gid pid v s = Inr (g', s') \<Longrightarrow> live_goal_change s s'"
    and "update_max_rounds gid n v s = Inr (g', s') \<Longrightarrow> live_goal_change s s'"
    and "block_goal gid reason v s = Inr (g', s') \<Longrightarrow> live_goal_change s s'"
    and "resume_goal gid v s = Inr (g', s') \<Longrightarrow> live_goal_change s s'"
    and "complete_goal q gid txt acc v s = Inr (g', s') \<Longrightarrow> live_goal_change s s'"
    and "reserve_round gid task v s = Inr (g', s') \<Longrightarrow> live_goal_change s s'"
    and "pause_goal gid v s = Inr (g', s') \<Longrightarrow> live_goal_change s s'"
    and "finish_round gid task summary v s = Inr (g', s') \<Longrightarrow> live_goal_change s s'"
  subgoal by (drule update_continuation_changed [OF inv]) (blast intro: live_goal_changeI)
  subgoal by (drule goal_edit_changed [OF inv]) (blast intro: live_goal_changeI)
  subgoal by (drule attach_plan_changed [OF inv]) (blast intro: live_goal_changeI)
  subgoal by (drule update_max_rounds_changed [OF inv]) (blast intro: live_goal_changeI)
  subgoal by (drule block_goal_changed [OF inv]) (blast intro: live_goal_changeI)
  subgoal by (drule resume_goal_changed [OF inv]) (blast intro: live_goal_changeI)
  subgoal by (drule complete_goal_changed [OF inv]) (blast intro: live_goal_changeI)
  subgoal by (drule reserve_round_changed [OF inv])
      (elim exE conjE, erule live_goal_changeI, simp add: goal_is_armed_def goal_is_terminal_def goal_terminal_def)
  subgoal by (drule pause_goal_changed [OF inv])
      (elim exE conjE, erule live_goal_changeI, simp add: goal_is_terminal_def goal_terminal_def)
  subgoal by (drule finish_round_changed [OF inv])
      (elim exE conjE, rule live_goal_changeI, assumption,
        auto simp: goal_is_terminal_def changed_def goal_inv_def dest!: goal_at_inv [OF inv])
  done

lemma exec_goal_step:
  assumes "exec_goal op s = Inr s'" and "goal_db_inv s"
  obtains (create) sid obj title c limit armed g
      where "goal_create sid obj title c limit armed s = Inr (g, s')"
  | (change) "live_goal_change s s'"
  | (removal) gid v where "op = ArchiveGoal gid v" "s' = delete_goal gid s"
  | (time) t where "s' = s\<lparr>g_clock := t\<rparr>"
  | (same) "s' = s"
proof (cases op)
  case (CreateGoal sid obj title c limit armed)
  with assms(1) create show thesis by (auto simp: case_prod_Inr)
next
  case (DropRound gid task n r v)
  with assms(1) obtain g where "record_dropped_round gid task n r v s = Inr (g, s')" by (auto simp: case_prod_Inr)
  from record_dropped_changed [OF assms(2) this] change same live_goal_changeI show thesis by blast
next
  case (DisarmGoal gid v)
  with assms(1) obtain g where "disarm_goal gid v s = Inr (g, s')" by (auto simp: case_prod_Inr)
  from disarm_goal_changed [OF assms(2) this] change same live_goal_changeI show thesis by blast
next
  case (CancelGoal gid v)
  with assms(1) obtain g where "cancel_goal gid v s = Inr (g, s')" by (auto simp: case_prod_Inr)
  from cancel_goal_changed [OF assms(2) this] change same live_goal_changeI show thesis by blast
next
  case (ReconcilePlan p)
  with assms(1) obtain r where "reconcile_plan p s = Inr (r, s')" by (auto simp: case_prod_Inr)
  from reconcile_changed [OF assms(2) this] change same live_goal_changeI show thesis by blast
next
  case (ArchiveGoal gid v)
  with assms(1) have "s' = delete_goal gid s" by (auto simp: case_prod_Inr archive_goal_def)
  with ArchiveGoal removal show thesis by blast
next
  case (GoalTime t)
  with assms(1) have "s' = s\<lparr>g_clock := max t (g_clock s)\<rparr>" by simp
  then show thesis by (rule time)
qed (use assms(1) change in \<open>auto simp: case_prod_Inr dest: live_goal_changes [OF assms(2)]\<close>)

lemma exec_goal_inv:
  assumes "exec_goal op s = Inr s'" and "goal_db_inv s"
  shows "goal_db_inv s'"
  using assms
proof (cases rule: exec_goal_step)
  case (create sid obj title c limit armed g)
  from goal_create_result [OF assms(2) this] show ?thesis by blast
next
  case change
  then show ?thesis by (auto simp: live_goal_change_def changed_def)
next
  case (removal gid v)
  with delete_goal_inv [OF assms(2)] show ?thesis by simp
next
  case (time t)
  with assms(2) show ?thesis by (simp add: goal_db_inv_def points_ok_def goal_at_def)
next
  case same
  with assms(2) show ?thesis by simp
qed

definition goal_status_at :: "string \<Rightarrow> goal_db \<Rightarrow> goal_status option" where
  "goal_status_at gid s = map_option g_status (goal_at gid s)"

fun removes_goal :: "goal_op \<Rightarrow> string \<Rightarrow> bool" where
  "removes_goal (ArchiveGoal gid _) k \<longleftrightarrow> gid = k"
| "removes_goal _ _ \<longleftrightarrow> False"

lemma exec_goal_final:
  assumes "exec_goal op s = Inr s'" and "goal_db_inv s" and "goal_status_at gid s = Some st"
    and "goal_terminal st" and "\<not> removes_goal op gid"
  shows "goal_status_at gid s' = Some st"
proof -
  from assms(3) obtain g where g: "goal_at gid s = Some g" "g_status g = st"
    by (auto simp: goal_status_at_def)
  have "goal_at gid s' = goal_at gid s"
    using assms(1,2)
  proof (cases rule: exec_goal_step)
    case (create sid obj title c limit armed h)
    from goal_create_result [OF assms(2) this] fresh_goal_id [OF assms(2)] g show ?thesis by auto
  next
    case change
    then obtain k h h' where c: "changed k h h' s s'" "\<not> goal_is_terminal h"
      by (auto simp: live_goal_change_def)
    with g assms(4) have "gid \<noteq> k" by (auto simp: changed_def goal_is_terminal_def)
    with c(1) show ?thesis by (simp add: changed_def)
  next
    case (removal k v)
    with assms(5) show ?thesis by (auto simp: goal_at_delete)
  next
    case (time t)
    then have "goal_rows s' = goal_rows s" by simp
    then show ?thesis by (rule goal_at_frame)
  next
    case same
    then show ?thesis by simp
  qed
  with g show ?thesis by (simp add: goal_status_at_def)
qed

interpretation goals: lifecycle exec_goal goal_db_inv goal_status_at goal_terminal removes_goal
  by unfold_locales (auto intro: exec_goal_inv exec_goal_final)

section \<open>The version as a lock\<close>

text \<open>The edits that a client sends with the version it has seen.\<close>

datatype goal_change = NewObjective string | NewPlan string | NewContinuation dict | NewLimit int

fun change_goal :: "string \<Rightarrow> nat \<Rightarrow> goal_change \<Rightarrow> goal_db \<Rightarrow> goal_error + goal_db" where
  "change_goal gid v (NewObjective obj) s = bindE (goal_edit gid obj (Some (int v)) s) (\<lambda>(_, s'). Inr s')"
| "change_goal gid v (NewPlan pid) s = bindE (attach_plan gid pid (Some (int v)) s) (\<lambda>(_, s'). Inr s')"
| "change_goal gid v (NewContinuation d) s =
    bindE (update_continuation gid d (Some (int v)) s) (\<lambda>(_, s'). Inr s')"
| "change_goal gid v (NewLimit n) s = bindE (update_max_rounds gid n (Some (int v)) s) (\<lambda>(_, s'). Inr s')"

definition goal_revision :: "string \<Rightarrow> goal_db \<Rightarrow> nat option" where
  "goal_revision gid s = map_option (\<lambda>g. nat (g_version g)) (goal_at gid s)"

lemma change_goal_step:
  assumes "goal_db_inv s" and "change_goal gid v u s = Inr s'"
  shows "goal_db_inv s' \<and> goal_revision gid s = Some v \<and> goal_revision gid s' = Some (Suc v)"
proof -
  have req: "\<exists>g. require_version gid (Some (int v)) s = Inr g"
    using assms(2) by (cases u) (auto simp: goal_edit_def attach_plan_def update_continuation_def update_max_rounds_def)
  obtain g g' where c: "changed gid g g' s s'" "g_version g' = g_version g + 1"
  proof (cases u)
    case (NewObjective obj)
    with assms(2) obtain g' where "goal_edit gid obj (Some (int v)) s = Inr (g', s')" by (auto simp: case_prod_Inr)
    from goal_edit_changed [OF assms(1) this] that show thesis by auto
  next
    case (NewPlan pid)
    with assms(2) obtain g' where "attach_plan gid pid (Some (int v)) s = Inr (g', s')" by (auto simp: case_prod_Inr)
    from attach_plan_changed [OF assms(1) this] that show thesis by auto
  next
    case (NewContinuation d)
    with assms(2) obtain g' where "update_continuation gid d (Some (int v)) s = Inr (g', s')" by (auto simp: case_prod_Inr)
    from update_continuation_changed [OF assms(1) this] that show thesis by auto
  next
    case (NewLimit n)
    with assms(2) obtain g' where "update_max_rounds gid n (Some (int v)) s = Inr (g', s')" by (auto simp: case_prod_Inr)
    from update_max_rounds_changed [OF assms(1) this] that show thesis by auto
  qed
  moreover have "g_version g = int v"
    using req c(1) by (auto simp: require_version_Inr [OF assms(1)] changed_def)
  ultimately show ?thesis by (auto simp: changed_def goal_revision_def)
qed

interpretation goal_lock: optimistic_lock goal_db_inv "goal_revision gid" "change_goal gid"
  by unfold_locales (auto dest: change_goal_step)

end
