(* ===== verification/Goal_Props.thy ===== *)
theory Goal_Props
  imports Goal_Machine
begin

text \<open>
  The properties of goals: what holds of every goal after any sequence of requests, that the
  version protects edits which run one after the other, and that it does not protect the
  completion that waits for a quality gate.
\<close>

section \<open>Reachable tables\<close>

definition empty_goal_db :: "(nat \<Rightarrow> string) \<Rightarrow> string list \<Rightarrow> goal_db" where
  "empty_goal_db tok sids =
    \<lparr>goal_rows = [],
     session_rows = map (\<lambda>sid. \<lparr>sr_session_id = sid, sr_active_goal = None, sr_updated_at = 0\<rparr>) sids,
     goal_events = [], g_cancels = [], g_clock = 0, g_token = tok, g_next = 0\<rparr>"

definition goal_reachable :: "goal_db \<Rightarrow> bool" where
  "goal_reachable s \<longleftrightarrow>
    (\<exists>tok sids ops. inj tok \<and> distinct sids \<and> s = goals.run ops (empty_goal_db tok sids))"

lemma empty_goal_db_inv: "inj tok \<Longrightarrow> distinct sids \<Longrightarrow> goal_db_inv (empty_goal_db tok sids)"
  by (auto simp: goal_db_inv_def points_ok_def empty_goal_db_def unique_key_def comp_def)

lemma goal_reachable_inv: "goal_reachable s \<Longrightarrow> goal_db_inv s"
  using goals.inv_run [OF empty_goal_db_inv] by (auto simp: goal_reachable_def)

definition apply_goal :: "goal_op \<Rightarrow> goal_db \<Rightarrow> goal_db" where
  "apply_goal op s = (case exec_goal op s of Inl _ \<Rightarrow> s | Inr s' \<Rightarrow> s')"

lemma run_apply_goal: "goals.run ops s = fold apply_goal ops s"
  by (induction ops s rule: goals.run.induct) (simp_all add: apply_goal_def)

section \<open>A run\<close>

text \<open>A goal with one round, which is reserved.\<close>

definition demo_goals :: goal_db where
  "demo_goals = apply_goal (ReserveRound ''goal_'' ''t1'' (Some 1))
    (apply_goal (CreateGoal ''s'' ''ship it'' [] None 1 True) (empty_goal_db demo_token [''s'']))"

lemma demo_goals_fold:
  "demo_goals = fold apply_goal
    [CreateGoal ''s'' ''ship it'' [] None 1 True, ReserveRound ''goal_'' ''t1'' (Some 1)]
    (empty_goal_db demo_token [''s''])"
  by (simp add: demo_goals_def)

lemma demo_goals_reachable: "goal_reachable demo_goals"
  unfolding goal_reachable_def demo_goals_fold run_apply_goal
  by (intro exI conjI, rule inj_demo_token, rule distinct_singleton, rule refl)

definition demo_goal :: goal where
  "demo_goal = the (goal_at ''goal_'' demo_goals)"

lemma demo_goal_view:
  "map_option (\<lambda>g. (g_status g, g_activation g, g_version g, g_rounds_started g, g_current_task g))
      (goal_at ''goal_'' demo_goals) = Some (G_ACTIVE, ARMED, 2, 1, Some ''t1'')"
  "map (\<lambda>r. (sr_session_id r, sr_active_goal r)) (session_rows demo_goals) = [(''s'', Some ''goal_'')]"
  subgoal by code_simp
  subgoal by code_simp
  done

lemma demo_goal_at:
  "goal_at ''goal_'' demo_goals = Some demo_goal" "g_status demo_goal = G_ACTIVE"
  "g_activation demo_goal = ARMED" "g_version demo_goal = 2" "g_rounds_started demo_goal = 1"
  "g_current_task demo_goal = Some ''t1''"
  using demo_goal_view(1) by (auto simp: demo_goal_def)

section \<open>Every reachable goal\<close>

text \<open>
  C17: After any requests, the rounds started of a goal are within its limit, only an active
  goal is armed, a round is running only for an armed goal, and a goal that is done or
  cancelled has no running round; a completed one has full progress.
\<close>

theorem goal_state_consistent:
  assumes "goal_reachable s" and "goal_at gid s = Some g"
  shows "0 \<le> g_rounds_started g \<and> g_rounds_started g \<le> g_max_rounds g \<and> 1 \<le> g_version g \<and>
    (g_activation g = ARMED \<longrightarrow> g_status g = G_ACTIVE) \<and>
    (has_task (g_current_task g) \<longrightarrow> g_status g = G_ACTIVE \<and> g_activation g = ARMED) \<and>
    (g_status g \<in> {G_COMPLETED, G_CANCELLED} \<longrightarrow> g_current_task g = None) \<and>
    (g_status g = G_COMPLETED \<longrightarrow> g_progress g = 1)"
proof -
  have "goal_inv g" using goal_at_inv [OF goal_reachable_inv [OF assms(1)] assms(2)] by simp
  then have i: "goal_ok g" "g_rounds_started g \<le> g_max_rounds g"
      "\<not> has_task (g_current_task g) \<or> goal_is_armed g" "g_status g \<noteq> G_COMPLETED \<or> g_progress g = 1"
      "\<not> goal_terminal (g_status g) \<or> g_current_task g = None"
    by (simp_all add: goal_inv_def)
  from i(1) have k: "0 \<le> g_rounds_started g" "1 \<le> g_version g" "g_activation g = DISARMED \<or> g_status g = G_ACTIVE"
    by (simp_all add: goal_ok_def)
  show ?thesis
  proof (intro conjI impI)
    show "g_status g = G_ACTIVE" if "g_activation g = ARMED" using k(3) that by auto
    show "g_status g = G_ACTIVE" "g_activation g = ARMED" if "has_task (g_current_task g)"
      using i(3) that by (auto simp: goal_is_armed_def)
    show "g_current_task g = None" if "g_status g \<in> {G_COMPLETED, G_CANCELLED}"
      using i(5) that by (auto simp: goal_terminal_def)
    show "g_progress g = 1" if "g_status g = G_COMPLETED" using i(4) that by auto
  qed (fact k i(2))+
qed

theorem goal_state_consistent_witness:
  "g_current_task demo_goal = Some ''t1'' \<and> g_rounds_started demo_goal \<le> g_max_rounds demo_goal \<and>
   g_status demo_goal = G_ACTIVE"
  using goal_state_consistent [OF demo_goals_reachable demo_goal_at(1)] demo_goal_at by simp



text \<open>
  A completed or cancelled goal keeps its status under every sequence of requests that
  does not remove it.
\<close>

theorem terminal_goal_keeps_status:
  assumes "goal_reachable s" and "goal_status_at gid s = Some st" and "goal_terminal st"
    and "\<forall>v. ArchiveGoal gid v \<notin> set ops"
  shows "goal_status_at gid (fold apply_goal ops s) = Some st"
proof -
  have "\<not> removes_goal op gid" if "op \<in> set ops" for op
  proof (cases op)
    case (ArchiveGoal k v)
    with that assms(4) show ?thesis by auto
  qed simp_all
  then show ?thesis
    using goals.final_run [OF goal_reachable_inv [OF assms(1)] assms(2,3)] by (simp add: run_apply_goal)
qed

definition demo_cancelled :: goal_db where
  "demo_cancelled = apply_goal (CancelGoal ''goal_'' None) demo_goals"

lemma cancel_live_goal:
  assumes "goal_db_inv s" and "goal_at gid s = Some g" and "\<not> goal_is_terminal g"
    and "cancel_goal gid w s = Inr (g1, s1)"
  shows "goal_status_at gid s1 = Some G_CANCELLED \<and> g_version g1 = g_version g + 1"
proof -
  have c: "touch (g\<lparr>g_status := G_CANCELLED, g_activation := DISARMED, g_current_task := None\<rparr>)
      ''goal.cancelled'' s = (g1, s1)"
    using assms by (auto simp: cancel_goal_def require_version_Inr [OF assms(1)])
  have "changed gid g g1 s s1"
    by (rule touch_changed [OF assms(1,2) c]) (use goal_at_inv [OF assms(1,2)] goal_inv_keep(10) in auto)
  moreover have "g1 = bump (g_clock s) (g\<lparr>g_status := G_CANCELLED, g_activation := DISARMED,
      g_current_task := None\<rparr>)"
    using c by (simp add: touch_def Let_def)
  ultimately show ?thesis by (simp add: changed_def goal_status_at_def)
qed

lemma cancel_demo:
  obtains g' where "cancel_goal ''goal_'' None demo_goals = Inr (g', demo_cancelled)"
    "goal_status_at ''goal_'' demo_cancelled = Some G_CANCELLED"
proof -
  note inv = goal_reachable_inv [OF demo_goals_reachable]
  have nt: "\<not> goal_is_terminal demo_goal" by (simp add: goal_is_terminal_def goal_terminal_def demo_goal_at)
  then obtain g' s' where c: "cancel_goal ''goal_'' None demo_goals = Inr (g', s')"
    using require_version_Inr [OF inv, of "''goal_''" None demo_goal]
    by (simp add: cancel_goal_def demo_goal_at(1) touch_def Let_def)
  moreover from this have "s' = demo_cancelled" by (simp add: demo_cancelled_def apply_goal_def)
  ultimately show thesis using cancel_live_goal [OF inv demo_goal_at(1) nt c] that by simp
qed

lemma demo_cancelled_reachable: "goal_reachable demo_cancelled"
proof -
  have "demo_cancelled = fold apply_goal [CreateGoal ''s'' ''ship it'' [] None 1 True,
      ReserveRound ''goal_'' ''t1'' (Some 1), CancelGoal ''goal_'' None] (empty_goal_db demo_token [''s''])"
    by (simp add: demo_cancelled_def demo_goals_def)
  then show ?thesis
    unfolding goal_reachable_def run_apply_goal
    by (intro exI conjI) (rule inj_demo_token, rule distinct_singleton, assumption)
qed

theorem terminal_goal_keeps_status_witness:
  "goal_status_at ''goal_'' (fold apply_goal [ResumeGoal ''goal_'' None, PauseGoal ''goal_'' None] demo_cancelled)
    = Some G_CANCELLED"
proof -
  obtain g' where "goal_status_at ''goal_'' demo_cancelled = Some G_CANCELLED" by (rule cancel_demo)
  from terminal_goal_keeps_status [OF demo_cancelled_reachable this, of
      "[ResumeGoal ''goal_'' None, PauseGoal ''goal_'' None]"] show ?thesis
    by (simp add: goal_terminal_def)
qed

section \<open>Versions\<close>

text \<open>
  C19: Edits that run one after the other and name the version their client has seen never
  overwrite each other unseen: each version is consumed by at most one edit, and the version
  ends at the old one plus the number of edits carried out.
\<close>

theorem goal_edits_no_lost_update:
  assumes "goal_reachable s" and "goal_revision gid s = Some r"
    and "goal_lock.run_all gid edits s = (won, s')"
  shows "distinct won \<and> won = [r ..< r + length won] \<and> goal_revision gid s' = Some (r + length won)"
  using goal_lock.run_all_from [OF assms(3) goal_reachable_inv [OF assms(1)] assms(2)]
    goal_lock.no_lost_update [OF assms(3) goal_reachable_inv [OF assms(1)] assms(2)] by blast

theorem goal_edits_no_lost_update_witness:
  "\<exists>won s'. goal_lock.run_all ''goal_'' [(2, NewObjective ''a''), (2, NewPlan ''b'')] demo_goals = (won, s') \<and>
    distinct won \<and> goal_revision ''goal_'' s' = Some (2 + length won)"
proof -
  have r: "goal_revision ''goal_'' demo_goals = Some 2" by (simp add: goal_revision_def demo_goal_at)
  obtain won s' where w: "goal_lock.run_all ''goal_'' [(2, NewObjective ''a''), (2, NewPlan ''b'')] demo_goals = (won, s')"
    by fastforce
  from goal_edits_no_lost_update [OF demo_goals_reachable r w] w show ?thesis by blast
qed

text \<open>
  C20: The completion that waits for the quality gate between its check and its save does
  not look at the goal again when the gate passes. A goal that was cancelled during the wait
  becomes completed, under a version number that the cancellation had already used: neither
  the terminal status nor the version protects it.
\<close>

theorem async_completion_overwrites_cancel:
  assumes "goal_reachable s" and "complete_begin gid v s = Inr g"
    and "cancel_goal gid w s = Inr (g1, s1)"
  shows "goal_status_at gid s1 = Some G_CANCELLED \<and>
    (\<exists>g2 s2. complete_end gid g None s1 = Inr (g2, s2) \<and> goal_status_at gid s2 = Some G_COMPLETED \<and>
      g_version g2 = g_version g1)"
proof -
  note inv = goal_reachable_inv [OF assms(1)]
  have g: "goal_at gid s = Some g" "g_status g = G_ACTIVE"
    using assms(2) by (auto simp: complete_begin_def require_version_Inr [OF inv] split: if_splits)
  have nt: "\<not> goal_is_terminal g" using g(2) by (simp add: goal_is_terminal_def goal_terminal_def)
  note gi = goal_at_inv [OF inv g(1)]
  note c = cancel_live_goal [OF inv g(1) nt assms(3)]
  obtain g2 s2 where e: "finish_complete g s1 = (g2, s2)" by fastforce
  then have g2: "g2 = bump (g_clock s1) (g\<lparr>g_status := G_COMPLETED, g_activation := DISARMED,
      g_progress := 1, g_current_task := None\<rparr>)" and s2: "s2 = gm_save g2 ''goal.completed'' s1"
    by (auto simp: finish_complete_def touch_def Let_def)
  have "goal_inv g2" unfolding g2 using gi goal_inv_keep(11) by simp
  then have "goal_status_at gid s2 = Some G_COMPLETED"
    using gi by (simp add: s2 goal_status_at_def goal_at_save) (simp add: g2)
  moreover have "complete_end gid g None s1 = Inr (g2, s2)" by (simp add: complete_end_def e)
  moreover have "g_version g2 = g_version g1" by (simp add: g2 c)
  ultimately show ?thesis using c by blast
qed

theorem async_completion_overwrites_cancel_witness:
  "\<exists>g2 s2. complete_end ''goal_'' demo_goal None demo_cancelled = Inr (g2, s2) \<and>
    goal_status_at ''goal_'' s2 = Some G_COMPLETED"
proof -
  note inv = goal_reachable_inv [OF demo_goals_reachable]
  have "complete_begin ''goal_'' (Some 2) demo_goals = Inr demo_goal"
    using require_version_Inr [OF inv, of "''goal_''" "Some 2" demo_goal]
    by (simp add: complete_begin_def demo_goal_at)
  moreover obtain g' where "cancel_goal ''goal_'' None demo_goals = Inr (g', demo_cancelled)"
    by (rule cancel_demo)
  ultimately show ?thesis
    using async_completion_overwrites_cancel [OF demo_goals_reachable] by blast
qed

end
