(* ===== verification/Task_Models.thy ===== *)
theory Task_Models
  imports Contracts Py_Json
begin

text \<open>
  The models of the task runtime (\<open>core/runtime/models.py\<close>): task statuses and the table of
  allowed transitions, budgets, the immutable envelope of a task, its mutable record, and its
  result. Times are milliseconds; \<open>run_status\<close> is the enumeration \<open>TaskStatus\<close>.
\<close>

section \<open>Statuses\<close>

datatype run_status = T_CREATED | T_QUEUED | T_LEASED | T_RUNNING | T_WAITING_APPROVAL
  | T_WAITING_DEPENDENCY | T_RETRY_WAIT | T_COMPLETED | T_FAILED | T_BLOCKED | T_CANCELLED
  | T_TIMED_OUT | T_INTERRUPTED

fun run_status_value :: "run_status \<Rightarrow> string" where
  "run_status_value T_CREATED = ''created''"
| "run_status_value T_QUEUED = ''queued''"
| "run_status_value T_LEASED = ''leased''"
| "run_status_value T_RUNNING = ''running''"
| "run_status_value T_WAITING_APPROVAL = ''waiting_approval''"
| "run_status_value T_WAITING_DEPENDENCY = ''waiting_dependency''"
| "run_status_value T_RETRY_WAIT = ''retry_wait''"
| "run_status_value T_COMPLETED = ''completed''"
| "run_status_value T_FAILED = ''failed''"
| "run_status_value T_BLOCKED = ''blocked''"
| "run_status_value T_CANCELLED = ''cancelled''"
| "run_status_value T_TIMED_OUT = ''timed_out''"
| "run_status_value T_INTERRUPTED = ''interrupted''"

lemma run_status_value_inject [simp]: "run_status_value a = run_status_value b \<longleftrightarrow> a = b"
  by (cases a; cases b) simp_all

definition run_terminal :: "run_status \<Rightarrow> bool" where
  "run_terminal st \<longleftrightarrow> st \<in> {T_COMPLETED, T_FAILED, T_BLOCKED, T_CANCELLED, T_TIMED_OUT}"

lemma run_terminal_simps [simp]:
  "run_terminal T_COMPLETED" "run_terminal T_FAILED" "run_terminal T_BLOCKED" "run_terminal T_CANCELLED"
  "run_terminal T_TIMED_OUT" "\<not> run_terminal T_CREATED" "\<not> run_terminal T_QUEUED"
  "\<not> run_terminal T_LEASED" "\<not> run_terminal T_RUNNING" "\<not> run_terminal T_WAITING_APPROVAL"
  "\<not> run_terminal T_WAITING_DEPENDENCY" "\<not> run_terminal T_RETRY_WAIT" "\<not> run_terminal T_INTERRUPTED"
  by (simp_all add: run_terminal_def)

fun run_transitions :: "run_status \<Rightarrow> run_status set" where
  "run_transitions T_CREATED = {T_QUEUED, T_CANCELLED}"
| "run_transitions T_QUEUED = {T_LEASED, T_CANCELLED, T_BLOCKED}"
| "run_transitions T_LEASED = {T_RUNNING, T_QUEUED, T_CANCELLED, T_INTERRUPTED}"
| "run_transitions T_RUNNING = {T_WAITING_APPROVAL, T_RETRY_WAIT, T_COMPLETED, T_FAILED, T_BLOCKED,
     T_CANCELLED, T_TIMED_OUT, T_INTERRUPTED}"
| "run_transitions T_WAITING_APPROVAL = {T_QUEUED, T_CANCELLED, T_BLOCKED}"
| "run_transitions T_WAITING_DEPENDENCY = {T_QUEUED, T_CANCELLED, T_BLOCKED}"
| "run_transitions T_RETRY_WAIT = {T_QUEUED, T_CANCELLED, T_FAILED}"
| "run_transitions T_INTERRUPTED = {T_QUEUED, T_FAILED, T_CANCELLED}"
| "run_transitions T_COMPLETED = {}"
| "run_transitions T_FAILED = {}"
| "run_transitions T_BLOCKED = {T_QUEUED}"
| "run_transitions T_CANCELLED = {}"
| "run_transitions T_TIMED_OUT = {}"

datatype task_error = TaskNotFound | TaskIdExists | IllegalTransition | UnexpectedStatus
  | InvalidEnvelope | ResultNotTerminal

section \<open>Budgets\<close>

record budget =
  max_steps :: "int option"
  max_input_tokens :: "int option"
  max_output_tokens :: "int option"
  max_total_tokens :: "int option"
  max_wall_seconds :: "int option"
  max_tool_calls :: "int option"
  max_failures :: "int option"
  max_children :: "int option"

text \<open>The smallest of the limits that are set; a budget that is \<open>None\<close> sets none.\<close>

definition strictest_limit :: "(budget \<Rightarrow> int option) \<Rightarrow> budget option list \<Rightarrow> int option" where
  "strictest_limit field budgets =
    (let limits = List.map_filter (\<lambda>b. case b of None \<Rightarrow> None | Some x \<Rightarrow> field x) budgets
     in if limits = [] then None else Some (Min (set limits)))"

definition strictest :: "budget option list \<Rightarrow> budget" where
  "strictest budgets =
    \<lparr>max_steps = strictest_limit max_steps budgets,
     max_input_tokens = strictest_limit max_input_tokens budgets,
     max_output_tokens = strictest_limit max_output_tokens budgets,
     max_total_tokens = strictest_limit max_total_tokens budgets,
     max_wall_seconds = strictest_limit max_wall_seconds budgets,
     max_tool_calls = strictest_limit max_tool_calls budgets,
     max_failures = strictest_limit max_failures budgets,
     max_children = strictest_limit max_children budgets\<rparr>"

section \<open>Envelopes\<close>

record envelope =
  te_task_id :: string
  te_session_id :: string
  te_session_key :: string
  te_source :: string
  te_prompt :: string
  te_created_at :: nat
  te_plan_id :: "string option"
  te_plan_task_id :: "string option"
  te_parent_task_id :: "string option"
  te_assignee :: string
  te_priority :: int
  te_timeout_seconds :: int
  te_max_steps :: int
  te_idempotency_key :: "string option"
  te_context_refs :: "string list"
  te_metadata :: dict
  te_budget :: budget

definition VALID_SOURCES :: "string list" where
  "VALID_SOURCES = [''user'', ''plan'', ''goal'', ''subagent'', ''heartbeat'', ''scheduler'', ''system'', ''retry'']"

definition envelope_post_init :: "envelope \<Rightarrow> task_error + envelope" where
  "envelope_post_init e =
    (if te_task_id e = [] \<or> te_session_id e = [] \<or> te_session_key e = [] then Inl InvalidEnvelope
     else if te_source e \<notin> set VALID_SOURCES then Inl InvalidEnvelope
     else if strip (te_prompt e) = [] then Inl InvalidEnvelope
     else if te_timeout_seconds e \<le> 0 \<or> te_max_steps e \<le> 0 then Inl InvalidEnvelope
     else Inr e)"

section \<open>Records\<close>

text \<open>
  The end of a lease as the text column holds it: a time, or a text that
  \<open>datetime.fromisoformat\<close> cannot read.
\<close>

datatype stamp = At nat | Unreadable

record task_record =
  tr_task_id :: string
  tr_status :: run_status
  tr_attempt :: nat
  tr_queued_at :: "nat option"
  tr_started_at :: "nat option"
  tr_finished_at :: "nat option"
  tr_lease_owner :: "string option"
  tr_lease_expires_at :: "stamp option"
  tr_cancel_requested :: bool
  tr_error_code :: "string option"
  tr_error_message :: "string option"
  tr_result_summary :: "string option"
  tr_artifact_ids :: "string list"
  tr_usage :: "(string \<times> int) list"

definition new_record :: "string \<Rightarrow> task_record" where
  "new_record tid =
    \<lparr>tr_task_id = tid, tr_status = T_CREATED, tr_attempt = 0, tr_queued_at = None,
     tr_started_at = None, tr_finished_at = None, tr_lease_owner = None,
     tr_lease_expires_at = None, tr_cancel_requested = False, tr_error_code = None,
     tr_error_message = None, tr_result_summary = None, tr_artifact_ids = [], tr_usage = []\<rparr>"

text \<open>\<open>a or b\<close> on optional values that are not the empty string.\<close>

definition keep_some :: "'a option \<Rightarrow> 'a option \<Rightarrow> 'a option" where
  "keep_some a b = (case a of None \<Rightarrow> b | Some x \<Rightarrow> Some x)"

definition str_or_default :: "string option \<Rightarrow> string \<Rightarrow> string option" where
  "str_or_default a dflt = (case a of None \<Rightarrow> Some dflt | Some x \<Rightarrow> if x = [] then Some dflt else Some x)"

record transition_args =
  ta_error_code :: "string option"
  ta_error_message :: "string option"
  ta_result_summary :: "string option"

definition no_args :: transition_args where
  "no_args = \<lparr>ta_error_code = None, ta_error_message = None, ta_result_summary = None\<rparr>"

text \<open>\<open>TaskRecord.transition\<close>; the same status is accepted without any change.\<close>

definition record_transition ::
  "run_status \<Rightarrow> nat \<Rightarrow> transition_args \<Rightarrow> task_record \<Rightarrow> task_error + task_record" where
  "record_transition target now a r =
    (if target = tr_status r then Inr r
     else if target \<notin> run_transitions (tr_status r) then Inl IllegalTransition
     else
       (let r1 = r\<lparr>tr_status := target\<rparr>;
            r2 = (if target = T_QUEUED then
                    r1\<lparr>tr_queued_at := Some now, tr_lease_owner := None, tr_lease_expires_at := None\<rparr>
                  else if target = T_LEASED then
                    r1\<lparr>tr_lease_owner := str_or_default (tr_lease_owner r1) ''runtime''\<rparr>
                  else if target = T_RUNNING then
                    r1\<lparr>tr_started_at := keep_some (tr_started_at r1) (Some now)\<rparr>
                  else r1);
            r3 = (if run_terminal target then
                    r2\<lparr>tr_finished_at := Some now, tr_lease_owner := None, tr_lease_expires_at := None\<rparr>
                  else r2)
        in Inr (r3\<lparr>tr_error_code := keep_some (ta_error_code a) (tr_error_code r3),
                    tr_error_message := keep_some (ta_error_message a) (tr_error_message r3),
                    tr_result_summary := keep_some (ta_result_summary a) (tr_result_summary r3)\<rparr>)))"

definition record_is_terminal :: "task_record \<Rightarrow> bool" where
  "record_is_terminal r \<longleftrightarrow> run_terminal (tr_status r)"

section \<open>Results\<close>

record task_result =
  rs_task_id :: string
  rs_status :: run_status
  rs_visible_text :: string
  rs_summary :: string
  rs_artifact_ids :: "string list"
  rs_usage :: "(string \<times> int) list"
  rs_error_code :: "string option"
  rs_error_message :: "string option"
  rs_started_at :: "nat option"
  rs_finished_at :: "nat option"

definition result_post_init :: "task_result \<Rightarrow> task_error + task_result" where
  "result_post_init r = (if \<not> run_terminal (rs_status r) then Inl ResultNotTerminal else Inr r)"

section \<open>Transitions\<close>

lemma record_transition_status:
  "record_transition target now a r = Inr r' \<Longrightarrow> tr_status r' = target \<and> tr_task_id r' = tr_task_id r \<and>
    (target = tr_status r \<and> r' = r \<or> target \<in> run_transitions (tr_status r))"
  by (auto simp: record_transition_def Let_def split: if_splits)

lemma record_transition_lease:
  "record_transition target now a r = Inr r' \<Longrightarrow> target \<noteq> tr_status r \<Longrightarrow>
    tr_lease_owner r' = (if target = T_QUEUED \<or> run_terminal target then None
      else if target = T_LEASED then str_or_default (tr_lease_owner r) ''runtime'' else tr_lease_owner r) \<and>
    tr_lease_expires_at r' = (if target = T_QUEUED \<or> run_terminal target then None
      else tr_lease_expires_at r)"
  by (auto simp: record_transition_def Let_def split: if_splits)

lemma record_transition_ok:
  "target = tr_status r \<or> target \<in> run_transitions (tr_status r) \<Longrightarrow>
   \<exists>r'. record_transition target now a r = Inr r'"
  by (auto simp: record_transition_def Let_def)

text \<open>Only a blocked task leaves a terminal status, and only to be queued again.\<close>

lemma terminal_transitions: "run_terminal st \<Longrightarrow> st' \<in> run_transitions st \<Longrightarrow> st = T_BLOCKED \<and> st' = T_QUEUED"
  by (cases st) auto

end
