(* ===== verification/Task_Store.thy ===== *)
theory Task_Store
  imports Task_Models
begin

text \<open>
  The task statements of \<open>core/runtime/sqlite_store.py\<close>: creation with an idempotency key,
  guarded transitions, cancellation, recovery after a restart, the leases of tasks, and the
  leader lease of single-runner jobs. Each operation is one IMMEDIATE transaction, so it runs
  alone; an error rolls it back.

  A row holds the envelope, the record and the result themselves; \<open>to_dict\<close> writes every field
  of these classes and \<open>from_dict\<close> reads every field. The status column is separate, as in the
  table. Random event ids are left out.
\<close>

section \<open>Tables\<close>

record task_row =
  tk_task_id :: string
  tk_session_id :: string
  tk_session_key :: string
  tk_source :: string
  tk_priority :: int
  tk_idempotency_key :: "string option"
  tk_status :: string
  tk_created_at :: nat
  tk_updated_at :: nat
  tk_envelope :: envelope
  tk_record :: task_record
  tk_result :: "task_result option"

record task_event_row =
  tv_type :: string
  tv_session_id :: string
  tv_task_id :: "string option"
  tv_data :: dict

record delivery_row =
  dl_delivery_id :: string
  dl_task_id :: string
  dl_channel :: string
  dl_message_id :: "string option"
  dl_state :: string
  dl_context :: dict
  dl_created_at :: nat
  dl_updated_at :: nat

record lease_row =
  ll_name :: string
  ll_holder :: string
  ll_expires_at :: nat
  ll_updated_at :: nat

record task_db =
  task_rows :: "task_row list"
  task_sessions :: "(string \<times> string) list"
  task_events :: "task_event_row list"
  delivery_rows :: "delivery_row list"
  lease_rows :: "lease_row list"
  t_clock :: nat

definition find_task_row :: "string \<Rightarrow> task_db \<Rightarrow> task_row option" where
  "find_task_row tid s = lookup_row tk_task_id tid (task_rows s)"

definition log_event :: "string \<Rightarrow> string \<Rightarrow> string \<Rightarrow> dict \<Rightarrow> task_db \<Rightarrow> task_db" where
  "log_event event_type sid tid data s =
    s\<lparr>task_events := task_events s @
      [\<lparr>tv_type = event_type, tv_session_id = sid, tv_task_id = Some tid, tv_data = data\<rparr>]\<rparr>"

text \<open>\<open>UPDATE tasks SET status, updated_at, record_json WHERE task_id\<close>.\<close>

definition put_record :: "task_record \<Rightarrow> string \<Rightarrow> task_db \<Rightarrow> task_db" where
  "put_record r tid s =
    s\<lparr>task_rows := sql_update (\<lambda>row. tk_task_id row = tid)
      (\<lambda>row. row\<lparr>tk_status := run_status_value (tr_status r), tk_updated_at := t_clock s, tk_record := r\<rparr>)
      (task_rows s)\<rparr>"

section \<open>Creation\<close>

text \<open>The unique index on session and idempotency key covers the empty key too.\<close>

definition index_conflict :: "envelope \<Rightarrow> task_row \<Rightarrow> bool" where
  "index_conflict e row \<longleftrightarrow> te_idempotency_key e \<noteq> None \<and> tk_session_id row = te_session_id e \<and>
    tk_idempotency_key row = te_idempotency_key e"

definition create_task :: "envelope \<Rightarrow> task_db \<Rightarrow> task_error + (task_record \<times> bool) \<times> task_db" where
  "create_task e s =
    (case (if te_idempotency_key e = None \<or> te_idempotency_key e = Some [] then None
           else fetchone (filter (index_conflict e) (task_rows s))) of
       Some row \<Rightarrow> Inr ((tk_record row, False), s)
     | None \<Rightarrow>
         let s1 = (if te_session_id e \<in> set (map fst (task_sessions s)) then s
                   else s\<lparr>task_sessions := task_sessions s @ [(te_session_id e, te_session_key e)]\<rparr>)
         in bindE (record_transition T_QUEUED (t_clock s) no_args (new_record (te_task_id e))) (\<lambda>r.
           if te_task_id e \<in> set (map tk_task_id (task_rows s)) \<or> list_ex (index_conflict e) (task_rows s)
           then Inl TaskIdExists
           else
             (let s2 = s1\<lparr>task_rows := task_rows s1 @
                   [\<lparr>tk_task_id = te_task_id e, tk_session_id = te_session_id e,
                     tk_session_key = te_session_key e, tk_source = te_source e,
                     tk_priority = te_priority e, tk_idempotency_key = te_idempotency_key e,
                     tk_status = run_status_value (tr_status r), tk_created_at = te_created_at e,
                     tk_updated_at = t_clock s, tk_envelope = e, tk_record = r, tk_result = None\<rparr>]\<rparr>;
                  s3 = log_event ''task.created'' (te_session_id e) (te_task_id e)
                         [(''source'', JStr (te_source e))] s2;
                  s4 = log_event ''task.queued'' (te_session_id e) (te_task_id e) [] s3
              in Inr ((r, True), s4))))"

section \<open>Reading\<close>

definition get_task :: "string \<Rightarrow> task_db \<Rightarrow> (envelope \<times> task_record \<times> task_result option) option" where
  "get_task tid s = map_option (\<lambda>r. (tk_envelope r, tk_record r, tk_result r)) (find_task_row tid s)"

text \<open>\<open>ORDER BY priority DESC, created_at ASC\<close>; an empty filter selects everything.\<close>

definition list_tasks :: "string \<Rightarrow> run_status list \<Rightarrow> task_db \<Rightarrow> task_row list" where
  "list_tasks sid statuses s =
    sort_key (\<lambda>r. - tk_priority r) (sort_key tk_created_at
      (filter (\<lambda>r. (sid = [] \<or> tk_session_id r = sid) \<and>
          (statuses = [] \<or> tk_status r \<in> set (map run_status_value statuses))) (task_rows s)))"

definition has_active_work :: "string \<Rightarrow> string list \<Rightarrow> run_status list \<Rightarrow> task_db \<Rightarrow> bool" where
  "has_active_work sid sources statuses s =
    list_ex (\<lambda>r. tk_session_id r = sid \<and> tk_source r \<in> set sources \<and>
      tk_status r \<in> set (map run_status_value statuses)) (task_rows s)"

section \<open>Transitions\<close>

record move_args =
  mv_lease_owner :: "string option"
  mv_lease_expires_at :: "stamp option"
  mv_expected :: "run_status option"
  mv_error_code :: "string option"
  mv_error_message :: "string option"
  mv_result :: "task_result option"

definition plain :: move_args where
  "plain = \<lparr>mv_lease_owner = None, mv_lease_expires_at = None, mv_expected = None,
    mv_error_code = None, mv_error_message = None, mv_result = None\<rparr>"

text \<open>The lease the caller names, then the transition, then the fields of the result.\<close>

definition moved_record :: "run_status \<Rightarrow> move_args \<Rightarrow> nat \<Rightarrow> task_record \<Rightarrow> task_error + task_record" where
  "moved_record target a now r =
    (let r1 = (if mv_lease_owner a = None \<or> mv_lease_owner a = Some [] then r
               else r\<lparr>tr_lease_owner := mv_lease_owner a\<rparr>);
         r2 = (if mv_lease_expires_at a = None then r1 else r1\<lparr>tr_lease_expires_at := mv_lease_expires_at a\<rparr>)
     in bindE (record_transition target now
         \<lparr>ta_error_code = mv_error_code a, ta_error_message = mv_error_message a,
          ta_result_summary = map_option rs_summary (mv_result a)\<rparr> r2)
       (\<lambda>r3. Inr (case mv_result a of None \<Rightarrow> r3
          | Some rs \<Rightarrow> r3\<lparr>tr_artifact_ids := rs_artifact_ids rs, tr_usage := rs_usage rs\<rparr>)))"

definition transition_task ::
  "string \<Rightarrow> run_status \<Rightarrow> move_args \<Rightarrow> task_db \<Rightarrow> task_error + task_record \<times> task_db" where
  "transition_task tid target a s =
    bindE (of_option TaskNotFound (find_task_row tid s)) (\<lambda>row.
      if mv_expected a \<noteq> None \<and> mv_expected a \<noteq> Some (tr_status (tk_record row)) then Inl UnexpectedStatus
      else bindE (moved_record target a (t_clock s) (tk_record row)) (\<lambda>r.
        Inr (r, log_event (''task.'' @ run_status_value target) (te_session_id (tk_envelope row)) tid
            [(''error_code'', jor (jopt JStr (mv_error_code a)) (JStr []))]
          (s\<lparr>task_rows := sql_update
              (\<lambda>x. tk_task_id x = tid \<and>
                 (case mv_expected a of None \<Rightarrow> True | Some st \<Rightarrow> tk_status x = run_status_value st))
              (\<lambda>x. x\<lparr>tk_status := run_status_value (tr_status r), tk_updated_at := t_clock s,
                     tk_record := r,
                     tk_result := (case mv_result a of None \<Rightarrow> tk_result x | Some rs \<Rightarrow> Some rs)\<rparr>)
              (task_rows s)\<rparr>))))"

text \<open>\<open>TaskRuntime._transition\<close>: a \<open>ValueError\<close> is swallowed, a missing task is not.\<close>

definition try_transition ::
  "string \<Rightarrow> run_status \<Rightarrow> move_args \<Rightarrow> task_db \<Rightarrow> task_error + bool \<times> task_db" where
  "try_transition tid target a s =
    (case transition_task tid target a s of
       Inr (_, s') \<Rightarrow> Inr (True, s')
     | Inl TaskNotFound \<Rightarrow> Inl TaskNotFound
     | Inl _ \<Rightarrow> Inr (False, s))"

definition increment_attempt :: "string \<Rightarrow> task_db \<Rightarrow> task_error + task_record \<times> task_db" where
  "increment_attempt tid s =
    bindE (of_option TaskNotFound (find_task_row tid s)) (\<lambda>row.
      let r = (tk_record row)\<lparr>tr_attempt := tr_attempt (tk_record row) + 1\<rparr>
      in Inr (r, log_event ''task.attempt_started'' (te_session_id (tk_envelope row)) tid
          [(''attempt'', jnat (tr_attempt r))]
        (s\<lparr>task_rows := sql_update (\<lambda>x. tk_task_id x = tid)
            (\<lambda>x. x\<lparr>tk_updated_at := t_clock s, tk_record := r\<rparr>) (task_rows s)\<rparr>)))"

definition cancellable :: "run_status \<Rightarrow> bool" where
  "cancellable st \<longleftrightarrow>
    st \<in> {T_CREATED, T_QUEUED, T_WAITING_APPROVAL, T_WAITING_DEPENDENCY, T_RETRY_WAIT}"

definition request_cancel :: "string \<Rightarrow> string \<Rightarrow> task_db \<Rightarrow> task_error + task_record \<times> task_db" where
  "request_cancel tid reason s =
    bindE (of_option TaskNotFound (find_task_row tid s)) (\<lambda>row.
      let r0 = (tk_record row)\<lparr>tr_cancel_requested := True\<rparr> in
      bindE (if cancellable (tr_status r0)
             then record_transition T_CANCELLED (t_clock s)
               \<lparr>ta_error_code = Some ''TASK_CANCELLED'', ta_error_message = Some reason,
                ta_result_summary = None\<rparr> r0
             else Inr r0) (\<lambda>r.
        Inr (r, log_event ''task.cancel_requested'' (te_session_id (tk_envelope row)) tid
            [(''reason'', JStr reason)] (put_record r tid s))))"

section \<open>Recovery\<close>

text \<open>\<open>owner\<close> holds the lease itself or through one of its workers.\<close>

definition starts_with :: "string \<Rightarrow> string \<Rightarrow> bool" where
  "starts_with prefix x \<longleftrightarrow> take (length prefix) x = prefix"

definition own_lease :: "string \<Rightarrow> string \<Rightarrow> bool" where
  "own_lease owner holder \<longleftrightarrow> holder = owner \<or> starts_with (owner @ ''-'') holder"

definition lease_over :: "stamp \<Rightarrow> nat \<Rightarrow> nat \<Rightarrow> bool" where
  "lease_over e grace now = (case e of Unreadable \<Rightarrow> False | At t \<Rightarrow> t + grace < now)"

definition recover_eligible :: "string option \<Rightarrow> nat \<Rightarrow> nat \<Rightarrow> task_record \<Rightarrow> bool" where
  "recover_eligible owner grace now r =
    (case (owner, tr_lease_owner r) of
       (Some (c # cs), Some (d # ds)) \<Rightarrow>
         if own_lease (c # cs) (d # ds) then True
         else (case tr_lease_expires_at r of None \<Rightarrow> True | Some e \<Rightarrow> lease_over e grace now)
     | _ \<Rightarrow> (case tr_lease_expires_at r of None \<Rightarrow> True | Some e \<Rightarrow> lease_over e grace now))"

definition claim_mark :: "string option \<Rightarrow> task_record \<Rightarrow> task_record" where
  "claim_mark owner r =
    (if owner = None \<or> owner = Some [] then r else r\<lparr>tr_lease_owner := owner\<rparr>)"

definition interrupted_args :: transition_args where
  "interrupted_args = \<lparr>ta_error_code = Some ''RUNTIME_INTERRUPTED'',
    ta_error_message = Some ''runtime restarted before task completed'', ta_result_summary = None\<rparr>"

text \<open>The loop of \<open>recover_interrupted\<close> over the rows that were selected.\<close>

fun recover_task_rows ::
  "bool \<Rightarrow> string option \<Rightarrow> nat \<Rightarrow> task_row list \<Rightarrow> task_db \<Rightarrow> task_error + string list \<times> task_db" where
  "recover_task_rows requeue owner grace [] s = Inr ([], s)"
| "recover_task_rows requeue owner grace (row # rows) s =
    (if \<not> recover_eligible owner grace (t_clock s) (tk_record row) then recover_task_rows requeue owner grace rows s
     else
       (let tid = tr_task_id (tk_record row); sid = te_session_id (tk_envelope row) in
        bindE (record_transition T_INTERRUPTED (t_clock s) interrupted_args (tk_record row)) (\<lambda>r1.
        let s1 = log_event ''task.interrupted'' sid tid [] s in
        bindE (if requeue then
                 bindE (record_transition T_QUEUED (t_clock s) no_args r1) (\<lambda>r2.
                   Inr (r2, log_event ''task.queued'' sid tid [(''reason'', JStr ''runtime_recovery'')] s1))
               else Inr (r1, s1)) (\<lambda>(r2, s2).
        bindE (recover_task_rows requeue owner grace rows (put_record (claim_mark owner r2) tid s2)) (\<lambda>(ids, s3).
        Inr (tid # ids, s3))))))"

definition recover_interrupted ::
  "bool \<Rightarrow> string option \<Rightarrow> nat \<Rightarrow> task_db \<Rightarrow> task_error + string list \<times> task_db" where
  "recover_interrupted requeue owner grace s =
    recover_task_rows requeue owner grace
      (filter (\<lambda>r. tk_status r \<in> {run_status_value T_LEASED, run_status_value T_RUNNING}) (task_rows s)) s"

text \<open>\<open>requeue_missing_context\<close>: no sources means every source.\<close>

fun requeue_rows ::
  "string list option \<Rightarrow> string option \<Rightarrow> task_row list \<Rightarrow> task_db \<Rightarrow> task_error + string list \<times> task_db" where
  "requeue_rows sources owner [] s = Inr ([], s)"
| "requeue_rows sources owner (row # rows) s =
    (let r = tk_record row; tid = tr_task_id r in
     if tr_error_code r \<noteq> Some ''RUNTIME_CONTEXT_MISSING'' then requeue_rows sources owner rows s
     else if (case sources of None \<Rightarrow> False | Some xs \<Rightarrow> te_source (tk_envelope row) \<notin> set xs)
       then requeue_rows sources owner rows s
     else if \<not> recover_eligible owner 0 (t_clock s) r then requeue_rows sources owner rows s
     else
       bindE (record_transition T_QUEUED (t_clock s) no_args r) (\<lambda>r1.
       let r2 = claim_mark owner r1;
           s1 = s\<lparr>task_rows := sql_update (\<lambda>x. tk_task_id x = tid)
              (\<lambda>x. x\<lparr>tk_status := run_status_value (tr_status r2), tk_updated_at := t_clock s,
                     tk_record := r2, tk_result := None\<rparr>) (task_rows s)\<rparr>;
           s2 = log_event ''task.requeued'' (te_session_id (tk_envelope row)) tid
              [(''reason'', JStr ''runtime_context_restore'')] s1
       in bindE (requeue_rows sources owner rows s2) (\<lambda>(ids, s3). Inr (tid # ids, s3))))"

definition requeue_missing_context ::
  "string list option \<Rightarrow> string option \<Rightarrow> task_db \<Rightarrow> task_error + string list \<times> task_db" where
  "requeue_missing_context sources owner s =
    requeue_rows sources owner
      (filter (\<lambda>r. tk_status r = run_status_value T_BLOCKED) (task_rows s)) s"

fun claim_rows :: "string option \<Rightarrow> nat \<Rightarrow> task_row list \<Rightarrow> task_db \<Rightarrow> task_error + string list \<times> task_db" where
  "claim_rows owner grace [] s = Inr ([], s)"
| "claim_rows owner grace (row # rows) s =
    (if \<not> recover_eligible owner grace (t_clock s) (tk_record row) then claim_rows owner grace rows s
     else
       (let tid = tr_task_id (tk_record row) in
        bindE (record_transition T_QUEUED (t_clock s) no_args (tk_record row)) (\<lambda>r1.
        let s1 = log_event ''task.queued'' (te_session_id (tk_envelope row)) tid
              [(''reason'', JStr ''retry_claim'')] (put_record (claim_mark owner r1) tid s)
        in bindE (claim_rows owner grace rows s1) (\<lambda>(ids, s2). Inr (tid # ids, s2)))))"

definition claim_retry_wait :: "string option \<Rightarrow> nat \<Rightarrow> task_db \<Rightarrow> task_error + string list \<times> task_db" where
  "claim_retry_wait owner grace s =
    claim_rows owner grace
      (filter (\<lambda>r. tk_status r = run_status_value T_RETRY_WAIT) (task_rows s)) s"

text \<open>\<open>release_leases\<close>: the leases of this instance end now. It returns how many it ended.\<close>

definition releases :: "string option \<Rightarrow> task_row \<Rightarrow> bool" where
  "releases owner row \<longleftrightarrow>
    tk_status row \<in> {run_status_value T_LEASED, run_status_value T_RUNNING} \<and>
    \<not> (case (owner, tr_lease_owner (tk_record row)) of
         (Some (c # cs), Some (d # ds)) \<Rightarrow> \<not> own_lease (c # cs) (d # ds)
       | _ \<Rightarrow> False)"

definition release_leases :: "string option \<Rightarrow> task_db \<Rightarrow> nat \<times> task_db" where
  "release_leases owner s =
    (sql_count (releases owner) (task_rows s),
     s\<lparr>task_rows := sql_update (releases owner)
        (\<lambda>row. row\<lparr>tk_record := (tk_record row)\<lparr>tr_lease_expires_at := Some (At (t_clock s))\<rparr>,
                   tk_updated_at := t_clock s\<rparr>) (task_rows s)\<rparr>)"

section \<open>Removal\<close>

definition delete_terminal_task :: "string \<Rightarrow> task_db \<Rightarrow> bool \<times> task_db" where
  "delete_terminal_task tid s =
    (case find_task_row tid s of
       None \<Rightarrow> (False, s)
     | Some row \<Rightarrow>
         if tk_status row \<notin> run_status_value ` {T_COMPLETED, T_FAILED, T_BLOCKED, T_CANCELLED, T_TIMED_OUT}
         then (False, s)
         else (sql_count (\<lambda>r. tk_task_id r = tid) (task_rows s) = 1,
           s\<lparr>delivery_rows := sql_delete (\<lambda>d. dl_task_id d = tid) (delivery_rows s),
             task_events := sql_delete (\<lambda>v. tv_task_id v = Some tid) (task_events s),
             task_rows := sql_delete (\<lambda>r. tk_task_id r = tid) (task_rows s)\<rparr>))"

definition save_channel_delivery ::
  "string \<Rightarrow> string \<Rightarrow> string \<Rightarrow> string option \<Rightarrow> string \<Rightarrow> dict \<Rightarrow> task_db \<Rightarrow> task_db" where
  "save_channel_delivery did tid channel mid st ctx s =
    s\<lparr>delivery_rows :=
      (if did \<in> set (map dl_delivery_id (delivery_rows s))
       then sql_update (\<lambda>d. dl_delivery_id d = did)
         (\<lambda>d. d\<lparr>dl_state := st, dl_context := ctx, dl_updated_at := t_clock s\<rparr>) (delivery_rows s)
       else delivery_rows s @
         [\<lparr>dl_delivery_id = did, dl_task_id = tid, dl_channel = channel, dl_message_id = mid,
           dl_state = st, dl_context = ctx, dl_created_at = t_clock s, dl_updated_at = t_clock s\<rparr>])\<rparr>"

section \<open>The leader lease\<close>

text \<open>
  One conditional upsert. \<open>ttl\<close> is in milliseconds and at least a second. The row count is
  one exactly when the row was inserted or the condition of the update held.
\<close>

definition lease_free :: "string \<Rightarrow> string \<Rightarrow> nat \<Rightarrow> lease_row \<Rightarrow> bool" where
  "lease_free name holder now l \<longleftrightarrow>
    ll_name l = name \<and> (ll_holder l = holder \<or> ll_expires_at l < now)"

definition try_acquire_lease :: "string \<Rightarrow> string \<Rightarrow> nat \<Rightarrow> task_db \<Rightarrow> bool \<times> task_db" where
  "try_acquire_lease name holder ttl s =
    (let now = t_clock s; expires = now + max 1000 ttl in
     if name \<notin> set (map ll_name (lease_rows s)) then
       (True, s\<lparr>lease_rows := lease_rows s @
          [\<lparr>ll_name = name, ll_holder = holder, ll_expires_at = expires, ll_updated_at = now\<rparr>]\<rparr>)
     else
       (sql_count (lease_free name holder now) (lease_rows s) = 1,
        s\<lparr>lease_rows := sql_update (lease_free name holder now)
           (\<lambda>l. l\<lparr>ll_holder := holder, ll_expires_at := expires, ll_updated_at := now\<rparr>) (lease_rows s)\<rparr>))"

definition get_lease :: "string \<Rightarrow> task_db \<Rightarrow> lease_row option" where
  "get_lease name s = lookup_row ll_name name (lease_rows s)"

end
