(* ===== verification/Task_Inv.thy ===== *)
theory Task_Inv
  imports Task_Store
begin

text \<open>
  The invariant of the task tables (unique ids and idempotency keys, the status column equal to
  the status of the record) and what the loops of recovery do, as one update of the table.
\<close>

section \<open>The invariant\<close>

definition task_row_ok :: "task_row \<Rightarrow> bool" where
  "task_row_ok row \<longleftrightarrow> tk_status row = run_status_value (tr_status (tk_record row)) \<and>
    tr_task_id (tk_record row) = tk_task_id row"

definition has_key :: "task_row \<Rightarrow> bool" where
  "has_key row \<longleftrightarrow> tk_idempotency_key row \<noteq> None"

definition task_key :: "task_row \<Rightarrow> string \<times> string option" where
  "task_key row = (tk_session_id row, tk_idempotency_key row)"

definition task_db_inv :: "task_db \<Rightarrow> bool" where
  "task_db_inv s \<longleftrightarrow> unique_key tk_task_id (task_rows s) \<and> distinct_among has_key task_key (task_rows s) \<and>
    (\<forall>row \<in> set (task_rows s). task_row_ok row) \<and> unique_key ll_name (lease_rows s)"

text \<open>An update of the changing columns of some rows.\<close>

definition keeps_key :: "(task_row \<Rightarrow> task_row) \<Rightarrow> bool" where
  "keeps_key f \<longleftrightarrow> (\<forall>row. tk_task_id (f row) = tk_task_id row \<and> tk_session_id (f row) = tk_session_id row \<and>
    tk_idempotency_key (f row) = tk_idempotency_key row)"

lemma task_db_inv_update:
  assumes "task_db_inv s" and "keeps_key f"
    and "\<And>row. row \<in> set (task_rows s) \<Longrightarrow> task_row_ok row \<Longrightarrow> P row \<Longrightarrow> task_row_ok (f row)"
    and "task_rows s' = sql_update P f (task_rows s)" and "lease_rows s' = lease_rows s"
  shows "task_db_inv s'"
proof -
  have "distinct_among has_key task_key (sql_update P f (task_rows s))"
    by (rule distinct_among_update) (use assms(1,2) in \<open>auto simp: task_db_inv_def keeps_key_def has_key_def task_key_def\<close>)
  moreover have "unique_key tk_task_id (sql_update P f (task_rows s))"
    by (rule unique_key_update) (use assms(1,2) in \<open>auto simp: task_db_inv_def keeps_key_def\<close>)
  moreover have "task_row_ok row" if "row \<in> set (sql_update P f (task_rows s))" for row
    using that assms(1,3) by (elim sql_updateE) (auto simp: task_db_inv_def)
  ultimately show ?thesis using assms(1,4,5) by (simp add: task_db_inv_def)
qed

lemma task_db_inv_frame:
  "task_db_inv s \<Longrightarrow> task_rows s' = task_rows s \<Longrightarrow> lease_rows s' = lease_rows s \<Longrightarrow> task_db_inv s'"
  by (simp add: task_db_inv_def)

lemma log_event_frame [simp]:
  "task_rows (log_event ty sid tid d s) = task_rows s" "lease_rows (log_event ty sid tid d s) = lease_rows s"
  "t_clock (log_event ty sid tid d s) = t_clock s" "task_sessions (log_event ty sid tid d s) = task_sessions s"
  by (simp_all add: log_event_def)

lemma find_task_row_Some:
  "find_task_row tid s = Some row \<Longrightarrow> row \<in> set (task_rows s) \<and> tk_task_id row = tid"
  unfolding find_task_row_def by (rule lookup_row_Some)

lemma task_row_unique:
  "task_db_inv s \<Longrightarrow> row \<in> set (task_rows s) \<Longrightarrow> row' \<in> set (task_rows s) \<Longrightarrow> tk_task_id row = tk_task_id row' \<Longrightarrow>
   row = row'"
  by (auto simp: task_db_inv_def intro: unique_key_eq)

lemma find_task_row_ok:
  "task_db_inv s \<Longrightarrow> find_task_row tid s = Some row \<Longrightarrow>
   task_row_ok row \<and> tr_task_id (tk_record row) = tid \<and> (\<forall>x \<in> set (task_rows s). tk_task_id x = tid \<longrightarrow> x = row)"
  using find_task_row_Some [of tid s row] task_row_unique [of s _ row]
  by (auto simp: task_db_inv_def task_row_ok_def)

lemma keeps_keyI [simp]:
  "keeps_key (\<lambda>row. row\<lparr>tk_status := a row, tk_updated_at := b row, tk_record := c row\<rparr>)"
  "keeps_key (\<lambda>row. row\<lparr>tk_status := a row, tk_updated_at := b row, tk_record := c row, tk_result := d row\<rparr>)"
  "keeps_key (\<lambda>row. row\<lparr>tk_updated_at := b row, tk_record := c row\<rparr>)"
  "keeps_key (\<lambda>row. row\<lparr>tk_record := c row, tk_updated_at := b row\<rparr>)"
  by (simp_all add: keeps_key_def)

lemma keeps_key_id: "keeps_key f \<Longrightarrow> tk_task_id (f row) = tk_task_id row"
  by (simp add: keeps_key_def)

lemma find_task_row_update:
  assumes "task_rows s' = sql_update P f (task_rows s)" and "keeps_key f"
  shows "find_task_row tid s' = map_option (\<lambda>row. if P row then f row else row) (find_task_row tid s)"
  using assms by (simp add: find_task_row_def lookup_row_update keeps_key_def)

section \<open>One task changes\<close>

text \<open>
  \<open>moved tid st st' s s'\<close>: only the row of the task changed, from status \<open>st\<close> to \<open>st'\<close>.
\<close>

definition status_of :: "string \<Rightarrow> task_db \<Rightarrow> run_status option" where
  "status_of tid s = map_option (\<lambda>row. tr_status (tk_record row)) (find_task_row tid s)"

definition moved :: "string \<Rightarrow> run_status \<Rightarrow> run_status \<Rightarrow> task_db \<Rightarrow> task_db \<Rightarrow> bool" where
  "moved tid st st' s s' \<longleftrightarrow> task_db_inv s' \<and> lease_rows s' = lease_rows s \<and> t_clock s' = t_clock s \<and>
    status_of tid s = Some st \<and> status_of tid s' = Some st' \<and>
    (\<forall>k. k \<noteq> tid \<longrightarrow> find_task_row k s' = find_task_row k s)"

lemma moved_record_facts:
  assumes "moved_record target a now r = Inr r'"
  shows "tr_status r' = target \<and> tr_task_id r' = tr_task_id r \<and>
    (target = tr_status r \<or> target \<in> run_transitions (tr_status r))"
  using assms
  by (auto simp: moved_record_def Let_def dest!: record_transition_status split: if_splits option.splits)

text \<open>Replacing the row of one task by a row with a consistent record.\<close>

lemma moved_by_update:
  assumes "task_db_inv s" and "find_task_row tid s = Some row" and "keeps_key f"
    and "task_row_ok (f row)" and "tr_status (tk_record (f row)) = st'"
    and "\<And>x. P x \<Longrightarrow> tk_task_id x = tid" and "P row"
    and "task_rows s' = sql_update P f (task_rows s)" and "lease_rows s' = lease_rows s"
    and "t_clock s' = t_clock s"
  shows "moved tid (tr_status (tk_record row)) st' s s'"
proof -
  note ok = find_task_row_ok [OF assms(1,2)]
  have "task_db_inv s'"
    by (rule task_db_inv_update [OF assms(1,3) _ assms(8,9)]) (use ok assms(4,6) in auto)
  moreover have "find_task_row k s' = find_task_row k s" if "k \<noteq> tid" for k
    using find_task_row_update [OF assms(8,3), of k] assms(6) that find_task_row_Some [of k s]
    by (cases "find_task_row k s") auto
  moreover have "find_task_row tid s' = Some (f row)"
    using find_task_row_update [OF assms(8,3), of tid] assms(2,7) by simp
  ultimately show ?thesis using assms(2,5,9,10) by (simp add: moved_def status_of_def)
qed

lemma transition_task_moved:
  assumes "task_db_inv s" and "transition_task tid target a s = Inr (r, s')"
  shows "\<exists>row. find_task_row tid s = Some row \<and> moved tid (tr_status (tk_record row)) target s s' \<and>
    (target = tr_status (tk_record row) \<or> target \<in> run_transitions (tr_status (tk_record row))) \<and>
    (mv_expected a = None \<or> mv_expected a = Some (tr_status (tk_record row))) \<and>
    moved_record target a (t_clock s) (tk_record row) = Inr r \<and>
    map_option tk_record (find_task_row tid s') = Some r"
proof -
  obtain row where row: "find_task_row tid s = Some row"
      "mv_expected a = None \<or> mv_expected a = Some (tr_status (tk_record row))"
      "moved_record target a (t_clock s) (tk_record row) = Inr r"
    and s': "task_rows s' = sql_update
              (\<lambda>x. tk_task_id x = tid \<and>
                 (case mv_expected a of None \<Rightarrow> True | Some st \<Rightarrow> tk_status x = run_status_value st))
              (\<lambda>x. x\<lparr>tk_status := run_status_value (tr_status r), tk_updated_at := t_clock s,
                     tk_record := r,
                     tk_result := (case mv_result a of None \<Rightarrow> tk_result x | Some rs \<Rightarrow> Some rs)\<rparr>)
              (task_rows s)" "lease_rows s' = lease_rows s" "t_clock s' = t_clock s"
    using assms(2) by (auto simp: transition_task_def split: if_splits)
  note ok = find_task_row_ok [OF assms(1) row(1)]
  have tid: "tk_task_id row = tid" using find_task_row_Some [OF row(1)] by simp
  note f = moved_record_facts [OF row(3)]
  have P: "tk_task_id row = tid \<and> (case mv_expected a of None \<Rightarrow> True | Some st \<Rightarrow> tk_status row = run_status_value st)"
    using tid row(2) ok by (auto simp: task_row_ok_def)
  have "moved tid (tr_status (tk_record row)) target s s'"
    by (rule moved_by_update [OF assms(1) row(1) _ _ _ _ P s'])
      (use f ok tid in \<open>auto simp: task_row_ok_def\<close>)
  moreover have "map_option tk_record (find_task_row tid s') = Some r"
    using find_task_row_update [OF s'(1), of tid] row(1) P by simp
  ultimately show ?thesis using row f by blast
qed

lemma increment_attempt_moved:
  assumes "task_db_inv s" and "increment_attempt tid s = Inr (r, s')"
  shows "\<exists>row. find_task_row tid s = Some row \<and> moved tid (tr_status (tk_record row)) (tr_status (tk_record row)) s s' \<and>
    map_option tk_record (find_task_row tid s') = Some ((tk_record row)\<lparr>tr_attempt := tr_attempt (tk_record row) + 1\<rparr>)"
proof -
  obtain row where row: "find_task_row tid s = Some row" "r = (tk_record row)\<lparr>tr_attempt := tr_attempt (tk_record row) + 1\<rparr>"
    and s': "task_rows s' = sql_update (\<lambda>x. tk_task_id x = tid)
        (\<lambda>x. x\<lparr>tk_updated_at := t_clock s, tk_record := r\<rparr>) (task_rows s)"
      "lease_rows s' = lease_rows s" "t_clock s' = t_clock s"
    using assms(2) by (auto simp: increment_attempt_def Let_def)
  note ok = find_task_row_ok [OF assms(1) row(1)]
  have tid: "tk_task_id row = tid" using find_task_row_Some [OF row(1)] by simp
  have "moved tid (tr_status (tk_record row)) (tr_status (tk_record row)) s s'"
    by (rule moved_by_update [OF assms(1) row(1) _ _ _ _ tid s'])
      (use ok row(2) in \<open>auto simp: task_row_ok_def\<close>)
  moreover have "map_option tk_record (find_task_row tid s') = Some r"
    using find_task_row_update [OF s'(1), of tid] row(1) tid by simp
  ultimately show ?thesis using row by simp
qed

lemma put_record_moved:
  assumes "task_db_inv s" and "find_task_row tid s = Some row" and "tr_task_id r = tid"
    and "task_rows s' = task_rows (put_record r tid s)" "lease_rows s' = lease_rows s" "t_clock s' = t_clock s"
  shows "moved tid (tr_status (tk_record row)) (tr_status r) s s'"
  by (rule moved_by_update [OF assms(1,2), where P = "\<lambda>x. tk_task_id x = tid" and
        f = "\<lambda>row. row\<lparr>tk_status := run_status_value (tr_status r), tk_updated_at := t_clock s, tk_record := r\<rparr>"])
    (use find_task_row_Some [OF assms(2)] assms(3-6) in \<open>auto simp: task_row_ok_def put_record_def\<close>)

lemma request_cancel_moved:
  assumes "task_db_inv s" and "request_cancel tid reason s = Inr (r, s')"
  shows "\<exists>row. find_task_row tid s = Some row \<and> moved tid (tr_status (tk_record row)) (tr_status r) s s' \<and>
    tr_status r = (if cancellable (tr_status (tk_record row)) then T_CANCELLED else tr_status (tk_record row)) \<and>
    (\<not> cancellable (tr_status (tk_record row)) \<longrightarrow> r = (tk_record row)\<lparr>tr_cancel_requested := True\<rparr>) \<and>
    map_option tk_record (find_task_row tid s') = Some r"
proof -
  obtain row where row: "find_task_row tid s = Some row"
    and r: "(if cancellable (tr_status (tk_record row))
         then record_transition T_CANCELLED (t_clock s)
               \<lparr>ta_error_code = Some ''TASK_CANCELLED'', ta_error_message = Some reason,
                ta_result_summary = None\<rparr> ((tk_record row)\<lparr>tr_cancel_requested := True\<rparr>)
         else Inr ((tk_record row)\<lparr>tr_cancel_requested := True\<rparr>)) = Inr r"
    and s': "s' = log_event ''task.cancel_requested'' (te_session_id (tk_envelope row)) tid
            [(''reason'', JStr reason)] (put_record r tid s)"
    using assms(2) by (auto simp: request_cancel_def Let_def)
  have tid: "tr_task_id (tk_record row) = tid" using find_task_row_ok [OF assms(1) row] by simp
  have f: "tr_task_id r = tid \<and> tr_status r = (if cancellable (tr_status (tk_record row)) then T_CANCELLED
      else tr_status (tk_record row)) \<and>
      (\<not> cancellable (tr_status (tk_record row)) \<longrightarrow> r = (tk_record row)\<lparr>tr_cancel_requested := True\<rparr>)"
    using r tid by (auto split: if_splits dest!: record_transition_status)
  have "moved tid (tr_status (tk_record row)) (tr_status r) s s'"
    by (rule put_record_moved [OF assms(1) row]) (use f s' in \<open>auto simp: put_record_def\<close>)
  moreover have "map_option tk_record (find_task_row tid s') = Some r"
    using find_task_row_update [where P = "\<lambda>x. tk_task_id x = tid" and s = s and s' = s' and tid = tid,
        OF _ keeps_keyI(1)] row find_task_row_Some [OF row] by (simp add: s' put_record_def)
  ultimately show ?thesis using row f by blast
qed

end
