(* ===== verification/Task_Recover.thy ===== *)
theory Task_Recover
  imports Task_Inv
begin

text \<open>
  The recovery loops as one update of the table each: which rows they claim and what becomes
  of them. Then the remaining operations, and the tasks as a machine with a life cycle.
\<close>

section \<open>Loops over selected rows\<close>

lemma one_then_rest:
  assumes "unique_key tk_task_id rows" and "row \<in> set rows" and "tk_task_id row \<notin> tk_task_id ` set rest"
    and "E row" and "h row = f row" and "\<And>x. tk_task_id (f x) = tk_task_id x"
  shows "sql_update (\<lambda>x. x \<in> set rest \<and> E x) f (sql_update (\<lambda>x. tk_task_id x = tk_task_id row) h rows) =
    sql_update (\<lambda>x. x \<in> set (row # rest) \<and> E x) f rows"
proof -
  have "(let y = (if tk_task_id x = tk_task_id row then h x else x) in if y \<in> set rest \<and> E y then f y else y) =
      (if x \<in> set (row # rest) \<and> E x then f x else x)" if x: "x \<in> set rows" for x
  proof (cases "tk_task_id x = tk_task_id row")
    case True
    with unique_key_eq [OF assms(1) x assms(2)] have "x = row" by simp
    moreover have "f row \<notin> set rest" using assms(3,6) by (metis imageI)
    ultimately show ?thesis using assms(4,5) by simp
  next
    case False
    then show ?thesis by auto
  qed
  then show ?thesis by (simp add: sql_update_def Let_def)
qed

text \<open>The rows of the rest are still in the table after the first one was updated.\<close>

lemma rest_stays:
  assumes "set (row # rest) \<subseteq> set rows" and "tk_task_id row \<notin> tk_task_id ` set rest"
  shows "set rest \<subseteq> set (sql_update (\<lambda>x. tk_task_id x = tk_task_id row) h rows)"
proof
  fix x assume x: "x \<in> set rest"
  with assms have "x \<in> set rows" "tk_task_id x \<noteq> tk_task_id row" by (auto simp: image_iff)
  then show "x \<in> set (sql_update (\<lambda>x. tk_task_id x = tk_task_id row) h rows)"
    by (force simp: in_sql_update)
qed

definition set_record :: "(task_record \<Rightarrow> task_record) \<Rightarrow> nat \<Rightarrow> task_row \<Rightarrow> task_row" where
  "set_record g now row = row\<lparr>tk_status := run_status_value (tr_status (g (tk_record row))),
    tk_updated_at := now, tk_record := g (tk_record row)\<rparr>"

lemma keeps_key_set_record [simp]: "keeps_key (set_record g now)"
  by (simp add: keeps_key_def set_record_def)

lemma tk_task_id_set_record [simp]: "tk_task_id (set_record g now row) = tk_task_id row"
  by (simp add: set_record_def)

text \<open>What the loops make of a record.\<close>

definition queued :: "nat \<Rightarrow> task_record \<Rightarrow> task_record" where
  "queued now r = r\<lparr>tr_status := T_QUEUED, tr_queued_at := Some now, tr_lease_owner := None,
    tr_lease_expires_at := None\<rparr>"

definition interrupted :: "task_record \<Rightarrow> task_record" where
  "interrupted r = r\<lparr>tr_status := T_INTERRUPTED, tr_error_code := Some ''RUNTIME_INTERRUPTED'',
    tr_error_message := Some ''runtime restarted before task completed''\<rparr>"

definition recovered :: "bool \<Rightarrow> string option \<Rightarrow> nat \<Rightarrow> task_record \<Rightarrow> task_record" where
  "recovered requeue owner now r =
    claim_mark owner (if requeue then queued now (interrupted r) else interrupted r)"

lemma transition_queued:
  "T_QUEUED \<in> run_transitions (tr_status r) \<Longrightarrow> record_transition T_QUEUED now no_args r = Inr (queued now r)"
  by (cases "tr_status r") (auto simp: record_transition_def queued_def no_args_def keep_some_def Let_def)

lemma transition_interrupted:
  "tr_status r \<in> {T_LEASED, T_RUNNING} \<Longrightarrow>
   record_transition T_INTERRUPTED now interrupted_args r = Inr (interrupted r)"
  by (auto simp: record_transition_def interrupted_def interrupted_args_def keep_some_def Let_def)

lemma claim_mark_fields [simp]:
  "tr_status (claim_mark owner r) = tr_status r" "tr_task_id (claim_mark owner r) = tr_task_id r"
  by (simp_all add: claim_mark_def)

lemma queued_fields [simp]:
  "tr_status (queued now r) = T_QUEUED" "tr_task_id (queued now r) = tr_task_id r"
  "tr_status (interrupted r) = T_INTERRUPTED" "tr_task_id (interrupted r) = tr_task_id r"
  by (simp_all add: queued_def interrupted_def)

definition loop_ready :: "task_row list \<Rightarrow> task_db \<Rightarrow> run_status set \<Rightarrow> bool" where
  "loop_ready rs s sts \<longleftrightarrow> unique_key tk_task_id (task_rows s) \<and> set rs \<subseteq> set (task_rows s) \<and>
    distinct (map tk_task_id rs) \<and> (\<forall>row \<in> set rs. task_row_ok row \<and> tr_status (tk_record row) \<in> sts)"

lemma loop_ready_next:
  assumes "loop_ready (row # rs) s sts" and "\<And>x. tk_task_id (h x) = tk_task_id x"
    and "task_rows s' = sql_update (\<lambda>x. tk_task_id x = tk_task_id row) h (task_rows s)"
  shows "loop_ready rs s' sts"
proof -
  have "set rs \<subseteq> set (task_rows s')"
    unfolding assms(3) using assms(1) by (intro rest_stays) (auto simp: loop_ready_def)
  then show ?thesis using assms by (simp add: loop_ready_def unique_key_update)
qed

lemma loop_ready_tail: "loop_ready (row # rs) s sts \<Longrightarrow> loop_ready rs s sts"
  by (auto simp: loop_ready_def)

lemma sql_update_skip:
  "\<not> E row \<Longrightarrow> sql_update (\<lambda>x. x \<in> set (row # rs) \<and> E x) f rows = sql_update (\<lambda>x. x \<in> set rs \<and> E x) f rows"
  by (auto simp: sql_update_def)

lemma recover_rows_result:
  "loop_ready rs s {T_LEASED, T_RUNNING} \<Longrightarrow>
   \<exists>s'. recover_task_rows requeue owner grace rs s =
      Inr (map tk_task_id (filter (\<lambda>x. recover_eligible owner grace (t_clock s) (tk_record x)) rs), s') \<and>
    task_rows s' = sql_update (\<lambda>x. x \<in> set rs \<and> recover_eligible owner grace (t_clock s) (tk_record x))
      (set_record (recovered requeue owner (t_clock s)) (t_clock s)) (task_rows s) \<and>
    lease_rows s' = lease_rows s \<and> t_clock s' = t_clock s"
proof (induction rs arbitrary: s)
  case Nil
  then show ?case by (simp add: sql_update_none)
next
  case (Cons row rs)
  let ?E = "\<lambda>x. recover_eligible owner grace (t_clock s) (tk_record x)"
  show ?case
  proof (cases "?E row")
    case False
    with Cons.IH [OF loop_ready_tail [OF Cons.prems]] show ?thesis
      by (simp add: sql_update_skip del: set_simps)
  next
    case True
    have row: "task_row_ok row" "tr_status (tk_record row) \<in> {T_LEASED, T_RUNNING}" "row \<in> set (task_rows s)"
      using Cons.prems by (simp_all add: loop_ready_def)
    then have tid: "tr_task_id (tk_record row) = tk_task_id row" by (simp add: task_row_ok_def)
    obtain s2 where body: "recover_task_rows requeue owner grace (row # rs) s =
        bindE (recover_task_rows requeue owner grace rs
            (put_record (recovered requeue owner (t_clock s) (tk_record row)) (tk_task_id row) s2))
          (\<lambda>(ids, s3). Inr (tk_task_id row # ids, s3))"
      and s2: "task_rows s2 = task_rows s" "lease_rows s2 = lease_rows s" "t_clock s2 = t_clock s"
    proof (cases requeue)
      case True
      show thesis
        by (rule that [of "log_event ''task.queued'' (te_session_id (tk_envelope row)) (tk_task_id row)
            [(''reason'', JStr ''runtime_recovery'')] (log_event ''task.interrupted''
              (te_session_id (tk_envelope row)) (tk_task_id row) [] s)"])
          (use \<open>?E row\<close> True row(2) in \<open>simp_all add: tid Let_def transition_interrupted transition_queued recovered_def\<close>)
    next
      case False
      show thesis
        by (rule that [of "log_event ''task.interrupted'' (te_session_id (tk_envelope row)) (tk_task_id row) [] s"])
          (use \<open>?E row\<close> False row(2) in \<open>simp_all add: tid Let_def transition_interrupted recovered_def\<close>)
    qed
    let ?s1 = "put_record (recovered requeue owner (t_clock s) (tk_record row)) (tk_task_id row) s2"
    let ?h = "\<lambda>x. x\<lparr>tk_status := run_status_value (tr_status (recovered requeue owner (t_clock s) (tk_record row))),
      tk_updated_at := t_clock s, tk_record := recovered requeue owner (t_clock s) (tk_record row)\<rparr>"
    let ?f = "set_record (recovered requeue owner (t_clock s)) (t_clock s)"
    have rows: "task_rows ?s1 = sql_update (\<lambda>x. tk_task_id x = tk_task_id row) ?h (task_rows s)"
      and fr: "lease_rows ?s1 = lease_rows s" "t_clock ?s1 = t_clock s"
      using s2 by (simp_all add: put_record_def)
    have ready: "loop_ready rs ?s1 {T_LEASED, T_RUNNING}"
      by (rule loop_ready_next [OF Cons.prems _ rows]) simp
    have eq: "sql_update (\<lambda>x. x \<in> set rs \<and> ?E x) ?f (task_rows ?s1) =
        sql_update (\<lambda>x. x \<in> set (row # rs) \<and> ?E x) ?f (task_rows s)"
      unfolding rows by (rule one_then_rest)
        (use Cons.prems row(3) True in \<open>auto simp: loop_ready_def set_record_def\<close>)
    from Cons.IH [OF ready] body True fr eq show ?thesis by (auto simp del: recover_task_rows.simps set_simps)
  qed
qed

lemma requeue_rows_result:
  "loop_ready rs s {T_BLOCKED} \<Longrightarrow>
   let E = (\<lambda>x :: task_row. tr_error_code (tk_record x) = Some ''RUNTIME_CONTEXT_MISSING'' \<and>
        (case sources of None \<Rightarrow> True | Some xs \<Rightarrow> te_source (tk_envelope x) \<in> set xs) \<and>
        recover_eligible owner 0 (t_clock s) (tk_record x));
       f = (\<lambda>x :: task_row. (set_record (\<lambda>r. claim_mark owner (queued (t_clock s) r)) (t_clock s) x)\<lparr>tk_result := None\<rparr>)
   in \<exists>s'. requeue_rows sources owner rs s = Inr (map tk_task_id (filter E rs), s') \<and>
     task_rows s' = sql_update (\<lambda>x. x \<in> set rs \<and> E x) f (task_rows s) \<and>
     lease_rows s' = lease_rows s \<and> t_clock s' = t_clock s"
proof (induction rs arbitrary: s)
  case Nil
  then show ?case by (simp add: sql_update_none)
next
  case (Cons row rs)
  define E where "E x \<longleftrightarrow> tr_error_code (tk_record x) = Some ''RUNTIME_CONTEXT_MISSING'' \<and>
        (case sources of None \<Rightarrow> True | Some xs \<Rightarrow> te_source (tk_envelope x) \<in> set xs) \<and>
        recover_eligible owner 0 (t_clock s) (tk_record x)" for x :: task_row
  define f where "f x = (set_record (\<lambda>r. claim_mark owner (queued (t_clock s) r)) (t_clock s) x)\<lparr>tk_result := None\<rparr>" for x :: task_row
  have goal: "\<exists>s'. requeue_rows sources owner (row # rs) s = Inr (map tk_task_id (filter E (row # rs)), s') \<and>
     task_rows s' = sql_update (\<lambda>x. x \<in> set (row # rs) \<and> E x) f (task_rows s) \<and>
     lease_rows s' = lease_rows s \<and> t_clock s' = t_clock s"
  proof (cases "E row")
    case False
    then have "requeue_rows sources owner (row # rs) s = requeue_rows sources owner rs s"
      by (auto simp: E_def Let_def split: option.splits)
    with False Cons.IH [OF loop_ready_tail [OF Cons.prems]] show ?thesis
      by (simp add: sql_update_skip Let_def E_def [symmetric] f_def [symmetric] del: set_simps requeue_rows.simps)
  next
    case True
    have row: "task_row_ok row" "tr_status (tk_record row) = T_BLOCKED" "row \<in> set (task_rows s)"
      using Cons.prems by (simp_all add: loop_ready_def)
    then have tid: "tr_task_id (tk_record row) = tk_task_id row" by (simp add: task_row_ok_def)
    let ?r = "claim_mark owner (queued (t_clock s) (tk_record row))"
    let ?h = "\<lambda>x. x\<lparr>tk_status := run_status_value (tr_status ?r), tk_updated_at := t_clock s,
                     tk_record := ?r, tk_result := None\<rparr>"
    let ?s1 = "log_event ''task.requeued'' (te_session_id (tk_envelope row)) (tk_task_id row)
              [(''reason'', JStr ''runtime_context_restore'')]
              (s\<lparr>task_rows := sql_update (\<lambda>x. tk_task_id x = tk_task_id row) ?h (task_rows s)\<rparr>)"
    have body: "requeue_rows sources owner (row # rs) s =
        bindE (requeue_rows sources owner rs ?s1) (\<lambda>(ids, s3). Inr (tk_task_id row # ids, s3))"
      using True row(2) by (auto simp: E_def tid Let_def transition_queued split: option.splits)
    have rows: "task_rows ?s1 = sql_update (\<lambda>x. tk_task_id x = tk_task_id row) ?h (task_rows s)"
      and fr: "lease_rows ?s1 = lease_rows s" "t_clock ?s1 = t_clock s" by simp_all
    have ready: "loop_ready rs ?s1 {T_BLOCKED}"
      by (rule loop_ready_next [OF Cons.prems _ rows]) simp
    have eq: "sql_update (\<lambda>x. x \<in> set rs \<and> E x) f (task_rows ?s1) =
        sql_update (\<lambda>x. x \<in> set (row # rs) \<and> E x) f (task_rows s)"
      unfolding rows by (rule one_then_rest)
        (use Cons.prems row(3) True in \<open>auto simp: loop_ready_def set_record_def f_def\<close>)
    from Cons.IH [OF ready] body True eq show ?thesis
      by (auto simp: Let_def E_def [symmetric] f_def [symmetric] simp del: requeue_rows.simps set_simps)
  qed
  then show ?case by (simp only: Let_def E_def [symmetric] f_def [symmetric])
qed

lemma claim_rows_result:
  "loop_ready rs s {T_RETRY_WAIT} \<Longrightarrow>
   \<exists>s'. claim_rows owner grace rs s =
      Inr (map tk_task_id (filter (\<lambda>x. recover_eligible owner grace (t_clock s) (tk_record x)) rs), s') \<and>
    task_rows s' = sql_update (\<lambda>x. x \<in> set rs \<and> recover_eligible owner grace (t_clock s) (tk_record x))
      (set_record (\<lambda>r. claim_mark owner (queued (t_clock s) r)) (t_clock s)) (task_rows s) \<and>
    lease_rows s' = lease_rows s \<and> t_clock s' = t_clock s"
proof (induction rs arbitrary: s)
  case Nil
  then show ?case by (simp add: sql_update_none)
next
  case (Cons row rs)
  let ?E = "\<lambda>x. recover_eligible owner grace (t_clock s) (tk_record x)"
  let ?f = "set_record (\<lambda>r. claim_mark owner (queued (t_clock s) r)) (t_clock s)"
  show ?case
  proof (cases "?E row")
    case False
    with Cons.IH [OF loop_ready_tail [OF Cons.prems]] show ?thesis
      by (simp add: sql_update_skip del: set_simps)
  next
    case True
    have row: "task_row_ok row" "tr_status (tk_record row) = T_RETRY_WAIT" "row \<in> set (task_rows s)"
      using Cons.prems by (simp_all add: loop_ready_def)
    then have tid: "tr_task_id (tk_record row) = tk_task_id row" by (simp add: task_row_ok_def)
    let ?r = "claim_mark owner (queued (t_clock s) (tk_record row))"
    let ?s1 = "log_event ''task.queued'' (te_session_id (tk_envelope row)) (tk_task_id row)
              [(''reason'', JStr ''retry_claim'')] (put_record ?r (tk_task_id row) s)"
    have body: "claim_rows owner grace (row # rs) s =
        bindE (claim_rows owner grace rs ?s1) (\<lambda>(ids, s3). Inr (tk_task_id row # ids, s3))"
      using True row(2) by (simp add: tid Let_def transition_queued)
    have rows: "task_rows ?s1 = sql_update (\<lambda>x. tk_task_id x = tk_task_id row)
        (\<lambda>x. x\<lparr>tk_status := run_status_value (tr_status ?r), tk_updated_at := t_clock s, tk_record := ?r\<rparr>) (task_rows s)"
      and fr: "lease_rows ?s1 = lease_rows s" "t_clock ?s1 = t_clock s" by (simp_all add: put_record_def)
    have ready: "loop_ready rs ?s1 {T_RETRY_WAIT}"
      by (rule loop_ready_next [OF Cons.prems _ rows]) simp
    have eq: "sql_update (\<lambda>x. x \<in> set rs \<and> ?E x) ?f (task_rows ?s1) =
        sql_update (\<lambda>x. x \<in> set (row # rs) \<and> ?E x) ?f (task_rows s)"
      unfolding rows by (rule one_then_rest)
        (use Cons.prems row(3) True in \<open>auto simp: loop_ready_def set_record_def\<close>)
    from Cons.IH [OF ready] body True fr eq show ?thesis by (auto simp del: claim_rows.simps set_simps)
  qed
qed

end
