(* ===== verification/Task_Runtime.thy ===== *)
theory Task_Runtime
  imports Task_Recover
begin

text \<open>
  \<open>TaskRuntime\<close> (\<open>core/runtime/task_runtime.py\<close>): how a worker takes a task from the queue,
  runs it and stores its result, retries and cancellation, and several instances of the
  program over one database. Each store call is one transaction; between two calls the other
  instances may run. The executor and its outcome are parameters, the clock advances by its
  own steps, and asyncio's queue, locks and futures are left out: a worker may pick any task
  at any time.
\<close>

section \<open>One worker\<close>

datatype gate_answer = Skip | Cancel_Now | Go

text \<open>What \<open>_run_queued\<close> does with the snapshot it reads before it takes the lease.\<close>

definition run_gate :: "string \<Rightarrow> task_db \<Rightarrow> gate_answer" where
  "run_gate tid s =
    (case get_task tid s of
       None \<Rightarrow> Skip
     | Some (_, r, _) \<Rightarrow>
         if record_is_terminal r then Skip else if tr_cancel_requested r then Cancel_Now else Go)"

definition drop_cancelled :: "string \<Rightarrow> task_db \<Rightarrow> task_error + bool \<times> task_db" where
  "drop_cancelled tid s =
    try_transition tid T_CANCELLED
      (plain\<lparr>mv_error_code := Some ''TASK_CANCELLED'', mv_error_message := Some ''cancel requested''\<rparr>) s"

definition holder :: "string \<Rightarrow> nat \<Rightarrow> string" where
  "holder inst idx = inst @ ''-'' @ dec_digits idx"

definition take_lease ::
  "string \<Rightarrow> nat \<Rightarrow> nat \<Rightarrow> string \<Rightarrow> task_db \<Rightarrow> task_error + bool \<times> task_db" where
  "take_lease inst idx ttl tid s =
    try_transition tid T_LEASED
      (plain\<lparr>mv_lease_owner := Some (holder inst idx),
             mv_lease_expires_at := Some (At (t_clock s + max 1000 ttl)),
             mv_expected := Some T_QUEUED\<rparr>) s"

definition start_run :: "string \<Rightarrow> task_db \<Rightarrow> task_error + bool \<times> task_db" where
  "start_run tid s = try_transition tid T_RUNNING plain s"

definition count_attempt :: "string \<Rightarrow> task_db \<Rightarrow> task_error + task_db" where
  "count_attempt tid s =
    bindE (increment_attempt tid s) (\<lambda>(_, s1).
      Inr (log_event ''task.started''
        (case find_task_row tid s of None \<Rightarrow> [] | Some row \<Rightarrow> te_session_id (tk_envelope row)) tid [] s1))"

text \<open>What the executor did.\<close>

datatype outcome = Returned task_result | Stopped string | Overran nat | Raised string

definition plain_result :: "string \<Rightarrow> run_status \<Rightarrow> string \<Rightarrow> string \<Rightarrow> string \<Rightarrow> nat \<Rightarrow> task_result" where
  "plain_result tid st summary code message now =
    \<lparr>rs_task_id = tid, rs_status = st, rs_visible_text = [], rs_summary = summary,
     rs_artifact_ids = [], rs_usage = [], rs_error_code = Some code, rs_error_message = Some message,
     rs_started_at = None, rs_finished_at = Some now\<rparr>"

definition outcome_result :: "string \<Rightarrow> nat \<Rightarrow> outcome \<Rightarrow> task_result" where
  "outcome_result tid now oc =
    (case oc of
       Returned r \<Rightarrow>
         if rs_task_id r = tid then r
         else plain_result tid T_FAILED ''executor returned a result for a different task''
           ''TASK_EXECUTION_ERROR'' ''executor returned a result for a different task'' now
     | Stopped m \<Rightarrow> plain_result tid T_CANCELLED m ''TASK_CANCELLED'' m now
     | Overran secs \<Rightarrow> plain_result tid T_TIMED_OUT (''task exceeded '' @ dec_digits secs @ ''s'')
         ''TASK_TIMEOUT'' ''execution timeout'' now
     | Raised m \<Rightarrow> plain_result tid T_FAILED m ''TASK_EXECUTION_ERROR'' m now)"

definition settle_result :: "string \<Rightarrow> task_result \<Rightarrow> task_db \<Rightarrow> task_error + bool \<times> task_db" where
  "settle_result tid r s =
    try_transition tid (rs_status r)
      (plain\<lparr>mv_error_code := rs_error_code r, mv_error_message := rs_error_message r, mv_result := Some r\<rparr>) s"

section \<open>Retries\<close>

definition may_retry :: "nat \<Rightarrow> string \<Rightarrow> task_db \<Rightarrow> bool" where
  "may_retry max_attempts tid s =
    (case get_task tid s of
       None \<Rightarrow> False
     | Some (_, r, _) \<Rightarrow> \<not> (tr_cancel_requested r \<or> max_attempts \<le> tr_attempt r))"

definition retry_later :: "string \<Rightarrow> task_result \<Rightarrow> task_db \<Rightarrow> task_error + task_record \<times> task_db" where
  "retry_later tid r s =
    transition_task tid T_RETRY_WAIT
      (plain\<lparr>mv_error_code := rs_error_code r, mv_error_message := rs_error_message r\<rparr>) s"

text \<open>The delay doubles with each attempt; \<open>backoff\<close> is in milliseconds.\<close>

definition retry_delay :: "nat \<Rightarrow> nat \<Rightarrow> nat" where
  "retry_delay backoff attempt = backoff * 2 ^ (attempt - 1)"

text \<open>
  \<open>_schedule_retry\<close>: a \<open>ValueError\<close> of the transition is what the caller swallows before it
  stores the failure after all.
\<close>

definition schedule_retry ::
  "nat \<Rightarrow> nat \<Rightarrow> string \<Rightarrow> task_result \<Rightarrow> task_db \<Rightarrow> task_error + nat option \<times> task_db" where
  "schedule_retry max_attempts backoff tid r s =
    (if \<not> may_retry max_attempts tid s then Inr (None, s)
     else bindE (retry_later tid r s) (\<lambda>(record, s1).
       let delay = retry_delay backoff (tr_attempt record)
       in Inr (Some delay, log_event ''task.retry_scheduled''
            (case find_task_row tid s of None \<Rightarrow> [] | Some row \<Rightarrow> te_session_id (tk_envelope row)) tid
            [(''attempt'', jnat (tr_attempt record)), (''max_attempts'', jnat max_attempts),
             (''delay_seconds'', JFloat (of_nat delay / 1000))] s1)))"

text \<open>
  The end of a run: \<open>Some delay\<close> when another attempt waits, \<open>None\<close> when the result was
  offered to the store (which keeps an earlier terminal status).
\<close>

definition finish_run ::
  "nat \<Rightarrow> nat \<Rightarrow> string \<Rightarrow> outcome \<Rightarrow> task_db \<Rightarrow> task_error + nat option \<times> task_db" where
  "finish_run max_attempts backoff tid oc s =
    (let r = outcome_result tid (t_clock s) oc
     in if rs_status r = T_FAILED then
          (case schedule_retry max_attempts backoff tid r s of
             Inr (Some delay, s1) \<Rightarrow> Inr (Some delay, s1)
           | Inl TaskNotFound \<Rightarrow> Inl TaskNotFound
           | _ \<Rightarrow> bindE (settle_result tid r s) (\<lambda>(_, s1). Inr (None, s1)))
        else bindE (settle_result tid r s) (\<lambda>(_, s1). Inr (None, s1)))"

text \<open>\<open>_retry_after\<close>, when the delay is over.\<close>

definition retry_after :: "string \<Rightarrow> task_db \<Rightarrow> task_error + task_db" where
  "retry_after tid s =
    (if run_gate tid s \<noteq> Go then Inr s
     else (case transition_task tid T_QUEUED (plain\<lparr>mv_expected := Some T_RETRY_WAIT\<rparr>) s of
         Inl TaskNotFound \<Rightarrow> Inl TaskNotFound
       | Inl _ \<Rightarrow> Inr s
       | Inr (_, s1) \<Rightarrow>
           Inr (log_event ''task.queued''
             (case find_task_row tid s of None \<Rightarrow> [] | Some row \<Rightarrow> te_session_id (tk_envelope row)) tid
             [(''reason'', JStr ''retry'')] s1)))"

section \<open>Cancellation\<close>

text \<open>\<open>cancel\<close>: the result is stored when the request itself ended the task.\<close>

definition cancel_task :: "string \<Rightarrow> string \<Rightarrow> task_db \<Rightarrow> task_error + task_db" where
  "cancel_task tid reason s =
    bindE (request_cancel tid reason s) (\<lambda>(record, s1).
      if tr_status record = T_CANCELLED then
        bindE (settle_result tid (plain_result tid T_CANCELLED reason ''TASK_CANCELLED'' reason (t_clock s1)) s1)
          (\<lambda>(_, s2). Inr s2)
      else Inr s1)"

text \<open>The result a caller of \<open>wait\<close> gets at once, if any.\<close>

definition wait_result :: "string \<Rightarrow> task_db \<Rightarrow> task_error + task_result option" where
  "wait_result tid s = bindE (of_option TaskNotFound (get_task tid s)) (\<lambda>(_, _, r). Inr r)"

end
