(* ===== verification/Task_Cluster.thy ===== *)
theory Task_Cluster
  imports Task_Runtime
begin

text \<open>
  Several instances of the program over one task database, as a step relation: each step is
  one transaction of one instance, in any order. \<open>c_runs\<close> are the executions that
  have not ended, the ones whose task timed out included (their thread goes on).

  What the configuration of the program has to ensure is a guard of a step: an execution is
  over, or counted as timed out, before its lease ends (\<open>Tick\<close>; the lease time must exceed
  the longest run), task ids are new (\<open>Submit\<close>), and an instance recovers tasks under its own
  id only before it runs any (\<open>Recover\<close>). An execution may end at any time (\<open>Leave\<close>), and all
  executions of an instance end when it stops or crashes. Instance ids are hexadecimal UUIDs, so they
  contain no dash.
\<close>

section \<open>Steps\<close>

datatype run_phase = Leased | Running | Overdue

record execution =
  ex_inst :: string
  ex_idx :: nat
  ex_task :: string
  ex_phase :: run_phase
  ex_until :: nat

record cluster =
  c_db :: task_db
  c_runs :: "execution list"

definition no_dash :: "string \<Rightarrow> bool" where
  "no_dash inst \<longleftrightarrow> inst \<noteq> [] \<and> CHR ''-'' \<notin> set inst"

text \<open>An execution holds its lease until the task timed out.\<close>

definition in_time :: "nat \<Rightarrow> execution \<Rightarrow> bool" where
  "in_time now r \<longleftrightarrow> ex_phase r = Overdue \<or> now \<le> ex_until r"

definition idle :: "string \<Rightarrow> cluster \<Rightarrow> bool" where
  "idle inst c \<longleftrightarrow> (\<forall>r \<in> set (c_runs c). ex_inst r \<noteq> inst)"

inductive cluster_step :: "cluster \<Rightarrow> cluster \<Rightarrow> bool" where
  Submit: "create_task e (c_db c) = Inr (x, s') \<Longrightarrow> te_task_id e \<notin> ex_task ` set (c_runs c) \<Longrightarrow>
    cluster_step c (c\<lparr>c_db := s'\<rparr>)"
| Lease: "take_lease inst idx ttl tid (c_db c) = Inr (True, s') \<Longrightarrow> no_dash inst \<Longrightarrow>
    cluster_step c (c\<lparr>c_db := s', c_runs := \<lparr>ex_inst = inst, ex_idx = idx, ex_task = tid, ex_phase = Leased,
      ex_until = t_clock (c_db c) + max 1000 ttl\<rparr> # c_runs c\<rparr>)"
| Start: "r \<in> set (c_runs c) \<Longrightarrow> ex_phase r = Leased \<Longrightarrow> start_run (ex_task r) (c_db c) = Inr (True, s') \<Longrightarrow>
    cluster_step c (c\<lparr>c_db := s', c_runs := r\<lparr>ex_phase := Running\<rparr> # remove1 r (c_runs c)\<rparr>)"
| Leave: "r \<in> set (c_runs c) \<Longrightarrow> cluster_step c (c\<lparr>c_runs := remove1 r (c_runs c)\<rparr>)"
| Count: "count_attempt tid (c_db c) = Inr s' \<Longrightarrow> cluster_step c (c\<lparr>c_db := s'\<rparr>)"
| Finish: "r \<in> set (c_runs c) \<Longrightarrow> ex_phase r = Running \<Longrightarrow> run_terminal (rs_status res) \<Longrightarrow>
    settle_result (ex_task r) res (c_db c) = Inr (ok, s') \<Longrightarrow>
    cluster_step c (c\<lparr>c_db := s', c_runs := remove1 r (c_runs c)\<rparr>)"
| Time_Out: "r \<in> set (c_runs c) \<Longrightarrow> ex_phase r = Running \<Longrightarrow> rs_status res = T_TIMED_OUT \<Longrightarrow>
    settle_result (ex_task r) res (c_db c) = Inr (ok, s') \<Longrightarrow>
    cluster_step c (c\<lparr>c_db := s', c_runs := r\<lparr>ex_phase := Overdue\<rparr> # remove1 r (c_runs c)\<rparr>)"
| Lost: "r \<in> set (c_runs c) \<Longrightarrow> ex_phase r = Running \<Longrightarrow> rs_status res = T_TIMED_OUT \<Longrightarrow>
    settle_result (ex_task r) res (c_db c) = Inl err \<Longrightarrow>
    cluster_step c (c\<lparr>c_runs := r\<lparr>ex_phase := Overdue\<rparr> # remove1 r (c_runs c)\<rparr>)"
| Wait_Retry: "r \<in> set (c_runs c) \<Longrightarrow> ex_phase r = Running \<Longrightarrow>
    retry_later (ex_task r) res (c_db c) = Inr (x, s') \<Longrightarrow>
    cluster_step c (c\<lparr>c_db := s', c_runs := remove1 r (c_runs c)\<rparr>)"
| Retry: "retry_after tid (c_db c) = Inr s' \<Longrightarrow> cluster_step c (c\<lparr>c_db := s'\<rparr>)"
| Claim: "claim_retry_wait (Some inst) grace (c_db c) = Inr (tids, s') \<Longrightarrow> cluster_step c (c\<lparr>c_db := s'\<rparr>)"
| Requeue: "requeue_missing_context sources (Some inst) (c_db c) = Inr (tids, s') \<Longrightarrow>
    cluster_step c (c\<lparr>c_db := s'\<rparr>)"
| Recover: "recover_interrupted requeue (Some inst) grace (c_db c) = Inr (tids, s') \<Longrightarrow> no_dash inst \<Longrightarrow>
    idle inst c \<Longrightarrow> cluster_step c (c\<lparr>c_db := s'\<rparr>)"
| Drop: "drop_cancelled tid (c_db c) = Inr (ok, s') \<Longrightarrow> cluster_step c (c\<lparr>c_db := s'\<rparr>)"
| Cancel: "cancel_task tid reason (c_db c) = Inr s' \<Longrightarrow> cluster_step c (c\<lparr>c_db := s'\<rparr>)"
| Delete: "delete_terminal_task tid (c_db c) = (ok, s') \<Longrightarrow> cluster_step c (c\<lparr>c_db := s'\<rparr>)"
| Deliver: "cluster_step c (c\<lparr>c_db := save_channel_delivery did tid ch mid st ctx (c_db c)\<rparr>)"
| Lead: "try_acquire_lease name who ttl (c_db c) = (ok, s') \<Longrightarrow> cluster_step c (c\<lparr>c_db := s'\<rparr>)"
| Stop: "no_dash inst \<Longrightarrow> release_leases (Some inst) (c_db c) = (n, s') \<Longrightarrow>
    cluster_step c (c\<lparr>c_db := s', c_runs := filter (\<lambda>r. ex_inst r \<noteq> inst) (c_runs c)\<rparr>)"
| Crash: "cluster_step c (c\<lparr>c_runs := filter (\<lambda>r. ex_inst r \<noteq> inst) (c_runs c)\<rparr>)"
| Tick: "\<forall>r \<in> set (c_runs c). in_time (t_clock (c_db c) + d) r \<Longrightarrow>
    cluster_step c (c\<lparr>c_db := (c_db c)\<lparr>t_clock := t_clock (c_db c) + d\<rparr>\<rparr>)"

definition empty_task_db :: task_db where
  "empty_task_db = \<lparr>task_rows = [], task_sessions = [], task_events = [], delivery_rows = [],
    lease_rows = [], t_clock = 0\<rparr>"

inductive cluster_reachable :: "cluster \<Rightarrow> bool" where
  Boot: "cluster_reachable \<lparr>c_db = empty_task_db, c_runs = []\<rparr>"
| Next: "cluster_reachable c \<Longrightarrow> cluster_step c c' \<Longrightarrow> cluster_reachable c'"

section \<open>What a database step leaves alone\<close>

text \<open>
  \<open>live\<close>: the task is held by a worker with an unexpired lease. \<open>sealed\<close>: it can never be
  leased again (a blocked task can, through the queue).
\<close>

definition live :: "string \<Rightarrow> run_status \<Rightarrow> string \<Rightarrow> nat \<Rightarrow> task_db \<Rightarrow> bool" where
  "live tid st who until s \<longleftrightarrow> (\<exists>row. find_task_row tid s = Some row \<and> tr_status (tk_record row) = st \<and>
    tr_lease_owner (tk_record row) = Some who \<and> tr_lease_expires_at (tk_record row) = Some (At until))"

definition sealed :: "string \<Rightarrow> task_db \<Rightarrow> bool" where
  "sealed tid s \<longleftrightarrow> (case status_of tid s of None \<Rightarrow> True | Some st \<Rightarrow> run_terminal st \<and> st \<noteq> T_BLOCKED)"

definition held :: "task_db \<Rightarrow> execution \<Rightarrow> bool" where
  "held s r \<longleftrightarrow> sealed (ex_task r) s \<or>
    ex_phase r = Leased \<and> live (ex_task r) T_LEASED (holder (ex_inst r) (ex_idx r)) (ex_until r) s \<or>
    ex_phase r = Running \<and> live (ex_task r) T_RUNNING (holder (ex_inst r) (ex_idx r)) (ex_until r) s"

definition cluster_inv :: "cluster \<Rightarrow> bool" where
  "cluster_inv c \<longleftrightarrow> task_db_inv (c_db c) \<and> distinct (map ex_task (c_runs c)) \<and>
    (\<forall>r \<in> set (c_runs c). held (c_db c) r \<and> in_time (t_clock (c_db c)) r \<and> no_dash (ex_inst r))"

text \<open>A step that keeps the hold of every execution that is not in \<open>B\<close>.\<close>

definition undisturbed :: "string set \<Rightarrow> (string \<Rightarrow> bool) \<Rightarrow> task_db \<Rightarrow> task_db \<Rightarrow> bool" where
  "undisturbed B W s s' \<longleftrightarrow> task_db_inv s' \<and> t_clock s' = t_clock s \<and>
    (\<forall>tid. tid \<notin> B \<longrightarrow> (sealed tid s \<longrightarrow> sealed tid s') \<and>
      (\<forall>st who until. live tid st who until s \<longrightarrow> st \<in> {T_LEASED, T_RUNNING} \<longrightarrow> t_clock s \<le> until \<longrightarrow> \<not> W who \<longrightarrow>
         live tid st who until s' \<or> sealed tid s'))"

end
