(* ===== verification/Task_Safe.thy ===== *)
theory Task_Safe
  imports Task_Cluster
begin

text \<open>
  The invariant of the cluster: no two executions are of the same task. First what each
  database operation leaves alone, then one lemma that carries a whole step.
\<close>

section \<open>Holders\<close>

lemma take_instance:
  assumes "CHR ''-'' \<notin> set inst"
  shows "takeWhile (\<lambda>x. x \<noteq> CHR ''-'') (inst @ CHR ''-'' # rest) = inst"
  using assms by (induction inst) auto

lemma own_holder:
  assumes "no_dash inst" and "no_dash inst'"
  shows "own_lease inst (holder inst' idx) \<longleftrightarrow> inst = inst'"
proof
  assume own: "own_lease inst (holder inst' idx)"
  have "\<exists>rest. holder inst' idx = inst @ CHR ''-'' # rest" if "starts_with (inst @ ''-'') (holder inst' idx)"
  proof -
    let ?n = "length (inst @ ''-'')"
    have "take ?n (holder inst' idx) = inst @ ''-''" using that by (simp add: starts_with_def)
    then have "holder inst' idx = (inst @ ''-'') @ drop ?n (holder inst' idx)"
      using append_take_drop_id [of ?n "holder inst' idx"] by metis
    then show ?thesis by (metis append.assoc append_Cons append_Nil)
  qed
  with own consider "holder inst' idx = inst" | rest where "holder inst' idx = inst @ CHR ''-'' # rest"
    unfolding own_lease_def by blast
  then show "inst = inst'"
  proof cases
    case 1
    then have "CHR ''-'' \<in> set inst" by (auto simp: holder_def)
    with assms show ?thesis by (simp add: no_dash_def)
  next
    case 2
    then have "takeWhile (\<lambda>x. x \<noteq> CHR ''-'') (holder inst' idx) = inst"
      using take_instance [of inst rest] assms(1) by (simp add: no_dash_def)
    moreover have "takeWhile (\<lambda>x. x \<noteq> CHR ''-'') (holder inst' idx) = inst'"
      using take_instance [of inst' "dec_digits idx"] assms(2) by (simp add: no_dash_def holder_def)
    ultimately show ?thesis by simp
  qed
next
  assume "inst = inst'"
  then show "own_lease inst (holder inst' idx)"
    by (simp add: own_lease_def starts_with_def holder_def)
qed

lemma holder_not_Nil [simp]: "holder inst idx \<noteq> []"
  by (simp add: holder_def)

section \<open>What the operations respect\<close>

lemma respects_trans:
  assumes "undisturbed B W s s'" and "undisturbed B' W' s' s''"
  shows "undisturbed (B \<union> B') (\<lambda>w. W w \<or> W' w) s s''"
  using assms unfolding undisturbed_def by (metis UnCI)

lemma respects_frame:
  "task_db_inv s' \<Longrightarrow> task_rows s' = task_rows s \<Longrightarrow> t_clock s' = t_clock s \<Longrightarrow> undisturbed B W s s'"
  by (simp add: undisturbed_def live_def sealed_def status_of_def find_task_row_def)

lemma respects_moved: "moved tid st st' s s' \<Longrightarrow> undisturbed {tid} W s s'"
  by (simp add: undisturbed_def moved_def live_def sealed_def status_of_def)

text \<open>Enough for one row: sealed rows stay sealed, live rows stay as they are or are sealed.\<close>

lemma respects_one:
  assumes "moved tid st st' s s'" and "run_terminal st \<Longrightarrow> st \<noteq> T_BLOCKED \<Longrightarrow> st' = st"
    and "st \<in> {T_LEASED, T_RUNNING} \<Longrightarrow> run_terminal st' \<and> st' \<noteq> T_BLOCKED \<or>
      (\<forall>who until. live tid st who until s \<longrightarrow> live tid st who until s')"
  shows "undisturbed {} W s s'"
proof -
  have st: "status_of tid s = Some st" "status_of tid s' = Some st'" using assms(1) by (auto simp: moved_def)
  have "sealed tid s \<Longrightarrow> sealed tid s'" using assms(2) st by (auto simp: sealed_def)
  moreover have "live tid x who until s' \<or> sealed tid s'"
    if "live tid x who until s" "x \<in> {T_LEASED, T_RUNNING}" for x who until
  proof -
    have "x = st" using that(1) st(1) by (auto simp: live_def status_of_def)
    with assms(3) that st show ?thesis by (auto simp: sealed_def)
  qed
  ultimately show ?thesis
    using respects_moved [OF assms(1), of W] unfolding undisturbed_def by (metis empty_iff singletonD)
qed

lemma try_transition_Inr:
  "try_transition tid target a s = Inr (ok, s') \<Longrightarrow>
    ok = False \<and> s' = s \<or> ok = True \<and> (\<exists>r. transition_task tid target a s = Inr (r, s'))"
  by (auto simp: try_transition_def split: sum.splits task_error.splits)

lemma transition_respects:
  assumes "task_db_inv s" and "transition_task tid target a s = Inr (r, s')"
    and "mv_expected a = Some T_RETRY_WAIT \<or> run_terminal target \<and> target \<noteq> T_BLOCKED"
  shows "undisturbed {} W s s'"
proof -
  obtain row where row: "find_task_row tid s = Some row"
      "moved tid (tr_status (tk_record row)) target s s'"
      "target = tr_status (tk_record row) \<or> target \<in> run_transitions (tr_status (tk_record row))"
      "mv_expected a = None \<or> mv_expected a = Some (tr_status (tk_record row))"
    using transition_task_moved [OF assms(1,2)] by blast
  show ?thesis
    by (rule respects_one [OF row(2)]) (use row(3,4) assms(3) terminal_transitions in auto)
qed

lemma try_respects:
  assumes "task_db_inv s" and "try_transition tid target a s = Inr (ok, s')"
    and "run_terminal target \<and> target \<noteq> T_BLOCKED"
  shows "undisturbed {} W s s'"
  using try_transition_Inr [OF assms(2)] assms(1,3)
  by (auto intro: transition_respects respects_frame)

lemma transition_others:
  assumes "task_db_inv s" and "transition_task tid target a s = Inr (r, s')"
  shows "undisturbed {tid} W s s'"
  using transition_task_moved [OF assms] respects_moved by blast

lemma try_respects_others:
  assumes "task_db_inv s" and "try_transition tid target a s = Inr (ok, s')"
  shows "undisturbed {tid} W s s'"
  using try_transition_Inr [OF assms(2)] transition_others [OF assms(1)] respects_frame [OF assms(1)] by blast

text \<open>The task a worker acts on itself stays sealed once it is.\<close>

lemma transition_closed:
  assumes "task_db_inv s" and "transition_task tid target a s = Inr (r, s')" and "sealed tid s"
  shows "sealed tid s'"
  using transition_task_moved [OF assms(1,2)] assms(3) terminal_transitions
  by (auto simp: sealed_def moved_def)

lemma create_respects:
  assumes "task_db_inv s" and "create_task e s = Inr (x, s')"
  shows "undisturbed {te_task_id e} W s s'"
proof (cases "s' = s")
  case True
  with assms(1) show ?thesis by (simp add: respects_frame)
next
  case False
  obtain r where r: "record_transition T_QUEUED (t_clock s) no_args (new_record (te_task_id e)) = Inr r"
    and new: "te_task_id e \<notin> set (map tk_task_id (task_rows s))" "\<not> list_ex (index_conflict e) (task_rows s)"
    and s': "task_rows s' = task_rows s @
                   [\<lparr>tk_task_id = te_task_id e, tk_session_id = te_session_id e,
                     tk_session_key = te_session_key e, tk_source = te_source e,
                     tk_priority = te_priority e, tk_idempotency_key = te_idempotency_key e,
                     tk_status = run_status_value (tr_status r), tk_created_at = te_created_at e,
                     tk_updated_at = t_clock s, tk_envelope = e, tk_record = r, tk_result = None\<rparr>]"
      "lease_rows s' = lease_rows s" "t_clock s' = t_clock s"
    using assms(2) False by (auto simp: create_task_def Let_def log_event_def split: option.splits if_splits)
  have rid: "tr_task_id r = te_task_id e"
    using record_transition_status [OF r] by (simp add: new_record_def)
  have "task_db_inv s'"
    using assms(1) new rid
    by (auto simp: task_db_inv_def s' unique_key_snoc distinct_among_snoc task_row_ok_def has_key_def
        task_key_def index_conflict_def list_ex_iff)
  moreover have "find_task_row k s' = find_task_row k s" if "k \<noteq> te_task_id e" for k
    using that by (simp add: find_task_row_def s' lookup_row_append split: option.split)
  ultimately show ?thesis using s' by (simp add: undisturbed_def live_def sealed_def status_of_def)
qed

lemma count_respects:
  assumes "task_db_inv s" and "count_attempt tid s = Inr s'"
  shows "undisturbed {} W s s'"
proof -
  obtain r s1 where s1: "increment_attempt tid s = Inr (r, s1)" and rows: "task_rows s' = task_rows s1"
      "lease_rows s' = lease_rows s1" "t_clock s' = t_clock s1"
    using assms(2) by (auto simp: count_attempt_def)
  obtain row where row: "find_task_row tid s = Some row"
      "moved tid (tr_status (tk_record row)) (tr_status (tk_record row)) s s1"
      "map_option tk_record (find_task_row tid s1) = Some ((tk_record row)\<lparr>tr_attempt := tr_attempt (tk_record row) + 1\<rparr>)"
    using increment_attempt_moved [OF assms(1) s1] by blast
  have "undisturbed {} W s s1"
    by (rule respects_one [OF row(2)]) (use row(1,3) in \<open>auto simp: live_def\<close>)
  moreover have "undisturbed {} W s1 s'"
    using row(2) rows by (intro respects_frame) (auto simp: moved_def intro: task_db_inv_frame)
  ultimately show ?thesis using respects_trans [of "{}" W s s1 "{}" W s'] by simp
qed

section \<open>Loops, removal and leases\<close>

text \<open>An update of selected rows of which none is live or sealed.\<close>

lemma update_respects:
  assumes "task_db_inv s" and "keeps_key f"
    and "\<And>row. row \<in> set (task_rows s) \<Longrightarrow> task_row_ok row \<Longrightarrow> P row \<Longrightarrow> task_row_ok (f row)"
    and "\<And>row. row \<in> set (task_rows s) \<Longrightarrow> task_row_ok row \<Longrightarrow> P row \<Longrightarrow> run_terminal (tr_status (tk_record row)) \<Longrightarrow>
      tr_status (tk_record row) = T_BLOCKED"
    and "\<And>row until who. row \<in> set (task_rows s) \<Longrightarrow> task_row_ok row \<Longrightarrow> P row \<Longrightarrow>
      tr_status (tk_record row) \<in> {T_LEASED, T_RUNNING} \<Longrightarrow> tr_lease_owner (tk_record row) = Some who \<Longrightarrow>
      tr_lease_expires_at (tk_record row) = Some (At until) \<Longrightarrow> t_clock s \<le> until \<Longrightarrow> W who"
    and "task_rows s' = sql_update P f (task_rows s)" and "lease_rows s' = lease_rows s"
    and "t_clock s' = t_clock s"
  shows "undisturbed {} W s s'"
proof -
  have inv: "task_db_inv s'" by (rule task_db_inv_update [OF assms(1-3,6,7)])
  note find = find_task_row_update [OF assms(6,2)]
  have row: "row \<in> set (task_rows s) \<and> task_row_ok row" if "find_task_row k s = Some row" for k row
    using find_task_row_Some [OF that] assms(1) by (simp add: task_db_inv_def)
  have "sealed k s'" if "sealed k s" for k
    using that find [of k] row [of k] assms(4)
    by (cases "find_task_row k s") (auto simp: sealed_def status_of_def)
  moreover have "live k st who until s'"
    if l: "live k st who until s" "st \<in> {T_LEASED, T_RUNNING}" "t_clock s \<le> until" "\<not> W who" for k st who until
  proof -
    obtain x where x: "find_task_row k s = Some x" "tr_status (tk_record x) = st"
        "tr_lease_owner (tk_record x) = Some who" "tr_lease_expires_at (tk_record x) = Some (At until)"
      using l(1) by (auto simp: live_def)
    have "\<not> P x" using assms(5) [of x who until] row [OF x(1)] x l(2-4) by blast
    with find [of k] x show ?thesis by (simp add: live_def)
  qed
  ultimately show ?thesis using inv assms(8) by (simp add: undisturbed_def)
qed

lemma loop_ready_filter:
  assumes "task_db_inv s" and "\<And>row. row \<in> set (task_rows s) \<Longrightarrow> tk_status row \<in> S \<Longrightarrow> task_row_ok row \<Longrightarrow>
      tr_status (tk_record row) \<in> sts"
  shows "loop_ready (filter (\<lambda>row. tk_status row \<in> S) (task_rows s)) s sts"
  using assms by (auto simp: loop_ready_def task_db_inv_def unique_key_def distinct_map_filter)

lemma recover_respects:
  assumes "task_db_inv s" and "recover_interrupted requeue owner grace s = Inr (ids, s')"
  shows "undisturbed {} (\<lambda>w. case owner of None \<Rightarrow> False | Some i \<Rightarrow> own_lease i w) s s'"
proof -
  let ?rs = "filter (\<lambda>r. tk_status r \<in> {run_status_value T_LEASED, run_status_value T_RUNNING}) (task_rows s)"
  let ?E = "\<lambda>x. recover_eligible owner grace (t_clock s) (tk_record x)"
  have "loop_ready ?rs s {T_LEASED, T_RUNNING}"
    by (rule loop_ready_filter [OF assms(1)]) (auto simp: task_row_ok_def simp del: run_status_value.simps)
  from recover_rows_result [OF this, of requeue owner grace] assms(2)
  have s': "task_rows s' = sql_update (\<lambda>x. x \<in> set ?rs \<and> ?E x)
      (set_record (recovered requeue owner (t_clock s)) (t_clock s)) (task_rows s)"
      "lease_rows s' = lease_rows s" "t_clock s' = t_clock s"
    unfolding recover_interrupted_def by auto
  show ?thesis
  proof (rule update_respects [OF assms(1) _ _ _ _ s'])
    fix row until who
    assume "row \<in> set ?rs \<and> ?E row" and "tr_lease_owner (tk_record row) = Some who"
      and "tr_lease_expires_at (tk_record row) = Some (At until)" and "t_clock s \<le> until"
    then show "case owner of None \<Rightarrow> False | Some i \<Rightarrow> own_lease i who"
      by (auto simp: recover_eligible_def lease_over_def split: option.splits list.splits if_splits)
  qed (auto simp: task_row_ok_def set_record_def recovered_def simp del: run_status_value.simps)
qed

lemma claim_respects:
  assumes "task_db_inv s" and "claim_retry_wait owner grace s = Inr (ids, s')"
  shows "undisturbed {} W s s'"
proof -
  let ?rs = "filter (\<lambda>r. tk_status r \<in> {run_status_value T_RETRY_WAIT}) (task_rows s)"
  have ready: "loop_ready ?rs s {T_RETRY_WAIT}"
    by (rule loop_ready_filter [OF assms(1)]) (auto simp: task_row_ok_def simp del: run_status_value.simps)
  have waits: "tr_status (tk_record row) = T_RETRY_WAIT" if "row \<in> set ?rs" for row
    using ready that by (simp add: loop_ready_def)
  obtain P f where s': "task_rows s' = sql_update (\<lambda>x. x \<in> set ?rs \<and> P x) f (task_rows s)"
      "lease_rows s' = lease_rows s" "t_clock s' = t_clock s" and f: "f = set_record (\<lambda>r. claim_mark owner (queued (t_clock s) r)) (t_clock s)"
    using claim_rows_result [OF ready, of owner grace] assms(2) unfolding claim_retry_wait_def by auto
  show ?thesis
    by (rule update_respects [OF assms(1) _ _ _ _ s']) (use waits in \<open>auto simp: task_row_ok_def set_record_def f\<close>)
qed

lemma requeue_respects:
  assumes "task_db_inv s" and "requeue_missing_context sources owner s = Inr (ids, s')"
  shows "undisturbed {} W s s'"
proof -
  let ?rs = "filter (\<lambda>r. tk_status r \<in> {run_status_value T_BLOCKED}) (task_rows s)"
  have ready: "loop_ready ?rs s {T_BLOCKED}"
    by (rule loop_ready_filter [OF assms(1)]) (auto simp: task_row_ok_def simp del: run_status_value.simps)
  have blocked: "tr_status (tk_record row) = T_BLOCKED" if "row \<in> set ?rs" for row
    using ready that by (simp add: loop_ready_def)
  obtain P f where s': "task_rows s' = sql_update (\<lambda>x. x \<in> set ?rs \<and> P x) f (task_rows s)"
      "lease_rows s' = lease_rows s" "t_clock s' = t_clock s"
    and f: "f = (\<lambda>x. (set_record (\<lambda>r. claim_mark owner (queued (t_clock s) r)) (t_clock s) x)\<lparr>tk_result := None\<rparr>)"
    using requeue_rows_result [OF ready, of sources owner] assms(2) unfolding requeue_missing_context_def Let_def by auto
  show ?thesis
    by (rule update_respects [OF assms(1) _ _ _ _ s'])
      (use blocked in \<open>auto simp: task_row_ok_def set_record_def f keeps_key_def\<close>)
qed

lemma release_respects:
  assumes "task_db_inv s" and "release_leases (Some i) s = (n, s')" and "i \<noteq> []"
  shows "undisturbed {} (\<lambda>w. own_lease i w \<or> w = []) s s'"
proof -
  have s': "task_rows s' = sql_update (releases (Some i))
        (\<lambda>row. row\<lparr>tk_record := (tk_record row)\<lparr>tr_lease_expires_at := Some (At (t_clock s))\<rparr>,
                   tk_updated_at := t_clock s\<rparr>) (task_rows s)"
      "lease_rows s' = lease_rows s" "t_clock s' = t_clock s"
    using assms(2) by (auto simp: release_leases_def)
  have st: "tr_status (tk_record row) \<in> {T_LEASED, T_RUNNING}" if "releases (Some i) row" "task_row_ok row" for row
    using that by (auto simp: releases_def task_row_ok_def simp del: run_status_value.simps)
  have own: "own_lease i who \<or> who = []" if "releases (Some i) row" "tr_lease_owner (tk_record row) = Some who" for row who
    using that assms(3) by (auto simp: releases_def split: list.splits)
  show ?thesis
    by (rule update_respects [OF assms(1) _ _ _ _ s']) (use st own in \<open>fastforce simp: task_row_ok_def\<close>)+
qed

lemma delete_respects:
  assumes "task_db_inv s" and "delete_terminal_task tid s = (ok, s')"
  shows "undisturbed {} W s s'"
proof (cases "s' = s")
  case True
  with assms(1) show ?thesis by (simp add: respects_frame)
next
  case False
  obtain row where row: "find_task_row tid s = Some row"
    and dead_st: "tk_status row \<in> run_status_value ` {T_COMPLETED, T_FAILED, T_BLOCKED, T_CANCELLED, T_TIMED_OUT}"
    and s': "task_rows s' = sql_delete (\<lambda>r. tk_task_id r = tid) (task_rows s)" "lease_rows s' = lease_rows s"
      "t_clock s' = t_clock s"
    using assms(2) False by (auto simp: delete_terminal_task_def split: option.splits if_splits)
  have ok: "task_row_ok row" using find_task_row_ok [OF assms(1) row] by simp
  have dead: "run_terminal (tr_status (tk_record row))"
    using dead_st ok by (auto simp: task_row_ok_def simp del: run_status_value.simps)
  have inv: "task_db_inv s'"
    using assms(1) s' by (auto simp: task_db_inv_def unique_key_delete distinct_among_delete set_sql_delete)
  have keep: "find_task_row k s' = (if k = tid then None else find_task_row k s)" for k
    by (simp add: find_task_row_def s' lookup_row_delete)
  have "\<not> live tid st who until s" if "st \<in> {T_LEASED, T_RUNNING}" for st who until
    using row dead that by (auto simp: live_def)
  then show ?thesis using inv s'(3) keep by (auto simp: undisturbed_def sealed_def status_of_def live_def)
qed

lemma delivery_respects: "task_db_inv s \<Longrightarrow> undisturbed {} W s (save_channel_delivery did tid ch mid st ctx s)"
  by (rule respects_frame) (auto simp: save_channel_delivery_def task_db_inv_def)

lemma lead_respects:
  assumes "task_db_inv s" and "try_acquire_lease name who ttl s = (ok, s')"
  shows "undisturbed {} W s s'"
proof (rule respects_frame)
  have "unique_key ll_name (lease_rows s')"
    using assms by (auto simp: try_acquire_lease_def Let_def task_db_inv_def unique_key_snoc unique_key_update split: if_splits)
  then show "task_db_inv s'" using assms by (auto simp: try_acquire_lease_def Let_def task_db_inv_def split: if_splits)
qed (use assms(2) in \<open>auto simp: try_acquire_lease_def Let_def split: if_splits\<close>)

lemma retry_respects:
  assumes "task_db_inv s" and "retry_after tid s = Inr s'"
  shows "undisturbed {} W s s'"
proof (cases "s' = s")
  case True
  with assms(1) show ?thesis by (simp add: respects_frame)
next
  case False
  obtain r s1 where s1: "transition_task tid T_QUEUED (plain\<lparr>mv_expected := Some T_RETRY_WAIT\<rparr>) s = Inr (r, s1)"
    and rest: "task_rows s' = task_rows s1" "lease_rows s' = lease_rows s1" "t_clock s' = t_clock s1"
    using assms(2) False by (auto simp: retry_after_def split: if_splits sum.splits task_error.splits)
  have "undisturbed {} W s s1" by (rule transition_respects [OF assms(1) s1]) simp
  moreover from this have "undisturbed {} W s1 s'"
    using rest by (intro respects_frame) (auto simp: undisturbed_def intro: task_db_inv_frame)
  ultimately show ?thesis using respects_trans [of "{}" W s s1 "{}" W s'] by simp
qed

lemma cancel_respects:
  assumes "task_db_inv s" and "cancel_task tid reason s = Inr s'"
  shows "undisturbed {} W s s'"
proof -
  obtain r s1 where s1: "request_cancel tid reason s = Inr (r, s1)"
    and s': "s' = s1 \<or> (\<exists>ok. settle_result tid (plain_result tid T_CANCELLED reason ''TASK_CANCELLED'' reason (t_clock s1)) s1
      = Inr (ok, s'))"
    using assms(2) by (auto simp: cancel_task_def split: if_splits)
  obtain row where row: "find_task_row tid s = Some row" "moved tid (tr_status (tk_record row)) (tr_status r) s s1"
      "tr_status r = (if cancellable (tr_status (tk_record row)) then T_CANCELLED else tr_status (tk_record row))"
      "\<not> cancellable (tr_status (tk_record row)) \<Longrightarrow> r = (tk_record row)\<lparr>tr_cancel_requested := True\<rparr>"
      "map_option tk_record (find_task_row tid s1) = Some r"
    using request_cancel_moved [OF assms(1) s1] by blast
  have one: "undisturbed {} W s s1"
    by (rule respects_one [OF row(2)]) (use row(1,3-5) in \<open>auto simp: live_def cancellable_def split: if_splits\<close>)
  moreover have "undisturbed {} W s1 s'"
    using s' one
    by (auto simp: settle_result_def plain_result_def undisturbed_def [of _ _ s] intro: respects_frame try_respects)
  ultimately show ?thesis using respects_trans [of "{}" W s s1 "{}" W s'] by simp
qed

section \<open>Steps of the cluster\<close>

inductive_cases cluster_stepE [consumes 1, case_names Submit Lease Start Leave Count Finish Time_Out Lost
  Wait_Retry Retry Claim Requeue Recover Drop Cancel Delete Deliver Lead Stop Crash Tick]:
  "cluster_step c c'"

lemma held_respects:
  assumes "held s r" and "undisturbed B W s s'" and "ex_task r \<notin> B" and "in_time (t_clock s) r"
    and "\<not> W (holder (ex_inst r) (ex_idx r))"
  shows "held s' r"
  using assms unfolding held_def undisturbed_def in_time_def by auto

lemma cluster_inv_env:
  assumes "cluster_inv c" and "undisturbed B W (c_db c) s'"
    and "\<And>r. r \<in> set (c_runs c) \<Longrightarrow> ex_task r \<notin> B \<and> \<not> W (holder (ex_inst r) (ex_idx r))"
  shows "cluster_inv (c\<lparr>c_db := s'\<rparr>)"
  using assms held_respects [OF _ assms(2)] by (auto simp: cluster_inv_def undisturbed_def)

lemma cluster_inv_fewer:
  assumes "cluster_inv c" and "distinct (map ex_task rs)" and "set rs \<subseteq> set (c_runs c)"
  shows "cluster_inv (c\<lparr>c_runs := rs\<rparr>)"
  using assms by (auto simp: cluster_inv_def)

lemma distinct_map_remove1: "distinct (map f xs) \<Longrightarrow> distinct (map f (remove1 x xs))"
  by (auto simp: distinct_map distinct_remove1 set_remove1_eq inj_on_diff)

lemma distinct_map_remove1_eq:
  "distinct (map f xs) \<Longrightarrow> x \<in> set xs \<Longrightarrow> f x \<notin> f ` set (remove1 x xs)"
  by (auto simp: distinct_map set_remove1_eq inj_on_def)

text \<open>One execution \<open>r\<close> acts: it becomes \<open>r'\<close>, or ends.\<close>

lemma cluster_inv_own:
  assumes "cluster_inv c" and "r \<in> set (c_runs c)" and "undisturbed {ex_task r} (\<lambda>_. False) (c_db c) s'"
    and "set new \<subseteq> {r'}" and "length new \<le> 1" and "ex_task r' = ex_task r"
    and "new \<noteq> [] \<Longrightarrow> held s' r' \<and> in_time (t_clock s') r' \<and> ex_inst r' = ex_inst r"
  shows "cluster_inv (c\<lparr>c_db := s', c_runs := new @ remove1 r (c_runs c)\<rparr>)"
proof -
  have inv: "task_db_inv (c_db c)" "distinct (map ex_task (c_runs c))"
    and runs: "\<And>x. x \<in> set (c_runs c) \<Longrightarrow> held (c_db c) x \<and> in_time (t_clock (c_db c)) x \<and> no_dash (ex_inst x)"
    using assms(1) by (simp_all add: cluster_inv_def)
  have other: "ex_task x \<noteq> ex_task r" if "x \<in> set (remove1 r (c_runs c))" for x
    using distinct_map_remove1_eq [OF inv(2) assms(2)] that by (metis imageI)
  have new: "new = [] \<or> new = [r']" using assms(4,5) by (cases new) auto
  have "distinct (map ex_task (new @ remove1 r (c_runs c)))"
    using new distinct_map_remove1 [OF inv(2)] distinct_map_remove1_eq [OF inv(2) assms(2)] assms(6) by auto
  moreover have "held s' x \<and> in_time (t_clock s') x \<and> no_dash (ex_inst x)" if x: "x \<in> set (remove1 r (c_runs c))" for x
    using held_respects [OF _ assms(3), of x] other [OF x] runs [of x] notin_set_remove1 [of x "c_runs c" r] x assms(3)
    by (auto simp: undisturbed_def)
  ultimately show ?thesis
    using new assms(3,7) runs [OF assms(2)] by (auto simp: cluster_inv_def undisturbed_def)
qed

lemma take_lease_result:
  assumes "task_db_inv s" and "take_lease inst idx ttl tid s = Inr (True, s')"
  shows "undisturbed {tid} W s s' \<and> live tid T_LEASED (holder inst idx) (t_clock s + max 1000 ttl) s' \<and>
    status_of tid s = Some T_QUEUED"
proof -
  obtain r where t: "transition_task tid T_LEASED (plain\<lparr>mv_lease_owner := Some (holder inst idx),
        mv_lease_expires_at := Some (At (t_clock s + max 1000 ttl)), mv_expected := Some T_QUEUED\<rparr>) s = Inr (r, s')"
    using try_transition_Inr [OF assms(2) [unfolded take_lease_def]] by auto
  obtain row row' where row: "find_task_row tid s = Some row" "moved tid (tr_status (tk_record row)) T_LEASED s s'"
      "tr_status (tk_record row) = T_QUEUED"
      "moved_record T_LEASED (plain\<lparr>mv_lease_owner := Some (holder inst idx),
        mv_lease_expires_at := Some (At (t_clock s + max 1000 ttl)), mv_expected := Some T_QUEUED\<rparr>)
        (t_clock s) (tk_record row) = Inr r"
      "find_task_row tid s' = Some row'" "tk_record row' = r"
    using transition_task_moved [OF assms(1) t] by auto
  have "tr_status r = T_LEASED \<and> tr_lease_owner r = Some (holder inst idx) \<and>
      tr_lease_expires_at r = Some (At (t_clock s + max 1000 ttl))"
    using row(3,4) by (auto simp: moved_record_def plain_def record_transition_def Let_def str_or_default_def)
  then show ?thesis
    using transition_others [OF assms(1) t] row by (auto simp: live_def status_of_def)
qed

lemma start_run_result:
  assumes "task_db_inv s" and "start_run tid s = Inr (True, s')" and "live tid T_LEASED who until s"
  shows "live tid T_RUNNING who until s'"
proof -
  obtain r where t: "transition_task tid T_RUNNING plain s = Inr (r, s')"
    using try_transition_Inr [OF assms(2) [unfolded start_run_def]] by auto
  obtain row row' where row: "find_task_row tid s = Some row"
      "moved_record T_RUNNING plain (t_clock s) (tk_record row) = Inr r"
      "find_task_row tid s' = Some row'" "tk_record row' = r"
    using transition_task_moved [OF assms(1) t] by auto
  have "tr_status (tk_record row) = T_LEASED" "tr_lease_owner (tk_record row) = Some who"
      "tr_lease_expires_at (tk_record row) = Some (At until)"
    using assms(3) row(1) by (auto simp: live_def)
  with row(2) have "tr_status r = T_RUNNING \<and> tr_lease_owner r = Some who \<and> tr_lease_expires_at r = Some (At until)"
    by (auto simp: moved_record_def plain_def record_transition_def Let_def)
  with row show ?thesis by (auto simp: live_def)
qed

text \<open>A task that timed out stays closed.\<close>

lemma time_out_sealed:
  assumes "task_db_inv s" and "settle_result tid res s = Inr (ok, s')" and "rs_status res = T_TIMED_OUT"
    and "sealed tid s \<or> live tid T_RUNNING who until s"
  shows "sealed tid s'"
proof -
  note tr = try_transition_Inr [OF assms(2) [unfolded settle_result_def assms(3)]]
  show ?thesis
  proof (cases "sealed tid s")
    case True
    with tr transition_closed [OF assms(1)] show ?thesis by blast
  next
    case False
    with assms(4) obtain row where row: "find_task_row tid s = Some row" "tr_status (tk_record row) = T_RUNNING"
      by (auto simp: live_def)
    let ?a = "plain\<lparr>mv_error_code := rs_error_code res, mv_error_message := rs_error_message res, mv_result := Some res\<rparr>"
    have "\<exists>r s1. transition_task tid T_TIMED_OUT ?a s = Inr (r, s1)"
      using row by (auto simp: transition_task_def plain_def moved_record_def record_transition_def Let_def)
    then obtain r where "transition_task tid T_TIMED_OUT ?a s = Inr (r, s')"
      using assms(2,3) by (auto simp: settle_result_def try_transition_def)
    from transition_task_moved [OF assms(1) this] show ?thesis by (auto simp: moved_def sealed_def)
  qed
qed

lemma moved_record_error: "moved_record target a now r = Inl e \<Longrightarrow> e = IllegalTransition"
  by (auto simp: moved_record_def record_transition_def Let_def split: if_splits sum.splits)

lemma settle_error_sealed:
  assumes "settle_result tid res s = Inl err"
  shows "sealed tid s"
proof (cases "find_task_row tid s")
  case None
  then show ?thesis by (simp add: sealed_def status_of_def)
next
  case (Some row)
  with assms show ?thesis
    by (auto simp: settle_result_def try_transition_def transition_task_def plain_def bindE_eq_Inl
        split: sum.splits task_error.splits if_splits dest: moved_record_error)
qed

theorem cluster_step_inv:
  assumes "cluster_step c c'" and "cluster_inv c"
  shows "cluster_inv c'"
proof -
  have db: "task_db_inv (c_db c)" and dist: "distinct (map ex_task (c_runs c))"
    and runs: "\<And>r. r \<in> set (c_runs c) \<Longrightarrow> held (c_db c) r \<and> in_time (t_clock (c_db c)) r \<and> no_dash (ex_inst r)"
    using assms(2) by (simp_all add: cluster_inv_def)
  note env = cluster_inv_env [OF assms(2), where B = "{}" and W = "\<lambda>_. False"]
  note own = cluster_inv_own [OF assms(2)]
  show ?thesis
    using assms(1)
  proof (cases rule: cluster_stepE)
    case (Submit e x s')
    have "cluster_inv (c\<lparr>c_db := s'\<rparr>)"
      by (rule cluster_inv_env [OF assms(2) create_respects [OF db Submit(2), where W = "\<lambda>_. False"]])
        (use Submit(3) in \<open>auto simp: image_iff\<close>)
    with Submit(1) show ?thesis by simp
  next
    case (Lease inst idx ttl tid s')
    note t = take_lease_result [OF db Lease(2), where W = "\<lambda>_. False"]
    have new: "ex_task r \<noteq> tid" if "r \<in> set (c_runs c)" for r
      using runs [OF that] t by (auto simp: held_def sealed_def live_def status_of_def)
    have "cluster_inv (c\<lparr>c_db := s'\<rparr>)" by (rule cluster_inv_env [OF assms(2)]) (use t new in auto)
    moreover have "held s' \<lparr>ex_inst = inst, ex_idx = idx, ex_task = tid, ex_phase = Leased,
        ex_until = t_clock (c_db c) + max 1000 ttl\<rparr>" using t by (simp add: held_def)
    ultimately show ?thesis
      using t new Lease(1,3) by (auto simp: cluster_inv_def in_time_def undisturbed_def)
  next
    case (Start r s')
    have "held s' (r\<lparr>ex_phase := Running\<rparr>)"
      using runs [OF Start(2)] start_run_result [OF db Start(4)] Start(3)
        try_transition_Inr [OF Start(4) [unfolded start_run_def]] transition_closed [OF db]
      by (auto simp: held_def)
    then show ?thesis
      using own [OF Start(2) try_respects_others [OF db Start(4) [unfolded start_run_def]],
          of "[r\<lparr>ex_phase := Running\<rparr>]" "r\<lparr>ex_phase := Running\<rparr>"] runs [OF Start(2)] Start(1,3)
        try_respects_others [OF db Start(4) [unfolded start_run_def]]
      by (auto simp: in_time_def undisturbed_def)
  next
    case (Leave r)
    then show ?thesis
      using cluster_inv_fewer [OF assms(2) distinct_map_remove1 [OF dist] set_remove1_subset] by simp
  next
    case (Count tid s')
    then show ?thesis using env [OF count_respects [OF db]] by simp
  next
    case (Finish r res ok s')
    then show ?thesis
      using own [OF Finish(2) try_respects_others [OF db Finish(5) [unfolded settle_result_def]], of "[]" r] by simp
  next
    case (Time_Out r res ok s')
    have "sealed (ex_task r) s'"
      by (rule time_out_sealed [OF db Time_Out(5,4)]) (use runs [OF Time_Out(2)] Time_Out(3) in \<open>auto simp: held_def\<close>)
    then show ?thesis
      using own [OF Time_Out(2) try_respects_others [OF db Time_Out(5) [unfolded settle_result_def]],
          of "[r\<lparr>ex_phase := Overdue\<rparr>]" "r\<lparr>ex_phase := Overdue\<rparr>"] Time_Out(1)
      by (simp add: held_def in_time_def)
  next
    case (Lost r res err)
    have "sealed (ex_task r) (c_db c)"
      using Lost(5) by (rule settle_error_sealed)
    then show ?thesis
      using own [OF Lost(2) respects_frame [OF db refl refl], of "[r\<lparr>ex_phase := Overdue\<rparr>]" "r\<lparr>ex_phase := Overdue\<rparr>"]
        Lost(1) by (simp add: held_def in_time_def)
  next
    case (Wait_Retry r res x s')
    then show ?thesis
      using own [OF Wait_Retry(2) transition_others [OF db Wait_Retry(4) [unfolded retry_later_def]], of "[]" r] by simp
  next
    case (Retry tid s')
    then show ?thesis using env [OF retry_respects [OF db]] by simp
  next
    case (Claim inst grace tids s')
    then show ?thesis using env [OF claim_respects [OF db]] by simp
  next
    case (Requeue sources inst tids s')
    then show ?thesis using env [OF requeue_respects [OF db]] by simp
  next
    case (Recover requeue inst grace tids s')
    have "\<not> own_lease inst (holder (ex_inst r) (ex_idx r))" if "r \<in> set (c_runs c)" for r
      using own_holder [OF Recover(3)] runs [OF that] Recover(4) that by (auto simp: idle_def)
    then show ?thesis
      using cluster_inv_env [OF assms(2) recover_respects [OF db Recover(2)]] Recover(1) by simp
  next
    case (Drop tid ok s')
    then show ?thesis using env [OF try_respects [OF db Drop(2) [unfolded drop_cancelled_def]]] by simp
  next
    case (Cancel tid reason s')
    then show ?thesis using env [OF cancel_respects [OF db]] by simp
  next
    case (Delete tid ok s')
    then show ?thesis using env [OF delete_respects [OF db]] by simp
  next
    case (Deliver did tid ch mid st ctx)
    then show ?thesis using env [OF delivery_respects [OF db]] by simp
  next
    case (Lead name who ttl ok s')
    then show ?thesis using env [OF lead_respects [OF db]] by simp
  next
    case (Stop inst n s')
    let ?c = "c\<lparr>c_runs := filter (\<lambda>r. ex_inst r \<noteq> inst) (c_runs c)\<rparr>"
    have und: "undisturbed {} (\<lambda>w. own_lease inst w \<or> w = []) (c_db ?c) s'"
      using release_respects [OF db Stop(3)] Stop(2) by (simp add: no_dash_def)
    have "cluster_inv ?c"
      by (rule cluster_inv_fewer [OF assms(2)]) (use dist in \<open>auto simp: distinct_map_filter\<close>)
    moreover have "\<not> own_lease inst (holder (ex_inst r) (ex_idx r))" if "r \<in> set (c_runs ?c)" for r
      using own_holder [OF Stop(2)] runs [of r] that by auto
    ultimately have "cluster_inv (?c\<lparr>c_db := s'\<rparr>)"
      by (intro cluster_inv_env [OF _ und]) auto
    with Stop(1) show ?thesis by (simp add: cluster_inv_def)
  next
    case (Crash inst)
    then show ?thesis
      using cluster_inv_fewer [OF assms(2), of "filter (\<lambda>r. ex_inst r \<noteq> inst) (c_runs c)"] dist
      by (auto simp: distinct_map_filter)
  next
    case (Tick d)
    then show ?thesis
      using assms(2) by (auto simp: cluster_inv_def task_db_inv_def held_def live_def sealed_def status_of_def find_task_row_def)
  qed
qed

lemma cluster_reachable_inv: "cluster_reachable c \<Longrightarrow> cluster_inv c"
proof (induction rule: cluster_reachable.induct)
  case Boot
  show ?case by (simp add: cluster_inv_def empty_task_db_def task_db_inv_def)
next
  case (Next c c')
  from cluster_step_inv [OF Next(2,3)] show ?case .
qed

end
