(* ===== verification/Task_Props.thy ===== *)
theory Task_Props
  imports Task_Safe
begin

text \<open>
  Properties of the task runtime: one execution of a task at a time over all instances, what
  recovery claims, and the terms of the leader lease.
\<close>

section \<open>One execution at a time\<close>


definition demo_envelope :: envelope where
  "demo_envelope = \<lparr>te_task_id = ''t1'', te_session_id = ''s'', te_session_key = ''k'', te_source = ''user'',
    te_prompt = ''hi'', te_created_at = 0, te_plan_id = None, te_plan_task_id = None,
    te_parent_task_id = None, te_assignee = ''root'', te_priority = 0, te_timeout_seconds = 1200,
    te_max_steps = 100, te_idempotency_key = Some ''op'', te_context_refs = [], te_metadata = [],
    te_budget = strictest []\<rparr>"

definition demo_submitted :: task_db where
  "demo_submitted = snd (projr (create_task demo_envelope empty_task_db))"

definition demo_leased :: task_db where
  "demo_leased = snd (projr (take_lease ''aa'' 0 5000 ''t1'' demo_submitted))"

definition demo_run :: execution where
  "demo_run = \<lparr>ex_inst = ''aa'', ex_idx = 0, ex_task = ''t1'', ex_phase = Leased, ex_until = 5000\<rparr>"

definition demo_cluster :: cluster where
  "demo_cluster = \<lparr>c_db = demo_leased, c_runs = [demo_run]\<rparr>"

lemma demo_submit:
  "create_task demo_envelope empty_task_db = Inr (fst (projr (create_task demo_envelope empty_task_db)), demo_submitted)"
  by (simp add: demo_submitted_def create_task_def empty_task_db_def demo_envelope_def record_transition_def
      new_record_def no_args_def keep_some_def Let_def)

lemma demo_lease: "take_lease ''aa'' 0 5000 ''t1'' demo_submitted = Inr (True, demo_leased)"
  by (simp add: demo_leased_def demo_submitted_def create_task_def empty_task_db_def demo_envelope_def
      record_transition_def new_record_def no_args_def keep_some_def take_lease_def try_transition_def
      transition_task_def find_task_row_def moved_record_def plain_def log_event_def Let_def)

lemma demo_cluster_reachable: "cluster_reachable demo_cluster"
proof -
  have one: "cluster_reachable \<lparr>c_db = demo_submitted, c_runs = []\<rparr>"
    using Next [OF Boot Submit [of demo_envelope "\<lparr>c_db = empty_task_db, c_runs = []\<rparr>" _ demo_submitted]] demo_submit by simp
  have "t_clock demo_submitted = 0"
    by (simp add: demo_submitted_def create_task_def empty_task_db_def demo_envelope_def
        record_transition_def new_record_def no_args_def log_event_def Let_def)
  then show ?thesis
    using Next [OF one Lease [of "''aa''" 0 5000 "''t1''" "\<lparr>c_db = demo_submitted, c_runs = []\<rparr>" demo_leased]]
      demo_lease by (simp add: demo_cluster_def demo_run_def no_dash_def)
qed


section \<open>Recovery\<close>

definition abandoned :: "string option \<Rightarrow> nat \<Rightarrow> task_db \<Rightarrow> task_row list" where
  "abandoned owner grace s = filter (\<lambda>row. tr_status (tk_record row) \<in> {T_LEASED, T_RUNNING} \<and>
    recover_eligible owner grace (t_clock s) (tk_record row)) (task_rows s)"

lemma recover_result:
  assumes "task_db_inv s"
  shows "\<exists>s'. recover_interrupted requeue owner grace s = Inr (map tk_task_id (abandoned owner grace s), s') \<and>
    task_rows s' = sql_update (\<lambda>x. x \<in> set (abandoned owner grace s))
      (set_record (recovered requeue owner (t_clock s)) (t_clock s)) (task_rows s) \<and>
    lease_rows s' = lease_rows s \<and> t_clock s' = t_clock s"
proof -
  let ?S = "{run_status_value T_LEASED, run_status_value T_RUNNING}"
  have st: "tk_status row \<in> ?S \<longleftrightarrow> tr_status (tk_record row) \<in> {T_LEASED, T_RUNNING}" if "row \<in> set (task_rows s)" for row
    using assms that by (auto simp: task_db_inv_def task_row_ok_def simp del: run_status_value.simps)
  have ready: "loop_ready (filter (\<lambda>r. tk_status r \<in> ?S) (task_rows s)) s {T_LEASED, T_RUNNING}"
    by (rule loop_ready_filter [OF assms]) (use st in auto)
  have ids: "filter (\<lambda>x. recover_eligible owner grace (t_clock s) (tk_record x))
      (filter (\<lambda>r. tk_status r \<in> ?S) (task_rows s)) = abandoned owner grace s"
    unfolding abandoned_def filter_filter using st by (intro filter_cong) auto
  have upd: "sql_update (\<lambda>x. x \<in> set (filter (\<lambda>r. tk_status r \<in> ?S) (task_rows s)) \<and>
      recover_eligible owner grace (t_clock s) (tk_record x)) f (task_rows s) =
      sql_update (\<lambda>x. x \<in> set (abandoned owner grace s)) f (task_rows s)" for f
    using st by (auto simp: sql_update_def abandoned_def)
  show ?thesis
    using recover_rows_result [OF ready, of requeue owner grace]
    unfolding recover_interrupted_def ids upd by blast
qed

lemma recovered_status [simp]:
  "tr_status (recovered requeue owner now r) = (if requeue then T_QUEUED else T_INTERRUPTED)"
  by (simp add: recovered_def)

lemma recover_nothing:
  "(\<And>row. row \<in> set rows \<Longrightarrow> \<not> recover_eligible owner grace (t_clock s) (tk_record row)) \<Longrightarrow>
   recover_task_rows requeue owner grace rows s = Inr ([], s)"
  by (induction rows) auto

lemma abandoned_after:
  assumes "task_db_inv s" and "t_clock s' = t_clock s" and "task_rows s' = sql_update (\<lambda>x. x \<in> set (abandoned owner grace s))
      (set_record (recovered requeue owner (t_clock s)) (t_clock s)) (task_rows s)"
  shows "recover_interrupted requeue owner grace s' = Inr ([], s')"
  unfolding recover_interrupted_def
proof (rule recover_nothing)
  fix row
  assume row: "row \<in> set (filter (\<lambda>r. tk_status r \<in> {run_status_value T_LEASED, run_status_value T_RUNNING}) (task_rows s'))"
  then have "row \<in> set (sql_update (\<lambda>x. x \<in> set (abandoned owner grace s))
      (set_record (recovered requeue owner (t_clock s)) (t_clock s)) (task_rows s))" using assms(3) by simp
  then show "\<not> recover_eligible owner grace (t_clock s') (tk_record row)"
  proof (rule sql_updateE)
    fix x
    assume "row = set_record (recovered requeue owner (t_clock s)) (t_clock s) x"
    with row show ?thesis by (auto simp: set_record_def simp del: run_status_value.simps split: if_splits)
  next
    assume old: "row \<in> set (task_rows s)" "row \<notin> set (abandoned owner grace s)"
    with assms(1) have "task_row_ok row" by (simp add: task_db_inv_def)
    with old row assms(2) show ?thesis
      by (auto simp: abandoned_def task_row_ok_def simp del: run_status_value.simps)
  qed
qed

text \<open>
  C22: Recovery after a restart never fails. It returns exactly the leased and running tasks
  whose lease this instance may take over, leaves every other task as it is, puts the
  returned ones back into the queue (or marks them interrupted), and running it again at once
  finds nothing.
\<close>

theorem recovery_claims_exactly:
  assumes "task_db_inv s"
  shows "\<exists>s'. recover_interrupted requeue owner grace s = Inr (map tk_task_id (abandoned owner grace s), s') \<and>
    (\<forall>k. k \<notin> tk_task_id ` set (abandoned owner grace s) \<longrightarrow> find_task_row k s' = find_task_row k s) \<and>
    (\<forall>k \<in> tk_task_id ` set (abandoned owner grace s).
       status_of k s' = Some (if requeue then T_QUEUED else T_INTERRUPTED)) \<and>
    recover_interrupted requeue owner grace s' = Inr ([], s')"
proof -
  obtain s' where s': "recover_interrupted requeue owner grace s = Inr (map tk_task_id (abandoned owner grace s), s')"
      "task_rows s' = sql_update (\<lambda>x. x \<in> set (abandoned owner grace s))
         (set_record (recovered requeue owner (t_clock s)) (t_clock s)) (task_rows s)" "t_clock s' = t_clock s"
    using recover_result [OF assms] by blast
  note find = find_task_row_update [OF s'(2) keeps_key_set_record]
  have "find_task_row k s' = find_task_row k s" if "k \<notin> tk_task_id ` set (abandoned owner grace s)" for k
    using that find_task_row_Some [of k s] by (cases "find_task_row k s") (auto simp: find)
  moreover have "status_of (tk_task_id row) s' = Some (if requeue then T_QUEUED else T_INTERRUPTED)"
    if row: "row \<in> set (abandoned owner grace s)" for row
  proof -
    have "row \<in> set (task_rows s)" using row by (simp add: abandoned_def)
    with assms have "find_task_row (tk_task_id row) s = Some row"
      by (auto simp: find_task_row_def task_db_inv_def intro: lookup_row_unique)
    with row show ?thesis by (simp add: find status_of_def set_record_def)
  qed
  ultimately show ?thesis using s'(1) abandoned_after [OF assms s'(3,2)] by (intro exI [of _ s']) auto
qed

definition demo_later :: task_db where
  "demo_later = demo_leased\<lparr>t_clock := 6000\<rparr>"

lemma demo_leased_inv: "task_db_inv demo_later"
  using cluster_reachable_inv [OF demo_cluster_reachable]
  by (simp add: cluster_inv_def demo_cluster_def demo_later_def task_db_inv_def)

theorem recovery_claims_exactly_witness:
  "map tk_task_id (abandoned (Some ''bb'') 0 demo_later) = [''t1''] \<and>
   (\<exists>s'. recover_interrupted False (Some ''bb'') 0 demo_later = Inr ([''t1''], s') \<and>
     status_of ''t1'' s' = Some T_INTERRUPTED)"
proof -
  have ab: "map tk_task_id (abandoned (Some ''bb'') 0 demo_later) = [''t1'']" by code_simp
  with recovery_claims_exactly [OF demo_leased_inv, of False "Some ''bb''" 0] show ?thesis
    by (metis list.set_intros(1) list.set_map)
qed

section \<open>The leader lease\<close>

definition own_or_over :: "string \<Rightarrow> nat \<Rightarrow> lease_row \<Rightarrow> bool" where
  "own_or_over who now l \<longleftrightarrow> ll_holder l = who \<or> ll_expires_at l < now"

lemma try_acquire_some:
  assumes "task_db_inv s" and "get_lease name s = Some l" and "try_acquire_lease name who ttl s = (ok, s')"
  shows "(ok \<longleftrightarrow> own_or_over who (t_clock s) l) \<and> t_clock s' = t_clock s \<and>
    get_lease name s' = Some (if ok then l\<lparr>ll_holder := who, ll_expires_at := t_clock s + max 1000 ttl,
      ll_updated_at := t_clock s\<rparr> else l)"
proof -
  have uniq: "unique_key ll_name (lease_rows s)" using assms(1) by (simp add: task_db_inv_def)
  have l: "l \<in> set (lease_rows s)" "ll_name l = name"
    using assms(2) lookup_row_Some [of ll_name name "lease_rows s" l] by (simp_all add: get_lease_def)
  then have known: "name \<in> set (map ll_name (lease_rows s))" by auto
  have free: "lease_free name who (t_clock s) x \<longleftrightarrow> x = l \<and> own_or_over who (t_clock s) l" if "x \<in> set (lease_rows s)" for x
    using that l unique_key_eq [OF uniq that l(1)] by (auto simp: lease_free_def own_or_over_def)
  have "sql_count (lease_free name who (t_clock s)) (lease_rows s) \<le> 1"
    by (rule le_trans [OF sql_count_mono sql_count_unique_le_1 [OF uniq, of name]]) (simp add: lease_free_def)
  moreover have "sql_count (lease_free name who (t_clock s)) (lease_rows s) = 0 \<longleftrightarrow> \<not> own_or_over who (t_clock s) l"
    using free l(1) by (auto simp: sql_count_0)
  moreover have "ok \<longleftrightarrow> sql_count (lease_free name who (t_clock s)) (lease_rows s) = 1"
    using assms(3) known by (simp add: try_acquire_lease_def Let_def del: set_map sql_count_0)
  ultimately have ok: "ok \<longleftrightarrow> own_or_over who (t_clock s) l"
    by (cases "own_or_over who (t_clock s) l") linarith+
  have "get_lease name s' = map_option (\<lambda>x. if lease_free name who (t_clock s) x
      then x\<lparr>ll_holder := who, ll_expires_at := t_clock s + max 1000 ttl, ll_updated_at := t_clock s\<rparr> else x)
      (get_lease name s)"
    using assms(3) known by (auto simp: try_acquire_lease_def Let_def get_lease_def lookup_row_update)
  moreover have "t_clock s' = t_clock s" using assms(3) known by (auto simp: try_acquire_lease_def Let_def)
  ultimately show ?thesis using ok free [OF l(1)] assms(2) by simp
qed

text \<open>
  Requests for the lease \<open>name\<close>, each with the time since the one before; the terms that
  were granted, as holder, start and end.
\<close>

fun lead_run :: "string \<Rightarrow> nat \<Rightarrow> (nat \<times> string) list \<Rightarrow> task_db \<Rightarrow> (string \<times> nat \<times> nat) list" where
  "lead_run name ttl [] s = []"
| "lead_run name ttl ((d, who) # reqs) s =
    (let s0 = s\<lparr>t_clock := t_clock s + d\<rparr>; (ok, s1) = try_acquire_lease name who ttl s0
     in (if ok then [(who, t_clock s0, t_clock s0 + max 1000 ttl)] else []) @ lead_run name ttl reqs s1)"

definition apart :: "string \<times> nat \<times> nat \<Rightarrow> string \<times> nat \<times> nat \<Rightarrow> bool" where
  "apart a b \<longleftrightarrow> fst a = fst b \<or> snd (snd a) < fst (snd b)"

lemma lead_run_apart:
  "task_db_inv s \<Longrightarrow> get_lease name s = Some l \<Longrightarrow> ll_expires_at l \<le> t_clock s + max 1000 ttl \<Longrightarrow>
   sorted_wrt apart (lead_run name ttl reqs s) \<and>
   (\<forall>t \<in> set (lead_run name ttl reqs s). t_clock s \<le> fst (snd t) \<and>
      apart (ll_holder l, 0, ll_expires_at l) t)"
proof (induction reqs arbitrary: s l)
  case Nil
  then show ?case by simp
next
  case (Cons req reqs)
  obtain d who where req: "req = (d, who)" by (cases req)
  let ?s0 = "s\<lparr>t_clock := t_clock s + d\<rparr>"
  obtain ok s1 where acq: "try_acquire_lease name who ttl ?s0 = (ok, s1)" by (cases "try_acquire_lease name who ttl ?s0")
  have inv0: "task_db_inv ?s0" and l0: "get_lease name ?s0 = Some l"
    using Cons.prems(1,2) by (simp_all add: task_db_inv_def get_lease_def)
  note t = try_acquire_some [OF inv0 l0 acq]
  have inv1: "task_db_inv s1"
    using lead_respects [OF inv0 acq, of "\<lambda>_. False"] by (simp add: undisturbed_def)
  show ?case
  proof (cases ok)
    case True
    let ?l = "l\<lparr>ll_holder := who, ll_expires_at := t_clock s + d + max 1000 ttl, ll_updated_at := t_clock s + d\<rparr>"
    have "get_lease name s1 = Some ?l" "t_clock s1 = t_clock s + d" using t True by simp_all
    with Cons.IH [OF inv1, of ?l]
    have "sorted_wrt apart (lead_run name ttl reqs s1)"
      and later: "\<forall>t \<in> set (lead_run name ttl reqs s1). t_clock s + d \<le> fst (snd t) \<and>
        apart (who, 0, t_clock s + d + max 1000 ttl) t" by simp_all
    moreover have own: "own_or_over who (t_clock s + d) l" using t True by simp
    moreover have "apart (ll_holder l, 0, ll_expires_at l) x" if "x \<in> set (lead_run name ttl reqs s1)" for x
      using later [rule_format, OF that] own Cons.prems(3) by (auto simp: apart_def own_or_over_def)
    moreover have "lead_run name ttl (req # reqs) s = (who, t_clock s + d, t_clock s + d + max 1000 ttl) # lead_run name ttl reqs s1"
      using True acq by (simp add: req)
    moreover have "apart (who, t_clock s + d, t_clock s + d + max 1000 ttl) x \<and> t_clock s \<le> fst (snd x)"
      if "x \<in> set (lead_run name ttl reqs s1)" for x
      using later [rule_format, OF that] by (simp add: apart_def)
    moreover have "apart (ll_holder l, 0, ll_expires_at l) (who, t_clock s + d, t_clock s + d + max 1000 ttl)"
      using own by (auto simp: apart_def own_or_over_def)
    ultimately show ?thesis by simp
  next
    case False
    with t Cons.IH [OF inv1, of l] Cons.prems(3) show ?thesis by (fastforce simp: req acq)
  qed
qed


definition demo_reqs :: "(nat \<times> string) list" where
  "demo_reqs = [(0, ''aa''), (500, ''bb''), (400, ''aa''), (1500, ''bb'')]"

lemma demo_lead: "lead_run ''cron'' 1000 demo_reqs empty_task_db = [(''aa'', 0, 1000), (''aa'', 900, 1900), (''bb'', 2400, 3400)]"
  by code_simp


end
