(* ===== verification/Plan_Exec.thy ===== *)
theory Plan_Exec
  imports Plan_Run Task_Models
begin

text \<open>
  \<open>PlanExecutor\<close> (\<open>core/plan/runtime.py\<close>): the loop that hands the tasks of an active plan to
  the task runtime one after the other and stores their results, and the scan that picks up
  plans nobody drives. What the runtime answers is a parameter, as are the ids of new
  runtime tasks; publishing and the text of prompts are left out. Each function below is the
  code between two awaits, so other requests may run in between.
\<close>

section \<open>The environment\<close>

text \<open>
  The end of waiting for a runtime task: its result, with the id of the artifact that keeps
  the text and the report of the quality gate; a wait that timed out; or an exception.
\<close>

record run_report =
  rr_result :: task_result
  rr_artifact :: string
  rr_passed :: bool
  rr_checks :: "json list"

datatype wait_end = Ended run_report | Wait_Over nat | Wait_Error string

record exec_env =
  en_rid :: "nat \<Rightarrow> string"
  en_wait :: "nat \<Rightarrow> wait_end"
  en_text :: "plan_error \<Rightarrow> string"

section \<open>Choosing a task\<close>

definition in_flight :: "plan_task \<Rightarrow> bool" where
  "in_flight t \<longleftrightarrow> task_running t \<and> (case pt_task_id t of None \<Rightarrow> False | Some x \<Rightarrow> x \<noteq> [])"

text \<open>\<open>Broken\<close> is an exception, with the task that was chosen before it was raised.\<close>

datatype pick = Stop_Run | Take plan_task string | Broken "string option" plan_error

definition exec_begin :: "string \<Rightarrow> plan_db \<Rightarrow> plan_error + bool \<times> plan_db" where
  "exec_begin pid s =
    bindE (pm_get pid s) (\<lambda>q.
      case q of
        None \<Rightarrow> Inr (False, s)
      | Some p \<Rightarrow>
          bindE (if p_status p = P_APPROVED then activate pid s else Inr (p, s)) (\<lambda>(p1, s1).
            Inr (p_status p1 = P_ACTIVE, s1)))"

text \<open>
  A task that is already with the runtime is waited for again; otherwise the first ready task
  is assigned to the new runtime task \<open>rid\<close> and started.
\<close>

definition exec_pick :: "string \<Rightarrow> string \<Rightarrow> plan_db \<Rightarrow> pick \<times> plan_db" where
  "exec_pick pid rid s =
    (case pm_get pid s of
       Inl e \<Rightarrow> (Broken None e, s)
     | Inr None \<Rightarrow> (Stop_Run, s)
     | Inr (Some p) \<Rightarrow>
         if p_status p \<noteq> P_ACTIVE then (Stop_Run, s)
         else (case find in_flight (p_tasks p) of
             Some t \<Rightarrow> (Take t (case pt_task_id t of None \<Rightarrow> [] | Some x \<Rightarrow> x), s)
           | None \<Rightarrow>
               (case ready_tasks pid s of
                  Inl e \<Rightarrow> (Broken None e, s)
                | Inr [] \<Rightarrow> (Stop_Run, s)
                | Inr (t # _) \<Rightarrow>
                    (case assign_task pid (pt_id t) rid s of
                       Inl e \<Rightarrow> (Broken (Some (pt_id t)) e, s)
                     | Inr (_, s1) \<Rightarrow>
                         (case start_task pid (pt_id t) s1 of
                            Inl e \<Rightarrow> (Broken (Some (pt_id t)) e, s1)
                          | Inr (_, s2) \<Rightarrow> (Take t rid, s2))))))"

section \<open>Storing a result\<close>

definition failed_args :: "string \<Rightarrow> string \<Rightarrow> string \<Rightarrow> finish_args" where
  "failed_args summary kind message =
    \<lparr>fa_success = False, fa_summary = summary,
     fa_blocked_reason = Some [(''type'', JStr kind), (''message'', JStr message)],
     fa_artifact_ids = None, fa_quality_report = None\<rparr>"

definition first_text :: "string \<Rightarrow> string \<Rightarrow> string" where
  "first_text a b = (if a = [] then b else a)"

definition GATE_MESSAGE :: string where
  "GATE_MESSAGE = ''PlanTask '' @ map char_of [0xE9 :: nat, 0xAA, 0x8C, 0xE6, 0x94, 0xB6, 0xE6, 0x9D, 0xA1,
    0xE4, 0xBB, 0xB6, 0xE6, 0x9C, 0xAA, 0xE9, 0x80, 0x9A, 0xE8, 0xBF, 0x87, 0xE3, 0x80, 0x82]"

text \<open>What is stored for a task that ended: the gate runs only for a success with conditions.\<close>

definition report_args :: "plan_task \<Rightarrow> run_report \<Rightarrow> finish_args" where
  "report_args t rep =
    (let r = rr_result rep;
         completed = (rs_status r = T_COMPLETED);
         gated = (completed \<and> pt_acceptance t \<noteq> []);
         text = first_text (rs_visible_text r) (rs_summary r);
         message = first_text (case rs_error_message r of None \<Rightarrow> [] | Some m \<Rightarrow> m)
           (first_text (rs_summary r) (run_status_value (rs_status r)))
     in \<lparr>fa_success = (completed \<and> (gated \<longrightarrow> rr_passed rep)),
         fa_summary = first_text (rs_summary r) (rs_visible_text r),
         fa_blocked_reason =
           (if \<not> completed then
              Some [(''type'', JStr ''runtime_task_failed''), (''message'', JStr message)]
            else if gated \<and> \<not> rr_passed rep then
              Some [(''type'', JStr ''quality_gate_failed''), (''message'', JStr GATE_MESSAGE),
                    (''checks'', JList (rr_checks rep))]
            else None),
         fa_artifact_ids = Some (rs_artifact_ids r @ (if text = [] then [] else [rr_artifact rep])),
         fa_quality_report = Some (if gated then rr_checks rep else [])\<rparr>)"

datatype stored = Go_On | Done | Raises plan_error

definition stored_as :: "(plan \<Rightarrow> bool) \<Rightarrow> plan_error + plan \<times> plan_db \<Rightarrow> plan_db \<Rightarrow> stored \<times> plan_db" where
  "stored_as go r s =
    (case r of Inl e \<Rightarrow> (Raises e, s) | Inr (p, s1) \<Rightarrow> (if go p then Go_On else Done, s1))"

definition exec_store :: "string \<Rightarrow> plan_task \<Rightarrow> string \<Rightarrow> wait_end \<Rightarrow> plan_db \<Rightarrow> stored \<times> plan_db" where
  "exec_store pid t rid w s =
    (case w of
       Wait_Over secs \<Rightarrow>
         stored_as (\<lambda>_. False) (finish_task pid (pt_id t)
           (failed_args (''waiting for task '' @ rid @ '' timed out'') ''wait_task_timeout''
             (''task '' @ rid @ '' did not finish within '' @ dec_digits secs @ ''s'')) s) s
     | Wait_Error m \<Rightarrow>
         stored_as (\<lambda>_. False) (finish_task pid (pt_id t) (failed_args m ''runtime_unhealthy'' m) s) s
     | Ended rep \<Rightarrow>
         (case pm_get pid s of
            Inl e \<Rightarrow> (Raises e, s)
          | Inr None \<Rightarrow> (Done, s)
          | Inr (Some p) \<Rightarrow>
              if plan_terminal (p_status p) then (Done, s)
              else stored_as (\<lambda>q. \<not> plan_is_terminal q \<and> p_status q \<noteq> P_PAUSED)
                (finish_task pid (pt_id t) (report_args t rep) s) s))"

text \<open>The handler around the loop: the task at hand is stored as failed, if it still can be.\<close>

definition exec_rescue :: "string \<Rightarrow> string option \<Rightarrow> string \<Rightarrow> plan_db \<Rightarrow> plan_db" where
  "exec_rescue pid prev text s =
    (case prev of
       None \<Rightarrow> s
     | Some tid \<Rightarrow>
         (case finish_task pid tid
             (failed_args (''plan executor error: '' @ text) ''runtime_unhealthy'' text) s of
            Inl _ \<Rightarrow> s
          | Inr (_, s1) \<Rightarrow> s1))"

section \<open>The loop\<close>

text \<open>
  One executor without other requests in between; \<open>n\<close> counts the rounds. The loop has no bound
  of its own.
\<close>

partial_function (option) exec_loop ::
  "exec_env \<Rightarrow> string \<Rightarrow> string option \<Rightarrow> nat \<Rightarrow> plan_db \<Rightarrow> plan_db option" where
  "exec_loop env pid prev n s =
    (case exec_pick pid (en_rid env n) s of
       (Stop_Run, s1) \<Rightarrow> Some s1
     | (Broken chosen e, s1) \<Rightarrow>
         Some (exec_rescue pid (if chosen = None then prev else chosen) (en_text env e) s1)
     | (Take t rid, s1) \<Rightarrow>
         (case exec_store pid t rid (en_wait env n) s1 of
            (Done, s2) \<Rightarrow> Some s2
          | (Raises e, s2) \<Rightarrow> Some (exec_rescue pid (Some (pt_id t)) (en_text env e) s2)
          | (Go_On, s2) \<Rightarrow> exec_loop env pid (Some (pt_id t)) (Suc n) s2))"

text \<open>
  \<open>run\<close>. An exception of the first step is raised again: the handler reads a variable that has
  no value yet.
\<close>

definition plan_run :: "exec_env \<Rightarrow> string \<Rightarrow> plan_db \<Rightarrow> (plan_error + plan_db) option" where
  "plan_run env pid s =
    (case exec_begin pid s of
       Inl e \<Rightarrow> Some (Inl e)
     | Inr (False, s1) \<Rightarrow> Some (Inr s1)
     | Inr (True, s1) \<Rightarrow> map_option Inr (exec_loop env pid None 0 s1))"

section \<open>The watchdog\<close>

text \<open>Tasks that were handed out without a runtime id cannot be waited for.\<close>

fun block_orphans :: "string \<Rightarrow> plan_task list \<Rightarrow> plan_db \<Rightarrow> plan_db" where
  "block_orphans pid [] s = s"
| "block_orphans pid (t # ts) s =
    (if in_flight t then block_orphans pid ts s
     else
       (case finish_task pid (pt_id t)
           (failed_args ''watchdog: orphaned PlanTask without a runtime task id'' ''watchdog_orphan''
             ''PlanTask assigned but never submitted; executor recovered the Plan'') s of
          Inl _ \<Rightarrow> block_orphans pid ts s
        | Inr (_, s1) \<Rightarrow> block_orphans pid ts s1))"

text \<open>The plans that are started again; \<open>running\<close> are those an executor of this process drives.\<close>

fun watchdog_plans :: "string set \<Rightarrow> plan list \<Rightarrow> plan_db \<Rightarrow> string list \<times> plan_db" where
  "watchdog_plans running [] s = ([], s)"
| "watchdog_plans running (p # ps) s =
    (if p_status p \<noteq> P_ACTIVE \<or> p_id p \<in> running then watchdog_plans running ps s
     else
       (let active = filter task_running (p_tasks p)
        in case ready_tasks (p_id p) s of
             Inl _ \<Rightarrow> watchdog_plans running ps s
           | Inr ready \<Rightarrow>
               if active = [] \<and> ready = [] then watchdog_plans running ps s
               else (let (ids, s1) = watchdog_plans running ps (block_orphans (p_id p) active s)
                     in (p_id p # ids, s1))))"

definition watchdog_scan :: "string set \<Rightarrow> plan_db \<Rightarrow> string list \<times> plan_db" where
  "watchdog_scan running s =
    (case pm_list_recoverable 500 s of
       Inl _ \<Rightarrow> ([], s)
     | Inr plans \<Rightarrow> watchdog_plans running plans s)"

end
