(* ===== verification/Plan_Live.thy ===== *)
theory Plan_Live
  imports Plan_Exec
begin

text \<open>
  The executor comes to an end: every round of the loop uses up an attempt of a task, and an
  active plan always has a task to go on with.
\<close>

section \<open>The work that is left\<close>

definition weight :: "plan_task \<Rightarrow> nat" where
  "weight t = (if task_is_terminal t then 0
    else 2 * nat (pt_retry_limit t + 1 - pt_attempts t) + (if task_running t then 1 else 0))"

definition work :: "plan_task list \<Rightarrow> nat" where
  "work ts = sum_list (map weight ts)"

text \<open>No new task is with the runtime, and nothing got more attempts.\<close>

definition fewer :: "plan_task list \<Rightarrow> plan_task list \<Rightarrow> bool" where
  "fewer ts ts' \<longleftrightarrow> list_all2 (\<lambda>t t'. weight t' \<le> weight t \<and>
    (task_running t' \<longrightarrow> task_running t \<and> pt_task_id t' = pt_task_id t)) ts ts'"

lemma fewer_trans: "fewer a b \<Longrightarrow> fewer b c \<Longrightarrow> fewer a c"
  unfolding fewer_def by (rule list_all2_trans) auto

lemma fewer_work: "fewer ts ts' \<Longrightarrow> work ts' \<le> work ts"
  unfolding fewer_def work_def by (induction rule: list_all2_induct) auto

lemma fewer_in_flight:
  assumes "fewer ts ts'" and "\<forall>t \<in> set ts. task_running t \<longrightarrow> in_flight t"
  shows "\<forall>t \<in> set ts'. task_running t \<longrightarrow> in_flight t"
  using assms unfolding fewer_def
  by (induction rule: list_all2_induct) (auto simp: in_flight_def)

lemma fewer_update:
  assumes "\<And>t. t \<in> set ts \<Longrightarrow> P t \<Longrightarrow> weight (f t) \<le> weight t \<and> \<not> task_running (f t)"
  shows "fewer ts (sql_update P f ts)"
  using assms unfolding fewer_def by (induction ts) auto

lemma fewer_refl: "fewer ts ts"
  by (simp add: fewer_def list_all2_same)

lemma refresh_ready_fewer:
  assumes "tasks_inv (p_tasks p)"
  shows "fewer (p_tasks p) (p_tasks (refresh_ready now p))"
  unfolding refresh_ready_tasks
  by (rule fewer_update)
    (auto simp: becomes_ready_def weight_def task_is_terminal_def task_terminal_def task_running_def)

lemma only_blocked_fewer: "only_blocked ts ts' \<Longrightarrow> fewer ts ts'"
  unfolding only_blocked_def fewer_def
  by (erule list_all2_mono) (auto simp: weight_def task_is_terminal_def task_terminal_def task_running_def)

lemma work_less:
  assumes "distinct (map pt_id ts)" and "t \<in> set ts" and "weight (f t) < weight t"
  shows "work (sql_update (\<lambda>x. pt_id x = pt_id t) f ts) < work ts"
proof -
  obtain xs ys where ts: "ts = xs @ t # ys" using split_list [OF assms(2)] by blast
  have "sql_update (\<lambda>x. pt_id x = pt_id t) f xs = xs" "sql_update (\<lambda>x. pt_id x = pt_id t) f ys = ys"
    using assms(1) by (auto simp: ts image_iff intro!: sql_update_none)
  with assms(3) show ?thesis by (simp add: ts work_def sql_update_append)
qed

lemma block_loop_only:
  "block_loop m now ts queue = Inr ts' \<Longrightarrow> distinct (map pt_id ts) \<Longrightarrow> only_blocked ts ts'"
proof (induction m now ts queue arbitrary: ts' rule: block_loop.induct)
  case (1 m now ts)
  then show ?case by (simp add: only_blocked_refl)
next
  case (2 m now ts current rest)
  then obtain t where l: "lookup_row pt_id current ts = Some t" by (auto split: option.splits)
  show ?case
  proof (cases "pt_status t = PT_PENDING")
    case False
    with 2 l show ?thesis by simp
  next
    case True
    have ob: "only_blocked ts (sql_update (\<lambda>t. pt_id t = current) (block_task m now) ts)"
      by (rule only_blocked_step)
        (use True lookup_row_Some [OF l] unique_key_eq [of pt_id ts _ t] 2(4) in \<open>auto simp: unique_key_def\<close>)
    note ids = map_shape_id [OF only_blocked_shape [OF ob]]
    from 2 l True ids show ?thesis by (auto intro: only_blocked_trans [OF ob])
  qed
qed

section \<open>One result\<close>

text \<open>A running task is settled: what is left gets less, and no other task starts.\<close>

lemma settle_work:
  assumes find: "find_task p tid = Inr t" and run: "task_running t" and inv: "tasks_inv (p_tasks p)"
    and nd: "no_dead_end (p_tasks p)" and settle: "settle_task a now tid t p = Inr (p1, ev)"
  shows "fewer (p_tasks p) (p_tasks p1) \<and> work (p_tasks p1) < work (p_tasks p)"
proof -
  note u = find_task_unique [OF find inv]
  have dist: "distinct (map pt_id (p_tasks p))" using inv by (simp add: tasks_inv_def)
  have ok: "attempts_ok t" using u inv by (auto simp: tasks_inv_def)
  let ?f = "\<lambda>st r x. (record_result a now x)\<lparr>pt_status := st, pt_blocked_reason := r\<rparr>"
  have less: "weight (?f st r t) < weight t" and idle: "\<not> task_running (?f st r t)"
    if "st \<in> {PT_COMPLETED, PT_READY, PT_BLOCKED, PT_FAILED}" for st r
    using that run ok
    by (auto simp: weight_def record_result_def task_running_def task_is_terminal_def task_terminal_def attempts_ok_def)
  have set: "fewer (p_tasks p) (p_tasks (set_task tid (?f st r) p)) \<and>
      work (p_tasks (set_task tid (?f st r) p)) < work (p_tasks p)"
    if st: "st \<in> {PT_COMPLETED, PT_READY, PT_BLOCKED, PT_FAILED}" for st r
  proof
    show "fewer (p_tasks p) (p_tasks (set_task tid (?f st r) p))"
      unfolding p_tasks_set_task
      by (rule fewer_update) (use u less [OF st, of r] idle [OF st, of r] in \<open>auto intro: less_imp_le\<close>)
    show "work (p_tasks (set_task tid (?f st r) p)) < work (p_tasks p)"
      using work_less [OF dist, of t "?f st r"] u less [OF st, of r] by (simp add: p_tasks_set_task)
  qed
  have block: "fewer (p_tasks p) (p_tasks q1) \<and> work (p_tasks q1) < work (p_tasks p)"
    if q1: "block_downstream now tid m (set_task tid (?f st r) p) = Inr q1"
      and st: "st \<in> {PT_COMPLETED, PT_READY, PT_BLOCKED, PT_FAILED}" for q1 m st r
  proof -
    have "distinct (map pt_id (p_tasks (set_task tid (?f st r) p)))"
      using dist by (simp add: p_tasks_set_task record_result_def)
    with q1 have "only_blocked (p_tasks (set_task tid (?f st r) p)) (p_tasks q1)"
      by (auto simp: block_downstream_def dest: block_loop_only)
    from only_blocked_fewer [OF this] set [OF st, of r] show ?thesis
      using fewer_trans fewer_work by (metis le_less_trans)
  qed
  show ?thesis
    using settle set [of PT_COMPLETED None] set [of PT_READY None]
      block [of _ _ "if has_reason (fa_blocked_reason a) then PT_BLOCKED else PT_FAILED"]
    by (auto simp: settle_task_def split: if_splits)
qed

section \<open>One round\<close>

text \<open>The state in which a round starts: an active plan whose running tasks can be waited for.\<close>

definition driven :: "string \<Rightarrow> plan \<Rightarrow> plan_db \<Rightarrow> bool" where
  "driven pid p s \<longleftrightarrow> plan_db_inv s \<and> plan_at pid s = Some p \<and> p_status p = P_ACTIVE \<and>
    (\<forall>t \<in> set (p_tasks p). task_running t \<longrightarrow> in_flight t)"

lemma drivenD:
  assumes "driven pid p s"
  shows "plan_db_inv s" "plan_at pid s = Some p" "p_status p = P_ACTIVE" "plan_inv p" "p_id p = pid"
    "tasks_inv (p_tasks p)" "no_dead_end (p_tasks p)" "pm_require pid s = Inr p" "pm_get pid s = Inr (Some p)"
  using assms plan_at_inv [of s pid p]
  by (auto simp: driven_def plan_inv_def stage_inv_def pm_require_Inr pm_get_eq)

lemma work_update_le:
  "(\<And>t. t \<in> set ts \<Longrightarrow> P t \<Longrightarrow> weight (f t) \<le> weight t) \<Longrightarrow> work (sql_update P f ts) \<le> work ts"
  unfolding work_def by (induction ts) (auto simp: add_mono)

lemma replaced_same: "replaced pid p' q s s' \<Longrightarrow> plan_at pid s = Some p \<Longrightarrow> replaced pid p q s s'"
  by (simp add: replaced_def)

lemma finish_step:
  assumes d: "driven pid p s" and find: "find_task p tid = Inr t" and run: "task_running t"
  obtains q s2 where "finish_task pid tid a s = Inr (q, s2)" "plan_db_inv s2" "plan_at pid s2 = Some q"
    "work (p_tasks q) < work (p_tasks p)" "driven pid q s2 \<or> plan_terminal (p_status q)"
proof -
  note p = drivenD [OF d]
  obtain p1 ev where st: "settle_task a (p_clock s) tid t p = Inr (p1, ev)" "p_status p1 = P_ACTIVE"
      "tasks_inv (p_tasks p1)" using settle_task_inv [OF find run p(6,7)] p(3) by metis
  note w = settle_work [OF find run p(6,7) st(1)]
  let ?q = "refresh_terminal (p_clock s) (refresh_ready (p_clock s) p1)"
  have fin: "finish_task pid tid a s = Inr (?q, pm_save ?q ev (task_event t) s)"
    using p(3,8) find run st(1,2) by (simp add: finish_task_def Let_def)
  have "replaced pid p ?q s (pm_save ?q ev (task_event t) s)"
    using finish_replaced [OF p(1) fin] p(2,3) replaced_same by fastforce
  note r = replaced_inv [OF p(1) this] replaced_at [OF p(1) this]
  have few: "fewer (p_tasks p) (p_tasks ?q)"
    using w fewer_trans refresh_ready_fewer [OF st(3)] by (metis refresh_terminal_frame(2))
  have less: "work (p_tasks ?q) < work (p_tasks p)"
    using w fewer_work [OF refresh_ready_fewer [OF st(3), of "p_clock s"]] by (simp add: refresh_terminal_frame(2))
  have stat: "p_status ?q = P_ACTIVE \<or> plan_terminal (p_status ?q)"
    using st(2) by (auto simp: refresh_terminal_def)
  have "\<forall>t \<in> set (p_tasks ?q). task_running t \<longrightarrow> in_flight t"
    by (rule fewer_in_flight [OF few]) (use d in \<open>simp add: driven_def\<close>)
  with stat r have "driven pid ?q (pm_save ?q ev (task_event t) s) \<or> plan_terminal (p_status ?q)"
    by (auto simp: driven_def)
  from that [OF fin r(1) _ less this] r(2) show thesis by simp
qed

lemma pick_step:
  assumes d: "driven pid p s" and rid: "rid \<noteq> []"
  obtains t rid' s1 p1 u where "exec_pick pid rid s = (Take t rid', s1)" "driven pid p1 s1"
    "work (p_tasks p1) \<le> work (p_tasks p)" "find_task p1 (pt_id t) = Inr u" "task_running u"
proof -
  note p = drivenD [OF d]
  have dist: "distinct (map pt_id (p_tasks p))" using p(6) by (simp add: tasks_inv_def)
  have find: "find_task p (pt_id t) = Inr t" if "t \<in> set (p_tasks p)" for t
    using that dist by (auto simp: find_task_Inr unique_key_def intro: lookup_row_unique)
  show thesis
  proof (cases "find in_flight (p_tasks p)")
    case (Some t)
    then have t: "t \<in> set (p_tasks p)" "in_flight t" by (auto simp: find_Some_iff)
    show thesis
      by (rule that [OF _ d le_refl find [OF t(1)]])
        (use p t(2) Some in \<open>auto simp: exec_pick_def in_flight_def\<close>)
  next
    case None
    then have none: "\<not> task_running t" if "t \<in> set (p_tasks p)" for t
      using d that by (auto simp: driven_def find_None_iff)
    with active_has_work [OF p(4,3)] obtain t0 where t0: "t0 \<in> set (p_tasks p)" "pt_status t0 = PT_READY" by blast
    have same: "refresh_ready now p = p" for now
      using p(3,4) by (auto simp: plan_inv_def stage_inv_def no_overdue_def refresh_ready_def)
    obtain t ts where ready: "ready_tasks pid s = Inr (t # ts)" and t: "t \<in> set (p_tasks p)" "pt_status t = PT_READY"
    proof (cases "filter (\<lambda>t. pt_status t = PT_READY) (p_tasks p)")
      case Nil
      with t0 show thesis by (auto simp: filter_empty_conv)
    next
      case (Cons t ts)
      have "t \<in> set (filter (\<lambda>t. pt_status t = PT_READY) (p_tasks p))" by (simp add: Cons)
      then have "t \<in> set (p_tasks p)" "pt_status t = PT_READY" by auto
      with that [of t ts] Cons p(3,8) same show thesis by (simp add: ready_tasks_def)
    qed
    let ?f = "\<lambda>t. t\<lparr>pt_status := PT_ASSIGNED, pt_task_id := Some rid, pt_attempts := pt_attempts t + 1,
        pt_updated_at := p_clock s\<rparr>"
    let ?q = "set_task (pt_id t) ?f p"
    obtain s1 where a: "assign_task pid (pt_id t) rid s = Inr (?q, s1)"
      using p(3,8) find [OF t(1)] t(2) by (simp add: assign_task_def Let_def)
    from assign_replaced [OF p(1) a] p(2) have "replaced pid p ?q s s1" using replaced_same by blast
    note r1 = replaced_inv [OF p(1) this] replaced_at [OF p(1) this, of pid]
    have fq: "find_task ?q (pt_id t) = Inr (?f t)"
      using find [OF t(1)] by (simp add: find_task_Inr p_tasks_set_task lookup_row_update)
    let ?g = "\<lambda>t. t\<lparr>pt_status := PT_IN_PROGRESS, pt_updated_at := p_clock s1\<rparr>"
    let ?r = "set_task (pt_id t) ?g ?q"
    obtain s2 where b: "start_task pid (pt_id t) s1 = Inr (?r, s2)"
      using r1 fq by (simp add: start_task_def Let_def pm_require_Inr)
    from start_replaced [OF r1(1) b] r1(2) have "replaced pid ?q ?r s1 s2" using replaced_same by fastforce
    note r2 = replaced_inv [OF r1(1) this] replaced_at [OF r1(1) this, of pid]
    have "weight (?f t) < weight t"
      using p(6) t by (auto simp: weight_def task_is_terminal_def task_terminal_def task_running_def tasks_inv_def attempts_ok_def)
    from work_less [where f = ?f, OF dist t(1) this] have "work (p_tasks ?q) < work (p_tasks p)" by (simp add: p_tasks_set_task)
    moreover have "work (p_tasks ?r) \<le> work (p_tasks ?q)"
      unfolding p_tasks_set_task [of _ ?g]
      by (rule work_update_le)
        (auto simp: p_tasks_set_task weight_def task_is_terminal_def task_terminal_def task_running_def elim!: sql_updateE)
    ultimately have less: "work (p_tasks ?r) \<le> work (p_tasks p)" by simp
    have "task_running x \<longrightarrow> in_flight x" if "x \<in> set (p_tasks ?r)" for x
      using that none rid by (auto simp: p_tasks_set_task in_flight_def elim!: sql_updateE)
    then have dr: "driven pid ?r s2" using r2 p(3) by (auto simp: driven_def set_task_def)
    have fr: "find_task ?r (pt_id t) = Inr (?g (?f t))"
      using fq by (simp add: find_task_Inr p_tasks_set_task [of _ ?g] lookup_row_update)
    show thesis
      by (rule that [OF _ dr less fr]) (use p(3,9) None ready a b in \<open>auto simp: exec_pick_def task_running_def\<close>)
  qed
qed

text \<open>Without timeouts and exceptions the loop returns with a finished plan.\<close>

lemma exec_loop_finishes:
  assumes "\<And>n. en_rid env n \<noteq> []" and "\<And>n. \<exists>rep. en_wait env n = Ended rep"
  shows "driven pid p s \<Longrightarrow> \<exists>s' q. exec_loop env pid prev n s = Some s' \<and> plan_db_inv s' \<and>
    plan_at pid s' = Some q \<and> plan_terminal (p_status q)"
proof (induction "work (p_tasks p)" arbitrary: p s n prev rule: less_induct)
  case less
  obtain t rid' s1 p1 u where pick: "exec_pick pid (en_rid env n) s = (Take t rid', s1)" "driven pid p1 s1"
      "work (p_tasks p1) \<le> work (p_tasks p)" "find_task p1 (pt_id t) = Inr u" "task_running u"
    using pick_step [OF less.prems assms(1)] by blast
  obtain rep where rep: "en_wait env n = Ended rep" using assms(2) by blast
  note p1 = drivenD [OF pick(2)]
  obtain q s2 where fin: "finish_task pid (pt_id t) (report_args t rep) s1 = Inr (q, s2)" "plan_db_inv s2"
      "plan_at pid s2 = Some q" "work (p_tasks q) < work (p_tasks p1)" "driven pid q s2 \<or> plan_terminal (p_status q)"
    using finish_step [OF pick(2,4,5)] by blast
  show ?case
  proof (cases "plan_terminal (p_status q)")
    case True
    then have "exec_store pid t rid' (en_wait env n) s1 = (Done, s2)"
      using p1(3,9) fin(1) rep by (simp add: exec_store_def stored_as_def plan_is_terminal_def)
    with pick(1) have "exec_loop env pid prev n s = Some s2" by (simp add: exec_loop.simps)
    with fin True show ?thesis by blast
  next
    case False
    with fin(5) have dq: "driven pid q s2" by simp
    then have "exec_store pid t rid' (en_wait env n) s1 = (Go_On, s2)"
      using p1(3,9) fin(1) rep False drivenD(3) [OF dq] by (simp add: exec_store_def stored_as_def plan_is_terminal_def)
    with pick(1) have "exec_loop env pid prev n s = exec_loop env pid (Some (pt_id t)) (Suc n) s2"
      by (simp add: exec_loop.simps)
    with less.hyps [OF _ dq] fin(4) pick(3) show ?thesis by simp
  qed
qed

end
