(* ===== verification/Plan_Refine.thy ===== *)
theory Plan_Refine
  imports Plan_Run
begin

text \<open>
  An abstract scheduler over a dependency graph, and the proof that the plan manager
  implements it: every request is a step of the scheduler or changes nothing there.
\<close>

section \<open>The scheduler\<close>

datatype phase = Waiting | Runnable | Working | Succeeded | Dead

type_synonym board = "string \<Rightarrow> phase option"

text \<open>A job that waits is released when all it depends on has succeeded.\<close>

definition release :: "(string \<times> string) set \<Rightarrow> board \<Rightarrow> board" where
  "release d m i =
    (if m i = Some Waiting \<and> (\<forall>j. (i, j) \<in> d \<longrightarrow> m j = Some Succeeded) then Some Runnable else m i)"

definition bury :: "(string \<times> string) set \<Rightarrow> string \<Rightarrow> board \<Rightarrow> board" where
  "bury d i m j = (if j = i \<or> m j = Some Waiting \<and> (j, i) \<in> d\<^sup>+ then Some Dead else m j)"

definition abort :: "board \<Rightarrow> board" where
  "abort m i = map_option (\<lambda>x. if x = Succeeded then Succeeded else Dead) (m i)"

inductive sched_step :: "(string \<times> string) set \<Rightarrow> board \<Rightarrow> board \<Rightarrow> bool" for d where
  Begin: "sched_step d m (release d m)"
| Take_Job: "m i = Some Runnable \<Longrightarrow> sched_step d m (m(i \<mapsto> Working))"
| Again: "m i = Some Working \<Longrightarrow> sched_step d m (m(i \<mapsto> Runnable))"
| Succeed: "m i = Some Working \<Longrightarrow> sched_step d m (release d (m(i \<mapsto> Succeeded)))"
| Fail: "m i = Some Working \<Longrightarrow> sched_step d m (bury d i m)"
| Abort: "sched_step d m (abort m)"

section \<open>The board of a plan\<close>

fun phase_of :: "task_status \<Rightarrow> phase" where
  "phase_of PT_PENDING = Waiting"
| "phase_of PT_READY = Runnable"
| "phase_of PT_ASSIGNED = Working"
| "phase_of PT_IN_PROGRESS = Working"
| "phase_of PT_WAITING = Working"
| "phase_of PT_COMPLETED = Succeeded"
| "phase_of PT_FAILED = Dead"
| "phase_of PT_BLOCKED = Dead"
| "phase_of PT_CANCELLED = Dead"

lemma phase_of_eq [simp]:
  "phase_of st = Waiting \<longleftrightarrow> st = PT_PENDING" "phase_of st = Runnable \<longleftrightarrow> st = PT_READY"
  "phase_of st = Working \<longleftrightarrow> st \<in> {PT_ASSIGNED, PT_IN_PROGRESS, PT_WAITING}"
  "phase_of st = Succeeded \<longleftrightarrow> st = PT_COMPLETED" "phase_of st = Dead \<longleftrightarrow> dead st"
  by (cases st; simp add: dead_def)+

definition board_of :: "plan_task list \<Rightarrow> board" where
  "board_of ts i = map_option phase_of (status_of_task ts i)"

lemma board_set_task:
  assumes "find_task p tid = Inr t" and "\<And>x. pt_id (f x) = pt_id x"
  shows "board_of (p_tasks (set_task tid f p)) = (board_of (p_tasks p))(tid \<mapsto> phase_of (pt_status (f t)))"
proof
  fix i
  show "board_of (p_tasks (set_task tid f p)) i = ((board_of (p_tasks p))(tid \<mapsto> phase_of (pt_status (f t)))) i"
    using assms(1) lookup_row_Some [of pt_id i "p_tasks p"] status_of_task_update [of f, OF assms(2)]
    by (cases "lookup_row pt_id i (p_tasks p)")
      (auto simp: board_of_def p_tasks_set_task find_task_Inr status_of_task_def lookup_row_update assms(2))
qed

lemma board_in:
  assumes "tasks_inv ts" and "t \<in> set ts"
  shows "board_of ts (pt_id t) = Some (phase_of (pt_status t))"
  using assms status_of_task_in [of ts t] by (simp add: board_of_def tasks_inv_def)

lemma board_refresh:
  assumes "tasks_inv (p_tasks p)"
  shows "board_of (p_tasks (refresh_ready now p)) = release (depends (p_tasks p)) (board_of (p_tasks p))"
proof
  fix i
  have dist: "distinct (map pt_id (p_tasks p))" using assms by (simp add: tasks_inv_def)
  let ?f = "\<lambda>t. t\<lparr>pt_status := PT_READY, pt_updated_at := now\<rparr>"
  show "board_of (p_tasks (refresh_ready now p)) i = release (depends (p_tasks p)) (board_of (p_tasks p)) i"
  proof (cases "lookup_row pt_id i (p_tasks p)")
    case None
    then show ?thesis
      by (simp add: board_of_def release_def refresh_ready_tasks status_of_task_def lookup_row_update)
  next
    case (Some t)
    from lookup_row_Some [OF Some] have t: "t \<in> set (p_tasks p)" "pt_id t = i" by simp_all
    have uniq: "x = t" if "x \<in> set (p_tasks p)" "pt_id x = i" for x
      using unique_key_eq [of pt_id "p_tasks p" x t] that t dist by (simp add: unique_key_def)
    have "(\<forall>j. (i, j) \<in> depends (p_tasks p) \<longrightarrow> board_of (p_tasks p) j = Some Succeeded) \<longleftrightarrow>
        deps_completed (p_tasks p) t"
    proof -
      have "(i, j) \<in> depends (p_tasks p) \<longleftrightarrow> j \<in> set (pt_depends_on t)" for j
        using t uniq unfolding in_depends by blast
      then show ?thesis by (simp add: deps_completed_def board_of_def Ball_def)
    qed
    moreover have b: "board_of (p_tasks p) i = Some (phase_of (pt_status t))"
      using Some by (simp add: board_of_def status_of_task_def)
    ultimately have "release (depends (p_tasks p)) (board_of (p_tasks p)) i =
        (if becomes_ready (p_tasks p) t then Some Runnable else board_of (p_tasks p) i)"
      by (simp add: release_def becomes_ready_def)
    moreover have "board_of (p_tasks (refresh_ready now p)) i =
        Some (phase_of (pt_status (if becomes_ready (p_tasks p) t then ?f t else t)))"
      unfolding board_of_def refresh_ready_tasks by (simp add: status_of_task_def lookup_row_update Some)
    ultimately show ?thesis using b by simp
  qed
qed

lemma release_noop:
  fixes p :: plan
  assumes "no_overdue (p_tasks p)" and "tasks_inv (p_tasks p)"
  shows "release (depends (p_tasks p)) (board_of (p_tasks p)) = board_of (p_tasks p)"
proof -
  have "refresh_ready 0 p = p" using assms(1) by (auto simp: no_overdue_def refresh_ready_def)
  with board_refresh [OF assms(2), of 0] show ?thesis by simp
qed

lemma depends_frame: "same_frame p q \<Longrightarrow> depends (p_tasks q) = depends (p_tasks p)"
  by (simp add: same_frame_def depends_shape flip: set_map)

lemma dependsI: "t \<in> set ts \<Longrightarrow> d \<in> set (pt_depends_on t) \<Longrightarrow> (pt_id t, d) \<in> depends ts"
  by (auto simp: in_depends)

section \<open>Failure\<close>

text \<open>The loop blocks only what depends on the failed task, directly or through others.\<close>

lemma block_loop_behind:
  "block_loop m now ts queue = Inr ts' \<Longrightarrow> distinct (map pt_id ts) \<Longrightarrow>
   (\<And>w. w \<in> set queue \<Longrightarrow> (w, i) \<in> (depends ts)\<^sup>+) \<Longrightarrow>
   only_blocked ts ts' \<and> (\<forall>j. status_of_task ts' j \<noteq> status_of_task ts j \<longrightarrow> (j, i) \<in> (depends ts)\<^sup>+)"
proof (induction m now ts queue arbitrary: ts' rule: block_loop.induct)
  case (1 m now ts)
  then show ?case by (simp add: only_blocked_refl)
next
  case (2 m now ts current rest)
  then obtain t where l: "lookup_row pt_id current ts = Some t" by (auto split: option.splits)
  show ?case
  proof (cases "pt_status t = PT_PENDING")
    case False
    with 2 l show ?thesis by simp
  next
    case True
    let ?ts = "sql_update (\<lambda>t. pt_id t = current) (block_task m now) ts"
    have ob: "only_blocked ts ?ts"
      by (rule only_blocked_step)
        (use True lookup_row_Some [OF l] unique_key_eq [of pt_id ts _ t] 2(4) in \<open>auto simp: unique_key_def\<close>)
    note sh = only_blocked_shape [OF ob]
    have dep: "depends ?ts = depends ts" using sh by (simp add: depends_shape flip: set_map)
    have cur: "(current, i) \<in> (depends ts)\<^sup>+" using 2(5) by simp
    have "(w, i) \<in> (depends ?ts)\<^sup>+" if "w \<in> set (rest @ filter (\<lambda>x. x \<notin> set rest) (dependents current ts))" for w
      using that 2(5) cur by (auto simp: dep set_dependents intro: trancl_into_trancl2 dependsI)
    moreover have "block_loop m now ?ts (rest @ filter (\<lambda>x. x \<notin> set rest) (dependents current ts)) = Inr ts'"
      using 2(3) l True by simp
    moreover have "distinct (map pt_id ?ts)" using 2(4) map_shape_id [OF sh] by simp
    ultimately have IH: "only_blocked ?ts ts'" "\<And>j. status_of_task ts' j \<noteq> status_of_task ?ts j \<Longrightarrow> (j, i) \<in> (depends ts)\<^sup>+"
      using 2(1) [OF l True] by (auto simp: dep)
    have "status_of_task ?ts j = status_of_task ts j" if "j \<noteq> current" for j
      using that lookup_row_Some [of pt_id j ts]
      by (cases "lookup_row pt_id j ts") (auto simp: status_of_task_def lookup_row_update block_task_def)
    with IH only_blocked_trans [OF ob IH(1)] cur show ?thesis by metis
  qed
qed

lemma dead_spreads:
  assumes "tasks_inv ts" and "no_dead_end ts" and "(i, d) \<in> (depends ts)\<^sup>+"
    and "status_of_task ts d = Some sd" and "dead sd"
  shows "\<exists>si. status_of_task ts i = Some si \<and> dead si"
proof -
  have behind: "\<exists>si. status_of_task ts i = Some si \<and> dead si"
    if e: "(i, d) \<in> depends ts" and d: "status_of_task ts d = Some sd" "dead sd" for i d sd
  proof -
    obtain t where t: "t \<in> set ts" "pt_id t = i" "d \<in> set (pt_depends_on t)" using e by (auto simp: in_depends)
    have "\<not> task_started t" using assms(1) t d by (auto simp: tasks_inv_def deps_completed_def dead_def)
    moreover have "pt_status t \<noteq> PT_PENDING" using assms(2) t d unfolding no_dead_end_def by blast
    ultimately have "dead (pt_status t)" by (cases "pt_status t") (auto simp: task_started_def dead_def)
    with status_of_task_in [OF _ t(1)] t(2) assms(1) show ?thesis by (auto simp: tasks_inv_def)
  qed
  from assms(3-5) show ?thesis
  proof (induction arbitrary: sd rule: trancl_induct)
    case (step y z)
    then show ?case using behind by metis
  qed (use behind in blast)
qed

lemma board_block:
  assumes blk: "block_downstream now i m q = Inr q1" and ti: "tasks_inv (p_tasks q)"
    and ti1: "tasks_inv (p_tasks q1)" and nd1: "no_dead_end (p_tasks q1)" and di: "board_of (p_tasks q) i = Some Dead"
  shows "board_of (p_tasks q1) = bury (depends (p_tasks q)) i (board_of (p_tasks q))"
proof
  fix j
  let ?ts = "p_tasks q" and ?ts1 = "p_tasks q1"
  have "(w, i) \<in> (depends ?ts)\<^sup>+" if "w \<in> set (dependents i ?ts)" for w
    using that by (auto simp: set_dependents intro: dependsI)
  with blk ti have ob: "only_blocked ?ts ?ts1"
    and only: "\<And>j. status_of_task ?ts1 j \<noteq> status_of_task ?ts j \<Longrightarrow> (j, i) \<in> (depends ?ts)\<^sup>+"
    using block_loop_behind [of _ now ?ts "dependents i ?ts" ?ts1 i]
    by (auto simp: block_downstream_def tasks_inv_def)
  have dep: "depends ?ts1 = depends ?ts" using only_blocked_shape [OF ob] by (simp add: depends_shape flip: set_map)
  obtain sd where sd: "status_of_task ?ts i = Some sd" "dead sd" using di by (auto simp: board_of_def)
  then have sd1: "status_of_task ?ts1 i = Some sd" using only_blocked_status [OF ob, of i] by (auto simp: dead_def)
  note st = only_blocked_status [OF ob, of j]
  show "board_of ?ts1 j = bury (depends ?ts) i (board_of ?ts) j"
  proof (cases "(j, i) \<in> (depends ?ts)\<^sup>+")
    case True
    with dead_spreads [OF ti1 nd1 _ sd1 sd(2), of j] obtain sj where sj: "status_of_task ?ts1 j = Some sj" "dead sj"
      by (auto simp: dep)
    show ?thesis
    proof (cases "status_of_task ?ts j = Some PT_PENDING")
      case True
      with \<open>(j, i) \<in> (depends ?ts)\<^sup>+\<close> sj show ?thesis by (simp add: bury_def board_of_def)
    next
      case False
      with st sj have "status_of_task ?ts j = Some sj" by auto
      with sj False di show ?thesis by (simp add: bury_def board_of_def)
    qed
  next
    case False
    then have "status_of_task ?ts1 j = status_of_task ?ts j" using only by blast
    with False sd show ?thesis by (cases "j = i") (simp_all add: bury_def board_of_def)
  qed
qed

section \<open>Results\<close>

lemma release_keeps:
  assumes "release d m = m" and "m i = Some Working" and "x \<noteq> Waiting" "x \<noteq> Succeeded"
  shows "release d (m(i \<mapsto> x)) = m(i \<mapsto> x)"
proof
  fix j
  from assms(1) have "release d m j = m j" by simp
  with assms(2-4) show "release d (m(i \<mapsto> x)) j = (m(i \<mapsto> x)) j"
    by (auto simp: release_def split: if_splits)
qed

lemma release_bury:
  assumes "release d m = m" and "m i = Some Working"
  shows "release d (bury d i m) = bury d i m"
proof
  fix j
  from assms(1) have "release d m j = m j" by simp
  with assms(2) show "release d (bury d i m) j = bury d i m j"
    by (auto simp: release_def bury_def split: if_splits)
qed

lemma bury_upd: "m i = Some Working \<Longrightarrow> bury d i (m(i \<mapsto> Dead)) = bury d i m"
  by (auto simp: bury_def fun_eq_iff)

lemma settle_board:
  assumes find: "find_task p tid = Inr t" and run: "task_running t" and inv: "plan_inv p"
    and live: "p_status p \<in> {P_ACTIVE, P_PAUSED}" and settle: "settle_task a now tid t p = Inr (p1, ev)"
  shows "sched_step (depends (p_tasks p)) (board_of (p_tasks p)) (board_of (p_tasks (refresh_ready now p1)))"
proof -
  let ?d = "depends (p_tasks p)" and ?m = "board_of (p_tasks p)"
  have p: "tasks_inv (p_tasks p)" "no_dead_end (p_tasks p)" "no_overdue (p_tasks p)"
    using inv live by (auto simp: plan_inv_def stage_inv_def)
  note s = settle_task_inv [OF find run p(1,2), of a now, unfolded settle]
  then have p1: "same_frame p p1" "tasks_inv (p_tasks p1)" "no_dead_end (p_tasks p1)" by auto
  have new: "board_of (p_tasks (refresh_ready now p1)) = release ?d (board_of (p_tasks p1))"
    by (simp add: board_refresh [OF p1(2)] depends_frame [OF p1(1)])
  have work: "?m tid = Some Working"
    using board_in [OF p(1), of t] find_task_unique [OF find p(1)] run by (auto simp: task_running_def)
  have noop: "release ?d ?m = ?m" by (rule release_noop [OF p(3,1)])
  let ?f = "\<lambda>st r x. (record_result a now x)\<lparr>pt_status := st, pt_blocked_reason := r\<rparr>"
  have set: "board_of (p_tasks (set_task tid (?f st r) p)) = ?m(tid \<mapsto> phase_of st)" for st r
    using board_set_task [OF find, of "?f st r"] by (simp add: record_result_def)
  consider (success) "fa_success a" | (retry) "\<not> fa_success a" "pt_attempts t \<le> pt_retry_limit t"
    | (fail) "\<not> fa_success a" "\<not> pt_attempts t \<le> pt_retry_limit t" by blast
  then show ?thesis
  proof cases
    case success
    with settle have "board_of (p_tasks p1) = ?m(tid \<mapsto> Succeeded)" by (auto simp: settle_task_def set)
    with Succeed [of ?m tid, OF work] new show ?thesis by simp
  next
    case retry
    with settle have "board_of (p_tasks p1) = ?m(tid \<mapsto> Runnable)" by (auto simp: settle_task_def set)
    with Again [of ?m tid, OF work] new release_keeps [OF noop work, of Runnable] show ?thesis by simp
  next
    case fail
    let ?g = "?f (if has_reason (fa_blocked_reason a) then PT_BLOCKED else PT_FAILED) (fa_blocked_reason a)"
    let ?q = "set_task tid ?g p"
    have blk: "block_downstream now tid (fa_summary a) ?q = Inr p1"
      using settle fail by (auto simp: settle_task_def)
    have q: "board_of (p_tasks ?q) = ?m(tid \<mapsto> Dead)"
      unfolding set by (simp add: dead_def)
    have sf: "same_frame p ?q" by (rule set_task_frame) (simp add: record_result_def shape_def)
    have "attempts_ok t" using find_task_unique [OF find p(1)] p(1) by (auto simp: tasks_inv_def)
    then have ti: "tasks_inv (p_tasks ?q)"
      by (intro set_task_inv [OF find p(1)])
        (use run in \<open>auto simp: shape_def record_result_def attempts_ok_def task_running_def task_started_def\<close>)
    have "board_of (p_tasks p1) = bury ?d tid (?m(tid \<mapsto> Dead))"
      using board_block [OF blk ti p1(2,3)] by (simp only: q depends_frame [OF sf] fun_upd_same simp_thms)
    with new Fail [of ?m tid ?d, OF work] release_bury [OF noop work] show ?thesis by (simp add: bury_upd [of ?m tid, OF work])
  qed
qed

section \<open>Every request\<close>

text \<open>How a request moves the board of the plan it is about.\<close>

definition moves :: "plan \<Rightarrow> plan \<Rightarrow> bool" where
  "moves p q \<longleftrightarrow> board_of (p_tasks q) = board_of (p_tasks p) \<or>
    sched_step (depends (p_tasks p)) (board_of (p_tasks p)) (board_of (p_tasks q))"

lemma moves_refl: "moves p p"
  by (simp add: moves_def)

lemma moves_same: "p_tasks q = p_tasks p \<Longrightarrow> moves p q"
  by (simp add: moves_def)

lemma activate_moves:
  assumes "plan_inv p"
  shows "moves p (refresh_terminal now (refresh_ready now (p\<lparr>p_status := st, p_updated_at := now\<rparr>)))"
  using assms board_refresh [of "p\<lparr>p_status := st, p_updated_at := now\<rparr>" now] Begin
  by (auto simp: moves_def refresh_terminal_frame plan_inv_def)

lemma cancel_moves:
  assumes "p_tasks q = sql_update (\<lambda>t. \<not> task_is_terminal t)
      (\<lambda>t. t\<lparr>pt_status := PT_CANCELLED, pt_updated_at := now\<rparr>) (p_tasks p)"
  shows "moves p q"
proof -
  have "board_of (p_tasks q) = abort (board_of (p_tasks p))"
  proof
    fix i
    show "board_of (p_tasks q) i = abort (board_of (p_tasks p)) i"
      by (cases "lookup_row pt_id i (p_tasks p)")
        (auto simp: assms board_of_def abort_def status_of_task_def lookup_row_update task_is_terminal_def
          task_terminal_def dead_def)
  qed
  with Abort show ?thesis by (simp add: moves_def)
qed

lemma set_task_moves:
  assumes inv: "plan_inv p" and find: "find_task p tid = Inr t" and f: "\<And>x. pt_id (f x) = pt_id x"
    and st: "pt_status t = PT_READY \<and> pt_status (f t) = PT_ASSIGNED \<or>
      pt_status t = PT_ASSIGNED \<and> pt_status (f t) = PT_IN_PROGRESS"
  shows "moves p (set_task tid f p)"
proof -
  have "tasks_inv (p_tasks p)" using inv by (simp add: plan_inv_def)
  then have b: "board_of (p_tasks p) tid = Some (phase_of (pt_status t))"
    using board_in [of "p_tasks p" t] find_task_unique [OF find] by auto
  note new = board_set_task [OF find, of f, OF f]
  from st show ?thesis
  proof
    assume "pt_status t = PT_READY \<and> pt_status (f t) = PT_ASSIGNED"
    with b new Take_Job [of "board_of (p_tasks p)" tid] show ?thesis by (simp add: moves_def)
  next
    assume "pt_status t = PT_ASSIGNED \<and> pt_status (f t) = PT_IN_PROGRESS"
    with b new show ?thesis by (simp add: moves_def fun_upd_idem)
  qed
qed

lemma requests_move:
  fixes p :: plan
  assumes inv: "plan_db_inv s" and p: "plan_at pid s = Some p"
  shows "approve pid actor s = Inr (q, s') \<Longrightarrow> moves p q"
    and "activate pid s = Inr (q, s') \<Longrightarrow> moves p q"
    and "pause pid s = Inr (q, s') \<Longrightarrow> moves p q"
    and "cancel pid s = Inr (q, s') \<Longrightarrow> moves p q"
    and "assign_task pid tid task s = Inr (q, s') \<Longrightarrow> moves p q"
    and "start_task pid tid s = Inr (q, s') \<Longrightarrow> moves p q"
    and "finish_task pid tid a s = Inr (q, s') \<Longrightarrow> moves p q"
proof -
  have r: "pm_require pid s = Inr p" using p by (simp add: pm_require_Inr [OF inv])
  have pi: "plan_inv p" using plan_at_inv [OF inv p] by simp
  show "approve pid actor s = Inr (q, s') \<Longrightarrow> moves p q"
    by (auto simp: approve_def Let_def r plan_transition_Inr intro: moves_same)
  show "pause pid s = Inr (q, s') \<Longrightarrow> moves p q"
    by (auto simp: pause_def r plan_transition_Inr intro: moves_same)
  show "activate pid s = Inr (q, s') \<Longrightarrow> moves p q"
    by (auto simp: activate_def Let_def r plan_transition_Inr intro: activate_moves [OF pi])
  show "cancel pid s = Inr (q, s') \<Longrightarrow> moves p q"
    by (auto simp: cancel_def Let_def r plan_transition_Inr intro!: cancel_moves [where now = "p_clock s"])
  show "assign_task pid tid task s = Inr (q, s') \<Longrightarrow> moves p q"
    by (auto simp: assign_task_def Let_def r split: if_splits intro!: set_task_moves [OF pi])
  show "start_task pid tid s = Inr (q, s') \<Longrightarrow> moves p q"
    by (auto simp: start_task_def Let_def r split: if_splits intro!: set_task_moves [OF pi])
  show "moves p q" if fin: "finish_task pid tid a s = Inr (q, s')"
  proof (cases "plan_terminal (p_status p)")
    case True
    with fin show ?thesis by (simp add: finish_task_def r moves_refl)
  next
    case False
    with fin obtain t p1 ev where t: "find_task p tid = Inr t" "task_running t"
        "settle_task a (p_clock s) tid t p = Inr (p1, ev)" "p_status p \<in> {P_ACTIVE, P_PAUSED}"
        "p_tasks q = p_tasks (refresh_ready (p_clock s) p1)"
      by (auto simp: finish_task_def Let_def r case_prod_Inr refresh_terminal_frame split: if_splits)
    from settle_board [OF t(1,2) pi t(4,3)] t(5) show ?thesis by (simp add: moves_def)
  qed
qed

lemma replaced_moves:
  assumes "plan_db_inv s" and "replaced pid' p' q' s s'" and "moves p' q'"
    and "plan_at pid s = Some p" and "plan_at pid s' = Some q"
  shows "moves p q"
  using replaced_at [OF assms(1,2), of pid] assms(2-5)
  by (cases "pid = pid'") (auto simp: replaced_def moves_refl)

lemma exec_plan_moves:
  assumes ex: "exec_plan op s = Inr s'" and inv: "plan_db_inv s"
    and p: "plan_at pid s = Some p" and q: "plan_at pid s' = Some q"
  shows "moves p q"
proof -
  have same: "plan_at pid s' = plan_at pid s \<Longrightarrow> moves p q" using p q by (simp add: moves_refl)
  have step: "moves p q" if "replaced pid' p' q' s s'" "moves p' q'" for pid' p' q'
    by (rule replaced_moves [OF inv that p q])
  note rm = requests_move [OF inv]
  have old: "plan_at pid' s = Some p'" if "replaced pid' p' q' s s'" for pid' p' q'
    using that by (simp add: replaced_def)
  show ?thesis
  proof (cases op)
    case (PreviewPlan c sid raw prompt title goal)
    with ex obtain x where "create_preview c sid raw prompt title goal s = Inr (x, s')" by (auto simp: case_prod_Inr)
    from preview_step [OF inv this] fresh_plan_id [OF inv] p show ?thesis by (intro same) auto
  next
    case (ApprovePlan pid' actor)
    with ex obtain x where x: "approve pid' actor s = Inr (x, s')" by (auto simp: case_prod_Inr)
    from approve_replaced [OF inv this] old rm(1) [OF _ x] step show ?thesis by blast
  next
    case (ActivatePlan pid')
    with ex obtain x where x: "activate pid' s = Inr (x, s')" by (auto simp: case_prod_Inr)
    from activate_replaced [OF inv this] old rm(2) [OF _ x] step show ?thesis by blast
  next
    case (PausePlan pid')
    with ex obtain x where x: "pause pid' s = Inr (x, s')" by (auto simp: case_prod_Inr)
    from pause_replaced [OF inv this] old rm(3) [OF _ x] step show ?thesis by blast
  next
    case (CancelPlan pid')
    with ex obtain x where x: "cancel pid' s = Inr (x, s')" by (auto simp: case_prod_Inr)
    from cancel_replaced [OF inv this] old rm(4) [OF _ x] step show ?thesis by blast
  next
    case (AssignTask pid' tid task)
    with ex obtain x where x: "assign_task pid' tid task s = Inr (x, s')" by (auto simp: case_prod_Inr)
    from assign_replaced [OF inv this] old rm(5) [OF _ x] step show ?thesis by blast
  next
    case (StartTask pid' tid)
    with ex obtain x where x: "start_task pid' tid s = Inr (x, s')" by (auto simp: case_prod_Inr)
    from start_replaced [OF inv this] old rm(6) [OF _ x] step show ?thesis by blast
  next
    case (FinishTask pid' tid a)
    with ex obtain x where x: "finish_task pid' tid a s = Inr (x, s')" by (auto simp: case_prod_Inr)
    from finish_replaced [OF inv this] old rm(7) [OF _ x] step same show ?thesis by blast
  next
    case (ArchivePlan pid')
    with ex obtain x where "archive_terminal pid' s = Inr (x, s')" by (auto simp: case_prod_Inr)
    then have "s' = snd (delete_plan pid' s)" by (auto simp: archive_terminal_def split: if_splits)
    with q show ?thesis by (intro same) (auto simp: plan_at_delete split: if_splits)
  next
    case (PlanTime t)
    with ex have "plan_at pid s' = plan_at pid s" by (auto intro: plan_at_frame)
    then show ?thesis by (rule same)
  qed
qed

end
