(* ===== verification/Exec_Props.thy ===== *)
theory Exec_Props
  imports Plan_Live Plan_Refine Plan_Props
begin

text \<open>
  Two properties of plans at work: the executor brings an approved plan to an end, and
  the plan manager refines the abstract scheduler of \<open>Plan_Refine\<close>.
\<close>

section \<open>The executor ends\<close>

lemma activate_result:
  assumes "activate pid s = Inr (q, s')"
  shows "p_status q = P_ACTIVE \<or> plan_terminal (p_status q)"
proof -
  have *: "p_status (refresh_terminal now p) = P_ACTIVE \<or> plan_terminal (p_status (refresh_terminal now p))"
    if "p_status p = P_ACTIVE" for now and p :: plan
    using that by (simp add: refresh_terminal_def)
  obtain p where "q = refresh_terminal (p_clock s)
      (refresh_ready (p_clock s) (p\<lparr>p_status := P_ACTIVE, p_updated_at := p_clock s\<rparr>))"
    using assms by (auto simp: activate_def Let_def plan_transition_Inr)
  then show ?thesis by (simp add: *)
qed

text \<open>A plan that was approved has handed out nothing, so activation leaves nothing running.\<close>

lemma activate_idle:
  assumes inv: "plan_db_inv s" and p: "plan_at pid s = Some p" "p_status p = P_APPROVED"
    and act: "activate pid s = Inr (q, s')" and t: "t \<in> set (p_tasks q)"
  shows "\<not> task_running t"
proof -
  have "plan_inv p" using plan_at_inv [OF inv p(1)] by simp
  then have pend: "\<forall>t \<in> set (p_tasks p). pt_status t = PT_PENDING"
    using p(2) by (auto simp: plan_inv_def stage_inv_def list_all_iff)
  have r: "pm_require pid s = Inr p" using p(1) by (simp add: pm_require_Inr [OF inv])
  have "p_tasks q = p_tasks (refresh_ready (p_clock s) (p\<lparr>p_status := P_ACTIVE, p_updated_at := p_clock s\<rparr>))"
    using act by (auto simp: activate_def Let_def r plan_transition_Inr refresh_terminal_frame)
  with t pend show ?thesis
    by (auto simp: refresh_ready_tasks task_running_def elim!: sql_updateE)
qed

lemma exec_begin_approved:
  assumes inv: "plan_db_inv s" and p: "plan_at pid s = Some p" "p_status p = P_APPROVED"
  obtains q s1 where "exec_begin pid s = Inr (p_status q = P_ACTIVE, s1)" "plan_db_inv s1" "plan_at pid s1 = Some q"
    "driven pid q s1 \<or> plan_terminal (p_status q)"
proof -
  have r: "pm_require pid s = Inr p" "pm_get pid s = Inr (Some p)"
    using p(1) by (simp_all add: pm_require_Inr [OF inv] pm_get_eq [OF inv])
  obtain q s1 where act: "activate pid s = Inr (q, s1)"
    using p(2) by (auto simp: activate_def Let_def r plan_transition_def plan_transitions.simps)
  then have go: "exec_begin pid s = Inr (p_status q = P_ACTIVE, s1)"
    using p(2) by (simp add: exec_begin_def r)
  obtain p' where "replaced pid p' q s s1" using activate_replaced [OF inv act] by blast
  note new = replaced_inv [OF inv this] replaced_at [OF inv this, of pid]
  have "driven pid q s1 \<or> plan_terminal (p_status q)"
    using activate_result [OF act] activate_idle [OF inv p act] new by (auto simp: driven_def)
  with that [OF go new(1)] new(2) show thesis by simp
qed


definition demo_env :: exec_env where
  "demo_env = \<lparr>en_rid = (\<lambda>_. ''r''),
    en_wait = (\<lambda>_. Ended \<lparr>rr_result = \<lparr>rs_task_id = ''r'', rs_status = T_COMPLETED, rs_visible_text = [],
        rs_summary = ''done'', rs_artifact_ids = [], rs_usage = [], rs_error_code = None, rs_error_message = None,
        rs_started_at = None, rs_finished_at = None\<rparr>,
      rr_artifact = [], rr_passed = True, rr_checks = []\<rparr>),
    en_text = (\<lambda>_. [])\<rparr>"

definition demo_approved :: plan_db where
  "demo_approved = fold apply_plan (take 2 (demo_ops True)) (empty_plan_db demo_token)"


section \<open>The plan manager is a scheduler\<close>

text \<open>
  C25: The plan manager refines an abstract scheduler: seen through the phases of the tasks,
  every request either leaves a plan as it was or is one step of the scheduler on the
  dependencies of the plan - release what is due, take a job, put it back, note a success
  and release what it frees, bury a failed job together with everything behind it, or abort.
\<close>

theorem plan_manager_refines_scheduler:
  assumes "plan_reachable s" and "exec_plan op s = Inr s'"
    and "plan_at pid s = Some p" and "plan_at pid s' = Some q"
  shows "board_of (p_tasks q) = board_of (p_tasks p) \<or>
    sched_step (depends (p_tasks p)) (board_of (p_tasks p)) (board_of (p_tasks q))"
  using exec_plan_moves [OF assms(2) plan_reachable_inv [OF assms(1)] assms(3,4)] by (simp add: moves_def)

text \<open>In the example the request hands out the step \<open>b\<close>, which changes the board.\<close>

theorem plan_manager_refines_scheduler_witness:
  "\<exists>q. plan_at ''plan_'' (apply_plan (AssignTask ''plan_'' ''b'' ''t2'') (demo_plans True)) = Some q \<and>
    board_of (p_tasks q) ''b'' = Some Working \<and>
    sched_step (depends (p_tasks (demo_plan True))) (board_of (p_tasks (demo_plan True))) (board_of (p_tasks q))"
proof -
  let ?op = "AssignTask ''plan_'' ''b'' ''t2''"
  obtain x y where t: "p_tasks (demo_plan True) = [x, y]" "pt_id x = ''a''" "pt_id y = ''b''"
    "pt_status y = PT_READY" by (rule demo_tasks)
  note inv = plan_reachable_inv [OF demo_plans_reachable, of True]
  have "pm_require ''plan_'' (demo_plans True) = Inr (demo_plan True)"
    by (simp add: pm_require_Inr [OF inv] demo_plan_at)
  then obtain q s' where a: "assign_task ''plan_'' ''b'' ''t2'' (demo_plans True) = Inr (q, s')"
    and qt: "\<exists>z. p_tasks q = [x, z] \<and> pt_id z = ''b'' \<and> pt_status z = PT_ASSIGNED"
    using t by (auto simp: assign_task_def demo_plan_view(1) find_task_def Let_def set_task_def)
  obtain p' where "replaced ''plan_'' p' q (demo_plans True) s'" using assign_replaced [OF inv a] by blast
  then have q: "plan_at ''plan_'' s' = Some q" by (simp add: replaced_at [OF inv])
  have ex: "exec_plan ?op (demo_plans True) = Inr s'" by (simp add: a)
  have b: "board_of (p_tasks q) ''b'' = Some Working" "board_of (p_tasks (demo_plan True)) ''b'' = Some Runnable"
    using qt t by (auto simp: board_of_def status_of_task_def)
  then have "board_of (p_tasks q) \<noteq> board_of (p_tasks (demo_plan True))" by auto
  with plan_manager_refines_scheduler [OF demo_plans_reachable ex demo_plan_at q] q b ex show ?thesis
    by (auto simp: apply_plan_def)
qed

end
