(* ===== verification/Event_Bus.thy ===== *)
theory Event_Bus
  imports Py_Json
begin

text \<open>
  The event bus of the web page and its event streams (\<open>gateway/webui/events.py\<close>):
  \<open>EventBus\<close> and \<open>SSEHandler\<close>.

  Publishing runs in any thread: under the lock it numbers the event and notes who is
  subscribed, afterwards it hands one call per subscriber to the event loop. As several
  threads do so at a time, the loop may run these calls in any order. A stream subscribes,
  replays what the client missed, and then forwards its queue; between any two of these the
  others go on. The text of the frames is left out.
\<close>

section \<open>Events and subscriptions\<close>

text \<open>\<open>ev_encoded\<close>: the event carries its encoded frame; published events do, others do not.\<close>

record event =
  ev_type :: string
  ev_data :: dict
  ev_at :: nat
  ev_id :: nat
  ev_encoded :: bool

record sse_scope =
  sc_session :: string
  sc_workspace :: string
  sc_workspace_session :: string

record subscription =
  su_mark :: nat
  su_scope :: sse_scope

text \<open>
  Queues are objects: a stream keeps its queue when its subscription is gone. \<open>None\<close> in a
  queue tells the stream to end. \<open>eb_calls\<close> are the calls that the loop has still to run.
\<close>

record event_bus =
  eb_loop :: bool
  eb_subs :: "(nat \<times> subscription) list"
  eb_queues :: "nat \<Rightarrow> event option list"
  eb_calls :: "(nat \<times> event) list"
  eb_counter :: nat
  eb_seq :: nat
  eb_backlog :: "event list"
  eb_size :: nat
  eb_ttl :: nat

definition QUEUE_MAX :: nat where
  "QUEUE_MAX = 100"

definition new_bus :: "int \<Rightarrow> nat \<Rightarrow> event_bus" where
  "new_bus max_size ttl =
    \<lparr>eb_loop = False, eb_subs = [], eb_queues = (\<lambda>_. []), eb_calls = [], eb_counter = 0, eb_seq = 0,
     eb_backlog = [], eb_size = nat (max 1 max_size), eb_ttl = ttl\<rparr>"

definition bind_loop :: "bool \<Rightarrow> event_bus \<Rightarrow> event_bus" where
  "bind_loop running b = b\<lparr>eb_loop := running\<rparr>"

definition subscribe :: "sse_scope \<Rightarrow> event_bus \<Rightarrow> nat \<times> event_bus" where
  "subscribe scope b =
    (let n = Suc (eb_counter b)
     in (n, b\<lparr>eb_counter := n, eb_queues := (eb_queues b)(n := []),
              eb_subs := eb_subs b @ [(n, \<lparr>su_mark = eb_seq b, su_scope = scope\<rparr>)]\<rparr>))"

definition unsubscribe :: "nat \<Rightarrow> event_bus \<Rightarrow> event_bus" where
  "unsubscribe n b = b\<lparr>eb_subs := AList.delete n (eb_subs b)\<rparr>"

definition watermark :: "nat \<Rightarrow> event_bus \<Rightarrow> nat" where
  "watermark n b = (case map_of (eb_subs b) n of None \<Rightarrow> 0 | Some u \<Rightarrow> su_mark u)"

text \<open>\<open>put_nowait\<close> does nothing on a full queue.\<close>

definition put_nowait :: "'a \<Rightarrow> 'a list \<Rightarrow> 'a list" where
  "put_nowait x q = (if QUEUE_MAX \<le> length q then q else q @ [x])"

definition close_all :: "event_bus \<Rightarrow> event_bus" where
  "close_all b = b\<lparr>eb_subs := [],
    eb_queues := (\<lambda>n. if n \<in> fst ` set (eb_subs b) then put_nowait None (eb_queues b n) else eb_queues b n)\<rparr>"

section \<open>Publishing\<close>

text \<open>Every field that the subscription asks for must be there and equal.\<close>

definition matches_scope :: "event \<Rightarrow> sse_scope \<Rightarrow> bool" where
  "matches_scope e sc \<longleftrightarrow>
    (sc_session sc = [] \<or> dget (ev_data e) ''session_key'' = JStr (sc_session sc)) \<and>
    (sc_workspace sc = [] \<or> dget (ev_data e) ''workspace_id'' = JStr (sc_workspace sc)) \<and>
    (sc_workspace_session sc = [] \<or>
      dget (ev_data e) ''workspace_session_id'' = JStr (sc_workspace_session sc))"

text \<open>\<open>deque(maxlen=n)\<close> drops from the left.\<close>

definition deque_append :: "nat \<Rightarrow> 'a \<Rightarrow> 'a list \<Rightarrow> 'a list" where
  "deque_append n x xs = drop (Suc (length xs) - n) (xs @ [x])"

definition new_event :: "nat \<Rightarrow> string \<Rightarrow> dict \<Rightarrow> event_bus \<Rightarrow> event" where
  "new_event now type payload b =
    \<lparr>ev_type = type, ev_data = payload, ev_at = now, ev_id = Suc (eb_seq b), ev_encoded = True\<rparr>"

definition publish :: "nat \<Rightarrow> string \<Rightarrow> dict \<Rightarrow> event_bus \<Rightarrow> event_bus" where
  "publish now type payload b =
    (if \<not> eb_loop b then b
     else (let e = new_event now type payload b
           in b\<lparr>eb_seq := Suc (eb_seq b), eb_backlog := deque_append (eb_size b) e (eb_backlog b),
                eb_calls := eb_calls b @
                  map (\<lambda>(i, _). (i, e)) (filter (\<lambda>(_, u). matches_scope e (su_scope u)) (eb_subs b))\<rparr>))"

text \<open>The notice for a dropped event, when it says where to send it.\<close>

definition gap_event :: "nat \<Rightarrow> event \<Rightarrow> event option" where
  "gap_event now d =
    (case dget (ev_data d) ''conversation_id'' of
       JStr (c # cs) \<Rightarrow>
         Some \<lparr>ev_type = ''version_gap'',
           ev_data = [(''conversation_id'', JStr (c # cs)),
             (''session_key'', dfield (ev_data d) ''session_key'' (JStr [])),
             (''scope'', JStr ''session''), (''version'', JInt 0), (''reason'', JStr ''queue_overflow'')],
           ev_at = now, ev_id = ev_id d, ev_encoded = False\<rparr>
     | _ \<Rightarrow>
         (case dget (ev_data d) ''session_key'' of
            JStr (k # ks) \<Rightarrow>
              Some \<lparr>ev_type = ''version_gap'',
                ev_data = [(''session_key'', JStr (k # ks)), (''scope'', JStr ''session''), (''version'', JInt 0)],
                ev_at = now, ev_id = ev_id d, ev_encoded = False\<rparr>
          | _ \<Rightarrow> None))"

text \<open>Drops from the left until there is room; the last item that was dropped, if any.\<close>

fun make_room :: "'a option \<Rightarrow> 'a list \<Rightarrow> 'a option \<times> 'a list" where
  "make_room dropped [] = (dropped, [])"
| "make_room dropped (x # q) =
    (if QUEUE_MAX \<le> length (x # q) then make_room (Some x) q else (dropped, x # q))"

text \<open>A dropped \<open>None\<close> reads as nothing dropped.\<close>

definition put_drop_oldest :: "nat \<Rightarrow> event \<Rightarrow> event option list \<Rightarrow> event option list" where
  "put_drop_oldest now e q =
    (let (dropped, q1) = make_room None q;
         q2 = put_nowait (Some e) q1
     in case dropped of
          Some (Some d) \<Rightarrow>
            (case gap_event now d of
               None \<Rightarrow> q2
             | Some g \<Rightarrow> put_nowait (Some g) (snd (make_room None q2)))
        | _ \<Rightarrow> q2)"

text \<open>The loop runs one of the calls.\<close>

definition run_call :: "nat \<Rightarrow> nat \<Rightarrow> event_bus \<Rightarrow> event_bus" where
  "run_call k now b =
    (if k < length (eb_calls b)
     then (let (n, e) = eb_calls b ! k
           in b\<lparr>eb_calls := take k (eb_calls b) @ drop (Suc k) (eb_calls b),
                eb_queues := (eb_queues b)(n := put_drop_oldest now e (eb_queues b n))\<rparr>)
     else b)"

section \<open>Replay\<close>

definition replay :: "nat \<Rightarrow> int \<Rightarrow> int \<Rightarrow> sse_scope \<Rightarrow> event_bus \<Rightarrow> event list" where
  "replay now after since scope b =
    filter (\<lambda>e. \<not> int (ev_id e) \<le> after \<and> \<not> (since \<noteq> 0 \<and> int (ev_at e) < since) \<and>
        \<not> ev_at e + eb_ttl b < now \<and> matches_scope e scope)
      (eb_backlog b)"

definition min_replayable_event_id :: "nat \<Rightarrow> event_bus \<Rightarrow> nat" where
  "min_replayable_event_id now b =
    (case filter (\<lambda>e. now \<le> ev_at e + eb_ttl b) (eb_backlog b) of
       [] \<Rightarrow> 0
     | e # es \<Rightarrow> fold (\<lambda>x m. min m (ev_id x)) es (ev_id e))"

definition backlog_gap_event :: "nat \<Rightarrow> string \<Rightarrow> string \<Rightarrow> nat \<Rightarrow> event" where
  "backlog_gap_event now cid key n =
    \<lparr>ev_type = ''version_gap'',
     ev_data = [(''conversation_id'', JStr cid), (''session_key'', JStr key),
       (''scope'', JStr ''session''), (''version'', JInt 0), (''reason'', JStr ''backlog_expired'')],
     ev_at = now, ev_id = n, ev_encoded = False\<rparr>"

fun conversation_of :: "event list \<Rightarrow> string" where
  "conversation_of [] = []"
| "conversation_of (e # es) =
    (case dget (ev_data e) ''conversation_id'' of JStr (c # cs) \<Rightarrow> c # cs | _ \<Rightarrow> conversation_of es)"

definition max_event_id :: "event list \<Rightarrow> nat \<Rightarrow> nat" where
  "max_event_id es m = fold (\<lambda>e m. max m (ev_id e)) es m"

definition backlog_gap_frame :: "nat \<Rightarrow> sse_scope \<Rightarrow> int \<Rightarrow> event list \<Rightarrow> event_bus \<Rightarrow> event option" where
  "backlog_gap_frame now scope last_id replayed b =
    (if last_id \<le> 0 then None
     else if int (min_replayable_event_id now b) \<le> last_id + 1 then None
     else (let cid = conversation_of (rev replayed)
           in if cid = [] then None
              else Some (backlog_gap_event now cid (sc_session scope)
                (if replayed = [] then nat last_id else max_event_id replayed 0))))"

definition replay_plan ::
  "nat \<Rightarrow> sse_scope \<Rightarrow> int \<Rightarrow> int \<Rightarrow> nat \<Rightarrow> event_bus \<Rightarrow> event list \<times> event option \<times> nat" where
  "replay_plan now scope last_id since mark b =
    (let events = (if last_id \<noteq> 0 \<or> since \<noteq> 0 then replay now last_id since scope b else [])
     in (events, backlog_gap_frame now scope last_id events b, max_event_id events mark))"

section \<open>Streams\<close>

datatype stage = Opened | Live | Ended_Stream

text \<open>\<open>cn_out\<close> are the frames written so far.\<close>

record stream_conn =
  cn_sub :: nat
  cn_scope :: sse_scope
  cn_last :: int
  cn_since :: int
  cn_mark :: nat
  cn_stage :: stage
  cn_out :: "event list"

definition open_stream :: "sse_scope \<Rightarrow> int \<Rightarrow> int \<Rightarrow> event_bus \<Rightarrow> stream_conn \<times> event_bus" where
  "open_stream scope last_id since b =
    (let (n, b1) = subscribe scope b
     in (\<lparr>cn_sub = n, cn_scope = scope, cn_last = last_id, cn_since = since,
          cn_mark = watermark n b1, cn_stage = Opened, cn_out = []\<rparr>, b1))"

definition start_stream :: "nat \<Rightarrow> event_bus \<Rightarrow> stream_conn \<Rightarrow> stream_conn" where
  "start_stream now b c =
    (if cn_stage c \<noteq> Opened then c
     else (let (events, gap, mark) = replay_plan now (cn_scope c) (cn_last c) (cn_since c) (cn_mark c) b
           in c\<lparr>cn_stage := Live, cn_mark := mark,
                cn_out := events @ (case gap of None \<Rightarrow> [] | Some g \<Rightarrow> [g])\<rparr>))"

text \<open>The \<open>finally\<close> block of the handler.\<close>

definition end_stream :: "event_bus \<Rightarrow> stream_conn \<Rightarrow> event_bus \<times> stream_conn" where
  "end_stream b c = (unsubscribe (cn_sub c) b, c\<lparr>cn_stage := Ended_Stream\<rparr>)"

definition forward :: "event_bus \<Rightarrow> stream_conn \<Rightarrow> event_bus \<times> stream_conn" where
  "forward b c =
    (if cn_stage c \<noteq> Live then (b, c)
     else case eb_queues b (cn_sub c) of
       [] \<Rightarrow> (b, c)
     | x # q \<Rightarrow>
         (let b1 = b\<lparr>eb_queues := (eb_queues b)(cn_sub c := q)\<rparr>
          in case x of
               None \<Rightarrow> end_stream b1 c
             | Some e \<Rightarrow>
                 if ev_id e \<le> cn_mark c then (b1, c)
                 else if \<not> matches_scope e (cn_scope c) then (b1, c)
                 else (b1, c\<lparr>cn_out := cn_out c @ [e]\<rparr>)))"

section \<open>The server\<close>

text \<open>
  \<open>se_log\<close> and \<open>se_dropped\<close> are for the statements only: everything published so far, and the
  subscriptions whose queue was full when a call put something into it.
\<close>

record sse_server =
  se_bus :: event_bus
  se_conns :: "stream_conn list"
  se_log :: "event list"
  se_dropped :: "nat list"

datatype sse_op =
    Bind_Loop bool
  | Publish nat string dict
  | Run_Call nat nat
  | Open_Stream sse_scope int int
  | Start_Stream nat nat
  | Forward nat
  | Disconnect nat
  | Close_All

definition published :: "nat \<Rightarrow> string \<Rightarrow> dict \<Rightarrow> event_bus \<Rightarrow> event list" where
  "published now type payload b = (if eb_loop b then [new_event now type payload b] else [])"

definition overflows :: "nat \<Rightarrow> event_bus \<Rightarrow> nat list" where
  "overflows k b =
    (if k < length (eb_calls b) \<and> QUEUE_MAX \<le> length (eb_queues b (fst (eb_calls b ! k)))
     then [fst (eb_calls b ! k)] else [])"

fun exec_sse :: "sse_op \<Rightarrow> sse_server \<Rightarrow> sse_server" where
  "exec_sse (Bind_Loop running) s = s\<lparr>se_bus := bind_loop running (se_bus s)\<rparr>"
| "exec_sse (Publish now type payload) s =
    s\<lparr>se_bus := publish now type payload (se_bus s),
      se_log := se_log s @ published now type payload (se_bus s)\<rparr>"
| "exec_sse (Run_Call k now) s =
    s\<lparr>se_bus := run_call k now (se_bus s), se_dropped := overflows k (se_bus s) @ se_dropped s\<rparr>"
| "exec_sse (Open_Stream scope last_id since) s =
    (let (c, b) = open_stream scope last_id since (se_bus s)
     in s\<lparr>se_bus := b, se_conns := se_conns s @ [c]\<rparr>)"
| "exec_sse (Start_Stream i now) s =
    (if i < length (se_conns s)
     then s\<lparr>se_conns := (se_conns s)[i := start_stream now (se_bus s) (se_conns s ! i)]\<rparr> else s)"
| "exec_sse (Forward i) s =
    (if i < length (se_conns s)
     then (let (b, c) = forward (se_bus s) (se_conns s ! i)
           in s\<lparr>se_bus := b, se_conns := (se_conns s)[i := c]\<rparr>) else s)"
| "exec_sse (Disconnect i) s =
    (if i < length (se_conns s)
     then (let (b, c) = end_stream (se_bus s) (se_conns s ! i)
           in s\<lparr>se_bus := b, se_conns := (se_conns s)[i := c]\<rparr>) else s)"
| "exec_sse Close_All s = s\<lparr>se_bus := close_all (se_bus s)\<rparr>"

definition new_server :: "int \<Rightarrow> nat \<Rightarrow> sse_server" where
  "new_server max_size ttl = \<lparr>se_bus = new_bus max_size ttl, se_conns = [], se_log = [], se_dropped = []\<rparr>"

definition sse_reachable :: "sse_server \<Rightarrow> bool" where
  "sse_reachable s \<longleftrightarrow> (\<exists>max_size ttl ops. s = fold exec_sse ops (new_server max_size ttl))"

end
