(* ===== verification/Event_Inv.thy ===== *)
theory Event_Inv
  imports Event_Bus "HOL-Library.Multiset"
begin

text \<open>
  The invariant of the event bus and its streams: what is on its way to a stream, and why
  no published event reaches it twice.
\<close>

section \<open>On the way\<close>

fun encoded_items :: "event option list \<Rightarrow> event list" where
  "encoded_items [] = []"
| "encoded_items (None # q) = encoded_items q"
| "encoded_items (Some e # q) = (if ev_encoded e then e # encoded_items q else encoded_items q)"

lemma encoded_items_append [simp]: "encoded_items (p @ q) = encoded_items p @ encoded_items q"
  by (induction p rule: encoded_items.induct) auto

definition called :: "nat \<Rightarrow> (nat \<times> event) list \<Rightarrow> event list" where
  "called n calls = map snd (filter (\<lambda>c. fst c = n) calls)"

lemma called_append [simp]: "called n (xs @ ys) = called n xs @ called n ys"
  by (simp add: called_def)

text \<open>The published events in the queue of a subscription and in the calls for it.\<close>

definition waiting :: "nat \<Rightarrow> event_bus \<Rightarrow> event list" where
  "waiting n b = encoded_items (eb_queues b n) @ called n (eb_calls b)"

lemma distinct_sub_mset:
  assumes "distinct (map f xs)" and "mset ys \<subseteq># mset xs"
  shows "distinct (map f ys)"
proof -
  obtain zs where "mset (ys @ zs) = mset xs"
    using assms(2) by (metis mset_append ex_mset subset_mset.add_diff_inverse)
  then have "distinct (map f (ys @ zs))"
    using assms(1) by (metis distinct_count_atmost_1 mset_map set_mset_mset)
  then show ?thesis by simp
qed

lemma encoded_items_drop: "mset (encoded_items (drop k q)) \<subseteq># mset (encoded_items q)"
  by (metis append_take_drop_id encoded_items_append mset_append mset_subset_eq_add_right)

section \<open>A full queue\<close>

lemma make_room_drop: "snd (make_room d q) = drop (length q - (QUEUE_MAX - 1)) q"
proof (induction d q rule: make_room.induct)
  case (2 d x q)
  show ?case
  proof (cases "QUEUE_MAX \<le> length (x # q)")
    case True
    then have "length (x # q) - (QUEUE_MAX - 1) = Suc (length q - (QUEUE_MAX - 1))"
      by (simp add: QUEUE_MAX_def)
    with 2 True show ?thesis by simp
  next
    case False
    then have "length (x # q) - (QUEUE_MAX - 1) = 0" by simp
    with False show ?thesis by simp
  qed
qed simp

lemma put_nowait_room: "length q < QUEUE_MAX \<Longrightarrow> put_nowait x q = q @ [x]"
  by (simp add: put_nowait_def)

lemma put_drop_oldest_room:
  assumes "length q < QUEUE_MAX"
  shows "put_drop_oldest now e q = q @ [Some e]"
proof -
  have "make_room None q = (None, q)" using assms by (cases q) auto
  with assms show ?thesis by (simp add: put_drop_oldest_def put_nowait_room)
qed

lemma encoded_gap: "gap_event now d = Some g \<Longrightarrow> \<not> ev_encoded g"
  by (auto simp: gap_event_def split: json.splits list.splits)

text \<open>The new event always gets in; a full queue loses some items from the left.\<close>

lemma put_drop_oldest_items:
  assumes "ev_encoded e"
  shows "\<exists>k. encoded_items (put_drop_oldest now e q) = encoded_items (drop k q) @ [e]"
proof -
  obtain d i r where m: "make_room None q = (d, r)" and r: "r = drop i q" "length r < QUEUE_MAX"
  proof (rule that)
    show "make_room None q = (fst (make_room None q), snd (make_room None q))" by simp
    show "snd (make_room None q) = drop (length q - (QUEUE_MAX - 1)) q" by (rule make_room_drop)
    show "length (snd (make_room None q)) < QUEUE_MAX" by (simp add: make_room_drop QUEUE_MAX_def)
  qed
  obtain j where j: "snd (make_room None (r @ [Some e])) = drop j r @ [Some e]"
    and len: "length (drop j r @ [Some e]) < QUEUE_MAX"
  proof (rule that [of "Suc (length r) - (QUEUE_MAX - 1)"])
    have "Suc (length r) - (QUEUE_MAX - 1) \<le> length r" using r(2) by (simp add: QUEUE_MAX_def)
    then show "snd (make_room None (r @ [Some e])) = drop (Suc (length r) - (QUEUE_MAX - 1)) r @ [Some e]"
      by (simp add: make_room_drop)
  qed (simp add: QUEUE_MAX_def)
  show ?thesis
  proof (cases "\<exists>x g. d = Some (Some x) \<and> gap_event now x = Some g")
    case True
    then obtain x g where g: "d = Some (Some x)" "gap_event now x = Some g" by blast
    with m j have "put_drop_oldest now e q = drop j r @ [Some e, Some g]"
      by (simp add: put_drop_oldest_def put_nowait_room [OF r(2)] put_nowait_room [OF len])
    with assms encoded_gap [OF g(2)] show ?thesis by (intro exI [of _ "j + i"]) (simp add: r(1))
  next
    case False
    with m have "put_drop_oldest now e q = r @ [Some e]"
      by (auto simp: put_drop_oldest_def Let_def put_nowait_room [OF r(2)] split: option.splits)
    with assms show ?thesis by (intro exI [of _ i]) (simp add: r(1))
  qed
qed

section \<open>The bus\<close>

definition bus_inv :: "event list \<Rightarrow> event_bus \<Rightarrow> bool" where
  "bus_inv past b \<longleftrightarrow>
    (\<forall>e \<in> set past. ev_encoded e \<and> ev_id e \<le> eb_seq b) \<and>
    (\<forall>n. distinct (map ev_id (waiting n b)) \<and> set (waiting n b) \<subseteq> set past) \<and>
    snd ` set (eb_calls b) \<subseteq> set past \<and>
    (\<forall>n > eb_counter b. eb_queues b n = [] \<and> called n (eb_calls b) = [] \<and> map_of (eb_subs b) n = None) \<and>
    distinct (map fst (eb_subs b)) \<and>
    distinct (map ev_id (eb_backlog b)) \<and> set (eb_backlog b) \<subseteq> set past"

lemma bus_invD:
  assumes "bus_inv past b"
  shows "e \<in> set past \<Longrightarrow> ev_encoded e" "e \<in> set past \<Longrightarrow> ev_id e \<le> eb_seq b"
    "distinct (map ev_id (waiting n b))" "e \<in> set (waiting n b) \<Longrightarrow> e \<in> set past"
    "c \<in> set (eb_calls b) \<Longrightarrow> snd c \<in> set past"
    "eb_counter b < n \<Longrightarrow> waiting n b = []" "eb_counter b < n \<Longrightarrow> map_of (eb_subs b) n = None"
    "distinct (map fst (eb_subs b))" "distinct (map ev_id (eb_backlog b))" "set (eb_backlog b) \<subseteq> set past"
  using assms by (auto simp: bus_inv_def waiting_def)

text \<open>Most operations only take things off the way.\<close>

lemma bus_inv_less:
  assumes inv: "bus_inv past b" and "eb_seq b' = eb_seq b" "eb_counter b \<le> eb_counter b'"
    "eb_backlog b' = eb_backlog b" "set (eb_calls b') \<subseteq> set (eb_calls b)"
    and "distinct (map fst (eb_subs b'))" "\<And>n. eb_counter b' < n \<Longrightarrow> map_of (eb_subs b') n = None"
    and w: "\<And>n. mset (waiting n b') \<subseteq># mset (waiting n b)"
    and q: "\<And>n. eb_counter b' < n \<Longrightarrow> eb_queues b' n = []"
  shows "bus_inv past b'"
proof -
  note old = bus_invD [OF inv]
  show ?thesis
    unfolding bus_inv_def assms(2,4)
  proof (intro conjI ballI allI impI)
    show "called n (eb_calls b') = []" if "eb_counter b' < n" for n
    proof -
      have "called n (eb_calls b) = []" using that assms(3) inv by (simp add: bus_inv_def)
      then have "\<forall>c \<in> set (eb_calls b). fst c \<noteq> n" by (simp add: called_def filter_empty_conv)
      with assms(5) have "\<forall>c \<in> set (eb_calls b'). fst c \<noteq> n" by blast
      then show ?thesis by (simp add: called_def filter_empty_conv)
    qed
    show "distinct (map ev_id (waiting n b'))" for n by (rule distinct_sub_mset [OF old(3) w])
    show "set (waiting n b') \<subseteq> set past" for n
      using set_mset_mono [OF w [of n]] old(4) by auto
    show "snd ` set (eb_calls b') \<subseteq> set past" using assms(5) old(5) by blast
  qed (fact assms(6) old(9,10) | erule old(1,2) q assms(7))+
qed

lemma waiting_queue:
  "waiting m (b\<lparr>eb_queues := (eb_queues b)(n := q)\<rparr>) =
    (if m = n then encoded_items q @ called n (eb_calls b) else waiting m b)"
  by (simp add: waiting_def)

lemma bind_loop_inv: "bus_inv past b \<Longrightarrow> bus_inv past (bind_loop r b)"
  by (simp add: bus_inv_def bind_loop_def waiting_def)

lemma unsubscribe_inv: "bus_inv past b \<Longrightarrow> bus_inv past (unsubscribe n b)"
  by (auto simp: bus_inv_def unsubscribe_def waiting_def delete_conv' distinct_delete)

lemma subscribe_inv: "bus_inv past b \<Longrightarrow> bus_inv past (snd (subscribe scope b))"
  by (rule bus_inv_less)
    (auto simp: subscribe_def Let_def waiting_def bus_inv_def map_of_eq_None_iff)

lemma close_all_inv:
  assumes inv: "bus_inv past b"
  shows "bus_inv past (close_all b)"
proof -
  have "encoded_items (put_nowait None q) = encoded_items q" for q
    by (simp add: put_nowait_def)
  then have "waiting n (close_all b) = waiting n b" for n
    by (simp add: waiting_def close_all_def)
  moreover have "n \<notin> fst ` set (eb_subs b)" "eb_queues b n = []" if "eb_counter b < n" for n
    using inv that by (auto simp: bus_inv_def map_of_eq_None_iff)
  ultimately show ?thesis
    by (intro bus_inv_less [OF inv]) (auto simp: close_all_def)
qed

lemma called_take:
  assumes "k < length calls"
  shows "mset (called n calls) = mset (called n (take k calls @ drop (Suc k) calls)) +
    (if fst (calls ! k) = n then {# snd (calls ! k) #} else {#})"
proof -
  have "calls = take k calls @ calls ! k # drop (Suc k) calls" using assms by (rule id_take_nth_drop)
  then have "called n calls = called n (take k calls) @ called n [calls ! k] @ called n (drop (Suc k) calls)"
    by (metis append_Cons append_Nil called_append)
  then show ?thesis by (simp add: called_def)
qed

lemma run_call_waiting:
  assumes inv: "bus_inv past b"
  shows "mset (waiting n (run_call k now b)) \<subseteq># mset (waiting n b)"
    and "n \<notin> set (overflows k b) \<Longrightarrow> mset (waiting n (run_call k now b)) = mset (waiting n b)"
proof -
  have "mset (waiting n (run_call k now b)) \<subseteq># mset (waiting n b) \<and>
    (n \<notin> set (overflows k b) \<longrightarrow> mset (waiting n (run_call k now b)) = mset (waiting n b))"
  proof (cases "k < length (eb_calls b)")
    case True
    obtain m e where me: "eb_calls b ! k = (m, e)" by fastforce
    then have "(m, e) \<in> set (eb_calls b)" using True nth_mem by metis
    then have enc: "ev_encoded e" using bus_invD(1,5) [OF inv] by fastforce
    let ?c = "take k (eb_calls b) @ drop (Suc k) (eb_calls b)"
    note ct = called_take [OF True, of n, unfolded me]
    have rc: "run_call k now b =
        b\<lparr>eb_calls := ?c, eb_queues := (eb_queues b)(m := put_drop_oldest now e (eb_queues b m))\<rparr>"
      using True me by (simp add: run_call_def)
    obtain j where j: "encoded_items (put_drop_oldest now e (eb_queues b m)) =
        encoded_items (drop j (eb_queues b m)) @ [e]" using put_drop_oldest_items [OF enc] by blast
    have room: "encoded_items (put_drop_oldest now e (eb_queues b m)) = encoded_items (eb_queues b m) @ [e]"
      if "m \<notin> set (overflows k b)"
      using that True me enc put_drop_oldest_room [of "eb_queues b m"] by (simp add: overflows_def)
    show ?thesis
    proof (cases "m = n")
      case True
      with ct rc j room encoded_items_drop [of j "eb_queues b m"] show ?thesis
        by (auto simp: waiting_def)
    next
      case False
      with ct rc show ?thesis by (simp add: waiting_def)
    qed
  qed (simp add: run_call_def)
  then show "mset (waiting n (run_call k now b)) \<subseteq># mset (waiting n b)"
    "n \<notin> set (overflows k b) \<Longrightarrow> mset (waiting n (run_call k now b)) = mset (waiting n b)" by blast+
qed

lemma run_call_frame:
  "eb_seq (run_call k now b) = eb_seq b" "eb_counter (run_call k now b) = eb_counter b"
  "eb_backlog (run_call k now b) = eb_backlog b" "eb_subs (run_call k now b) = eb_subs b"
  "eb_loop (run_call k now b) = eb_loop b"
  by (simp_all add: run_call_def split: prod.splits)

lemma run_call_inv:
  assumes inv: "bus_inv past b"
  shows "bus_inv past (run_call k now b)"
proof (rule bus_inv_less [OF inv])
  show "set (eb_calls (run_call k now b)) \<subseteq> set (eb_calls b)"
    by (auto simp: run_call_def split: prod.splits dest: in_set_takeD in_set_dropD)
  show "eb_queues (run_call k now b) n = []" if n: "eb_counter (run_call k now b) < n" for n
  proof -
    have "eb_queues b n = []" "called n (eb_calls b) = []" using n inv by (auto simp: run_call_frame bus_inv_def)
    moreover from this(2) have "fst (eb_calls b ! k) \<noteq> n" if "k < length (eb_calls b)"
      using nth_mem [OF that] by (auto simp: called_def filter_empty_conv)
    ultimately show ?thesis by (auto simp: run_call_def split: prod.splits)
  qed
qed (use inv bus_invD [OF inv] run_call_waiting [OF inv] in \<open>auto simp: run_call_frame\<close>)

lemma called_publish:
  assumes "distinct (map fst subs)"
  shows "called n (map (\<lambda>(i, _). (i, e)) (filter (\<lambda>(_, u). P u) subs)) =
    (case map_of subs n of None \<Rightarrow> [] | Some u \<Rightarrow> if P u then [e] else [])"
  using assms
proof (induction subs)
  case (Cons s subs)
  moreover have "map_of subs n = None" if "fst s = n" using that Cons(2) by (auto simp: map_of_eq_None_iff)
  ultimately show ?case by (cases s) (auto simp: called_def)
qed (simp add: called_def)

lemma publish_waiting:
  assumes "bus_inv past b" and "eb_loop b"
  shows "waiting n (publish now type payload b) = waiting n b @
    (case map_of (eb_subs b) n of None \<Rightarrow> []
     | Some u \<Rightarrow> if matches_scope (new_event now type payload b) (su_scope u) then [new_event now type payload b] else [])"
  using assms(2) called_publish [OF bus_invD(8) [OF assms(1)]]
  by (simp add: publish_def Let_def waiting_def)

lemma deque_append_ids:
  assumes "distinct (map f xs)" and "f x \<notin> f ` set xs"
  shows "distinct (map f (deque_append n x xs)) \<and> set (deque_append n x xs) \<subseteq> insert x (set xs)"
proof
  have "distinct (map f (xs @ [x]))" using assms by auto
  then have "distinct (drop k (map f (xs @ [x])))" for k by (rule distinct_drop)
  then show "distinct (map f (deque_append n x xs))" by (simp only: deque_append_def drop_map)
  show "set (deque_append n x xs) \<subseteq> insert x (set xs)"
    unfolding deque_append_def by (rule subset_trans [OF set_drop_subset]) simp
qed

lemma publish_inv:
  assumes inv: "bus_inv past b"
  shows "bus_inv (past @ published now type payload b) (publish now type payload b)"
proof (cases "eb_loop b")
  case True
  let ?e = "new_event now type payload b" and ?b = "publish now type payload b"
  note old = bus_invD [OF inv]
  have id: "ev_id ?e = Suc (eb_seq b)" "ev_encoded ?e" by (simp_all add: new_event_def)
  have b: "eb_seq ?b = Suc (eb_seq b)" "eb_counter ?b = eb_counter b" "eb_subs ?b = eb_subs b"
    "eb_queues ?b = eb_queues b" "eb_backlog ?b = deque_append (eb_size b) ?e (eb_backlog b)"
    using True by (simp_all add: publish_def Let_def)
  have new: "ev_id x < ev_id ?e" if "x \<in> set past" for x using old(2) [OF that] id by simp
  have w: "waiting n ?b = waiting n b \<or> waiting n ?b = waiting n b @ [?e]" for n
    using publish_waiting [OF inv True] by (simp split: option.splits)
  have dq: "distinct (map ev_id (eb_backlog ?b)) \<and> set (eb_backlog ?b) \<subseteq> insert ?e (set (eb_backlog b))"
    unfolding b by (rule deque_append_ids [OF old(9)]) (use new old(10) in fastforce)
  have past: "past @ published now type payload b = past @ [?e]" using True by (simp add: published_def)
  show ?thesis
    unfolding bus_inv_def past b(1-4)
  proof (intro conjI ballI allI impI)
    fix x assume "x \<in> set (past @ [?e])"
    then show "ev_encoded x" "ev_id x \<le> Suc (eb_seq b)" using old(1,2) [of x] id by auto
  next
    fix n
    have "ev_id ?e \<notin> ev_id ` set (waiting n b)" using new old(4) by fastforce
    then show "distinct (map ev_id (waiting n ?b))" using w [of n] old(3) [of n] by auto
    show "set (waiting n ?b) \<subseteq> set (past @ [?e])" using w [of n] old(4) by fastforce
  next
    show "snd ` set (eb_calls ?b) \<subseteq> set (past @ [?e])"
      using True old(5) by (auto simp: publish_def Let_def)
  next
    fix n assume n: "eb_counter b < n"
    then show "eb_queues b n = []" "map_of (eb_subs b) n = None" using inv by (simp_all add: bus_inv_def)
    show "called n (eb_calls ?b) = []"
      using w [of n] old(6) [OF n] old(7) [OF n] publish_waiting [OF inv True, of n] by (simp add: waiting_def)
  qed (use old(8,10) dq in auto)
qed (use inv in \<open>simp add: publish_def published_def\<close>)

section \<open>Streams\<close>

definition written :: "stream_conn \<Rightarrow> event list" where
  "written c = filter ev_encoded (cn_out c)"

definition stream_inv :: "event list \<Rightarrow> event_bus \<Rightarrow> stream_conn \<Rightarrow> bool" where
  "stream_inv past b c \<longleftrightarrow>
    cn_sub c \<le> eb_counter b \<and> cn_mark c \<le> eb_seq b \<and> distinct (map ev_id (written c)) \<and>
    (\<forall>e \<in> set (written c). e \<in> set past \<and> matches_scope e (cn_scope c) \<and>
      (ev_id e \<le> cn_mark c \<or> ev_id e \<notin> ev_id ` set (waiting (cn_sub c) b))) \<and>
    (cn_stage c = Opened \<longrightarrow> cn_out c = [])"

lemma stream_invD:
  assumes "stream_inv past b c"
  shows "cn_sub c \<le> eb_counter b" "cn_mark c \<le> eb_seq b" "distinct (map ev_id (written c))"
    "e \<in> set (written c) \<Longrightarrow> e \<in> set past" "e \<in> set (written c) \<Longrightarrow> matches_scope e (cn_scope c)"
    "e \<in> set (written c) \<Longrightarrow> ev_id e \<le> cn_mark c \<or> ev_id e \<notin> ev_id ` set (waiting (cn_sub c) b)"
    "cn_stage c = Opened \<Longrightarrow> cn_out c = []"
  using assms by (auto simp: stream_inv_def)

text \<open>What others do only takes events off the way or adds new ones.\<close>

lemma stream_inv_mono:
  assumes "stream_inv past b c" and "bus_inv past b" and "set past \<subseteq> set past'"
    and "eb_counter b \<le> eb_counter b'" "eb_seq b \<le> eb_seq b'"
    and "\<And>e. e \<in> set (waiting (cn_sub c) b') \<Longrightarrow> e \<in> set (waiting (cn_sub c) b) \<or> eb_seq b < ev_id e"
  shows "stream_inv past' b' c"
  unfolding stream_inv_def
proof (intro conjI ballI impI)
  note old = stream_invD [OF assms(1)]
  show "cn_sub c \<le> eb_counter b'" "cn_mark c \<le> eb_seq b'" using old(1,2) assms(4,5) by simp_all
  fix e assume e: "e \<in> set (written c)"
  show "e \<in> set past'" "matches_scope e (cn_scope c)" using old(4,5) [OF e] assms(3) by auto
  show "ev_id e \<le> cn_mark c \<or> ev_id e \<notin> ev_id ` set (waiting (cn_sub c) b')"
    using old(6) [OF e] bus_invD(2) [OF assms(2) old(4) [OF e]] assms(6) by fastforce
qed (use stream_invD [OF assms(1)] in auto)

lemma max_event_id_ge: "m \<le> max_event_id es m \<and> (\<forall>e \<in> set es. ev_id e \<le> max_event_id es m)"
proof (induction es arbitrary: m)
  case (Cons a es)
  from Cons [of "max m (ev_id a)"] show ?case by (simp add: max_event_id_def)
qed (simp add: max_event_id_def)

lemma max_event_id_le: "m \<le> k \<Longrightarrow> (\<And>e. e \<in> set es \<Longrightarrow> ev_id e \<le> k) \<Longrightarrow> max_event_id es m \<le> k"
  unfolding max_event_id_def by (induction es arbitrary: m) auto

lemma encoded_backlog_gap: "backlog_gap_frame now sc l es b = Some g \<Longrightarrow> \<not> ev_encoded g"
  by (auto simp: backlog_gap_frame_def backlog_gap_event_def Let_def split: if_splits)

text \<open>The replay raises the mark over everything that it writes.\<close>

lemma start_stream_written:
  assumes "bus_inv past b" and "cn_stage c = Opened"
  shows "written (start_stream now b c) =
      fst (replay_plan now (cn_scope c) (cn_last c) (cn_since c) (cn_mark c) b) \<and>
    cn_mark (start_stream now b c) = snd (snd (replay_plan now (cn_scope c) (cn_last c) (cn_since c) (cn_mark c) b))"
proof -
  let ?r = "replay_plan now (cn_scope c) (cn_last c) (cn_since c) (cn_mark c) b"
  have "set (fst ?r) \<subseteq> set (eb_backlog b)" by (auto simp: replay_plan_def replay_def Let_def)
  then have "filter ev_encoded (fst ?r) = fst ?r"
    using bus_invD(1,10) [OF assms(1)] by (auto simp: filter_id_conv)
  moreover have "\<not> ev_encoded g" if "fst (snd ?r) = Some g" for g
    using that encoded_backlog_gap by (auto simp: replay_plan_def Let_def)
  ultimately show ?thesis
    using assms(2) by (auto simp: start_stream_def written_def split: prod.splits option.splits)
qed

lemma start_stream_inv:
  assumes inv: "bus_inv past b" and str: "stream_inv past b c"
  shows "stream_inv past b (start_stream now b c)"
proof (cases "cn_stage c = Opened")
  case True
  let ?es = "if cn_last c \<noteq> 0 \<or> cn_since c \<noteq> 0 then replay now (cn_last c) (cn_since c) (cn_scope c) b else []"
  let ?c = "start_stream now b c"
  have w: "written ?c = ?es" "cn_mark ?c = max_event_id ?es (cn_mark c)"
    using start_stream_written [OF inv True] by (simp_all add: replay_plan_def Let_def)
  have es: "set ?es \<subseteq> set (eb_backlog b)" "\<forall>e \<in> set ?es. matches_scope e (cn_scope c)"
    "distinct (map ev_id ?es)"
    using bus_invD(9) [OF inv] by (auto simp: replay_def distinct_map_filter)
  have past: "e \<in> set past" "ev_id e \<le> eb_seq b" if "e \<in> set ?es" for e
    using that es(1) bus_invD(2,10) [OF inv] by blast+
  have c: "cn_sub ?c = cn_sub c" "cn_scope ?c = cn_scope c" "cn_stage ?c = Live"
    using True by (simp_all add: start_stream_def split: prod.splits)
  show ?thesis
    unfolding stream_inv_def c w
  proof (intro conjI ballI impI)
    show "max_event_id ?es (cn_mark c) \<le> eb_seq b"
      using stream_invD(2) [OF str] past(2) by (rule max_event_id_le)
    fix e assume "e \<in> set ?es"
    with past es(2) max_event_id_ge [of "cn_mark c" ?es]
    show "e \<in> set past" "matches_scope e (cn_scope c)"
      "ev_id e \<le> max_event_id ?es (cn_mark c) \<or> ev_id e \<notin> ev_id ` set (waiting (cn_sub c) b)" by blast+
  qed (use stream_invD(1) [OF str] es(3) in auto)
qed (use str in \<open>simp add: start_stream_def\<close>)

end
