(* ===== verification/Event_Props.thy ===== *)
theory Event_Props
  imports Event_Inv
begin

text \<open>
  What a stream of the web page receives, in every state that publishers, the loop and the
  streams can reach together.
\<close>

section \<open>Nothing gets lost\<close>

text \<open>
  A stream that asked for no replay: as long as it is subscribed and its queue was never
  full, an event that was published after it was opened is written or on the way.
\<close>

definition fresh_stream :: "stream_conn \<Rightarrow> bool" where
  "fresh_stream c \<longleftrightarrow> cn_last c = 0 \<and> cn_since c = 0 \<and> cn_stage c \<noteq> Ended_Stream"

definition complete :: "event list \<Rightarrow> event_bus \<Rightarrow> nat list \<Rightarrow> stream_conn \<Rightarrow> bool" where
  "complete past b dropped c \<longleftrightarrow>
    (\<forall>u. fresh_stream c \<and> cn_sub c \<notin> set dropped \<and> map_of (eb_subs b) (cn_sub c) = Some u \<longrightarrow>
      su_scope u = cn_scope c \<and>
      (\<forall>e \<in> set past. cn_mark c < ev_id e \<and> matches_scope e (cn_scope c) \<longrightarrow>
        e \<in> set (written c) \<union> set (waiting (cn_sub c) b)))"

definition good :: "event list \<Rightarrow> event_bus \<Rightarrow> nat list \<Rightarrow> stream_conn \<Rightarrow> bool" where
  "good past b dropped c \<longleftrightarrow> stream_inv past b c \<and> complete past b dropped c"

definition sse_inv :: "sse_server \<Rightarrow> bool" where
  "sse_inv s \<longleftrightarrow> bus_inv (se_log s) (se_bus s) \<and> distinct (map cn_sub (se_conns s)) \<and>
    (\<forall>c \<in> set (se_conns s). good (se_log s) (se_bus s) (se_dropped s) c)"

lemma sse_invD:
  assumes "sse_inv s"
  shows "bus_inv (se_log s) (se_bus s)" "distinct (map cn_sub (se_conns s))"
    "c \<in> set (se_conns s) \<Longrightarrow> good (se_log s) (se_bus s) (se_dropped s) c"
  using assms by (auto simp: sse_inv_def)

lemma stream_frame:
  assumes "good past b dropped c" and "bus_inv past b"
    and "eb_seq b' = eb_seq b" "eb_counter b \<le> eb_counter b'"
    and "set (waiting (cn_sub c) b') = set (waiting (cn_sub c) b)"
    and "map_of (eb_subs b') (cn_sub c) = map_of (eb_subs b) (cn_sub c)"
  shows "good past b' dropped c"
proof -
  have "stream_inv past b' c"
    by (rule stream_inv_mono [of past b]) (use assms in \<open>auto simp: good_def\<close>)
  with assms(1,5,6) show ?thesis by (simp add: good_def complete_def)
qed

text \<open>One stream and what it shares with the bus change.\<close>

lemma replace_stream:
  assumes inv: "sse_inv s" and i: "i < length (se_conns s)" and sub: "cn_sub c' = cn_sub (se_conns s ! i)"
    and bus: "bus_inv (se_log s) b'" and c': "good (se_log s) b' (se_dropped s) c'"
    and others: "\<And>c. c \<in> set (se_conns s) \<Longrightarrow> cn_sub c \<noteq> cn_sub (se_conns s ! i) \<Longrightarrow>
      good (se_log s) b' (se_dropped s) c"
  shows "sse_inv (s\<lparr>se_bus := b', se_conns := (se_conns s)[i := c']\<rparr>)"
proof -
  have d: "distinct (map cn_sub (se_conns s))" by (rule sse_invD(2) [OF inv])
  have "map cn_sub ((se_conns s)[i := c']) = map cn_sub (se_conns s)"
    using i sub by (simp add: map_update list_update_same_conv)
  moreover have "good (se_log s) b' (se_dropped s) c" if "c \<in> set ((se_conns s)[i := c'])" for c
  proof -
    from in_set_conv_nth [THEN iffD1, OF that] obtain j where
      "j < length ((se_conns s)[i := c'])" and c: "(se_conns s)[i := c'] ! j = c" by (elim exE conjE)
    then have j: "j < length (se_conns s)" by simp
    show ?thesis
    proof (cases "j = i")
      case True
      with j c c' show ?thesis by simp
    next
      case False
      with c have c: "c = se_conns s ! j" by simp
      have "cn_sub (se_conns s ! j) \<noteq> cn_sub (se_conns s ! i)"
        using nth_eq_iff_index_eq [OF d, of j i] i j False by simp
      with c j others show ?thesis by simp
    qed
  qed
  ultimately show ?thesis using d bus by (simp add: sse_inv_def)
qed

section \<open>Every step\<close>

lemma publish_good:
  assumes inv: "bus_inv past b" and g: "good past b dropped c"
  shows "good (past @ published now type payload b) (publish now type payload b) dropped c"
proof (cases "eb_loop b")
  case True
  let ?e = "new_event now type payload b"
  note w = publish_waiting [OF inv True, of "cn_sub c" now type payload]
  have b: "eb_seq (publish now type payload b) = Suc (eb_seq b)" "eb_counter (publish now type payload b) = eb_counter b"
    "eb_subs (publish now type payload b) = eb_subs b" using True by (simp_all add: publish_def Let_def)
  have "stream_inv (past @ published now type payload b) (publish now type payload b) c"
    by (rule stream_inv_mono [of past b])
      (use g inv w b in \<open>auto simp: good_def new_event_def split: option.splits if_splits\<close>)
  moreover have "complete (past @ published now type payload b) (publish now type payload b) dropped c"
    using g True by (auto simp: complete_def good_def b w published_def)
  ultimately show ?thesis by (simp add: good_def)
qed (use g in \<open>simp add: publish_def published_def\<close>)

lemma run_call_good:
  assumes inv: "bus_inv past b" and g: "good past b dropped c"
  shows "good past (run_call k now b) (overflows k b @ dropped) c"
proof -
  note w = run_call_waiting [OF inv, of "cn_sub c" k now]
  have "stream_inv past (run_call k now b) c"
    by (rule stream_inv_mono [of past b])
      (use g inv set_mset_mono [OF w(1)] in \<open>auto simp: good_def run_call_frame\<close>)
  moreover have "set (waiting (cn_sub c) (run_call k now b)) = set (waiting (cn_sub c) b)"
    if "cn_sub c \<notin> set (overflows k b)" using w(2) [OF that] by (metis set_mset_mset)
  ultimately show ?thesis
    using g by (auto simp: good_def complete_def run_call_frame)
qed

lemma open_good:
  assumes inv: "bus_inv past b" and o: "open_stream scope last_id since b = (c, b')"
  shows "good past b' dropped c"
proof -
  have b': "b' = snd (subscribe scope b)" and c: "cn_sub c = Suc (eb_counter b)" "cn_scope c = scope"
      "cn_mark c = watermark (Suc (eb_counter b)) b'" "cn_stage c = Opened" "cn_out c = []"
    using o by (auto simp: open_stream_def subscribe_def Let_def)
  have "map_of (eb_subs b) (Suc (eb_counter b)) = None" by (rule bus_invD(7) [OF inv]) simp
  then have u: "map_of (eb_subs b') (Suc (eb_counter b)) = Some \<lparr>su_mark = eb_seq b, su_scope = scope\<rparr>"
    by (simp add: b' subscribe_def Let_def map_add_def)
  then have m: "cn_mark c = eb_seq b" by (simp add: c watermark_def)
  have "eb_seq b' = eb_seq b" "eb_counter b' = Suc (eb_counter b)" by (simp_all add: b' subscribe_def Let_def)
  with u m c bus_invD(2) [OF inv] show ?thesis
    by (fastforce simp: good_def stream_inv_def complete_def written_def)
qed

lemma start_good:
  assumes inv: "bus_inv past b" and g: "good past b dropped c"
  shows "good past b dropped (start_stream now b c)"
proof -
  have c: "cn_sub (start_stream now b c) = cn_sub c" "cn_scope (start_stream now b c) = cn_scope c"
    "cn_last (start_stream now b c) = cn_last c" "cn_since (start_stream now b c) = cn_since c"
    by (simp_all add: start_stream_def split: prod.splits)
  have "complete past b dropped (start_stream now b c)"
  proof (cases "cn_stage c = Opened")
    case True
    have "written c = []" using g True by (simp add: good_def stream_inv_def written_def)
    moreover have "fresh_stream c" "cn_mark (start_stream now b c) = cn_mark c" if "fresh_stream (start_stream now b c)"
      using that start_stream_written [OF inv True, of now] True
      by (simp_all add: fresh_stream_def c replay_plan_def Let_def max_event_id_def)
    ultimately show ?thesis using g by (auto simp: good_def complete_def c)
  qed (use g in \<open>simp add: good_def start_stream_def\<close>)
  with start_stream_inv [OF inv] g show ?thesis by (simp add: good_def)
qed

section \<open>Forwarding\<close>

lemma end_stream_frame:
  assumes "end_stream b c = (b', c')"
  shows "eb_seq b' = eb_seq b" "eb_counter b' = eb_counter b" "waiting m b' = waiting m b"
    "m \<noteq> cn_sub c \<Longrightarrow> map_of (eb_subs b') m = map_of (eb_subs b) m"
    "c' = c\<lparr>cn_stage := Ended_Stream\<rparr>"
  using assms by (auto simp: end_stream_def unsubscribe_def waiting_def delete_conv')

lemma end_stream_good:
  assumes inv: "bus_inv past b" and g: "good past b dropped c" and e: "end_stream b c = (b', c')"
  shows "bus_inv past b' \<and> good past b' dropped c'"
proof -
  note f = end_stream_frame [OF e]
  have "bus_inv past b'" using e unsubscribe_inv [OF inv] by (auto simp: end_stream_def)
  moreover have "stream_inv past b' c'"
    using g by (auto simp: good_def stream_inv_def f written_def)
  ultimately show ?thesis by (simp add: good_def complete_def fresh_stream_def f(5))
qed

text \<open>The stream takes the first item from its queue.\<close>

lemma pop_inv:
  assumes inv: "bus_inv past b" and q: "eb_queues b n = x # q"
  shows "bus_inv past (b\<lparr>eb_queues := (eb_queues b)(n := q)\<rparr>)"
proof (rule bus_inv_less [OF inv])
  show "mset (waiting m (b\<lparr>eb_queues := (eb_queues b)(n := q)\<rparr>)) \<subseteq># mset (waiting m b)" for m
    using encoded_items_drop [of 1 "x # q"] by (simp add: waiting_queue) (simp add: waiting_def q)
qed (use inv bus_invD(8) [OF inv] q in \<open>auto simp: bus_inv_def\<close>)

lemma pop_good:
  assumes inv: "bus_inv past b" and g: "good past b dropped c" and q: "eb_queues b (cn_sub c) = x # q"
  assumes live: "cn_stage c = Live"
  defines "b1 \<equiv> b\<lparr>eb_queues := (eb_queues b)(cn_sub c := q)\<rparr>"
  shows "stream_inv past b1 c"
    and "(\<And>e. x = Some e \<Longrightarrow> ev_id e \<le> cn_mark c \<or> \<not> matches_scope e (cn_scope c)) \<Longrightarrow> good past b1 dropped c"
    and "x = Some e \<Longrightarrow> cn_mark c < ev_id e \<Longrightarrow> matches_scope e (cn_scope c) \<Longrightarrow>
      good past b1 dropped (c\<lparr>cn_out := cn_out c @ [e]\<rparr>)"
proof -
  have w: "waiting (cn_sub c) b = encoded_items [x] @ waiting (cn_sub c) b1"
    using encoded_items_append [of "[x]" q] by (simp add: waiting_def b1_def q)
  have b1: "eb_seq b1 = eb_seq b" "eb_counter b1 = eb_counter b" "eb_subs b1 = eb_subs b" by (simp_all add: b1_def)
  have str: "stream_inv past b c" using g by (simp add: good_def)
  show s1: "stream_inv past b1 c"
    by (rule stream_inv_mono [OF str inv]) (use b1 w in auto)
  show "good past b1 dropped c"
    if "\<And>e. x = Some e \<Longrightarrow> ev_id e \<le> cn_mark c \<or> \<not> matches_scope e (cn_scope c)"
  proof -
    have "e \<in> set (waiting (cn_sub c) b1)"
      if "e \<in> set (waiting (cn_sub c) b)" "cn_mark c < ev_id e" "matches_scope e (cn_scope c)" for e
      using that w \<open>\<And>e. x = Some e \<Longrightarrow> _\<close> by (cases x) (auto split: if_splits)
    with g s1 b1 show ?thesis by (auto simp: good_def complete_def)
  qed
  show "good past b1 dropped (c\<lparr>cn_out := cn_out c @ [e]\<rparr>)"
    if x: "x = Some e" and new: "cn_mark c < ev_id e" and m: "matches_scope e (cn_scope c)"
  proof -
    let ?c = "c\<lparr>cn_out := cn_out c @ [e]\<rparr>"
    have out: "written ?c = written c @ (if ev_encoded e then [e] else [])" by (simp add: written_def)
    note wx = w [unfolded x]
    have fresh: "ev_encoded e \<Longrightarrow> e \<in> set past \<and> ev_id e \<notin> ev_id ` set (written c) \<and>
        ev_id e \<notin> ev_id ` set (waiting (cn_sub c) b1)"
    proof -
      assume enc: "ev_encoded e"
      then have we: "waiting (cn_sub c) b = e # waiting (cn_sub c) b1" using wx by simp
      have "ev_id e \<noteq> ev_id y" if "y \<in> set (written c)" for y
        using stream_invD(6) [OF str that] new by (auto simp: we)
      moreover have "ev_id e \<notin> ev_id ` set (waiting (cn_sub c) b1)"
        using bus_invD(3) [OF inv, of "cn_sub c"] by (simp add: we)
      ultimately show ?thesis using bus_invD(4) [OF inv, of e "cn_sub c"] by (auto simp: we)
    qed
    have "stream_inv past b1 ?c"
      using s1 fresh m live unfolding stream_inv_def out by (auto split: if_splits)
    moreover have "complete past b1 dropped ?c"
      using g wx by (auto simp: good_def complete_def fresh_stream_def out b1 split: if_splits)
    ultimately show ?thesis by (simp add: good_def)
  qed
qed

lemma forward_good:
  assumes inv: "bus_inv past b" and g: "good past b dropped c" and f: "forward b c = (b', c')"
  shows "bus_inv past b' \<and> good past b' dropped c' \<and> cn_sub c' = cn_sub c \<and>
    eb_seq b' = eb_seq b \<and> eb_counter b' = eb_counter b \<and>
    (\<forall>m. m \<noteq> cn_sub c \<longrightarrow> waiting m b' = waiting m b \<and> map_of (eb_subs b') m = map_of (eb_subs b) m)"
proof (cases "cn_stage c = Live \<and> eb_queues b (cn_sub c) \<noteq> []")
  case False
  with f inv g show ?thesis by (auto simp: forward_def split: list.splits if_splits)
next
  case True
  then obtain x q where q: "eb_queues b (cn_sub c) = x # q" and live: "cn_stage c = Live"
    by (cases "eb_queues b (cn_sub c)") auto
  let ?b = "b\<lparr>eb_queues := (eb_queues b)(cn_sub c := q)\<rparr>"
  note pop = pop_inv [OF inv q] pop_good [OF inv g q live]
  have other: "m \<noteq> cn_sub c \<Longrightarrow> waiting m ?b = waiting m b" for m by (simp add: waiting_queue)
  show ?thesis
  proof (cases x)
    case None
    with f live q have e: "end_stream ?b c = (b', c')" by (simp add: forward_def Let_def)
    have "good past ?b dropped c" by (rule pop(3)) (simp add: None)
    with end_stream_good [OF pop(1) _ e] end_stream_frame [OF e] other show ?thesis by simp
  next
    case (Some e)
    with f live q have r: "b' = ?b" "c' = (if ev_id e \<le> cn_mark c \<or> \<not> matches_scope e (cn_scope c) then c
        else c\<lparr>cn_out := cn_out c @ [e]\<rparr>)"
      by (auto simp: forward_def Let_def split: if_splits)
    have "good past ?b dropped c'"
      using pop(3) pop(4) [OF Some] Some by (auto simp: r(2))
    with pop(1) other show ?thesis by (simp add: r)
  qed
qed

section \<open>All states\<close>

lemma sse_step_inv:
  assumes inv: "sse_inv s"
  shows "sse_inv (exec_sse op s)"
proof (cases op)
  case (Bind_Loop r)
  have "good (se_log s) (bind_loop r (se_bus s)) (se_dropped s) c" if "c \<in> set (se_conns s)" for c
    by (rule stream_frame [OF sse_invD(3) [OF inv that] sse_invD(1) [OF inv]])
      (simp_all add: bind_loop_def waiting_def)
  with Bind_Loop sse_invD [OF inv] bind_loop_inv show ?thesis by (simp add: sse_inv_def)
next
  case (Publish now type payload)
  with sse_invD [OF inv] publish_inv publish_good show ?thesis by (simp add: sse_inv_def)
next
  case (Run_Call k now)
  with sse_invD [OF inv] run_call_inv run_call_good show ?thesis by (simp add: sse_inv_def)
next
  case (Open_Stream scope last_id since)
  obtain c b' where o: "open_stream scope last_id since (se_bus s) = (c, b')" by fastforce
  note old = sse_invD [OF inv]
  have b': "b' = snd (subscribe scope (se_bus s))" and sub: "cn_sub c = Suc (eb_counter (se_bus s))"
    using o by (auto simp: open_stream_def subscribe_def Let_def)
  have le: "cn_sub d \<le> eb_counter (se_bus s)" if "d \<in> set (se_conns s)" for d
    using old(3) [OF that] by (simp add: good_def stream_inv_def)
  have "good (se_log s) b' (se_dropped s) d" if "d \<in> set (se_conns s)" for d
    by (rule stream_frame [OF old(3) [OF that] old(1)])
      (use le [OF that] in \<open>auto simp: b' subscribe_def Let_def waiting_def map_add_def split: option.splits\<close>)
  moreover have "good (se_log s) b' (se_dropped s) c" by (rule open_good [OF old(1) o])
  moreover have "bus_inv (se_log s) b'" using subscribe_inv [OF old(1)] by (simp add: b')
  moreover have "cn_sub c \<notin> cn_sub ` set (se_conns s)" using le sub by fastforce
  ultimately show ?thesis using old(2) by (auto simp: Open_Stream o sse_inv_def)
next
  case (Start_Stream i now)
  note old = sse_invD [OF inv]
  show ?thesis
  proof (cases "i < length (se_conns s)")
    case True
    then have c: "se_conns s ! i \<in> set (se_conns s)" by simp
    have "cn_sub (start_stream now (se_bus s) (se_conns s ! i)) = cn_sub (se_conns s ! i)"
      by (simp add: start_stream_def split: prod.splits)
    from replace_stream [OF inv True this old(1) start_good [OF old(1) old(3) [OF c]]] old(3) True show ?thesis
      by (simp add: Start_Stream)
  qed (use inv Start_Stream in simp)
next
  case (Forward i)
  note old = sse_invD [OF inv]
  show ?thesis
  proof (cases "i < length (se_conns s)")
    case True
    then have c: "se_conns s ! i \<in> set (se_conns s)" by simp
    obtain b' c' where f: "forward (se_bus s) (se_conns s ! i) = (b', c')" by fastforce
    note fg = forward_good [OF old(1) old(3) [OF c] f]
    have "sse_inv (s\<lparr>se_bus := b', se_conns := (se_conns s)[i := c']\<rparr>)"
      by (rule replace_stream [OF inv True]) (use fg in \<open>auto intro!: stream_frame [OF old(3) old(1)]\<close>)
    with True f show ?thesis by (simp add: Forward)
  qed (use inv Forward in simp)
next
  case (Disconnect i)
  note old = sse_invD [OF inv]
  show ?thesis
  proof (cases "i < length (se_conns s)")
    case True
    then have c: "se_conns s ! i \<in> set (se_conns s)" by simp
    obtain b' c' where e: "end_stream (se_bus s) (se_conns s ! i) = (b', c')" by fastforce
    note eg = end_stream_good [OF old(1) old(3) [OF c] e] end_stream_frame [OF e]
    have "sse_inv (s\<lparr>se_bus := b', se_conns := (se_conns s)[i := c']\<rparr>)"
      by (rule replace_stream [OF inv True]) (use eg in \<open>auto intro!: stream_frame [OF old(3) old(1)]\<close>)
    with True e show ?thesis by (simp add: Disconnect)
  qed (use inv Disconnect in simp)
next
  case Close_All
  note old = sse_invD [OF inv]
  have "good (se_log s) (close_all (se_bus s)) (se_dropped s) c" if c: "c \<in> set (se_conns s)" for c
  proof -
    have w: "waiting n (close_all (se_bus s)) = waiting n (se_bus s)" for n
      by (simp add: waiting_def close_all_def put_nowait_def)
    have "stream_inv (se_log s) (close_all (se_bus s)) c"
      by (rule stream_inv_mono [of "se_log s" "se_bus s"])
        (use old(1,3) c w in \<open>auto simp: good_def close_all_def\<close>)
    then show ?thesis by (simp add: good_def complete_def close_all_def)
  qed
  with old close_all_inv show ?thesis by (simp add: sse_inv_def Close_All)
qed

lemma new_server_inv: "sse_inv (new_server max_size ttl)"
  by (simp add: sse_inv_def new_server_def new_bus_def bus_inv_def waiting_def called_def)

lemma sse_reachable_inv:
  assumes "sse_reachable s"
  shows "sse_inv s"
proof -
  have "sse_inv t \<Longrightarrow> sse_inv (fold exec_sse ops t)" for ops t
    by (induction ops arbitrary: t) (auto intro: sse_step_inv)
  with assms new_server_inv show ?thesis by (auto simp: sse_reachable_def)
qed

section \<open>Two losses\<close>

text \<open>
  A full queue loses two items for one new event: the second makes room for the notice about
  the first, and nothing tells of it.
\<close>

lemma overflow_drops_two:
  assumes "length (Some a # x # q) = QUEUE_MAX" and "gap_event now a = Some g"
  shows "put_drop_oldest now e (Some a # x # q) = q @ [Some e, Some g]"
proof -
  have len: "length q = 98" using assms(1) by (simp add: QUEUE_MAX_def)
  have "make_room None (Some a # x # q) = (Some (Some a), x # q)"
    using len by (cases q) (simp_all add: QUEUE_MAX_def)
  moreover have "make_room None (x # q @ [Some e]) = (Some x, q @ [Some e])"
    using len by (cases q) (simp_all add: QUEUE_MAX_def)
  ultimately show ?thesis using assms(2) len by (simp add: put_drop_oldest_def put_nowait_def QUEUE_MAX_def)
qed

text \<open>When everything in the backlog has expired, the client is not told of the gap.\<close>

lemma expired_backlog_no_notice:
  assumes "\<forall>e \<in> set (eb_backlog b). ev_at e + eb_ttl b < now"
  shows "backlog_gap_frame now sc last_id replayed b = None"
proof -
  have "filter (\<lambda>e. now \<le> ev_at e + eb_ttl b) (eb_backlog b) = []" using assms by (auto simp: filter_empty_conv)
  then have "min_replayable_event_id now b = 0" by (simp add: min_replayable_event_id_def)
  then show ?thesis by (simp add: backlog_gap_frame_def)
qed

section \<open>Exactly once\<close>

text \<open>
  C26: Whatever publishers, loop, streams and disconnections do in whatever order, a stream
  writes no published event twice, and only published events of its scope. A stream that
  asked for no replay misses none either: while it is subscribed and its queue was never
  full, each event in its scope that was published after it was opened is written or still
  on the way.
\<close>

theorem stream_exactly_once:
  assumes "sse_reachable s" and "c \<in> set (se_conns s)"
  shows "distinct (map ev_id (filter ev_encoded (cn_out c))) \<and>
    (\<forall>e \<in> set (filter ev_encoded (cn_out c)). e \<in> set (se_log s) \<and> matches_scope e (cn_scope c)) \<and>
    (fresh_stream c \<and> cn_sub c \<notin> set (se_dropped s) \<and> cn_sub c \<in> fst ` set (eb_subs (se_bus s)) \<longrightarrow>
      (\<forall>e \<in> set (se_log s). cn_mark c < ev_id e \<and> matches_scope e (cn_scope c) \<longrightarrow>
        e \<in> set (cn_out c) \<union> set (waiting (cn_sub c) (se_bus s))))"
proof -
  have g: "good (se_log s) (se_bus s) (se_dropped s) c"
    by (rule sse_invD(3) [OF sse_reachable_inv [OF assms(1)] assms(2)])
  then have "distinct (map ev_id (written c))" "\<forall>e \<in> set (written c). e \<in> set (se_log s) \<and> matches_scope e (cn_scope c)"
    by (auto simp: good_def stream_inv_def)
  moreover have "e \<in> set (cn_out c) \<union> set (waiting (cn_sub c) (se_bus s))"
    if "fresh_stream c \<and> cn_sub c \<notin> set (se_dropped s) \<and> cn_sub c \<in> fst ` set (eb_subs (se_bus s))"
      "e \<in> set (se_log s)" "cn_mark c < ev_id e \<and> matches_scope e (cn_scope c)" for e
  proof -
    have "map_of (eb_subs (se_bus s)) (cn_sub c) \<noteq> None" using that(1) by (simp add: map_of_eq_None_iff)
    then obtain u where "map_of (eb_subs (se_bus s)) (cn_sub c) = Some u" by blast
    with g that have "e \<in> set (written c) \<union> set (waiting (cn_sub c) (se_bus s))"
      unfolding good_def complete_def by blast
    then show ?thesis by (auto simp: written_def)
  qed
  ultimately show ?thesis unfolding written_def by blast
qed

text \<open>Two streams of different scopes; the calls of the loop run out of order.\<close>

definition demo_scope :: "string \<Rightarrow> sse_scope" where
  "demo_scope k = \<lparr>sc_session = k, sc_workspace = [], sc_workspace_session = []\<rparr>"

definition demo_sse :: sse_server where
  "demo_sse = fold exec_sse
    [Bind_Loop True, Open_Stream (demo_scope ''a'') 0 0, Publish 1 ''x'' [(''session_key'', JStr ''a'')],
     Start_Stream 0 2, Publish 3 ''y'' [(''session_key'', JStr ''b'')],
     Publish 4 ''z'' [(''session_key'', JStr ''a'')], Run_Call 1 5, Run_Call 0 5, Forward 0]
    (new_server 200 600)"

theorem stream_exactly_once_witness:
  "map ev_id (se_log demo_sse) = [1, 2, 3] \<and> map ev_id (cn_out (hd (se_conns demo_sse))) = [3] \<and>
   hd (se_log demo_sse) \<in> set (waiting 1 (se_bus demo_sse))"
proof -
  let ?c = "hd (se_conns demo_sse)" and ?e = "hd (se_log demo_sse)"
  have "(let s = demo_sse; c = hd (se_conns s)
      in (map ev_id (se_log s), map ev_id (cn_out c), length (se_conns s), cn_mark c, cn_sub c,
          matches_scope (hd (se_log s)) (cn_scope c), fresh_stream c, se_dropped s, map fst (eb_subs (se_bus s)))) =
      ([1, 2, 3], [3], 1, 0, 1, True, True, [], [1])"
    by code_simp
  then have v: "map ev_id (se_log demo_sse) = [1, 2, 3]" "map ev_id (cn_out ?c) = [3]" "length (se_conns demo_sse) = 1"
    "cn_mark ?c = 0" "cn_sub ?c = 1" "matches_scope ?e (cn_scope ?c)" "fresh_stream ?c" "se_dropped demo_sse = []"
    "map fst (eb_subs (se_bus demo_sse)) = [1]"
    unfolding Let_def by simp_all
  have "sse_reachable demo_sse" unfolding sse_reachable_def demo_sse_def by blast
  moreover have "?c \<in> set (se_conns demo_sse)" using v(3) by (cases "se_conns demo_sse") auto
  ultimately have "fresh_stream ?c \<and> cn_sub ?c \<notin> set (se_dropped demo_sse) \<and>
      cn_sub ?c \<in> fst ` set (eb_subs (se_bus demo_sse)) \<longrightarrow>
      (\<forall>e \<in> set (se_log demo_sse). cn_mark ?c < ev_id e \<and> matches_scope e (cn_scope ?c) \<longrightarrow>
        e \<in> set (cn_out ?c) \<union> set (waiting (cn_sub ?c) (se_bus demo_sse)))"
    using stream_exactly_once by blast
  moreover have "cn_sub ?c \<in> fst ` set (eb_subs (se_bus demo_sse))"
    using v(5,9) by (metis list.set_intros(1) list.set_map)
  moreover have e: "?e \<in> set (se_log demo_sse)" "ev_id ?e = 1"
    using v(1) by (cases "se_log demo_sse"; simp)+
  ultimately have "?e \<in> set (cn_out ?c) \<union> set (waiting 1 (se_bus demo_sse))"
    using v(4-8) by simp
  moreover have "?e \<notin> set (cn_out ?c)"
  proof
    assume "?e \<in> set (cn_out ?c)"
    then have "ev_id ?e \<in> set (map ev_id (cn_out ?c))" by simp
    with v(2) e(2) show False by simp
  qed
  ultimately show ?thesis using v(1,2) by simp
qed

end
