(* ===== verification/Py_Regex.thy ===== *)
theory Py_Regex
  imports Py_Json
begin

text \<open>
  The part of Python's \<open>re\<close> and \<open>shlex\<close> that the guards use. A pattern is only searched for,
  never captured from, so it is enough to know at which positions a match can end; whether
  a repetition is greedy does not show. Texts are UTF-8 bytes.
\<close>

section \<open>Patterns\<close>

datatype regex =
    Chars "char \<Rightarrow> bool"
  | Empty
  | Then regex regex
  | Or regex regex
  | Many regex
  | Ahead regex
  | Start
  | Finish
  | Word_Edge

text \<open>A position: the character before it and the text after it.\<close>

type_synonym pos = "char option \<times> string"

definition word_char :: "char \<Rightarrow> bool" where
  "word_char c \<longleftrightarrow> (let n = of_char c :: nat
    in 48 \<le> n \<and> n \<le> 57 \<or> 65 \<le> n \<and> n \<le> 90 \<or> 97 \<le> n \<and> n \<le> 122 \<or> n = 95)"

definition re_space :: "char \<Rightarrow> bool" where
  "re_space c \<longleftrightarrow> of_char c \<in> {9, 10, 11, 12, 13, 28, 29, 30, 31, 32 :: nat}"

definition word_edge :: "pos \<Rightarrow> bool" where
  "word_edge x \<longleftrightarrow>
    (case fst x of None \<Rightarrow> False | Some c \<Rightarrow> word_char c) \<noteq> (case snd x of [] \<Rightarrow> False | c # _ \<Rightarrow> word_char c)"

text \<open>Repetitions that match nothing add no position, so each round consumes something.\<close>

primrec many_ends :: "(pos \<Rightarrow> pos list) \<Rightarrow> nat \<Rightarrow> pos \<Rightarrow> pos list" where
  "many_ends f 0 x = [x]"
| "many_ends f (Suc n) x =
    x # concat (map (many_ends f n) (filter (\<lambda>y. length (snd y) < length (snd x)) (f x)))"

primrec match_ends :: "regex \<Rightarrow> pos \<Rightarrow> pos list" where
  "match_ends (Chars P) x = (case snd x of [] \<Rightarrow> [] | c # cs \<Rightarrow> if P c then [(Some c, cs)] else [])"
| "match_ends Empty x = [x]"
| "match_ends (Then r q) x = concat (map (match_ends q) (match_ends r x))"
| "match_ends (Or r q) x = match_ends r x @ match_ends q x"
| "match_ends (Many r) x = many_ends (match_ends r) (length (snd x)) x"
| "match_ends (Ahead r) x = (if match_ends r x = [] then [] else [x])"
| "match_ends Start x = (if fst x = None then [x] else [])"
| "match_ends Finish x = (if snd x = [] \<or> snd x = ''\<newline>'' then [x] else [])"
| "match_ends Word_Edge x = (if word_edge x then [x] else [])"

fun search_from :: "regex \<Rightarrow> char option \<Rightarrow> string \<Rightarrow> bool" where
  "search_from r p [] \<longleftrightarrow> match_ends r (p, []) \<noteq> []"
| "search_from r p (c # cs) \<longleftrightarrow> match_ends r (p, c # cs) \<noteq> [] \<or> search_from r (Some c) cs"

definition re_search :: "regex \<Rightarrow> string \<Rightarrow> bool" where
  "re_search r s = search_from r None s"

text \<open>Abbreviations of the notation: literals, white space, \<open>.*\<close>, \<open>+\<close>, \<open>?\<close>, \<open>{1,n}\<close> and character sets.\<close>

definition one_of :: "string \<Rightarrow> regex" where
  "one_of cs = Chars (\<lambda>c. c \<in> set cs)"

definition none_of :: "string \<Rightarrow> regex" where
  "none_of cs = Chars (\<lambda>c. c \<notin> set cs)"

fun seq :: "regex list \<Rightarrow> regex" where
  "seq [] = Empty"
| "seq [r] = r"
| "seq (r # rs) = Then r (seq rs)"

fun alts :: "regex list \<Rightarrow> regex" where
  "alts [] = Chars (\<lambda>_. False)"
| "alts [r] = r"
| "alts (r # rs) = Or r (alts rs)"

definition lit :: "string \<Rightarrow> regex" where
  "lit s = seq (map (\<lambda>c. Chars (\<lambda>x. x = c)) s)"

definition white :: regex where
  "white = Chars re_space"

definition some :: "regex \<Rightarrow> regex" where
  "some r = Then r (Many r)"

definition maybe :: "regex \<Rightarrow> regex" where
  "maybe r = Or r Empty"

definition up_to :: "nat \<Rightarrow> regex \<Rightarrow> regex" where
  "up_to n r = Then r (seq (replicate (n - 1) (maybe r)))"

definition dots :: regex where
  "dots = Many (none_of ''\<newline>'')"

definition lower_text :: "string \<Rightarrow> string" where
  "lower_text s = map ascii_lower s"

text \<open>A pattern with \<open>IGNORECASE\<close> is written in lower case.\<close>

definition search_ic :: "regex \<Rightarrow> string \<Rightarrow> bool" where
  "search_ic r s = re_search r (lower_text s)"

section \<open>Words of a shell line\<close>

text \<open>\<open>shlex.split\<close>: the state of the scanner, the word so far, and whether a part was quoted.\<close>

datatype lex_state = Between | In_Word | Quoted char | Escaped "char option"

definition lex_space :: "char \<Rightarrow> bool" where
  "lex_space c \<longleftrightarrow> of_char c \<in> {9, 10, 13, 32 :: nat}"

definition APOS :: char where "APOS = char_of (39 :: nat)"
definition QUOT :: char where "QUOT = char_of (34 :: nat)"
definition BACKSLASH :: char where "BACKSLASH = char_of (92 :: nat)"

fun shlex_from :: "lex_state \<Rightarrow> string \<Rightarrow> bool \<Rightarrow> string \<Rightarrow> string list option" where
  "shlex_from Between w q [] = Some []"
| "shlex_from Between w q (c # cs) =
    (if lex_space c then shlex_from Between [] False cs
     else if c = BACKSLASH then shlex_from (Escaped None) [] False cs
     else if c = APOS \<or> c = QUOT then shlex_from (Quoted c) [] False cs
     else shlex_from In_Word [c] False cs)"
| "shlex_from In_Word w q [] = Some (if w = [] \<and> \<not> q then [] else [w])"
| "shlex_from In_Word w q (c # cs) =
    (if lex_space c then
       (if w = [] \<and> \<not> q then shlex_from Between [] False cs
        else map_option ((#) w) (shlex_from Between [] False cs))
     else if c = APOS \<or> c = QUOT then shlex_from (Quoted c) w q cs
     else if c = BACKSLASH then shlex_from (Escaped None) w q cs
     else shlex_from In_Word (w @ [c]) q cs)"
| "shlex_from (Quoted k) w q [] = None"
| "shlex_from (Quoted k) w q (c # cs) =
    (if c = k then shlex_from In_Word w True cs
     else if c = BACKSLASH \<and> k = QUOT then shlex_from (Escaped (Some k)) w True cs
     else shlex_from (Quoted k) (w @ [c]) True cs)"
| "shlex_from (Escaped k) w q [] = None"
| "shlex_from (Escaped k) w q (c # cs) =
    (case k of
       None \<Rightarrow> shlex_from In_Word (w @ [c]) q cs
     | Some e \<Rightarrow> shlex_from (Quoted e)
         (w @ (if c \<noteq> BACKSLASH \<and> c \<noteq> e then [BACKSLASH, c] else [c])) q cs)"

definition shlex_split :: "string \<Rightarrow> string list option" where
  "shlex_split s = shlex_from Between [] False s"

text \<open>The maximal pieces without separators; empty ones are left out.\<close>

fun pieces :: "(char \<Rightarrow> bool) \<Rightarrow> string \<Rightarrow> string \<Rightarrow> string list" where
  "pieces sep w [] = (if w = [] then [] else [w])"
| "pieces sep w (c # cs) =
    (if sep c then (if w = [] then pieces sep [] cs else w # pieces sep [] cs)
     else pieces sep (w @ [c]) cs)"

text \<open>Splitting never makes text: the words together are no longer than the line.\<close>

definition text_size :: "string list \<Rightarrow> nat" where
  "text_size ws = sum_list (map length ws)"

lemma text_size_simps [simp]: "text_size [] = 0" "text_size (w # ws) = length w + text_size ws"
  by (simp_all add: text_size_def)

lemma text_size_member: "w \<in> set ws \<Longrightarrow> length w \<le> text_size ws"
  by (induction ws) auto

lemma shlex_from_size:
  "shlex_from st w q s = Some ws \<Longrightarrow>
    text_size ws \<le> length s + (case st of Between \<Rightarrow> 0 | Escaped (Some _) \<Rightarrow> length w + 1 | _ \<Rightarrow> length w)"
proof (induction st w q s arbitrary: ws rule: shlex_from.induct)
  case (2 w q c cs)
  then show ?case by (fastforce split: if_splits)
next
  case (4 w q c cs)
  then show ?case by (fastforce split: if_splits)
next
  case (8 k w q c cs)
  then show ?case by (fastforce split: if_splits option.splits)
qed (fastforce split: if_splits)+

lemma pieces_size: "text_size (pieces sep w s) \<le> length w + length s"
proof (induction sep w s rule: pieces.induct)
  case (2 sep w c cs)
  then show ?case by (cases "w = []") auto
qed auto

end
