(* ===== verification/Shell_Guard.thy ===== *)
theory Shell_Guard
  imports Py_Regex
begin

text \<open>
  The content checks of \<open>core/sandbox/guard.py\<close>: what makes a shell command, a text for a
  running process, a piece of Python or a file to be written unacceptable. Parsing Python
  and URLs and the file system are parameters; the messages are reduced to what they name.
  Letters outside ASCII have no case here.
\<close>

section \<open>Configuration and the file system\<close>

record guard_config =
  gc_sensitive :: "string list"
  gc_system :: "string list"
  gc_words :: "string list"

definition DEFAULT_GUARD :: guard_config where
  "DEFAULT_GUARD =
    \<lparr>gc_sensitive = [],
     gc_system = [''/etc'', ''/sys'', ''/proc'', ''/var/lib'', ''/boot'', ''/System'', ''/Library'', ''/Applications''],
     gc_words = [''format'', ''shutdown'', ''reboot'', ''halt'']\<rparr>"

text \<open>\<open>expandvars\<close>, \<open>normpath\<close>, \<open>realpath\<close> (which may raise) and \<open>Path.resolve\<close>.\<close>

record file_env =
  fe_expand :: "string \<Rightarrow> string"
  fe_norm :: "string \<Rightarrow> string"
  fe_real :: "string \<Rightarrow> string option"
  fe_resolve :: "string \<Rightarrow> string option"

definition starts_with :: "string \<Rightarrow> string \<Rightarrow> bool" where
  "starts_with p s \<longleftrightarrow> take (length p) s = p"

definition ends_with :: "string \<Rightarrow> string \<Rightarrow> bool" where
  "ends_with p s \<longleftrightarrow> starts_with (rev p) (rev s)"

definition slashes :: "string \<Rightarrow> string" where
  "slashes s = map (\<lambda>c. if c = BACKSLASH then CHR ''/'' else c) s"

definition rstrip_of :: "string \<Rightarrow> string \<Rightarrow> string" where
  "rstrip_of cs s = rev (dropWhile (\<lambda>c. c \<in> set cs) (rev s))"

definition strip_of :: "string \<Rightarrow> string \<Rightarrow> string" where
  "strip_of cs s = rstrip_of cs (dropWhile (\<lambda>c. c \<in> set cs) s)"

definition unquote :: "string \<Rightarrow> string" where
  "unquote s = strip_of [APOS, QUOT] s"

definition path_prefix_hit :: "string \<Rightarrow> string list \<Rightarrow> bool" where
  "path_prefix_hit s system \<longleftrightarrow>
    (\<exists>sp \<in> set system. let p = rstrip_of ''/'' (slashes sp) in s = p \<or> starts_with (p @ ''/'') s)"

text \<open>The POSIX branches.\<close>

definition is_system_path :: "guard_config \<Rightarrow> file_env \<Rightarrow> string \<Rightarrow> bool" where
  "is_system_path g f raw \<longleftrightarrow>
    (let s = slashes raw; hit = (\<lambda>x. path_prefix_hit x (gc_system g)) in
     if starts_with ''/'' s \<or> starts_with ''$'' raw then
       hit s \<or>
       (let norm = fe_norm f (slashes (fe_expand f raw)) in starts_with ''/'' norm \<and> hit norm) \<or>
       (let resolved = (case fe_real f (fe_expand f raw) of None \<Rightarrow> [] | Some x \<Rightarrow> slashes x)
        in starts_with ''/'' resolved \<and> hit resolved)
     else (case fe_resolve f raw of
         None \<Rightarrow> False
       | Some x \<Rightarrow> hit (slashes (lower_text (fe_norm f x)))))"

section \<open>Dangerous commands\<close>

definition NEWLINES :: string where
  "NEWLINES = [char_of (10 :: nat), char_of (13 :: nat)]"

definition letter :: regex where
  "letter = Chars (\<lambda>c. 97 \<le> (of_char c :: nat) \<and> (of_char c :: nat) \<le> 122)"

definition digit :: regex where
  "digit = Chars (\<lambda>c. 48 \<le> (of_char c :: nat) \<and> (of_char c :: nat) \<le> 57)"

definition cmd_start :: regex where
  "cmd_start = Or Start (Then (one_of '';&|'') (Many white))"

definition cmd_end :: regex where
  "cmd_end = Ahead (alts [white, Finish, one_of '';&|''])"

definition line :: regex where
  "line = Many (none_of NEWLINES)"

definition rm_options :: regex where
  "rm_options = seq [cmd_start, lit ''rm'',
    some (Then (some white) (Or (Then (lit ''-'') (Many letter))
      (Then (lit ''--'') (Or (lit ''force'') (lit ''recursive''))))),
    some white, maybe (Then (lit ''--'') (some white))]"

definition DANGEROUS_COMMAND_PATTERNS :: "(string \<times> regex) list" where
  "DANGEROUS_COMMAND_PATTERNS =
    [(''rm -rf /'', seq [rm_options, lit ''/'', Or (lit ''*'') cmd_end]),
     (''rm -rf ~'', seq [rm_options, lit ''~'', cmd_end]),
     (''rm -rf .'', seq [rm_options, lit ''.'', cmd_end]),
     (''del /f /s'', seq [cmd_start, lit ''del'', some white,
        Ahead (seq [line, white, lit ''/f'', Word_Edge]), Ahead (seq [line, white, lit ''/s'', Word_Edge])]),
     (''rd /s /q'', seq [cmd_start, Or (lit ''rd'') (lit ''rmdir''), some white,
        Ahead (seq [line, white, lit ''/s'', Word_Edge]), Ahead (seq [line, white, lit ''/q'', Word_Edge])]),
     (''diskpart'', seq [cmd_start, lit ''diskpart'', Or white Finish]),
     (''taskkill /f'', seq [cmd_start, lit ''taskkill'', some white, line, white, lit ''/f'', Word_Edge]),
     (''chmod 0'', seq [cmd_start, lit ''chmod'', some white, up_to 4 (lit ''0''), Ahead (Or white Finish)]),
     (''chown -r'', seq [cmd_start, lit ''chown'', some white,
        Or (seq [lit ''-'', Many letter, lit ''r'', Many letter]) (lit ''--recursive''), some white, line,
        white, lit ''/'', Or (lit ''*'') cmd_end]),
     (''mkfs'', seq [cmd_start, lit ''mkfs'',
        maybe (Then (lit ''.'') (some (alts [letter, digit, one_of ''_+-'']))), Or white Finish]),
     (''dd if='', seq [cmd_start, lit ''dd'', some white, line, Word_Edge, lit ''if='']),
     ('':(){ :|:& };:'', lit '':(){ :|:& };:''),
     (''fork bomb'', seq [lit '':'', Many white, lit ''('', Many white, lit '')'', Many white, lit ''{'',
        Many white, lit '':'', Many white, maybe (lit ''|''), Many white, maybe (lit '':''), Many white,
        lit ''&'', Many white, lit ''}'']),
     (''> /dev/sda'', seq [lit ''>'', Many white, lit ''/dev/'', Or (lit ''sda'') (Then (lit ''mmcblk'') (some digit)),
        maybe (some digit), cmd_end])]"

definition tokenize_command :: "string \<Rightarrow> string list" where
  "tokenize_command s = (case shlex_split s of Some ws \<Rightarrow> ws | None \<Rightarrow> pieces re_space [] s)"

definition split_subcommands :: "string \<Rightarrow> string list" where
  "split_subcommands s = filter (\<lambda>p. strip p \<noteq> []) (pieces (\<lambda>c. c \<in> set ('';&|'' @ [CHR 0x0A])) [] s)"

text \<open>\<open>FOO=bar\<close>\<close>

definition is_assignment :: "string \<Rightarrow> bool" where
  "is_assignment w \<longleftrightarrow>
    (let n = takeWhile word_char w
     in n \<noteq> [] \<and> \<not> (48 \<le> (of_char (hd n) :: nat) \<and> (of_char (hd n) :: nat) \<le> 57) \<and>
        starts_with ''='' (drop (length n) w))"

fun strip_env :: "string list \<Rightarrow> string list" where
  "strip_env [] = []"
| "strip_env (w # ws) = (if is_assignment w \<or> w = ''env'' then strip_env ws else w # ws)"

fun strip_sudo_options :: "string list \<Rightarrow> string list" where
  "strip_sudo_options (w # x # ws) =
    (if w \<in> {''-u'', ''-g'', ''--user'', ''--group''} then
       (if starts_with ''-'' x then strip_sudo_options (x # ws) else strip_sudo_options ws)
     else w # x # ws)"
| "strip_sudo_options [w] = (if w \<in> {''-u'', ''-g'', ''--user'', ''--group''} then [] else [w])"
| "strip_sudo_options [] = []"

lemma strip_sudo_options_length: "length (strip_sudo_options ws) \<le> length ws"
  by (induction ws rule: strip_sudo_options.induct) auto

function strip_sudo :: "string list \<Rightarrow> string list" where
  "strip_sudo [] = []"
| "strip_sudo (w # ws) = (if w = ''sudo'' then strip_sudo (strip_sudo_options ws) else w # ws)"
  by pat_completeness auto

termination
  by (relation "measure length") (use strip_sudo_options_length in \<open>auto simp: le_imp_less_Suc\<close>)

definition strip_privilege_prefix :: "string list \<Rightarrow> string list" where
  "strip_privilege_prefix ws = strip_sudo (strip_env ws)"

definition CRITICAL_DIRS :: "string list" where
  "CRITICAL_DIRS = [''/bin'', ''/sbin'', ''/boot'', ''/etc'', ''/usr'', ''/var'', ''/lib'', ''/root'', ''/dev'',
    ''/sys'', ''/proc'']"

definition is_critical_target :: "string \<Rightarrow> bool" where
  "is_critical_target token \<longleftrightarrow>
    (let t = unquote token; norm = rstrip_of ''/'' t
     in t = ''/'' \<or> norm \<in> {''~'', ''$home'', ''${home}''} \<or>
        (\<exists>d \<in> set CRITICAL_DIRS. norm = d \<or> starts_with (d @ ''/'') norm))"

definition RM_WIPE_TARGETS :: "string list" where
  "RM_WIPE_TARGETS = [''.'', ''..'', ''/*'', ''./*'', ''../*'', ''*'']"

definition is_option :: "string \<Rightarrow> bool" where
  "is_option a \<longleftrightarrow> a = ''--'' \<or> starts_with ''-'' a"

definition destructive_target_hit :: "string list \<Rightarrow> string option" where
  "destructive_target_hit tokens =
    (let cmd = unquote (hd tokens); args = tl tokens in
     if cmd = ''rm'' then
       map_option unquote (find (\<lambda>a. \<not> is_option a \<and>
         (let t = unquote a; norm = (if t \<noteq> ''/'' then rstrip_of ''/'' t else t)
          in norm \<in> set RM_WIPE_TARGETS \<or> is_critical_target t)) args)
     else if cmd = ''chmod'' \<or> cmd = ''chown'' then
       map_option unquote (find (\<lambda>a. \<not> is_option a \<and>
         (let t = unquote a in (t \<noteq> [] \<and> hd t \<in> set ''/~$.'') \<and> is_critical_target t)) args)
     else if cmd = ''dd'' then
       find (\<lambda>a. starts_with ''of='' a \<and>
         (let v = takeWhile (\<lambda>c. c \<noteq> CHR 0x0A) (drop 3 a)
          in v \<noteq> [] \<and> drop (3 + length v) a \<in> {[], [CHR 0x0A]} \<and> is_critical_target v)) args
     else if starts_with ''mkfs'' cmd then
       find (\<lambda>a. \<not> starts_with ''-'' a \<and> is_critical_target (unquote a)) args
     else None)"

definition DESTRUCTIVE_COMMANDS :: "string list" where
  "DESTRUCTIVE_COMMANDS = [''rm'', ''chmod'', ''chown'', ''dd'', ''mkfs'']"

datatype danger = Pattern string | Nested danger | Word_Hit string | Target_Hit string string

fun first_some :: "('a \<Rightarrow> 'b option) \<Rightarrow> 'a list \<Rightarrow> 'b option" where
  "first_some f [] = None"
| "first_some f (x # xs) = (case f x of None \<Rightarrow> first_some f xs | Some y \<Rightarrow> Some y)"

lemma first_some_cong [fundef_cong]:
  "xs = ys \<Longrightarrow> (\<And>x. x \<in> set ys \<Longrightarrow> f x = g x) \<Longrightarrow> first_some f xs = first_some g ys"
  by (induction xs arbitrary: ys) (auto split: option.split)

text \<open>The text behind \<open>-c\<close>, for a shell that is asked to run one.\<close>

fun after_c :: "string list \<Rightarrow> string option" where
  "after_c (w # x # ws) = (if w = ''-c'' then Some x else after_c (x # ws))"
| "after_c _ = None"

definition nested_command :: "string list \<Rightarrow> string option" where
  "nested_command tokens =
    (if unquote (hd tokens) \<in> {''bash'', ''sh'', ''dash'', ''zsh'', ''ksh''}
     then (case after_c tokens of
         None \<Rightarrow> None
       | Some x \<Rightarrow> (let inner = unquote x in if inner = [] then None else Some inner))
     else None)"

definition segment_tokens :: "string \<Rightarrow> string list" where
  "segment_tokens seg = strip_privilege_prefix (tokenize_command seg)"

definition token_hit :: "guard_config \<Rightarrow> string list \<Rightarrow> danger option" where
  "token_hit g tokens =
    (let cmd = unquote (hd tokens) in
     if lower_text cmd \<in> set (map lower_text (gc_words g)) then Some (Word_Hit cmd)
     else if cmd \<in> set DESTRUCTIVE_COMMANDS \<or> starts_with ''mkfs'' cmd
     then map_option (Target_Hit cmd) (destructive_target_hit tokens)
     else None)"


text \<open>Why the nested search ends: an inner command is shorter than the line it is on.\<close>

lemma strip_env_size: "text_size (strip_env ws) \<le> text_size ws"
  by (induction ws) auto

lemma strip_sudo_options_size: "text_size (strip_sudo_options ws) \<le> text_size ws"
  by (induction ws rule: strip_sudo_options.induct) auto

lemma strip_sudo_size: "text_size (strip_sudo ws) \<le> text_size ws"
proof (induction ws rule: strip_sudo.induct)
  case (2 w ws)
  with strip_sudo_options_size [of ws] show ?case by auto
qed simp

lemma tokenize_command_size: "text_size (tokenize_command s) \<le> length s"
  using shlex_from_size [of Between "[]" False s] pieces_size [of re_space "[]" s]
  by (auto simp: tokenize_command_def shlex_split_def split: option.splits)

lemma segment_tokens_size: "text_size (segment_tokens seg) \<le> length seg"
  using strip_sudo_size [of "strip_env (tokenize_command seg)"] strip_env_size [of "tokenize_command seg"]
    tokenize_command_size [of seg]
  by (simp add: segment_tokens_def strip_privilege_prefix_def)

lemma unquote_length: "length (unquote s) \<le> length s"
  using length_dropWhile_le [of "\<lambda>c. c \<in> set [APOS, QUOT]"] order_trans
  unfolding unquote_def strip_of_def rstrip_of_def length_rev by (metis length_rev)

lemma after_c_size: "after_c ws = Some x \<Longrightarrow> length x + 2 \<le> text_size ws"
  by (induction ws rule: after_c.induct) (auto split: if_splits)

lemma nested_command_size:
  assumes "nested_command ws = Some inner"
  shows "length inner < text_size ws"
proof -
  obtain x where "after_c ws = Some x" "inner = unquote x"
    using assms by (auto simp: nested_command_def Let_def split: if_splits option.splits)
  with after_c_size [of ws x] unquote_length [of x] show ?thesis by simp
qed

lemma split_subcommands_length: "seg \<in> set (split_subcommands s) \<Longrightarrow> length seg \<le> length s"
  using text_size_member pieces_size [of "\<lambda>c. c \<in> set ('';&|'' @ [CHR 0x0A])" "[]" s]
  by (fastforce simp: split_subcommands_def)

function match_dangerous :: "guard_config \<Rightarrow> string \<Rightarrow> danger option" where
  "match_dangerous g s =
    (case find (\<lambda>(_, r). re_search r s) DANGEROUS_COMMAND_PATTERNS of
       Some (label, _) \<Rightarrow> Some (Pattern label)
     | None \<Rightarrow>
         first_some (\<lambda>seg.
           if segment_tokens seg = [] then None
           else (case nested_command (segment_tokens seg) of
               None \<Rightarrow> token_hit g (segment_tokens seg)
             | Some inner \<Rightarrow>
                 (case match_dangerous g inner of
                    Some d \<Rightarrow> Some (Nested d)
                  | None \<Rightarrow> token_hit g (segment_tokens seg)))) (split_subcommands s))"
  by pat_completeness auto

termination
proof (relation "measure (\<lambda>(g, s). length s)")
  fix g s seg inner
  assume "seg \<in> set (split_subcommands s)" "nested_command (segment_tokens seg) = Some inner"
  then have "length inner < length s"
    using nested_command_size segment_tokens_size [of seg] split_subcommands_length [of seg s] by fastforce
  then show "((g, inner), g, s) \<in> measure (\<lambda>(g, s). length s)" by simp
qed simp

declare match_dangerous.simps [simp del]

section \<open>Shell commands\<close>

definition DATA_LEAK_PATTERNS :: "regex list" where
  "DATA_LEAK_PATTERNS =
    [seq [lit ''curl'', some white, dots, lit ''-d'', some white, dots, lit ''$''],
     seq [lit ''curl'', some white, dots, lit ''--data'', some white, dots, lit ''$''],
     seq [lit ''curl'', some white, dots, lit ''--data-raw'', some white, dots, lit ''$''],
     seq [lit ''wget'', some white, dots, lit ''--post-data'', some white, dots, lit ''$''],
     seq [lit ''git'', some white, lit ''push'', some white, lit ''http'', maybe (lit ''s''), lit ''://''],
     seq [Or (lit ''nc'') (lit ''netcat''), some white, lit ''-e'', some white],
     seq [lit ''bash'', some white, lit ''-i'', some white, lit ''>'', maybe (lit ''&''), some white, lit ''/dev/tcp/''],
     seq [lit ''base64'', some white, alts [lit ''.env'', lit ''id_rsa'', lit ''token'', lit ''.git/config'']],
     seq [lit ''curl'', some white, dots, lit ''$api_key''],
     seq [lit ''curl'', some white, dots, lit ''$token''],
     seq [lit ''curl'', some white, dots, lit ''$secret'']]"

definition zh :: "nat list \<Rightarrow> regex" where
  "zh ns = lit (map char_of ns)"

definition EXEC_INJECTION_PATTERNS :: "regex list" where
  "EXEC_INJECTION_PATTERNS =
    [Then (lit ''@reboot'') (some white),
     seq [lit ''schtasks'', some white, lit ''/create''],
     seq [lit ''reg'', some white, lit ''add'', some white, dots, lit [BACKSLASH], lit ''currentversion'',
       lit [BACKSLASH], lit ''run''],
     seq [lit ''systemctl'', some white, lit ''enable'', some white],
     seq [lit ''useradd'', some white],
     seq [lit ''adduser'', some white],
     seq [lit ''chmod'', some white, lit ''777'', some white, lit ''/''],
     seq [lit ''invoke-command'', some white, lit ''-computername''],
     seq [lit ''invoke-expression'', some white],
     seq [lit ''iex'', some white],
     seq [lit ''net'', some white, lit ''user'', some white, dots, lit ''/add''],
     seq [zh [0xe6, 0x96, 0xb0, 0xe5, 0xa2, 0x9e], dots, zh [0xe7, 0x94, 0xa8, 0xe6, 0x88, 0xb7]],
     seq [zh [0xe6, 0x96, 0xb0, 0xe5, 0xbb, 0xba], dots, zh [0xe4, 0xbb, 0xbb, 0xe5, 0x8a, 0xa1]],
     seq [zh [0xe6, 0xb7, 0xbb, 0xe5, 0x8a, 0xa0], dots, zh [0xe8, 0xae, 0xa1, 0xe5, 0x88, 0x92]],
     seq [zh [0xe5, 0x85, 0xb3, 0xe9, 0x97, 0xad], dots, zh [0xe9, 0x98, 0xb2, 0xe7, 0x81, 0xab, 0xe5, 0xa2, 0x99]],
     seq [zh [0xe5, 0x81, 0x9c, 0xe6, 0xad, 0xa2], dots, zh [0xe6, 0x9c, 0x8d, 0xe5, 0x8a, 0xa1]]]"

definition VERSIONED :: regex where
  "VERSIONED = alts [lit ''python'', lit ''python3'', lit ''node'', lit ''npm'', lit ''pip'', lit ''git'', lit ''go'',
    lit ''rustc'', lit ''cargo'']"

definition SAFE_PATTERNS :: "regex list" where
  "SAFE_PATTERNS =
    [seq [Start, lit ''git'', some white, alts [lit ''status'', lit ''log'', lit ''diff'', lit ''show'', lit ''branch'',
       lit ''stash'', lit ''config'', lit ''remote''], Word_Edge],
     seq [Start, lit ''git'', some white, lit ''add'', Word_Edge],
     seq [Start, lit ''git'', some white, lit ''commit'', Word_Edge],
     seq [Start, alts [lit ''ls'', lit ''dir'', lit ''pwd'', lit ''echo'', lit ''cat'', lit ''type'', lit ''more'', lit ''less'',
       lit ''head'', lit ''tail'', lit ''find'', lit ''findstr'', lit ''grep'', lit ''where'', lit ''which''], white],
     seq [Start, VERSIONED, some white, lit ''--version'', Finish],
     seq [Start, VERSIONED, some white, lit ''-v'', Finish],
     seq [Start, lit ''mkdir'', some white, lit ''-p'', some white, maybe (lit ''.''), one_of (CHR ''/'' # [BACKSLASH])],
     seq [Start, lit ''mkdir'', some white, maybe (lit ''.''), one_of (CHR ''/'' # [BACKSLASH])],
     seq [Start, lit ''pip'', some white, alts [lit ''install'', lit ''list'', lit ''show''], white],
     seq [Start, lit ''npm'', some white, alts [lit ''install'', lit ''list'', lit ''show''], white]]"

datatype block =
    Dangerous danger
  | System_Path string
  | Sensitive_File string
  | Data_Leak
  | Injection
  | Python_Danger
  | Syntax_Problem
  | Forbidden_Import string
  | Forbidden_Call string

text \<open>The absolute paths of a command: a slash and at least two more characters.\<close>

definition PATH_STOPS :: string where
  "PATH_STOPS = '';|&<>`(){}[]'' @ [APOS, QUOT]"

definition path_char :: "char \<Rightarrow> bool" where
  "path_char c \<longleftrightarrow> \<not> re_space c \<and> c \<notin> set PATH_STOPS"

function command_paths :: "string \<Rightarrow> string list" where
  "command_paths [] = []"
| "command_paths (c # cs) =
    (let w = takeWhile path_char cs in
     if c = CHR ''/'' \<and> 2 \<le> length w then (c # w) # command_paths (drop (length w) cs)
     else command_paths cs)"
  by pat_completeness auto

termination by (relation "measure length") (auto simp: le_imp_less_Suc)

definition basename :: "string \<Rightarrow> string" where
  "basename s = rev (takeWhile (\<lambda>c. c \<noteq> CHR ''/'') (rev s))"

definition sensitive_pattern :: "string \<Rightarrow> regex" where
  "sensitive_pattern name =
    (let stop = Or white (one_of PATH_STOPS)
     in seq [Or Start stop, Many (one_of ''./''), lit name, alts [stop, lit ''$'', Finish]])"

definition check_command_for_paths :: "guard_config \<Rightarrow> file_env \<Rightarrow> string \<Rightarrow> block option" where
  "check_command_for_paths g f command =
    (case find (is_system_path g f) (command_paths command) of
       Some p \<Rightarrow> Some (System_Path p)
     | None \<Rightarrow>
         map_option Sensitive_File (find (\<lambda>sf. let b = lower_text (basename sf)
             in b \<noteq> [] \<and> re_search (sensitive_pattern b) (lower_text command)) (gc_sensitive g)))"

definition check_command_safety :: "guard_config \<Rightarrow> file_env \<Rightarrow> bool \<Rightarrow> string \<Rightarrow> block option" where
  "check_command_safety g f policy_paths command =
    (case match_dangerous g (lower_text command) of
       Some d \<Rightarrow> Some (Dangerous d)
     | None \<Rightarrow>
       (case (if policy_paths then check_command_for_paths g f command
              else map_option System_Path (find (is_system_path g f) (command_paths command))) of
          Some b \<Rightarrow> Some b
        | None \<Rightarrow>
          if \<not> re_search (one_of ('';&|'' @ [CHR 0x0A])) command \<and> (\<exists>r \<in> set SAFE_PATTERNS. re_search r command)
          then None
          else if \<exists>r \<in> set DATA_LEAK_PATTERNS. search_ic r command then Some Data_Leak
          else if \<exists>r \<in> set EXEC_INJECTION_PATTERNS. search_ic r command then Some Injection
          else None))"

section \<open>Other contents\<close>

definition PROC_PYTHON_DANGER :: "regex list" where
  "PROC_PYTHON_DANGER =
    [seq [Word_Edge, lit ''os.system'', Many white, lit ''(''],
     seq [Word_Edge, lit ''os.'', alts [lit ''remove'', lit ''unlink'', lit ''rmdir'', lit ''kill''], Many white, lit ''(''],
     seq [Word_Edge, lit ''shutil.rmtree'', Many white, lit ''(''],
     seq [Word_Edge, lit ''subprocess'', Word_Edge],
     seq [Word_Edge, lit ''__import__'', Many white, lit ''(''],
     seq [Word_Edge, lit ''eval'', Many white, lit ''(''],
     seq [Word_Edge, lit ''exec'', Many white, lit ''(''],
     seq [Word_Edge, lit ''ctypes'', Word_Edge]]"

definition check_proc_send_input :: "guard_config \<Rightarrow> file_env \<Rightarrow> string \<Rightarrow> block option" where
  "check_proc_send_input g f text =
    (case check_command_safety g f True text of
       Some b \<Rightarrow> Some b
     | None \<Rightarrow> if \<exists>r \<in> set PROC_PYTHON_DANGER. re_search r text then Some Python_Danger else None)"

definition check_write_content :: "guard_config \<Rightarrow> file_env \<Rightarrow> bool \<Rightarrow> string \<Rightarrow> string \<Rightarrow> block option" where
  "check_write_content g f policy_paths path content =
    (let p = lower_text (fe_norm f path) in
     case (if policy_paths
           then find (\<lambda>sf. let n = lower_text (fe_norm f sf) in p = n \<or> ends_with (''/'' @ n) p) (gc_sensitive g)
           else None) of
       Some sf \<Rightarrow> Some (Sensitive_File sf)
     | None \<Rightarrow>
         if policy_paths \<and> is_system_path g f path then Some (System_Path path)
         else if \<exists>r \<in> set EXEC_INJECTION_PATTERNS. search_ic r content then Some Injection
         else None)"

text \<open>The nodes of a syntax tree that the check looks at, in the order of \<open>ast.walk\<close>.\<close>

datatype py_node =
    Import_Names "string list"
  | Import_From "string option"
  | Call_Name string
  | Call_Attribute string string
  | Other_Node

record python_rules =
  py_imports :: "string list"
  py_calls :: "string list"
  py_qualified :: "string list"

definition DEFAULT_PYTHON_RULES :: python_rules where
  "DEFAULT_PYTHON_RULES =
    \<lparr>py_imports = [''subprocess'', ''ctypes'', ''socket'', ''importlib''],
     py_calls = [''eval'', ''exec'', ''__import__'', ''compile'', ''open'', ''getattr'', ''setattr''],
     py_qualified = [''os.system'', ''os.popen'', ''os.execv'', ''os.execve'', ''os.execvp'', ''os.execvpe'',
       ''os.remove'', ''os.unlink'', ''os.rmdir'', ''os.kill'', ''os.killpg'', ''shutil.rmtree'', ''builtins.open'',
       ''builtins.eval'', ''builtins.exec'', ''builtins.compile'', ''builtins.__import__'', ''builtins.getattr'',
       ''builtins.setattr'']\<rparr>"

text \<open>A list that the configuration gives replaces the default.\<close>

definition merge_python_rules ::
  "string list option \<Rightarrow> string list option \<Rightarrow> string list option \<Rightarrow> python_rules" where
  "merge_python_rules imports calls qualified =
    (let dflt = (\<lambda>x d. case x of None \<Rightarrow> d | Some v \<Rightarrow> v)
     in \<lparr>py_imports = dflt imports (py_imports DEFAULT_PYTHON_RULES),
         py_calls = dflt calls (py_calls DEFAULT_PYTHON_RULES),
         py_qualified = dflt qualified (py_qualified DEFAULT_PYTHON_RULES)\<rparr>)"

definition top_module :: "string option \<Rightarrow> string" where
  "top_module m = (case m of None \<Rightarrow> [] | Some s \<Rightarrow> takeWhile (\<lambda>c. c \<noteq> CHR ''.'') s)"

definition node_block :: "python_rules \<Rightarrow> py_node \<Rightarrow> block option" where
  "node_block r n =
    (case n of
       Import_Names ms \<Rightarrow> map_option Forbidden_Import (find (\<lambda>m. top_module (Some m) \<in> set (py_imports r)) ms)
     | Import_From m \<Rightarrow>
         if top_module m \<in> set (py_imports r) then Some (Forbidden_Import (case m of None \<Rightarrow> [] | Some x \<Rightarrow> x)) else None
     | Call_Name x \<Rightarrow> if x \<in> set (py_calls r) then Some (Forbidden_Call x) else None
     | Call_Attribute x a \<Rightarrow>
         if x @ ''.'' @ a \<in> set (py_qualified r) then Some (Forbidden_Call (x @ ''.'' @ a)) else None
     | Other_Node \<Rightarrow> None)"

definition check_python_code :: "(string \<Rightarrow> py_node list option) \<Rightarrow> python_rules \<Rightarrow> string \<Rightarrow> block option" where
  "check_python_code parse r code =
    (case parse code of None \<Rightarrow> Some Syntax_Problem | Some nodes \<Rightarrow> first_some (node_block r) nodes)"

text \<open>\<open>hostname\<close> and the membership of an address in a network are the standard library's.\<close>

definition domain_blocked :: "string \<Rightarrow> string \<Rightarrow> bool" where
  "domain_blocked host pattern \<longleftrightarrow>
    (if starts_with ''*.'' pattern then ends_with (tl pattern) host
     else host = pattern \<or> ends_with (''.'' @ pattern) host)"

definition check_network_target ::
  "(string \<Rightarrow> string option) \<Rightarrow> (string \<Rightarrow> string \<Rightarrow> bool) \<Rightarrow> string list \<Rightarrow> string list \<Rightarrow> string \<Rightarrow> bool" where
  "check_network_target hostname in_network domains ips url =
    (case hostname url of
       None \<Rightarrow> True
     | Some host \<Rightarrow> \<not> (\<exists>p \<in> set domains. domain_blocked host p) \<and> \<not> (\<exists>e \<in> set ips. in_network host e))"

definition SECRET_MARKERS :: "string list" where
  "SECRET_MARKERS = [''api_key'', ''apikey'', ''token'', ''secret'', ''password'', ''passwd'', ''credential'']"

definition SECRET_COMPOUND :: "string list" where
  "SECRET_COMPOUND = [''access_key_id'', ''secret_access_key'', ''mysql_pwd'']"

definition SECRET_ENV_RE :: regex where
  "SECRET_ENV_RE =
    (let left = Or Start (one_of ''_-''); right = Or Finish (one_of ''_-'')
     in Or (seq [left, alts (map lit SECRET_MARKERS), right])
       (seq [left, maybe (Then (some (Chars word_char)) (lit ''_'')), alts (map lit SECRET_COMPOUND), right]))"

definition is_secret_env_key :: "string \<Rightarrow> bool" where
  "is_secret_env_key name = search_ic SECRET_ENV_RE name"

definition sanitize_env :: "(string \<times> string) list \<Rightarrow> (string \<times> string) list" where
  "sanitize_env env = filter (\<lambda>(k, _). \<not> is_secret_env_key k) env"

end
