(* ===== verification/Policy.thy ===== *)
theory Policy
  imports Shell_Guard
begin

text \<open>
  Who may do what: the policy of the four permission modes (\<open>core/policy_engine.py\<close>), the
  checker in front of it (\<open>core/permission.py\<close>) and the gate that tools go through
  (\<open>core/security_gate.py\<close>). Resolving a path against the file system is a parameter;
  the messages shown to the user are left out.
\<close>

section \<open>Modes and levels\<close>

datatype mode = Readonly | Ask_Mode | Allow_Mode | Unreviewed

fun mode_value :: "mode \<Rightarrow> string" where
  "mode_value Readonly = ''readonly''"
| "mode_value Ask_Mode = ''ask''"
| "mode_value Allow_Mode = ''allow''"
| "mode_value Unreviewed = ''unreviewed''"

definition VALID_MODES :: "mode list" where
  "VALID_MODES = [Readonly, Ask_Mode, Allow_Mode, Unreviewed]"

text \<open>An unknown mode is \<open>ask\<close>.\<close>

definition set_mode :: "string \<Rightarrow> mode" where
  "set_mode s = (case find (\<lambda>m. mode_value m = s) VALID_MODES of None \<Rightarrow> Ask_Mode | Some m \<Rightarrow> m)"

datatype level = Deny | Ask | Allow

record decision =
  pd_level :: level
  pd_rule :: string
  pd_paths :: "string list"
  pd_scope :: string
  pd_caps :: "string list"
  pd_requires_approval :: bool

definition make_decision :: "level \<Rightarrow> string \<Rightarrow> string list \<Rightarrow> string list \<Rightarrow> decision" where
  "make_decision l rule paths caps =
    \<lparr>pd_level = l, pd_rule = rule, pd_paths = paths,
     pd_scope = (if 1 < length paths then ''multiple'' else if paths = [] then ''none'' else ''single''),
     pd_caps = caps, pd_requires_approval = (l = Ask)\<rparr>"

section \<open>Capabilities and paths of a call\<close>

definition FILE_READ_CAPS :: "string list" where "FILE_READ_CAPS = [''fs:read'', ''proc:read'']"
definition FILE_MUTATION_CAPS :: "string list" where
  "FILE_MUTATION_CAPS = [''fs:write'', ''fs:edit'', ''fs:delete'', ''fs:move'']"
definition EXEC_CAPS :: "string list" where "EXEC_CAPS = [''exec:shell'', ''exec:code'', ''proc:manage'']"
definition NETWORK_CAPS :: "string list" where "NETWORK_CAPS = [''net:egress'', ''remote:call'']"

definition TOOL_CAPABILITIES :: "(string \<times> string list) list" where
  "TOOL_CAPABILITIES =
    [(''read'', [''fs:read'']), (''grep'', [''fs:read'']), (''glob'', [''fs:read'']), (''write'', [''fs:write'']),
     (''edit'', [''fs:edit'']), (''bash'', [''exec:shell'']), (''python'', [''exec:code'']),
     (''http'', [''net:egress'']), (''search'', [''net:egress'']), (''web_fetch'', [''net:egress'']),
     (''proc_start'', [''proc:manage'', ''exec:shell'']), (''proc_send'', [''proc:manage'']),
     (''proc_read'', [''proc:read'']), (''proc_list'', [''proc:read'']), (''proc_stop'', [''proc:manage''])]"

definition PURE_TOOLS :: "string list" where
  "PURE_TOOLS = [''datetime'', ''calculate'', ''notes'', ''memory_search'', ''memory_update'', ''create_skill'',
    ''skill'', ''think'']"

definition PATH_KEYS :: "string list" where
  "PATH_KEYS = [''file_path'', ''path'', ''source'', ''src'', ''dest'', ''destination'', ''cwd'']"

text \<open>\<open>str(x or "")\<close>; \<open>str\<close> of a value that is no string is a parameter.\<close>

definition text_or_empty :: "(json \<Rightarrow> string) \<Rightarrow> json \<Rightarrow> string" where
  "text_or_empty show v = (case v of JStr s \<Rightarrow> s | _ \<Rightarrow> if truthy v then show v else [])"

definition infer_capabilities :: "(json \<Rightarrow> string) \<Rightarrow> string \<Rightarrow> dict \<Rightarrow> string list" where
  "infer_capabilities show tool params =
    (if tool = ''file_mgr'' then
       (let action = lower_text (text_or_empty show (dget params ''action''))
        in if action \<in> {''ls'', ''list''} then [''fs:read'']
           else if action = ''delete'' then [''fs:delete'']
           else if action \<in> {''move'', ''mv'', ''rename''} then [''fs:move'']
           else [''fs:write''])
     else (case map_of TOOL_CAPABILITIES tool of None \<Rightarrow> [] | Some cs \<Rightarrow> cs))"

text \<open>\<open>tuple(dict.fromkeys(xs))\<close>: the first occurrence of every element.\<close>

definition firsts :: "'a list \<Rightarrow> 'a list" where
  "firsts xs = rev (remdups (rev xs))"

definition strings_in :: "json list \<Rightarrow> string list" where
  "strings_in vs = concat (map (\<lambda>v. case v of JStr (c # cs) \<Rightarrow> [c # cs] | _ \<Rightarrow> []) vs)"

definition extract_paths :: "dict \<Rightarrow> string list" where
  "extract_paths params =
    firsts (strings_in (map (dget params) PATH_KEYS) @
      (case dget params ''paths'' of JList vs \<Rightarrow> strings_in vs | _ \<Rightarrow> []))"

text \<open>The length of what a path begins with: \<open>/\<close>, \<open>~/\<close>, \<open>~\<close> at the end, a drive, or two backslashes.\<close>

definition path_head :: "string \<Rightarrow> nat option" where
  "path_head s =
    (if starts_with ''/'' s then Some 1
     else if starts_with ''~/'' s then Some 2
     else if s \<in> {''~'', ''~'' @ [CHR 0x0A]} then Some 1
     else (case s of
         a # b # c # _ \<Rightarrow>
           if ascii_lower a \<in> set ''abcdefghijklmnopqrstuvwxyz'' \<and> b = CHR '':'' \<and> (c = CHR ''/'' \<or> c = BACKSLASH)
           then Some 3 else if a = BACKSLASH \<and> b = BACKSLASH then Some 2 else None
       | [a, b] \<Rightarrow> if a = BACKSLASH \<and> b = BACKSLASH then Some 2 else None
       | _ \<Rightarrow> None))"

definition shell_stop :: "char \<Rightarrow> bool" where
  "shell_stop c \<longleftrightarrow> re_space c \<or> c \<in> set '';&|<>''"

definition path_at :: "string \<Rightarrow> string option" where
  "path_at s = map_option (\<lambda>n. take n s @ takeWhile (\<lambda>c. \<not> shell_stop c) (drop n s)) (path_head s)"

text \<open>All matches of the path pattern; one begins the line or follows a stop.\<close>

function shell_path_matches :: "bool \<Rightarrow> string \<Rightarrow> string list" where
  "shell_path_matches first [] = []"
| "shell_path_matches first (c # cs) =
    (case (if first then path_at (c # cs) else None) of
       Some p \<Rightarrow> p # shell_path_matches False (drop (length p - 1) cs)
     | None \<Rightarrow>
         (case (if shell_stop c then path_at cs else None) of
            Some p \<Rightarrow> p # shell_path_matches False (drop (length p) cs)
          | None \<Rightarrow> shell_path_matches False cs))"
  by pat_completeness auto

termination by (relation "measure (length \<circ> snd)") (auto simp: le_imp_less_Suc)

definition token_path :: "string \<Rightarrow> bool" where
  "token_path t \<longleftrightarrow> starts_with ''/'' t \<or> starts_with ''~/'' t \<or> starts_with ''./'' t \<or> starts_with ''../'' t \<or>
    starts_with [BACKSLASH, BACKSLASH] t \<or>
    (case t of a # b # c # _ \<Rightarrow> ascii_lower a \<in> set ''abcdefghijklmnopqrstuvwxyz'' \<and> b = CHR '':'' \<and>
        (c = CHR ''/'' \<or> c = BACKSLASH)
     | _ \<Rightarrow> False)"

text \<open>Devices are no data files.\<close>

definition extract_shell_paths :: "string \<Rightarrow> string list" where
  "extract_shell_paths command =
    firsts (filter (\<lambda>p. \<not> starts_with ''/dev/'' p \<and> p \<noteq> ''/dev'')
      (map unquote (shell_path_matches True command) @
       filter token_path (map unquote (case shlex_split command of None \<Rightarrow> [] | Some ws \<Rightarrow> ws))))"

section \<open>The policy\<close>

text \<open>\<open>pe_resolve\<close>: a path made absolute and resolved; \<open>pe_roots\<close> are the roots of the workspace.\<close>

record policy =
  pe_guard :: guard_config
  pe_files :: file_env
  pe_show :: "json \<Rightarrow> string"
  pe_resolve :: "string \<Rightarrow> string"
  pe_roots :: "string list"

definition path_parts :: "string \<Rightarrow> string list" where
  "path_parts s = pieces (\<lambda>c. c = CHR ''/'') [] s"

definition relative_to :: "string \<Rightarrow> string \<Rightarrow> bool" where
  "relative_to p r \<longleftrightarrow> take (length (path_parts r)) (path_parts p) = path_parts r"

definition outside_workspace :: "policy \<Rightarrow> string list \<Rightarrow> bool" where
  "outside_workspace e paths \<longleftrightarrow> (\<exists>p \<in> set paths. \<not> (\<exists>r \<in> set (pe_roots e). relative_to p r))"

definition is_workspace_path :: "policy \<Rightarrow> string \<Rightarrow> bool" where
  "is_workspace_path e p \<longleftrightarrow> (\<exists>r \<in> set (pe_roots e). relative_to (pe_resolve e p) r)"

definition overlap :: "string list \<Rightarrow> string list \<Rightarrow> bool" where
  "overlap xs ys \<longleftrightarrow> (\<exists>x \<in> set xs. x \<in> set ys)"

definition rule_of :: "mode \<Rightarrow> string \<Rightarrow> string" where
  "rule_of m x = ''mode.'' @ mode_value m @ ''.'' @ x"

text \<open>The decision on a call whose paths are known and which is no dangerous command.\<close>

definition decide_mode :: "policy \<Rightarrow> mode \<Rightarrow> string \<Rightarrow> string list \<Rightarrow> string list \<Rightarrow> decision" where
  "decide_mode e m tool paths caps =
    (let resolved = map (pe_resolve e) paths; d = (\<lambda>l rule. make_decision l rule paths caps) in
     if (\<exists>p \<in> set resolved. is_system_path (pe_guard e) (pe_files e) p) \<and> m \<noteq> Unreviewed then d Ask ''path.system''
     else if overlap caps NETWORK_CAPS then
       d (if m \<in> {Allow_Mode, Unreviewed} then Allow else Ask) (rule_of m ''network'')
     else if overlap caps EXEC_CAPS then
       (if m = Readonly then d Deny ''mode.readonly.execution''
        else if m = Ask_Mode then d Ask ''mode.ask.execution''
        else if m = Allow_Mode \<and> outside_workspace e resolved then d Ask ''mode.allow.external_execution''
        else d Allow (rule_of m ''execution''))
     else if overlap caps FILE_MUTATION_CAPS then
       (if m = Readonly then d Deny ''mode.readonly.mutation''
        else if m = Ask_Mode then d Ask ''mode.ask.mutation''
        else if m = Allow_Mode \<and> outside_workspace e resolved then d Ask ''mode.allow.external_mutation''
        else d Allow (rule_of m ''mutation''))
     else if overlap caps FILE_READ_CAPS then d Allow (rule_of m ''read'')
     else if m = Readonly \<and> tool \<notin> set PURE_TOOLS then d Deny ''mode.readonly.unknown''
     else if m = Ask_Mode \<and> tool \<notin> set PURE_TOOLS then d Ask ''mode.ask.unknown''
     else d Allow (rule_of m ''pure''))"

definition call_caps :: "policy \<Rightarrow> string \<Rightarrow> dict \<Rightarrow> string list \<Rightarrow> string list" where
  "call_caps e tool params caps = firsts (if caps = [] then infer_capabilities (pe_show e) tool params else caps)"

definition decide :: "policy \<Rightarrow> mode \<Rightarrow> string \<Rightarrow> dict \<Rightarrow> string list \<Rightarrow> decision" where
  "decide e m tool params capabilities =
    (let caps = call_caps e tool params capabilities;
         paths = extract_paths params;
         command = text_or_empty (pe_show e) (dget params ''command'') in
     if ''exec:shell'' \<in> set caps \<and> command \<noteq> [] then
       (if match_dangerous (pe_guard e) (lower_text command) \<noteq> None
        then make_decision Deny ''hard.high_risk_command'' paths caps
        else decide_mode e m tool (firsts (paths @ extract_shell_paths command)) caps)
     else decide_mode e m tool paths caps)"

text \<open>The older helper: a command is never free of a question.\<close>

definition classify_bash_command :: "guard_config \<Rightarrow> string \<Rightarrow> level" where
  "classify_bash_command g command = (if match_dangerous g (lower_text command) \<noteq> None then Deny else Ask)"

section \<open>The gate\<close>

text \<open>
  A tool: its \<open>resolve_capabilities\<close>, \<open>None\<close> if that raises, and its class attribute. The sandbox
  checks of writing and of outgoing requests are the executor's and are parameters.
\<close>

record tool_caps =
  tc_resolve :: "dict \<Rightarrow> string list option"
  tc_static :: "string list"

record sandbox =
  sb_enabled :: bool
  sb_bypass :: bool
  sb_parse :: "string \<Rightarrow> py_node list option"
  sb_rules :: python_rules
  sb_write_ok :: "bool \<Rightarrow> string \<Rightarrow> string \<Rightarrow> bool"
  sb_egress_ok :: "string \<Rightarrow> bool"

definition resolve_caps :: "policy \<Rightarrow> tool_caps option \<Rightarrow> string \<Rightarrow> dict \<Rightarrow> string list" where
  "resolve_caps e tool name params =
    (case tool of
       None \<Rightarrow> infer_capabilities (pe_show e) name params
     | Some t \<Rightarrow>
         (case tc_resolve t params of
            Some (c # cs) \<Rightarrow> firsts (c # cs)
          | _ \<Rightarrow> if tc_static t \<noteq> [] then tc_static t else infer_capabilities (pe_show e) name params))"

definition l2_active :: "sandbox option \<Rightarrow> bool" where
  "l2_active sb \<longleftrightarrow> (case sb of None \<Rightarrow> False | Some x \<Rightarrow> sb_enabled x \<and> \<not> sb_bypass x)"

definition jtext :: "policy \<Rightarrow> json \<Rightarrow> string" where
  "jtext e v = (case v of JStr s \<Rightarrow> s | _ \<Rightarrow> pe_show e v)"

text \<open>Whether a hard check refuses the call.\<close>

definition hard_checks :: "policy \<Rightarrow> mode \<Rightarrow> sandbox option \<Rightarrow> string list \<Rightarrow> dict \<Rightarrow> bool" where
  "hard_checks e m sb caps params \<longleftrightarrow>
    (case sb of
       None \<Rightarrow> False
     | Some x \<Rightarrow> l2_active sb \<and>
         (let command = dget params ''command''; code = dget params ''code''; input = dget params ''input'';
              content = jor (jor (dget params ''content'') (dget params ''new_string'')) (JStr []);
              url = jor (dget params ''url'') (dget params ''uri'') in
          ''exec:shell'' \<in> set caps \<and> truthy command \<and>
            check_command_safety (pe_guard e) (pe_files e) False (jtext e command) \<noteq> None \<or>
          ''exec:code'' \<in> set caps \<and> truthy code \<and> check_python_code (sb_parse x) (sb_rules x) (jtext e code) \<noteq> None \<or>
          ''proc:manage'' \<in> set caps \<and> truthy input \<and>
            check_proc_send_input (pe_guard e) (pe_files e) (jtext e input) \<noteq> None \<or>
          overlap caps FILE_MUTATION_CAPS \<and>
            (\<exists>p \<in> set (extract_paths params). \<not> sb_write_ok x (m \<noteq> Unreviewed) p (jtext e content)) \<or>
          ''net:egress'' \<in> set caps \<and> truthy url \<and> \<not> sb_egress_ok x (jtext e url)))"

definition gate_check ::
  "policy \<Rightarrow> mode \<Rightarrow> sandbox option \<Rightarrow> tool_caps option \<Rightarrow> string \<Rightarrow> dict \<Rightarrow> level" where
  "gate_check e m sb tool name params =
    (let caps = resolve_caps e tool name params
     in if hard_checks e m sb caps params then Deny else pd_level (decide e m name params caps))"

end
