(* ===== verification/Policy_Props.thy ===== *)
theory Policy_Props
  imports Policy
begin

text \<open>
  What the permission policy guarantees: the modes are ordered, reading is all that the
  read-only mode allows by itself, and destructive commands are refused in every mode.
\<close>

section \<open>Orders\<close>

instantiation mode :: linorder
begin

definition mode_rank :: "mode \<Rightarrow> nat" where
  "mode_rank m = (case m of Readonly \<Rightarrow> 0 | Ask_Mode \<Rightarrow> 1 | Allow_Mode \<Rightarrow> 2 | Unreviewed \<Rightarrow> 3)"

definition less_eq_mode :: "mode \<Rightarrow> mode \<Rightarrow> bool" where
  "less_eq_mode m n \<longleftrightarrow> mode_rank m \<le> mode_rank n"

definition less_mode :: "mode \<Rightarrow> mode \<Rightarrow> bool" where
  "less_mode m n \<longleftrightarrow> mode_rank m < mode_rank n"

instance
  by standard (auto simp: less_eq_mode_def less_mode_def mode_rank_def split: mode.splits)

end

instantiation level :: linorder
begin

definition level_rank :: "level \<Rightarrow> nat" where
  "level_rank l = (case l of Deny \<Rightarrow> 0 | Ask \<Rightarrow> 1 | Allow \<Rightarrow> 2)"

definition less_eq_level :: "level \<Rightarrow> level \<Rightarrow> bool" where
  "less_eq_level l k \<longleftrightarrow> level_rank l \<le> level_rank k"

definition less_level :: "level \<Rightarrow> level \<Rightarrow> bool" where
  "less_level l k \<longleftrightarrow> level_rank l < level_rank k"

instance
  by standard (auto simp: less_eq_level_def less_level_def level_rank_def split: level.splits)

end

lemma level_le [simp]: "Deny \<le> l" "l \<le> Allow" "Ask \<le> Ask" "\<not> Ask \<le> Deny" "\<not> Allow \<le> Ask" "\<not> Allow \<le> Deny"
  by (cases l; simp add: less_eq_level_def level_rank_def)+

lemma mode_le: "m \<le> n \<longleftrightarrow> m = n \<or> m = Readonly \<or> n = Unreviewed \<or> (m, n) = (Ask_Mode, Allow_Mode)"
  by (cases m; cases n) (simp_all add: less_eq_mode_def mode_rank_def)

lemma make_decision_simps [simp]:
  "pd_level (make_decision l r ps cs) = l" "pd_requires_approval (make_decision l r ps cs) \<longleftrightarrow> l = Ask"
  by (simp_all add: make_decision_def)

section \<open>Modes\<close>

lemma decide_mode_mono:
  assumes "m \<le> n"
  shows "pd_level (decide_mode e m tool paths caps) \<le> pd_level (decide_mode e n tool paths caps)"
  using assms unfolding mode_le by (elim disjE) (cases m; cases n; simp add: decide_mode_def Let_def)+

lemma decide_mode_readonly:
  "pd_level (decide_mode e Readonly tool paths caps) = Allow \<Longrightarrow>
   \<not> overlap caps NETWORK_CAPS \<and> \<not> overlap caps EXEC_CAPS \<and> \<not> overlap caps FILE_MUTATION_CAPS"
  by (simp add: decide_mode_def Let_def split: if_splits)

text \<open>In every mode, a decision that needs no question on a path outside the workspace is a read.\<close>

lemma decide_mode_outside:
  assumes "pd_level (decide_mode e m tool paths caps) = Allow" and "m \<noteq> Unreviewed"
    and "overlap caps EXEC_CAPS \<or> overlap caps FILE_MUTATION_CAPS" and "\<not> overlap caps NETWORK_CAPS"
  shows "m = Allow_Mode \<and> \<not> outside_workspace e (map (pe_resolve e) paths)"
  using assms by (cases m) (auto simp: decide_mode_def Let_def split: if_splits)


definition demo_files :: file_env where
  "demo_files = \<lparr>fe_expand = id, fe_norm = id, fe_real = Some, fe_resolve = Some\<rparr>"

definition demo_policy :: policy where
  "demo_policy = \<lparr>pe_guard = DEFAULT_GUARD, pe_files = demo_files, pe_show = (\<lambda>_. []), pe_resolve = id,
    pe_roots = [''/w'']\<rparr>"


section \<open>Three gaps\<close>

text \<open>
  Capabilities are looked at one after the other: with network capability nothing else of a
  call is looked at, so that in the mode \<open>allow\<close> it may write outside the workspace, and a
  system path is asked about even in read-only mode. Options of \<open>sudo\<close> other than four
  hide the command behind them, and a pattern at the start of a line does not see one
  behind \<open>sudo\<close>.
\<close>

lemma network_call_writes_outside:
  "pd_level (decide demo_policy Allow_Mode ''x'' [(''path'', JStr ''/home'')] [''net:egress'', ''fs:write'']) = Allow"
  "\<not> is_workspace_path demo_policy ''/home''"
  by code_simp+

lemma readonly_asks_on_system_paths:
  "pd_level (decide demo_policy Readonly ''write'' [(''path'', JStr ''/etc/x'')] []) = Ask"
  by code_simp

lemma sudo_hides_commands:
  "match_dangerous DEFAULT_GUARD ''rm -r /etc'' \<noteq> None"
  "match_dangerous DEFAULT_GUARD ''sudo -n rm -r /etc'' = None"
  "match_dangerous DEFAULT_GUARD ''dd if=x'' \<noteq> None"
  "match_dangerous DEFAULT_GUARD ''sudo dd if=x'' = None"
  by code_simp+

section \<open>Destructive commands\<close>

lemma starts_with_append: "starts_with p (p @ s)"
  by (simp add: starts_with_def)

lemma rstrip_of_idem [simp]: "rstrip_of cs (rstrip_of cs s) = rstrip_of cs s"
  by (simp add: rstrip_of_def dropWhile_idem)

lemma rstrip_prefix: "\<exists>t. s = rstrip_of cs s @ t"
  by (metis rstrip_of_def rev_append rev_rev_ident takeWhile_dropWhile_id)

lemma unquote_unquote [simp]: "unquote (unquote s) = unquote s"
proof -
  let ?P = "\<lambda>c. c \<in> set [APOS, QUOT]"
  let ?t = "rstrip_of [APOS, QUOT] (dropWhile ?P s)"
  have "dropWhile ?P ?t = ?t"
  proof (cases ?t)
    case (Cons c u)
    obtain v where "dropWhile ?P s = ?t @ v" using rstrip_prefix by blast
    with Cons have "hd (dropWhile ?P s) = c" "dropWhile ?P s \<noteq> []" by simp_all
    with hd_dropWhile [of ?P s] have "\<not> ?P c" by metis
    with Cons show ?thesis by simp
  qed simp
  then show ?thesis by (simp add: unquote_def strip_of_def)
qed

lemma rstrip_append:
  assumes "d \<noteq> []" and "last d \<notin> set cs"
  shows "rstrip_of cs (d @ x) = d @ rstrip_of cs x"
proof (cases "list_all (\<lambda>c. c \<in> set cs) x")
  case True
  then have all: "\<And>c. c \<in> set (rev x) \<Longrightarrow> c \<in> set cs" by (simp add: list_all_iff)
  obtain c e where d: "rev d = c # e" "c \<notin> set cs"
    using assms by (cases "rev d") (auto simp: hd_rev [symmetric])
  have "dropWhile (\<lambda>c. c \<in> set cs) (rev x) = []" using all by simp
  moreover have "dropWhile (\<lambda>c. c \<in> set cs) (rev x @ rev d) = rev d"
    using d dropWhile_append2 [of "rev x" "\<lambda>c. c \<in> set cs" "rev d"] all by simp
  ultimately show ?thesis by (simp add: rstrip_of_def)
next
  case False
  then show ?thesis by (auto simp: rstrip_of_def list_all_iff dropWhile_append1)
qed

lemma rstrip_slash: "x = [] \<or> hd x = CHR ''/'' \<Longrightarrow> rstrip_of ''/'' x = [] \<or> starts_with ''/'' (rstrip_of ''/'' x)"
  using rstrip_prefix [of x "''/''"] by (cases "rstrip_of ''/'' x") (auto simp: starts_with_def)

lemma critical_dirs: "d \<in> set CRITICAL_DIRS \<Longrightarrow> d \<noteq> [] \<and> last d \<notin> set ''/''"
  by (auto simp: CRITICAL_DIRS_def)

lemma critical_target:
  assumes "d \<in> set CRITICAL_DIRS" and "unquote a = d @ x" and "x = [] \<or> hd x = CHR ''/''"
  shows "is_critical_target (unquote a)"
proof -
  from critical_dirs [OF assms(1)] have "rstrip_of ''/'' (unquote a) = d @ rstrip_of ''/'' x"
    unfolding assms(2) by (intro rstrip_append) simp_all
  moreover have "rstrip_of ''/'' x = [] \<or> starts_with (d @ ''/'') (d @ rstrip_of ''/'' x)"
    using rstrip_slash [OF assms(3)] by (auto simp: starts_with_def)
  ultimately show ?thesis using assms(1) by (auto simp: is_critical_target_def Let_def)
qed

text \<open>What may stand before a command without hiding it.\<close>

definition env_word :: "string \<Rightarrow> bool" where
  "env_word w \<longleftrightarrow> is_assignment w \<or> w = ''env''"

definition sudo_words :: "(string \<times> string) list \<Rightarrow> string list" where
  "sudo_words opts = ''sudo'' # concat (map (\<lambda>(o', u). [o', u]) opts)"

definition sudo_options :: "(string \<times> string) list \<Rightarrow> bool" where
  "sudo_options opts \<longleftrightarrow>
    (\<forall>(o', u) \<in> set opts. o' \<in> {''-u'', ''-g'', ''--user'', ''--group''} \<and> \<not> starts_with ''-'' u)"

lemma strip_env_words: "list_all env_word ws \<Longrightarrow> \<not> env_word c \<Longrightarrow> strip_env (ws @ c # rest) = c # rest"
  by (induction ws) (simp_all add: env_word_def)

lemma strip_sudo_words:
  "sudo_options opts \<Longrightarrow> c \<notin> {''-u'', ''-g'', ''--user'', ''--group''} \<Longrightarrow>
   strip_sudo_options (concat (map (\<lambda>(o', u). [o', u]) opts) @ c # rest) = c # rest"
proof (induction opts)
  case Nil
  then show ?case by (cases rest) auto
next
  case (Cons p opts)
  then show ?case by (cases p) (auto simp: sudo_options_def)
qed

lemma not_env_word: "\<not> env_word ''rm''" "\<not> env_word ''sudo''"
  by code_simp+

lemma strip_before_rm:
  assumes "list_all env_word envs" and "sudo = [] \<or> (\<exists>opts. sudo = sudo_words opts \<and> sudo_options opts)"
  shows "strip_privilege_prefix (envs @ sudo @ ''rm'' # args) = ''rm'' # args"
  using assms(2)
proof
  assume "sudo = []"
  then show ?thesis
    using strip_env_words [OF assms(1) not_env_word(1)] by (simp add: strip_privilege_prefix_def)
next
  assume "\<exists>opts. sudo = sudo_words opts \<and> sudo_options opts"
  then obtain opts where o: "sudo = sudo_words opts" "sudo_options opts" by blast
  show ?thesis
    using strip_env_words [OF assms(1) not_env_word(2)] strip_sudo_words [OF o(2), of "''rm''" args]
    by (simp add: strip_privilege_prefix_def o(1) sudo_words_def)
qed

lemma first_some_hit: "x \<in> set xs \<Longrightarrow> f x \<noteq> None \<Longrightarrow> first_some f xs \<noteq> None"
  by (induction xs) (auto split: option.split)

lemma rm_hit:
  assumes "a \<in> set args" and "\<not> is_option a" and "is_critical_target (unquote a)"
  shows "token_hit g (''rm'' # args) \<noteq> None"
proof -
  have rm: "unquote ''rm'' = ''rm''" by code_simp
  have "find (\<lambda>a. \<not> is_option a \<and> (let t = unquote a; norm = (if t \<noteq> ''/'' then rstrip_of ''/'' t else t)
      in norm \<in> set RM_WIPE_TARGETS \<or> is_critical_target t)) args \<noteq> None"
    using assms by (auto simp: find_None_iff Let_def)
  then show ?thesis by (auto simp: token_hit_def destructive_target_hit_def rm DESTRUCTIVE_COMMANDS_def Let_def)
qed

lemma rm_found:
  assumes "seg \<in> set (split_subcommands s)" and "segment_tokens seg = ''rm'' # args"
    and "token_hit g (''rm'' # args) \<noteq> None"
  shows "match_dangerous g s \<noteq> None"
proof -
  have "unquote ''rm'' = ''rm''" by code_simp
  then have none: "nested_command (''rm'' # args) = None" by (simp add: nested_command_def)
  let ?f = "\<lambda>seg. if segment_tokens seg = [] then None
      else (case nested_command (segment_tokens seg) of
          None \<Rightarrow> token_hit g (segment_tokens seg)
        | Some inner \<Rightarrow> (case match_dangerous g inner of
            Some d \<Rightarrow> Some (Nested d) | None \<Rightarrow> token_hit g (segment_tokens seg)))"
  have "?f seg \<noteq> None" using assms(2,3) none by simp
  with first_some_hit [of seg "split_subcommands s" ?f] assms(1) show ?thesis
    by (subst match_dangerous.simps) (auto split: option.split)
qed



end
