(* ===== verification/Read_Props.thy ===== *)
theory Read_Props
  imports Plan_Props Goal_Props
begin

text \<open>Reading stored plans and goals checks them.\<close>

lemma plan_task_from_dict_ok: "plan_task_from_dict now d = Inr t \<Longrightarrow> plan_task_ok t"
  by (auto simp: plan_task_from_dict_def if_Inr intro: plan_task_post_init_ok)

lemma map_E_all: "map_E f xs = Inr ys \<Longrightarrow> y \<in> set ys \<Longrightarrow> \<exists>x \<in> set xs. f x = Inr y"
  by (induction xs arbitrary: ys) auto

lemma plan_from_dict_ok:
  assumes "plan_from_dict now d = Inr p"
  shows "plan_ok p"
proof -
  obtain raw tasks q where t: "map_E (read_task now) raw = Inr tasks" and q: "plan_post_init q = Inr p" "p_tasks q = tasks"
    using assms by (auto simp: plan_from_dict_def Let_def if_Inr)
  have "plan_task_ok x" if "x \<in> set tasks" for x
  proof -
    from map_E_all [OF t that] obtain v where "read_task now v = Inr x" by blast
    then show ?thesis by (cases v) (auto intro: plan_task_from_dict_ok)
  qed
  with q show ?thesis by (intro plan_post_init_ok [OF q(1)]) simp
qed

lemma goal_from_dict_ok: "goal_from_dict now d = Inr g \<Longrightarrow> goal_ok g"
  by (auto simp: goal_from_dict_def if_Inr intro: goal_post_init_result)


definition demo_goal_dict :: dict where
  "demo_goal_dict = [(''goal_id'', JStr ''g''), (''session_id'', JStr ''s''), (''title'', JStr ''t''),
    (''objective'', JStr ''o''), (''activation'', JStr ''armed''), (''progress'', JInt 7)]"


end
