(* ===== verification/Work_Models.thy ===== *)
theory Work_Models
  imports Plan_Json
begin

text \<open>
  The records of the workspaces (\<open>gateway/webui/workspace_models.py\<close>): their constructors,
  which check and normalise the fields, their dictionaries, and the proof that a record a
  constructor made is read back from its dictionary unchanged.

  Identifiers, modes and statuses are strings, checked against the tuples of the module. A
  timestamp is the string \<open>utc_now\<close> gives, and the empty string where it is not set.
  \<open>repr\<close> is Python's rendering of a float, a list or a dictionary, for the places where the
  code puts \<open>str(...)\<close> around a value of the request body; a dictionary key is a string.
\<close>

section \<open>Errors\<close>

text \<open>
  The exception classes of \<open>workspace_store.py\<close>. \<open>StoreFailure c s\<close> is an exception of class
  \<open>c\<close> raised with the code \<open>s\<close>, empty when the class's own code is meant. The other
  constructors are the exceptions of Python and of the sqlite3 module.
\<close>

datatype store_class =
    WorkspaceStoreFailure | NoWorkspace | NoAgentProfile | NoWorkspaceSession
  | Version_Conflict | Reference_Conflict | Invalid | Store_Busy

datatype work_error =
    Bad_Value | Bad_Type | Too_Large | Integrity | Operational string
  | StoreFailure store_class string

fun class_code :: "store_class \<Rightarrow> string" where
  "class_code WorkspaceStoreFailure = ''WORKSPACE_STORE_ERROR''"
| "class_code NoWorkspace = ''WORKSPACE_NOT_FOUND''"
| "class_code NoAgentProfile = ''AGENT_PROFILE_NOT_FOUND''"
| "class_code NoWorkspaceSession = ''WORKSPACE_SESSION_NOT_FOUND''"
| "class_code Version_Conflict = ''WORKSPACE_VERSION_CONFLICT''"
| "class_code Reference_Conflict = ''AGENT_PROFILE_IN_USE''"
| "class_code Invalid = ''WORKSPACE_VALIDATION_ERROR''"
| "class_code Store_Busy = ''WORKSPACE_STORE_BUSY''"

fun store_status :: "store_class \<Rightarrow> nat" where
  "store_status WorkspaceStoreFailure = 500"
| "store_status NoWorkspace = 404"
| "store_status NoAgentProfile = 404"
| "store_status NoWorkspaceSession = 404"
| "store_status Version_Conflict = 409"
| "store_status Reference_Conflict = 409"
| "store_status Invalid = 400"
| "store_status Store_Busy = 503"

definition store_code :: "store_class \<Rightarrow> string \<Rightarrow> string" where
  "store_code c code = (if code \<noteq> [] then code else class_code c)"

definition contains_text :: "string \<Rightarrow> string \<Rightarrow> bool" where
  "contains_text w s \<longleftrightarrow> (\<exists>k \<in> set [0..<Suc (length s)]. take (length w) (drop k s) = w)"

definition map_store_error :: "work_error \<Rightarrow> work_error" where
  "map_store_error e =
    (case e of
       StoreFailure c s \<Rightarrow> StoreFailure c s
     | Operational msg \<Rightarrow>
         (let m = map ascii_lower msg in
          if contains_text ''locked'' m \<or> contains_text ''busy'' m then StoreFailure Store_Busy []
          else StoreFailure WorkspaceStoreFailure [])
     | _ \<Rightarrow> StoreFailure WorkspaceStoreFailure [])"

section \<open>Checks of the constructors\<close>

definition VALID_PERMISSION_MODES :: "string list" where
  "VALID_PERMISSION_MODES = [''readonly'', ''ask'', ''allow'', ''unreviewed'']"

definition VALID_CHAT_MODES :: "string list" where
  "VALID_CHAT_MODES = [''chat'']"

definition VALID_REASONING_LEVELS :: "string list" where
  "VALID_REASONING_LEVELS = [''inherit'', ''provider_default'', ''none'', ''minimal'', ''low'', ''medium'',
    ''high'', ''xhigh'', ''max'']"

definition VALID_WORKSPACE_STATUSES :: "string list" where
  "VALID_WORKSPACE_STATUSES = [''active'', ''archived'', ''deleted'']"

definition VALID_SESSION_STATUSES :: "string list" where
  "VALID_SESSION_STATUSES = [''active'', ''archived'', ''deleted'', ''error'', ''stale'']"

definition VALID_PROFILE_STATUSES :: "string list" where
  "VALID_PROFILE_STATUSES = [''active'', ''archived'', ''deleted'']"

lemmas valid_choices = VALID_PERMISSION_MODES_def VALID_CHAT_MODES_def VALID_REASONING_LEVELS_def
  VALID_WORKSPACE_STATUSES_def VALID_SESSION_STATUSES_def VALID_PROFILE_STATUSES_def

text \<open>The characters of \<open>_ID_RE\<close>.\<close>

definition id_char :: "char \<Rightarrow> bool" where
  "id_char c \<longleftrightarrow>
    (let n = (of_char c :: nat) in
     65 \<le> n \<and> n \<le> 90 \<or> 97 \<le> n \<and> n \<le> 122 \<or> 48 \<le> n \<and> n \<le> 57 \<or> n = 95 \<or> n = 45)"

definition validate_id :: "string \<Rightarrow> nat \<Rightarrow> work_error + string" where
  "validate_id x max_len =
    (if strip x = [] then Inl Bad_Value
     else if max_len < length (strip x) then Inl Bad_Value
     else if \<not> list_all id_char (strip x) then Inl Bad_Value
     else Inr (strip x))"

definition validate_enum :: "string \<Rightarrow> string list \<Rightarrow> string \<Rightarrow> work_error + string" where
  "validate_enum x choices dflt =
    (if x = [] then Inr dflt else if x \<notin> set choices then Inl Bad_Value else Inr x)"

definition dedup_step :: "string \<Rightarrow> string list \<Rightarrow> string list" where
  "dedup_step v out = (if strip v \<noteq> [] \<and> strip v \<notin> set out then out @ [strip v] else out)"

definition dedup :: "string list \<Rightarrow> string list" where
  "dedup xs = fold dedup_step xs []"

text \<open>What the checks leave: identifiers, members of the tuples, lists without blanks or repetitions.\<close>

definition good_id :: "string \<Rightarrow> bool" where
  "good_id x \<longleftrightarrow> x \<noteq> [] \<and> strip x = x \<and> length x \<le> 128 \<and> list_all id_char x"

definition one_of_tuple :: "string list \<Rightarrow> string \<Rightarrow> bool" where
  "one_of_tuple choices x \<longleftrightarrow> x \<noteq> [] \<and> x \<in> set choices"

definition clean_name :: "string \<Rightarrow> bool" where
  "clean_name x \<longleftrightarrow> x \<noteq> [] \<and> strip x = x"

definition clean_list :: "string list \<Rightarrow> bool" where
  "clean_list xs \<longleftrightarrow> distinct xs \<and> list_all clean_name xs"

lemma validate_id_good: "validate_id x 128 = Inr y \<Longrightarrow> good_id y"
  by (auto simp: validate_id_def good_id_def split: if_splits)

lemma good_id_valid [simp]: "good_id x \<Longrightarrow> validate_id x 128 = Inr x"
  by (simp add: validate_id_def good_id_def)

lemma validate_enum_good: "validate_enum x choices dflt = Inr y \<Longrightarrow> one_of_tuple choices dflt \<Longrightarrow> one_of_tuple choices y"
  by (auto simp: validate_enum_def one_of_tuple_def split: if_splits)

lemma one_of_tuple_valid [simp]: "one_of_tuple choices x \<Longrightarrow> validate_enum x choices dflt = Inr x"
  by (simp add: validate_enum_def one_of_tuple_def)

lemma dedup_step_clean: "clean_list out \<Longrightarrow> clean_list (dedup_step v out)"
  by (simp add: dedup_step_def clean_list_def clean_name_def)

lemma fold_dedup_clean: "clean_list out \<Longrightarrow> clean_list (fold dedup_step xs out)"
  by (induction xs arbitrary: out) (simp_all add: dedup_step_clean)

lemma dedup_clean [simp]: "clean_list (dedup xs)"
  unfolding dedup_def by (rule fold_dedup_clean) (simp add: clean_list_def)

lemma fold_dedup_id:
  "list_all clean_name xs \<Longrightarrow> distinct (out @ xs) \<Longrightarrow> fold dedup_step xs out = out @ xs"
proof (induction xs arbitrary: out)
  case (Cons x xs)
  then have "dedup_step x out = out @ [x]" by (auto simp: dedup_step_def clean_name_def)
  with Cons.IH [of "out @ [x]"] Cons.prems show ?case by simp
qed simp

lemma clean_dedup [simp]: "clean_list xs \<Longrightarrow> dedup xs = xs"
  by (simp add: dedup_def clean_list_def fold_dedup_id)

text \<open>\<open>_dedup\<close> keeps exactly the stripped texts that are not blank.\<close>

lemma set_fold_dedup: "set (fold dedup_step xs out) = set out \<union> {strip x |x. x \<in> set xs \<and> strip x \<noteq> []}"
  by (induction xs arbitrary: out) (auto simp: dedup_step_def)

lemma set_dedup: "set (dedup xs) = {strip x |x. x \<in> set xs \<and> strip x \<noteq> []}"
  by (simp add: dedup_def set_fold_dedup)

section \<open>Values of a request body\<close>

fun py_str :: "(json \<Rightarrow> string) \<Rightarrow> json \<Rightarrow> string" where
  "py_str repr (JStr s) = s"
| "py_str repr (JInt i) = (if i < 0 then CHR ''-'' # dec_digits (nat (- i)) else dec_digits (nat i))"
| "py_str repr (JBool b) = (if b then ''True'' else ''False'')"
| "py_str repr JNull = ''None''"
| "py_str repr v = repr v"

text \<open>\<open>int(text)\<close>: spaces around, a sign, digits with single underscores between them.\<close>

fun digits_value :: "string \<Rightarrow> bool \<Rightarrow> nat \<Rightarrow> nat option" where
  "digits_value [] digit acc = (if digit then Some acc else None)"
| "digits_value (c # cs) digit acc =
    (let n = (of_char c :: nat) in
     if 48 \<le> n \<and> n \<le> 57 then digits_value cs True (10 * acc + (n - 48))
     else if c = CHR ''_'' \<and> digit then digits_value cs False acc
     else None)"

definition int_of_text :: "string \<Rightarrow> int option" where
  "int_of_text s =
    (case strip s of
       [] \<Rightarrow> None
     | c # cs \<Rightarrow>
         if c = CHR ''-'' then map_option (\<lambda>n. - int n) (digits_value cs False 0)
         else if c = CHR ''+'' then map_option int (digits_value cs False 0)
         else map_option int (digits_value (c # cs) False 0))"

fun py_int :: "json \<Rightarrow> work_error + int" where
  "py_int (JInt i) = Inr i"
| "py_int (JBool b) = Inr (if b then 1 else 0)"
| "py_int (JFloat x) = Inr (if 0 \<le> x then \<lfloor>x\<rfloor> else \<lceil>x\<rceil>)"
| "py_int (JStr s) = of_option Bad_Value (int_of_text s)"
| "py_int _ = Inl Bad_Type"

text \<open>\<open>list(x)\<close> and \<open>dict(x)\<close>.\<close>

fun as_list :: "json \<Rightarrow> work_error + json list" where
  "as_list (JList xs) = Inr xs"
| "as_list (JStr s) = Inr (map (\<lambda>c. JStr [c]) s)"
| "as_list (JObj d) = Inr (map (\<lambda>(k, _). JStr k) d)"
| "as_list _ = Inl Bad_Type"

definition as_pair :: "json \<Rightarrow> work_error + (string \<times> json)" where
  "as_pair v = bindE (as_list v) (\<lambda>xs.
     case xs of [k, x] \<Rightarrow> (case k of JStr s \<Rightarrow> Inr (s, x) | _ \<Rightarrow> Inl Bad_Type) | _ \<Rightarrow> Inl Bad_Value)"

definition as_dict :: "json \<Rightarrow> work_error + dict" where
  "as_dict v =
    (case v of
       JObj d \<Rightarrow> Inr d
     | _ \<Rightarrow> bindE (as_list v) (\<lambda>xs. bindE (map_E as_pair xs) (\<lambda>ps. Inr (dmerge [] ps))))"

text \<open>\<open>str(d.get(k) or dflt)\<close>, \<open>list(d.get(k) or [])\<close>, \<open>dict(d.get(k) or {})\<close> and \<open>int(d.get(k) or dflt)\<close>.\<close>

definition text_field :: "(json \<Rightarrow> string) \<Rightarrow> dict \<Rightarrow> string \<Rightarrow> string \<Rightarrow> string" where
  "text_field repr d k dflt = py_str repr (jor (dget d k) (JStr dflt))"

definition list_field :: "dict \<Rightarrow> string \<Rightarrow> work_error + json list" where
  "list_field d k = as_list (jor (dget d k) (JList []))"

definition texts_field :: "(json \<Rightarrow> string) \<Rightarrow> dict \<Rightarrow> string \<Rightarrow> work_error + string list" where
  "texts_field repr d k = bindE (list_field d k) (\<lambda>xs. Inr (map (py_str repr) xs))"

definition dict_field :: "dict \<Rightarrow> string \<Rightarrow> work_error + dict" where
  "dict_field d k = as_dict (jor (dget d k) (JObj []))"

definition int_field :: "dict \<Rightarrow> string \<Rightarrow> int \<Rightarrow> work_error + int" where
  "int_field d k dflt = py_int (jor (dget d k) (JInt dflt))"

lemma text_field_JStr: "dget d k = JStr s \<Longrightarrow> text_field repr d k dflt = (if s = [] then dflt else s)"
  by (simp add: text_field_def jor_def)

lemma list_field_JList: "dget d k = JList xs \<Longrightarrow> list_field d k = Inr xs"
  by (simp add: list_field_def jor_def)

lemma texts_field_JList: "dget d k = JList (map JStr xs) \<Longrightarrow> texts_field repr d k = Inr xs"
  by (simp add: texts_field_def list_field_JList comp_def)

lemma dict_field_JObj: "dget d k = JObj x \<Longrightarrow> dict_field d k = Inr x"
  by (simp add: dict_field_def jor_def as_dict_def)

lemma int_field_JInt: "dget d k = JInt i \<Longrightarrow> int_field d k dflt = Inr (if i = 0 then dflt else i)"
  by (simp add: int_field_def jor_def)

lemmas read_fields = text_field_JStr list_field_JList texts_field_JList dict_field_JObj int_field_JInt

section \<open>Workspaces\<close>

record workspace =
  w_id :: string
  w_name :: string
  w_project_path :: string
  w_description :: string
  w_working_directory :: string
  w_extra_roots :: "string list"
  w_default_profile :: string
  w_default_model :: string
  w_permission_mode :: string
  w_chat_mode :: string
  w_include_tools :: "string list"
  w_exclude_tools :: "string list"
  w_include_skills :: "string list"
  w_exclude_skills :: "string list"
  w_include_mcp :: "string list"
  w_exclude_mcp :: "string list"
  w_ui_preferences :: dict
  w_status :: string
  w_version :: int
  w_created_at :: string
  w_updated_at :: string
  w_archived_at :: string
  w_risk_level :: string
  w_path_warnings :: "json list"

text \<open>
  \<open>Workspace.__post_init__\<close>; \<open>version\<close> has been read as an integer, so that
  \<open>int(self.version)\<close> does not raise.
\<close>

definition workspace_post_init :: "workspace \<Rightarrow> work_error + workspace" where
  "workspace_post_init w =
    bindE (validate_id (w_id w) 128) (\<lambda>wid.
    if strip (w_name w) = [] then Inl Bad_Value
    else if strip (w_project_path w) = [] then Inl Bad_Value
    else bindE (validate_enum (w_permission_mode w) VALID_PERMISSION_MODES ''ask'') (\<lambda>mode.
    bindE (validate_enum (w_chat_mode w) VALID_CHAT_MODES ''chat'') (\<lambda>chat.
    bindE (validate_enum (w_status w) VALID_WORKSPACE_STATUSES ''active'') (\<lambda>st.
    Inr (w\<lparr>w_id := wid, w_name := strip (w_name w), w_project_path := strip (w_project_path w),
      w_working_directory :=
        (if w_working_directory w = [] then strip (w_project_path w) else w_working_directory w),
      w_permission_mode := mode, w_chat_mode := chat, w_status := st,
      w_version := max 1 (w_version w),
      w_include_tools := dedup (w_include_tools w), w_exclude_tools := dedup (w_exclude_tools w),
      w_include_skills := dedup (w_include_skills w), w_exclude_skills := dedup (w_exclude_skills w),
      w_include_mcp := dedup (w_include_mcp w), w_exclude_mcp := dedup (w_exclude_mcp w),
      w_extra_roots := dedup (w_extra_roots w)\<rparr>)))))"

definition workspace_to_dict :: "workspace \<Rightarrow> dict" where
  "workspace_to_dict w =
    [(''workspace_id'', JStr (w_id w)),
     (''name'', JStr (w_name w)),
     (''project_path'', JStr (w_project_path w)),
     (''working_directory'', JStr (w_working_directory w)),
     (''extra_workspace_roots'', JList (map JStr (w_extra_roots w))),
     (''description'', JStr (w_description w)),
     (''default_agent_profile_id'', JStr (w_default_profile w)),
     (''default_model'', JStr (w_default_model w)),
     (''permission_mode'', JStr (w_permission_mode w)),
     (''chat_mode'', JStr (w_chat_mode w)),
     (''include_tools'', JList (map JStr (w_include_tools w))),
     (''exclude_tools'', JList (map JStr (w_exclude_tools w))),
     (''include_skills'', JList (map JStr (w_include_skills w))),
     (''exclude_skills'', JList (map JStr (w_exclude_skills w))),
     (''include_mcp_servers'', JList (map JStr (w_include_mcp w))),
     (''exclude_mcp_servers'', JList (map JStr (w_exclude_mcp w))),
     (''ui_preferences'', JObj (w_ui_preferences w)),
     (''status'', JStr (w_status w)),
     (''version'', JInt (w_version w)),
     (''created_at'', JStr (w_created_at w)),
     (''updated_at'', JStr (w_updated_at w)),
     (''archived_at'', JStr (w_archived_at w)),
     (''path_risk_level'', JStr (w_risk_level w)),
     (''path_warnings'', JList (w_path_warnings w))]"

definition workspace_from_dict :: "(json \<Rightarrow> string) \<Rightarrow> dict \<Rightarrow> work_error + workspace" where
  "workspace_from_dict repr d =
    bindE (texts_field repr d ''extra_workspace_roots'') (\<lambda>x_extra_roots.
    bindE (texts_field repr d ''include_tools'') (\<lambda>x_include_tools.
    bindE (texts_field repr d ''exclude_tools'') (\<lambda>x_exclude_tools.
    bindE (texts_field repr d ''include_skills'') (\<lambda>x_include_skills.
    bindE (texts_field repr d ''exclude_skills'') (\<lambda>x_exclude_skills.
    bindE (texts_field repr d ''include_mcp_servers'') (\<lambda>x_include_mcp.
    bindE (texts_field repr d ''exclude_mcp_servers'') (\<lambda>x_exclude_mcp.
    bindE (dict_field d ''ui_preferences'') (\<lambda>x_ui_preferences.
    bindE (int_field d ''version'' 1) (\<lambda>x_version.
    bindE (list_field d ''path_warnings'') (\<lambda>x_path_warnings.
    workspace_post_init \<lparr>w_id = text_field repr d ''workspace_id'' '''',
      w_name = text_field repr d ''name'' '''',
      w_project_path = text_field repr d ''project_path'' '''',
      w_description = text_field repr d ''description'' '''',
      w_working_directory = text_field repr d ''working_directory'' '''',
      w_extra_roots = x_extra_roots,
      w_default_profile = text_field repr d ''default_agent_profile_id'' '''',
      w_default_model = text_field repr d ''default_model'' '''',
      w_permission_mode = text_field repr d ''permission_mode'' ''ask'',
      w_chat_mode = text_field repr d ''chat_mode'' ''chat'',
      w_include_tools = x_include_tools,
      w_exclude_tools = x_exclude_tools,
      w_include_skills = x_include_skills,
      w_exclude_skills = x_exclude_skills,
      w_include_mcp = x_include_mcp,
      w_exclude_mcp = x_exclude_mcp,
      w_ui_preferences = x_ui_preferences,
      w_status = text_field repr d ''status'' ''active'',
      w_version = x_version,
      w_created_at = text_field repr d ''created_at'' '''',
      w_updated_at = text_field repr d ''updated_at'' '''',
      w_archived_at = text_field repr d ''archived_at'' '''',
      w_risk_level = text_field repr d ''path_risk_level'' ''none'',
      w_path_warnings = x_path_warnings\<rparr>))))))))))"

section \<open>Agent profiles\<close>

record agent_profile =
  pf_id :: string
  pf_name :: string
  pf_description :: string
  pf_system_prompt :: string
  pf_tools :: "string list"
  pf_skills :: "string list"
  pf_mcp_servers :: "string list"
  pf_default_model :: string
  pf_permission_mode :: string
  pf_chat_mode :: string
  pf_max_steps :: int
  pf_include_tools :: "string list"
  pf_exclude_tools :: "string list"
  pf_ui_preferences :: dict
  pf_status :: string
  pf_version :: int
  pf_is_system :: bool
  pf_created_at :: string
  pf_updated_at :: string
  pf_archived_at :: string

definition profile_post_init :: "agent_profile \<Rightarrow> work_error + agent_profile" where
  "profile_post_init p =
    bindE (validate_id (pf_id p) 128) (\<lambda>pid.
    if strip (pf_name p) = [] then Inl Bad_Value
    else bindE (validate_enum (pf_permission_mode p) VALID_PERMISSION_MODES ''ask'') (\<lambda>mode.
    bindE (validate_enum (pf_chat_mode p) VALID_CHAT_MODES ''chat'') (\<lambda>chat.
    bindE (validate_enum (pf_status p) VALID_PROFILE_STATUSES ''active'') (\<lambda>st.
    Inr (p\<lparr>pf_id := pid, pf_name := strip (pf_name p),
      pf_permission_mode := mode, pf_chat_mode := chat, pf_status := st,
      pf_max_steps := max 1 (pf_max_steps p), pf_version := max 1 (pf_version p),
      pf_tools := dedup (pf_tools p), pf_skills := dedup (pf_skills p),
      pf_mcp_servers := dedup (pf_mcp_servers p),
      pf_include_tools := dedup (pf_include_tools p), pf_exclude_tools := dedup (pf_exclude_tools p)\<rparr>)))))"

definition profile_to_dict :: "agent_profile \<Rightarrow> dict" where
  "profile_to_dict p =
    [(''profile_id'', JStr (pf_id p)),
     (''name'', JStr (pf_name p)),
     (''description'', JStr (pf_description p)),
     (''system_prompt'', JStr (pf_system_prompt p)),
     (''tools'', JList (map JStr (pf_tools p))),
     (''skills'', JList (map JStr (pf_skills p))),
     (''mcp_servers'', JList (map JStr (pf_mcp_servers p))),
     (''default_model'', JStr (pf_default_model p)),
     (''permission_mode'', JStr (pf_permission_mode p)),
     (''chat_mode'', JStr (pf_chat_mode p)),
     (''max_steps'', JInt (pf_max_steps p)),
     (''include_tools'', JList (map JStr (pf_include_tools p))),
     (''exclude_tools'', JList (map JStr (pf_exclude_tools p))),
     (''ui_preferences'', JObj (pf_ui_preferences p)),
     (''status'', JStr (pf_status p)),
     (''version'', JInt (pf_version p)),
     (''is_system'', JBool (pf_is_system p)),
     (''created_at'', JStr (pf_created_at p)),
     (''updated_at'', JStr (pf_updated_at p)),
     (''archived_at'', JStr (pf_archived_at p))]"

definition profile_from_dict :: "(json \<Rightarrow> string) \<Rightarrow> dict \<Rightarrow> work_error + agent_profile" where
  "profile_from_dict repr d =
    bindE (texts_field repr d ''tools'') (\<lambda>x_tools.
    bindE (texts_field repr d ''skills'') (\<lambda>x_skills.
    bindE (texts_field repr d ''mcp_servers'') (\<lambda>x_mcp_servers.
    bindE (int_field d ''max_steps'' 100) (\<lambda>x_max_steps.
    bindE (texts_field repr d ''include_tools'') (\<lambda>x_include_tools.
    bindE (texts_field repr d ''exclude_tools'') (\<lambda>x_exclude_tools.
    bindE (dict_field d ''ui_preferences'') (\<lambda>x_ui_preferences.
    bindE (int_field d ''version'' 1) (\<lambda>x_version.
    profile_post_init \<lparr>pf_id = text_field repr d ''profile_id'' '''',
      pf_name = text_field repr d ''name'' '''',
      pf_description = text_field repr d ''description'' '''',
      pf_system_prompt = text_field repr d ''system_prompt'' '''',
      pf_tools = x_tools,
      pf_skills = x_skills,
      pf_mcp_servers = x_mcp_servers,
      pf_default_model = text_field repr d ''default_model'' '''',
      pf_permission_mode = text_field repr d ''permission_mode'' ''ask'',
      pf_chat_mode = text_field repr d ''chat_mode'' ''chat'',
      pf_max_steps = x_max_steps,
      pf_include_tools = x_include_tools,
      pf_exclude_tools = x_exclude_tools,
      pf_ui_preferences = x_ui_preferences,
      pf_status = text_field repr d ''status'' ''active'',
      pf_version = x_version,
      pf_is_system = truthy (dfield d ''is_system'' (JBool False)),
      pf_created_at = text_field repr d ''created_at'' '''',
      pf_updated_at = text_field repr d ''updated_at'' '''',
      pf_archived_at = text_field repr d ''archived_at'' ''''\<rparr>))))))))"

section \<open>Sessions of a workspace\<close>

record work_session =
  wn_id :: string
  wn_workspace :: string
  wn_key :: string
  wn_name :: string
  wn_profile :: string
  wn_model :: string
  wn_permission_mode :: string
  wn_chat_mode :: string
  wn_reasoning :: string
  wn_status :: string
  wn_config_version :: int
  wn_last_snapshot :: string
  wn_last_active_at :: string
  wn_created_at :: string
  wn_updated_at :: string
  wn_archived_at :: string
  wn_error_message :: string
  wn_is_busy :: bool

text \<open>The key of a session is made from the two identifiers, whatever the caller gave.\<close>

definition session_key_of :: "string \<Rightarrow> string \<Rightarrow> string" where
  "session_key_of wid sid = ''workspace:'' @ wid @ '':'' @ sid"

definition session_post_init :: "work_session \<Rightarrow> work_error + work_session" where
  "session_post_init n =
    bindE (validate_id (wn_id n) 128) (\<lambda>sid.
    bindE (validate_id (wn_workspace n) 128) (\<lambda>wid.
    bindE (validate_enum (wn_permission_mode n) VALID_PERMISSION_MODES ''ask'') (\<lambda>mode.
    bindE (validate_enum (wn_chat_mode n) VALID_CHAT_MODES ''chat'') (\<lambda>chat.
    bindE (validate_enum (wn_reasoning n) VALID_REASONING_LEVELS ''inherit'') (\<lambda>level.
    bindE (validate_enum (wn_status n) VALID_SESSION_STATUSES ''active'') (\<lambda>st.
    Inr (n\<lparr>wn_id := sid, wn_workspace := wid, wn_permission_mode := mode, wn_chat_mode := chat,
      wn_reasoning := level, wn_status := st, wn_key := session_key_of wid sid\<rparr>)))))))"

definition session_to_dict :: "work_session \<Rightarrow> dict" where
  "session_to_dict n =
    [(''session_id'', JStr (wn_id n)),
     (''workspace_id'', JStr (wn_workspace n)),
     (''session_key'', JStr (wn_key n)),
     (''name'', JStr (wn_name n)),
     (''agent_profile_id'', JStr (wn_profile n)),
     (''model'', JStr (wn_model n)),
     (''permission_mode'', JStr (wn_permission_mode n)),
     (''chat_mode'', JStr (wn_chat_mode n)),
     (''reasoning_level'', JStr (wn_reasoning n)),
     (''status'', JStr (wn_status n)),
     (''client_config_version'', JInt (wn_config_version n)),
     (''last_snapshot_id'', JStr (wn_last_snapshot n)),
     (''last_active_at'', JStr (wn_last_active_at n)),
     (''created_at'', JStr (wn_created_at n)),
     (''updated_at'', JStr (wn_updated_at n)),
     (''archived_at'', JStr (wn_archived_at n)),
     (''error_message'', JStr (wn_error_message n)),
     (''is_busy'', JBool (wn_is_busy n))]"

section \<open>Runtime snapshots\<close>

record runtime_snapshot =
  sn_id :: string
  sn_workspace :: string
  sn_session :: string
  sn_profile :: string
  sn_profile_version :: int
  sn_workspace_version :: int
  sn_config_version :: int
  sn_model :: string
  sn_permission_mode :: string
  sn_chat_mode :: string
  sn_reasoning :: string
  sn_working_directory :: string
  sn_project_root :: string
  sn_framework_root :: string
  sn_agent_data_root :: string
  sn_extra_roots :: "string list"
  sn_tools :: "string list"
  sn_skills :: "string list"
  sn_mcp_servers :: "string list"
  sn_system_prompt :: string
  sn_prompt_hash :: string
  sn_expected_prompt_hash :: string
  sn_capability_hash :: string
  sn_dedup_key :: string
  sn_created_at :: string

definition snapshot_to_dict :: "runtime_snapshot \<Rightarrow> dict" where
  "snapshot_to_dict n =
    [(''snapshot_id'', JStr (sn_id n)),
     (''workspace_id'', JStr (sn_workspace n)),
     (''workspace_session_id'', JStr (sn_session n)),
     (''agent_profile_id'', JStr (sn_profile n)),
     (''agent_profile_version'', JInt (sn_profile_version n)),
     (''workspace_version'', JInt (sn_workspace_version n)),
     (''session_client_config_version'', JInt (sn_config_version n)),
     (''model'', JStr (sn_model n)),
     (''permission_mode'', JStr (sn_permission_mode n)),
     (''chat_mode'', JStr (sn_chat_mode n)),
     (''reasoning_level'', JStr (sn_reasoning n)),
     (''working_directory'', JStr (sn_working_directory n)),
     (''project_root'', JStr (sn_project_root n)),
     (''framework_root'', JStr (sn_framework_root n)),
     (''agent_data_root'', JStr (sn_agent_data_root n)),
     (''extra_workspace_roots'', JList (map JStr (sn_extra_roots n))),
     (''tools'', JList (map JStr (sn_tools n))),
     (''skills'', JList (map JStr (sn_skills n))),
     (''mcp_servers'', JList (map JStr (sn_mcp_servers n))),
     (''system_prompt'', JStr (sn_system_prompt n)),
     (''prompt_hash'', JStr (sn_prompt_hash n)),
     (''expected_prompt_hash'', JStr (sn_expected_prompt_hash n)),
     (''capability_hash'', JStr (sn_capability_hash n)),
     (''dedup_key'', JStr (sn_dedup_key n)),
     (''created_at'', JStr (sn_created_at n))]"

section \<open>What the constructors leave\<close>

definition workspace_ok :: "workspace \<Rightarrow> bool" where
  "workspace_ok w \<longleftrightarrow>
    good_id (w_id w) \<and> clean_name (w_name w) \<and> clean_name (w_project_path w) \<and> w_working_directory w \<noteq> [] \<and>
    one_of_tuple VALID_PERMISSION_MODES (w_permission_mode w) \<and> one_of_tuple VALID_CHAT_MODES (w_chat_mode w) \<and>
    one_of_tuple VALID_WORKSPACE_STATUSES (w_status w) \<and> 1 \<le> w_version w \<and>
    clean_list (w_include_tools w) \<and> clean_list (w_exclude_tools w) \<and>
    clean_list (w_include_skills w) \<and> clean_list (w_exclude_skills w) \<and>
    clean_list (w_include_mcp w) \<and> clean_list (w_exclude_mcp w) \<and> clean_list (w_extra_roots w)"

definition profile_ok :: "agent_profile \<Rightarrow> bool" where
  "profile_ok p \<longleftrightarrow>
    good_id (pf_id p) \<and> clean_name (pf_name p) \<and>
    one_of_tuple VALID_PERMISSION_MODES (pf_permission_mode p) \<and> one_of_tuple VALID_CHAT_MODES (pf_chat_mode p) \<and>
    one_of_tuple VALID_PROFILE_STATUSES (pf_status p) \<and> 1 \<le> pf_max_steps p \<and> 1 \<le> pf_version p \<and>
    clean_list (pf_tools p) \<and> clean_list (pf_skills p) \<and> clean_list (pf_mcp_servers p) \<and>
    clean_list (pf_include_tools p) \<and> clean_list (pf_exclude_tools p)"

definition session_ok :: "work_session \<Rightarrow> bool" where
  "session_ok n \<longleftrightarrow>
    good_id (wn_id n) \<and> good_id (wn_workspace n) \<and> wn_key n = session_key_of (wn_workspace n) (wn_id n) \<and>
    one_of_tuple VALID_PERMISSION_MODES (wn_permission_mode n) \<and> one_of_tuple VALID_CHAT_MODES (wn_chat_mode n) \<and>
    one_of_tuple VALID_REASONING_LEVELS (wn_reasoning n) \<and> one_of_tuple VALID_SESSION_STATUSES (wn_status n)"

lemma default_choices [simp]:
  "one_of_tuple VALID_PERMISSION_MODES ''ask''"
  "one_of_tuple VALID_CHAT_MODES ''chat''"
  "one_of_tuple VALID_REASONING_LEVELS ''inherit''"
  "one_of_tuple VALID_WORKSPACE_STATUSES ''active''"
  "one_of_tuple VALID_WORKSPACE_STATUSES ''archived''"
  "one_of_tuple VALID_WORKSPACE_STATUSES ''deleted''"
  "one_of_tuple VALID_PROFILE_STATUSES ''active''"
  "one_of_tuple VALID_PROFILE_STATUSES ''archived''"
  "one_of_tuple VALID_PROFILE_STATUSES ''deleted''"
  "one_of_tuple VALID_SESSION_STATUSES ''active''"
  "one_of_tuple VALID_SESSION_STATUSES ''archived''"
  "one_of_tuple VALID_SESSION_STATUSES ''deleted''"
  by (simp_all add: one_of_tuple_def valid_choices)

lemma clean_strip [simp]: "strip x \<noteq> [] \<Longrightarrow> clean_name (strip x)"
  by (simp add: clean_name_def)

lemma clean_name_strip [simp]: "clean_name x \<Longrightarrow> strip x = x"
  by (simp add: clean_name_def)

lemma clean_name_Nil [simp]: "\<not> clean_name []"
  by (simp add: clean_name_def)

lemma workspace_post_init_ok:
  assumes "workspace_post_init w = Inr w'"
  shows "workspace_ok w'"
proof -
  obtain wid mode chat st where
      "validate_id (w_id w) 128 = Inr wid" and n: "strip (w_name w) \<noteq> []" "strip (w_project_path w) \<noteq> []"
    and "validate_enum (w_permission_mode w) VALID_PERMISSION_MODES ''ask'' = Inr mode"
      "validate_enum (w_chat_mode w) VALID_CHAT_MODES ''chat'' = Inr chat"
      "validate_enum (w_status w) VALID_WORKSPACE_STATUSES ''active'' = Inr st"
    and w': "w' = w\<lparr>w_id := wid, w_name := strip (w_name w), w_project_path := strip (w_project_path w),
      w_working_directory :=
        (if w_working_directory w = [] then strip (w_project_path w) else w_working_directory w),
      w_permission_mode := mode, w_chat_mode := chat, w_status := st,
      w_version := max 1 (w_version w),
      w_include_tools := dedup (w_include_tools w), w_exclude_tools := dedup (w_exclude_tools w),
      w_include_skills := dedup (w_include_skills w), w_exclude_skills := dedup (w_exclude_skills w),
      w_include_mcp := dedup (w_include_mcp w), w_exclude_mcp := dedup (w_exclude_mcp w),
      w_extra_roots := dedup (w_extra_roots w)\<rparr>"
    using assms unfolding workspace_post_init_def bindE_eq_Inr if_Inr by blast
  then have "good_id wid" "one_of_tuple VALID_PERMISSION_MODES mode" "one_of_tuple VALID_CHAT_MODES chat"
    "one_of_tuple VALID_WORKSPACE_STATUSES st"
    by (simp_all add: validate_id_good validate_enum_good [OF _ default_choices(1)]
        validate_enum_good [OF _ default_choices(2)] validate_enum_good [OF _ default_choices(4)])
  with n show ?thesis unfolding w' workspace_ok_def by simp
qed

lemma workspace_ok_post_init [simp]:
  assumes "workspace_ok w"
  shows "workspace_post_init w = Inr w"
proof (cases w)
  case fields
  show ?thesis using assms unfolding fields workspace_ok_def workspace_post_init_def by auto
qed

lemma profile_post_init_ok:
  assumes "profile_post_init p = Inr p'"
  shows "profile_ok p'"
proof -
  obtain pid mode chat st where
      "validate_id (pf_id p) 128 = Inr pid" and n: "strip (pf_name p) \<noteq> []"
    and "validate_enum (pf_permission_mode p) VALID_PERMISSION_MODES ''ask'' = Inr mode"
      "validate_enum (pf_chat_mode p) VALID_CHAT_MODES ''chat'' = Inr chat"
      "validate_enum (pf_status p) VALID_PROFILE_STATUSES ''active'' = Inr st"
    and p': "p' = p\<lparr>pf_id := pid, pf_name := strip (pf_name p),
      pf_permission_mode := mode, pf_chat_mode := chat, pf_status := st,
      pf_max_steps := max 1 (pf_max_steps p), pf_version := max 1 (pf_version p),
      pf_tools := dedup (pf_tools p), pf_skills := dedup (pf_skills p),
      pf_mcp_servers := dedup (pf_mcp_servers p),
      pf_include_tools := dedup (pf_include_tools p), pf_exclude_tools := dedup (pf_exclude_tools p)\<rparr>"
    using assms unfolding profile_post_init_def bindE_eq_Inr if_Inr by blast
  then have "good_id pid" "one_of_tuple VALID_PERMISSION_MODES mode" "one_of_tuple VALID_CHAT_MODES chat"
    "one_of_tuple VALID_PROFILE_STATUSES st"
    by (simp_all add: validate_id_good validate_enum_good [OF _ default_choices(1)]
        validate_enum_good [OF _ default_choices(2)] validate_enum_good [OF _ default_choices(7)])
  with n show ?thesis unfolding p' profile_ok_def by simp
qed

lemma profile_ok_post_init [simp]:
  assumes "profile_ok p"
  shows "profile_post_init p = Inr p"
proof (cases p)
  case fields
  show ?thesis using assms unfolding fields profile_ok_def profile_post_init_def by auto
qed

lemma session_post_init_ok:
  assumes "session_post_init n = Inr n'"
  shows "session_ok n'"
proof -
  obtain sid wid mode chat level st where
      "validate_id (wn_id n) 128 = Inr sid" "validate_id (wn_workspace n) 128 = Inr wid"
      "validate_enum (wn_permission_mode n) VALID_PERMISSION_MODES ''ask'' = Inr mode"
      "validate_enum (wn_chat_mode n) VALID_CHAT_MODES ''chat'' = Inr chat"
      "validate_enum (wn_reasoning n) VALID_REASONING_LEVELS ''inherit'' = Inr level"
      "validate_enum (wn_status n) VALID_SESSION_STATUSES ''active'' = Inr st"
    and n': "n' = n\<lparr>wn_id := sid, wn_workspace := wid, wn_permission_mode := mode, wn_chat_mode := chat,
      wn_reasoning := level, wn_status := st, wn_key := session_key_of wid sid\<rparr>"
    using assms unfolding session_post_init_def bindE_eq_Inr by blast
  then have "good_id sid" "good_id wid" "one_of_tuple VALID_PERMISSION_MODES mode" "one_of_tuple VALID_CHAT_MODES chat"
    "one_of_tuple VALID_REASONING_LEVELS level" "one_of_tuple VALID_SESSION_STATUSES st"
    by (simp_all add: validate_id_good validate_enum_good [OF _ default_choices(1)]
        validate_enum_good [OF _ default_choices(2)] validate_enum_good [OF _ default_choices(3)]
        validate_enum_good [OF _ default_choices(10)])
  then show ?thesis unfolding n' session_ok_def by simp
qed

lemma session_ok_post_init [simp]:
  assumes "session_ok n"
  shows "session_post_init n = Inr n"
proof (cases n)
  case fields
  show ?thesis using assms unfolding fields session_ok_def session_post_init_def by simp
qed

lemma workspace_post_init_iff: "workspace_post_init w = Inr w \<longleftrightarrow> workspace_ok w"
  using workspace_post_init_ok by auto

lemma workspace_dict_fields:
  "dget (workspace_to_dict w) ''workspace_id'' = JStr (w_id w)"
  "dget (workspace_to_dict w) ''name'' = JStr (w_name w)"
  "dget (workspace_to_dict w) ''project_path'' = JStr (w_project_path w)"
  "dget (workspace_to_dict w) ''working_directory'' = JStr (w_working_directory w)"
  "dget (workspace_to_dict w) ''extra_workspace_roots'' = JList (map JStr (w_extra_roots w))"
  "dget (workspace_to_dict w) ''description'' = JStr (w_description w)"
  "dget (workspace_to_dict w) ''default_agent_profile_id'' = JStr (w_default_profile w)"
  "dget (workspace_to_dict w) ''default_model'' = JStr (w_default_model w)"
  "dget (workspace_to_dict w) ''permission_mode'' = JStr (w_permission_mode w)"
  "dget (workspace_to_dict w) ''chat_mode'' = JStr (w_chat_mode w)"
  "dget (workspace_to_dict w) ''include_tools'' = JList (map JStr (w_include_tools w))"
  "dget (workspace_to_dict w) ''exclude_tools'' = JList (map JStr (w_exclude_tools w))"
  "dget (workspace_to_dict w) ''include_skills'' = JList (map JStr (w_include_skills w))"
  "dget (workspace_to_dict w) ''exclude_skills'' = JList (map JStr (w_exclude_skills w))"
  "dget (workspace_to_dict w) ''include_mcp_servers'' = JList (map JStr (w_include_mcp w))"
  "dget (workspace_to_dict w) ''exclude_mcp_servers'' = JList (map JStr (w_exclude_mcp w))"
  "dget (workspace_to_dict w) ''ui_preferences'' = JObj (w_ui_preferences w)"
  "dget (workspace_to_dict w) ''status'' = JStr (w_status w)"
  "dget (workspace_to_dict w) ''version'' = JInt (w_version w)"
  "dget (workspace_to_dict w) ''created_at'' = JStr (w_created_at w)"
  "dget (workspace_to_dict w) ''updated_at'' = JStr (w_updated_at w)"
  "dget (workspace_to_dict w) ''archived_at'' = JStr (w_archived_at w)"
  "dget (workspace_to_dict w) ''path_risk_level'' = JStr (w_risk_level w)"
  "dget (workspace_to_dict w) ''path_warnings'' = JList (w_path_warnings w)"
  by (simp_all add: workspace_to_dict_def)

lemma profile_dict_fields:
  "dget (profile_to_dict p) ''profile_id'' = JStr (pf_id p)"
  "dget (profile_to_dict p) ''name'' = JStr (pf_name p)"
  "dget (profile_to_dict p) ''description'' = JStr (pf_description p)"
  "dget (profile_to_dict p) ''system_prompt'' = JStr (pf_system_prompt p)"
  "dget (profile_to_dict p) ''tools'' = JList (map JStr (pf_tools p))"
  "dget (profile_to_dict p) ''skills'' = JList (map JStr (pf_skills p))"
  "dget (profile_to_dict p) ''mcp_servers'' = JList (map JStr (pf_mcp_servers p))"
  "dget (profile_to_dict p) ''default_model'' = JStr (pf_default_model p)"
  "dget (profile_to_dict p) ''permission_mode'' = JStr (pf_permission_mode p)"
  "dget (profile_to_dict p) ''chat_mode'' = JStr (pf_chat_mode p)"
  "dget (profile_to_dict p) ''max_steps'' = JInt (pf_max_steps p)"
  "dget (profile_to_dict p) ''include_tools'' = JList (map JStr (pf_include_tools p))"
  "dget (profile_to_dict p) ''exclude_tools'' = JList (map JStr (pf_exclude_tools p))"
  "dget (profile_to_dict p) ''ui_preferences'' = JObj (pf_ui_preferences p)"
  "dget (profile_to_dict p) ''status'' = JStr (pf_status p)"
  "dget (profile_to_dict p) ''version'' = JInt (pf_version p)"
  "dget (profile_to_dict p) ''is_system'' = JBool (pf_is_system p)"
  "dget (profile_to_dict p) ''created_at'' = JStr (pf_created_at p)"
  "dget (profile_to_dict p) ''updated_at'' = JStr (pf_updated_at p)"
  "dget (profile_to_dict p) ''archived_at'' = JStr (pf_archived_at p)"
  by (simp_all add: profile_to_dict_def)

text \<open>
  Reading back a dictionary the module wrote gives the record again; of the fields that the
  constructor does not check, only an empty risk level would be read as \<open>none\<close>.
\<close>

lemma workspace_round_trip:
  assumes "workspace_ok w"
  shows "workspace_from_dict repr (workspace_to_dict w) =
    Inr (if w_risk_level w = [] then w\<lparr>w_risk_level := ''none''\<rparr> else w)"
proof -
  let ?w = "if w_risk_level w = [] then w\<lparr>w_risk_level := ''none''\<rparr> else w"
  have ok: "workspace_ok ?w" using assms by (simp add: workspace_ok_def)
  have ne: "w_permission_mode w \<noteq> []" "w_chat_mode w \<noteq> []" "w_status w \<noteq> []" "w_version w \<noteq> 0"
    using assms by (auto simp: workspace_ok_def one_of_tuple_def)
  have "workspace_from_dict repr (workspace_to_dict w) = workspace_post_init ?w"
    unfolding workspace_from_dict_def
    by (simp add: read_fields workspace_dict_fields ne) (cases w, simp)
  with ok show ?thesis by simp
qed

lemma profile_dict_system: "dfield (profile_to_dict p) ''is_system'' x = JBool (pf_is_system p)"
  by (simp add: profile_to_dict_def dfield_def)

lemma profile_round_trip:
  assumes "profile_ok p"
  shows "profile_from_dict repr (profile_to_dict p) = Inr p"
proof -
  have ne: "pf_permission_mode p \<noteq> []" "pf_chat_mode p \<noteq> []" "pf_status p \<noteq> []" "pf_version p \<noteq> 0" "pf_max_steps p \<noteq> 0"
    using assms by (auto simp: profile_ok_def one_of_tuple_def)
  have "profile_from_dict repr (profile_to_dict p) = profile_post_init p"
    by (simp add: profile_from_dict_def read_fields profile_dict_fields profile_dict_system ne) (cases p, simp)
  with assms show ?thesis by simp
qed

lemma workspace_from_dict_ok: "workspace_from_dict repr d = Inr w \<Longrightarrow> workspace_ok w"
  by (auto simp: workspace_from_dict_def intro: workspace_post_init_ok)

lemma profile_from_dict_ok: "profile_from_dict repr d = Inr p \<Longrightarrow> profile_ok p"
  by (auto simp: profile_from_dict_def intro: profile_post_init_ok)

end
