(* ===== verification/Work_Store.thy ===== *)
theory Work_Store
  imports Work_Models "HOL-Library.List_Lexorder" "HOL-Library.Char_ord"
begin

text \<open>
  The storage layer of the workspaces (\<open>gateway/webui/workspace_store.py\<close>): five tables and
  the operations of the four stores on them. A row is the record it is read as, because
  every column is a field of the record and the JSON columns hold the value itself; reading
  a row runs the constructor again, as the code does.

  An operation takes the time \<open>now\<close> and the hexadecimal digits \<open>secrets.token_hex\<close> gives, and
  returns the result with the new tables, or the exception. Each \<open>with transaction()\<close> block
  is atomic: an exception in it leaves the tables as they were. A patch or a request body is
  a dictionary; an expected version is the JSON value that came with the request.
\<close>

record profile_version =
  pv_id :: string
  pv_profile :: string
  pv_version :: int
  pv_snapshot :: dict
  pv_created_at :: string

record work_db =
  wk_workspaces :: "workspace list"
  wk_profiles :: "agent_profile list"
  wk_versions :: "profile_version list"
  wk_sessions :: "work_session list"
  wk_snapshots :: "runtime_snapshot list"

definition empty_work_db :: work_db where
  "empty_work_db = \<lparr>wk_workspaces = [], wk_profiles = [], wk_versions = [], wk_sessions = [], wk_snapshots = []\<rparr>"

section \<open>Shared helpers\<close>

definition work_gen_id :: "string \<Rightarrow> string \<Rightarrow> string" where
  "work_gen_id prefix hex = prefix @ hex"

text \<open>SQLite takes integers of 64 bits; the driver raises OverflowError for others.\<close>

definition fits64 :: "int \<Rightarrow> bool" where
  "fits64 i \<longleftrightarrow> - (2 ^ 63) \<le> i \<and> i < 2 ^ 63"

text \<open>\<open>except IntegrityError\<close> and \<open>except OperationalError\<close> around a transaction.\<close>

definition store_errors :: "work_error + 'a \<Rightarrow> work_error + 'a" where
  "store_errors r =
    (case r of
       Inr a \<Rightarrow> Inr a
     | Inl Integrity \<Rightarrow> Inl (StoreFailure Invalid [])
     | Inl (Operational m) \<Rightarrow> Inl (map_store_error (Operational m))
     | Inl e \<Rightarrow> Inl e)"

lemma store_errors_Inr [simp]: "store_errors r = Inr a \<longleftrightarrow> r = Inr a"
  by (auto simp: store_errors_def split: sum.splits work_error.splits)

text \<open>\<open>expected_version is not None and version != expected_version\<close>, negated.\<close>

definition version_matches :: "json \<Rightarrow> int \<Rightarrow> bool" where
  "version_matches ev v =
    (case ev of
       JNull \<Rightarrow> True
     | JInt i \<Rightarrow> v = i
     | JBool b \<Rightarrow> v = (if b then 1 else 0)
     | JFloat x \<Rightarrow> of_int v = x
     | _ \<Rightarrow> False)"

text \<open>SQLite's LIKE without an escape character.\<close>

fun like_plain :: "string \<Rightarrow> string \<Rightarrow> bool" where
  "like_plain [] s = (s = [])"
| "like_plain (p # ps) [] = (p = CHR ''%'' \<and> like_plain ps [])"
| "like_plain (p # ps) (c # cs) =
    (if p = CHR ''%'' then like_plain ps (c # cs) \<or> like_plain (p # ps) cs
     else if p = CHR ''_'' then like_plain ps cs
     else ascii_lower p = ascii_lower c \<and> like_plain ps cs)"

definition like_any :: "string \<Rightarrow> string list \<Rightarrow> bool" where
  "like_any q columns \<longleftrightarrow> q = [] \<or> list_ex (like_plain (''%'' @ q @ ''%'')) columns"

definition page_of :: "int \<Rightarrow> int \<Rightarrow> 'a list \<Rightarrow> 'a list" where
  "page_of limit offset rows = take (nat (max 1 (min limit 200))) (drop (nat (max 0 offset)) rows)"

section \<open>The cache of normalised paths\<close>

text \<open>
  \<open>resolve\<close> is \<open>Path(key).expanduser().resolve()\<close>, with the fallback to \<open>absolute\<close> inside; the
  cache is emptied when it holds 512 entries.
\<close>

definition NORM_PATH_CACHE_MAX :: nat where "NORM_PATH_CACHE_MAX = 512"

definition norm_path_cached ::
    "(string \<Rightarrow> string) \<Rightarrow> string \<Rightarrow> (string \<times> string) list \<Rightarrow> string \<times> (string \<times> string) list" where
  "norm_path_cached resolve key cache =
    (case map_of cache key of
       Some full \<Rightarrow> (full, cache)
     | None \<Rightarrow>
         let full = resolve key;
           kept = (if NORM_PATH_CACHE_MAX \<le> length cache then [] else cache)
         in (full, AList.update key full kept))"

section \<open>Workspaces\<close>

definition workspace_from_row :: "workspace \<Rightarrow> work_error + workspace" where
  "workspace_from_row w =
    workspace_post_init (w\<lparr>w_working_directory :=
      if w_working_directory w \<noteq> [] then w_working_directory w else w_project_path w\<rparr>)"

definition workspace_get :: "string \<Rightarrow> bool \<Rightarrow> work_db \<Rightarrow> work_error + workspace" where
  "workspace_get wid include_deleted db =
    (case lookup_row w_id wid (wk_workspaces db) of
       None \<Rightarrow> Inl (StoreFailure NoWorkspace [])
     | Some w \<Rightarrow>
         if w_status w = ''deleted'' \<and> \<not> include_deleted then Inl (StoreFailure NoWorkspace [])
         else workspace_from_row w)"

fun find_path_in ::
    "(string \<Rightarrow> string) \<Rightarrow> string \<Rightarrow> workspace list \<Rightarrow> (string \<times> string) list \<Rightarrow>
      work_error + (workspace option \<times> (string \<times> string) list)" where
  "find_path_in resolve target [] cache = Inr (None, cache)"
| "find_path_in resolve target (r # rows) cache =
    bindE (workspace_from_row r) (\<lambda>w.
      case norm_path_cached resolve (w_project_path w) cache of (full, cache') \<Rightarrow>
        if full = target then Inr (Some w, cache') else find_path_in resolve target rows cache')"

definition find_by_project_path ::
    "(string \<Rightarrow> string) \<Rightarrow> string \<Rightarrow> work_db \<Rightarrow> (string \<times> string) list \<Rightarrow>
      work_error + (workspace option \<times> (string \<times> string) list)" where
  "find_by_project_path resolve path db cache =
    (case norm_path_cached resolve path cache of (target, cache') \<Rightarrow>
       find_path_in resolve target
         (order_by_desc w_updated_at
           (filter (\<lambda>w. w_status w \<in> {''active'', ''archived''}) (wk_workspaces db))) cache')"

definition workspace_list :: "string \<Rightarrow> string \<Rightarrow> int \<Rightarrow> int \<Rightarrow> work_db \<Rightarrow> work_error + workspace list" where
  "workspace_list status q limit offset db =
    map_E workspace_from_row
      (page_of limit offset
        (order_by_desc w_updated_at
          (filter (\<lambda>w. w_status w = status \<and> like_any q [w_name w, w_project_path w, w_description w])
            (wk_workspaces db))))"

definition workspace_count :: "string \<Rightarrow> string \<Rightarrow> work_db \<Rightarrow> nat" where
  "workspace_count status q db =
    sql_count (\<lambda>w. w_status w = status \<and> like_any q [w_name w, w_project_path w]) (wk_workspaces db)"

definition insert_workspace :: "string \<Rightarrow> workspace \<Rightarrow> work_db \<Rightarrow> work_error + work_db" where
  "insert_workspace now w db =
    (if \<not> fits64 (w_version w) then Inl Too_Large
     else
       bindE (of_option Integrity
           (insert_row w_id
             (w\<lparr>w_created_at := if w_created_at w \<noteq> [] then w_created_at w else now,
                w_updated_at := if w_updated_at w \<noteq> [] then w_updated_at w else now\<rparr>)
             (wk_workspaces db)))
         (\<lambda>rows. Inr (db\<lparr>wk_workspaces := rows\<rparr>)))"

text \<open>\<open>_insert_session\<close>: the primary key, the unique \<open>session_key\<close> and the foreign key.\<close>

definition insert_work_session :: "work_session \<Rightarrow> work_db \<Rightarrow> work_error + work_db" where
  "insert_work_session n db =
    (if \<not> fits64 (wn_config_version n) then Inl Too_Large
     else if wn_key n \<in> set (map wn_key (wk_sessions db)) then Inl Integrity
     else if wn_workspace n \<notin> set (map w_id (wk_workspaces db)) then Inl Integrity
     else bindE (of_option Integrity (insert_row wn_id n (wk_sessions db)))
       (\<lambda>rows. Inr (db\<lparr>wk_sessions := rows\<rparr>)))"

definition workspace_create ::
    "string \<Rightarrow> string \<Rightarrow> workspace \<Rightarrow> work_session option \<Rightarrow> work_db \<Rightarrow> work_error + (workspace \<times> work_db)" where
  "workspace_create now hex w first db =
    (let w' = w\<lparr>w_created_at := if w_created_at w = [] then now else w_created_at w, w_updated_at := now\<rparr>
     in bindE (store_errors
         (bindE (insert_workspace now w' db) (\<lambda>db'.
            case first of
              None \<Rightarrow> Inr db'
            | Some n \<Rightarrow>
                let sid = (if wn_id n = [] then work_gen_id ''wss_'' hex else wn_id n)
                in insert_work_session
                  (n\<lparr>wn_id := sid, wn_key := session_key_of (w_id w') sid,
                    wn_created_at := if wn_created_at n = [] then now else wn_created_at n,
                    wn_updated_at := now\<rparr>) db')))
       (\<lambda>db'. Inr (w', db')))"

text \<open>The two default names of a session, in the UTF-8 bytes the database holds.\<close>

definition FIRST_SESSION_NAME :: string where
  "FIRST_SESSION_NAME = map char_of [233, 187, 152, 232, 174, 164, 228, 188, 154, 232, 175, 157 :: nat]"

definition NEW_SESSION_NAME :: string where
  "NEW_SESSION_NAME = map char_of [230, 150, 176, 228, 188, 154, 232, 175, 157 :: nat]"

definition or_text :: "string \<Rightarrow> string \<Rightarrow> string" where
  "or_text x y = (if x \<noteq> [] then x else y)"

definition blank_session :: work_session where
  "blank_session = \<lparr>wn_id = [], wn_workspace = [], wn_key = [], wn_name = [], wn_profile = [], wn_model = [],
    wn_permission_mode = ''ask'', wn_chat_mode = ''chat'', wn_reasoning = ''inherit'', wn_status = ''active'',
    wn_config_version = 0, wn_last_snapshot = [], wn_last_active_at = [], wn_created_at = [],
    wn_updated_at = [], wn_archived_at = [], wn_error_message = [], wn_is_busy = False\<rparr>"

definition create_with_first_session ::
    "(json \<Rightarrow> string) \<Rightarrow> string \<Rightarrow> string \<Rightarrow> workspace \<Rightarrow> dict \<Rightarrow> work_db \<Rightarrow> work_error + (workspace \<times> work_db)" where
  "create_with_first_session repr now hex w payload db =
    bindE (session_post_init (blank_session\<lparr>
        wn_id := work_gen_id ''wss_'' hex, wn_workspace := w_id w,
        wn_name := text_field repr payload ''name'' FIRST_SESSION_NAME,
        wn_profile := text_field repr payload ''agent_profile_id'' [],
        wn_model := text_field repr payload ''model'' (w_default_model w),
        wn_permission_mode := text_field repr payload ''permission_mode'' (or_text (w_permission_mode w) ''ask''),
        wn_chat_mode := text_field repr payload ''chat_mode'' (or_text (w_chat_mode w) ''chat''),
        wn_reasoning := text_field repr payload ''reasoning_level'' ''inherit''\<rparr>))
      (\<lambda>n. workspace_create now hex w (Some n) db)"

text \<open>
  \<open>update\<close> reads the row and checks the version on one connection, and writes on another
  transaction; the two halves are separate here, because another request can come between.
\<close>

definition workspace_prepare ::
    "(json \<Rightarrow> string) \<Rightarrow> string \<Rightarrow> string \<Rightarrow> dict \<Rightarrow> json \<Rightarrow> work_db \<Rightarrow> work_error + workspace" where
  "workspace_prepare repr now wid patch ev db =
    bindE (workspace_get wid False db) (\<lambda>current.
      if \<not> version_matches ev (w_version current)
      then Inl (StoreFailure Version_Conflict ''WORKSPACE_VERSION_CONFLICT'')
      else bindE (workspace_from_dict repr (dmerge (workspace_to_dict current) patch)) (\<lambda>u.
        Inr (u\<lparr>w_id := wid, w_version := w_version current + 1, w_updated_at := now\<rparr>)))"

definition workspace_write :: "string \<Rightarrow> workspace \<Rightarrow> work_db \<Rightarrow> work_error + work_db" where
  "workspace_write wid u db =
    (if \<not> fits64 (w_version u) then Inl Too_Large
     else Inr (db\<lparr>wk_workspaces :=
       sql_update (\<lambda>r. w_id r = wid) (\<lambda>r. u\<lparr>w_id := w_id r, w_created_at := w_created_at r\<rparr>)
         (wk_workspaces db)\<rparr>))"

definition workspace_update ::
    "(json \<Rightarrow> string) \<Rightarrow> string \<Rightarrow> string \<Rightarrow> dict \<Rightarrow> json \<Rightarrow> work_db \<Rightarrow> work_error + (workspace \<times> work_db)" where
  "workspace_update repr now wid patch ev db =
    bindE (workspace_prepare repr now wid patch ev db) (\<lambda>u.
    bindE (workspace_write wid u db) (\<lambda>db'. Inr (u, db')))"

definition workspace_archive ::
    "string \<Rightarrow> string \<Rightarrow> json \<Rightarrow> work_db \<Rightarrow> work_error + (workspace \<times> work_db)" where
  "workspace_archive now wid ev db =
    bindE (workspace_get wid False db) (\<lambda>current.
      if \<not> version_matches ev (w_version current)
      then Inl (StoreFailure Version_Conflict ''WORKSPACE_VERSION_CONFLICT'')
      else if \<not> fits64 (w_version current + 1) then Inl Too_Large
      else Inr (current\<lparr>w_status := ''archived'', w_archived_at := now, w_version := w_version current + 1,
                  w_updated_at := now\<rparr>,
        db\<lparr>wk_workspaces :=
             sql_update (\<lambda>r. w_id r = wid)
               (\<lambda>r. r\<lparr>w_status := ''archived'', w_version := w_version current + 1, w_updated_at := now,
                       w_archived_at := now\<rparr>) (wk_workspaces db),
           wk_sessions :=
             sql_update (\<lambda>n. wn_workspace n = wid \<and> wn_status n = ''active'')
               (\<lambda>n. n\<lparr>wn_status := ''archived'', wn_updated_at := now\<rparr>) (wk_sessions db)\<rparr>))"

definition workspace_delete :: "string \<Rightarrow> string \<Rightarrow> work_db \<Rightarrow> work_error + (workspace \<times> work_db)" where
  "workspace_delete now wid db =
    bindE (workspace_get wid False db) (\<lambda>current.
      Inr (current\<lparr>w_status := ''deleted'', w_archived_at := now, w_updated_at := now,
             w_version := w_version current + 1\<rparr>,
        db\<lparr>wk_workspaces :=
             sql_update (\<lambda>r. w_id r = wid)
               (\<lambda>r. r\<lparr>w_status := ''deleted'', w_version := w_version r + 1, w_updated_at := now,
                       w_archived_at := now\<rparr>) (wk_workspaces db),
           wk_sessions :=
             sql_update (\<lambda>n. wn_workspace n = wid)
               (\<lambda>n. n\<lparr>wn_status := ''deleted'', wn_updated_at := now\<rparr>) (wk_sessions db),
           wk_snapshots := sql_delete (\<lambda>x. sn_workspace x = wid) (wk_snapshots db)\<rparr>))"

section \<open>Agent profiles\<close>

definition profile_from_row :: "agent_profile \<Rightarrow> work_error + agent_profile" where
  "profile_from_row p = profile_post_init p"

definition profile_get :: "string \<Rightarrow> bool \<Rightarrow> work_db \<Rightarrow> work_error + agent_profile" where
  "profile_get pid include_deleted db =
    (case lookup_row pf_id pid (wk_profiles db) of
       None \<Rightarrow> Inl (StoreFailure NoAgentProfile [])
     | Some p \<Rightarrow>
         if pf_status p = ''deleted'' \<and> \<not> include_deleted then Inl (StoreFailure NoAgentProfile [])
         else profile_from_row p)"

definition profile_get_by_name :: "string \<Rightarrow> work_db \<Rightarrow> work_error + agent_profile option" where
  "profile_get_by_name name db =
    (case lookup_row pf_name name (wk_profiles db) of
       None \<Rightarrow> Inr None
     | Some p \<Rightarrow> bindE (profile_from_row p) (\<lambda>p'. Inr (Some p')))"

definition profile_list :: "string \<Rightarrow> string \<Rightarrow> int \<Rightarrow> int \<Rightarrow> work_db \<Rightarrow> work_error + agent_profile list" where
  "profile_list status q limit offset db =
    map_E profile_from_row
      (page_of limit offset
        (order_by_desc pf_updated_at
          (filter (\<lambda>p. pf_status p = status \<and> like_any q [pf_name p, pf_description p]) (wk_profiles db))))"

definition profile_count :: "string \<Rightarrow> string \<Rightarrow> work_db \<Rightarrow> nat" where
  "profile_count status q db =
    sql_count (\<lambda>p. pf_status p = status \<and> like_any q [pf_name p, pf_description p]) (wk_profiles db)"

definition insert_profile :: "agent_profile \<Rightarrow> work_db \<Rightarrow> work_error + work_db" where
  "insert_profile p db =
    (if \<not> fits64 (pf_max_steps p) \<or> \<not> fits64 (pf_version p) then Inl Too_Large
     else if pf_name p \<in> set (map pf_name (wk_profiles db)) then Inl Integrity
     else bindE (of_option Integrity (insert_row pf_id p (wk_profiles db)))
       (\<lambda>rows. Inr (db\<lparr>wk_profiles := rows\<rparr>)))"

definition insert_profile_version :: "string \<Rightarrow> string \<Rightarrow> agent_profile \<Rightarrow> work_db \<Rightarrow> work_error + work_db" where
  "insert_profile_version hex now p db =
    (if \<not> fits64 (pf_version p) then Inl Too_Large
     else if pf_id p \<notin> set (map pf_id (wk_profiles db)) then Inl Integrity
     else bindE (of_option Integrity
         (insert_row pv_id
           \<lparr>pv_id = work_gen_id ''ver_'' hex, pv_profile = pf_id p, pv_version = pf_version p,
            pv_snapshot = profile_to_dict p, pv_created_at = now\<rparr> (wk_versions db)))
       (\<lambda>rows. Inr (db\<lparr>wk_versions := rows\<rparr>)))"

definition profile_create ::
    "string \<Rightarrow> string \<Rightarrow> agent_profile \<Rightarrow> work_db \<Rightarrow> work_error + (agent_profile \<times> work_db)" where
  "profile_create now hex p db =
    (let p' = p\<lparr>pf_created_at := or_text (pf_created_at p) now, pf_updated_at := now\<rparr>
     in bindE (store_errors (bindE (insert_profile p' db) (insert_profile_version hex now p')))
       (\<lambda>db'. Inr (p', db')))"

definition profile_prepare ::
    "(json \<Rightarrow> string) \<Rightarrow> string \<Rightarrow> string \<Rightarrow> dict \<Rightarrow> json \<Rightarrow> work_db \<Rightarrow> work_error + agent_profile" where
  "profile_prepare repr now pid patch ev db =
    bindE (profile_get pid False db) (\<lambda>current.
      if \<not> version_matches ev (pf_version current)
      then Inl (StoreFailure Version_Conflict ''AGENT_VERSION_CONFLICT'')
      else bindE (profile_from_dict repr (dmerge (profile_to_dict current) patch)) (\<lambda>u.
        Inr (u\<lparr>pf_id := pid, pf_version := pf_version current + 1, pf_updated_at := now\<rparr>)))"

definition profile_write :: "string \<Rightarrow> string \<Rightarrow> agent_profile \<Rightarrow> work_db \<Rightarrow> work_error + work_db" where
  "profile_write hex pid u db =
    store_errors
      (if \<not> fits64 (pf_max_steps u) \<or> \<not> fits64 (pf_version u) then Inl Too_Large
       else if list_ex (\<lambda>r. pf_id r \<noteq> pid \<and> pf_name r = pf_name u) (wk_profiles db) then Inl Integrity
       else insert_profile_version hex (pf_updated_at u) u
         (db\<lparr>wk_profiles :=
           sql_update (\<lambda>r. pf_id r = pid) (\<lambda>r. u\<lparr>pf_id := pf_id r, pf_created_at := pf_created_at r\<rparr>)
             (wk_profiles db)\<rparr>))"

definition profile_update ::
    "(json \<Rightarrow> string) \<Rightarrow> string \<Rightarrow> string \<Rightarrow> string \<Rightarrow> dict \<Rightarrow> json \<Rightarrow> work_db \<Rightarrow>
      work_error + (agent_profile \<times> work_db)" where
  "profile_update repr now hex pid patch ev db =
    bindE (profile_prepare repr now pid patch ev db) (\<lambda>u.
    bindE (profile_write hex pid u db) (\<lambda>db'. Inr (u, db')))"

text \<open>\<open>hex\<close> names the copy and \<open>hex'\<close> its version row.\<close>

definition profile_duplicate ::
    "(json \<Rightarrow> string) \<Rightarrow> string \<Rightarrow> string \<Rightarrow> string \<Rightarrow> string \<Rightarrow> string option \<Rightarrow> work_db \<Rightarrow>
      work_error + (agent_profile \<times> work_db)" where
  "profile_duplicate repr now hex hex' pid name db =
    bindE (profile_get pid False db) (\<lambda>current.
    bindE (profile_from_dict repr (profile_to_dict current)) (\<lambda>dup.
    profile_create now hex'
      (dup\<lparr>pf_id := work_gen_id ''agent_'' hex,
        pf_name := (case name of
            Some n \<Rightarrow> if n \<noteq> [] then n else pf_name current @ '' (copy)''
          | None \<Rightarrow> pf_name current @ '' (copy)''),
        pf_version := 1, pf_created_at := [], pf_updated_at := [], pf_status := ''active'',
        pf_archived_at := [], pf_is_system := False\<rparr>) db))"

definition profile_references :: "string \<Rightarrow> work_db \<Rightarrow> work_error + workspace list" where
  "profile_references pid db =
    map_E workspace_from_row
      (filter (\<lambda>w. w_default_profile w = pid \<and> w_status w \<in> {''active'', ''archived''}) (wk_workspaces db))"

definition active_refs :: "string \<Rightarrow> work_db \<Rightarrow> work_error + workspace list" where
  "active_refs pid db =
    bindE (profile_references pid db) (\<lambda>refs. Inr (filter (\<lambda>w. w_status w = ''active'') refs))"

definition write_profile_status ::
    "string \<Rightarrow> string \<Rightarrow> string \<Rightarrow> string \<Rightarrow> agent_profile \<Rightarrow> work_db \<Rightarrow> work_error + (agent_profile \<times> work_db)" where
  "write_profile_status now hex st archived current db =
    (let p' = current\<lparr>pf_status := st, pf_archived_at := archived, pf_version := pf_version current + 1,
        pf_updated_at := now\<rparr>
     in if \<not> fits64 (pf_version p') then Inl Too_Large
        else bindE (insert_profile_version hex now p'
            (db\<lparr>wk_profiles :=
              sql_update (\<lambda>r. pf_id r = pf_id current)
                (\<lambda>r. r\<lparr>pf_status := st, pf_version := pf_version p', pf_updated_at := now,
                        pf_archived_at := archived\<rparr>) (wk_profiles db)\<rparr>))
          (\<lambda>db'. Inr (p', db')))"

definition profile_archive ::
    "string \<Rightarrow> string \<Rightarrow> string \<Rightarrow> json \<Rightarrow> work_db \<Rightarrow> work_error + (agent_profile \<times> work_db)" where
  "profile_archive now hex pid ev db =
    bindE (profile_get pid False db) (\<lambda>current.
      if pf_is_system current then Inl (StoreFailure Invalid ''SYSTEM_AGENT_IMMUTABLE'')
      else if pf_status current \<noteq> ''active'' then Inl (StoreFailure Invalid ''AGENT_PROFILE_NOT_ACTIVE'')
      else if \<not> version_matches ev (pf_version current)
      then Inl (StoreFailure Version_Conflict ''AGENT_VERSION_CONFLICT'')
      else bindE (active_refs pid db) (\<lambda>refs.
        if refs \<noteq> [] then Inl (StoreFailure Reference_Conflict ''AGENT_PROFILE_IN_USE'')
        else write_profile_status now hex ''archived'' now current db))"

definition profile_activate ::
    "string \<Rightarrow> string \<Rightarrow> string \<Rightarrow> json \<Rightarrow> work_db \<Rightarrow> work_error + (agent_profile \<times> work_db)" where
  "profile_activate now hex pid ev db =
    bindE (profile_get pid False db) (\<lambda>current.
      if pf_is_system current then Inl (StoreFailure Invalid ''SYSTEM_AGENT_IMMUTABLE'')
      else if pf_status current \<noteq> ''archived'' then Inl (StoreFailure Invalid ''AGENT_PROFILE_NOT_ARCHIVED'')
      else if \<not> version_matches ev (pf_version current)
      then Inl (StoreFailure Version_Conflict ''AGENT_VERSION_CONFLICT'')
      else write_profile_status now hex ''active'' [] current db)"

definition profile_delete ::
    "string \<Rightarrow> string \<Rightarrow> string \<Rightarrow> json \<Rightarrow> work_db \<Rightarrow> work_error + (agent_profile \<times> work_db)" where
  "profile_delete now hex pid ev db =
    bindE (profile_get pid False db) (\<lambda>current.
      if pf_is_system current then Inl (StoreFailure Invalid ''SYSTEM_AGENT_IMMUTABLE'')
      else if \<not> version_matches ev (pf_version current)
      then Inl (StoreFailure Version_Conflict ''AGENT_VERSION_CONFLICT'')
      else bindE (active_refs pid db) (\<lambda>refs.
        if refs \<noteq> [] then Inl (StoreFailure Reference_Conflict ''AGENT_PROFILE_IN_USE'')
        else write_profile_status now hex ''deleted'' now current db))"

text \<open>
  \<open>seed_system_profiles\<close>; the built-in templates are an argument, with the digits of one
  version row for each. A template whose creation raises ends the loop; what was created
  before stays.
\<close>

definition missing_profile :: "work_error \<Rightarrow> bool" where
  "missing_profile e \<longleftrightarrow> (case e of StoreFailure c _ \<Rightarrow> c = NoAgentProfile | _ \<Rightarrow> False)"

fun seed_system_profiles ::
    "string \<Rightarrow> (string \<times> agent_profile) list \<Rightarrow> nat \<Rightarrow> work_db \<Rightarrow> (work_error + nat) \<times> work_db" where
  "seed_system_profiles now [] added db = (Inr added, db)"
| "seed_system_profiles now ((hex, t) # templates) added db =
    (case profile_get (pf_id t) False db of
       Inr _ \<Rightarrow> seed_system_profiles now templates added db
     | Inl e \<Rightarrow>
         if \<not> missing_profile e then (Inl e, db)
         else
           (case profile_get_by_name (pf_name t) db of
              Inl e \<Rightarrow> (Inl e, db)
            | Inr (Some _) \<Rightarrow> seed_system_profiles now templates added db
            | Inr None \<Rightarrow>
                (case profile_create now hex t db of
                   Inl e \<Rightarrow> (Inl e, db)
                 | Inr (_, db') \<Rightarrow> seed_system_profiles now templates (added + 1) db')))"

section \<open>Sessions\<close>

definition session_from_row :: "work_session \<Rightarrow> work_error + work_session" where
  "session_from_row n = session_post_init n"

definition session_create ::
    "(json \<Rightarrow> string) \<Rightarrow> string \<Rightarrow> string \<Rightarrow> string \<Rightarrow> dict \<Rightarrow> work_db \<Rightarrow> work_error + (work_session \<times> work_db)" where
  "session_create repr now hex wid payload db =
    bindE (session_post_init (blank_session\<lparr>
        wn_id := work_gen_id ''wss_'' hex, wn_workspace := wid,
        wn_name := text_field repr payload ''name'' NEW_SESSION_NAME,
        wn_profile := text_field repr payload ''agent_profile_id'' [],
        wn_model := text_field repr payload ''model'' [],
        wn_permission_mode := text_field repr payload ''permission_mode'' ''ask'',
        wn_chat_mode := text_field repr payload ''chat_mode'' ''chat'',
        wn_reasoning := text_field repr payload ''reasoning_level'' ''inherit''\<rparr>))
      (\<lambda>n. let n' = n\<lparr>wn_key := session_key_of wid (wn_id n), wn_created_at := now, wn_updated_at := now\<rparr>
        in bindE (store_errors
            (if \<not> list_ex (\<lambda>w. w_id w = wid \<and> w_status w = ''active'') (wk_workspaces db)
             then Inl (StoreFailure NoWorkspace [])
             else insert_work_session n' db))
          (\<lambda>db'. Inr (n', db')))"

definition owned :: "string \<Rightarrow> string \<Rightarrow> work_session \<Rightarrow> bool" where
  "owned wid sid n \<longleftrightarrow> wn_workspace n = wid \<and> wn_id n = sid"

definition get_owned :: "string \<Rightarrow> string \<Rightarrow> work_db \<Rightarrow> work_error + work_session" where
  "get_owned wid sid db =
    (case find (owned wid sid) (wk_sessions db) of
       None \<Rightarrow> Inl (StoreFailure NoWorkspaceSession [])
     | Some n \<Rightarrow>
         if wn_status n = ''deleted'' then Inl (StoreFailure NoWorkspaceSession []) else session_from_row n)"

definition list_for_workspace :: "string \<Rightarrow> string \<Rightarrow> int \<Rightarrow> int \<Rightarrow> work_db \<Rightarrow> work_error + work_session list" where
  "list_for_workspace wid status limit offset db =
    map_E session_from_row
      (page_of limit offset
        (order_by_desc wn_updated_at
          (filter (\<lambda>n. wn_workspace n = wid \<and> wn_status n = status) (wk_sessions db))))"

text \<open>A given override that is not one of the choices raises; one that is not given stays.\<close>

definition override_choice :: "(string \<Rightarrow> string) \<Rightarrow> string list \<Rightarrow> string \<Rightarrow> string option \<Rightarrow> work_error + string option" where
  "override_choice clean choices code x =
    (case x of
       None \<Rightarrow> Inr None
     | Some v \<Rightarrow> if clean v \<notin> set choices then Inl (StoreFailure Invalid code) else Inr (Some (clean v)))"

definition override :: "'a option \<Rightarrow> 'a \<Rightarrow> 'a" where
  "override x old = (case x of None \<Rightarrow> old | Some v \<Rightarrow> v)"

definition update_runtime_overrides ::
    "string \<Rightarrow> string \<Rightarrow> string \<Rightarrow> string option \<Rightarrow> string option \<Rightarrow> string option \<Rightarrow> string option \<Rightarrow>
      string option \<Rightarrow> bool \<Rightarrow> work_db \<Rightarrow> work_error + (work_session \<times> work_db)" where
  "update_runtime_overrides now wid sid model mode chat level name expected_busy db =
    bindE (get_owned wid sid db) (\<lambda>current.
      if expected_busy \<and> wn_is_busy current then Inl (StoreFailure Store_Busy ''WORKSPACE_SESSION_BUSY'')
      else bindE (override_choice strip VALID_PERMISSION_MODES ''INVALID_PERMISSION_MODE'' mode) (\<lambda>mode'.
      bindE (override_choice strip VALID_CHAT_MODES ''INVALID_CHAT_MODE'' chat) (\<lambda>chat'.
      bindE (override_choice (\<lambda>v. map ascii_lower (strip v)) VALID_REASONING_LEVELS ''INVALID_REASONING_LEVEL'' level)
        (\<lambda>level'.
      if model = None \<and> mode' = None \<and> chat' = None \<and> level' = None \<and> name = None then Inr (current, db)
      else
        (let db' = db\<lparr>wk_sessions :=
            sql_update (owned wid sid)
              (\<lambda>n. n\<lparr>wn_model := override model (wn_model n),
                wn_permission_mode := override mode' (wn_permission_mode n),
                wn_chat_mode := override chat' (wn_chat_mode n),
                wn_reasoning := override level' (wn_reasoning n),
                wn_name := override name (wn_name n),
                wn_config_version := wn_config_version n + 1, wn_updated_at := now\<rparr>) (wk_sessions db)\<rparr>
         in bindE (get_owned wid sid db') (\<lambda>n. Inr (n, db')))))))"

definition set_busy :: "string \<Rightarrow> string \<Rightarrow> string \<Rightarrow> bool \<Rightarrow> work_db \<Rightarrow> work_db" where
  "set_busy now wid sid busy db =
    db\<lparr>wk_sessions := sql_update (owned wid sid) (\<lambda>n. n\<lparr>wn_is_busy := busy, wn_updated_at := now\<rparr>) (wk_sessions db)\<rparr>"

definition try_set_busy :: "string \<Rightarrow> string \<Rightarrow> string \<Rightarrow> work_db \<Rightarrow> bool \<times> work_db" where
  "try_set_busy now wid sid db =
    (sql_count (\<lambda>n. owned wid sid n \<and> \<not> wn_is_busy n) (wk_sessions db) > 0,
     db\<lparr>wk_sessions := sql_update (\<lambda>n. owned wid sid n \<and> \<not> wn_is_busy n)
       (\<lambda>n. n\<lparr>wn_is_busy := True, wn_updated_at := now\<rparr>) (wk_sessions db)\<rparr>)"

definition reset_stale_busy :: "string \<Rightarrow> work_db \<Rightarrow> nat \<times> work_db" where
  "reset_stale_busy now db =
    (sql_count wn_is_busy (wk_sessions db),
     db\<lparr>wk_sessions := sql_update wn_is_busy (\<lambda>n. n\<lparr>wn_is_busy := False, wn_updated_at := now\<rparr>) (wk_sessions db)\<rparr>)"

definition touch_snapshot :: "string \<Rightarrow> string \<Rightarrow> string \<Rightarrow> string \<Rightarrow> work_db \<Rightarrow> work_db" where
  "touch_snapshot now wid sid xid db =
    db\<lparr>wk_sessions := sql_update (owned wid sid)
      (\<lambda>n. n\<lparr>wn_last_snapshot := xid, wn_last_active_at := now, wn_updated_at := now\<rparr>) (wk_sessions db)\<rparr>"

definition session_archive :: "string \<Rightarrow> string \<Rightarrow> string \<Rightarrow> work_db \<Rightarrow> work_error + (work_session \<times> work_db)" where
  "session_archive now wid sid db =
    bindE (get_owned wid sid db) (\<lambda>current.
      if wn_is_busy current then Inl (StoreFailure Store_Busy ''WORKSPACE_SESSION_BUSY'')
      else
        (let db' = db\<lparr>wk_sessions := sql_update (owned wid sid)
            (\<lambda>n. n\<lparr>wn_status := ''archived'', wn_updated_at := now, wn_archived_at := now\<rparr>) (wk_sessions db)\<rparr>
         in bindE (get_owned wid sid db') (\<lambda>n. Inr (n, db'))))"

section \<open>Snapshots\<close>

definition snapshot_get :: "string \<Rightarrow> work_db \<Rightarrow> runtime_snapshot option" where
  "snapshot_get xid db = lookup_row sn_id xid (wk_snapshots db)"

definition get_by_dedup_key :: "string \<Rightarrow> work_db \<Rightarrow> runtime_snapshot option" where
  "get_by_dedup_key k db = (if k = [] then None else lookup_row sn_dedup_key k (wk_snapshots db))"

definition insert_snapshot :: "runtime_snapshot \<Rightarrow> work_db \<Rightarrow> work_error + work_db" where
  "insert_snapshot x db =
    (if \<not> fits64 (sn_profile_version x) \<or> \<not> fits64 (sn_workspace_version x) \<or> \<not> fits64 (sn_config_version x)
     then Inl Too_Large
     else if sn_dedup_key x \<in> set (map sn_dedup_key (wk_snapshots db)) then Inl Integrity
     else bindE (of_option Integrity (insert_row sn_id x (wk_snapshots db)))
       (\<lambda>rows. Inr (db\<lparr>wk_snapshots := rows\<rparr>)))"

text \<open>The key a snapshot is stored under, and the row that is inserted.\<close>

definition snapshot_key :: "runtime_snapshot \<Rightarrow> string" where
  "snapshot_key x = (if sn_dedup_key x = [] then or_text (sn_capability_hash x) (sn_id x) else sn_dedup_key x)"

definition snapshot_row :: "string \<Rightarrow> string \<Rightarrow> runtime_snapshot \<Rightarrow> runtime_snapshot" where
  "snapshot_row now hex x = x\<lparr>sn_dedup_key := snapshot_key x,
    sn_id := (if sn_id x = [] then work_gen_id ''snap_'' hex else sn_id x),
    sn_created_at := or_text (sn_created_at x) now\<rparr>"

definition snapshot_get_or_create ::
    "string \<Rightarrow> string \<Rightarrow> runtime_snapshot \<Rightarrow> work_db \<Rightarrow> work_error + (runtime_snapshot \<times> work_db)" where
  "snapshot_get_or_create now hex x db =
    (case get_by_dedup_key (snapshot_key x) db of
       Some y \<Rightarrow> Inr (y, db)
     | None \<Rightarrow>
         (case insert_snapshot (snapshot_row now hex x) db of
            Inr db' \<Rightarrow> Inr (snapshot_row now hex x, db')
          | Inl e \<Rightarrow>
              if e = Integrity then
                (case get_by_dedup_key (snapshot_key x) db of Some y \<Rightarrow> Inr (y, db) | None \<Rightarrow> Inl Integrity)
              else Inl (case e of Operational m \<Rightarrow> map_store_error e | _ \<Rightarrow> e)))"

end
