(* ===== verification/Work_Inv.thy ===== *)
theory Work_Inv
  imports Work_Store
begin

text \<open>
  The invariant of the workspace tables: keys are unique, every row is what a constructor
  leaves, a session belongs to an existing workspace, and the history of a profile holds one
  row for each version, the newest one holding the profile as it stands.
\<close>

section \<open>Tables\<close>

definition table :: "('r \<Rightarrow> 'k) \<Rightarrow> ('r \<Rightarrow> bool) \<Rightarrow> 'r list \<Rightarrow> bool" where
  "table key P rows \<longleftrightarrow> unique_key key rows \<and> (\<forall>r \<in> set rows. P r)"

lemma table_Nil [simp]: "table key P []"
  by (simp add: table_def)

lemma table_snoc:
  "table key P rows \<Longrightarrow> key r \<notin> set (map key rows) \<Longrightarrow> P r \<Longrightarrow> table key P (rows @ [r])"
  by (auto simp: table_def intro: unique_key_snoc)

lemma table_update:
  assumes "table key P rows" "\<And>r. Q r \<Longrightarrow> key (f r) = key r"
    and "\<And>r. r \<in> set rows \<Longrightarrow> Q r \<Longrightarrow> P r \<Longrightarrow> P (f r)"
  shows "table key P (sql_update Q f rows)"
  using assms by (auto simp: table_def set_sql_update intro!: unique_key_update)

lemma table_delete: "table key P rows \<Longrightarrow> table key P (sql_delete Q rows)"
  by (auto simp: table_def set_sql_delete intro: unique_key_delete)

lemma table_lookup: "table key P rows \<Longrightarrow> lookup_row key k rows = Some r \<Longrightarrow> P r \<and> key r = k \<and> r \<in> set rows"
  using lookup_row_Some [of key k rows r] by (auto simp: table_def)

lemma table_mono: "table key P rows \<Longrightarrow> (\<And>r. r \<in> set rows \<Longrightarrow> P r \<Longrightarrow> Q r) \<Longrightarrow> table key Q rows"
  by (auto simp: table_def)

section \<open>The invariant\<close>

text \<open>The history row \<open>v\<close> holds the profile \<open>p\<close>; \<open>update\<close> never changes the stored creation time.\<close>

definition recorded :: "profile_version \<Rightarrow> agent_profile \<Rightarrow> bool" where
  "recorded v p \<longleftrightarrow> pv_profile v = pf_id p \<and> pv_version v = pf_version p \<and>
    (\<exists>c. pv_snapshot v = profile_to_dict (p\<lparr>pf_created_at := c\<rparr>))"

definition history_ok :: "agent_profile list \<Rightarrow> profile_version list \<Rightarrow> bool" where
  "history_ok ps vs \<longleftrightarrow>
    unique_key pv_id vs \<and> unique_key (\<lambda>v. (pv_profile v, pv_version v)) vs \<and>
    (\<forall>v \<in> set vs. \<exists>p \<in> set ps. pf_id p = pv_profile v \<and> pv_version v \<le> pf_version p) \<and>
    (\<forall>p \<in> set ps. \<exists>v \<in> set vs. recorded v p)"

definition session_row_ok :: "string set \<Rightarrow> work_session \<Rightarrow> bool" where
  "session_row_ok ids n \<longleftrightarrow> session_ok n \<and> wn_workspace n \<in> ids"

definition work_ok :: "work_db \<Rightarrow> bool" where
  "work_ok db \<longleftrightarrow>
    table w_id workspace_ok (wk_workspaces db) \<and>
    table pf_id profile_ok (wk_profiles db) \<and> unique_key pf_name (wk_profiles db) \<and>
    history_ok (wk_profiles db) (wk_versions db) \<and>
    table wn_id (session_row_ok (set (map w_id (wk_workspaces db)))) (wk_sessions db) \<and>
    unique_key sn_id (wk_snapshots db) \<and> unique_key sn_dedup_key (wk_snapshots db)"

lemma work_okD:
  assumes "work_ok db"
  shows "table w_id workspace_ok (wk_workspaces db)" "table pf_id profile_ok (wk_profiles db)"
    "unique_key pf_name (wk_profiles db)" "history_ok (wk_profiles db) (wk_versions db)"
    "table wn_id (session_row_ok (set (map w_id (wk_workspaces db)))) (wk_sessions db)"
    "unique_key sn_id (wk_snapshots db)" "unique_key sn_dedup_key (wk_snapshots db)"
  using assms by (simp_all add: work_ok_def)

lemma empty_work_ok: "work_ok empty_work_db"
  by (simp add: work_ok_def empty_work_db_def history_ok_def)

section \<open>Reading\<close>

lemma workspace_from_row_ok [simp]: "workspace_ok w \<Longrightarrow> workspace_from_row w = Inr w"
  by (simp add: workspace_from_row_def workspace_ok_def [of w])

lemma profile_from_row_ok [simp]: "profile_ok p \<Longrightarrow> profile_from_row p = Inr p"
  by (simp add: profile_from_row_def)

lemma session_from_row_ok [simp]: "session_ok n \<Longrightarrow> session_from_row n = Inr n"
  by (simp add: session_from_row_def)

lemma workspace_get_Inr:
  assumes "work_ok db" "workspace_get wid incl db = Inr w"
  shows "w \<in> set (wk_workspaces db) \<and> w_id w = wid \<and> workspace_ok w \<and> (incl \<or> w_status w \<noteq> ''deleted'')"
proof -
  obtain r where r: "lookup_row w_id wid (wk_workspaces db) = Some r"
    using assms(2) by (auto simp: workspace_get_def split: option.splits)
  from table_lookup [OF work_okD(1) [OF assms(1)] r] assms(2) r show ?thesis
    by (auto simp: workspace_get_def split: if_splits)
qed

lemma profile_get_Inr:
  assumes "work_ok db" "profile_get pid incl db = Inr p"
  shows "p \<in> set (wk_profiles db) \<and> pf_id p = pid \<and> profile_ok p \<and> (incl \<or> pf_status p \<noteq> ''deleted'')"
proof -
  obtain r where r: "lookup_row pf_id pid (wk_profiles db) = Some r"
    using assms(2) by (auto simp: profile_get_def split: option.splits)
  from table_lookup [OF work_okD(2) [OF assms(1)] r] assms(2) r show ?thesis
    by (auto simp: profile_get_def split: if_splits)
qed

lemma get_owned_Inr:
  assumes "work_ok db" "get_owned wid sid db = Inr n"
  shows "n \<in> set (wk_sessions db) \<and> owned wid sid n \<and> session_ok n \<and> wn_status n \<noteq> ''deleted''"
proof -
  obtain r where r: "find (owned wid sid) (wk_sessions db) = Some r"
    using assms(2) by (auto simp: get_owned_def split: option.splits)
  then have "r \<in> set (wk_sessions db)" "owned wid sid r" by (auto simp: find_Some_iff)
  with r assms work_okD(5) [OF assms(1)] show ?thesis
    by (auto simp: get_owned_def table_def session_row_ok_def split: if_splits)
qed

section \<open>Identifiers\<close>

lemma id_char_not_space: "id_char c \<Longrightarrow> \<not> py_space c"
  by (auto simp: id_char_def py_space_def Let_def)

lemma id_chars_strip: "list_all id_char x \<Longrightarrow> strip x = x"
proof -
  assume "list_all id_char x"
  then have "\<forall>c \<in> set x. \<not> py_space c" using id_char_not_space by (auto simp: list_all_iff)
  then have "dropWhile py_space x = x" "dropWhile py_space (rev x) = rev x"
    by (cases x, simp_all, metis dropWhile_eq_self_iff list.set_sel(1) set_rev rev_is_Nil_conv hd_in_set)
  then show ?thesis by (simp add: strip_def)
qed

definition good_hex :: "string \<Rightarrow> bool" where
  "good_hex h \<longleftrightarrow> list_all id_char h \<and> length h \<le> 64"

lemma work_gen_id_good:
  "good_hex h \<Longrightarrow> list_all id_char p \<Longrightarrow> p \<noteq> [] \<Longrightarrow> length p \<le> 64 \<Longrightarrow> good_id (work_gen_id p h)"
  by (simp add: work_gen_id_def good_id_def good_hex_def id_chars_strip)

section \<open>Workspaces\<close>

lemma work_ok_workspaces:
  assumes "work_ok db" "table w_id workspace_ok rows"
    and "set (map w_id (wk_workspaces db)) \<subseteq> set (map w_id rows)"
  shows "work_ok (db\<lparr>wk_workspaces := rows\<rparr>)"
proof -
  have "table wn_id (session_row_ok (set (map w_id rows))) (wk_sessions db)"
    by (rule table_mono [OF work_okD(5) [OF assms(1)]]) (use assms(3) in \<open>auto simp: session_row_ok_def\<close>)
  with assms(1,2) show ?thesis by (simp add: work_ok_def)
qed

lemma work_ok_sessions:
  assumes "work_ok db" "table wn_id (session_row_ok (set (map w_id (wk_workspaces db)))) rows"
  shows "work_ok (db\<lparr>wk_sessions := rows\<rparr>)"
  using assms by (simp add: work_ok_def)

lemma work_ok_session_update:
  assumes "work_ok db" "\<And>n. session_ok n \<Longrightarrow> session_ok (f n)"
    and "\<And>n. wn_id (f n) = wn_id n \<and> wn_workspace (f n) = wn_workspace n"
  shows "work_ok (db\<lparr>wk_sessions := sql_update Q f (wk_sessions db)\<rparr>)"
  by (rule work_ok_sessions [OF assms(1)], rule table_update [OF work_okD(5) [OF assms(1)]])
    (simp_all add: assms session_row_ok_def)

lemma work_ok_snapshots_delete:
  "work_ok db \<Longrightarrow> work_ok (db\<lparr>wk_snapshots := sql_delete Q (wk_snapshots db)\<rparr>)"
  by (simp add: work_ok_def unique_key_delete)

lemma insert_workspace_ok:
  assumes "work_ok db" "workspace_ok w" "insert_workspace now w db = Inr db'"
  shows "work_ok db' \<and> w_id w \<in> set (map w_id (wk_workspaces db'))"
proof -
  define x where "x = w\<lparr>w_created_at := if w_created_at w \<noteq> [] then w_created_at w else now,
    w_updated_at := if w_updated_at w \<noteq> [] then w_updated_at w else now\<rparr>"
  have x: "workspace_ok x" "w_id x = w_id w" using assms(2) by (simp_all add: x_def workspace_ok_def)
  have db': "db' = db\<lparr>wk_workspaces := wk_workspaces db @ [x]\<rparr>" and new: "w_id x \<notin> set (map w_id (wk_workspaces db))"
    using assms(3) unfolding insert_workspace_def x_def [symmetric] by (simp_all add: if_Inr)
  from work_ok_workspaces [OF assms(1) table_snoc [OF work_okD(1) [OF assms(1)] new x(1)]] x(2) db'
  show ?thesis by (simp add: subset_insertI)
qed

lemma insert_work_session_ok:
  assumes "work_ok db" "session_ok n" "insert_work_session n db = Inr db'"
  shows "work_ok db'"
proof -
  from assms(3) have "db' = db\<lparr>wk_sessions := wk_sessions db @ [n]\<rparr>" "wn_id n \<notin> set (map wn_id (wk_sessions db))"
    "wn_workspace n \<in> set (map w_id (wk_workspaces db))"
    by (auto simp: insert_work_session_def split: if_splits)
  with assms(2) work_ok_sessions [OF assms(1) table_snoc [OF work_okD(5) [OF assms(1)]]] show ?thesis
    by (simp add: session_row_ok_def)
qed

lemma workspace_create_ok:
  assumes "work_ok db" "workspace_ok w" "workspace_create now hex w first db = Inr (w', db')"
    and "\<And>n. first = Some n \<Longrightarrow> session_ok n \<and> wn_workspace n = w_id w"
  shows "work_ok db'"
proof -
  let ?w = "w\<lparr>w_created_at := if w_created_at w = [] then now else w_created_at w, w_updated_at := now\<rparr>"
  have w: "workspace_ok ?w" using assms(2) by (simp add: workspace_ok_def)
  from assms(3) obtain db1 where 1: "insert_workspace now ?w db = Inr db1"
    and 2: "(case first of None \<Rightarrow> Inr db1 | Some n \<Rightarrow>
        let sid = (if wn_id n = [] then work_gen_id ''wss_'' hex else wn_id n)
        in insert_work_session (n\<lparr>wn_id := sid, wn_key := session_key_of (w_id ?w) sid,
             wn_created_at := if wn_created_at n = [] then now else wn_created_at n, wn_updated_at := now\<rparr>) db1) = Inr db'"
    by (auto simp: workspace_create_def Let_def)
  from insert_workspace_ok [OF assms(1) w 1] have ok: "work_ok db1" ..
  show ?thesis
  proof (cases first)
    case (Some n)
    from assms(4) [OF Some] have n: "session_ok n" "wn_workspace n = w_id w" by auto
    then have "wn_id n \<noteq> []" by (simp add: session_ok_def good_id_def)
    with 2 Some obtain n' where n': "insert_work_session n' db1 = Inr db'"
      "n' = n\<lparr>wn_key := session_key_of (w_id w) (wn_id n),
        wn_created_at := if wn_created_at n = [] then now else wn_created_at n, wn_updated_at := now\<rparr>"
      by (simp add: Let_def)
    with n have "session_ok n'" by (simp add: session_ok_def)
    from insert_work_session_ok [OF ok this n'(1)] show ?thesis .
  qed (use 2 ok in simp)
qed

lemma create_with_first_session_ok:
  assumes "work_ok db" "workspace_ok w" "create_with_first_session repr now hex w payload db = Inr (w', db')"
  shows "work_ok db'"
proof -
  obtain n0 n where n: "session_post_init n0 = Inr n" "wn_workspace n0 = w_id w"
    and c: "workspace_create now hex w (Some n) db = Inr (w', db')"
    using assms(3) by (auto simp: create_with_first_session_def)
  have "good_id (w_id w)" using assms(2) by (simp add: workspace_ok_def)
  with n have "wn_workspace n = w_id w" by (auto simp: session_post_init_def)
  with workspace_create_ok [OF assms(1,2) c] session_post_init_ok [OF n(1)] show ?thesis by auto
qed

lemma workspace_prepare_ok:
  assumes "work_ok db" "workspace_prepare repr now wid patch ev db = Inr u"
  shows "workspace_ok u \<and> w_id u = wid \<and>
    (\<exists>c. workspace_get wid False db = Inr c \<and> version_matches ev (w_version c) \<and> w_version u = w_version c + 1)"
proof -
  obtain c u0 where c: "workspace_get wid False db = Inr c" "version_matches ev (w_version c)"
    and u0: "workspace_from_dict repr (dmerge (workspace_to_dict c) patch) = Inr u0"
    and u: "u = u0\<lparr>w_id := wid, w_version := w_version c + 1, w_updated_at := now\<rparr>"
    using assms(2) by (auto simp: workspace_prepare_def if_Inr)
  from workspace_get_Inr [OF assms(1) c(1)] have "good_id wid" "1 \<le> w_version c" by (auto simp: workspace_ok_def)
  with workspace_from_dict_ok [OF u0] c u show ?thesis by (auto simp: workspace_ok_def)
qed

lemma workspace_write_ok:
  assumes "work_ok db" "workspace_ok u" "workspace_write wid u db = Inr db'"
  shows "work_ok db'"
proof -
  have ok: "workspace_ok (u\<lparr>w_id := w_id r, w_created_at := c\<rparr>)" if "workspace_ok r" for r c
    using assms(2) that by (simp add: workspace_ok_def)
  from assms(3) have "db' = db\<lparr>wk_workspaces :=
      sql_update (\<lambda>r. w_id r = wid) (\<lambda>r. u\<lparr>w_id := w_id r, w_created_at := w_created_at r\<rparr>) (wk_workspaces db)\<rparr>"
    by (auto simp: workspace_write_def if_Inr)
  then show ?thesis
    by (simp only:) (rule work_ok_workspaces [OF assms(1) table_update [OF work_okD(1) [OF assms(1)]]],
      auto intro: ok)
qed

lemma workspace_archive_ok:
  assumes "work_ok db" "workspace_archive now wid ev db = Inr (w, db')"
  shows "work_ok db'"
proof -
  obtain c where c: "workspace_get wid False db = Inr c" and db': "db' =
     db\<lparr>wk_workspaces :=
          sql_update (\<lambda>r. w_id r = wid)
            (\<lambda>r. r\<lparr>w_status := ''archived'', w_version := w_version c + 1, w_updated_at := now,
                    w_archived_at := now\<rparr>) (wk_workspaces db),
        wk_sessions :=
          sql_update (\<lambda>n. wn_workspace n = wid \<and> wn_status n = ''active'')
            (\<lambda>n. n\<lparr>wn_status := ''archived'', wn_updated_at := now\<rparr>) (wk_sessions db)\<rparr>"
    using assms(2) by (auto simp: workspace_archive_def if_Inr)
  from workspace_get_Inr [OF assms(1) c] have v: "1 \<le> w_version c" by (simp add: workspace_ok_def)
  let ?db1 = "db\<lparr>wk_workspaces :=
          sql_update (\<lambda>r. w_id r = wid)
            (\<lambda>r. r\<lparr>w_status := ''archived'', w_version := w_version c + 1, w_updated_at := now,
                    w_archived_at := now\<rparr>) (wk_workspaces db)\<rparr>"
  have "work_ok ?db1"
    by (rule work_ok_workspaces [OF assms(1) table_update [OF work_okD(1) [OF assms(1)]]])
      (use v in \<open>simp_all add: workspace_ok_def\<close>)
  from work_ok_session_update [OF this, of "\<lambda>n. n\<lparr>wn_status := ''archived'', wn_updated_at := now\<rparr>"]
  show ?thesis by (simp add: db' session_ok_def)
qed

lemma workspace_delete_ok:
  assumes "work_ok db" "workspace_delete now wid db = Inr (w, db')"
  shows "work_ok db'"
proof -
  have db': "db' = db\<lparr>wk_workspaces :=
          sql_update (\<lambda>r. w_id r = wid)
            (\<lambda>r. r\<lparr>w_status := ''deleted'', w_version := w_version r + 1, w_updated_at := now,
                    w_archived_at := now\<rparr>) (wk_workspaces db),
        wk_sessions := sql_update (\<lambda>n. wn_workspace n = wid)
            (\<lambda>n. n\<lparr>wn_status := ''deleted'', wn_updated_at := now\<rparr>) (wk_sessions db),
        wk_snapshots := sql_delete (\<lambda>x. sn_workspace x = wid) (wk_snapshots db)\<rparr>"
    using assms(2) by (auto simp: workspace_delete_def)
  have "work_ok (db\<lparr>wk_workspaces :=
          sql_update (\<lambda>r. w_id r = wid)
            (\<lambda>r. r\<lparr>w_status := ''deleted'', w_version := w_version r + 1, w_updated_at := now,
                    w_archived_at := now\<rparr>) (wk_workspaces db)\<rparr>)"
    by (rule work_ok_workspaces [OF assms(1) table_update [OF work_okD(1) [OF assms(1)]]])
      (simp_all add: workspace_ok_def)
  from work_ok_snapshots_delete [OF work_ok_session_update [OF this, of "\<lambda>n. n\<lparr>wn_status := ''deleted'', wn_updated_at := now\<rparr>"]]
  show ?thesis by (simp add: db' session_ok_def)
qed

section \<open>Profiles and their history\<close>

lemma history_create:
  assumes "history_ok ps vs" "pf_id p \<notin> set (map pf_id ps)" "pv_id v \<notin> set (map pv_id vs)" "recorded v p"
  shows "history_ok (ps @ [p]) (vs @ [v])"
proof -
  have new: "pv_profile x \<noteq> pf_id p" if "x \<in> set vs" for x
  proof -
    from assms(1) that obtain q where "q \<in> set ps" "pf_id q = pv_profile x" unfolding history_ok_def by blast
    with assms(2) show ?thesis by (metis imageI list.set_map)
  qed
  have "(pv_profile v, pv_version v) \<notin> set (map (\<lambda>v. (pv_profile v, pv_version v)) vs)"
  proof
    assume "(pv_profile v, pv_version v) \<in> set (map (\<lambda>v. (pv_profile v, pv_version v)) vs)"
    then obtain x where "x \<in> set vs" "pv_profile x = pv_profile v" by auto
    with new assms(4) show False by (simp add: recorded_def)
  qed
  then have "unique_key (\<lambda>v. (pv_profile v, pv_version v)) (vs @ [v])"
    using assms(1) by (intro unique_key_snoc) (simp_all add: history_ok_def)
  moreover have "unique_key pv_id (vs @ [v])"
    by (rule unique_key_snoc) (use assms(1,3) in \<open>auto simp: history_ok_def\<close>)
  moreover have "\<forall>x \<in> set (vs @ [v]). \<exists>q \<in> set (ps @ [p]). pf_id q = pv_profile x \<and> pv_version x \<le> pf_version q"
    using assms(1,4) by (auto simp: history_ok_def recorded_def)
  moreover have "\<forall>q \<in> set (ps @ [p]). \<exists>x \<in> set (vs @ [v]). recorded x q"
    using assms(1,4) by (auto simp: history_ok_def)
  ultimately show ?thesis unfolding history_ok_def by blast
qed

text \<open>A change writes the next version of one profile and its history row.\<close>

lemma history_change:
  assumes "history_ok ps vs" "unique_key pf_id ps" "p \<in> set ps" "pv_id v \<notin> set (map pv_id vs)"
    and p': "recorded v p'" "pf_id p' = pf_id p" "pf_version p' = pf_version p + 1"
    and f: "f p = p'"
  shows "history_ok (sql_update (\<lambda>r. pf_id r = pf_id p) f ps) (vs @ [v])"
proof -
  let ?ps = "sql_update (\<lambda>r. pf_id r = pf_id p) f ps"
  have only: "r = p" if "r \<in> set ps" "pf_id r = pf_id p" for r
    using unique_key_eq [OF assms(2) that(1) assms(3)] that(2) by simp
  have "?ps = map (\<lambda>r. if pf_id r = pf_id p then p' else r) ps"
    unfolding sql_update_def using only f by (intro map_cong) auto
  then have in': "r \<in> set ?ps \<longleftrightarrow> r = p' \<or> (r \<in> set ps \<and> pf_id r \<noteq> pf_id p)" for r
    using assms(3) by auto
  have v: "pv_profile v = pf_id p" "pv_version v = pf_version p + 1" using p' by (auto simp: recorded_def)
  have old: "pv_version x \<le> pf_version p" if x: "x \<in> set vs" "pv_profile x = pf_id p" for x
  proof -
    from assms(1) x(1) obtain q where "q \<in> set ps" "pf_id q = pv_profile x" "pv_version x \<le> pf_version q"
      unfolding history_ok_def by blast
    with x(2) only [of q] show ?thesis by simp
  qed
  have "unique_key (\<lambda>v. (pv_profile v, pv_version v)) (vs @ [v])"
    by (rule unique_key_snoc) (use assms(1) v old in \<open>force simp: history_ok_def\<close>)+
  moreover have "unique_key pv_id (vs @ [v])"
    by (rule unique_key_snoc) (use assms(1,4) in \<open>auto simp: history_ok_def\<close>)
  moreover have "\<exists>q \<in> set ?ps. pf_id q = pv_profile x \<and> pv_version x \<le> pf_version q" if "x \<in> set (vs @ [v])" for x
  proof (cases "pv_profile x = pf_id p")
    case True
    with that v old have "pv_version x \<le> pf_version p + 1" by fastforce
    with True p' in' show ?thesis by (intro bexI [of _ p']) auto
  next
    case False
    with that v have "x \<in> set vs" by auto
    with assms(1) obtain q where "q \<in> set ps" "pf_id q = pv_profile x" "pv_version x \<le> pf_version q"
      unfolding history_ok_def by blast
    with False in' show ?thesis by (intro bexI [of _ q]) auto
  qed
  moreover have "\<exists>x \<in> set (vs @ [v]). recorded x q" if "q \<in> set ?ps" for q
    using that in' [of q] p'(1) assms(1) unfolding history_ok_def by auto
  ultimately show ?thesis unfolding history_ok_def by blast
qed

lemma unique_key_rename:
  assumes "unique_key key rows" "unique_key name rows" "\<And>r. r \<in> set rows \<Longrightarrow> key r \<noteq> k \<Longrightarrow> name r \<noteq> name x"
  shows "unique_key name (map (\<lambda>r. if key r = k then x else r) rows)"
  using assms
proof (induction rows)
  case (Cons a rows)
  then have IH: "unique_key name (map (\<lambda>r. if key r = k then x else r) rows)" by (simp add: unique_key_def)
  have "name (if key a = k then x else a) \<notin> set (map name (map (\<lambda>r. if key r = k then x else r) rows))"
    using Cons.prems by (auto simp: unique_key_def image_iff split: if_splits) blast
  with IH show ?case unfolding unique_key_def list.map distinct.simps by blast
qed simp

lemma insert_profile_version_Inr:
  assumes "insert_profile_version hex now p db = Inr db'"
  obtains v where "db' = db\<lparr>wk_versions := wk_versions db @ [v]\<rparr>" "recorded v p"
    "pv_id v \<notin> set (map pv_id (wk_versions db))" "pf_id p \<in> set (map pf_id (wk_profiles db))"
proof -
  have "recorded \<lparr>pv_id = work_gen_id ''ver_'' hex, pv_profile = pf_id p, pv_version = pf_version p,
      pv_snapshot = profile_to_dict p, pv_created_at = now\<rparr> p"
    unfolding recorded_def by (simp, rule exI [of _ "pf_created_at p"], simp)
  with assms that show ?thesis by (auto simp: insert_profile_version_def if_Inr)
qed

lemma profile_create_ok:
  assumes ok: "work_ok db" and p: "profile_ok p" and "profile_create now hex p db = Inr (p', db')"
  shows "work_ok db'"
proof -
  define q where "q = p\<lparr>pf_created_at := or_text (pf_created_at p) now, pf_updated_at := now\<rparr>"
  have q: "profile_ok q" using p by (simp add: q_def profile_ok_def)
  from assms(3) obtain db1 where 1: "insert_profile q db = Inr db1" and 2: "insert_profile_version hex now q db1 = Inr db'"
    unfolding profile_create_def q_def [symmetric] Let_def by auto
  from 1 have db1: "db1 = db\<lparr>wk_profiles := wk_profiles db @ [q]\<rparr>"
    and new: "pf_id q \<notin> set (map pf_id (wk_profiles db))" "pf_name q \<notin> set (map pf_name (wk_profiles db))"
    unfolding insert_profile_def by (simp_all add: if_Inr)
  from insert_profile_version_Inr [OF 2] obtain v where db': "db' = db1\<lparr>wk_versions := wk_versions db1 @ [v]\<rparr>"
    and v: "recorded v q" "pv_id v \<notin> set (map pv_id (wk_versions db1))" by blast
  from v(2) db1 have "pv_id v \<notin> set (map pv_id (wk_versions db))" by simp
  from history_create [OF work_okD(4) [OF ok] new(1) this v(1)]
    table_snoc [OF work_okD(2) [OF ok] new(1) q] unique_key_snoc [OF work_okD(3) [OF ok] new(2)]
    work_okD(1,5-7) [OF ok] show ?thesis
    by (simp add: work_ok_def db' db1)
qed

lemma profile_change_ok:
  assumes ok: "work_ok db" and p: "p \<in> set (wk_profiles db)" "pf_id p = pid"
    and p': "profile_ok p'" "pf_id p' = pid" "pf_version p' = pf_version p + 1"
    and fresh: "\<And>r. r \<in> set (wk_profiles db) \<Longrightarrow> pf_id r \<noteq> pid \<Longrightarrow> pf_name r \<noteq> pf_name p'"
    and v: "insert_profile_version hex now q
      (db\<lparr>wk_profiles := sql_update (\<lambda>r. pf_id r = pid) f (wk_profiles db)\<rparr>) = Inr db'"
    and q: "\<And>v. recorded v q \<Longrightarrow> recorded v p'" and f: "f p = p'"
  shows "work_ok db'"
proof -
  let ?ps = "sql_update (\<lambda>r. pf_id r = pid) f (wk_profiles db)"
  note uk = work_okD(2) [OF ok, unfolded table_def, THEN conjunct1]
  have only: "r = p" if "r \<in> set (wk_profiles db)" "pf_id r = pid" for r
    using unique_key_eq [OF uk that(1) p(1)] that(2) p(2) by simp
  have upd: "?ps = map (\<lambda>r. if pf_id r = pid then p' else r) (wk_profiles db)"
    unfolding sql_update_def using only f by (intro map_cong) auto
  from insert_profile_version_Inr [OF v] obtain x where db': "db' = db\<lparr>wk_profiles := ?ps, wk_versions := wk_versions db @ [x]\<rparr>"
    and x: "recorded x q" "pv_id x \<notin> set (map pv_id (wk_versions db))" by auto
  have "history_ok ?ps (wk_versions db @ [x])"
    using history_change [OF work_okD(4) [OF ok] uk p(1) x(2) q [OF x(1)], of f] p' p(2) f by simp
  moreover have "table pf_id profile_ok ?ps"
  proof -
    have "map pf_id ?ps = map pf_id (wk_profiles db)" unfolding upd using p'(2) by simp
    with uk have "unique_key pf_id ?ps" by (simp add: unique_key_def)
    with work_okD(2) [OF ok] p'(1) upd show ?thesis by (auto simp: table_def)
  qed
  moreover have "unique_key pf_name ?ps"
    unfolding upd by (rule unique_key_rename [OF uk work_okD(3) [OF ok]]) (use fresh in blast)
  ultimately show ?thesis using work_okD(1,5-7) [OF ok] by (simp add: work_ok_def db')
qed

end
