(* ===== verification/Work_Reach.thy ===== *)
theory Work_Reach
  imports Work_Inv
begin

text \<open>
  Every operation of the four stores keeps the invariant, so every database that commands
  can make satisfies it.
\<close>

section \<open>Operations on profiles\<close>

lemma profile_prepare_ok:
  assumes "work_ok db" "profile_prepare repr now pid patch ev db = Inr u"
  obtains c where "profile_get pid False db = Inr c" "version_matches ev (pf_version c)" "profile_ok u" "pf_id u = pid"
    "pf_version u = pf_version c + 1"
proof -
  obtain c u0 where c: "profile_get pid False db = Inr c" "version_matches ev (pf_version c)"
    and u0: "profile_from_dict repr (dmerge (profile_to_dict c) patch) = Inr u0"
    and u: "u = u0\<lparr>pf_id := pid, pf_version := pf_version c + 1, pf_updated_at := now\<rparr>"
    using assms(2) by (auto simp: profile_prepare_def if_Inr)
  from profile_get_Inr [OF assms(1) c(1)] have "good_id pid" "1 \<le> pf_version c" by (auto simp: profile_ok_def)
  with profile_from_dict_ok [OF u0] u have "profile_ok u" by (auto simp: profile_ok_def)
  with c u that show ?thesis by simp
qed

lemma recorded_created: "recorded v (p\<lparr>pf_created_at := c\<rparr>) = recorded v p"
  by (simp add: recorded_def)

lemma profile_update_ok:
  assumes ok: "work_ok db" and "profile_update repr now hex pid patch ev db = Inr (u, db')"
  shows "work_ok db'"
proof -
  from assms(2) have u: "profile_prepare repr now pid patch ev db = Inr u" and w: "profile_write hex pid u db = Inr db'"
    by (auto simp: profile_update_def)
  from profile_prepare_ok [OF ok u] obtain c where c: "profile_get pid False db = Inr c" "profile_ok u" "pf_id u = pid"
    "pf_version u = pf_version c + 1" by blast
  let ?f = "\<lambda>r. u\<lparr>pf_id := pf_id r, pf_created_at := pf_created_at r\<rparr>"
  from profile_get_Inr [OF ok c(1)] have r: "c \<in> set (wk_profiles db)" "pf_id c = pid" by auto
  from w have v: "insert_profile_version hex (pf_updated_at u) u
        (db\<lparr>wk_profiles := sql_update (\<lambda>r. pf_id r = pid) ?f (wk_profiles db)\<rparr>) = Inr db'"
    and "\<not> list_ex (\<lambda>r. pf_id r \<noteq> pid \<and> pf_name r = pf_name u) (wk_profiles db)"
    unfolding profile_write_def by (simp_all add: if_Inr)
  then have fresh: "\<And>x. x \<in> set (wk_profiles db) \<Longrightarrow> pf_id x \<noteq> pid \<Longrightarrow> pf_name x \<noteq> pf_name u"
    by (auto simp: list_ex_iff)
  have f: "?f c = u\<lparr>pf_created_at := pf_created_at c\<rparr>" using r(2) c(3) by simp
  show ?thesis
    by (rule profile_change_ok [OF ok r _ _ _ _ v _ f])
      (use c fresh in \<open>simp_all add: recorded_created profile_ok_def\<close>)
qed

lemma write_profile_status_ok:
  assumes ok: "work_ok db" and c: "profile_get pid False db = Inr c"
    and st: "one_of_tuple VALID_PROFILE_STATUSES st" and w: "write_profile_status now hex st arch c db = Inr (p', db')"
  shows "work_ok db'"
proof -
  let ?f = "\<lambda>r. r\<lparr>pf_status := st, pf_version := pf_version c + 1, pf_updated_at := now, pf_archived_at := arch\<rparr>"
  from profile_get_Inr [OF ok c] have r: "c \<in> set (wk_profiles db)" "pf_id c = pid" "profile_ok c" by auto
  have q: "c\<lparr>pf_status := st, pf_archived_at := arch, pf_version := pf_version c + 1, pf_updated_at := now\<rparr> = ?f c"
    by (cases c) simp
  from w [unfolded write_profile_status_def q] have v: "insert_profile_version hex now (?f c)
      (db\<lparr>wk_profiles := sql_update (\<lambda>r. pf_id r = pid) ?f (wk_profiles db)\<rparr>) = Inr db'"
    using r(2) by (auto simp: write_profile_status_def Let_def if_Inr)
  have "pf_name x \<noteq> pf_name c" if "x \<in> set (wk_profiles db)" "pf_id x \<noteq> pid" for x
    using unique_key_eq [OF work_okD(3) [OF ok] that(1) r(1)] that(2) r(2) by auto
  then show ?thesis
    by (intro profile_change_ok [OF ok r(1,2) _ _ _ _ v]) (use r st in \<open>simp_all add: profile_ok_def\<close>)
qed

lemma profile_archive_ok:
  assumes "work_ok db" "profile_archive now hex pid ev db = Inr (p, db')"
  shows "work_ok db'"
  using assms(2) write_profile_status_ok [OF assms(1) _ default_choices(8)]
  by (auto simp: profile_archive_def if_Inr)

lemma profile_activate_ok:
  assumes "work_ok db" "profile_activate now hex pid ev db = Inr (p, db')"
  shows "work_ok db'"
  using assms(2) write_profile_status_ok [OF assms(1) _ default_choices(7)]
  by (auto simp: profile_activate_def if_Inr)

lemma profile_delete_ok:
  assumes "work_ok db" "profile_delete now hex pid ev db = Inr (p, db')"
  shows "work_ok db'"
  using assms(2) write_profile_status_ok [OF assms(1) _ default_choices(9)]
  by (auto simp: profile_delete_def if_Inr)

text \<open>A copy keeps the invariant when its name is given without blanks around it, or not given.\<close>

definition name_fits :: "string option \<Rightarrow> bool" where
  "name_fits x \<longleftrightarrow> (case x of None \<Rightarrow> True | Some n \<Rightarrow> n = [] \<or> clean_name n)"

lemma clean_name_hd: "clean_name x \<Longrightarrow> \<not> py_space (hd x)"
proof
  assume c: "clean_name x" and sp: "py_space (hd x)"
  then obtain a as where x: "x = a # as" "py_space a" by (cases x) auto
  have "length (strip x) \<le> length (dropWhile py_space x)"
    unfolding strip_def by (metis length_dropWhile_le length_rev)
  also have "\<dots> \<le> length as" using x by (simp add: length_dropWhile_le)
  finally show False using c x by simp
qed

lemma clean_name_copy:
  assumes "clean_name x"
  shows "clean_name (x @ '' (copy)'')"
proof -
  obtain a as where x: "x = a # as" "\<not> py_space a" using clean_name_hd [OF assms] assms by (cases x) auto
  then have "dropWhile py_space (x @ '' (copy)'') = x @ '' (copy)''" by simp
  then show ?thesis unfolding clean_name_def strip_def by (simp add: py_space_def)
qed

lemma profile_duplicate_ok:
  assumes ok: "work_ok db" and hex: "good_hex hex" and name: "name_fits name"
    and "profile_duplicate repr now hex hex' pid name db = Inr (p', db')"
  shows "work_ok db'"
proof -
  obtain c d where c: "profile_get pid False db = Inr c" and d: "profile_from_dict repr (profile_to_dict c) = Inr d"
    and cr: "profile_create now hex'
      (d\<lparr>pf_id := work_gen_id ''agent_'' hex,
        pf_name := (case name of Some n \<Rightarrow> if n \<noteq> [] then n else pf_name c @ '' (copy)'' | None \<Rightarrow> pf_name c @ '' (copy)''),
        pf_version := 1, pf_created_at := [], pf_updated_at := [], pf_status := ''active'',
        pf_archived_at := [], pf_is_system := False\<rparr>) db = Inr (p', db')"
    using assms(4) by (auto simp: profile_duplicate_def)
  from profile_get_Inr [OF ok c] have "profile_ok c" by simp
  then have "clean_name (pf_name c)" by (simp add: profile_ok_def)
  from clean_name_copy [OF this] name
  have n: "clean_name (case name of Some n \<Rightarrow> if n \<noteq> [] then n else pf_name c @ '' (copy)'' | None \<Rightarrow> pf_name c @ '' (copy)'')"
    by (auto simp: name_fits_def split: option.splits)
  have id: "good_id (work_gen_id ''agent_'' hex)" by (rule work_gen_id_good [OF hex]) (simp_all add: id_char_def)
  show ?thesis
    by (rule profile_create_ok [OF ok _ cr]) (use profile_from_dict_ok [OF d] n id in \<open>simp add: profile_ok_def\<close>)
qed

lemma seed_ok:
  "work_ok db \<Longrightarrow> (\<And>h t. (h, t) \<in> set templates \<Longrightarrow> profile_ok t) \<Longrightarrow>
   work_ok (snd (seed_system_profiles now templates added db))"
proof (induction templates arbitrary: added db)
  case (Cons a templates)
  obtain hex t where a: "a = (hex, t)" by (cases a)
  have t: "profile_ok t" using Cons.prems(2) [of hex t] a by simp
  have rest: "work_ok (snd (seed_system_profiles now templates k db'))" if "work_ok db'" for k db'
    by (rule Cons.IH [OF that]) (meson Cons.prems(2) list.set_intros(2))
  have new: "work_ok db'" if "profile_create now hex t db = Inr (p, db')" for p db'
    using profile_create_ok [OF Cons.prems(1) t that] .
  show ?case
    by (auto simp: a rest Cons.prems(1) new split: sum.splits option.splits)
qed simp

section \<open>Operations on sessions and snapshots\<close>

lemma session_create_ok:
  assumes ok: "work_ok db" and "session_create repr now hex wid payload db = Inr (n', db')"
  shows "work_ok db'"
proof -
  obtain n0 n where n: "session_post_init n0 = Inr n" "wn_workspace n0 = wid"
    and i: "insert_work_session (n\<lparr>wn_key := session_key_of wid (wn_id n), wn_created_at := now, wn_updated_at := now\<rparr>) db = Inr db'"
    and ex: "list_ex (\<lambda>w. w_id w = wid \<and> w_status w = ''active'') (wk_workspaces db)"
    using assms(2) by (auto simp: session_create_def Let_def if_Inr)
  from ex work_okD(1) [OF ok] have "good_id wid" by (auto simp: list_ex_iff table_def workspace_ok_def)
  with n have "wn_workspace n = wid" by (auto simp: session_post_init_def)
  with session_post_init_ok [OF n(1)] show ?thesis
    by (intro insert_work_session_ok [OF ok _ i]) (simp add: session_ok_def)
qed

lemma override_choice_ok:
  "override_choice clean choices code x = Inr y \<Longrightarrow> [] \<notin> set choices \<Longrightarrow> one_of_tuple choices old \<Longrightarrow>
   one_of_tuple choices (override y old)"
  by (auto simp: override_choice_def override_def one_of_tuple_def if_Inr split: option.splits if_splits)

lemma update_runtime_overrides_ok:
  assumes ok: "work_ok db"
    and "update_runtime_overrides now wid sid model mode chat level name eb db = Inr (n', db')"
  shows "work_ok db'"
proof -
  obtain c mode' chat' level' where
      m: "override_choice strip VALID_PERMISSION_MODES ''INVALID_PERMISSION_MODE'' mode = Inr mode'"
        "override_choice strip VALID_CHAT_MODES ''INVALID_CHAT_MODE'' chat = Inr chat'"
        "override_choice (\<lambda>v. map ascii_lower (strip v)) VALID_REASONING_LEVELS ''INVALID_REASONING_LEVEL'' level = Inr level'"
    and r: "(c, db) = (n', db') \<or> db' = db\<lparr>wk_sessions :=
            sql_update (owned wid sid)
              (\<lambda>n. n\<lparr>wn_model := override model (wn_model n),
                wn_permission_mode := override mode' (wn_permission_mode n),
                wn_chat_mode := override chat' (wn_chat_mode n),
                wn_reasoning := override level' (wn_reasoning n),
                wn_name := override name (wn_name n),
                wn_config_version := wn_config_version n + 1, wn_updated_at := now\<rparr>) (wk_sessions db)\<rparr>"
    using assms(2) unfolding update_runtime_overrides_def bindE_eq_Inr if_Inr Let_def by blast
  note ov = override_choice_ok [OF m(1)] override_choice_ok [OF m(2)] override_choice_ok [OF m(3)]
  have ne: "[] \<notin> set VALID_PERMISSION_MODES" "[] \<notin> set VALID_CHAT_MODES" "[] \<notin> set VALID_REASONING_LEVELS"
    by (simp_all add: valid_choices)
  from r show ?thesis
  proof
    assume "(c, db) = (n', db')"
    with ok show ?thesis by simp
  next
    assume db': "db' = db\<lparr>wk_sessions :=
            sql_update (owned wid sid)
              (\<lambda>n. n\<lparr>wn_model := override model (wn_model n),
                wn_permission_mode := override mode' (wn_permission_mode n),
                wn_chat_mode := override chat' (wn_chat_mode n),
                wn_reasoning := override level' (wn_reasoning n),
                wn_name := override name (wn_name n),
                wn_config_version := wn_config_version n + 1, wn_updated_at := now\<rparr>) (wk_sessions db)\<rparr>"
    show ?thesis
      unfolding db' by (rule work_ok_session_update [OF ok]) (use ov ne in \<open>simp_all add: session_ok_def\<close>)
  qed
qed

lemma busy_ok:
  assumes "work_ok db"
  shows "work_ok (set_busy now wid sid busy db)" "work_ok (snd (try_set_busy now wid sid db))"
    "work_ok (snd (reset_stale_busy now db))" "work_ok (touch_snapshot now wid sid xid db)"
  unfolding set_busy_def try_set_busy_def reset_stale_busy_def touch_snapshot_def snd_conv
  by (rule work_ok_session_update [OF assms]; simp add: session_ok_def)+

lemma session_archive_ok:
  assumes "work_ok db" "session_archive now wid sid db = Inr (n, db')"
  shows "work_ok db'"
proof -
  have "db' = db\<lparr>wk_sessions := sql_update (owned wid sid)
      (\<lambda>n. n\<lparr>wn_status := ''archived'', wn_updated_at := now, wn_archived_at := now\<rparr>) (wk_sessions db)\<rparr>"
    using assms(2) by (auto simp: session_archive_def Let_def if_Inr)
  then show ?thesis using work_ok_session_update [OF assms(1)] by (simp add: session_ok_def)
qed

lemma insert_snapshot_Inr:
  assumes "insert_snapshot x db = Inr db'"
  shows "db' = db\<lparr>wk_snapshots := wk_snapshots db @ [x]\<rparr> \<and> sn_id x \<notin> set (map sn_id (wk_snapshots db)) \<and>
    sn_dedup_key x \<notin> set (map sn_dedup_key (wk_snapshots db))"
  using assms unfolding insert_snapshot_def by (simp add: if_Inr)

lemma insert_snapshot_ok: "work_ok db \<Longrightarrow> insert_snapshot x db = Inr db' \<Longrightarrow> work_ok db'"
  using insert_snapshot_Inr [of x db db'] by (simp add: work_ok_def unique_key_snoc)

lemma snapshot_get_or_create_cases:
  assumes "snapshot_get_or_create now hex x db = Inr (y, db')"
  obtains (reused) "db' = db" "get_by_dedup_key (sn_dedup_key y) db = Some y"
  | (stored) "insert_snapshot y db = Inr db'" "get_by_dedup_key (sn_dedup_key y) db = None"
proof -
  have key: "sn_dedup_key z = snapshot_key x" if "get_by_dedup_key (snapshot_key x) db = Some z" for z
    using that lookup_row_Some [of sn_dedup_key "snapshot_key x" "wk_snapshots db" z]
    by (auto simp: get_by_dedup_key_def split: if_splits)
  have row: "sn_dedup_key (snapshot_row now hex x) = snapshot_key x" by (simp add: snapshot_row_def)
  show ?thesis
  proof (cases "get_by_dedup_key (snapshot_key x) db")
    case (Some z)
    with assms key reused show ?thesis by (auto simp: snapshot_get_or_create_def)
  next
    case None
    with assms have "insert_snapshot (snapshot_row now hex x) db = Inr db'" "y = snapshot_row now hex x"
      by (auto simp: snapshot_get_or_create_def split: sum.splits if_splits)
    with None row stored show ?thesis by simp
  qed
qed

lemma snapshot_get_or_create_ok:
  assumes "work_ok db" "snapshot_get_or_create now hex x db = Inr (y, db')"
  shows "work_ok db'"
  using assms(2)
  by (cases rule: snapshot_get_or_create_cases) (use assms(1) insert_snapshot_ok in auto)

section \<open>Commands\<close>

text \<open>
  One command is one call of a store with its arguments; the digits of fresh identifiers and
  the time come with it. An exception leaves the tables as they were.
\<close>

datatype work_cmd =
    Create_Workspace workspace
  | Create_With_Session workspace dict string
  | Update_Workspace string dict json
  | Archive_Workspace string json
  | Delete_Workspace string
  | Create_Profile agent_profile string
  | Update_Profile string dict json string
  | Duplicate_Profile string "string option" string string
  | Archive_Profile string json string
  | Activate_Profile string json string
  | Delete_Profile string json string
  | Seed_Profiles "(string \<times> agent_profile) list"
  | Create_Session string dict string
  | Override_Session string string "string option" "string option" "string option" "string option" "string option" bool
  | Set_Busy string string bool
  | Try_Set_Busy string string
  | Reset_Stale_Busy
  | Touch_Snapshot string string string
  | Archive_Session string string
  | Save_Snapshot runtime_snapshot string

definition keep :: "work_db \<Rightarrow> work_error + ('a \<times> work_db) \<Rightarrow> work_db" where
  "keep db r = (case r of Inl _ \<Rightarrow> db | Inr (_, db') \<Rightarrow> db')"

fun work_exec :: "(json \<Rightarrow> string) \<Rightarrow> string \<Rightarrow> work_cmd \<Rightarrow> work_db \<Rightarrow> work_db" where
  "work_exec repr now (Create_Workspace w) db = keep db (workspace_create now [] w None db)"
| "work_exec repr now (Create_With_Session w payload hex) db =
    keep db (create_with_first_session repr now hex w payload db)"
| "work_exec repr now (Update_Workspace wid patch ev) db = keep db (workspace_update repr now wid patch ev db)"
| "work_exec repr now (Archive_Workspace wid ev) db = keep db (workspace_archive now wid ev db)"
| "work_exec repr now (Delete_Workspace wid) db = keep db (workspace_delete now wid db)"
| "work_exec repr now (Create_Profile p hex) db = keep db (profile_create now hex p db)"
| "work_exec repr now (Update_Profile pid patch ev hex) db = keep db (profile_update repr now hex pid patch ev db)"
| "work_exec repr now (Duplicate_Profile pid name hex hex') db =
    keep db (profile_duplicate repr now hex hex' pid name db)"
| "work_exec repr now (Archive_Profile pid ev hex) db = keep db (profile_archive now hex pid ev db)"
| "work_exec repr now (Activate_Profile pid ev hex) db = keep db (profile_activate now hex pid ev db)"
| "work_exec repr now (Delete_Profile pid ev hex) db = keep db (profile_delete now hex pid ev db)"
| "work_exec repr now (Seed_Profiles templates) db = snd (seed_system_profiles now templates 0 db)"
| "work_exec repr now (Create_Session wid payload hex) db = keep db (session_create repr now hex wid payload db)"
| "work_exec repr now (Override_Session wid sid model mode chat level name eb) db =
    keep db (update_runtime_overrides now wid sid model mode chat level name eb db)"
| "work_exec repr now (Set_Busy wid sid busy) db = set_busy now wid sid busy db"
| "work_exec repr now (Try_Set_Busy wid sid) db = snd (try_set_busy now wid sid db)"
| "work_exec repr now Reset_Stale_Busy db = snd (reset_stale_busy now db)"
| "work_exec repr now (Touch_Snapshot wid sid xid) db = touch_snapshot now wid sid xid db"
| "work_exec repr now (Archive_Session wid sid) db = keep db (session_archive now wid sid db)"
| "work_exec repr now (Save_Snapshot x hex) db = keep db (snapshot_get_or_create now hex x db)"

text \<open>The records come from their constructors and the digits are hexadecimal; a copy's name has no blanks around it.\<close>

fun cmd_ok :: "work_cmd \<Rightarrow> bool" where
  "cmd_ok (Create_Workspace w) = workspace_ok w"
| "cmd_ok (Create_With_Session w payload hex) = workspace_ok w"
| "cmd_ok (Create_Profile p hex) = profile_ok p"
| "cmd_ok (Duplicate_Profile pid name hex hex') = (good_hex hex \<and> name_fits name)"
| "cmd_ok (Seed_Profiles templates) = (\<forall>(h, t) \<in> set templates. profile_ok t)"
| "cmd_ok _ = True"

lemma keep_ok: "work_ok db \<Longrightarrow> (\<And>a db'. r = Inr (a, db') \<Longrightarrow> work_ok db') \<Longrightarrow> work_ok (keep db r)"
  by (auto simp: keep_def split: sum.split)

lemma work_exec_ok:
  assumes "work_ok db" "cmd_ok c"
  shows "work_ok (work_exec repr now c db)"
proof (cases c)
  case (Create_Workspace w)
  with assms workspace_create_ok [OF assms(1), of w now "[]" None] show ?thesis by (auto intro: keep_ok)
next
  case (Update_Workspace wid patch ev)
  have "work_ok db'" if "workspace_update repr now wid patch ev db = Inr (w, db')" for w db'
  proof -
    from that have p: "workspace_prepare repr now wid patch ev db = Inr w" and w: "workspace_write wid w db = Inr db'"
      by (auto simp: workspace_update_def)
    from workspace_prepare_ok [OF assms(1) p] workspace_write_ok [OF assms(1) _ w] show ?thesis by blast
  qed
  with assms(1) Update_Workspace show ?thesis by (auto intro: keep_ok)
next
  case (Seed_Profiles templates)
  with assms show ?thesis by (auto intro!: seed_ok)
qed (use assms in \<open>auto intro!: keep_ok intro: create_with_first_session_ok workspace_archive_ok workspace_delete_ok
    profile_create_ok profile_update_ok profile_duplicate_ok profile_archive_ok profile_activate_ok profile_delete_ok
    session_create_ok update_runtime_overrides_ok busy_ok session_archive_ok snapshot_get_or_create_ok\<close>)

text \<open>The databases that commands make from the empty one.\<close>

inductive work_reachable :: "(json \<Rightarrow> string) \<Rightarrow> work_db \<Rightarrow> bool" for repr where
  work_start: "work_reachable repr empty_work_db"
| work_step: "work_reachable repr db \<Longrightarrow> cmd_ok c \<Longrightarrow> work_reachable repr (work_exec repr now c db)"

lemma work_reachable_ok: "work_reachable repr db \<Longrightarrow> work_ok db"
  by (induction rule: work_reachable.induct) (simp_all add: empty_work_ok work_exec_ok)

end
