(* ===== verification/Work_Runtime.thy ===== *)
theory Work_Runtime
  imports Work_Reach
begin

text \<open>
  The effective configuration of a session and its runtime snapshots
  (\<open>gateway/webui/workspace_runtime.py\<close>).

  Arguments stand for what the code computes elsewhere: \<open>digest\<close> is SHA-256 in hexadecimal of
  the canonical JSON text of a dictionary (\<open>json.dumps\<close> with sorted keys) and \<open>sha\<close> that of a
  text; \<open>assemble\<close> is the text \<open>build_prompt\<close> composes from the snapshot, the profile and the
  registries of tools and skills; \<open>resolve\<close> gives the parts of the resolved path. \<open>gw\<close> is the
  gateway's configuration, and the available tools and skills are lists of names.
\<close>

section \<open>Effective configuration\<close>

record effective_config =
  ec_model :: string
  ec_permission_mode :: string
  ec_chat_mode :: string
  ec_reasoning :: string
  ec_max_steps :: int
  ec_tools :: "string list"
  ec_skills :: "string list"
  ec_mcp_servers :: "string list"
  ec_extra_roots :: "string list"
  ec_framework_root :: string
  ec_agent_data_root :: string
  ec_project_root :: string
  ec_working_directory :: string
  ec_capability_hash :: string
  ec_warnings :: "dict list"

definition config_to_dict :: "effective_config \<Rightarrow> dict" where
  "config_to_dict c =
    [(''model'', JStr (ec_model c)), (''permission_mode'', JStr (ec_permission_mode c)),
     (''chat_mode'', JStr (ec_chat_mode c)), (''reasoning_level'', JStr (ec_reasoning c)),
     (''max_steps'', JInt (ec_max_steps c)), (''tools'', JList (map JStr (ec_tools c))),
     (''skills'', JList (map JStr (ec_skills c))), (''mcp_servers'', JList (map JStr (ec_mcp_servers c))),
     (''extra_workspace_roots'', JList (map JStr (ec_extra_roots c))),
     (''framework_root'', JStr (ec_framework_root c)), (''agent_data_root'', JStr (ec_agent_data_root c)),
     (''project_root'', JStr (ec_project_root c)), (''working_directory'', JStr (ec_working_directory c)),
     (''capability_hash'', JStr (ec_capability_hash c)), (''warnings'', JList (map JObj (ec_warnings c)))]"

definition capability_payload :: "effective_config \<Rightarrow> dict" where
  "capability_payload c =
    [(''model'', JStr (ec_model c)), (''permission_mode'', JStr (ec_permission_mode c)),
     (''chat_mode'', JStr (ec_chat_mode c)), (''reasoning_level'', JStr (ec_reasoning c)),
     (''max_steps'', JInt (ec_max_steps c)), (''tools'', JList (map JStr (sort (ec_tools c)))),
     (''skills'', JList (map JStr (sort (ec_skills c)))), (''mcp_servers'', JList (map JStr (sort (ec_mcp_servers c)))),
     (''extra_workspace_roots'', JList (map JStr (sort (ec_extra_roots c)))),
     (''framework_root'', JStr (ec_framework_root c)), (''agent_data_root'', JStr (ec_agent_data_root c)),
     (''project_root'', JStr (ec_project_root c)), (''working_directory'', JStr (ec_working_directory c))]"

definition compute_capability_hash :: "(dict \<Rightarrow> string) \<Rightarrow> effective_config \<Rightarrow> string" where
  "compute_capability_hash digest c = ''cap:'' @ digest (capability_payload c)"

definition offered :: "string list option \<Rightarrow> string \<Rightarrow> bool" where
  "offered available x = (case available of None \<Rightarrow> True | Some xs \<Rightarrow> x \<in> set xs)"

definition merge_step :: "string list option \<Rightarrow> string \<Rightarrow> string list \<Rightarrow> string list" where
  "merge_step available item merged =
    (if item \<noteq> [] \<and> item \<notin> set merged \<and> offered available item then merged @ [item] else merged)"

definition merge_lists :: "string list \<Rightarrow> string list \<Rightarrow> string list \<Rightarrow> string list option \<Rightarrow> string list" where
  "merge_lists base include exclude available =
    filter (\<lambda>x. x \<notin> set exclude) (fold (merge_step available) include (filter (offered available) base))"

definition SYSTEM_INTERNAL_TOOLS :: "string list" where
  "SYSTEM_INTERNAL_TOOLS = [''create_skill'', ''notes'', ''memory_search'', ''memory_update'']"

text \<open>The warning about a name that is not available; its message is held as UTF-8 bytes.\<close>

definition unavailable_warning :: "string \<Rightarrow> string \<Rightarrow> string \<Rightarrow> dict" where
  "unavailable_warning code kind x =
    [(''code'', JStr code),
     (''message'', JStr (kind @ x @ '' '' @
       map char_of [228, 184, 141, 229, 143, 175, 231, 148, 168, 239, 188, 140, 229, 183, 178, 228, 187, 142, 230, 156, 137, 230, 149, 136, 233, 133, 141, 231, 189, 174, 228, 184, 173, 231, 167, 187, 233, 153, 164 :: nat]))]"

definition unavailable_warnings :: "string \<Rightarrow> string \<Rightarrow> string list option \<Rightarrow> string list \<Rightarrow> dict list" where
  "unavailable_warnings code kind available requested =
    map (unavailable_warning code kind) (filter (\<lambda>x. \<not> offered available x) requested)"

definition tool_word :: string where
  "tool_word = map char_of [229, 183, 165, 229, 133, 183 :: nat] @ '' ''"

text \<open>\<open>EffectiveConfigResolver.resolve\<close>; \<open>int(...)\<close> of the gateway's \<open>max_steps\<close> may raise.\<close>

definition first_given :: "string list \<Rightarrow> string" where
  "first_given xs = (case filter (\<lambda>x. x \<noteq> []) xs of [] \<Rightarrow> [] | x # _ \<Rightarrow> x)"

definition of_session :: "(work_session \<Rightarrow> string) \<Rightarrow> work_session option \<Rightarrow> string" where
  "of_session f n = (case n of None \<Rightarrow> [] | Some x \<Rightarrow> f x)"

definition of_profile :: "(agent_profile \<Rightarrow> 'a list) \<Rightarrow> agent_profile option \<Rightarrow> 'a list" where
  "of_profile f p = (case p of None \<Rightarrow> [] | Some x \<Rightarrow> f x)"

definition resolve_steps :: "dict \<Rightarrow> agent_profile option \<Rightarrow> work_error + int" where
  "resolve_steps gw p =
    (case p of
       Some x \<Rightarrow> if pf_max_steps x \<noteq> 0 then Inr (pf_max_steps x) else int_field gw ''max_steps'' 100
     | None \<Rightarrow> int_field gw ''max_steps'' 100)"

definition resolve_config ::
    "(json \<Rightarrow> string) \<Rightarrow> (dict \<Rightarrow> string) \<Rightarrow> dict \<Rightarrow> string list option \<Rightarrow> string list option \<Rightarrow>
      workspace \<Rightarrow> agent_profile option \<Rightarrow> work_session option \<Rightarrow> work_error + effective_config" where
  "resolve_config repr digest gw tools skills w p n =
    bindE (resolve_steps gw p) (\<lambda>steps.
      let cfg = \<lparr>
          ec_model = first_given [of_session wn_model n, w_default_model w, of_profile pf_default_model p,
            text_field repr gw ''model'' []],
          ec_permission_mode = first_given [of_session wn_permission_mode n, w_permission_mode w,
            of_profile pf_permission_mode p, text_field repr gw ''permission_mode'' ''ask''],
          ec_chat_mode = first_given [of_session wn_chat_mode n, w_chat_mode w, of_profile pf_chat_mode p, ''chat''],
          ec_reasoning = first_given [of_session wn_reasoning n, ''inherit''],
          ec_max_steps = steps,
          ec_tools = filter (\<lambda>t. t \<notin> set SYSTEM_INTERNAL_TOOLS)
            (merge_lists (of_profile pf_tools p) (w_include_tools w) (w_exclude_tools w) tools),
          ec_skills = merge_lists (of_profile pf_skills p) (w_include_skills w) (w_exclude_skills w) skills,
          ec_mcp_servers = merge_lists (of_profile pf_mcp_servers p) (w_include_mcp w) (w_exclude_mcp w) None,
          ec_extra_roots = w_extra_roots w,
          ec_framework_root = text_field repr gw ''framework_root'' [],
          ec_agent_data_root = [],
          ec_project_root = w_project_path w,
          ec_working_directory = or_text (w_working_directory w) (w_project_path w),
          ec_capability_hash = [],
          ec_warnings =
            unavailable_warnings ''TOOL_NOT_AVAILABLE'' tool_word tools
              (of_profile pf_tools p @ w_include_tools w) @
            unavailable_warnings ''SKILL_NOT_AVAILABLE'' ''Skill '' skills
              (of_profile pf_skills p @ w_include_skills w)\<rparr>
      in Inr (cfg\<lparr>ec_capability_hash := compute_capability_hash digest cfg\<rparr>))"

section \<open>Snapshots\<close>

record runtime_service =
  rs_gateway_config :: dict
  rs_framework_root :: string
  rs_tools :: "string list"
  rs_skills :: "string list"

definition load_profile :: "string \<Rightarrow> work_db \<Rightarrow> agent_profile option" where
  "load_profile pid db =
    (if pid = [] then None else case profile_get pid False db of Inl _ \<Rightarrow> None | Inr p \<Rightarrow> Some p)"

definition dedup_payload ::
    "(string \<Rightarrow> string) \<Rightarrow> effective_config \<Rightarrow> agent_profile option \<Rightarrow> string \<Rightarrow> workspace \<Rightarrow> work_session \<Rightarrow> dict" where
  "dedup_payload sha cfg p pid w n =
    [(''cap'', JStr (ec_capability_hash cfg)),
     (''profile_id'', JStr pid),
     (''profile_version'', JInt (case p of None \<Rightarrow> 0 | Some x \<Rightarrow> pf_version x)),
     (''profile_prompt_hash'', JStr (case p of None \<Rightarrow> [] | Some x \<Rightarrow> sha (pf_system_prompt x))),
     (''workspace_version'', JInt (w_version w)),
     (''session_client_config_version'', JInt (wn_config_version n))]"

definition snapshot_dedup_key ::
    "(dict \<Rightarrow> string) \<Rightarrow> (string \<Rightarrow> string) \<Rightarrow> effective_config \<Rightarrow> agent_profile option \<Rightarrow> string \<Rightarrow> workspace \<Rightarrow>
      work_session \<Rightarrow> string" where
  "snapshot_dedup_key digest sha cfg p pid w n = ''snap:'' @ digest (dedup_payload sha cfg p pid w n)"

definition hash_prompt :: "(string \<Rightarrow> string) \<Rightarrow> string \<Rightarrow> string" where
  "hash_prompt sha prompt = ''sha256:'' @ sha prompt"

text \<open>The profile a session runs with.\<close>

definition session_profile_id :: "workspace \<Rightarrow> work_session \<Rightarrow> string" where
  "session_profile_id w n = or_text (wn_profile n) (w_default_profile w)"

definition fresh_snapshot ::
    "(json \<Rightarrow> string) \<Rightarrow> (string \<Rightarrow> string) \<Rightarrow> (work_db \<Rightarrow> runtime_snapshot \<Rightarrow> string) \<Rightarrow> runtime_service \<Rightarrow> work_db \<Rightarrow>
      effective_config \<Rightarrow> agent_profile option \<Rightarrow> workspace \<Rightarrow> work_session \<Rightarrow> string \<Rightarrow> runtime_snapshot" where
  "fresh_snapshot repr sha assemble service db cfg p w n key =
    (let x = \<lparr>sn_id = [], sn_workspace = w_id w, sn_session = wn_id n, sn_profile = session_profile_id w n,
        sn_profile_version = (case p of None \<Rightarrow> 0 | Some q \<Rightarrow> pf_version q),
        sn_workspace_version = w_version w, sn_config_version = wn_config_version n,
        sn_model = ec_model cfg, sn_permission_mode = ec_permission_mode cfg, sn_chat_mode = ec_chat_mode cfg,
        sn_reasoning = ec_reasoning cfg, sn_working_directory = ec_working_directory cfg,
        sn_project_root = ec_project_root cfg, sn_framework_root = rs_framework_root service,
        sn_agent_data_root = py_str repr (dfield (rs_gateway_config service) ''agent_data_root'' (JStr [])),
        sn_extra_roots = ec_extra_roots cfg, sn_tools = ec_tools cfg, sn_skills = ec_skills cfg,
        sn_mcp_servers = ec_mcp_servers cfg, sn_system_prompt = [], sn_prompt_hash = [],
        sn_expected_prompt_hash = [], sn_capability_hash = ec_capability_hash cfg, sn_dedup_key = key,
        sn_created_at = []\<rparr>;
       prompt = assemble db x
     in x\<lparr>sn_system_prompt := prompt, sn_expected_prompt_hash := hash_prompt sha prompt,
          sn_prompt_hash := hash_prompt sha prompt\<rparr>)"

definition build_snapshot ::
    "(json \<Rightarrow> string) \<Rightarrow> (dict \<Rightarrow> string) \<Rightarrow> (string \<Rightarrow> string) \<Rightarrow> (work_db \<Rightarrow> runtime_snapshot \<Rightarrow> string) \<Rightarrow>
      runtime_service \<Rightarrow> string \<Rightarrow> string \<Rightarrow> string \<Rightarrow> string \<Rightarrow> bool \<Rightarrow> work_db \<Rightarrow> work_error + (runtime_snapshot \<times> work_db)" where
  "build_snapshot repr digest sha assemble service now hex wid sid reuse db =
    bindE (workspace_get wid False db) (\<lambda>w.
    bindE (get_owned wid sid db) (\<lambda>n.
    let pid = session_profile_id w n; p = load_profile pid db
    in bindE (resolve_config repr digest (rs_gateway_config service) (Some (rs_tools service))
        (Some (rs_skills service)) w p (Some n)) (\<lambda>cfg.
      let key = snapshot_dedup_key digest sha cfg p pid w n
      in case (if reuse then get_by_dedup_key key db else None) of
           Some y \<Rightarrow> Inr (y, db)
         | None \<Rightarrow>
             let x = fresh_snapshot repr sha assemble service db cfg p w n key
             in if reuse then snapshot_get_or_create now hex x db else Inr (x, db))))"

text \<open>\<open>is_stale\<close>; the workspace and the session are loaded unless the caller gives them.\<close>

definition is_stale :: "runtime_snapshot \<Rightarrow> workspace option \<Rightarrow> work_session option \<Rightarrow> work_db \<Rightarrow> bool" where
  "is_stale x w n db =
    (case (case w of Some w' \<Rightarrow> Inr w' | None \<Rightarrow> workspace_get (sn_workspace x) False db) of
       Inl _ \<Rightarrow> True
     | Inr w' \<Rightarrow>
         (case (case n of Some n' \<Rightarrow> Inr n' | None \<Rightarrow> get_owned (sn_workspace x) (sn_session x) db) of
            Inl _ \<Rightarrow> True
          | Inr n' \<Rightarrow>
              if w_version w' \<noteq> sn_workspace_version x then True
              else if wn_config_version n' \<noteq> sn_config_version x then True
              else if sn_profile x \<noteq> [] then
                (case load_profile (sn_profile x) db of
                   None \<Rightarrow> True
                 | Some p \<Rightarrow> pf_version p \<noteq> sn_profile_version x)
              else False))"

text \<open>\<open>mark_stale\<close> on the sessions in memory, a table of their \<open>config_stale\<close> flags.\<close>

definition mark_stale :: "string \<Rightarrow> string \<Rightarrow> (string \<times> bool) list \<Rightarrow> bool \<times> (string \<times> bool) list" where
  "mark_stale wid sid entries =
    (case map_of entries (session_key_of wid sid) of
       None \<Rightarrow> (False, entries)
     | Some _ \<Rightarrow> (True, AList.update (session_key_of wid sid) True entries))"

section \<open>The runtime context\<close>

record runtime_context =
  rc_workspace :: string
  rc_session :: string
  rc_framework_root :: "string list"
  rc_agent_data_root :: "string list"
  rc_project_root :: "string list"
  rc_working_directory :: "string list"
  rc_extra_roots :: "string list list"
  rc_permission_mode :: string

text \<open>\<open>path.relative_to(root)\<close> does not raise: the parts of the root begin the path.\<close>

definition under_root :: "string list \<Rightarrow> string list \<Rightarrow> bool" where
  "under_root path base \<longleftrightarrow> take (length base) path = base"

definition norm_path :: "(string \<Rightarrow> string list) \<Rightarrow> string \<Rightarrow> work_error + string list" where
  "norm_path resolve x = (if x = [] then Inl Bad_Value else Inr (resolve x))"

definition working_directory_valid :: "string list \<Rightarrow> string list \<Rightarrow> string list list \<Rightarrow> bool" where
  "working_directory_valid wd project extra \<longleftrightarrow> under_root wd project \<or> list_ex (under_root wd) extra"

definition make_context ::
    "(string \<Rightarrow> string list) \<Rightarrow> string \<Rightarrow> string \<Rightarrow> string \<Rightarrow> string \<Rightarrow> string \<Rightarrow> string \<Rightarrow> string list \<Rightarrow> string \<Rightarrow>
      work_error + runtime_context" where
  "make_context resolve wid sid framework data project wd extra mode =
    bindE (validate_id wid 128) (\<lambda>wid'.
    bindE (validate_id sid 128) (\<lambda>sid'.
    bindE (norm_path resolve framework) (\<lambda>framework'.
    bindE (norm_path resolve data) (\<lambda>data'.
    bindE (norm_path resolve project) (\<lambda>project'.
    bindE (norm_path resolve wd) (\<lambda>wd'.
    bindE (validate_enum mode VALID_PERMISSION_MODES ''ask'') (\<lambda>mode'.
    bindE (map_E (norm_path resolve) extra) (\<lambda>extra'.
    if \<not> working_directory_valid wd' project' extra' then Inl Bad_Value
    else Inr \<lparr>rc_workspace = wid', rc_session = sid', rc_framework_root = framework', rc_agent_data_root = data',
      rc_project_root = project', rc_working_directory = wd', rc_extra_roots = extra', rc_permission_mode = mode'\<rparr>))))))))"

text \<open>\<open>Path('')\<close> is the current directory, so an empty path that went through \<open>Path\<close> is \<open>.\<close>.\<close>

definition path_arg :: "string \<Rightarrow> string" where
  "path_arg x = or_text x ''.''"

definition build_runtime_context ::
    "(string \<Rightarrow> string list) \<Rightarrow> runtime_service \<Rightarrow> runtime_snapshot \<Rightarrow> work_error + runtime_context" where
  "build_runtime_context resolve service x =
    make_context resolve (sn_workspace x) (sn_session x)
      (path_arg (or_text (sn_framework_root x) (rs_framework_root service)))
      (path_arg (or_text (sn_agent_data_root x) (rs_framework_root service)))
      (path_arg (sn_project_root x))
      (path_arg (or_text (sn_working_directory x) (sn_project_root x)))
      (map path_arg (sn_extra_roots x)) (sn_permission_mode x)"

end
