(* ===== verification/Work_Safe.thy ===== *)
theory Work_Safe
  imports Work_Reach
begin

text \<open>
  What commands leave alone: the frames of the operations, runs of commands, the busy flag
  of a session as a token, the finality of deleting a workspace, and the built-in profiles.
\<close>

definition work_run :: "(json \<Rightarrow> string) \<Rightarrow> (string \<times> work_cmd) list \<Rightarrow> work_db \<Rightarrow> work_db" where
  "work_run repr cs db = fold (\<lambda>(now, c). work_exec repr now c) cs db"

lemma work_run_simps [simp]:
  "work_run repr [] db = db"
  "work_run repr ((now, c) # cs) db = work_run repr cs (work_exec repr now c db)"
  by (simp_all add: work_run_def)

lemma work_run_inv:
  assumes "P db" "work_ok db" "\<And>now c. (now, c) \<in> set cs \<Longrightarrow> cmd_ok c \<and> G c"
    and step: "\<And>now c db. P db \<Longrightarrow> work_ok db \<Longrightarrow> cmd_ok c \<Longrightarrow> G c \<Longrightarrow> P (work_exec repr now c db)"
  shows "P (work_run repr cs db) \<and> work_ok (work_run repr cs db)"
  using assms(1-3)
proof (induction cs arbitrary: db)
  case (Cons a cs)
  obtain now c where a: "a = (now, c)" by (cases a)
  from Cons.prems(3) [of now c] a have c: "cmd_ok c" "G c" by auto
  have "P (work_exec repr now c db)" "work_ok (work_exec repr now c db)"
    using step [OF Cons.prems(1,2) c] work_exec_ok [OF Cons.prems(2) c(1)] by auto
  from Cons.IH [OF this] Cons.prems(3) a show ?case by auto
qed simp

section \<open>Frames\<close>

text \<open>Operations on profiles leave the other tables alone.\<close>

definition same_rest :: "work_db \<Rightarrow> work_db \<Rightarrow> bool" where
  "same_rest db db' \<longleftrightarrow> wk_workspaces db' = wk_workspaces db \<and> wk_sessions db' = wk_sessions db \<and>
    wk_snapshots db' = wk_snapshots db"

lemma same_rest_refl [simp]: "same_rest db db"
  by (simp add: same_rest_def)

lemma same_rest_trans: "same_rest db db1 \<Longrightarrow> same_rest db1 db2 \<Longrightarrow> same_rest db db2"
  by (simp add: same_rest_def)

lemma insert_profile_version_frame:
  "insert_profile_version hex now p db = Inr db' \<Longrightarrow> same_rest db db' \<and> wk_profiles db' = wk_profiles db"
  by (auto simp: insert_profile_version_def if_Inr same_rest_def)

lemma profile_create_frame:
  assumes "profile_create now hex p db = Inr (p', db')"
  shows "same_rest db db' \<and> (\<exists>q. wk_profiles db' = wk_profiles db @ [q])"
proof -
  obtain q db1 where "insert_profile q db = Inr db1" and 2: "insert_profile_version hex now q db1 = Inr db'"
    using assms by (auto simp: profile_create_def Let_def)
  then have "same_rest db db1 \<and> wk_profiles db1 = wk_profiles db @ [q]"
    by (auto simp: insert_profile_def if_Inr same_rest_def)
  with insert_profile_version_frame [OF 2] show ?thesis by (auto simp: same_rest_def)
qed

lemma profile_update_frame:
  assumes "profile_update repr now hex pid patch ev db = Inr (u, db')"
  shows "same_rest db db' \<and> (\<exists>f. (\<forall>r. pf_id (f r) = pf_id r) \<and>
    wk_profiles db' = sql_update (\<lambda>r. pf_id r = pid) f (wk_profiles db))"
proof -
  let ?f = "\<lambda>r. u\<lparr>pf_id := pf_id r, pf_created_at := pf_created_at r\<rparr>"
  have "insert_profile_version hex (pf_updated_at u) u
      (db\<lparr>wk_profiles := sql_update (\<lambda>r. pf_id r = pid) ?f (wk_profiles db)\<rparr>) = Inr db'"
    using assms by (auto simp: profile_update_def profile_write_def if_Inr)
  from insert_profile_version_frame [OF this] show ?thesis
    by (intro conjI exI [of _ ?f]) (auto simp: same_rest_def)
qed

lemma write_profile_status_frame:
  assumes "write_profile_status now hex st arch c db = Inr (p', db')"
  shows "same_rest db db' \<and> (\<exists>f. (\<forall>r. pf_id (f r) = pf_id r) \<and>
    wk_profiles db' = sql_update (\<lambda>r. pf_id r = pf_id c) f (wk_profiles db))"
proof -
  let ?f = "\<lambda>r. r\<lparr>pf_status := st, pf_version := pf_version c + 1, pf_updated_at := now, pf_archived_at := arch\<rparr>"
  obtain q where "insert_profile_version hex now q
      (db\<lparr>wk_profiles := sql_update (\<lambda>r. pf_id r = pf_id c) ?f (wk_profiles db)\<rparr>) = Inr db'"
    using assms by (auto simp: write_profile_status_def Let_def if_Inr)
  from insert_profile_version_frame [OF this] show ?thesis
    by (intro conjI exI [of _ ?f]) (auto simp: same_rest_def)
qed

lemma profile_status_frames:
  assumes "profile_archive now hex pid ev db = Inr (p', db') \<or> profile_activate now hex pid ev db = Inr (p', db') \<or>
    profile_delete now hex pid ev db = Inr (p', db')"
  obtains c f where "profile_get pid False db = Inr c" "\<not> pf_is_system c" "same_rest db db'" "\<And>r. pf_id (f r) = pf_id r"
    "wk_profiles db' = sql_update (\<lambda>r. pf_id r = pf_id c) f (wk_profiles db)"
proof -
  obtain c st arch where "profile_get pid False db = Inr c" "\<not> pf_is_system c"
      "write_profile_status now hex st arch c db = Inr (p', db')"
    using assms unfolding profile_archive_def profile_activate_def profile_delete_def
    by (auto simp: if_Inr)
  with write_profile_status_frame that show ?thesis by blast
qed

lemma seed_frame:
  "same_rest db (snd (seed_system_profiles now templates k db)) \<and>
   (\<exists>qs. wk_profiles (snd (seed_system_profiles now templates k db)) = wk_profiles db @ qs)"
proof (induction templates arbitrary: k db)
  case (Cons a templates)
  obtain hex t where a: "a = (hex, t)" by (cases a)
  have new: "same_rest db (snd (seed_system_profiles now templates i db')) \<and>
      (\<exists>qs. wk_profiles (snd (seed_system_profiles now templates i db')) = wk_profiles db @ qs)"
    if "profile_create now hex t db = Inr (p, db')" for p db' i
    using profile_create_frame [OF that] Cons.IH [of db' i] by (auto intro: same_rest_trans)
  show ?case
  proof (cases "profile_get (pf_id t) False db")
    case (Inr p)
    then show ?thesis using Cons.IH by (simp add: a)
  next
    case (Inl e)
    then show ?thesis
      using Cons.IH [of db k] new by (simp add: a split: sum.split option.split)
  qed
qed simp

lemma profile_duplicate_frame:
  assumes "profile_duplicate repr now hex hex' pid name db = Inr (p', db')"
  shows "same_rest db db' \<and> (\<exists>q. wk_profiles db' = wk_profiles db @ [q])"
proof -
  obtain q where "profile_create now hex' q db = Inr (p', db')"
    using assms unfolding profile_duplicate_def bindE_eq_Inr by blast
  then show ?thesis by (rule profile_create_frame)
qed

fun on_profiles :: "work_cmd \<Rightarrow> bool" where
  "on_profiles (Create_Profile _ _) = True"
| "on_profiles (Update_Profile _ _ _ _) = True"
| "on_profiles (Duplicate_Profile _ _ _ _) = True"
| "on_profiles (Archive_Profile _ _ _) = True"
| "on_profiles (Activate_Profile _ _ _) = True"
| "on_profiles (Delete_Profile _ _ _) = True"
| "on_profiles (Seed_Profiles _) = True"
| "on_profiles _ = False"

lemma keep_same_rest: "(\<And>a db'. r = Inr (a, db') \<Longrightarrow> same_rest db db') \<Longrightarrow> same_rest db (keep db r)"
  by (auto simp: keep_def split: sum.split)

lemma profile_status_same_rest:
  "profile_archive now hex pid ev db = Inr (p', db') \<Longrightarrow> same_rest db db'"
  "profile_activate now hex pid ev db = Inr (p', db') \<Longrightarrow> same_rest db db'"
  "profile_delete now hex pid ev db = Inr (p', db') \<Longrightarrow> same_rest db db'"
  by (meson profile_status_frames)+

lemma profile_command_frame: "on_profiles c \<Longrightarrow> same_rest db (work_exec repr now c db)"
  by (cases c) (auto intro!: keep_same_rest simp: seed_frame dest: profile_create_frame profile_update_frame
      profile_duplicate_frame profile_status_same_rest)

section \<open>What becomes of the sessions\<close>

definition keeps_sessions :: "(work_session \<Rightarrow> bool) \<Rightarrow> work_session list \<Rightarrow> work_session list \<Rightarrow> bool" where
  "keeps_sessions released old new \<longleftrightarrow>
    (\<forall>n \<in> set old. \<exists>m \<in> set new. wn_id m = wn_id n \<and> wn_workspace m = wn_workspace n \<and>
      (wn_is_busy n \<and> \<not> released n \<longrightarrow> wn_is_busy m))"

lemma keeps_refl [simp]: "keeps_sessions released xs xs"
  by (auto simp: keeps_sessions_def)

lemma keeps_append [simp]: "keeps_sessions released xs (xs @ ys)"
  by (auto simp: keeps_sessions_def)

lemma keeps_update:
  assumes "\<And>n. wn_id (f n) = wn_id n \<and> wn_workspace (f n) = wn_workspace n"
    and "\<And>n. Q n \<Longrightarrow> wn_is_busy n \<Longrightarrow> \<not> released n \<Longrightarrow> wn_is_busy (f n)"
  shows "keeps_sessions released xs (sql_update Q f xs)"
  unfolding keeps_sessions_def
proof
  fix n assume n: "n \<in> set xs"
  let ?m = "if Q n then f n else n"
  have "?m \<in> set (sql_update Q f xs)" using n by (auto simp: set_sql_update)
  then show "\<exists>m \<in> set (sql_update Q f xs). wn_id m = wn_id n \<and> wn_workspace m = wn_workspace n \<and>
      (wn_is_busy n \<and> \<not> released n \<longrightarrow> wn_is_busy m)"
    by (rule bexI [rotated]) (use assms in auto)
qed

definition releases :: "work_cmd \<Rightarrow> work_session \<Rightarrow> bool" where
  "releases c n \<longleftrightarrow> c = Reset_Stale_Busy \<or> c = Set_Busy (wn_workspace n) (wn_id n) False"

lemma keep_sessions_keep:
  "(\<And>a db'. r = Inr (a, db') \<Longrightarrow> keeps_sessions R (wk_sessions db) (wk_sessions db')) \<Longrightarrow>
   keeps_sessions R (wk_sessions db) (wk_sessions (keep db r))"
  by (auto simp: keep_def split: sum.split)

lemma insert_work_session_sessions: "insert_work_session n db = Inr db' \<Longrightarrow> wk_sessions db' = wk_sessions db @ [n]"
  by (auto simp: insert_work_session_def if_Inr)

lemma insert_workspace_sessions: "insert_workspace now w db = Inr db' \<Longrightarrow> wk_sessions db' = wk_sessions db"
  by (auto simp: insert_workspace_def if_Inr)

lemma workspace_create_sessions:
  assumes "workspace_create now hex w first db = Inr (w', db')"
  shows "\<exists>ns. wk_sessions db' = wk_sessions db @ ns"
proof -
  obtain x db1 where 1: "insert_workspace now x db = Inr db1"
    and 2: "db' = db1 \<or> (\<exists>n. insert_work_session n db1 = Inr db')"
    using assms by (auto simp: workspace_create_def Let_def split: option.splits)
  from insert_workspace_sessions [OF 1] 2 insert_work_session_sessions show ?thesis by fastforce
qed

lemma workspace_command_sessions:
  "create_with_first_session repr now hex w payload db = Inr (w', db') \<Longrightarrow> \<exists>ns. wk_sessions db' = wk_sessions db @ ns"
  "workspace_update repr now wid patch ev db = Inr (w', db') \<Longrightarrow> wk_sessions db' = wk_sessions db"
  "session_create repr now hex wid payload db = Inr (n', db') \<Longrightarrow> \<exists>ns. wk_sessions db' = wk_sessions db @ ns"
  "snapshot_get_or_create now hex x db = Inr (y, db') \<Longrightarrow> wk_sessions db' = wk_sessions db"
proof -
  show "create_with_first_session repr now hex w payload db = Inr (w', db') \<Longrightarrow> \<exists>ns. wk_sessions db' = wk_sessions db @ ns"
    using workspace_create_sessions by (auto simp: create_with_first_session_def)
  show "workspace_update repr now wid patch ev db = Inr (w', db') \<Longrightarrow> wk_sessions db' = wk_sessions db"
    by (auto simp: workspace_update_def workspace_write_def if_Inr)
  show "session_create repr now hex wid payload db = Inr (n', db') \<Longrightarrow> \<exists>ns. wk_sessions db' = wk_sessions db @ ns"
    using insert_work_session_sessions by (auto simp: session_create_def Let_def if_Inr)
  show "snapshot_get_or_create now hex x db = Inr (y, db') \<Longrightarrow> wk_sessions db' = wk_sessions db"
    by (erule snapshot_get_or_create_cases) (auto dest: insert_snapshot_Inr)
qed

lemma work_exec_keeps_sessions: "keeps_sessions (releases c) (wk_sessions db) (wk_sessions (work_exec repr now c db))"
proof (cases c)
  case (Create_Workspace w)
  then show ?thesis using workspace_create_sessions by (fastforce intro!: keep_sessions_keep)
next
  case (Create_With_Session w payload hex)
  then show ?thesis using workspace_command_sessions(1) by (fastforce intro!: keep_sessions_keep)
next
  case (Update_Workspace wid patch ev)
  then show ?thesis by (auto intro!: keep_sessions_keep dest: workspace_command_sessions(2))
next
  case (Archive_Workspace wid ev)
  then show ?thesis by (auto intro!: keep_sessions_keep keeps_update simp: workspace_archive_def if_Inr)
next
  case (Delete_Workspace wid)
  then show ?thesis by (auto intro!: keep_sessions_keep keeps_update simp: workspace_delete_def)
next
  case (Create_Session wid payload hex)
  then show ?thesis using workspace_command_sessions(3) by (fastforce intro!: keep_sessions_keep)
next
  case (Override_Session wid sid model mode chat level name eb)
  then show ?thesis
    by (auto intro!: keep_sessions_keep keeps_update simp: update_runtime_overrides_def if_Inr Let_def)
next
  case (Archive_Session wid sid)
  then show ?thesis by (auto intro!: keep_sessions_keep keeps_update simp: session_archive_def if_Inr Let_def)
next
  case (Save_Snapshot x hex)
  then show ?thesis by (auto intro!: keep_sessions_keep dest: workspace_command_sessions(4))
next
  case (Set_Busy wid sid busy)
  then show ?thesis by (cases busy) (auto intro!: keeps_update simp: set_busy_def releases_def owned_def)
next
  case (Try_Set_Busy wid sid)
  then show ?thesis by (auto intro!: keeps_update simp: try_set_busy_def)
next
  case Reset_Stale_Busy
  then show ?thesis by (auto intro!: keeps_update simp: reset_stale_busy_def releases_def)
next
  case (Touch_Snapshot wid sid xid)
  then show ?thesis by (auto intro!: keeps_update simp: touch_snapshot_def)
qed (use profile_command_frame [of c db repr now] in \<open>simp_all add: same_rest_def\<close>)

section \<open>The busy flag is a token\<close>

definition held :: "string \<Rightarrow> string \<Rightarrow> work_db \<Rightarrow> bool" where
  "held wid sid db \<longleftrightarrow> (\<exists>n \<in> set (wk_sessions db). owned wid sid n \<and> wn_is_busy n)"

text \<open>The commands that may give the token back: clearing this session's flag, and the reset at start-up.\<close>

fun gives_back :: "string \<Rightarrow> string \<Rightarrow> work_cmd \<Rightarrow> bool" where
  "gives_back wid sid Reset_Stale_Busy = True"
| "gives_back wid sid (Set_Busy wid' sid' busy) = (wid' = wid \<and> sid' = sid \<and> \<not> busy)"
| "gives_back wid sid _ = False"

lemma releases_gives_back: "releases c n \<Longrightarrow> owned wid sid n \<Longrightarrow> gives_back wid sid c"
  by (auto simp: releases_def owned_def)

lemma held_step:
  assumes "held wid sid db" "\<not> gives_back wid sid c"
  shows "held wid sid (work_exec repr now c db)"
proof -
  from assms(1) obtain n where n: "n \<in> set (wk_sessions db)" "owned wid sid n" "wn_is_busy n" by (auto simp: held_def)
  with assms(2) have "\<not> releases c n" using releases_gives_back by blast
  with n work_exec_keeps_sessions [of c db repr now] obtain m where
    "m \<in> set (wk_sessions (work_exec repr now c db))" "wn_id m = wn_id n" "wn_workspace m = wn_workspace n" "wn_is_busy m"
    unfolding keeps_sessions_def by blast
  with n(2) show ?thesis by (auto simp: held_def owned_def)
qed

lemma try_set_busy_held:
  assumes "fst (try_set_busy now wid sid db)"
  shows "held wid sid (snd (try_set_busy now wid sid db))"
proof -
  from assms obtain n where n: "n \<in> set (wk_sessions db)" "owned wid sid n \<and> \<not> wn_is_busy n"
    unfolding try_set_busy_def by (auto simp: zero_less_iff_neq_zero)
  then have "n\<lparr>wn_is_busy := True, wn_updated_at := now\<rparr> \<in> set (wk_sessions (snd (try_set_busy now wid sid db)))"
    by (auto simp: try_set_busy_def in_sql_update intro!: bexI [of _ n])
  with n(2) show ?thesis unfolding held_def by (intro bexI) (auto simp: owned_def)
qed

lemma held_refuses:
  assumes "work_ok db" "held wid sid db"
  shows "\<not> fst (try_set_busy now wid sid db)"
proof -
  from assms(2) obtain n where n: "n \<in> set (wk_sessions db)" "owned wid sid n" "wn_is_busy n" by (auto simp: held_def)
  have uk: "unique_key wn_id (wk_sessions db)" using work_okD(5) [OF assms(1)] by (simp add: table_def)
  have "wn_is_busy m" if "m \<in> set (wk_sessions db)" "owned wid sid m" for m
    using unique_key_eq [OF uk that(1) n(1)] that(2) n by (simp add: owned_def)
  then show ?thesis unfolding try_set_busy_def by auto
qed

section \<open>A deleted workspace\<close>

definition gone :: "string \<Rightarrow> work_db \<Rightarrow> bool" where
  "gone wid db \<longleftrightarrow>
    wid \<in> set (map w_id (wk_workspaces db)) \<and>
    (\<forall>w \<in> set (wk_workspaces db). w_id w = wid \<longrightarrow> w_status w = ''deleted'') \<and>
    (\<forall>n \<in> set (wk_sessions db). wn_workspace n = wid \<longrightarrow> wn_status n = ''deleted'')"

lemma gone_get: "gone wid db \<Longrightarrow> workspace_get wid False db = Inl (StoreFailure NoWorkspace [])"
  using lookup_row_Some [of w_id wid "wk_workspaces db"]
  by (auto simp: gone_def workspace_get_def split: option.splits)

lemma gone_get_owned: "gone wid db \<Longrightarrow> get_owned wid sid db = Inl (StoreFailure NoWorkspaceSession [])"
  by (auto simp: gone_def get_owned_def owned_def find_Some_iff split: option.splits)

lemma workspace_delete_gone:
  assumes "work_ok db" "workspace_delete now wid db = Inr (w, db')"
  shows "gone wid db'"
proof -
  obtain c where c: "workspace_get wid False db = Inr c" and db': "db' = db\<lparr>wk_workspaces :=
          sql_update (\<lambda>r. w_id r = wid)
            (\<lambda>r. r\<lparr>w_status := ''deleted'', w_version := w_version r + 1, w_updated_at := now,
                    w_archived_at := now\<rparr>) (wk_workspaces db),
        wk_sessions := sql_update (\<lambda>n. wn_workspace n = wid)
            (\<lambda>n. n\<lparr>wn_status := ''deleted'', wn_updated_at := now\<rparr>) (wk_sessions db),
        wk_snapshots := sql_delete (\<lambda>x. sn_workspace x = wid) (wk_snapshots db)\<rparr>"
    using assms(2) by (auto simp: workspace_delete_def)
  from workspace_get_Inr [OF assms(1) c] have "wid \<in> set (map w_id (wk_workspaces db))" by auto
  then show ?thesis by (auto simp: gone_def db' set_sql_update)
qed

lemma gone_same: "same_rest db db' \<Longrightarrow> gone wid db \<Longrightarrow> gone wid db'"
  by (simp add: gone_def same_rest_def)

lemma gone_keep: "gone wid db \<Longrightarrow> (\<And>a db'. r = Inr (a, db') \<Longrightarrow> gone wid db') \<Longrightarrow> gone wid (keep db r)"
  by (auto simp: keep_def split: sum.split)

lemma gone_not_open: "gone wid db \<Longrightarrow> work_ok db \<Longrightarrow> workspace_get wid' False db = Inr w \<Longrightarrow> wid' \<noteq> wid"
  using gone_get by auto

lemma gone_not_owned: "gone wid db \<Longrightarrow> get_owned wid' sid db = Inr n \<Longrightarrow> wid' \<noteq> wid"
  using gone_get_owned by auto

lemma gone_update:
  assumes "gone wid db" "\<And>r. w_id (f r) = w_id r" "\<And>r. Q r \<Longrightarrow> w_id r \<noteq> wid"
    and "\<And>n. wn_workspace (g n) = wn_workspace n" "\<And>n. R n \<Longrightarrow> wn_status n = ''deleted'' \<Longrightarrow> wn_workspace n = wid \<Longrightarrow> wn_status (g n) = ''deleted''"
  shows "gone wid (db\<lparr>wk_workspaces := sql_update Q f (wk_workspaces db), wk_sessions := sql_update R g (wk_sessions db)\<rparr>)"
  using assms by (force simp: gone_def set_sql_update)

lemma gone_snapshots [simp]: "gone wid (db\<lparr>wk_snapshots := xs\<rparr>) = gone wid db"
  by (simp add: gone_def)

lemma gone_session_update:
  assumes "gone wid db" "\<And>n. wn_workspace (g n) = wn_workspace n"
    and "\<And>n. R n \<Longrightarrow> wn_status n = ''deleted'' \<Longrightarrow> wn_workspace n = wid \<Longrightarrow> wn_status (g n) = ''deleted''"
  shows "gone wid (db\<lparr>wk_sessions := sql_update R g (wk_sessions db)\<rparr>)"
  using assms by (force simp: gone_def set_sql_update)

lemma insert_workspace_gone:
  "gone wid db \<Longrightarrow> insert_workspace now w db = Inr db' \<Longrightarrow> gone wid db' \<and> w_id w \<noteq> wid"
  by (auto simp: gone_def insert_workspace_def if_Inr)

lemma insert_work_session_gone:
  "gone wid db \<Longrightarrow> insert_work_session n db = Inr db' \<Longrightarrow> wn_workspace n \<noteq> wid \<Longrightarrow> gone wid db'"
  by (auto simp: gone_def insert_work_session_def if_Inr)

lemma workspace_create_gone:
  assumes "gone wid db" "workspace_create now hex w first db = Inr (w', db')"
    and "\<And>n. first = Some n \<Longrightarrow> wn_workspace n = w_id w"
  shows "gone wid db'"
proof -
  define x where "x = w\<lparr>w_created_at := if w_created_at w = [] then now else w_created_at w, w_updated_at := now\<rparr>"
  have x: "w_id x = w_id w" by (simp add: x_def)
  from assms(2) obtain db1 where 1: "insert_workspace now x db = Inr db1"
    and 2: "first = None \<and> db' = db1 \<or> (\<exists>n m. first = Some n \<and> insert_work_session m db1 = Inr db' \<and> wn_workspace m = wn_workspace n)"
    unfolding workspace_create_def x_def [symmetric] Let_def by (cases first) (auto, fastforce)
  from insert_workspace_gone [OF assms(1) 1] x have "gone wid db1" "w_id w \<noteq> wid" by auto
  with 2 assms(3) show ?thesis by (auto intro: insert_work_session_gone)
qed

lemma session_create_gone:
  assumes "work_ok db" "gone wid db" "session_create repr now hex wid' payload db = Inr (n', db')"
  shows "gone wid db'"
proof -
  obtain n0 n where n: "session_post_init n0 = Inr n" "wn_workspace n0 = wid'"
    and i: "insert_work_session (n\<lparr>wn_key := session_key_of wid' (wn_id n), wn_created_at := now, wn_updated_at := now\<rparr>) db = Inr db'"
    and ex: "list_ex (\<lambda>w. w_id w = wid' \<and> w_status w = ''active'') (wk_workspaces db)"
    using assms(3) by (auto simp: session_create_def Let_def if_Inr)
  from ex work_okD(1) [OF assms(1)] have "good_id wid'" by (auto simp: list_ex_iff table_def workspace_ok_def)
  with n have "wn_workspace n = wid'" by (auto simp: session_post_init_def)
  moreover from ex assms(2) have "wid' \<noteq> wid" by (auto simp: list_ex_iff gone_def)
  ultimately show ?thesis by (intro insert_work_session_gone [OF assms(2) i]) simp
qed

lemma gone_step:
  assumes g: "gone wid db" and ok: "work_ok db" and c: "cmd_ok c"
  shows "gone wid (work_exec repr now c db)"
proof (cases c)
  case (Create_Workspace w)
  then show ?thesis by (auto intro!: gone_keep [OF g] intro: workspace_create_gone [OF g])
next
  case (Create_With_Session w payload hex)
  have "gone wid db'" if made: "create_with_first_session repr now hex w payload db = Inr (w', db')" for w' db'
  proof -
    obtain n0 n where n: "session_post_init n0 = Inr n" "wn_workspace n0 = w_id w"
      and cr: "workspace_create now hex w (Some n) db = Inr (w', db')"
      using made by (auto simp: create_with_first_session_def)
    have "good_id (w_id w)" using c Create_With_Session by (simp add: workspace_ok_def)
    with n have "wn_workspace n = w_id w" by (auto simp: session_post_init_def)
    with workspace_create_gone [OF g cr] show ?thesis by simp
  qed
  with Create_With_Session show ?thesis by (auto intro!: gone_keep [OF g])
next
  case (Update_Workspace wid' patch ev)
  have "gone wid db'" if "workspace_update repr now wid' patch ev db = Inr (u, db')" for u db'
  proof -
    from that obtain p: "workspace_prepare repr now wid' patch ev db = Inr u" and w: "workspace_write wid' u db = Inr db'"
      by (auto simp: workspace_update_def)
    from workspace_prepare_ok [OF ok p] have "wid' \<noteq> wid" using gone_not_open [OF g ok] by blast
    with w g show ?thesis by (force simp: workspace_write_def if_Inr gone_def set_sql_update)
  qed
  with Update_Workspace show ?thesis by (auto intro!: gone_keep [OF g])
next
  case (Archive_Workspace wid' ev)
  then show ?thesis
    by (auto intro!: gone_keep [OF g] gone_update [OF g] dest: gone_not_open [OF g ok]
        simp: workspace_archive_def if_Inr)
next
  case (Delete_Workspace wid')
  show ?thesis
  proof (cases "workspace_get wid' False db")
    case (Inr w)
    from gone_not_open [OF g ok Inr] Delete_Workspace show ?thesis
      by (auto intro!: gone_keep [OF g] gone_update [OF g] simp: workspace_delete_def)
  qed (use Delete_Workspace g in \<open>simp add: workspace_delete_def keep_def\<close>)
next
  case (Create_Session wid' payload hex)
  then show ?thesis using session_create_gone [OF ok g] by (auto intro!: gone_keep [OF g])
next
  case (Override_Session wid' sid model mode chat level name eb)
  then show ?thesis
    by (auto intro!: gone_keep [OF g] gone_session_update [OF g] dest: gone_not_owned [OF g] simp: update_runtime_overrides_def if_Inr Let_def g)
next
  case (Archive_Session wid' sid)
  show ?thesis
  proof (cases "get_owned wid' sid db")
    case (Inr n)
    from gone_not_owned [OF g Inr] Archive_Session show ?thesis
      by (auto intro!: gone_keep [OF g] gone_session_update [OF g] simp: session_archive_def if_Inr Let_def owned_def)
  qed (use Archive_Session g in \<open>simp add: session_archive_def keep_def\<close>)
next
  case (Save_Snapshot x hex)
  have "gone wid db'" if "snapshot_get_or_create now hex x db = Inr (y, db')" for y db'
    using that by (cases rule: snapshot_get_or_create_cases) (use g in \<open>auto dest: insert_snapshot_Inr simp: gone_def\<close>)
  with Save_Snapshot show ?thesis by (auto intro!: gone_keep [OF g])
qed (use gone_same [OF profile_command_frame g, of c repr now] in \<open>auto intro!: gone_session_update [OF g]
    simp: set_busy_def try_set_busy_def reset_stale_busy_def touch_snapshot_def\<close>)

section \<open>Built-in profiles\<close>

lemma other_commands_keep_profiles:
  assumes "\<not> on_profiles c"
  shows "wk_profiles (work_exec repr now c db) = wk_profiles db"
proof -
  have K: "wk_profiles (keep db r) = wk_profiles db" if "\<And>a db'. r = Inr (a, db') \<Longrightarrow> wk_profiles db' = wk_profiles db"
    for r :: "work_error + ('b \<times> work_db)" using that by (auto simp: keep_def split: sum.split)
  have I: "insert_work_session n d = Inr d' \<Longrightarrow> wk_profiles d' = wk_profiles d"
    "insert_workspace now w d = Inr d' \<Longrightarrow> wk_profiles d' = wk_profiles d" for n w d d'
    by (auto simp: insert_work_session_def insert_workspace_def if_Inr)
  have W: "workspace_create now hex w first db = Inr (w', db') \<Longrightarrow> wk_profiles db' = wk_profiles db" for hex w first w' db'
    using I by (fastforce simp: workspace_create_def Let_def split: option.splits)
  have S: "snapshot_get_or_create now hex x db = Inr (y, db') \<Longrightarrow> wk_profiles db' = wk_profiles db" for hex x y db'
    by (erule snapshot_get_or_create_cases) (auto dest: insert_snapshot_Inr)
  show ?thesis
    using assms by (cases c) (auto intro!: K dest: W S I simp: create_with_first_session_def workspace_update_def workspace_write_def
        workspace_archive_def workspace_delete_def session_create_def update_runtime_overrides_def session_archive_def
        set_busy_def try_set_busy_def reset_stale_busy_def touch_snapshot_def if_Inr Let_def)
qed

definition built_in :: "agent_profile \<Rightarrow> work_db \<Rightarrow> bool" where
  "built_in p db \<longleftrightarrow> pf_is_system p \<and> lookup_row pf_id (pf_id p) (wk_profiles db) = Some p"

lemma lookup_row_other_update:
  "lookup_row key k rows = Some p \<Longrightarrow> (\<And>r. key (f r) = key r) \<Longrightarrow> (\<And>r. Q r \<Longrightarrow> key r \<noteq> k) \<Longrightarrow>
   lookup_row key k (sql_update Q f rows) = Some p"
  by (induction rows) (auto split: if_splits)

fun updates_profile :: "string \<Rightarrow> work_cmd \<Rightarrow> bool" where
  "updates_profile pid (Update_Profile pid' _ _ _) = (pid' = pid)"
| "updates_profile pid _ = False"

lemma built_in_step:
  assumes b: "built_in p db" and ok: "work_ok db" and c: "\<not> updates_profile (pf_id p) c"
  shows "built_in p (work_exec repr now c db)"
proof -
  have K: "built_in p (keep db r)" if "\<And>a db'. r = Inr (a, db') \<Longrightarrow> built_in p db'" for r :: "work_error + ('b \<times> work_db)"
    using that b by (auto simp: keep_def split: sum.split)
  have A: "built_in p db'" if "wk_profiles db' = wk_profiles db @ qs" for db' qs
    using b that by (simp add: built_in_def lookup_row_append)
  have U: "built_in p db'" if "wk_profiles db' = sql_update (\<lambda>r. pf_id r = i) f (wk_profiles db)" "\<And>r. pf_id (f r) = pf_id r"
    "i \<noteq> pf_id p" for db' i f
    using b that by (auto simp: built_in_def intro!: lookup_row_other_update)
  have T: "built_in p db'" if st: "profile_archive now hex pid ev db = Inr (q, db') \<or>
      profile_activate now hex pid ev db = Inr (q, db') \<or> profile_delete now hex pid ev db = Inr (q, db')" for hex pid ev q db'
  proof -
    obtain d f where d: "profile_get pid False db = Inr d" "\<not> pf_is_system d" "\<And>r. pf_id (f r) = pf_id r"
      "wk_profiles db' = sql_update (\<lambda>r. pf_id r = pf_id d) f (wk_profiles db)"
      using profile_status_frames [OF st] by metis
    from profile_get_Inr [OF ok d(1)] have "d \<in> set (wk_profiles db)" by simp
    moreover have "p \<in> set (wk_profiles db)" using b lookup_row_Some [of pf_id "pf_id p"] by (auto simp: built_in_def)
    ultimately have "pf_id d \<noteq> pf_id p"
      using unique_key_eq [of pf_id "wk_profiles db" d p] work_okD(2) [OF ok] d(2) b by (auto simp: table_def built_in_def)
    with U d(3,4) show ?thesis by blast
  qed
  show ?thesis
  proof (cases "on_profiles c")
    case False
    then show ?thesis using b other_commands_keep_profiles by (simp add: built_in_def)
  next
    case True
    then show ?thesis
    proof (cases c)
      case (Create_Profile q hex)
      then show ?thesis using A by (auto intro!: K dest: profile_create_frame)
    next
      case (Update_Profile pid patch ev hex)
      with c have i: "pid \<noteq> pf_id p" by simp
      have "built_in p db'" if "profile_update repr now hex pid patch ev db = Inr (u, db')" for u db'
        using profile_update_frame [OF that] U i by blast
      with Update_Profile show ?thesis by (auto intro!: K)
    next
      case (Duplicate_Profile pid name hex hex')
      then show ?thesis using A by (auto intro!: K dest: profile_duplicate_frame)
    next
      case (Seed_Profiles templates)
      then show ?thesis using seed_frame [of db now templates 0] A by auto
    qed (auto intro!: K intro: T [OF disjI1] T [OF disjI2 [OF disjI1]] T [OF disjI2 [OF disjI2]])
  qed
qed

end
