(* ===== verification/Work_Frozen.thy ===== *)
theory Work_Frozen
  imports Work_Runtime Work_Safe "HOL-Library.Countable"
begin

text \<open>
  What a runtime snapshot freezes: the key it is stored under determines the configuration,
  so a snapshot that is used again agrees with the configuration that is in force.
\<close>

section \<open>Merging capability lists\<close>

lemma set_fold_merge:
  "set (fold (merge_step available) inc xs) = set xs \<union> {x \<in> set inc. x \<noteq> [] \<and> offered available x}"
  by (induction inc arbitrary: xs) (auto simp: merge_step_def)

lemma set_merge_lists:
  "set (merge_lists base inc exclude available) =
    ({x \<in> set base. offered available x} \<union> {x \<in> set inc. x \<noteq> [] \<and> offered available x}) - set exclude"
  by (auto simp: merge_lists_def set_fold_merge)

lemma distinct_fold_merge: "distinct xs \<Longrightarrow> distinct (fold (merge_step available) inc xs)"
  by (induction inc arbitrary: xs) (auto simp: merge_step_def)

lemma distinct_merge_lists: "distinct base \<Longrightarrow> distinct (merge_lists base inc exclude available)"
  by (simp add: merge_lists_def distinct_fold_merge)

lemma resolve_config_tools:
  assumes "resolve_config repr digest gw tools skills w p n = Inr cfg"
  shows "set (ec_tools cfg) =
      {x. (x \<in> set (of_profile pf_tools p) \<or> x \<in> set (w_include_tools w) \<and> x \<noteq> []) \<and> offered tools x} -
      set (w_exclude_tools w) - set SYSTEM_INTERNAL_TOOLS"
    "set (ec_skills cfg) =
      {x. (x \<in> set (of_profile pf_skills p) \<or> x \<in> set (w_include_skills w) \<and> x \<noteq> []) \<and> offered skills x} -
      set (w_exclude_skills w)"
    "set (ec_mcp_servers cfg) =
      {x. x \<in> set (of_profile pf_mcp_servers p) \<or> x \<in> set (w_include_mcp w) \<and> x \<noteq> []} - set (w_exclude_mcp w)"
  using assms by (auto simp: resolve_config_def Let_def set_merge_lists offered_def)

section \<open>Keys\<close>

definition same_up_to_order :: "string list \<Rightarrow> string list \<Rightarrow> bool" where
  "same_up_to_order xs ys \<longleftrightarrow> sort xs = sort ys"

definition describes ::
    "runtime_snapshot \<Rightarrow> effective_config \<Rightarrow> agent_profile option \<Rightarrow> string \<Rightarrow> workspace \<Rightarrow> work_session \<Rightarrow> bool" where
  "describes y cfg p pid w n \<longleftrightarrow>
    sn_model y = ec_model cfg \<and> sn_permission_mode y = ec_permission_mode cfg \<and> sn_chat_mode y = ec_chat_mode cfg \<and>
    sn_reasoning y = ec_reasoning cfg \<and> sn_working_directory y = ec_working_directory cfg \<and>
    sn_project_root y = ec_project_root cfg \<and> same_up_to_order (sn_tools y) (ec_tools cfg) \<and>
    same_up_to_order (sn_skills y) (ec_skills cfg) \<and> same_up_to_order (sn_mcp_servers y) (ec_mcp_servers cfg) \<and>
    same_up_to_order (sn_extra_roots y) (ec_extra_roots cfg) \<and> sn_profile y = pid \<and>
    sn_profile_version y = (case p of None \<Rightarrow> 0 | Some q \<Rightarrow> pf_version q) \<and>
    sn_workspace_version y = w_version w \<and> sn_config_version y = wn_config_version n"

lemma map_JStr_inj: "map JStr xs = map JStr ys \<longleftrightarrow> xs = ys"
  by (simp add: inj_map_eq_map inj_def)

lemma capability_hash_inj:
  assumes "inj digest" "compute_capability_hash digest c = compute_capability_hash digest c'"
  shows "ec_model c = ec_model c'" "ec_permission_mode c = ec_permission_mode c'" "ec_chat_mode c = ec_chat_mode c'"
    "ec_reasoning c = ec_reasoning c'" "ec_max_steps c = ec_max_steps c'"
    "same_up_to_order (ec_tools c) (ec_tools c')" "same_up_to_order (ec_skills c) (ec_skills c')"
    "same_up_to_order (ec_mcp_servers c) (ec_mcp_servers c')" "same_up_to_order (ec_extra_roots c) (ec_extra_roots c')"
    "ec_project_root c = ec_project_root c'" "ec_working_directory c = ec_working_directory c'"
proof -
  from assms have "capability_payload c = capability_payload c'"
    by (auto simp: compute_capability_hash_def dest: injD)
  then show "ec_model c = ec_model c'" "ec_permission_mode c = ec_permission_mode c'" "ec_chat_mode c = ec_chat_mode c'"
    "ec_reasoning c = ec_reasoning c'" "ec_max_steps c = ec_max_steps c'"
    "same_up_to_order (ec_tools c) (ec_tools c')" "same_up_to_order (ec_skills c) (ec_skills c')"
    "same_up_to_order (ec_mcp_servers c) (ec_mcp_servers c')" "same_up_to_order (ec_extra_roots c) (ec_extra_roots c')"
    "ec_project_root c = ec_project_root c'" "ec_working_directory c = ec_working_directory c'"
    by (simp_all add: capability_payload_def map_JStr_inj same_up_to_order_def)
qed

lemma dedup_key_inj:
  assumes "inj digest"
    and "snapshot_dedup_key digest sha c p pid w n = snapshot_dedup_key digest sha c' p' pid' w' n'"
  shows "ec_capability_hash c = ec_capability_hash c'" "pid = pid'"
    "(case p of None \<Rightarrow> 0 | Some q \<Rightarrow> pf_version q) = (case p' of None \<Rightarrow> 0 | Some q \<Rightarrow> pf_version q)"
    "w_version w = w_version w'" "wn_config_version n = wn_config_version n'"
proof -
  from assms have "dedup_payload sha c p pid w n = dedup_payload sha c' p' pid' w' n'"
    by (auto simp: snapshot_dedup_key_def dest: injD)
  then show "ec_capability_hash c = ec_capability_hash c'" "pid = pid'"
    "(case p of None \<Rightarrow> 0 | Some q \<Rightarrow> pf_version q) = (case p' of None \<Rightarrow> 0 | Some q \<Rightarrow> pf_version q)"
    "w_version w = w_version w'" "wn_config_version n = wn_config_version n'"
    by (simp_all add: dedup_payload_def)
qed

definition hashed :: "(dict \<Rightarrow> string) \<Rightarrow> effective_config \<Rightarrow> bool" where
  "hashed digest c \<longleftrightarrow> ec_capability_hash c = compute_capability_hash digest c"

lemma resolve_config_hashed: "resolve_config repr digest gw tools skills w p n = Inr c \<Longrightarrow> hashed digest c"
  by (auto simp: resolve_config_def Let_def hashed_def compute_capability_hash_def capability_payload_def)

text \<open>Two configurations with one key are described by the same snapshots.\<close>

lemma describes_same_key:
  assumes "inj digest" "hashed digest c" "hashed digest c'" "describes y c p pid w n"
    and "snapshot_dedup_key digest sha c p pid w n = snapshot_dedup_key digest sha c' p' pid' w' n'"
  shows "describes y c' p' pid' w' n'"
proof -
  note k = dedup_key_inj [OF assms(1,5)]
  from k(1) assms(2,3) have "compute_capability_hash digest c = compute_capability_hash digest c'" by (simp add: hashed_def)
  from capability_hash_inj [OF assms(1) this] k assms(4) show ?thesis
    by (simp add: describes_def same_up_to_order_def)
qed

section \<open>Building a snapshot\<close>

definition honest :: "(dict \<Rightarrow> string) \<Rightarrow> (string \<Rightarrow> string) \<Rightarrow> work_db \<Rightarrow> bool" where
  "honest digest sha db \<longleftrightarrow>
    (\<forall>y \<in> set (wk_snapshots db). \<exists>c p pid w n. hashed digest c \<and> describes y c p pid w n \<and>
      sn_dedup_key y = snapshot_dedup_key digest sha c p pid w n)"

lemma get_by_dedup_key_Some: "get_by_dedup_key k db = Some y \<Longrightarrow> y \<in> set (wk_snapshots db) \<and> sn_dedup_key y = k"
  using lookup_row_Some [of sn_dedup_key k "wk_snapshots db" y] by (auto simp: get_by_dedup_key_def split: if_splits)

lemma fresh_snapshot_describes:
  "describes (fresh_snapshot repr sha assemble service db cfg p w n key) cfg p (session_profile_id w n) w n"
  "sn_dedup_key (fresh_snapshot repr sha assemble service db cfg p w n key) = key"
  by (simp_all add: describes_def fresh_snapshot_def Let_def same_up_to_order_def)

lemma snapshot_row_describes: "describes (snapshot_row now hex x) cfg p pid w n = describes x cfg p pid w n"
  by (simp add: describes_def snapshot_row_def)

lemma build_snapshot_cases:
  assumes "build_snapshot repr digest sha assemble service now hex wid sid reuse db = Inr (y, db')"
  obtains w n cfg where "workspace_get wid False db = Inr w" "get_owned wid sid db = Inr n"
    "resolve_config repr digest (rs_gateway_config service) (Some (rs_tools service)) (Some (rs_skills service)) w
       (load_profile (session_profile_id w n) db) (Some n) = Inr cfg"
    "reuse \<and> get_by_dedup_key (snapshot_dedup_key digest sha cfg (load_profile (session_profile_id w n) db)
         (session_profile_id w n) w n) db = Some y \<and> db' = db \<or>
     reuse \<and> snapshot_get_or_create now hex (fresh_snapshot repr sha assemble service db cfg
         (load_profile (session_profile_id w n) db) w n (snapshot_dedup_key digest sha cfg
           (load_profile (session_profile_id w n) db) (session_profile_id w n) w n)) db = Inr (y, db') \<and>
       get_by_dedup_key (snapshot_dedup_key digest sha cfg (load_profile (session_profile_id w n) db)
         (session_profile_id w n) w n) db = None \<or>
     \<not> reuse \<and> y = fresh_snapshot repr sha assemble service db cfg (load_profile (session_profile_id w n) db) w n
         (snapshot_dedup_key digest sha cfg (load_profile (session_profile_id w n) db) (session_profile_id w n) w n) \<and>
       db' = db"
proof -
  from assms obtain w n cfg where wn: "workspace_get wid False db = Inr w" "get_owned wid sid db = Inr n"
    "resolve_config repr digest (rs_gateway_config service) (Some (rs_tools service)) (Some (rs_skills service)) w
       (load_profile (session_profile_id w n) db) (Some n) = Inr cfg"
    and r: "(case (if reuse then get_by_dedup_key (snapshot_dedup_key digest sha cfg
              (load_profile (session_profile_id w n) db) (session_profile_id w n) w n) db else None) of
           Some y \<Rightarrow> Inr (y, db)
         | None \<Rightarrow>
             if reuse then snapshot_get_or_create now hex (fresh_snapshot repr sha assemble service db cfg
               (load_profile (session_profile_id w n) db) w n (snapshot_dedup_key digest sha cfg
                 (load_profile (session_profile_id w n) db) (session_profile_id w n) w n)) db
             else Inr (fresh_snapshot repr sha assemble service db cfg
               (load_profile (session_profile_id w n) db) w n (snapshot_dedup_key digest sha cfg
                 (load_profile (session_profile_id w n) db) (session_profile_id w n) w n), db)) = Inr (y, db')"
    unfolding build_snapshot_def Let_def bindE_eq_Inr by blast
  show ?thesis
  proof (rule that [OF wn], cases reuse)
    case True
    show "reuse \<and> get_by_dedup_key (snapshot_dedup_key digest sha cfg (load_profile (session_profile_id w n) db)
         (session_profile_id w n) w n) db = Some y \<and> db' = db \<or>
     reuse \<and> snapshot_get_or_create now hex (fresh_snapshot repr sha assemble service db cfg
         (load_profile (session_profile_id w n) db) w n (snapshot_dedup_key digest sha cfg
           (load_profile (session_profile_id w n) db) (session_profile_id w n) w n)) db = Inr (y, db') \<and>
       get_by_dedup_key (snapshot_dedup_key digest sha cfg (load_profile (session_profile_id w n) db)
         (session_profile_id w n) w n) db = None \<or>
     \<not> reuse \<and> y = fresh_snapshot repr sha assemble service db cfg (load_profile (session_profile_id w n) db) w n
         (snapshot_dedup_key digest sha cfg (load_profile (session_profile_id w n) db) (session_profile_id w n) w n) \<and>
       db' = db"
      using r True by (simp split: option.splits)
  qed (use r in auto)
qed

lemma get_or_create_new:
  assumes "snapshot_get_or_create now hex x db = Inr (y, db')" "sn_dedup_key x = key" "key \<noteq> []"
    "get_by_dedup_key key db = None"
  shows "y = snapshot_row now hex x" "sn_dedup_key y = key" "db' = db\<lparr>wk_snapshots := wk_snapshots db @ [y]\<rparr>"
proof -
  from assms have "insert_snapshot (snapshot_row now hex x) db = Inr db' \<and> y = snapshot_row now hex x"
    by (auto simp: snapshot_get_or_create_def snapshot_key_def split: sum.splits if_splits)
  with insert_snapshot_Inr assms(2,3) show "y = snapshot_row now hex x" "sn_dedup_key y = key"
    "db' = db\<lparr>wk_snapshots := wk_snapshots db @ [y]\<rparr>"
    by (auto simp: snapshot_row_def snapshot_key_def)
qed

lemma dedup_key_nonempty [simp]: "snapshot_dedup_key digest sha cfg p pid w n \<noteq> []"
  by (simp add: snapshot_dedup_key_def)

lemma build_snapshot_describes:
  assumes inj: "inj digest" and h: "honest digest sha db"
    and b: "build_snapshot repr digest sha assemble service now hex wid sid reuse db = Inr (y, db')"
  shows "\<exists>w n cfg. workspace_get wid False db = Inr w \<and> get_owned wid sid db = Inr n \<and>
    resolve_config repr digest (rs_gateway_config service) (Some (rs_tools service)) (Some (rs_skills service)) w
       (load_profile (session_profile_id w n) db) (Some n) = Inr cfg \<and>
    describes y cfg (load_profile (session_profile_id w n) db) (session_profile_id w n) w n \<and>
    honest digest sha db' \<and> db' = db\<lparr>wk_snapshots := wk_snapshots db'\<rparr>"
proof -
  from b obtain w n cfg where wn: "workspace_get wid False db = Inr w" "get_owned wid sid db = Inr n"
    and cfg: "resolve_config repr digest (rs_gateway_config service) (Some (rs_tools service)) (Some (rs_skills service)) w
       (load_profile (session_profile_id w n) db) (Some n) = Inr cfg" (is "?resolve = _")
    and c: "reuse \<and> get_by_dedup_key (snapshot_dedup_key digest sha cfg (load_profile (session_profile_id w n) db)
         (session_profile_id w n) w n) db = Some y \<and> db' = db \<or>
     reuse \<and> snapshot_get_or_create now hex (fresh_snapshot repr sha assemble service db cfg
         (load_profile (session_profile_id w n) db) w n (snapshot_dedup_key digest sha cfg
           (load_profile (session_profile_id w n) db) (session_profile_id w n) w n)) db = Inr (y, db') \<and>
       get_by_dedup_key (snapshot_dedup_key digest sha cfg (load_profile (session_profile_id w n) db)
         (session_profile_id w n) w n) db = None \<or>
     \<not> reuse \<and> y = fresh_snapshot repr sha assemble service db cfg (load_profile (session_profile_id w n) db) w n
         (snapshot_dedup_key digest sha cfg (load_profile (session_profile_id w n) db) (session_profile_id w n) w n) \<and>
       db' = db"
    by (rule build_snapshot_cases)
  define pid where "pid = session_profile_id w n"
  define p where "p = load_profile pid db"
  define key where "key = snapshot_dedup_key digest sha cfg p pid w n"
  define x where "x = fresh_snapshot repr sha assemble service db cfg p w n key"
  note hashed = resolve_config_hashed [OF cfg]
  have x: "describes x cfg p pid w n" "sn_dedup_key x = key"
    unfolding x_def pid_def by (rule fresh_snapshot_describes)+
  have key: "key \<noteq> []" by (simp add: key_def)
  have "describes y cfg p pid w n \<and> honest digest sha db' \<and> db' = db\<lparr>wk_snapshots := wk_snapshots db'\<rparr>"
  proof -
    consider (reused) "get_by_dedup_key key db = Some y" "db' = db"
      | (stored) "snapshot_get_or_create now hex x db = Inr (y, db')" "get_by_dedup_key key db = None"
      | (plain) "y = x" "db' = db"
      using c unfolding pid_def [symmetric] p_def [symmetric] key_def [symmetric] x_def [symmetric] by metis
    then show ?thesis
    proof cases
      case reused
      from get_by_dedup_key_Some [OF reused(1)] have in_db: "y \<in> set (wk_snapshots db)" and ky: "sn_dedup_key y = key" by auto
      from h in_db obtain c' q i v m where y: "hashed digest c'" "describes y c' q i v m"
        "sn_dedup_key y = snapshot_dedup_key digest sha c' q i v m"
        unfolding honest_def by blast
      from y(3) ky have same: "snapshot_dedup_key digest sha c' q i v m = snapshot_dedup_key digest sha cfg p pid w n"
        by (simp add: key_def)
      from describes_same_key [OF inj y(1) hashed y(2) same] reused(2) h show ?thesis by simp
    next
      case stored
      note r = get_or_create_new [OF stored(1) x(2) key stored(2)]
      from r(1) x(1) have y: "describes y cfg p pid w n" by (simp add: snapshot_row_describes)
      have "honest digest sha db'"
        unfolding honest_def
      proof
        fix z assume "z \<in> set (wk_snapshots db')"
        with r(3) consider "z = y" | "z \<in> set (wk_snapshots db)" by auto
        then show "\<exists>c p pid w n. hashed digest c \<and> describes z c p pid w n \<and>
            sn_dedup_key z = snapshot_dedup_key digest sha c p pid w n"
          using y r(2) hashed h unfolding honest_def key_def by cases blast+
      qed
      with y r(3) show ?thesis by simp
    next
      case plain
      with x(1) h show ?thesis by simp
    qed
  qed
  with wn cfg show ?thesis unfolding p_def pid_def by blast
qed

lemma only_snapshots [simp]:
  "workspace_get wid i (db\<lparr>wk_snapshots := xs\<rparr>) = workspace_get wid i db"
  "get_owned wid sid (db\<lparr>wk_snapshots := xs\<rparr>) = get_owned wid sid db"
  "load_profile pid (db\<lparr>wk_snapshots := xs\<rparr>) = load_profile pid db"
  by (simp_all add: workspace_get_def get_owned_def load_profile_def profile_get_def)

text \<open>
  A snapshot that describes the configuration in force is not stale for the workspace and
  the session it was built for, unless their profile is gone.
\<close>

lemma describes_not_stale:
  assumes "describes y cfg (load_profile pid db) pid w n"
  shows "is_stale y (Some w) (Some n) db \<longleftrightarrow> pid \<noteq> [] \<and> load_profile pid db = None"
  using assms by (auto simp: is_stale_def describes_def split: option.splits)

text \<open>Sessions of one workspace with the same settings get one snapshot.\<close>

definition same_settings :: "work_session \<Rightarrow> work_session \<Rightarrow> bool" where
  "same_settings n m \<longleftrightarrow> wn_model n = wn_model m \<and> wn_permission_mode n = wn_permission_mode m \<and>
    wn_chat_mode n = wn_chat_mode m \<and> wn_reasoning n = wn_reasoning m \<and> wn_profile n = wn_profile m \<and>
    wn_config_version n = wn_config_version m"

lemma same_settings_config:
  "same_settings n m \<Longrightarrow> resolve_config repr digest gw tools skills w p (Some m) =
    resolve_config repr digest gw tools skills w p (Some n)"
  by (simp add: resolve_config_def of_session_def same_settings_def)

lemma same_settings_key:
  "same_settings n m \<Longrightarrow> snapshot_dedup_key digest sha cfg p pid w m = snapshot_dedup_key digest sha cfg p pid w n \<and>
    session_profile_id w m = session_profile_id w n"
  by (simp add: snapshot_dedup_key_def dedup_payload_def same_settings_def session_profile_id_def)

lemma build_snapshot_shared:
  assumes b: "build_snapshot repr digest sha assemble service now hex wid sid True db = Inr (y, db')"
    and n: "get_owned wid sid db = Inr n" and m: "get_owned wid sid' db = Inr m" and s: "same_settings n m"
  shows "build_snapshot repr digest sha assemble service now' hex' wid sid' True db' = Inr (y, db')"
proof -
  from b obtain w n0 cfg where wn: "workspace_get wid False db = Inr w" "get_owned wid sid db = Inr n0"
    and cfg: "resolve_config repr digest (rs_gateway_config service) (Some (rs_tools service)) (Some (rs_skills service)) w
       (load_profile (session_profile_id w n0) db) (Some n0) = Inr cfg"
    and c: "True \<and> get_by_dedup_key (snapshot_dedup_key digest sha cfg (load_profile (session_profile_id w n0) db)
         (session_profile_id w n0) w n0) db = Some y \<and> db' = db \<or>
     True \<and> snapshot_get_or_create now hex (fresh_snapshot repr sha assemble service db cfg
         (load_profile (session_profile_id w n0) db) w n0 (snapshot_dedup_key digest sha cfg
           (load_profile (session_profile_id w n0) db) (session_profile_id w n0) w n0)) db = Inr (y, db') \<and>
       get_by_dedup_key (snapshot_dedup_key digest sha cfg (load_profile (session_profile_id w n0) db)
         (session_profile_id w n0) w n0) db = None \<or>
     \<not> True \<and> y = fresh_snapshot repr sha assemble service db cfg (load_profile (session_profile_id w n0) db) w n0
         (snapshot_dedup_key digest sha cfg (load_profile (session_profile_id w n0) db) (session_profile_id w n0) w n0) \<and>
       db' = db"
    by (rule build_snapshot_cases)
  define key where "key = snapshot_dedup_key digest sha cfg (load_profile (session_profile_id w n0) db) (session_profile_id w n0) w n0"
  from n wn(2) have n0: "n0 = n" by simp
  have r: "get_by_dedup_key key db' = Some y \<and> db' = db\<lparr>wk_snapshots := wk_snapshots db'\<rparr>"
    using c unfolding key_def [symmetric]
  proof (elim disjE conjE)
    assume g: "snapshot_get_or_create now hex (fresh_snapshot repr sha assemble service db cfg
         (load_profile (session_profile_id w n0) db) w n0 key) db = Inr (y, db')" and none: "get_by_dedup_key key db = None"
    have key: "key \<noteq> []" by (simp add: key_def)
    note new = get_or_create_new [OF g fresh_snapshot_describes(2) key none]
    from none key have "lookup_row sn_dedup_key key (wk_snapshots db) = None" by (simp add: get_by_dedup_key_def)
    with new(2,3) key show ?thesis by (simp add: get_by_dedup_key_def lookup_row_append)
  qed simp_all
  then obtain xs where db': "db' = db\<lparr>wk_snapshots := xs\<rparr>" and k: "get_by_dedup_key key db' = Some y" by blast
  have "workspace_get wid False db' = Inr w" "get_owned wid sid' db' = Inr m" using wn m by (simp_all add: db')
  moreover have "resolve_config repr digest (rs_gateway_config service) (Some (rs_tools service)) (Some (rs_skills service)) w
       (load_profile (session_profile_id w m) db') (Some m) = Inr cfg"
    using cfg same_settings_config [OF s] same_settings_key [OF s] by (simp add: db' n0)
  moreover have "snapshot_dedup_key digest sha cfg (load_profile (session_profile_id w m) db') (session_profile_id w m) w m = key"
    using same_settings_key [OF s] by (simp add: key_def db' n0)
  ultimately show ?thesis using k by (simp add: build_snapshot_def Let_def)
qed

section \<open>Runs with snapshots\<close>

text \<open>
  What the gateway does to the tables: commands of the stores, and snapshots built by the
  runtime service, which is the only caller of the snapshot store.
\<close>

fun saves_snapshot :: "work_cmd \<Rightarrow> bool" where
  "saves_snapshot (Save_Snapshot _ _) = True"
| "saves_snapshot _ = False"

inductive service_reachable ::
    "(json \<Rightarrow> string) \<Rightarrow> (dict \<Rightarrow> string) \<Rightarrow> (string \<Rightarrow> string) \<Rightarrow> (work_db \<Rightarrow> runtime_snapshot \<Rightarrow> string) \<Rightarrow>
      work_db \<Rightarrow> bool" for repr digest sha assemble where
  service_start: "service_reachable repr digest sha assemble empty_work_db"
| service_command: "service_reachable repr digest sha assemble db \<Longrightarrow> cmd_ok c \<Longrightarrow> \<not> saves_snapshot c \<Longrightarrow>
    service_reachable repr digest sha assemble (work_exec repr now c db)"
| service_build: "service_reachable repr digest sha assemble db \<Longrightarrow>
    build_snapshot repr digest sha assemble service now hex wid sid True db = Inr (y, db') \<Longrightarrow>
    service_reachable repr digest sha assemble db'"

lemma commands_keep_honest:
  assumes "honest digest sha db" "\<not> saves_snapshot c"
  shows "honest digest sha (work_exec repr now c db)"
proof -
  have K: "honest digest sha (keep db r)" if "\<And>a db'. r = Inr (a, db') \<Longrightarrow> wk_snapshots db' = wk_snapshots db"
    for r :: "work_error + ('b \<times> work_db)"
    using that assms(1) by (auto simp: keep_def honest_def split: sum.split)
  have I: "insert_work_session n d = Inr d' \<Longrightarrow> wk_snapshots d' = wk_snapshots d"
    "insert_workspace now w d = Inr d' \<Longrightarrow> wk_snapshots d' = wk_snapshots d" for n w d d'
    by (auto simp: insert_work_session_def insert_workspace_def if_Inr)
  have W: "workspace_create now hex w first db = Inr (w', db') \<Longrightarrow> wk_snapshots db' = wk_snapshots db" for hex w first w' db'
    using I by (fastforce simp: workspace_create_def Let_def split: option.splits)
  show ?thesis
  proof (cases "on_profiles c")
    case True
    from profile_command_frame [OF True, of db repr now] assms(1) show ?thesis by (simp add: same_rest_def honest_def)
  next
    case False
    have H: "honest digest sha (db\<lparr>wk_sessions := ns\<rparr>)" for ns using assms(1) by (simp add: honest_def)
    have D: "honest digest sha (keep db (workspace_delete now wid db))" for wid
      using assms(1) by (auto simp: keep_def workspace_delete_def honest_def set_sql_delete bindE_def split: sum.split)
    from False assms show ?thesis
      by (cases c) (auto intro!: K H D dest: W I simp: create_with_first_session_def workspace_update_def workspace_write_def
          workspace_archive_def session_create_def update_runtime_overrides_def session_archive_def
          set_busy_def try_set_busy_def reset_stale_busy_def touch_snapshot_def if_Inr Let_def)
  qed
qed

lemma service_reachable_ok:
  assumes "service_reachable repr digest sha assemble db" "inj digest"
  shows "work_ok db \<and> honest digest sha db"
  using assms(1)
proof (induction rule: service_reachable.induct)
  case service_start
  then show ?case by (simp add: empty_work_ok) (simp add: honest_def empty_work_db_def)
next
  case (service_command db c now)
  then show ?case by (simp add: work_exec_ok commands_keep_honest)
next
  case (service_build db service now hex wid sid y db')
  then have "honest digest sha db'" using build_snapshot_describes [OF assms(2) _ service_build(2)] by blast
  moreover from service_build(2) have "db' = db \<or> (\<exists>x. snapshot_get_or_create now hex x db = Inr (y, db'))"
    by (rule build_snapshot_cases) auto
  ultimately show ?case using service_build(3) snapshot_get_or_create_ok by blast
qed

end
