(* ===== verification/Work_Api.thy ===== *)
theory Work_Api
  imports Work_Frozen
begin

text \<open>
  The HTTP handlers of agent profiles (\<open>gateway/webui/api_agents.py\<close>) and the handlers of
  \<open>gateway/webui/api_workspace.py\<close> that are about sessions and configuration. A body is a
  JSON object. \<open>Refused\<close> is an error response with its status and code (its text is left
  out); \<open>Crashed\<close> is an exception that leaves the handler, which the server answers with
  status 500.
\<close>

datatype response = Reply nat json | Refused nat string | Crashed work_error

text \<open>\<open>_handle_store_error\<close> for the classes an \<open>except\<close> clause names; others leave the handler.\<close>

definition handled :: "store_class set \<Rightarrow> work_error \<Rightarrow> response" where
  "handled classes e =
    (case e of
       StoreFailure c s \<Rightarrow> if c \<in> classes then Refused (store_status c) (store_code c s) else Crashed e
     | _ \<Rightarrow> Crashed e)"

definition answer ::
    "store_class set \<Rightarrow> nat \<Rightarrow> ('a \<Rightarrow> json) \<Rightarrow> work_db \<Rightarrow> work_error + ('a \<times> work_db) \<Rightarrow> response \<times> work_db" where
  "answer classes status f db r =
    (case r of Inl e \<Rightarrow> (handled classes e, db) | Inr (a, db') \<Rightarrow> (Reply status (f a), db'))"

definition profile_json :: "agent_profile \<Rightarrow> json" where
  "profile_json p = JObj (profile_to_dict p)"

definition session_json :: "work_session \<Rightarrow> json" where
  "session_json n = JObj (session_to_dict n)"

definition all_classes :: "store_class set" where
  "all_classes = {WorkspaceStoreFailure, NoWorkspace, NoAgentProfile, NoWorkspaceSession, Version_Conflict,
    Reference_Conflict, Invalid, Store_Busy}"

section \<open>Agent profiles\<close>

text \<open>The fields of the dataclass \<open>AgentProfile\<close>.\<close>

definition PROFILE_FIELDS :: "string list" where
  "PROFILE_FIELDS = [''profile_id'', ''name'', ''description'', ''system_prompt'', ''tools'', ''skills'',
    ''mcp_servers'', ''default_model'', ''permission_mode'', ''chat_mode'', ''max_steps'', ''include_tools'',
    ''exclude_tools'', ''ui_preferences'', ''status'', ''version'', ''is_system'', ''created_at'', ''updated_at'',
    ''archived_at'']"

definition agents_list :: "string \<Rightarrow> string \<Rightarrow> int \<Rightarrow> int \<Rightarrow> work_db \<Rightarrow> response" where
  "agents_list status q limit offset db =
    (case profile_list status q limit offset db of
       Inr items \<Rightarrow> Reply 200 (JObj [(''agents'', JList (map profile_json items)),
         (''total'', JInt (int (profile_count status q db))), (''limit'', JInt limit), (''offset'', JInt offset)])
     | Inl e \<Rightarrow>
         (case e of
            StoreFailure c s \<Rightarrow> handled all_classes e
          | Bad_Value \<Rightarrow> Refused 500 ''AGENT_PROFILE_DATA_INVALID''
          | Bad_Type \<Rightarrow> Refused 500 ''AGENT_PROFILE_DATA_INVALID''
          | _ \<Rightarrow> Crashed e))"

definition agents_create ::
    "(json \<Rightarrow> string) \<Rightarrow> string \<Rightarrow> string \<Rightarrow> string \<Rightarrow> dict \<Rightarrow> work_db \<Rightarrow> response \<times> work_db" where
  "agents_create repr now uuid hex body db =
    (let known = dput ''is_system'' (JBool False) (filter (\<lambda>(k, _). k \<in> set PROFILE_FIELDS) body);
       named = dput ''profile_id'' (jor (dget known ''profile_id'') (JStr (''agent_'' @ uuid))) known
     in if \<not> truthy (dget named ''name'') then (Refused 400 ''NAME_REQUIRED'', db)
        else answer all_classes 201 profile_json db
          (bindE (profile_from_dict repr named) (\<lambda>p. profile_create now hex p db)))"

definition agents_get :: "string \<Rightarrow> work_db \<Rightarrow> response" where
  "agents_get pid db =
    (case profile_get pid False db of Inr p \<Rightarrow> Reply 200 (profile_json p) | Inl e \<Rightarrow> handled {NoAgentProfile} e)"

definition agents_patch :: "dict \<Rightarrow> dict" where
  "agents_patch body = filter (\<lambda>(k, _). k \<in> set PROFILE_FIELDS \<and> k \<noteq> ''profile_id'' \<and> k \<noteq> ''is_system'') body"

definition agents_update ::
    "(json \<Rightarrow> string) \<Rightarrow> string \<Rightarrow> string \<Rightarrow> string \<Rightarrow> dict \<Rightarrow> work_db \<Rightarrow> response \<times> work_db" where
  "agents_update repr now hex pid body db =
    answer all_classes 200 profile_json db
      (bindE (profile_get pid False db) (\<lambda>_.
        profile_update repr now hex pid (agents_patch body) (dget body ''version'') db))"

text \<open>\<open>name\<close> is the text the body gives, if it gives one.\<close>

definition agents_duplicate ::
    "(json \<Rightarrow> string) \<Rightarrow> string \<Rightarrow> string \<Rightarrow> string \<Rightarrow> string \<Rightarrow> string option \<Rightarrow> work_db \<Rightarrow> response \<times> work_db" where
  "agents_duplicate repr now hex hex' pid name db =
    answer {NoAgentProfile, Invalid} 201 profile_json db (profile_duplicate repr now hex hex' pid name db)"

definition agents_references :: "string \<Rightarrow> work_db \<Rightarrow> response" where
  "agents_references pid db =
    (case profile_references pid db of
       Inr refs \<Rightarrow> Reply 200 (JObj [(''references'', JList (map (\<lambda>w. JObj
         [(''workspace_id'', JStr (w_id w)), (''name'', JStr (w_name w)), (''status'', JStr (w_status w))]) refs))])
     | Inl e \<Rightarrow> handled {NoAgentProfile} e)"

definition status_classes :: "store_class set" where
  "status_classes = {NoAgentProfile, Version_Conflict, Reference_Conflict, Invalid}"

definition agents_archive :: "string \<Rightarrow> string \<Rightarrow> string \<Rightarrow> dict \<Rightarrow> work_db \<Rightarrow> response \<times> work_db" where
  "agents_archive now hex pid body db =
    answer status_classes 200 profile_json db (profile_archive now hex pid (dget body ''version'') db)"

definition agents_activate :: "string \<Rightarrow> string \<Rightarrow> string \<Rightarrow> dict \<Rightarrow> work_db \<Rightarrow> response \<times> work_db" where
  "agents_activate now hex pid body db =
    answer status_classes 200 profile_json db (profile_activate now hex pid (dget body ''version'') db)"

definition agents_delete :: "string \<Rightarrow> string \<Rightarrow> string \<Rightarrow> dict \<Rightarrow> work_db \<Rightarrow> response \<times> work_db" where
  "agents_delete now hex pid body db =
    answer status_classes 200 profile_json db (profile_delete now hex pid (dget body ''version'') db)"

section \<open>Workspaces and sessions\<close>

definition validate_session_agent :: "(json \<Rightarrow> string) \<Rightarrow> dict \<Rightarrow> work_db \<Rightarrow> response + agent_profile" where
  "validate_session_agent repr payload db =
    (let pid = strip (text_field repr payload ''agent_profile_id'' [])
     in if pid = [] then Inl (Refused 400 ''AGENT_PROFILE_REQUIRED'')
        else
          (case profile_get pid False db of
             Inl e \<Rightarrow> Inl (handled all_classes e)
           | Inr p \<Rightarrow>
               if pf_status p \<noteq> ''active'' then Inl (Refused 409 ''AGENT_PROFILE_INACTIVE'') else Inr p))"

definition workspaces_get :: "string \<Rightarrow> work_db \<Rightarrow> response" where
  "workspaces_get wid db =
    (case workspace_get wid False db of
       Inr w \<Rightarrow> Reply 200 (JObj (workspace_to_dict w))
     | Inl e \<Rightarrow> handled {NoWorkspace} e)"

definition workspaces_archive :: "string \<Rightarrow> string \<Rightarrow> dict \<Rightarrow> work_db \<Rightarrow> response \<times> work_db" where
  "workspaces_archive now wid body db =
    answer {NoWorkspace, Version_Conflict} 200 (\<lambda>w. JObj (workspace_to_dict w)) db
      (workspace_archive now wid (dget body ''version'') db)"

definition sessions_list :: "string \<Rightarrow> string \<Rightarrow> work_db \<Rightarrow> response" where
  "sessions_list wid status db =
    (case list_for_workspace wid status 100 0 db of
       Inr ns \<Rightarrow> Reply 200 (JObj [(''sessions'', JList (map session_json ns))])
     | Inl e \<Rightarrow> handled all_classes e)"

definition sessions_create ::
    "(json \<Rightarrow> string) \<Rightarrow> string \<Rightarrow> string \<Rightarrow> string \<Rightarrow> dict \<Rightarrow> work_db \<Rightarrow> response \<times> work_db" where
  "sessions_create repr now hex wid body db =
    (case validate_session_agent repr body db of
       Inl r \<Rightarrow> (r, db)
     | Inr _ \<Rightarrow> answer {NoWorkspace, Invalid} 201 session_json db (session_create repr now hex wid body db))"

definition sessions_get :: "string \<Rightarrow> string \<Rightarrow> work_db \<Rightarrow> response" where
  "sessions_get wid sid db =
    (case get_owned wid sid db of Inr n \<Rightarrow> Reply 200 (session_json n) | Inl e \<Rightarrow> handled {NoWorkspaceSession} e)"

definition optional_text :: "(json \<Rightarrow> string) \<Rightarrow> json \<Rightarrow> string option" where
  "optional_text repr v = (case v of JNull \<Rightarrow> None | _ \<Rightarrow> Some (py_str repr v))"

definition sessions_update ::
    "(json \<Rightarrow> string) \<Rightarrow> string \<Rightarrow> string \<Rightarrow> string \<Rightarrow> dict \<Rightarrow> work_db \<Rightarrow> response \<times> work_db" where
  "sessions_update repr now wid sid body db =
    answer {NoWorkspaceSession, Store_Busy} 200 session_json db
      (update_runtime_overrides now wid sid None None None None (optional_text repr (dget body ''name'')) False db)"

definition sessions_archive :: "string \<Rightarrow> string \<Rightarrow> string \<Rightarrow> work_db \<Rightarrow> response \<times> work_db" where
  "sessions_archive now wid sid db =
    answer {NoWorkspaceSession, Store_Busy} 200 session_json db (session_archive now wid sid db)"

text \<open>\<open>body.get(k) or None\<close>, turned into a stripped text.\<close>

definition given_text :: "(json \<Rightarrow> string) \<Rightarrow> dict \<Rightarrow> string \<Rightarrow> string option" where
  "given_text repr body k =
    (if truthy (dget body k) then Some (strip (py_str repr (dget body k))) else None)"

definition not_among :: "string list \<Rightarrow> string option \<Rightarrow> bool" where
  "not_among choices x = (case x of None \<Rightarrow> False | Some v \<Rightarrow> v \<notin> set choices)"

text \<open>\<open>_make_apply_config\<close>; \<open>entries\<close> are the stale flags of the sessions in memory.\<close>

definition apply_config ::
    "(json \<Rightarrow> string) \<Rightarrow> string \<Rightarrow> string \<Rightarrow> string \<Rightarrow> dict \<Rightarrow> work_db \<Rightarrow> (string \<times> bool) list \<Rightarrow>
      response \<times> work_db \<times> (string \<times> bool) list" where
  "apply_config repr now wid sid body db entries =
    (case get_owned wid sid db of
       Inl e \<Rightarrow> (handled {NoWorkspaceSession} e, db, entries)
     | Inr session \<Rightarrow>
         if wn_is_busy session then (Refused 409 ''WORKSPACE_SESSION_BUSY'', db, entries)
         else
           (let model = given_text repr body ''model''; mode = given_text repr body ''permission_mode'';
              chat = given_text repr body ''chat_mode'';
              level = map_option (map ascii_lower) (given_text repr body ''reasoning_level'')
            in if model = Some [] then (Refused 400 ''INVALID_MODEL'', db, entries)
               else if not_among VALID_PERMISSION_MODES mode then (Refused 400 ''INVALID_PERMISSION_MODE'', db, entries)
               else if not_among VALID_CHAT_MODES chat then (Refused 400 ''INVALID_CHAT_MODE'', db, entries)
               else if not_among VALID_REASONING_LEVELS level
               then (Refused 400 ''INVALID_REASONING_LEVEL'', db, entries)
               else
                 (case update_runtime_overrides now wid sid model mode chat level None False db of
                    Inl e \<Rightarrow> (handled all_classes e, db, entries)
                  | Inr (n, db') \<Rightarrow> (Reply 200 (session_json n), db', snd (mark_stale wid sid entries)))))"

text \<open>
  \<open>_make_switch\<close>; \<open>agents\<close> are the keys of the sessions whose agent is loaded. The patch is passed on
  as keyword arguments, and \<open>update_runtime_overrides\<close> has none called \<open>agent_profile_id\<close>.
\<close>

definition switched :: "(json \<Rightarrow> string) \<Rightarrow> dict \<Rightarrow> string \<Rightarrow> string option" where
  "switched repr body k = map_option strip (optional_text repr (dget body k))"

definition sessions_switch ::
    "(json \<Rightarrow> string) \<Rightarrow> string \<Rightarrow> string \<Rightarrow> string \<Rightarrow> dict \<Rightarrow> work_db \<Rightarrow> (string \<times> bool) list \<Rightarrow> string list \<Rightarrow>
      response \<times> work_db \<times> (string \<times> bool) list \<times> string list" where
  "sessions_switch repr now wid sid body db entries agents =
    (case get_owned wid sid db of
       Inl e \<Rightarrow> (handled {NoWorkspaceSession} e, db, entries, agents)
     | Inr session \<Rightarrow>
         if wn_is_busy session then (Refused 409 ''WORKSPACE_SESSION_BUSY'', db, entries, agents)
         else
           (let model = switched repr body ''model''; mode = switched repr body ''permission_mode'';
              chat = switched repr body ''chat_mode'';
              level = map_option (map ascii_lower) (switched repr body ''reasoning_level'');
              profile = switched repr body ''agent_profile_id''
            in if model = Some [] then (Refused 400 ''INVALID_MODEL'', db, entries, agents)
               else if not_among VALID_PERMISSION_MODES mode
               then (Refused 400 ''INVALID_PERMISSION_MODE'', db, entries, agents)
               else if not_among VALID_CHAT_MODES chat then (Refused 400 ''INVALID_CHAT_MODE'', db, entries, agents)
               else if not_among VALID_REASONING_LEVELS level
               then (Refused 400 ''INVALID_REASONING_LEVEL'', db, entries, agents)
               else if model = None \<and> mode = None \<and> chat = None \<and> level = None \<and> profile = None
               then (Refused 400 ''NOTHING_TO_SWITCH'', db, entries, agents)
               else if profile \<noteq> None then (Crashed Bad_Type, db, entries, agents)
               else
                 (case update_runtime_overrides now wid sid model mode chat level None False db of
                    Inl e \<Rightarrow> (handled all_classes e, db, entries, agents)
                  | Inr (n, db') \<Rightarrow>
                      (Reply 200 (session_json n), db', snd (mark_stale wid sid entries),
                       if map_of entries (wn_key n) = None then agents else removeAll (wn_key n) agents))))"

end
