(* ===== verification/Work_Props.thy ===== *)
theory Work_Props
  imports Work_Api
begin

text \<open>The properties of the workspaces, with the database their witnesses run on.\<close>

section \<open>An example\<close>

definition no_repr :: "json \<Rightarrow> string" where
  "no_repr v = []"

definition demo_profile :: agent_profile where
  "demo_profile = \<lparr>pf_id = ''c'', pf_name = ''C'', pf_description = [], pf_system_prompt = ''p'',
    pf_tools = [''r'', ''b''], pf_skills = [], pf_mcp_servers = [], pf_default_model = ''m'',
    pf_permission_mode = ''ask'', pf_chat_mode = ''chat'', pf_max_steps = 50, pf_include_tools = [],
    pf_exclude_tools = [], pf_ui_preferences = [], pf_status = ''active'', pf_version = 1, pf_is_system = True,
    pf_created_at = [], pf_updated_at = [], pf_archived_at = []\<rparr>"

definition demo_workspace :: workspace where
  "demo_workspace = \<lparr>w_id = ''w'', w_name = ''D'', w_project_path = ''/p'', w_description = [],
    w_working_directory = ''/p'', w_extra_roots = [], w_default_profile = ''c'', w_default_model = [],
    w_permission_mode = ''ask'', w_chat_mode = ''chat'', w_include_tools = [''e''], w_exclude_tools = [''b''],
    w_include_skills = [], w_exclude_skills = [], w_include_mcp = [], w_exclude_mcp = [], w_ui_preferences = [],
    w_status = ''active'', w_version = 1, w_created_at = [], w_updated_at = [], w_archived_at = [],
    w_risk_level = ''none'', w_path_warnings = []\<rparr>"

definition demo_session :: "string \<Rightarrow> string \<Rightarrow> work_session" where
  "demo_session sid t = blank_session\<lparr>wn_id := sid, wn_workspace := ''w'', wn_key := session_key_of ''w'' sid,
    wn_name := ''s'', wn_created_at := t, wn_updated_at := t\<rparr>"

definition demo_cmds :: "(string \<times> work_cmd) list" where
  "demo_cmds = [(''t1'', Create_Profile demo_profile ''1''),
    (''t2'', Create_With_Session demo_workspace [(''name'', JStr ''s'')] ''1''),
    (''t3'', Create_Session ''w'' [(''name'', JStr ''s'')] ''2'')]"

definition demo_db :: work_db where
  "demo_db =
    (let p = demo_profile\<lparr>pf_created_at := ''t1'', pf_updated_at := ''t1''\<rparr>
     in \<lparr>wk_workspaces = [demo_workspace\<lparr>w_created_at := ''t2'', w_updated_at := ''t2''\<rparr>],
       wk_profiles = [p],
       wk_versions = [\<lparr>pv_id = ''ver_1'', pv_profile = ''c'', pv_version = 1, pv_snapshot = profile_to_dict p,
         pv_created_at = ''t1''\<rparr>],
       wk_sessions = [demo_session ''wss_1'' ''t2'', demo_session ''wss_2'' ''t3''], wk_snapshots = []\<rparr>)"

lemma demo_records_ok: "profile_ok demo_profile" "workspace_ok demo_workspace"
  by code_simp+

lemma demo_run: "work_run no_repr demo_cmds empty_work_db = demo_db"
  by code_simp

lemma demo_cmds_ok: "(now, c) \<in> set demo_cmds \<Longrightarrow> cmd_ok c \<and> \<not> saves_snapshot c"
  by (auto simp: demo_cmds_def demo_records_ok)

lemma work_reachable_run:
  "work_reachable repr db \<Longrightarrow> (\<And>now c. (now, c) \<in> set cs \<Longrightarrow> cmd_ok c) \<Longrightarrow> work_reachable repr (work_run repr cs db)"
proof (induction cs arbitrary: db)
  case (Cons a cs)
  obtain now c where a: "a = (now, c)" by (cases a)
  from Cons.prems(2) [of now c] a have "cmd_ok c" by simp
  with Cons.prems(1) have "work_reachable repr (work_exec repr now c db)" by (rule work_step)
  then have "work_reachable repr (work_run repr cs (work_exec repr now c db))"
    by (rule Cons.IH) (use Cons.prems(2) in auto)
  then show ?case by (simp add: a)
qed simp

lemma service_reachable_run:
  "service_reachable repr digest sha assemble db \<Longrightarrow> (\<And>now c. (now, c) \<in> set cs \<Longrightarrow> cmd_ok c \<and> \<not> saves_snapshot c) \<Longrightarrow>
   service_reachable repr digest sha assemble (work_run repr cs db)"
proof (induction cs arbitrary: db)
  case (Cons a cs)
  obtain now c where a: "a = (now, c)" by (cases a)
  from Cons.prems(2) [of now c] a have "cmd_ok c" "\<not> saves_snapshot c" by simp_all
  with Cons.prems(1) have r: "service_reachable repr digest sha assemble (work_exec repr now c db)"
    by (rule service_command)
  have "service_reachable repr digest sha assemble (work_run repr cs (work_exec repr now c db))"
    by (rule Cons.IH [OF r]) (use Cons.prems(2) in auto)
  then show ?case by (simp add: a)
qed simp

lemma demo_reachable: "work_reachable no_repr demo_db"
  using work_reachable_run [OF work_start] demo_cmds_ok unfolding demo_run [symmetric] by blast

lemma demo_service: "service_reachable no_repr digest sha assemble demo_db"
  using service_reachable_run [OF service_start] demo_cmds_ok unfolding demo_run [symmetric] by blast

definition ok_result :: "work_error + 'a \<Rightarrow> bool" where
  "ok_result r = (case r of Inl _ \<Rightarrow> False | Inr _ \<Rightarrow> True)"

lemma ok_resultE: "ok_result r \<Longrightarrow> (\<And>a. r = Inr a \<Longrightarrow> thesis) \<Longrightarrow> thesis"
  by (auto simp: ok_result_def split: sum.splits)

definition plain_digest :: "dict \<Rightarrow> string" where
  "plain_digest d = []"

text \<open>Two edits of the example's workspace, prepared before either is written.\<close>

definition edit_a :: dict where "edit_a = [(''name'', JStr ''A'')]"
definition edit_b :: dict where "edit_b = [(''description'', JStr ''B'')]"

definition both_edits :: "work_error + (workspace \<times> workspace \<times> work_db \<times> work_db)" where
  "both_edits =
    bindE (workspace_prepare no_repr ''t4'' ''w'' edit_a (JInt 1) demo_db) (\<lambda>a.
    bindE (workspace_prepare no_repr ''t5'' ''w'' edit_b (JInt 1) demo_db) (\<lambda>b.
    bindE (workspace_write ''w'' a demo_db) (\<lambda>db1.
    bindE (workspace_write ''w'' b db1) (\<lambda>db2. Inr (a, b, db1, db2)))))"

lemma demo_deletes: "ok_result (workspace_delete ''t9'' ''w'' demo_db)"
  by code_simp

lemma demo_token: "fst (try_set_busy ''t9'' ''w'' ''wss_1'' demo_db)"
  by code_simp

lemma demo_edits: "ok_result both_edits"
  by code_simp

lemma demo_copies: "ok_result (profile_duplicate no_repr ''t9'' ''3'' ''4'' ''c'' (Some '' '') demo_db)"
  by code_simp

lemma updated_field: "b \<in> set (sql_update Q f rows) \<Longrightarrow> Q b \<Longrightarrow> (\<And>r. Q r \<Longrightarrow> h (f r) = v) \<Longrightarrow> h b = v"
  by (auto simp: set_sql_update split: if_splits)

section \<open>The database\<close>

text \<open>
  C29: In every database that the operations of the workspace stores can make, the keys are
  unique, a session belongs to an existing workspace and has the key made from the two
  identifiers, every stored row is read back as it is (so that no read of a row raises), and
  each profile has exactly one history row for its current version, which holds the profile
  as it stands; older history rows have smaller versions. A copy of a profile is named
  without blanks around the name here; what happens otherwise is stated below.
\<close>

theorem work_database_consistent:
  assumes "work_reachable repr db"
  shows "distinct (map w_id (wk_workspaces db)) \<and> distinct (map pf_id (wk_profiles db)) \<and>
    distinct (map pf_name (wk_profiles db)) \<and> distinct (map wn_id (wk_sessions db)) \<and>
    distinct (map sn_dedup_key (wk_snapshots db)) \<and>
    (\<forall>w \<in> set (wk_workspaces db). workspace_from_row w = Inr w) \<and>
    (\<forall>p \<in> set (wk_profiles db). profile_from_row p = Inr p) \<and>
    (\<forall>n \<in> set (wk_sessions db). session_from_row n = Inr n \<and> wn_key n = session_key_of (wn_workspace n) (wn_id n) \<and>
      wn_workspace n \<in> set (map w_id (wk_workspaces db))) \<and>
    (\<forall>p \<in> set (wk_profiles db). \<exists>!v. v \<in> set (wk_versions db) \<and> pv_profile v = pf_id p \<and> pv_version v = pf_version p) \<and>
    (\<forall>v \<in> set (wk_versions db). \<forall>p \<in> set (wk_profiles db). pv_profile v = pf_id p \<longrightarrow>
      pv_version v \<le> pf_version p \<and>
      (pv_version v = pf_version p \<longrightarrow> (\<exists>c. profile_from_dict repr (pv_snapshot v) = Inr (p\<lparr>pf_created_at := c\<rparr>))))"
proof -
  have ok: "work_ok db" using assms by (rule work_reachable_ok)
  note D = work_okD [OF ok]
  have pf: "profile_ok p" if "p \<in> set (wk_profiles db)" for p using D(2) that by (simp add: table_def)
  have ukp: "unique_key pf_id (wk_profiles db)" using D(2) by (simp add: table_def)
  have ukv: "unique_key (\<lambda>v. (pv_profile v, pv_version v)) (wk_versions db)" using D(4) by (simp add: history_ok_def)
  have rec: "\<exists>v \<in> set (wk_versions db). recorded v p" if "p \<in> set (wk_profiles db)" for p
    using D(4) that by (simp add: history_ok_def)
  have one: "v = v'" if "v \<in> set (wk_versions db)" "v' \<in> set (wk_versions db)" "pv_profile v = pv_profile v'"
    "pv_version v = pv_version v'" for v v'
    using unique_key_eq [OF ukv that(1,2)] that(3,4) by simp
  have hist: "\<exists>!v. v \<in> set (wk_versions db) \<and> pv_profile v = pf_id p \<and> pv_version v = pf_version p"
    if p: "p \<in> set (wk_profiles db)" for p
  proof -
    from rec [OF p] obtain v where "v \<in> set (wk_versions db)" "recorded v p" by blast
    then show ?thesis by (intro ex1I [of _ v]) (auto simp: recorded_def intro: one)
  qed
  have le: "pv_version v \<le> pf_version p"
    if v: "v \<in> set (wk_versions db)" and p: "p \<in> set (wk_profiles db)" "pv_profile v = pf_id p" for v p
  proof -
    from D(4) v obtain q where "q \<in> set (wk_profiles db)" "pf_id q = pv_profile v" "pv_version v \<le> pf_version q"
      unfolding history_ok_def by blast
    with unique_key_eq [OF ukp this(1) p(1)] p(2) show ?thesis by simp
  qed
  have snap: "\<exists>c. profile_from_dict repr (pv_snapshot v) = Inr (p\<lparr>pf_created_at := c\<rparr>)"
    if v: "v \<in> set (wk_versions db)" and p: "p \<in> set (wk_profiles db)" "pv_profile v = pf_id p" "pv_version v = pf_version p" for v p
  proof -
    from rec [OF p(1)] obtain x c where x: "x \<in> set (wk_versions db)" "recorded x p"
      and c: "pv_snapshot x = profile_to_dict (p\<lparr>pf_created_at := c\<rparr>)" by (auto simp: recorded_def)
    with one [OF x(1) v] p have "x = v" by (simp add: recorded_def)
    moreover have "profile_ok (p\<lparr>pf_created_at := c\<rparr>)" using pf [OF p(1)] by (simp add: profile_ok_def)
    ultimately show ?thesis using c profile_round_trip by metis
  qed
  have sess: "session_from_row n = Inr n \<and> wn_key n = session_key_of (wn_workspace n) (wn_id n) \<and>
      wn_workspace n \<in> set (map w_id (wk_workspaces db))" if "n \<in> set (wk_sessions db)" for n
    using D(5) that by (auto simp: table_def session_row_ok_def) (simp add: session_ok_def)
  have ws: "workspace_from_row w = Inr w" if "w \<in> set (wk_workspaces db)" for w
    using D(1) that by (simp add: table_def)
  show ?thesis
    using D hist le snap sess ws pf unfolding table_def unique_key_def by (auto simp del: set_map)
qed

theorem work_database_consistent_witness:
  "distinct (map w_id (wk_workspaces demo_db)) \<and> list_all (\<lambda>p. profile_from_row p = Inr p) (wk_profiles demo_db)"
  using work_database_consistent [OF demo_reachable] unfolding list_all_iff by blast

section \<open>Deletion, the busy flag and the built-in profiles\<close>

lemma held_freed:
  assumes "held wid sid db"
  shows "fst (try_set_busy now wid sid (set_busy t wid sid False db))"
proof -
  from assms obtain n where n: "n \<in> set (wk_sessions db)" "owned wid sid n" by (auto simp: held_def)
  then have "n\<lparr>wn_is_busy := False, wn_updated_at := t\<rparr> \<in> set (wk_sessions (set_busy t wid sid False db))"
    by (auto simp: set_busy_def in_sql_update intro!: bexI [of _ n])
  moreover have "owned wid sid (n\<lparr>wn_is_busy := False, wn_updated_at := t\<rparr>)" using n(2) by (simp add: owned_def)
  ultimately show ?thesis unfolding try_set_busy_def by (force simp: zero_less_iff_neq_zero)
qed

definition later_cmds :: "(string \<times> work_cmd) list" where
  "later_cmds = [(''t6'', Create_Session ''w'' [] ''4''), (''t7'', Create_Workspace demo_workspace)]"

lemma later_cmds_ok: "(t, c) \<in> set later_cmds \<Longrightarrow> cmd_ok c \<and> \<not> gives_back ''w'' ''wss_1'' c \<and> \<not> updates_profile ''c'' c"
  by (auto simp: later_cmds_def demo_records_ok)

text \<open>
  C33: Deleting a workspace is final. Its snapshots are gone at once, and after any further
  operations of the stores the workspace is not found, and neither is any of its sessions:
  no operation brings it back, and its identifier cannot be used again.
\<close>

theorem deleted_workspace_final:
  assumes "work_reachable repr db" "workspace_delete now wid db = Inr (w, db')"
    and "\<And>t c. (t, c) \<in> set cs \<Longrightarrow> cmd_ok c"
  shows "wid \<notin> sn_workspace ` set (wk_snapshots db') \<and>
    workspace_get wid False (work_run repr cs db') = Inl (StoreFailure NoWorkspace []) \<and>
    get_owned wid sid (work_run repr cs db') = Inl (StoreFailure NoWorkspaceSession []) \<and>
    wid \<in> w_id ` set (wk_workspaces (work_run repr cs db'))"
proof -
  have ok: "work_ok db" using assms(1) by (rule work_reachable_ok)
  have snap: "wid \<notin> sn_workspace ` set (wk_snapshots db')"
    using assms(2) by (auto simp: workspace_delete_def set_sql_delete)
  have "gone wid (work_run repr cs db')"
    using work_run_inv [of "gone wid" db' cs "\<lambda>_. True" repr] workspace_delete_gone [OF ok assms(2)]
      workspace_delete_ok [OF ok assms(2)] gone_step assms(3) by blast
  then show ?thesis using snap gone_get gone_get_owned by (auto simp: gone_def)
qed

theorem deleted_workspace_final_witness:
  "\<exists>w db'. workspace_delete ''t9'' ''w'' demo_db = Inr (w, db') \<and>
    workspace_get ''w'' False (work_run no_repr later_cmds db') = Inl (StoreFailure NoWorkspace [])"
proof -
  obtain w db' where "workspace_delete ''t9'' ''w'' demo_db = Inr (w, db')"
    using demo_deletes by (auto elim!: ok_resultE)
  with deleted_workspace_final [OF demo_reachable this, of later_cmds] later_cmds_ok show ?thesis by blast
qed

text \<open>
  C30: The busy flag of a session is a token. Once try_set_busy has taken it, every other
  attempt to take it fails, whatever the stores do in between, until set_busy clears the
  flag of this session or the flags are reset at start-up; and when it has been cleared, the
  next attempt takes it.
\<close>

theorem busy_token_exclusive:
  assumes "work_reachable repr db" "fst (try_set_busy now wid sid db)"
    and "\<And>t c. (t, c) \<in> set cs \<Longrightarrow> cmd_ok c \<and> \<not> gives_back wid sid c"
  shows "\<not> fst (try_set_busy now' wid sid (work_run repr cs (snd (try_set_busy now wid sid db)))) \<and>
    fst (try_set_busy now' wid sid (set_busy t wid sid False (work_run repr cs (snd (try_set_busy now wid sid db)))))"
proof -
  have ok: "work_ok (snd (try_set_busy now wid sid db))" using work_reachable_ok [OF assms(1)] by (rule busy_ok)
  have "held wid sid (work_run repr cs (snd (try_set_busy now wid sid db))) \<and>
      work_ok (work_run repr cs (snd (try_set_busy now wid sid db)))"
    by (rule work_run_inv [of "held wid sid" _ cs "\<lambda>c. \<not> gives_back wid sid c"])
      (use try_set_busy_held [OF assms(2)] ok assms(3) held_step in auto)
  then show ?thesis using held_refuses held_freed by blast
qed

theorem busy_token_exclusive_witness:
  "\<not> fst (try_set_busy ''t9'' ''w'' ''wss_1''
      (work_run no_repr later_cmds (snd (try_set_busy ''t9'' ''w'' ''wss_1'' demo_db))))"
  using busy_token_exclusive [OF demo_reachable demo_token, of later_cmds] later_cmds_ok by blast

text \<open>
  C34: A built-in profile cannot be archived, activated or deleted: its row stays as it is
  through every sequence of store operations that has no update of that very profile.
\<close>

theorem built_in_profiles_kept:
  assumes "work_reachable repr db" "p \<in> set (wk_profiles db)" "pf_is_system p"
    and "\<And>t c. (t, c) \<in> set cs \<Longrightarrow> cmd_ok c \<and> \<not> updates_profile (pf_id p) c"
  shows "p \<in> set (wk_profiles (work_run repr cs db))"
proof -
  have ok: "work_ok db" using assms(1) by (rule work_reachable_ok)
  then have "built_in p db"
    using assms(2,3) work_okD(2) [OF ok] by (auto simp: built_in_def table_def intro: lookup_row_unique)
  then have "built_in p (work_run repr cs db)"
    using work_run_inv [of "built_in p" db cs "\<lambda>c. \<not> updates_profile (pf_id p) c" repr] ok assms(4) built_in_step by blast
  then show ?thesis by (auto simp: built_in_def dest: lookup_row_Some)
qed

theorem built_in_profiles_kept_witness:
  "demo_profile\<lparr>pf_created_at := ''t1'', pf_updated_at := ''t1''\<rparr> \<in>
    set (wk_profiles (work_run no_repr (later_cmds @ [(''t9'', Delete_Profile ''c'' JNull ''7'')]) demo_db))"
  by (rule built_in_profiles_kept [OF demo_reachable])
    (use later_cmds_ok in \<open>auto simp: demo_db_def demo_profile_def Let_def\<close>)

end
