(* ===== verification/Work_Snapshots.thy ===== *)
theory Work_Snapshots
  imports Work_Props
begin

text \<open>The properties of the effective configuration and of the runtime snapshots.\<close>

section \<open>The effective capabilities\<close>

definition demo_service_config :: runtime_service where
  "demo_service_config = \<lparr>rs_gateway_config = [(''model'', JStr ''g'')], rs_framework_root = ''/f'',
    rs_tools = [''r'', ''b'', ''e'', ''notes''], rs_skills = []\<rparr>"

definition demo_config :: "(dict \<Rightarrow> string) \<Rightarrow> work_error + effective_config" where
  "demo_config digest = resolve_config no_repr digest [] (Some [''r'', ''b'', ''e'']) (Some []) demo_workspace
    (Some demo_profile) None"

lemma demo_config_made: "ok_result (demo_config plain_digest)"
  by code_simp



section \<open>Building a snapshot\<close>

lemma resolve_config_total:
  "resolve_steps gw p = Inr i \<Longrightarrow> \<exists>cfg. resolve_config repr digest gw tools skills w p n = Inr cfg"
  by (simp add: resolve_config_def Let_def)

text \<open>The first snapshot can always be built, if the versions fit a column.\<close>

lemma build_first_snapshot:
  assumes "wk_snapshots db = []" and w: "workspace_get wid False db = Inr w" and n: "get_owned wid sid db = Inr n"
    and steps: "resolve_steps (rs_gateway_config service) (load_profile (session_profile_id w n) db) = Inr i"
    and fits: "fits64 (w_version w)" "fits64 (wn_config_version n)"
      "fits64 (case load_profile (session_profile_id w n) db of None \<Rightarrow> 0 | Some q \<Rightarrow> pf_version q)"
  shows "\<exists>y db'. build_snapshot repr digest sha assemble service now hex wid sid True db = Inr (y, db') \<and> sn_session y = wn_id n"
proof -
  define p where "p = load_profile (session_profile_id w n) db"
  obtain cfg where cfg: "resolve_config repr digest (rs_gateway_config service) (Some (rs_tools service))
      (Some (rs_skills service)) w p (Some n) = Inr cfg"
    using resolve_config_total [OF steps] unfolding p_def by blast
  define key where "key = snapshot_dedup_key digest sha cfg p (session_profile_id w n) w n"
  define x where "x = fresh_snapshot repr sha assemble service db cfg p w n key"
  have x: "sn_profile_version x = (case p of None \<Rightarrow> 0 | Some q \<Rightarrow> pf_version q)" "sn_workspace_version x = w_version w"
    "sn_config_version x = wn_config_version n" "sn_session x = wn_id n"
    by (simp_all add: x_def fresh_snapshot_def Let_def)
  have none: "get_by_dedup_key k db = None" for k using assms(1) by (simp add: get_by_dedup_key_def)
  obtain db' where i: "insert_snapshot (snapshot_row now hex x) db = Inr db'"
    using fits x assms(1) unfolding p_def by (auto simp: insert_snapshot_def snapshot_row_def insert_row_def)
  have "snapshot_get_or_create now hex x db = Inr (snapshot_row now hex x, db')"
    using i none by (simp add: snapshot_get_or_create_def)
  moreover have "sn_session (snapshot_row now hex x) = wn_id n" using x(4) by (simp add: snapshot_row_def)
  ultimately show ?thesis
    using w n cfg none unfolding build_snapshot_def Let_def p_def [symmetric] key_def [symmetric] x_def [symmetric]
    by (simp add: p_def [symmetric] key_def [symmetric] x_def [symmetric])
qed

definition demo_workspace_row :: workspace where
  "demo_workspace_row = demo_workspace\<lparr>w_created_at := ''t2'', w_updated_at := ''t2''\<rparr>"

lemma demo_rows:
  "workspace_get ''w'' False demo_db = Inr demo_workspace_row"
  "get_owned ''w'' ''wss_1'' demo_db = Inr (demo_session ''wss_1'' ''t2'')"
  "get_owned ''w'' ''wss_2'' demo_db = Inr (demo_session ''wss_2'' ''t3'')"
  "wk_snapshots demo_db = []"
  "wn_id (demo_session ''wss_1'' ''t2'') = ''wss_1''"
  "same_settings (demo_session ''wss_1'' ''t2'') (demo_session ''wss_2'' ''t3'')"
  by code_simp+

lemma demo_builds:
  "\<exists>y db'. build_snapshot no_repr digest sha assemble demo_service_config now hex ''w'' ''wss_1'' True demo_db = Inr (y, db') \<and>
     sn_session y = ''wss_1''"
proof -
  have s: "resolve_steps (rs_gateway_config demo_service_config)
      (load_profile (session_profile_id demo_workspace_row (demo_session ''wss_1'' ''t2'')) demo_db) = Inr 50"
    by code_simp
  have f: "fits64 (w_version demo_workspace_row)" "fits64 (wn_config_version (demo_session ''wss_1'' ''t2''))"
    "fits64 (case load_profile (session_profile_id demo_workspace_row (demo_session ''wss_1'' ''t2'')) demo_db of
       None \<Rightarrow> 0 | Some q \<Rightarrow> pf_version q)"
    by code_simp+
  from build_first_snapshot [OF demo_rows(4,1,2) s f] demo_rows(5) show ?thesis by metis
qed

instance json :: countable
  by countable_datatype

definition unary_digest :: "dict \<Rightarrow> string" where
  "unary_digest d = replicate (to_nat d) (CHR ''x'')"

lemma unary_digest_inj: "inj unary_digest"
proof (rule injI)
  fix d d' assume "unary_digest d = unary_digest d'"
  then have "length (unary_digest d) = length (unary_digest d')" by simp
  then show "d = d'" by (simp add: unary_digest_def)
qed



text \<open>
  C37: Sessions of one workspace with the same settings share a snapshot, because the key has
  neither the session nor the workspace in it: when the first session has built its snapshot,
  the second gets that very record and stores nothing. The first snapshot of a database
  names the session it was built for, so the second session runs with a snapshot that names
  the first one.
\<close>

theorem snapshot_shared:
  assumes "build_snapshot repr digest sha assemble service now hex wid sid True db = Inr (y, db')"
    and "get_owned wid sid db = Inr n" "get_owned wid sid' db = Inr m" "same_settings n m" "wk_snapshots db = []"
  shows "build_snapshot repr digest sha assemble service now' hex' wid sid' True db' = Inr (y, db') \<and> sn_session y = wn_id n"
proof
  show "build_snapshot repr digest sha assemble service now' hex' wid sid' True db' = Inr (y, db')"
    using build_snapshot_shared assms(1-4) .
  from assms(1) obtain w k cfg where k: "get_owned wid sid db = Inr k" and
    c: "\<exists>key x. snapshot_get_or_create now hex x db = Inr (y, db') \<and>
       x = fresh_snapshot repr sha assemble service db cfg (load_profile (session_profile_id w k) db) w k key"
    by (rule build_snapshot_cases) (use assms(5) in \<open>auto simp: get_by_dedup_key_def split: if_splits\<close>)
  from c obtain key x where g: "snapshot_get_or_create now hex x db = Inr (y, db')"
    and x: "x = fresh_snapshot repr sha assemble service db cfg (load_profile (session_profile_id w k) db) w k key" by blast
  from g assms(5) have "y = snapshot_row now hex x"
    by (auto simp: snapshot_get_or_create_def get_by_dedup_key_def split: sum.splits if_splits work_error.splits)
  then show "sn_session y = wn_id n"
    using k assms(2) by (simp add: x snapshot_row_def fresh_snapshot_def Let_def)
qed

theorem snapshot_shared_witness:
  "\<exists>y db'. build_snapshot no_repr plain_digest id (\<lambda>_ _. []) demo_service_config ''t4'' ''1'' ''w'' ''wss_1'' True demo_db = Inr (y, db') \<and>
    build_snapshot no_repr plain_digest id (\<lambda>_ _. []) demo_service_config ''t5'' ''2'' ''w'' ''wss_2'' True db' = Inr (y, db') \<and>
    sn_session y = ''wss_1''"
proof -
  obtain y db' where b: "build_snapshot no_repr plain_digest id (\<lambda>_ _. []) demo_service_config ''t4'' ''1'' ''w'' ''wss_1'' True
      demo_db = Inr (y, db')" using demo_builds by blast
  from b snapshot_shared [OF b demo_rows(2,3,6,4)] demo_rows(5) show ?thesis by metis
qed

section \<open>Staleness\<close>

lemma not_staleD:
  assumes "\<not> is_stale y None None db"
  obtains w n where "workspace_get (sn_workspace y) False db = Inr w" "w_version w = sn_workspace_version y"
    "get_owned (sn_workspace y) (sn_session y) db = Inr n" "wn_config_version n = sn_config_version y"
    "sn_profile y = [] \<or> (\<exists>p. profile_get (sn_profile y) False db = Inr p \<and> pf_version p = sn_profile_version y)"
proof -
  from assms obtain w n where "workspace_get (sn_workspace y) False db = Inr w"
    "get_owned (sn_workspace y) (sn_session y) db = Inr n"
    by (auto simp: is_stale_def split: sum.splits)
  with assms that show ?thesis
    by (auto simp: is_stale_def load_profile_def split: sum.splits option.splits if_splits)
qed

lemma staleI:
  assumes "(\<forall>w. workspace_get (sn_workspace y) False db = Inr w \<longrightarrow> w_version w \<noteq> sn_workspace_version y) \<or>
    (\<forall>n. get_owned (sn_workspace y) (sn_session y) db = Inr n \<longrightarrow> wn_config_version n \<noteq> sn_config_version y) \<or>
    sn_profile y \<noteq> [] \<and> (\<forall>p. profile_get (sn_profile y) False db = Inr p \<longrightarrow> pf_version p \<noteq> sn_profile_version y)"
  shows "is_stale y None None db"
  using assms by (fastforce simp: is_stale_def load_profile_def split: sum.splits option.splits)

lemma workspace_update_version:
  assumes ok: "work_ok db" and u: "workspace_update repr now wid patch ev db = Inr (x, db')"
    and a: "workspace_get wid False db = Inr a" and b: "workspace_get wid False db' = Inr b"
  shows "w_version b = w_version a + 1"
proof -
  from u have p: "workspace_prepare repr now wid patch ev db = Inr x" and w: "workspace_write wid x db = Inr db'"
    by (auto simp: workspace_update_def)
  from workspace_prepare_ok [OF ok p] a have x: "workspace_ok x" "w_version x = w_version a + 1" by auto
  from workspace_get_Inr [OF workspace_write_ok [OF ok x(1) w] b] have "b \<in> set (wk_workspaces db')" "w_id b = wid" by auto
  moreover from w have "wk_workspaces db' = sql_update (\<lambda>r. w_id r = wid)
      (\<lambda>r. x\<lparr>w_id := w_id r, w_created_at := w_created_at r\<rparr>) (wk_workspaces db)"
    by (auto simp: workspace_write_def if_Inr)
  ultimately show ?thesis using x(2) updated_field [where h = w_version] by fastforce
qed

lemma profile_update_version:
  assumes ok: "work_ok db" and u: "profile_update repr now hex pid patch ev db = Inr (x, db')"
    and a: "profile_get pid False db = Inr a" and b: "profile_get pid False db' = Inr b"
  shows "pf_version b = pf_version a + 1"
proof -
  from u have p: "profile_prepare repr now pid patch ev db = Inr x" and w: "profile_write hex pid x db = Inr db'"
    by (auto simp: profile_update_def)
  from profile_prepare_ok [OF ok p] a have x: "pf_version x = pf_version a + 1" by auto
  from w have "wk_profiles db' = sql_update (\<lambda>r. pf_id r = pid)
      (\<lambda>r. x\<lparr>pf_id := pf_id r, pf_created_at := pf_created_at r\<rparr>) (wk_profiles db)"
    by (auto simp: profile_write_def if_Inr dest: insert_profile_version_frame)
  moreover from profile_get_Inr [OF profile_update_ok [OF ok u] b] have "b \<in> set (wk_profiles db')" "pf_id b = pid" by auto
  ultimately show ?thesis using x updated_field [where h = pf_version] by fastforce
qed

lemma override_given: "override_choice clean choices code x = Inr y \<Longrightarrow> y = None \<longleftrightarrow> x = None"
  by (auto simp: override_choice_def if_Inr split: option.splits)

lemma overrides_version:
  assumes ok: "work_ok db"
    and u: "update_runtime_overrides now wid sid model mode chat level name eb db = Inr (x, db')"
    and given: "(model, mode, chat, level, name) \<noteq> (None, None, None, None, None)"
    and a: "get_owned wid sid db = Inr a" and b: "get_owned wid sid db' = Inr b"
  shows "wn_config_version b = wn_config_version a + 1"
proof -
  obtain f where f: "wk_sessions db' = sql_update (owned wid sid) f (wk_sessions db)"
    "\<And>r. wn_config_version (f r) = wn_config_version r + 1" "\<And>r. owned wid sid (f r) = owned wid sid r"
  proof -
    obtain mode' chat' level' where
      m: "override_choice strip VALID_PERMISSION_MODES ''INVALID_PERMISSION_MODE'' mode = Inr mode'"
        "override_choice strip VALID_CHAT_MODES ''INVALID_CHAT_MODE'' chat = Inr chat'"
        "override_choice (\<lambda>v. map ascii_lower (strip v)) VALID_REASONING_LEVELS ''INVALID_REASONING_LEVEL'' level = Inr level'"
      using u unfolding update_runtime_overrides_def bindE_eq_Inr if_Inr by blast
    have "(model, mode', chat', level', name) \<noteq> (None, None, None, None, None)"
      using given m [THEN override_given] by auto
    with u a m have "db' = db\<lparr>wk_sessions := sql_update (owned wid sid)
        (\<lambda>n. n\<lparr>wn_model := override model (wn_model n), wn_permission_mode := override mode' (wn_permission_mode n),
          wn_chat_mode := override chat' (wn_chat_mode n), wn_reasoning := override level' (wn_reasoning n),
          wn_name := override name (wn_name n), wn_config_version := wn_config_version n + 1, wn_updated_at := now\<rparr>)
        (wk_sessions db)\<rparr>" (is "_ = db\<lparr>wk_sessions := sql_update _ ?f _\<rparr>")
      by (auto simp: update_runtime_overrides_def Let_def if_Inr)
    then show ?thesis by (intro that [of ?f]) (simp_all add: owned_def)
  qed
  from get_owned_Inr [OF update_runtime_overrides_ok [OF ok u] b]
  obtain r where r: "r \<in> set (wk_sessions db)" "b = (if owned wid sid r then f r else r)" "owned wid sid b"
    unfolding f(1) by (auto simp: set_sql_update)
  with f(3) have "owned wid sid r" "b = f r" by (auto split: if_splits)
  moreover have "r = a"
    using get_owned_Inr [OF ok a] r(1) calculation(1) work_okD(5) [OF ok] unique_key_eq [of wn_id "wk_sessions db" r a]
    by (auto simp: table_def owned_def)
  ultimately show ?thesis using f(2) by simp
qed

text \<open>
  C32: Changing the settings makes a snapshot stale: after an update of its workspace, of its
  profile or of the settings of its session, a snapshot that was usable before is reported
  as stale, so that the next turn builds a new one.
\<close>

theorem changes_make_stale:
  assumes "work_reachable repr db" "\<not> is_stale y None None db"
    and "(\<exists>patch ev x. workspace_update repr now (sn_workspace y) patch ev db = Inr (x, db')) \<or>
      (\<exists>hex patch ev x. sn_profile y \<noteq> [] \<and> profile_update repr now hex (sn_profile y) patch ev db = Inr (x, db')) \<or>
      (\<exists>model mode chat level name eb x. (model, mode, chat, level, name) \<noteq> (None, None, None, None, None) \<and>
        update_runtime_overrides now (sn_workspace y) (sn_session y) model mode chat level name eb db = Inr (x, db'))"
  shows "is_stale y None None db'"
proof -
  have ok: "work_ok db" using assms(1) by (rule work_reachable_ok)
  obtain w n where w: "workspace_get (sn_workspace y) False db = Inr w" "w_version w = sn_workspace_version y"
    and n: "get_owned (sn_workspace y) (sn_session y) db = Inr n" "wn_config_version n = sn_config_version y"
    and p: "sn_profile y = [] \<or> (\<exists>p. profile_get (sn_profile y) False db = Inr p \<and> pf_version p = sn_profile_version y)"
    using assms(2) by (rule not_staleD)
  from assms(3) show ?thesis
  proof (elim disjE exE conjE)
    fix patch ev x assume u: "workspace_update repr now (sn_workspace y) patch ev db = Inr (x, db')"
    show ?thesis by (intro staleI disjI1) (use workspace_update_version [OF ok u w(1)] w(2) in auto)
  next
    fix hex patch ev x assume i: "sn_profile y \<noteq> []"
      and u: "profile_update repr now hex (sn_profile y) patch ev db = Inr (x, db')"
    from p i obtain q where q: "profile_get (sn_profile y) False db = Inr q" "pf_version q = sn_profile_version y" by blast
    show ?thesis by (intro staleI disjI2 conjI) (use profile_update_version [OF ok u q(1)] q(2) i in auto)
  next
    fix model mode chat level name eb x
    assume g: "(model, mode, chat, level, name) \<noteq> (None, None, None, None, None)"
      and u: "update_runtime_overrides now (sn_workspace y) (sn_session y) model mode chat level name eb db = Inr (x, db')"
    show ?thesis by (intro staleI disjI2 disjI1) (use overrides_version [OF ok u g n(1)] n(2) in auto)
  qed
qed

definition demo_snapshot :: runtime_snapshot where
  "demo_snapshot = fresh_snapshot no_repr id (\<lambda>_ _. []) demo_service_config demo_db
    (case demo_config plain_digest of Inr cfg \<Rightarrow> cfg) (load_profile ''c'' demo_db) demo_workspace_row
    (demo_session ''wss_1'' ''t2'') ''k''"

lemma demo_snapshot_fresh: "\<not> is_stale demo_snapshot None None demo_db"
  by code_simp

lemma demo_override: "ok_result (update_runtime_overrides ''t4'' ''w'' ''wss_1'' (Some ''m'') None None None None True demo_db)"
  by code_simp

lemma demo_snapshot_of: "sn_workspace demo_snapshot = ''w''" "sn_session demo_snapshot = ''wss_1''"
  by code_simp+

theorem changes_make_stale_witness:
  "\<exists>x db'. update_runtime_overrides ''t4'' ''w'' ''wss_1'' (Some ''m'') None None None None True demo_db = Inr (x, db') \<and>
    is_stale demo_snapshot None None db'"
proof -
  obtain x db' where u: "update_runtime_overrides ''t4'' ''w'' ''wss_1'' (Some ''m'') None None None None True demo_db = Inr (x, db')"
    using demo_override by (auto elim!: ok_resultE)
  have "is_stale demo_snapshot None None db'"
    by (rule changes_make_stale [OF demo_reachable demo_snapshot_fresh, where now = "''t4''"])
      (use u in \<open>unfold demo_snapshot_of, blast\<close>)
  with u show ?thesis by blast
qed

end
