(* ===== verification/Work_Api_Props.thy ===== *)
theory Work_Api_Props
  imports Work_Props
begin

text \<open>Properties of the handlers: concurrent edits, and requests that the code does not foresee.\<close>

section \<open>Concurrent edits\<close>

lemma sql_update_again:
  "(\<And>r. Q (f r) = Q r) \<Longrightarrow> (\<And>r. g (f r) = g r) \<Longrightarrow> sql_update Q g (sql_update Q f rows) = sql_update Q g rows"
  by (induction rows) (simp_all add: sql_update_def)

lemma workspace_write_again:
  "workspace_write wid u db = Inr db1 \<Longrightarrow> workspace_write wid v db1 = workspace_write wid v db"
  by (auto simp: workspace_write_def if_Inr sql_update_again)

text \<open>
  C36: The version check of an update is not part of the transaction that writes. If two
  requests that name the same version both pass the check before either writes, both
  writes succeed: the second leaves exactly the row it would have left alone, so the first
  edit is lost, and both carry the same new version number. When the second request reads
  after the first has written, it fails instead.
\<close>

theorem concurrent_updates_overwrite:
  assumes "work_reachable repr db"
    and u: "workspace_prepare repr now wid a (JInt k) db = Inr u"
    and v: "workspace_prepare repr now' wid b (JInt k) db = Inr v"
    and "workspace_write wid u db = Inr db1"
  shows "\<exists>db2. workspace_write wid v db1 = Inr db2 \<and> workspace_write wid v db = Inr db2 \<and> w_version v = w_version u \<and>
    (\<forall>x. workspace_update repr now' wid b (JInt k) db1 \<noteq> Inr x)"
proof -
  have ok: "work_ok db" using assms(1) by (rule work_reachable_ok)
  obtain c where c: "workspace_get wid False db = Inr c" "k = w_version c" "workspace_ok u" "w_version u = w_version c + 1"
    using workspace_prepare_ok [OF ok u] by (auto simp: version_matches_def)
  from workspace_prepare_ok [OF ok v] c(1,4) have ver: "w_version v = w_version u" by auto
  have w: "workspace_write wid v db1 = workspace_write wid v db" using assms(4) by (rule workspace_write_again)
  moreover obtain db2 where "workspace_write wid v db = Inr db2"
    using assms(4) ver by (auto simp: workspace_write_def if_Inr)
  moreover have "workspace_update repr now' wid b (JInt k) db1 \<noteq> Inr x" for x
  proof
    assume "workspace_update repr now' wid b (JInt k) db1 = Inr x"
    then obtain y where p: "workspace_prepare repr now' wid b (JInt k) db1 = Inr y" by (auto simp: workspace_update_def)
    have ok1: "work_ok db1" using workspace_write_ok [OF ok c(3) assms(4)] .
    from workspace_prepare_ok [OF ok1 p] obtain d where d: "workspace_get wid False db1 = Inr d" "w_version d = k"
      by (auto simp: version_matches_def)
    from workspace_get_Inr [OF ok1 d(1)] have "d \<in> set (wk_workspaces db1)" "w_id d = wid" by auto
    moreover from assms(4) have "wk_workspaces db1 = sql_update (\<lambda>r. w_id r = wid)
        (\<lambda>r. u\<lparr>w_id := w_id r, w_created_at := w_created_at r\<rparr>) (wk_workspaces db)"
      by (auto simp: workspace_write_def if_Inr)
    ultimately have "w_version d = w_version u" using updated_field [where h = w_version] by fastforce
    with d(2) c(2,4) show False by simp
  qed
  ultimately show ?thesis using ver by auto
qed

theorem concurrent_updates_overwrite_witness:
  "\<exists>u v db1 db2. workspace_prepare no_repr ''t4'' ''w'' edit_a (JInt 1) demo_db = Inr u \<and>
    workspace_prepare no_repr ''t5'' ''w'' edit_b (JInt 1) demo_db = Inr v \<and>
    workspace_write ''w'' u demo_db = Inr db1 \<and> workspace_write ''w'' v db1 = Inr db2 \<and>
    workspace_write ''w'' v demo_db = Inr db2"
proof -
  obtain u v db1 where e: "workspace_prepare no_repr ''t4'' ''w'' edit_a (JInt 1) demo_db = Inr u"
      "workspace_prepare no_repr ''t5'' ''w'' edit_b (JInt 1) demo_db = Inr v" "workspace_write ''w'' u demo_db = Inr db1"
    using demo_edits unfolding both_edits_def ok_result_def by (auto simp: bindE_def split: sum.splits)
  from concurrent_updates_overwrite [OF demo_reachable e] e show ?thesis by blast
qed

section \<open>A copy with a blank name\<close>

lemma blank_profile_raises: "strip (pf_name p) = [] \<Longrightarrow> profile_from_row p = Inl Bad_Value"
  by (auto simp: profile_from_row_def profile_post_init_def validate_id_def bindE_def)

lemma map_E_raises:
  "x \<in> set xs \<Longrightarrow> f x = Inl e \<Longrightarrow> (\<And>y. y \<in> set xs \<Longrightarrow> f y = Inl e \<or> (\<exists>z. f y = Inr z)) \<Longrightarrow> map_E f xs = Inl e"
proof (induction xs)
  case (Cons y ys)
  from Cons.prems(3) [of y] consider "f y = Inl e" | z where "f y = Inr z" by auto
  then show ?case
  proof cases
    case 2
    with Cons.prems(1,2) have "x \<in> set ys" by auto
    with Cons 2 show ?thesis by simp
  qed simp
qed simp

lemma blank_copy_row:
  assumes "profile_duplicate repr now hex hex' pid (Some name) db = Inr (p, db')" "name \<noteq> []" "strip name = []"
  shows "wk_profiles db' = wk_profiles db @ [p] \<and> pf_status p = ''active'' \<and> profile_from_row p = Inl Bad_Value \<and>
    lookup_row pf_id (pf_id p) (wk_profiles db') = Some p"
proof -
  obtain q where q: "profile_create now hex' q db = Inr (p, db')" "pf_name q = name" "pf_status q = ''active''"
    using assms(1,2) by (auto simp: profile_duplicate_def)
  then have p: "pf_name p = name" "pf_status p = ''active''" by (auto simp: profile_create_def Let_def)
  obtain db1 where i: "insert_profile p db = Inr db1" "insert_profile_version hex' now p db1 = Inr db'"
    using q(1) by (auto simp: profile_create_def Let_def)
  from i(1) have "wk_profiles db1 = wk_profiles db @ [p]" "lookup_row pf_id (pf_id p) (wk_profiles db) = None"
    by (auto simp: insert_profile_def if_Inr lookup_row_None)
  then show ?thesis
    using insert_profile_version_frame [OF i(2)] p assms(3) blank_profile_raises by (simp add: lookup_row_append)
qed

text \<open>
  C38: A profile can be copied under a name that is only blanks, because duplicate sets the
  name after the constructor has checked the old one. The row cannot be read again: the
  request for the copy, its update and its deletion all end in an exception, and the list
  of all active profiles, of the sound ones too, answers with an error.
\<close>

theorem blank_copy_breaks_list:
  assumes "work_reachable repr db" "length (wk_profiles db) < 200"
    and "profile_duplicate repr now hex hex' pid (Some name) db = Inr (p, db')" "name \<noteq> []" "strip name = []"
  shows "agents_get (pf_id p) db' = Crashed Bad_Value \<and>
    agents_update repr t hex'' (pf_id p) body db' = (Crashed Bad_Value, db') \<and>
    agents_delete t hex'' (pf_id p) body db' = (Crashed Bad_Value, db') \<and>
    agents_list ''active'' [] 200 0 db' = Refused 500 ''AGENT_PROFILE_DATA_INVALID''"
proof -
  have ok: "work_ok db" using assms(1) by (rule work_reachable_ok)
  note r = blank_copy_row [OF assms(3-5)]
  have get: "profile_get (pf_id p) False db' = Inl Bad_Value"
    unfolding profile_get_def r [THEN conjunct2, THEN conjunct2, THEN conjunct2] using r by simp
  let ?rows = "page_of 200 0 (order_by_desc pf_updated_at (filter (\<lambda>p. pf_status p = ''active'') (wk_profiles db')))"
  have "length (filter (\<lambda>p. pf_status p = ''active'') (wk_profiles db')) \<le> 200"
    by (rule order_trans [OF length_filter_le]) (use r assms(2) in simp)
  then have rows: "set ?rows = set (filter (\<lambda>p. pf_status p = ''active'') (wk_profiles db'))"
    by (simp add: page_of_def)
  have others: "profile_from_row q = Inl Bad_Value \<or> (\<exists>z. profile_from_row q = Inr z)" if "q \<in> set ?rows" for q
    using that r work_okD(2) [OF ok] unfolding rows by (auto simp: table_def)
  have "p \<in> set ?rows" unfolding rows using r by simp
  then have "map_E profile_from_row ?rows = Inl Bad_Value"
    by (rule map_E_raises [OF _ _ others]) (use r in \<open>simp_all only:\<close>)
  then have "profile_list ''active'' [] 200 0 db' = Inl Bad_Value" by (simp add: profile_list_def like_any_def)
  then show ?thesis
    using get by (simp add: agents_get_def agents_update_def agents_delete_def agents_list_def profile_delete_def
        answer_def handled_def)
qed

theorem blank_copy_breaks_list_witness:
  "\<exists>p db'. profile_duplicate no_repr ''t9'' ''3'' ''4'' ''c'' (Some '' '') demo_db = Inr (p, db') \<and>
    agents_list ''active'' [] 200 0 db' = Refused 500 ''AGENT_PROFILE_DATA_INVALID''"
proof -
  obtain p db' where d: "profile_duplicate no_repr ''t9'' ''3'' ''4'' ''c'' (Some '' '') demo_db = Inr (p, db')"
    using demo_copies by (auto elim!: ok_resultE)
  have "strip '' '' = []" "length (wk_profiles demo_db) < 200" by code_simp+
  with blank_copy_breaks_list [OF demo_reachable _ d] d show ?thesis by blast
qed

section \<open>The status of a built-in profile\<close>

lemma from_dict_status:
  assumes "profile_from_dict repr d = Inr p" "text_field repr d ''status'' ''active'' = ''deleted''"
  shows "pf_status p = ''deleted''"
proof -
  from assms obtain q where "profile_post_init q = Inr p" "pf_status q = ''deleted''"
    unfolding profile_from_dict_def bindE_eq_Inr by auto
  then show ?thesis by (auto simp: profile_post_init_def validate_enum_def if_Inr)
qed


lemma demo_status_update:
  "(case agents_update no_repr ''t9'' ''3'' ''c'' [(''status'', JStr ''deleted'')] demo_db of (Reply _ _, _) \<Rightarrow> True | _ \<Rightarrow> False)"
  by code_simp

lemma demo_built_in: "profile_get ''c'' False demo_db = Inr (hd (wk_profiles demo_db))" "pf_is_system (hd (wk_profiles demo_db))"
  by code_simp+


section \<open>Switching the profile of a session\<close>

text \<open>
  A request to switch the agent profile of a session never succeeds and changes nothing;
  for an idle session whose other settings are not touched it ends in a TypeError, because
  the handler passes the profile on under a keyword that the store does not have.
\<close>

theorem switch_agent_crashes:
  assumes "dget body ''agent_profile_id'' \<noteq> JNull"
  shows "(\<exists>r. sessions_switch repr now wid sid body db entries agents = (r, db, entries, agents) \<and> (\<forall>st j. r \<noteq> Reply st j)) \<and>
    (get_owned wid sid db = Inr n \<and> \<not> wn_is_busy n \<longrightarrow>
      sessions_switch repr now wid sid [(''agent_profile_id'', JStr pid)] db entries agents =
        (Crashed Bad_Type, db, entries, agents))"
proof (rule conjI [OF _ impI])
  have p: "switched repr body ''agent_profile_id'' \<noteq> None"
    using assms by (auto simp: switched_def optional_text_def split: json.splits)
  have h: "handled {NoWorkspaceSession} e \<noteq> Reply st j" for e st j
    by (simp add: handled_def split: work_error.splits)
  show "\<exists>r. sessions_switch repr now wid sid body db entries agents = (r, db, entries, agents) \<and> (\<forall>st j. r \<noteq> Reply st j)"
    using p h by (simp add: sessions_switch_def Let_def split: sum.splits)
  assume "get_owned wid sid db = Inr n \<and> \<not> wn_is_busy n"
  then show "sessions_switch repr now wid sid [(''agent_profile_id'', JStr pid)] db entries agents =
      (Crashed Bad_Type, db, entries, agents)"
    by (simp add: sessions_switch_def Let_def switched_def optional_text_def dget_def not_among_def)
qed

theorem switch_agent_crashes_witness:
  "sessions_switch no_repr ''t9'' ''w'' ''wss_1'' [(''agent_profile_id'', JStr ''c'')] demo_db [] [] =
    (Crashed Bad_Type, demo_db, [], [])"
proof -
  have s: "get_owned ''w'' ''wss_1'' demo_db = Inr (demo_session ''wss_1'' ''t2'') \<and>
      \<not> wn_is_busy (demo_session ''wss_1'' ''t2'')" by code_simp
  have d: "dget [(''agent_profile_id'', JStr ''c'')] ''agent_profile_id'' \<noteq> JNull" by (simp add: dget_def)
  from switch_agent_crashes [OF d, THEN conjunct2] s show ?thesis by blast
qed

end
