(* ===== verification/Spec2Isabelle.thy ===== *)
theory Spec2Isabelle
  imports Store_Read Sql_Like Request_Props Plan_Props Goal_Props Task_Props Exec_Props Event_Props Policy_Props Read_Props Work_Snapshots Work_Api_Props
begin

text \<open>
  Learn-agent is a gateway for chat agents: channels and a web page send messages, a dispatcher
  hands them to agents, and a SQLite database keeps what must survive a restart. This library
  models the durable core: the conversations with their turns and message queues
  (\<open>src/gateway/conversation\<close>), plans of dependent steps (\<open>src/core/plan\<close>), goals that run
  round after round (\<open>src/core/goal\<close>), the task runtime that executes the work of all of
  them (\<open>src/core/runtime\<close>), the event streams of the web page, the permissions of tool calls,
  and the workspaces with their agent profiles and sessions. Every operation that changes state is a function from the state
  to \<open>error + result \<times> state\<close>; a Python exception is \<open>Inl\<close>, and the transaction around the
  operation then leaves the state as it was.

  \<^bold>\<open>Shared theories.\<close> \<open>Prelude\<close>: the error monad, tables as lists of rows with SQL-like
  update, delete, count and lookup, primary keys. \<open>Py_Json\<close>: JSON values, dictionaries,
  truthiness, \<open>strip\<close>. \<open>Contracts\<close>: the interfaces \<open>optimistic_lock\<close>, \<open>guarded_machine\<close> and
  \<open>lifecycle\<close>, interpreted by the queue items, the plans and the goals.

  \<^bold>\<open>Conversations.\<close> \<open>Conv_Models\<close> holds the enumerations, rows and ids of \<open>models.py\<close> and the
  errors of \<open>errors.py\<close>; \<open>Conv_Db\<close> the nine tables; \<open>Store_Turns\<close>, \<open>Store_Queue\<close> and
  \<open>Store_Read\<close> the statements of \<open>store.py\<close> (\<open>ConversationStore\<close>); \<open>Service_Core\<close>,
  \<open>Service_Turns\<close>, \<open>Service_Queue\<close> and \<open>Service_Maint\<close> the operations of \<open>service.py\<close>
  (\<open>ConversationService\<close>); \<open>Outbox_Publisher\<close> one flush of \<open>outbox.py\<close>; \<open>Sql_Like\<close> the
  LIKE patterns with their escapes. \<open>Store_Inv\<close>, \<open>Service_Inv\<close>, \<open>Service_Sound\<close>, \<open>Sound_Queue\<close>
  and \<open>Sound_Start\<close> show that every operation keeps the database invariant and what it does
  to the turns; \<open>Conv_System\<close> is the step relation over all operations, \<open>Conv_Reach\<close> the
  invariant of its reachable states. The properties are in this theory, \<open>Queue_Props\<close> and
  \<open>Request_Props\<close>; \<open>Demo_Run\<close> is the run their examples use. An
  operation that reads before its transaction (\<open>send_next\<close>, \<open>request_stop\<close>) is split there, so
  other requests may run in between.

  \<^bold>\<open>Plans.\<close> \<open>Plan_Models\<close> (statuses, constructors, cycle check), \<open>Plan_Dag\<close> (the check accepts
  exactly the acyclic plans), \<open>Plan_Json\<close> (dictionaries), \<open>Plan_Manager\<close> and \<open>Plan_Ops\<close> (the
  tables and the operations of \<open>PlanManager\<close>), \<open>Plan_Inv\<close>, \<open>Plan_Sound\<close> and \<open>Plan_Machine\<close> (the
  invariant of a plan and of the tables), \<open>Plan_Run\<close> (sequences of requests), \<open>Plan_Archive\<close>
  (the archiving loop), \<open>Plan_Props\<close>. \<open>Plan_Exec\<close> is the loop of \<open>PlanExecutor\<close>
  (\<open>core/plan/runtime.py\<close>) with its watchdog, \<open>Plan_Live\<close> the measure by which it ends;
  \<open>Plan_Refine\<close> states an abstract scheduler and shows that every request of the plan manager
  is one of its steps; \<open>Exec_Props\<close>.

  \<^bold>\<open>Goals.\<close> \<open>Goal_Models\<close>, \<open>Goal_Runtime\<close> (every operation of \<open>GoalRuntime\<close>; \<open>complete_async\<close> is
  two steps around the awaited quality gate), \<open>Goal_Inv\<close>, \<open>Goal_Machine\<close>, \<open>Goal_Props\<close>.

  \<^bold>\<open>Tasks.\<close> \<open>Task_Models\<close> and \<open>Task_Store\<close> (records, transitions, and the statements of
  \<open>sqlite_store.py\<close> for tasks, leases and deliveries), \<open>Task_Inv\<close>, \<open>Task_Recover\<close> (each recovery
  loop as one update of the table), \<open>Task_Runtime\<close> (what a worker of \<open>TaskRuntime\<close> does with a
  task), \<open>Task_Cluster\<close> (several instances as a step relation), \<open>Task_Safe\<close> (its invariant),
  \<open>Task_Props\<close>.

  \<^bold>\<open>Web events.\<close> \<open>Event_Bus\<close> is the bus and the event streams of \<open>gateway/webui/events.py\<close> as
  steps of publishing threads, the event loop and the streams in any order; \<open>Event_Inv\<close> says what
  is on its way to a stream, \<open>Event_Props\<close> that a stream gets every event once.

  \<^bold>\<open>Permissions.\<close> \<open>Py_Regex\<close> holds the part of \<open>re\<close> and \<open>shlex\<close> that the guards use; \<open>Shell_Guard\<close>
  the content checks of \<open>core/sandbox/guard.py\<close> with their patterns; \<open>Policy\<close> the four permission
  modes of \<open>core/policy_engine.py\<close> and the gate of \<open>core/security_gate.py\<close> in front of them;
  \<open>Policy_Props\<close> their properties. \<open>Read_Props\<close> is about reading plans and goals from their rows.

  \<^bold>\<open>Workspaces.\<close> \<open>Work_Models\<close> holds the records of \<open>gateway/webui/workspace_models.py\<close> with
  their constructors and dictionaries; \<open>Work_Store\<close> the operations of the four stores of
  \<open>workspace_store.py\<close>, where an update is its check and its write, because another request can
  come between; \<open>Work_Runtime\<close> the effective configuration and the snapshots of
  \<open>workspace_runtime.py\<close>; \<open>Work_Api\<close> the handlers of \<open>api_agents.py\<close> and those of
  \<open>api_workspace.py\<close> that are about sessions. \<open>Work_Inv\<close> and \<open>Work_Reach\<close> give the invariant of
  the tables, \<open>Work_Safe\<close> what commands leave alone (busy flag, deleted workspaces, built-in
  profiles), \<open>Work_Frozen\<close> what the key of a snapshot determines; \<open>Work_Props\<close>,
  \<open>Work_Snapshots\<close> and \<open>Work_Api_Props\<close> the properties. The digest is a parameter, taken to be
  injective where a snapshot is found by its key; the text of a prompt and resolving a path
  are parameters too.

  \<^bold>\<open>Conventions.\<close> Times are milliseconds and strings are lists of characters; a random id is the
  next element of a stream of pairwise different tokens. Python sets whose order does not
  show are lists. JSON texts are the values they encode, except for plans and goals, whose
  rows hold the dictionaries and which every operation reads back. Loops are structural or
  have a measure; the archiving loop and the loop of the executor are \<open>partial_function\<close>s with
  proofs that they return, so no fuel is used anywhere.

  \<^bold>\<open>Not modelled.\<close> The dispatcher, the agents and their tools, the language model clients, the
  sandbox, the channels and the other handlers of the web interface, configuration, memory and
  skills: network, processes, files and the text of prompts, whose behaviour lies outside the program. Of the
  modelled modules: asyncio's scheduling (queues, locks, futures; interleaving is a step
  relation instead), the quarantine of sessions whose task timed out, teams and artifacts,
  migrations, backups and connections; the templates of the built-in profiles, the validation
  of paths against the file system and the wording of messages.
\<close>

section \<open>Properties of all reachable states\<close>









end
